(* ===== verification/Prelude.thy ===== *)
theory Prelude
  imports Main "HOL-Library.Char_ord" "HOL-Library.List_Lexorder"
begin

text \<open>
  Shared vocabulary of the development: the exceptions the Python code raises, results and
  state-passing computations that may raise, the parts of Python's \<open>str\<close> and \<open>dict\<close> the code
  uses, and generic lemmas on lists and options.

  Strings are lists of characters with code points below 256; \<open>py_isspace\<close> and \<open>py_lower\<close>
  agree with \<open>str.isspace\<close> and \<open>str.lower\<close> on that range. Comparison of strings with \<open><\<close> is
  lexicographic by code point, as in Python.
\<close>

named_theorems py_defs \<open>definitions of the computation combinators\<close>
named_theorems text_simps \<open>equations about the string operations\<close>

section \<open>Exceptions, results and computations\<close>

datatype py_error =
    ValueError string
  | KeyError string
  | TypeError string
  | RuntimeError string
  | IndexError string
  | AttributeError string
  | AgentValidationError string
  | CompletionValidationError string
  | LayoutParseError string
  | OverflowError string
  | DispatchError string
  | DispatchRejectedError string

text \<open>The two validation errors and \<open>LayoutParseError\<close> are subclasses of \<open>ValueError\<close>,
  \<open>DispatchRejectedError\<close> is one of \<open>DispatchError\<close> and that of \<open>RuntimeError\<close>.\<close>

type_synonym 'a result = "py_error + 'a"

definition rbind :: "'a result \<Rightarrow> ('a \<Rightarrow> 'b result) \<Rightarrow> 'b result" where
  "rbind r f = (case r of Inl e \<Rightarrow> Inl e | Inr x \<Rightarrow> f x)"

text \<open>\<open>if bad: raise e\<close>\<close>
definition rcheck :: "bool \<Rightarrow> py_error \<Rightarrow> unit result" where
  "rcheck bad e = (if bad then Inl e else Inr ())"

lemma rbind_simps [simp]:
  "rbind (Inl e) f = Inl e" "rbind (Inr x) f = f x"
  by (simp_all add: rbind_def)

lemma rbind_Inr_iff: "rbind r f = Inr y \<longleftrightarrow> (\<exists>x. r = Inr x \<and> f x = Inr y)"
  by (cases r) auto

lemma rbind_assoc: "rbind (rbind r f) g = rbind r (\<lambda>x. rbind (f x) g)"
  by (cases r) auto

lemma rcheck_simps [simp]:
  "rcheck True e = Inl e" "rcheck False e = Inr ()"
  "(rcheck b e = Inr u) \<longleftrightarrow> \<not> b"
  by (simp_all add: rcheck_def)

text \<open>A result for every element, or the first error.\<close>
fun rmap :: "('a \<Rightarrow> 'b result) \<Rightarrow> 'a list \<Rightarrow> 'b list result" where
  "rmap f [] = Inr []"
| "rmap f (x # xs) = rbind (f x) (\<lambda>y. rbind (rmap f xs) (\<lambda>ys. Inr (y # ys)))"

lemma rmap_Inr_map: "(\<And>x. x \<in> set xs \<Longrightarrow> f x = Inr (g x)) \<Longrightarrow> rmap f xs = Inr (map g xs)"
  by (induction xs) auto

lemma rmap_Inr_iff: "rmap f xs = Inr ys \<longleftrightarrow> list_all2 (\<lambda>x y. f x = Inr y) xs ys"
  by (induction xs arbitrary: ys) (auto simp: rbind_Inr_iff list_all2_Cons1)

text \<open>
  A stateful computation that may raise. A raise keeps the changes made before it, as in the
  source, where a file written before an exception stays written.
\<close>

type_synonym ('s, 'a) py = "'s \<Rightarrow> 'a result \<times> 's"

definition py_return :: "'a \<Rightarrow> ('s, 'a) py" where
  "py_return x = (\<lambda>s. (Inr x, s))"

definition py_lift :: "'a result \<Rightarrow> ('s, 'a) py" where
  "py_lift r = (\<lambda>s. (r, s))"

definition py_raise :: "py_error \<Rightarrow> ('s, 'a) py" where
  "py_raise e = (\<lambda>s. (Inl e, s))"

definition py_gets :: "('s \<Rightarrow> 'a) \<Rightarrow> ('s, 'a) py" where
  "py_gets f = (\<lambda>s. (Inr (f s), s))"

definition py_modify :: "('s \<Rightarrow> 's) \<Rightarrow> ('s, unit) py" where
  "py_modify f = (\<lambda>s. (Inr (), f s))"

definition py_bind :: "('s, 'a) py \<Rightarrow> ('a \<Rightarrow> ('s, 'b) py) \<Rightarrow> ('s, 'b) py" where
  "py_bind m f = (\<lambda>s. case m s of (Inl e, t) \<Rightarrow> (Inl e, t) | (Inr x, t) \<Rightarrow> f x t)"

definition py_then :: "('s, 'a) py \<Rightarrow> ('s, 'b) py \<Rightarrow> ('s, 'b) py" where
  "py_then m n = py_bind m (\<lambda>_. n)"

fun py_for :: "'a list \<Rightarrow> ('a \<Rightarrow> ('s, unit) py) \<Rightarrow> ('s, unit) py" where
  "py_for [] body = py_return ()"
| "py_for (x # xs) body = py_then (body x) (py_for xs body)"

lemma py_run_simps [simp, py_defs]:
  "py_return x s = (Inr x, s)" "py_lift r s = (r, s)" "py_raise e s = (Inl e, s)"
  "py_gets f s = (Inr (f s), s)" "py_modify g s = (Inr (), g s)"
  by (simp_all add: py_return_def py_lift_def py_raise_def py_gets_def py_modify_def)

lemma py_bind_Inr [simp]: "m s = (Inr x, t) \<Longrightarrow> py_bind m f s = f x t"
  by (simp add: py_bind_def)

lemma py_bind_bool [simp]:
  "m s = (Inr True, t) \<Longrightarrow> py_bind m f s = f True t" "m s = (Inr False, t) \<Longrightarrow> py_bind m f s = f False t"
  by simp_all

lemma py_bind_Inl [simp]: "m s = (Inl e, t) \<Longrightarrow> py_bind m f s = (Inl e, t)"
  by (simp add: py_bind_def)

lemma py_then_Inr [simp]: "m s = (Inr x, t) \<Longrightarrow> py_then m n s = n t"
  by (simp add: py_then_def)

lemma py_then_Inl [simp]: "m s = (Inl e, t) \<Longrightarrow> py_then m n s = (Inl e, t)"
  by (simp add: py_then_def)

lemma py_bind_Inr_iff:
  "py_bind m f s = (Inr y, u) \<longleftrightarrow> (\<exists>x t. m s = (Inr x, t) \<and> f x t = (Inr y, u))"
  by (auto simp: py_bind_def split: prod.splits sum.splits)

lemma py_then_Inr_iff:
  "py_then m n s = (Inr y, u) \<longleftrightarrow> (\<exists>x t. m s = (Inr x, t) \<and> n t = (Inr y, u))"
  by (simp add: py_then_def py_bind_Inr_iff)

lemma py_bind_assoc: "py_bind (py_bind m f) g = py_bind m (\<lambda>x. py_bind (f x) g)"
  by (auto simp: py_bind_def fun_eq_iff split: prod.splits sum.splits)

lemmas py_iffs = py_bind_Inr_iff py_then_Inr_iff

text \<open>The final state of a computation, whether it returned or raised.\<close>
definition py_exec :: "('s, 'a) py \<Rightarrow> 's \<Rightarrow> 's" where
  "py_exec m s = snd (m s)"

lemma py_exec_eq [simp]: "m s = (r, t) \<Longrightarrow> py_exec m s = t"
  by (simp add: py_exec_def)

section \<open>Python strings\<close>

definition py_isspace :: "char \<Rightarrow> bool" where
  "py_isspace c = (let n = (of_char c :: nat) in
     (9 \<le> n \<and> n \<le> 13) \<or> (28 \<le> n \<and> n \<le> 32) \<or> n = 133 \<or> n = 160)"

definition py_lstrip :: "string \<Rightarrow> string" where
  "py_lstrip s = dropWhile py_isspace s"

definition py_rstrip :: "string \<Rightarrow> string" where
  "py_rstrip s = rev (dropWhile py_isspace (rev s))"

definition py_strip :: "string \<Rightarrow> string" where
  "py_strip s = py_rstrip (py_lstrip s)"

definition py_lower_char :: "char \<Rightarrow> char" where
  "py_lower_char c = (let n = (of_char c :: nat) in
     if (65 \<le> n \<and> n \<le> 90) \<or> (192 \<le> n \<and> n \<le> 222 \<and> n \<noteq> 215) then char_of (n + 32) else c)"

definition py_lower :: "string \<Rightarrow> string" where
  "py_lower s = map py_lower_char s"

definition py_startswith :: "string \<Rightarrow> string \<Rightarrow> bool" where
  "py_startswith s p = (take (length p) s = p)"

text \<open>\<open>p in s\<close> for strings\<close>
fun py_contains :: "string \<Rightarrow> string \<Rightarrow> bool" where
  "py_contains p [] = (p = [])"
| "py_contains p (c # cs) = (py_startswith (c # cs) p \<or> py_contains p cs)"

text \<open>\<open>str(x or '')\<close> for \<open>x : str | None\<close>, and \<open>x or y\<close> for optional strings\<close>
definition str_or_empty :: "string option \<Rightarrow> string" where
  "str_or_empty x = (case x of None \<Rightarrow> [] | Some s \<Rightarrow> s)"

definition opt_str_or :: "string option \<Rightarrow> string \<Rightarrow> string" where
  "opt_str_or x d = (case x of None \<Rightarrow> d | Some s \<Rightarrow> if s = [] then d else s)"

text \<open>\<open>s or None\<close>\<close>
definition str_or_none :: "string \<Rightarrow> string option" where
  "str_or_none s = (if s = [] then None else Some s)"

text \<open>The truth value of an optional string\<close>
definition opt_truthy :: "string option \<Rightarrow> bool" where
  "opt_truthy x = (x \<noteq> None \<and> x \<noteq> Some [])"

lemma str_or_none_simps [simp]:
  "str_or_none [] = None" "str_or_none (c # cs) = Some (c # cs)"
  "str_or_none s = None \<longleftrightarrow> s = []" "str_or_none s = Some t \<longleftrightarrow> s = t \<and> t \<noteq> []"
  by (auto simp: str_or_none_def)

lemma opt_truthy_simps [simp]:
  "\<not> opt_truthy None" "opt_truthy (Some s) \<longleftrightarrow> s \<noteq> []"
  by (simp_all add: opt_truthy_def)

lemma opt_str_or_simps [simp]:
  "opt_str_or None d = d" "opt_str_or (Some []) d = d" "opt_str_or (Some (c # cs)) d = c # cs"
  by (simp_all add: opt_str_or_def)

lemma opt_str_or_ne: "d \<noteq> [] \<Longrightarrow> opt_str_or x d \<noteq> []"
  by (auto simp: opt_str_or_def split: option.splits)

lemma py_lower_length [simp]: "length (py_lower s) = length s"
  by (simp add: py_lower_def)

lemma py_lower_Nil [simp]: "py_lower s = [] \<longleftrightarrow> s = []"
  by (simp add: py_lower_def)

lemma py_isspace_lower: "py_isspace (py_lower_char c) = py_isspace c"
proof (cases "(65 \<le> (of_char c :: nat) \<and> (of_char c :: nat) \<le> 90) \<or>
    (192 \<le> (of_char c :: nat) \<and> (of_char c :: nat) \<le> 222 \<and> (of_char c :: nat) \<noteq> 215)")
  case True
  then have "of_char (py_lower_char c) = (of_char c :: nat) + 32"
    by (auto simp: py_lower_char_def Let_def)
  with True show ?thesis by (auto simp: py_isspace_def Let_def)
next
  case False
  then show ?thesis by (auto simp: py_lower_char_def Let_def)
qed

lemma py_lower_char_idem [simp]: "py_lower_char (py_lower_char c) = py_lower_char c"
proof (cases "(65 \<le> (of_char c :: nat) \<and> (of_char c :: nat) \<le> 90) \<or>
    (192 \<le> (of_char c :: nat) \<and> (of_char c :: nat) \<le> 222 \<and> (of_char c :: nat) \<noteq> 215)")
  case True
  then have "of_char (py_lower_char c) = (of_char c :: nat) + 32"
    by (auto simp: py_lower_char_def Let_def)
  with True show ?thesis by (auto simp: py_lower_char_def [of "py_lower_char c"] Let_def)
next
  case False
  then have "py_lower_char c = c" by (auto simp: py_lower_char_def Let_def)
  then show ?thesis by simp
qed

lemma py_lower_idem [simp]: "py_lower (py_lower s) = py_lower s"
  by (simp add: py_lower_def)

text \<open>A string without surrounding white space: what \<open>strip\<close> returns and leaves alone.\<close>
definition stripped :: "string \<Rightarrow> bool" where
  "stripped s = (s = [] \<or> (\<not> py_isspace (hd s) \<and> \<not> py_isspace (last s)))"

lemma dropWhile_hd: "dropWhile P xs \<noteq> [] \<Longrightarrow> \<not> P (hd (dropWhile P xs))"
  by (induction xs) auto

lemma stripped_py_strip: "stripped (py_strip s)"
proof -
  let ?l = "dropWhile py_isspace s"
  let ?r = "dropWhile py_isspace (rev ?l)"
  show ?thesis
  proof (cases "?r = []")
    case True
    then show ?thesis by (simp add: stripped_def py_strip_def py_rstrip_def py_lstrip_def)
  next
    case False
    then have last: "\<not> py_isspace (last (rev ?r))"
      by (simp add: last_rev dropWhile_hd)
    obtain pre where pre: "rev ?l = pre @ ?r"
      by (metis takeWhile_dropWhile_id)
    then have eq: "?l = rev ?r @ rev pre" by (metis rev_append rev_rev_ident)
    have "?l \<noteq> []"
    proof
      assume "?l = []"
      then have "?r = []" by (auto dest: set_dropWhileD)
      with False show False by contradiction
    qed
    with eq False have "hd (rev ?r) = hd ?l" by (metis hd_append2 rev_is_Nil_conv)
    with \<open>?l \<noteq> []\<close> have "\<not> py_isspace (hd (rev ?r))" using dropWhile_hd by metis
    with last False show ?thesis
      by (simp add: stripped_def py_strip_def py_rstrip_def py_lstrip_def)
  qed
qed

lemma py_strip_stripped [simp]: "stripped s \<Longrightarrow> py_strip s = s"
proof (cases "s = []")
  case False
  assume "stripped s"
  with False have h: "\<not> py_isspace (hd s)" and l: "\<not> py_isspace (last s)"
    by (auto simp: stripped_def)
  from False h have 1: "dropWhile py_isspace s = s" by (cases s) auto
  from False l have "dropWhile py_isspace (rev s) = rev s"
    by (metis dropWhile_eq_self_iff hd_rev)
  with 1 show ?thesis by (simp add: py_strip_def py_rstrip_def py_lstrip_def)
qed (simp add: py_strip_def py_rstrip_def py_lstrip_def)

lemma py_strip_Nil [simp]: "py_strip [] = []"
  by (simp add: py_strip_def py_rstrip_def py_lstrip_def)

lemma py_strip_idem [simp]: "py_strip (py_strip s) = py_strip s"
  by (simp add: stripped_py_strip)

lemma stripped_lower [simp]: "stripped (py_lower s) = stripped s"
  by (cases "s = []") (auto simp: stripped_def py_lower_def hd_map last_map py_isspace_lower)

lemma set_py_strip: "set (py_strip s) \<subseteq> set s"
  by (auto simp: py_strip_def py_rstrip_def py_lstrip_def dest!: set_dropWhileD)

section \<open>Text of values\<close>

definition digit_char :: "nat \<Rightarrow> char" where
  "digit_char d = char_of (48 + d)"

fun show_nat :: "nat \<Rightarrow> string" where
  "show_nat n = (if n < 10 then [digit_char n] else show_nat (n div 10) @ [digit_char (n mod 10)])"

declare show_nat.simps [simp del]

definition show_int :: "int \<Rightarrow> string" where
  "show_int i = (if i < 0 then ''-'' @ show_nat (nat (- i)) else show_nat (nat i))"

fun join :: "string \<Rightarrow> string list \<Rightarrow> string" where
  "join sep [] = []"
| "join sep [x] = x"
| "join sep (x # y # ys) = x @ sep @ join sep (y # ys)"

definition hex_digit :: "nat \<Rightarrow> char" where
  "hex_digit d = (if d < 10 then char_of (48 + d) else char_of (87 + d))"

text \<open>\<open>repr\<close> of a string, on code points below 256\<close>
definition repr_char :: "char \<Rightarrow> char \<Rightarrow> string" where
  "repr_char q c = (let n = (of_char c :: nat) in
     if n = 92 then [c, c]
     else if c = q then [char_of (92 :: nat), c]
     else if n = 10 then [char_of (92 :: nat), CHR ''n'']
     else if n = 13 then [char_of (92 :: nat), CHR ''r'']
     else if n = 9 then [char_of (92 :: nat), CHR ''t'']
     else if n < 32 \<or> (127 \<le> n \<and> n \<le> 160) \<or> n = 173
     then [char_of (92 :: nat), CHR ''x'', hex_digit (n div 16), hex_digit (n mod 16)]
     else [c])"

definition repr_str :: "string \<Rightarrow> string" where
  "repr_str s = (let q = (if char_of (39 :: nat) \<in> set s \<and> char_of (34 :: nat) \<notin> set s
                          then char_of (34 :: nat) else char_of (39 :: nat))
                 in [q] @ concat (map (repr_char q) s) @ [q])"

section \<open>Lists, options and dictionaries\<close>

text \<open>
  A dictionary as an association list in insertion order with distinct keys, so that the order
  Python iterates in is part of the model.
\<close>

type_synonym 'v dict = "(string \<times> 'v) list"

definition dict_keys :: "'v dict \<Rightarrow> string list" where
  "dict_keys d = map fst d"

fun dict_set :: "string \<Rightarrow> 'v \<Rightarrow> 'v dict \<Rightarrow> 'v dict" where
  "dict_set k v [] = [(k, v)]"
| "dict_set k v ((k', v') # d) = (if k = k' then (k, v) # d else (k', v') # dict_set k v d)"

definition dict_pop :: "string \<Rightarrow> 'v dict \<Rightarrow> 'v dict" where
  "dict_pop k d = filter (\<lambda>(k', _). k' \<noteq> k) d"

lemma map_of_dict_set [simp]: "map_of (dict_set k v d) = (map_of d)(k \<mapsto> v)"
  by (induction d) auto

lemma fst_dict_set: "fst ` set (dict_set k v d) = insert k (fst ` set d)"
  by (induction k v d rule: dict_set.induct) auto

lemma distinct_dict_set: "distinct (map fst d) \<Longrightarrow> distinct (map fst (dict_set k v d))"
  by (induction k v d rule: dict_set.induct) (auto simp: fst_dict_set)

lemma map_of_dict_pop: "map_of (dict_pop k d) = (map_of d)(k := None)"
  by (induction d) (auto simp: dict_pop_def)

text \<open>The last element with a property: what a scan from the end of a log returns.\<close>

definition find_last_in :: "('a \<Rightarrow> bool) \<Rightarrow> 'a list \<Rightarrow> 'a option" where
  "find_last_in P xs = find P (rev xs)"

lemma find_append: "find P (xs @ ys) = (case find P xs of None \<Rightarrow> find P ys | Some x \<Rightarrow> Some x)"
  by (induction xs) auto

lemma find_last_in_Nil [simp]: "find_last_in P [] = None"
  by (simp add: find_last_in_def)

lemma find_last_in_snoc [simp]:
  "find_last_in P (xs @ [x]) = (if P x then Some x else find_last_in P xs)"
  by (simp add: find_last_in_def)

lemma find_last_in_append:
  "find_last_in P (xs @ ys) =
     (case find_last_in P ys of None \<Rightarrow> find_last_in P xs | Some y \<Rightarrow> Some y)"
  by (simp add: find_last_in_def find_append split: option.splits)

lemma find_last_in_Some: "find_last_in P xs = Some x \<Longrightarrow> P x \<and> x \<in> set xs"
  by (auto simp: find_last_in_def find_Some_iff) (metis in_set_conv_nth length_rev set_rev)

lemma find_last_in_None: "find_last_in P xs = None \<longleftrightarrow> (\<forall>x \<in> set xs. \<not> P x)"
  by (auto simp: find_last_in_def find_None_iff)

text \<open>
  The newest row per key, in the order in which the keys first appear: what a loop that fills a
  \<open>dict\<close> from a log keeps.
\<close>

definition latest_dict :: "('a \<Rightarrow> string) \<Rightarrow> 'a list \<Rightarrow> 'a dict" where
  "latest_dict key rows = fold (\<lambda>r. dict_set (key r) r) rows []"

definition latest_by :: "('a \<Rightarrow> string) \<Rightarrow> 'a list \<Rightarrow> 'a list" where
  "latest_by key rows = map snd (latest_dict key rows)"

lemma latest_dict_snoc [simp]: "latest_dict key (rows @ [r]) = dict_set (key r) r (latest_dict key rows)"
  by (simp add: latest_dict_def)

lemma latest_by_Nil [simp]: "latest_by key [] = []"
  by (simp add: latest_by_def latest_dict_def)

lemma in_dict_set: "(k, r) \<in> set (dict_set k' v d) \<Longrightarrow> (k, r) \<in> set d \<or> (k = k' \<and> r = v)"
  by (induction k' v d rule: dict_set.induct) (auto split: if_splits)

lemma latest_dict_fst: "(k, r) \<in> set (latest_dict key rows) \<Longrightarrow> k = key r"
  by (induction rows rule: rev_induct) (auto simp: latest_dict_def dest: in_dict_set)

lemma latest_dict_keys: "map fst (latest_dict key rows) = map key (latest_by key rows)"
  by (auto simp: latest_by_def dest: latest_dict_fst)

lemma dict_set_values:
  "\<forall>kv \<in> set d. fst kv = key (snd kv) \<Longrightarrow> k = key r \<Longrightarrow> distinct (map fst d) \<Longrightarrow>
   map snd (dict_set k r d) =
     (if k \<in> key ` snd ` set d then map (\<lambda>x. if key x = k then r else x) (map snd d)
      else map snd d @ [r])"
proof (induction k r d rule: dict_set.induct)
  case (2 k r k' v d)
  show ?case
  proof (cases "k = k'")
    case True
    with 2 have "\<forall>kv \<in> set d. key (snd kv) \<noteq> k" by force
    then have "map (\<lambda>x. if key x = k then r else x) (map snd d) = map snd d"
      by (auto intro: map_idI)
    with True 2 show ?thesis by auto
  next
    case False
    with 2 show ?thesis by auto
  qed
qed simp

lemma distinct_latest_dict: "distinct (map fst (latest_dict key rows))"
  by (induction rows rule: rev_induct) (simp_all add: latest_dict_def distinct_dict_set)

lemma distinct_latest_by: "distinct (map key (latest_by key rows))"
  using distinct_latest_dict [of key rows] by (simp add: latest_dict_keys)

lemma latest_by_snoc:
  "latest_by key (rows @ [r]) =
     (if key r \<in> key ` set (latest_by key rows)
      then map (\<lambda>x. if key x = key r then r else x) (latest_by key rows)
      else latest_by key rows @ [r])"
  unfolding latest_by_def latest_dict_snoc
  by (subst dict_set_values [where key = key])
    (auto simp: distinct_latest_dict image_image dest: latest_dict_fst)

lemma map_key_replace: "map key (map (\<lambda>x. if key x = key r then r else x) xs) = map key xs"
  by simp

lemma key_image_replace: "key ` set (map (\<lambda>x. if key x = key r then r else x) xs) = key ` set xs"
  using map_key_replace [of key r xs] by (metis list.set_map)

lemma key_latest_by: "key ` set (latest_by key rows) = key ` set rows"
proof (induction rows rule: rev_induct)
  case (snoc r rows)
  then show ?case
    by (auto simp: latest_by_snoc key_image_replace simp del: set_map list.set_map)
qed simp

lemma set_latest_by: "set (latest_by key rows) \<subseteq> set rows"
  by (induction rows rule: rev_induct) (auto simp: latest_by_snoc split: if_splits)

lemma find_map_replace:
  "find (\<lambda>x. key x = k) (map (\<lambda>x. if key x = key r then r else x) xs) =
     (if k = key r then (if k \<in> key ` set xs then Some r else None) else find (\<lambda>x. key x = k) xs)"
  by (induction xs) auto

lemma find_latest_by: "find (\<lambda>x. key x = k) (latest_by key rows) = find_last_in (\<lambda>x. key x = k) rows"
proof (induction rows rule: rev_induct)
  case (snoc r rows)
  let ?xs = "latest_by key rows"
  show ?case
  proof (cases "key r \<in> key ` set ?xs")
    case True
    then have "find (\<lambda>x. key x = k) (latest_by key (rows @ [r])) =
        (if k = key r then Some r else find (\<lambda>x. key x = k) ?xs)"
      unfolding latest_by_snoc if_P [OF True] find_map_replace by simp
    with snoc show ?thesis by simp
  next
    case False
    then have "find (\<lambda>x. key x = key r) ?xs = None"
      unfolding find_None_iff image_iff by metis
    with False snoc show ?thesis
      by (auto simp: latest_by_snoc find_append split: option.splits)
  qed
qed simp

lemma find_distinct_key:
  "distinct (map key xs) \<Longrightarrow> find (\<lambda>x. key x = k) xs = Some x \<longleftrightarrow> x \<in> set xs \<and> key x = k"
  by (induction xs) auto

lemma latest_by_Some_iff:
  "find_last_in (\<lambda>x. key x = k) rows = Some x \<longleftrightarrow> x \<in> set (latest_by key rows) \<and> key x = k"
  using find_distinct_key [OF distinct_latest_by [of key rows], of k x] by (simp add: find_latest_by)

lemma filter_map_replace:
  assumes "P r"
    and "\<forall>x \<in> set xs. key x = key r \<longrightarrow> P x"
  shows "filter P (map (\<lambda>x. if key x = key r then r else x) xs) =
     map (\<lambda>x. if key x = key r then r else x) (filter P xs)"
  using assms by (induction xs) auto

lemma filter_map_remove:
  assumes "\<not> P r"
  shows "filter P (map (\<lambda>x. if key x = key r then r else x) xs) =
     filter (\<lambda>x. key x \<noteq> key r) (filter P xs)"
  using assms by (induction xs) auto

end
