(* ===== verification/Json_Values.thy ===== *)
theory Json_Values
  imports Complex_Main Prelude
begin

text \<open>
  The values the stores read and write (\<open>json.loads\<close> / \<open>json.dumps\<close>) and the Python conversions
  the record codecs apply to them: truth value, \<open>str\<close>, \<open>int\<close>, \<open>dict.get\<close> and indexing.
  A float carries its exact value and the text Python prints for it.

  A field that the code passes through unconverted (\<open>record.get('attempt_id')\<close>) has the type
  \<open>str | None\<close>; \<open>opt_string\<close> reads it and answers with a \<open>TypeError\<close> where the file holds
  another kind of value, which the source would carry along untyped.
\<close>

named_theorems json_simps \<open>equations for reading fields of a JSON object\<close>

datatype json =
    JNull
  | JBool bool
  | JInt int
  | JFloat rat string
  | JStr string
  | JList "json list"
  | JObj "(string \<times> json) list"

type_synonym payload = "json dict"

section \<open>Text of values\<close>

fun py_repr :: "json \<Rightarrow> string" where
  "py_repr JNull = ''None''"
| "py_repr (JBool b) = (if b then ''True'' else ''False'')"
| "py_repr (JInt i) = show_int i"
| "py_repr (JFloat v t) = t"
| "py_repr (JStr s) = repr_str s"
| "py_repr (JList xs) = ''['' @ join '', '' (map py_repr xs) @ '']''"
| "py_repr (JObj kvs) = ''{'' @ join '', '' (map (\<lambda>kv. repr_str (fst kv) @ '': '' @ py_repr (snd kv)) kvs) @ ''}''"

fun py_str :: "json \<Rightarrow> string" where
  "py_str (JStr s) = s"
| "py_str v = py_repr v"

section \<open>Conversions\<close>

fun py_truthy :: "json \<Rightarrow> bool" where
  "py_truthy JNull = False"
| "py_truthy (JBool b) = b"
| "py_truthy (JInt i) = (i \<noteq> 0)"
| "py_truthy (JFloat v t) = (v \<noteq> 0)"
| "py_truthy (JStr s) = (s \<noteq> [])"
| "py_truthy (JList xs) = (xs \<noteq> [])"
| "py_truthy (JObj kvs) = (kvs \<noteq> [])"

definition is_digit :: "char \<Rightarrow> bool" where
  "is_digit c = (let n = (of_char c :: nat) in 48 \<le> n \<and> n \<le> 57)"

definition digit_val :: "char \<Rightarrow> nat" where
  "digit_val c = of_char c - 48"

fun read_nat :: "nat \<Rightarrow> string \<Rightarrow> nat option" where
  "read_nat acc [] = Some acc"
| "read_nat acc (c # cs) = (if is_digit c then read_nat (10 * acc + digit_val c) cs else None)"

text \<open>Digits with single underscores between them, as \<open>int\<close> accepts\<close>
fun drop_underscores :: "string \<Rightarrow> string option" where
  "drop_underscores [] = None"
| "drop_underscores [c] = (if is_digit c then Some [c] else None)"
| "drop_underscores (c # d # cs) =
     (if \<not> is_digit c then None
      else if d = CHR ''_'' then map_option ((#) c) (drop_underscores cs)
      else map_option ((#) c) (drop_underscores (d # cs)))"

definition int_of_text :: "string \<Rightarrow> int option" where
  "int_of_text s = (let t = py_strip s;
       (neg, body) = (case t of
            c # cs \<Rightarrow> (if c = CHR ''-'' then (True, cs) else if c = CHR ''+'' then (False, cs) else (False, t))
          | [] \<Rightarrow> (False, t))
     in case Option.bind (drop_underscores body) (read_nat 0) of
          None \<Rightarrow> None
        | Some n \<Rightarrow> Some (if neg then - int n else int n))"

definition rat_trunc :: "rat \<Rightarrow> int" where
  "rat_trunc r = (if r < 0 then \<lceil>r\<rceil> else \<lfloor>r\<rfloor>)"

fun py_int :: "json \<Rightarrow> int result" where
  "py_int (JInt i) = Inr i"
| "py_int (JBool b) = Inr (if b then 1 else 0)"
| "py_int (JFloat v t) = Inr (rat_trunc v)"
| "py_int (JStr s) = (case int_of_text s of None \<Rightarrow> Inl (ValueError ''invalid literal for int()'') | Some i \<Rightarrow> Inr i)"
| "py_int v = Inl (TypeError ''int() argument must be a string or a number'')"

section \<open>Reading fields\<close>

text \<open>\<open>record[k]\<close>\<close>
definition jfield :: "payload \<Rightarrow> string \<Rightarrow> json result" where
  "jfield d k = (case map_of d k of None \<Rightarrow> Inl (KeyError k) | Some v \<Rightarrow> Inr v)"

text \<open>\<open>record.get(k)\<close> and \<open>record.get(k, default)\<close>\<close>
definition jget :: "payload \<Rightarrow> string \<Rightarrow> json" where
  "jget d k = (case map_of d k of None \<Rightarrow> JNull | Some v \<Rightarrow> v)"

definition jget_default :: "payload \<Rightarrow> string \<Rightarrow> json \<Rightarrow> json" where
  "jget_default d k v0 = (case map_of d k of None \<Rightarrow> v0 | Some v \<Rightarrow> v)"

text \<open>\<open>str(record.get(k) or default)\<close>\<close>
definition str_or :: "json \<Rightarrow> string \<Rightarrow> string" where
  "str_or v d = (if py_truthy v then py_str v else d)"

fun opt_string :: "json \<Rightarrow> string option result" where
  "opt_string JNull = Inr None"
| "opt_string (JStr s) = Inr (Some s)"
| "opt_string _ = Inl (TypeError ''str or None expected'')"

fun opt_integer :: "json \<Rightarrow> int option result" where
  "opt_integer JNull = Inr None"
| "opt_integer (JInt i) = Inr (Some i)"
| "opt_integer _ = Inl (TypeError ''int or None expected'')"

definition jopt :: "string option \<Rightarrow> json" where
  "jopt x = (case x of None \<Rightarrow> JNull | Some s \<Rightarrow> JStr s)"

definition jopt_int :: "int option \<Rightarrow> json" where
  "jopt_int x = (case x of None \<Rightarrow> JNull | Some i \<Rightarrow> JInt i)"

text \<open>\<open>dict(record.get(k) or {})\<close>\<close>
definition dict_or_empty :: "json \<Rightarrow> payload result" where
  "dict_or_empty v = (case v of JObj kvs \<Rightarrow> Inr kvs
     | _ \<Rightarrow> if py_truthy v then Inl (TypeError ''not a mapping'') else Inr [])"

lemma opt_string_jopt [simp]: "opt_string (jopt x) = Inr x"
  by (cases x) (simp_all add: jopt_def)

lemma opt_integer_jopt [simp]: "opt_integer (jopt_int x) = Inr x"
  by (cases x) (simp_all add: jopt_int_def)

lemma dict_or_empty_JObj [simp]: "dict_or_empty (JObj kvs) = Inr kvs"
  by (simp add: dict_or_empty_def)

lemma str_or_JStr [simp]: "str_or (JStr s) d = (if s = [] then d else s)"
  by (simp add: str_or_def)

lemma str_or_JNull [simp]: "str_or JNull d = d"
  by (simp add: str_or_def)

lemma jget_simps [simp]:
  "jget [] k = JNull"
  "jget ((k', v) # d) k = (if k = k' then v else jget d k)"
  by (simp_all add: jget_def)

lemma jget_default_simps [simp]:
  "jget_default [] k v0 = v0"
  "jget_default ((k', v) # d) k v0 = (if k = k' then v else jget_default d k v0)"
  by (simp_all add: jget_default_def)

lemma jfield_simps [simp]:
  "jfield [] k = Inl (KeyError k)"
  "jfield ((k', v) # d) k = (if k = k' then Inr v else jfield d k)"
  by (simp_all add: jfield_def)

text \<open>
  \<open>first_non_empty\<close> (completion/models\_runtime/utils.py): the first of the given fields that is
  a string with a character that is not white space, stripped.
\<close>

definition non_blank_text :: "json \<Rightarrow> string option" where
  "non_blank_text v = (case v of JStr s \<Rightarrow> str_or_none (py_strip s) | _ \<Rightarrow> None)"

fun first_non_empty :: "payload \<Rightarrow> string list \<Rightarrow> string option" where
  "first_non_empty d [] = None"
| "first_non_empty d (k # ks) =
     (case non_blank_text (jget d k) of None \<Rightarrow> first_non_empty d ks | Some t \<Rightarrow> Some t)"

lemma first_non_empty_Some:
  "first_non_empty d ks = Some t \<Longrightarrow> t \<noteq> [] \<and> stripped t"
  by (induction d ks rule: first_non_empty.induct)
    (auto simp: non_blank_text_def stripped_py_strip split: option.splits json.splits)

end
