(* ===== verification/Codecs.thy ===== *)
theory Codecs
  imports Json_Values
begin

text \<open>
  The two interfaces behind every stored record. \<open>enum_codec\<close> is a string-valued \<open>Enum\<close>:
  its members, their \<open>value\<close> and the call \<open>Enum(value)\<close>. \<open>record_codec\<close> is a dataclass with
  \<open>to_record\<close> and \<open>from_record\<close>: decoding what was encoded gives the record back, and every
  decoded record passed the checks of \<open>__post_init__\<close>.
\<close>

named_theorems codec_simps \<open>round trips of the interpreted codecs\<close>

definition enum_of_value :: "string \<Rightarrow> 'e list \<Rightarrow> ('e \<Rightarrow> string) \<Rightarrow> string \<Rightarrow> 'e result" where
  "enum_of_value cls members evalue v =
     (case find (\<lambda>x. evalue x = v) members of
        None \<Rightarrow> Inl (ValueError (repr_str v @ '' is not a valid '' @ cls))
      | Some x \<Rightarrow> Inr x)"

locale enum_codec =
  fixes members :: "'e list"
    and evalue :: "'e \<Rightarrow> string"
  assumes complete: "x \<in> set members"
    and value_inj: "evalue x = evalue y \<Longrightarrow> x = y"
begin

lemma of_value_value: "enum_of_value cls members evalue (evalue x) = Inr x"
proof (cases "find (\<lambda>y. evalue y = evalue x) members")
  case None
  then show ?thesis using complete [of x] by (auto simp: find_None_iff)
next
  case (Some y)
  then have "evalue y = evalue x" by (auto simp: find_Some_iff)
  with Some show ?thesis using value_inj by (auto simp: enum_of_value_def)
qed

lemma of_value_Inr: "enum_of_value cls members evalue v = Inr x \<longleftrightarrow> v = evalue x"
proof
  assume "enum_of_value cls members evalue v = Inr x"
  then show "v = evalue x"
    by (auto simp: enum_of_value_def find_Some_iff split: option.splits)
qed (simp add: of_value_value)

lemma value_eq: "evalue x = evalue y \<longleftrightarrow> x = y"
  using value_inj by auto

end

text \<open>\<open>record.get('schema_version') != n\<close>: an integer, a float or a boolean may equal \<open>n\<close>.\<close>
fun json_eq_int :: "json \<Rightarrow> int \<Rightarrow> bool" where
  "json_eq_int (JInt i) n = (i = n)"
| "json_eq_int (JBool b) n = ((if b then 1 else 0) = n)"
| "json_eq_int (JFloat v t) n = (v = of_int n)"
| "json_eq_int _ n = False"

text \<open>The \<open>_validate_record\<close> of the codec modules, with their schema version\<close>
definition validate_record :: "int \<Rightarrow> payload \<Rightarrow> string \<Rightarrow> unit result" where
  "validate_record version record expected_type =
     rbind (rcheck (\<not> json_eq_int (jget record ''schema_version'') version)
              (ValueError (''schema_version must be '' @ show_int version))) (\<lambda>_.
       rcheck (jget record ''record_type'' \<noteq> JStr expected_type)
         (ValueError (''record_type must be '' @ repr_str expected_type)))"

lemma validate_record_head [simp]:
  "validate_record n ((''schema_version'', JInt n) # (''record_type'', JStr t) # d) t = Inr ()"
  by (simp add: validate_record_def)

locale record_codec =
  fixes to_record :: "'r \<Rightarrow> payload"
    and from_record :: "payload \<Rightarrow> 'r result"
    and valid :: "'r \<Rightarrow> bool"
  assumes decode_encode: "valid r \<Longrightarrow> from_record (to_record r) = Inr r"
    and decode_valid: "from_record p = Inr r \<Longrightarrow> valid r"
begin

lemma encode_inj: "valid r \<Longrightarrow> valid r' \<Longrightarrow> to_record r = to_record r' \<Longrightarrow> r = r'"
  using decode_encode by (metis Inr_inject)

text \<open>Decoding is idempotent up to one encode: a record read and written back reads the same.\<close>
lemma decode_stable: "from_record p = Inr r \<Longrightarrow> from_record (to_record r) = Inr r"
  using decode_valid decode_encode by blast

text \<open>A log written row by row reads back as the list of its records.\<close>
lemma rows_roundtrip: "list_all valid rs \<Longrightarrow> rmap from_record (map to_record rs) = Inr rs"
  by (induction rs) (auto simp: decode_encode)

end

end
