(* ===== verification/Agent_Names.thy ===== *)
theory Agent_Names
  imports Prelude
begin

text \<open>
  Agent, actor and mailbox-owner names: \<open>lib/agents/models_runtime/names.py\<close> and
  \<open>lib/mailbox_runtime/targets.py\<close>. Every store of the mailbox kernel and of the message bureau
  is keyed by a name these functions return, so their idempotence is what makes two spellings
  of an agent share one mailbox.
\<close>

definition RESERVED_AGENT_NAMES :: "string list" where
  "RESERVED_AGENT_NAMES =
     [''all'', ''from'', ''user'', ''system'', ''ask'', ''cancel'', ''clear'', ''pend'', ''ping'',
      ''watch'', ''kill'', ''ps'', ''logs'', ''doctor'', ''config'', ''cmd'', ''version'',
      ''update'', ''help'']"

definition ascii_letter :: "char \<Rightarrow> bool" where
  "ascii_letter c = (let n = (of_char c :: nat) in (65 \<le> n \<and> n \<le> 90) \<or> (97 \<le> n \<and> n \<le> 122))"

definition agent_name_char :: "char \<Rightarrow> bool" where
  "agent_name_char c = (let n = (of_char c :: nat) in
     ascii_letter c \<or> (48 \<le> n \<and> n \<le> 57) \<or> n = 95 \<or> n = 45)"

text \<open>\<open>^[a-zA-Z][a-zA-Z0-9_-]{0,31}$\<close>, matched against the whole string\<close>
definition AGENT_NAME_PATTERN :: "string \<Rightarrow> bool" where
  "AGENT_NAME_PATTERN s = (case s of [] \<Rightarrow> False
     | c # cs \<Rightarrow> ascii_letter c \<and> list_all agent_name_char cs \<and> length cs \<le> 31)"

definition normalize_agent_name :: "string \<Rightarrow> string result" where
  "normalize_agent_name name =
     (let value = py_strip name in
      if value = [] then Inl (AgentValidationError ''agent name cannot be empty'')
      else if \<not> AGENT_NAME_PATTERN value
      then Inl (AgentValidationError ''agent name must match ^[a-zA-Z][a-zA-Z0-9_-]{0,31}$'')
      else let normalized = py_lower value in
        if normalized \<in> set RESERVED_AGENT_NAMES
        then Inl (AgentValidationError (''agent name '' @ repr_str normalized @ '' is reserved''))
        else Inr normalized)"

definition CMD_ACTOR :: string where
  "CMD_ACTOR = ''cmd''"

definition NON_MAILBOX_ACTORS :: "string list" where
  "NON_MAILBOX_ACTORS = [''user'', ''system'', ''manual'', ''email'']"

definition NON_AGENT_ACTORS :: "string list" where
  "NON_AGENT_ACTORS = CMD_ACTOR # NON_MAILBOX_ACTORS"

definition normalize_actor_name :: "string option \<Rightarrow> string result" where
  "normalize_actor_name actor =
     (let normalized = py_lower (py_strip (str_or_empty actor)) in
      if normalized = [] then Inl (AgentValidationError ''actor cannot be empty'')
      else if normalized = CMD_ACTOR \<or> normalized \<in> set NON_MAILBOX_ACTORS then Inr normalized
      else normalize_agent_name normalized)"

definition normalize_mailbox_owner_name :: "string option \<Rightarrow> string result" where
  "normalize_mailbox_owner_name actor =
     rbind (normalize_actor_name actor) (\<lambda>normalized.
       if normalized \<in> set NON_AGENT_ACTORS
       then Inl (AgentValidationError (''actor '' @ repr_str normalized @ '' does not own a mailbox''))
       else Inr normalized)"

text \<open>\<open>config.agents\<close> is given by its keys, in order.\<close>
definition known_mailbox_targets :: "string list \<Rightarrow> string list result" where
  "known_mailbox_targets agents = rmap normalize_agent_name agents"

definition normalize_mailbox_target :: "string option \<Rightarrow> string list \<Rightarrow> string option" where
  "normalize_mailbox_target actor known_targets =
     (let normalized = py_lower (py_strip (str_or_empty actor)) in
      if normalized = [] then None
      else case normalize_mailbox_owner_name (Some normalized) of
          Inl e \<Rightarrow> None
        | Inr mailbox_name \<Rightarrow> if mailbox_name \<in> set known_targets then Some mailbox_name else None)"

section \<open>Normal names\<close>

text \<open>What the normalisation promises: the names it returns, and only those, are its fixed points.\<close>

definition agent_name_ok :: "string \<Rightarrow> bool" where
  "agent_name_ok n \<longleftrightarrow> AGENT_NAME_PATTERN n \<and> py_lower n = n \<and> n \<notin> set RESERVED_AGENT_NAMES"

definition owner_name_ok :: "string \<Rightarrow> bool" where
  "owner_name_ok n \<longleftrightarrow> agent_name_ok n \<and> n \<notin> set NON_AGENT_ACTORS"

lemma agent_name_char_not_space: "agent_name_char c \<Longrightarrow> \<not> py_isspace c"
  by (auto simp: agent_name_char_def ascii_letter_def py_isspace_def Let_def)

lemma ascii_letter_name_char: "ascii_letter c \<Longrightarrow> agent_name_char c"
  by (simp add: agent_name_char_def)

lemma pattern_all_chars: "AGENT_NAME_PATTERN s \<Longrightarrow> s \<noteq> [] \<and> list_all agent_name_char s"
  by (auto simp: AGENT_NAME_PATTERN_def ascii_letter_name_char split: list.splits)

lemma pattern_stripped: "AGENT_NAME_PATTERN s \<Longrightarrow> stripped s"
  using pattern_all_chars [of s]
  by (auto simp: stripped_def list_all_iff dest!: agent_name_char_not_space)

lemma name_char_lower:
  "agent_name_char c \<Longrightarrow> agent_name_char (py_lower_char c)"
  "ascii_letter c \<Longrightarrow> ascii_letter (py_lower_char c)"
  by (auto simp: agent_name_char_def ascii_letter_def py_lower_char_def Let_def)

lemma pattern_lower: "AGENT_NAME_PATTERN s \<Longrightarrow> AGENT_NAME_PATTERN (py_lower s)"
  by (auto simp: AGENT_NAME_PATTERN_def py_lower_def list_all_iff name_char_lower
      split: list.splits)

lemma normalize_agent_name_ok: "normalize_agent_name name = Inr n \<Longrightarrow> agent_name_ok n"
  by (auto simp: normalize_agent_name_def agent_name_ok_def Let_def pattern_lower
      split: if_splits)

lemma normalize_agent_name_fixed [simp]: "agent_name_ok n \<Longrightarrow> normalize_agent_name n = Inr n"
  by (auto simp: normalize_agent_name_def agent_name_ok_def Let_def pattern_stripped
      dest: pattern_all_chars)

lemma normalize_agent_name_iff: "normalize_agent_name n = Inr n \<longleftrightarrow> agent_name_ok n"
  using normalize_agent_name_ok normalize_agent_name_fixed by blast

lemma agent_name_ok_length: "agent_name_ok n \<Longrightarrow> 0 < length n \<and> length n \<le> 32"
  by (auto simp: agent_name_ok_def AGENT_NAME_PATTERN_def split: list.splits)

lemma normalize_owner_ok: "normalize_mailbox_owner_name a = Inr n \<Longrightarrow> owner_name_ok n"
  by (auto simp: normalize_mailbox_owner_name_def normalize_actor_name_def rbind_Inr_iff Let_def
      owner_name_ok_def NON_AGENT_ACTORS_def dest: normalize_agent_name_ok split: if_splits)

lemma normalize_owner_fixed [simp]:
  assumes "owner_name_ok n"
  shows "normalize_mailbox_owner_name (Some n) = Inr n"
proof -
  from assms have ok: "agent_name_ok n" and ns: "n \<notin> set NON_AGENT_ACTORS"
    by (auto simp: owner_name_ok_def)
  from ok have "stripped n" "n \<noteq> []" "py_lower n = n"
    by (auto simp: agent_name_ok_def pattern_stripped dest: pattern_all_chars)
  with ok ns have "normalize_actor_name (Some n) = Inr n"
    by (auto simp: normalize_actor_name_def str_or_empty_def NON_AGENT_ACTORS_def Let_def)
  with ns show ?thesis by (simp add: normalize_mailbox_owner_name_def)
qed

lemma owner_name_okD: "owner_name_ok n \<Longrightarrow> agent_name_ok n"
  by (simp add: owner_name_ok_def)

lemma owner_name_ok_not_Nil: "owner_name_ok n \<Longrightarrow> n \<noteq> []"
  using agent_name_ok_length owner_name_okD by fastforce

lemma normalize_target_ok:
  "normalize_mailbox_target a known = Some n \<Longrightarrow> owner_name_ok n \<and> n \<in> set known"
  by (auto simp: normalize_mailbox_target_def Let_def dest: normalize_owner_ok
      split: if_splits sum.splits)

section \<open>Properties of names\<close>

text \<open>
  C24. A mailbox owner name is a normal form. Whatever text an actor is given as, normalising it
  either raises or returns a lower-case name of 1 to 32 characters that matches the agent name
  pattern, is neither reserved nor one of the actors without a mailbox, and normalises to itself,
  so every store builds the same path from it again.
\<close>
theorem owner_name_normal_form:
  assumes "normalize_mailbox_owner_name actor = Inr n"
  shows "AGENT_NAME_PATTERN n \<and> py_lower n = n \<and> 1 \<le> length n \<and> length n \<le> 32 \<and>
    n \<notin> set RESERVED_AGENT_NAMES \<and> n \<notin> set NON_AGENT_ACTORS \<and>
    normalize_mailbox_owner_name (Some n) = Inr n \<and> normalize_agent_name n = Inr n"
proof -
  have "owner_name_ok n" using assms by (rule normalize_owner_ok)
  then show ?thesis
    using agent_name_ok_length [of n] by (auto simp: owner_name_ok_def agent_name_ok_def Suc_le_eq)
qed

theorem owner_name_normal_form_witness:
  "normalize_mailbox_owner_name (Some ''  Agent-One '') = Inr ''agent-one'' \<and>
   normalize_mailbox_owner_name (Some ''agent-one'') = Inr ''agent-one''"
proof -
  have n: "normalize_mailbox_owner_name (Some ''  Agent-One '') = Inr ''agent-one''" by code_simp
  with owner_name_normal_form [OF n] show ?thesis by simp
qed

text \<open>
  C25. Two agent names own no mailbox. The agent name rules accept \<open>manual\<close> and \<open>email\<close>, which are
  missing from the reserved names, but the mailbox rules treat both as actors without a mailbox:
  an agent configured under such a name is never a mailbox target, whatever agents are known.
\<close>
theorem manual_and_email_own_no_mailbox:
  "normalize_agent_name ''manual'' = Inr ''manual'' \<and> normalize_agent_name ''email'' = Inr ''email'' \<and>
   known_mailbox_targets [''manual'', ''email''] = Inr [''manual'', ''email''] \<and>
   normalize_mailbox_target (Some ''manual'') known = None \<and>
   normalize_mailbox_target (Some ''email'') known = None"
proof -
  have e: "normalize_mailbox_owner_name (Some x) = Inl (AgentValidationError (''actor '' @ repr_str x @ '' does not own a mailbox''))"
    if "x \<in> {''manual'', ''email''}" for x
    using that by (elim insertE emptyE; simp only:) code_simp+
  have s: "py_lower (py_strip (str_or_empty (Some x))) = x" if "x \<in> {''manual'', ''email''}" for x
    using that by (elim insertE emptyE; simp only:) code_simp+
  have "normalize_mailbox_target (Some x) known = None" if "x \<in> {''manual'', ''email''}" for x
    using that e [OF that] s [OF that] by (auto simp: normalize_mailbox_target_def Let_def)
  moreover have "normalize_agent_name ''manual'' = Inr ''manual''" "normalize_agent_name ''email'' = Inr ''email''"
    "known_mailbox_targets [''manual'', ''email''] = Inr [''manual'', ''email'']" by code_simp+
  ultimately show ?thesis by blast
qed

end
