(* ===== verification/Sha256.thy ===== *)
theory Sha256
  imports Json_Values "HOL-Library.Word"
begin

text \<open>
  SHA-256 (FIPS 180-4), which \<open>fingerprint_text\<close> takes from Python's \<open>hashlib\<close>, on 32-bit words,
  and the UTF-8 encoding of the characters below 256.
\<close>

unbundle bit_operations_syntax

type_synonym w32 = "32 word"

definition rotr :: "nat \<Rightarrow> w32 \<Rightarrow> w32" where
  "rotr n x = drop_bit n x OR push_bit (32 - n) x"

definition ch :: "w32 \<Rightarrow> w32 \<Rightarrow> w32 \<Rightarrow> w32" where
  "ch x y z = (x AND y) XOR ((NOT x) AND z)"

definition maj :: "w32 \<Rightarrow> w32 \<Rightarrow> w32 \<Rightarrow> w32" where
  "maj x y z = (x AND y) XOR (x AND z) XOR (y AND z)"

definition big_sigma0 :: "w32 \<Rightarrow> w32" where
  "big_sigma0 x = rotr 2 x XOR rotr 13 x XOR rotr 22 x"

definition big_sigma1 :: "w32 \<Rightarrow> w32" where
  "big_sigma1 x = rotr 6 x XOR rotr 11 x XOR rotr 25 x"

definition small_sigma0 :: "w32 \<Rightarrow> w32" where
  "small_sigma0 x = rotr 7 x XOR rotr 18 x XOR drop_bit 3 x"

definition small_sigma1 :: "w32 \<Rightarrow> w32" where
  "small_sigma1 x = rotr 17 x XOR rotr 19 x XOR drop_bit 10 x"

text \<open>
  The constants of the standard by its definition of them: the leading 32 bits of the fractional parts
  of the cube roots of the first 64 primes, and of the square roots of the first eight.
\<close>

text \<open>The largest \<open>r\<close> with \<open>r ^ k \<le> n\<close>, found bit by bit below \<open>acc + 2 ^ b\<close>\<close>
fun root_bits :: "nat \<Rightarrow> int \<Rightarrow> nat \<Rightarrow> int \<Rightarrow> int" where
  "root_bits k n 0 acc = acc"
| "root_bits k n (Suc b) acc = (let r = acc + 2 ^ b in root_bits k n b (if r ^ k \<le> n then r else acc))"

definition root_fraction :: "nat \<Rightarrow> int \<Rightarrow> w32" where
  "root_fraction k p = of_int (root_bits k (p * 2 ^ (32 * k)) 37 0 mod 2 ^ 32)"

definition primes_below :: "int \<Rightarrow> int list" where
  "primes_below b = filter (\<lambda>n. list_all (\<lambda>d. n mod d \<noteq> 0) (takeWhile (\<lambda>d. d * d \<le> n) [2..b])) [2..b - 1]"

definition round_constants :: "w32 list" where
  "round_constants = map (root_fraction 3) (primes_below 312)"

definition initial_hash :: "w32 list" where
  "initial_hash = map (root_fraction 2) (primes_below 20)"

definition utf8 :: "string \<Rightarrow> int list" where
  "utf8 s = concat (map (\<lambda>c. let n = of_char c in
     if n < 128 then [n] else [192 + n div 64, 128 + n mod 64]) s)"

definition pad :: "int list \<Rightarrow> int list" where
  "pad m = (let l = int (length m) in
     m @ [128] @ replicate (nat ((119 - l) mod 64)) 0 @ map (\<lambda>i. (8 * l) div 256 ^ i mod 256) (rev [0..<8]))"

fun words_of :: "int list \<Rightarrow> w32 list" where
  "words_of (a # b # c # d # xs) = of_int (((a * 256 + b) * 256 + c) * 256 + d) # words_of xs"
| "words_of _ = []"

text \<open>The message schedule, newest word first\<close>
fun extend :: "nat \<Rightarrow> w32 list \<Rightarrow> w32 list" where
  "extend 0 w = w"
| "extend (Suc n) w = extend n ((small_sigma1 (w ! 1) + w ! 6 + small_sigma0 (w ! 14) + w ! 15) # w)"

fun sha_round :: "w32 list \<Rightarrow> w32 \<times> w32 \<Rightarrow> w32 list" where
  "sha_round [a, b, c, d, e, f, g, h] (k, w) =
     (let t1 = h + big_sigma1 e + ch e f g + k + w; t2 = big_sigma0 a + maj a b c
      in [t1 + t2, a, b, c, d + t1, e, f, g])"
| "sha_round s _ = s"

definition compress :: "w32 list \<Rightarrow> w32 list \<Rightarrow> w32 list" where
  "compress h block =
     map2 (+) h (foldl sha_round h (zip round_constants (rev (extend 48 (rev block)))))"

fun blocks :: "nat \<Rightarrow> w32 list \<Rightarrow> w32 list list" where
  "blocks 0 w = []"
| "blocks (Suc n) w = take 16 w # blocks n (drop 16 w)"

definition hex8 :: "w32 \<Rightarrow> string" where
  "hex8 w = map (\<lambda>i. hex_digit (nat (uint w div 16 ^ i mod 16))) (rev [0..<8])"

definition sha256_hex :: "int list \<Rightarrow> string" where
  "sha256_hex m = (let w = words_of (pad m)
     in concat (map hex8 (foldl compress initial_hash (blocks (length w div 16) w))))"

text \<open>\<open>fingerprint_text\<close>: the parts' texts, each followed by the unit separator\<close>
definition fingerprint_text :: "json list \<Rightarrow> string" where
  "fingerprint_text parts = sha256_hex (concat (map (\<lambda>p. utf8 (py_str p) @ [31]) parts))"

lemma length_map2_round: "length (sha_round s kw) = length s"
  by (induction s kw rule: sha_round.induct) (simp_all add: Let_def)

lemma length_foldl_round: "length (foldl sha_round s kws) = length s"
  by (induction kws arbitrary: s) (simp_all add: length_map2_round)

lemma length_compress: "length (compress h b) = length h"
  by (simp add: compress_def length_foldl_round)

lemma length_foldl_compress: "length (foldl compress h bs) = length h"
  by (induction bs arbitrary: h) (simp_all add: length_compress)

text \<open>A fingerprint always is 64 characters long, so it never is empty.\<close>
lemma length_hex: "length (concat (map hex8 ws)) = 8 * length ws"
  by (induction ws) (simp_all add: hex8_def)

lemma eight_initial_words: "length (primes_below 20) = 8"
  by code_simp

lemma length_fingerprint_text [simp]: "length (fingerprint_text parts) = 64"
  by (simp add: fingerprint_text_def sha256_hex_def Let_def length_hex length_foldl_compress initial_hash_def
      eight_initial_words)

lemma fingerprint_text_not_Nil [simp]: "fingerprint_text parts \<noteq> []"
  using length_fingerprint_text [of parts] by (metis list.size(3) zero_neq_numeral)

end
