(* ===== verification/Timestamps.thy ===== *)
theory Timestamps
  imports Json_Values
begin

text \<open>
  Time stamps as the completion and heartbeat code reads them (\<open>parse_timestamp\<close> and
  \<open>seconds_between\<close> of \<open>lib/completion/models_runtime/utils.py\<close>). The text accepted is the one
  Python documents for \<open>datetime.fromisoformat\<close>,
  \<open>YYYY-MM-DD[*HH[:MM[:SS[.fff[fff]]]][+HH:MM[:SS[.ffffff]]]]\<close>, which every supported release
  reads alike. A date time is its local microseconds since year 1 and its offset from UTC, if any.

  \<open>total_seconds()\<close> is a float. The code only compares it with other floats; division is
  correctly rounded, hence monotone and exact on the thresholds, so that the comparisons agree
  with those of the exact rational used here.
\<close>

record datetime =
  dt_micros :: int
  dt_offset :: "int option"

section \<open>Calendar\<close>

definition is_leap :: "int \<Rightarrow> bool" where
  "is_leap y \<longleftrightarrow> y mod 4 = 0 \<and> (y mod 100 \<noteq> 0 \<or> y mod 400 = 0)"

definition days_before_year :: "int \<Rightarrow> int" where
  "days_before_year y = (let k = y - 1 in k * 365 + k div 4 - k div 100 + k div 400)"

definition days_in_month :: "int \<Rightarrow> int \<Rightarrow> int" where
  "days_in_month y m = (if m = 2 then (if is_leap y then 29 else 28)
     else if m \<in> {4, 6, 9, 11} then 30 else 31)"

definition days_before_month :: "int \<Rightarrow> int \<Rightarrow> int" where
  "days_before_month y m = sum_list (map (days_in_month y) [1..m - 1])"

definition ymd2ord :: "int \<Rightarrow> int \<Rightarrow> int \<Rightarrow> int" where
  "ymd2ord y m d = days_before_year y + days_before_month y m + d"

section \<open>Parsing\<close>

fun read_int :: "int \<Rightarrow> string \<Rightarrow> int option" where
  "read_int acc [] = Some acc"
| "read_int acc (c # cs) = (if is_digit c then read_int (10 * acc + (of_char c - 48)) cs else None)"

definition digits :: "string \<Rightarrow> int option" where
  "digits s = (if s = [] then None else read_int 0 s)"

text \<open>\<open>YYYY-MM-DD\<close> as a day number\<close>
definition parse_date :: "string \<Rightarrow> int option" where
  "parse_date s =
     (if length s = 10 \<and> s ! 4 = CHR ''-'' \<and> s ! 7 = CHR ''-'' then
        (case (digits (take 4 s), digits (take 2 (drop 5 s)), digits (drop 8 s)) of
           (Some y, Some m, Some d) \<Rightarrow>
             if 1 \<le> y \<and> 1 \<le> m \<and> m \<le> 12 \<and> 1 \<le> d \<and> d \<le> days_in_month y m
             then Some (ymd2ord y m d) else None
         | _ \<Rightarrow> None)
      else None)"

text \<open>A two digit field below its bound\<close>
definition field2 :: "int \<Rightarrow> string \<Rightarrow> int option" where
  "field2 bound s = (if length s = 2 then
     (case digits s of Some n \<Rightarrow> if n < bound then Some n else None | None \<Rightarrow> None) else None)"

definition parse_fraction :: "string \<Rightarrow> int option" where
  "parse_fraction s = (if length s = 6 then digits s
     else if length s = 3 then map_option ((*) 1000) (digits s) else None)"

text \<open>\<open>HH[:MM[:SS[.fff[fff]]]]\<close> in microseconds\<close>
definition parse_time :: "string \<Rightarrow> int option" where
  "parse_time s =
     (let hh = field2 24 (take 2 s); mm = field2 60 (take 2 (drop 3 s));
          ss = field2 60 (take 2 (drop 6 s));
          colon = (\<lambda>i. i < length s \<and> s ! i = CHR '':'') in
      if length s = 2 then map_option (\<lambda>h. h * 3600 * 1000000) hh
      else if length s = 5 \<and> colon 2 then
        (case (hh, mm) of (Some h, Some m) \<Rightarrow> Some ((h * 3600 + m * 60) * 1000000) | _ \<Rightarrow> None)
      else if colon 2 \<and> colon 5 then
        (case (hh, mm, ss) of
           (Some h, Some m, Some x) \<Rightarrow>
             let base = (h * 3600 + m * 60 + x) * 1000000 in
             if length s = 8 then Some base
             else if 8 < length s \<and> s ! 8 = CHR ''.''
             then map_option ((+) base) (parse_fraction (drop 9 s)) else None
         | _ \<Rightarrow> None)
      else None)"

text \<open>\<open>HH:MM[:SS[.ffffff]]\<close> with its sign\<close>
definition parse_offset :: "char \<Rightarrow> string \<Rightarrow> int option" where
  "parse_offset sc s = (if length s < 5 then None
     else map_option (\<lambda>n. if sc = CHR ''-'' then - n else n) (parse_time s))"

definition is_sign :: "char \<Rightarrow> bool" where
  "is_sign c \<longleftrightarrow> c = CHR ''+'' \<or> c = CHR ''-''"

definition fromisoformat :: "string \<Rightarrow> datetime result" where
  "fromisoformat s =
     (let err = Inl (ValueError (''Invalid isoformat string: '' @ repr_str s));
          clock = drop 11 s;
          time = takeWhile (\<lambda>c. \<not> is_sign c) clock;
          zone = dropWhile (\<lambda>c. \<not> is_sign c) clock in
      case parse_date (take 10 s) of
        None \<Rightarrow> err
      | Some day \<Rightarrow>
          let micros_at = (\<lambda>us. day * 86400000000 + us) in
          if length s = 10 then Inr \<lparr>dt_micros = micros_at 0, dt_offset = None\<rparr>
          else (case (parse_time time, zone) of
              (Some us, []) \<Rightarrow> Inr \<lparr>dt_micros = micros_at us, dt_offset = None\<rparr>
            | (Some us, sc # off) \<Rightarrow>
                (case parse_offset sc off of
                   None \<Rightarrow> err
                 | Some z \<Rightarrow> Inr \<lparr>dt_micros = micros_at us, dt_offset = Some z\<rparr>)
            | (None, _) \<Rightarrow> err))"

text \<open>\<open>value.replace('Z', '+00:00')\<close>\<close>
definition replace_z :: "string \<Rightarrow> string" where
  "replace_z s = concat (map (\<lambda>c. if c = CHR ''Z'' then ''+00:00'' else [c]) s)"

definition parse_timestamp :: "string \<Rightarrow> datetime result" where
  "parse_timestamp v = fromisoformat (replace_z v)"

text \<open>\<open>a - b\<close> for date times, in microseconds\<close>
definition datetime_diff :: "datetime \<Rightarrow> datetime \<Rightarrow> int result" where
  "datetime_diff a b = (case (dt_offset a, dt_offset b) of
       (None, None) \<Rightarrow> Inr (dt_micros a - dt_micros b)
     | (Some x, Some y) \<Rightarrow> Inr ((dt_micros a - x) - (dt_micros b - y))
     | _ \<Rightarrow> Inl (TypeError (''can'' @ [CHR 0x27] @ ''t subtract offset-naive and offset-aware datetimes'')))"

definition seconds_between :: "string \<Rightarrow> string \<Rightarrow> rat result" where
  "seconds_between start finish =
     rbind (parse_timestamp finish) (\<lambda>e.
     rbind (parse_timestamp start) (\<lambda>s.
     rbind (datetime_diff e s) (\<lambda>us. Inr (of_int us / 1000000))))"

section \<open>Elapsed time\<close>

lemma datetime_diff_add:
  "datetime_diff b a = Inr x \<Longrightarrow> datetime_diff c b = Inr y \<Longrightarrow> datetime_diff c a = Inr (x + y)"
  by (auto simp: datetime_diff_def split: option.splits)

lemma seconds_between_add:
  assumes "seconds_between a b = Inr x" "seconds_between b c = Inr y"
  shows "seconds_between a c = Inr (x + y)"
proof -
  obtain ta tb tc i j where "parse_timestamp a = Inr ta" "parse_timestamp b = Inr tb"
    "parse_timestamp c = Inr tc" "datetime_diff tb ta = Inr i" "datetime_diff tc tb = Inr j"
    and xy: "x = of_int i / 1000000" "y = of_int j / 1000000"
    using assms by (auto simp: seconds_between_def rbind_Inr_iff)
  then show ?thesis
    using datetime_diff_add [of tb ta i tc j] by (simp add: seconds_between_def add_divide_distrib)
qed

lemma seconds_between_self: "parse_timestamp a = Inr t \<Longrightarrow> seconds_between a a = Inr 0"
  by (simp add: seconds_between_def datetime_diff_def split: option.splits)

lemma seconds_between_sample:
  "seconds_between ''2026-02-28T23:59:58Z'' ''2026-03-01T00:00:00.500000+00:00'' = Inr (5 / 2)"
  by code_simp

end
