(* ===== verification/Completion_Models.thy ===== *)
theory Completion_Models
  imports Codecs Agent_Names Sha256 Timestamps
begin

text \<open>
  The vocabulary of completion tracking (\<open>lib/completion/models_runtime\<close>): enums, records with the
  checks of their constructors, the reply candidates an item offers, and the stored form of a
  snapshot (\<open>lib/completion/snapshot_store.py\<close>). Timeouts are floats in the source and exact
  rationals here.
\<close>

section \<open>Enums\<close>

definition COMPLETION_SCHEMA_VERSION :: int where
  "COMPLETION_SCHEMA_VERSION = 2"

datatype completion_status = CS_COMPLETED | CS_CANCELLED | CS_FAILED | CS_INCOMPLETE

fun completion_status_value :: "completion_status \<Rightarrow> string" where
  "completion_status_value CS_COMPLETED = ''completed''"
| "completion_status_value CS_CANCELLED = ''cancelled''"
| "completion_status_value CS_FAILED = ''failed''"
| "completion_status_value CS_INCOMPLETE = ''incomplete''"

definition completion_statuses :: "completion_status list" where
  "completion_statuses = [CS_COMPLETED, CS_CANCELLED, CS_FAILED, CS_INCOMPLETE]"

datatype completion_confidence = CC_EXACT | CC_OBSERVED | CC_DEGRADED

fun completion_confidence_value :: "completion_confidence \<Rightarrow> string" where
  "completion_confidence_value CC_EXACT = ''exact''"
| "completion_confidence_value CC_OBSERVED = ''observed''"
| "completion_confidence_value CC_DEGRADED = ''degraded''"

definition completion_confidences :: "completion_confidence list" where
  "completion_confidences = [CC_EXACT, CC_OBSERVED, CC_DEGRADED]"

datatype completion_family =
  PROTOCOL_TURN | STRUCTURED_RESULT | SESSION_BOUNDARY | ANCHORED_SESSION_STABILITY | TERMINAL_TEXT_QUIET

fun completion_family_value :: "completion_family \<Rightarrow> string" where
  "completion_family_value PROTOCOL_TURN = ''protocol_turn''"
| "completion_family_value STRUCTURED_RESULT = ''structured_result''"
| "completion_family_value SESSION_BOUNDARY = ''session_boundary''"
| "completion_family_value ANCHORED_SESSION_STABILITY = ''anchored_session_stability''"
| "completion_family_value TERMINAL_TEXT_QUIET = ''terminal_text_quiet''"

definition completion_families :: "completion_family list" where
  "completion_families = [PROTOCOL_TURN, STRUCTURED_RESULT, SESSION_BOUNDARY,
     ANCHORED_SESSION_STABILITY, TERMINAL_TEXT_QUIET]"

datatype completion_source_kind =
  SK_PROTOCOL_EVENT_STREAM | SK_STRUCTURED_RESULT_STREAM | SK_SESSION_EVENT_LOG |
  SK_SESSION_SNAPSHOT | SK_TERMINAL_TEXT

fun completion_source_kind_value :: "completion_source_kind \<Rightarrow> string" where
  "completion_source_kind_value SK_PROTOCOL_EVENT_STREAM = ''protocol_event_stream''"
| "completion_source_kind_value SK_STRUCTURED_RESULT_STREAM = ''structured_result_stream''"
| "completion_source_kind_value SK_SESSION_EVENT_LOG = ''session_event_log''"
| "completion_source_kind_value SK_SESSION_SNAPSHOT = ''session_snapshot''"
| "completion_source_kind_value SK_TERMINAL_TEXT = ''terminal_text''"

definition completion_source_kinds :: "completion_source_kind list" where
  "completion_source_kinds = [SK_PROTOCOL_EVENT_STREAM, SK_STRUCTURED_RESULT_STREAM,
     SK_SESSION_EVENT_LOG, SK_SESSION_SNAPSHOT, SK_TERMINAL_TEXT]"

datatype selector_family = SF_FINAL_MESSAGE | SF_STRUCTURED_RESULT | SF_SESSION_REPLY

datatype completion_item_kind =
  ANCHOR_SEEN | ASSISTANT_CHUNK | ASSISTANT_FINAL | TOOL_CALL | TOOL_RESULT | RESULT |
  TURN_BOUNDARY | TURN_ABORTED | CANCEL_INFO | ERROR | PANE_DEAD | SESSION_SNAPSHOT |
  SESSION_MUTATION | SESSION_ROTATE

datatype reply_candidate_kind =
  RC_LAST_AGENT_MESSAGE | RC_FINAL_ANSWER | RC_ASSISTANT_FINAL | RC_ASSISTANT_CHUNK_MERGED |
  RC_SESSION_REPLY | RC_FALLBACK_TEXT

fun REPLY_PRIORITY :: "reply_candidate_kind \<Rightarrow> int" where
  "REPLY_PRIORITY RC_LAST_AGENT_MESSAGE = 2"
| "REPLY_PRIORITY RC_FINAL_ANSWER = 3"
| "REPLY_PRIORITY RC_ASSISTANT_FINAL = 4"
| "REPLY_PRIORITY RC_ASSISTANT_CHUNK_MERGED = 5"
| "REPLY_PRIORITY RC_SESSION_REPLY = 6"
| "REPLY_PRIORITY RC_FALLBACK_TEXT = 7"

interpretation cstatus: enum_codec completion_statuses completion_status_value
proof
  show "x \<in> set completion_statuses" for x by (cases x) (simp_all add: completion_statuses_def)
  show "completion_status_value x = completion_status_value y \<Longrightarrow> x = y" for x y
    by (cases x; cases y) simp_all
qed

interpretation cconf: enum_codec completion_confidences completion_confidence_value
proof
  show "x \<in> set completion_confidences" for x by (cases x) (simp_all add: completion_confidences_def)
  show "completion_confidence_value x = completion_confidence_value y \<Longrightarrow> x = y" for x y
    by (cases x; cases y) simp_all
qed

interpretation cfamily: enum_codec completion_families completion_family_value
proof
  show "x \<in> set completion_families" for x by (cases x) (simp_all add: completion_families_def)
  show "completion_family_value x = completion_family_value y \<Longrightarrow> x = y" for x y
    by (cases x; cases y) simp_all
qed

interpretation ckind: enum_codec completion_source_kinds completion_source_kind_value
proof
  show "x \<in> set completion_source_kinds" for x by (cases x) (simp_all add: completion_source_kinds_def)
  show "completion_source_kind_value x = completion_source_kind_value y \<Longrightarrow> x = y" for x y
    by (cases x; cases y) simp_all
qed

lemmas completion_enum_roundtrips [codec_simps] =
  cstatus.of_value_value cconf.of_value_value cfamily.of_value_value ckind.of_value_value

section \<open>Records and their constructors\<close>

record completion_cursor =
  cu_source_kind :: completion_source_kind
  cu_opaque_cursor :: "string option"
  cu_session_path :: "string option"
  cu_offset :: "int option"
  cu_line_no :: "int option"
  cu_event_seq :: "int option"
  cu_updated_at :: "string option"

definition opt_negative :: "int option \<Rightarrow> bool" where
  "opt_negative x = (case x of None \<Rightarrow> False | Some i \<Rightarrow> i < 0)"

definition CompletionCursor :: "completion_cursor \<Rightarrow> completion_cursor result" where
  "CompletionCursor c =
     rbind (rcheck (opt_negative (cu_offset c)) (CompletionValidationError ''offset cannot be negative'')) (\<lambda>_.
     rbind (rcheck (opt_negative (cu_line_no c)) (CompletionValidationError ''line_no cannot be negative'')) (\<lambda>_.
     rbind (rcheck (opt_negative (cu_event_seq c)) (CompletionValidationError ''event_seq cannot be negative'')) (\<lambda>_.
     Inr c)))"

definition provider_name :: "string \<Rightarrow> string result" where
  "provider_name p = (let provider = py_lower (py_strip p) in
     rbind (rcheck (provider = []) (CompletionValidationError ''provider cannot be empty'')) (\<lambda>_. Inr provider))"

record completion_item =
  it_kind :: completion_item_kind
  it_timestamp :: string
  it_cursor :: completion_cursor
  it_provider :: string
  it_agent_name :: string
  it_req_id :: string
  it_payload :: payload

definition CompletionItem :: "completion_item \<Rightarrow> completion_item result" where
  "CompletionItem i =
     rbind (rcheck (it_timestamp i = []) (CompletionValidationError ''timestamp cannot be empty'')) (\<lambda>_.
     rbind (provider_name (it_provider i)) (\<lambda>provider.
     rbind (normalize_agent_name (it_agent_name i)) (\<lambda>agent_name.
     rbind (rcheck (py_strip (it_req_id i) = []) (CompletionValidationError ''req_id cannot be empty'')) (\<lambda>_.
     Inr (i\<lparr>it_provider := provider, it_agent_name := agent_name\<rparr>)))))"

record reply_candidate =
  rc_kind :: reply_candidate_kind
  rc_text :: string
  rc_timestamp :: string
  rc_provider_turn_ref :: "string option"
  rc_priority :: "int option"
  rc_cursor :: "completion_cursor option"

definition ReplyCandidate :: "reply_candidate \<Rightarrow> reply_candidate result" where
  "ReplyCandidate c = (let txt = py_strip (rc_text c) in
     rbind (rcheck (txt = []) (CompletionValidationError ''reply candidate text cannot be empty'')) (\<lambda>_.
     rbind (rcheck (rc_timestamp c = []) (CompletionValidationError ''reply candidate timestamp cannot be empty'')) (\<lambda>_.
     Inr (c\<lparr>rc_text := txt, rc_priority := (case rc_priority c of
         Some p \<Rightarrow> Some p | None \<Rightarrow> Some (REPLY_PRIORITY (rc_kind c)))\<rparr>))))"

record completion_state =
  st_anchor_seen :: bool
  st_reply_started :: bool
  st_reply_stable :: bool
  st_tool_active :: bool
  st_subagent_activity_seen :: bool
  st_last_reply_hash :: "string option"
  st_last_reply_at :: "string option"
  st_stable_since :: "string option"
  st_provider_turn_ref :: "string option"
  st_latest_cursor :: "completion_cursor option"
  st_terminal :: bool

definition CompletionState :: "completion_cursor option \<Rightarrow> completion_state" where
  "CompletionState latest_cursor = \<lparr>st_anchor_seen = False, st_reply_started = False,
     st_reply_stable = False, st_tool_active = False, st_subagent_activity_seen = False,
     st_last_reply_hash = None, st_last_reply_at = None, st_stable_since = None,
     st_provider_turn_ref = None, st_latest_cursor = latest_cursor, st_terminal = False\<rparr>"

record completion_decision =
  de_terminal :: bool
  de_status :: completion_status
  de_reason :: "string option"
  de_confidence :: "completion_confidence option"
  de_reply :: string
  de_anchor_seen :: bool
  de_reply_started :: bool
  de_reply_stable :: bool
  de_provider_turn_ref :: "string option"
  de_source_cursor :: "completion_cursor option"
  de_finished_at :: "string option"
  de_diagnostics :: payload

definition CompletionDecision :: "completion_decision \<Rightarrow> completion_decision result" where
  "CompletionDecision d =
     (if de_terminal d then
        rbind (rcheck (de_reason d = None) (CompletionValidationError ''terminal decisions require reason'')) (\<lambda>_.
        rbind (rcheck (de_confidence d = None) (CompletionValidationError ''terminal decisions require confidence'')) (\<lambda>_.
        rbind (rcheck (de_finished_at d = None) (CompletionValidationError ''terminal decisions require finished_at'')) (\<lambda>_.
        Inr d)))
      else
        rbind (rcheck (de_status d \<noteq> CS_INCOMPLETE)
          (CompletionValidationError ''non-terminal decisions must use status=incomplete'')) (\<lambda>_.
        rbind (rcheck (de_reason d \<noteq> None \<or> de_confidence d \<noteq> None \<or> de_finished_at d \<noteq> None)
          (CompletionValidationError ''non-terminal decisions cannot set reason/confidence/finished_at'')) (\<lambda>_.
        Inr d)))"

definition pending_decision :: "completion_cursor option \<Rightarrow> completion_decision result" where
  "pending_decision cursor = CompletionDecision \<lparr>de_terminal = False, de_status = CS_INCOMPLETE,
     de_reason = None, de_confidence = None, de_reply = '''', de_anchor_seen = False,
     de_reply_started = False, de_reply_stable = False, de_provider_turn_ref = None,
     de_source_cursor = cursor, de_finished_at = None, de_diagnostics = []\<rparr>"

definition with_reply :: "completion_decision \<Rightarrow> string \<Rightarrow> completion_decision result" where
  "with_reply d reply = CompletionDecision (d\<lparr>de_reply := (if reply = [] then de_reply d else reply)\<rparr>)"

record completion_snapshot =
  sn_job_id :: string
  sn_agent_name :: string
  sn_profile_family :: completion_family
  sn_state :: completion_state
  sn_latest_decision :: completion_decision
  sn_latest_reply_preview :: string
  sn_updated_at :: string

definition CompletionSnapshot :: "completion_snapshot \<Rightarrow> completion_snapshot result" where
  "CompletionSnapshot s =
     rbind (rcheck (py_strip (sn_job_id s) = []) (CompletionValidationError ''job_id cannot be empty'')) (\<lambda>_.
     rbind (normalize_agent_name (sn_agent_name s)) (\<lambda>agent_name.
     rbind (rcheck (sn_updated_at s = []) (CompletionValidationError ''updated_at cannot be empty'')) (\<lambda>_.
     Inr (s\<lparr>sn_agent_name := agent_name\<rparr>))))"

text \<open>What the constructors accept\<close>

definition valid_cursor :: "completion_cursor \<Rightarrow> bool" where
  "valid_cursor c \<longleftrightarrow> \<not> opt_negative (cu_offset c) \<and> \<not> opt_negative (cu_line_no c) \<and>
     \<not> opt_negative (cu_event_seq c)"

definition valid_decision :: "completion_decision \<Rightarrow> bool" where
  "valid_decision d \<longleftrightarrow>
     (if de_terminal d then de_reason d \<noteq> None \<and> de_confidence d \<noteq> None \<and> de_finished_at d \<noteq> None
      else de_status d = CS_INCOMPLETE \<and> de_reason d = None \<and> de_confidence d = None \<and>
        de_finished_at d = None)"

lemma CompletionCursor_Inr: "CompletionCursor c = Inr c' \<longleftrightarrow> c' = c \<and> valid_cursor c"
  by (auto simp: CompletionCursor_def valid_cursor_def rbind_Inr_iff)

lemma CompletionDecision_Inr: "CompletionDecision d = Inr d' \<longleftrightarrow> d' = d \<and> valid_decision d"
  by (auto simp: CompletionDecision_def valid_decision_def rbind_Inr_iff)

lemma CompletionDecision_valid [simp]: "valid_decision d \<Longrightarrow> CompletionDecision d = Inr d"
  by (simp add: CompletionDecision_Inr)

lemma CompletionCursor_valid [simp]: "valid_cursor c \<Longrightarrow> CompletionCursor c = Inr c"
  by (simp add: CompletionCursor_Inr)

section \<open>Reply candidates of an item\<close>

definition candidate_of ::
  "completion_item \<Rightarrow> reply_candidate_kind \<Rightarrow> string list \<Rightarrow> reply_candidate list result" where
  "candidate_of item k keys = (case first_non_empty (it_payload item) keys of
       None \<Rightarrow> Inr []
     | Some txt \<Rightarrow> rbind (ReplyCandidate \<lparr>rc_kind = k, rc_text = txt, rc_timestamp = it_timestamp item,
         rc_provider_turn_ref = first_non_empty (it_payload item)
           [''turn_id'', ''provider_turn_ref'', ''message_id'', ''session_id''],
         rc_priority = None, rc_cursor = Some (it_cursor item)\<rparr>) (\<lambda>c. Inr [c]))"

definition reply_candidates_from_item :: "completion_item \<Rightarrow> reply_candidate list result" where
  "reply_candidates_from_item item =
     rbind (candidate_of item RC_LAST_AGENT_MESSAGE [''last_agent_message'']) (\<lambda>c1.
     rbind (if it_kind item = RESULT
            then candidate_of item RC_FINAL_ANSWER [''reply'', ''result_text'', ''final_answer'', ''text'']
            else Inr []) (\<lambda>c2.
     rbind (if it_kind item = ASSISTANT_FINAL
            then candidate_of item RC_ASSISTANT_FINAL [''text'', ''reply''] else Inr []) (\<lambda>c3.
     rbind (if it_kind item = ASSISTANT_CHUNK
            then candidate_of item RC_ASSISTANT_CHUNK_MERGED [''merged_text'', ''text'', ''reply'']
            else Inr []) (\<lambda>c4.
     rbind (if it_kind item = SESSION_SNAPSHOT \<or> it_kind item = SESSION_MUTATION
            then candidate_of item RC_SESSION_REPLY [''reply'', ''content'', ''text''] else Inr []) (\<lambda>c5.
     rbind (candidate_of item RC_FALLBACK_TEXT [''fallback_text'']) (\<lambda>c6.
     Inr (c1 @ c2 @ c3 @ c4 @ c5 @ c6)))))))"

definition valid_candidate :: "reply_candidate \<Rightarrow> bool" where
  "valid_candidate c \<longleftrightarrow> rc_text c \<noteq> [] \<and> stripped (rc_text c) \<and> rc_timestamp c \<noteq> [] \<and>
     rc_priority c = Some (REPLY_PRIORITY (rc_kind c))"

text \<open>An item with a time stamp offers at most one candidate per field group and never raises.\<close>
lemma candidate_of_valid:
  assumes "it_timestamp item \<noteq> []"
  shows "\<exists>cs. candidate_of item k keys = Inr cs \<and> list_all valid_candidate cs \<and> length cs \<le> 1"
proof (cases "first_non_empty (it_payload item) keys")
  case (Some t)
  then have "t \<noteq> []" "stripped t" using first_non_empty_Some by blast+
  with Some assms show ?thesis
    by (simp add: candidate_of_def ReplyCandidate_def Let_def valid_candidate_def)
qed (simp add: candidate_of_def)

lemma reply_candidates_valid:
  assumes "it_timestamp item \<noteq> []"
  shows "\<exists>cs. reply_candidates_from_item item = Inr cs \<and> list_all valid_candidate cs"
proof -
  have ok: "\<exists>cs. (if b then candidate_of item k keys else Inr []) = Inr cs \<and> list_all valid_candidate cs"
    for b k keys using candidate_of_valid [OF assms, of k keys] by auto
  note c = ok [of True, simplified]
  show ?thesis
    unfolding reply_candidates_from_item_def
    using c [of RC_LAST_AGENT_MESSAGE "[''last_agent_message'']"]
      ok [of "it_kind item = RESULT" RC_FINAL_ANSWER "[''reply'', ''result_text'', ''final_answer'', ''text'']"]
      ok [of "it_kind item = ASSISTANT_FINAL" RC_ASSISTANT_FINAL "[''text'', ''reply'']"]
      ok [of "it_kind item = ASSISTANT_CHUNK" RC_ASSISTANT_CHUNK_MERGED "[''merged_text'', ''text'', ''reply'']"]
      ok [of "it_kind item = SESSION_SNAPSHOT \<or> it_kind item = SESSION_MUTATION" RC_SESSION_REPLY
        "[''reply'', ''content'', ''text'']"]
      c [of RC_FALLBACK_TEXT "[''fallback_text'']"]
    by (elim exE conjE) simp
qed

section \<open>The stored snapshot\<close>

definition cursor_to_record :: "completion_cursor \<Rightarrow> payload" where
  "cursor_to_record c =
     [(''schema_version'', JInt COMPLETION_SCHEMA_VERSION), (''record_type'', JStr ''completion_cursor''),
      (''source_kind'', JStr (completion_source_kind_value (cu_source_kind c))),
      (''opaque_cursor'', jopt (cu_opaque_cursor c)), (''session_path'', jopt (cu_session_path c)),
      (''offset'', jopt_int (cu_offset c)), (''line_no'', jopt_int (cu_line_no c)),
      (''event_seq'', jopt_int (cu_event_seq c)), (''updated_at'', jopt (cu_updated_at c))]"

definition opt_cursor_to_record :: "completion_cursor option \<Rightarrow> json" where
  "opt_cursor_to_record c = (case c of None \<Rightarrow> JNull | Some x \<Rightarrow> JObj (cursor_to_record x))"

definition state_to_record :: "completion_state \<Rightarrow> payload" where
  "state_to_record s =
     [(''schema_version'', JInt COMPLETION_SCHEMA_VERSION), (''record_type'', JStr ''completion_state''),
      (''anchor_seen'', JBool (st_anchor_seen s)), (''reply_started'', JBool (st_reply_started s)),
      (''reply_stable'', JBool (st_reply_stable s)), (''tool_active'', JBool (st_tool_active s)),
      (''subagent_activity_seen'', JBool (st_subagent_activity_seen s)),
      (''last_reply_hash'', jopt (st_last_reply_hash s)), (''last_reply_at'', jopt (st_last_reply_at s)),
      (''stable_since'', jopt (st_stable_since s)), (''provider_turn_ref'', jopt (st_provider_turn_ref s)),
      (''latest_cursor'', opt_cursor_to_record (st_latest_cursor s)),
      (''terminal'', JBool (st_terminal s))]"

definition decision_to_record :: "completion_decision \<Rightarrow> payload" where
  "decision_to_record d =
     [(''schema_version'', JInt COMPLETION_SCHEMA_VERSION), (''record_type'', JStr ''completion_decision''),
      (''terminal'', JBool (de_terminal d)), (''status'', JStr (completion_status_value (de_status d))),
      (''reason'', jopt (de_reason d)),
      (''confidence'', jopt (map_option completion_confidence_value (de_confidence d))),
      (''reply'', JStr (de_reply d)), (''anchor_seen'', JBool (de_anchor_seen d)),
      (''reply_started'', JBool (de_reply_started d)), (''reply_stable'', JBool (de_reply_stable d)),
      (''provider_turn_ref'', jopt (de_provider_turn_ref d)),
      (''source_cursor'', opt_cursor_to_record (de_source_cursor d)),
      (''finished_at'', jopt (de_finished_at d)), (''diagnostics'', JObj (de_diagnostics d))]"

definition snapshot_to_record :: "completion_snapshot \<Rightarrow> payload" where
  "snapshot_to_record s =
     [(''schema_version'', JInt COMPLETION_SCHEMA_VERSION), (''record_type'', JStr ''completion_snapshot''),
      (''job_id'', JStr (sn_job_id s)), (''agent_name'', JStr (sn_agent_name s)),
      (''profile_family'', JStr (completion_family_value (sn_profile_family s))),
      (''state'', JObj (state_to_record (sn_state s))),
      (''latest_decision'', JObj (decision_to_record (sn_latest_decision s))),
      (''latest_reply_preview'', JStr (sn_latest_reply_preview s)), (''updated_at'', JStr (sn_updated_at s))]"

text \<open>A field the code uses as a dictionary or passes on as a string\<close>

definition as_dict :: "json \<Rightarrow> payload result" where
  "as_dict v = (case v of JObj d \<Rightarrow> Inr d | _ \<Rightarrow> Inl (AttributeError ''get''))"

definition as_string :: "json \<Rightarrow> string result" where
  "as_string v = (case v of JStr s \<Rightarrow> Inr s | _ \<Rightarrow> Inl (TypeError ''str expected''))"

text \<open>\<open>Enum(record['k'])\<close>: only a string can be the value of a member\<close>
definition enum_of_json :: "string \<Rightarrow> 'e list \<Rightarrow> ('e \<Rightarrow> string) \<Rightarrow> json \<Rightarrow> 'e result" where
  "enum_of_json cls members evalue v = (case v of JStr s \<Rightarrow> enum_of_value cls members evalue s
     | _ \<Rightarrow> Inl (ValueError (py_repr v @ '' is not a valid '' @ cls)))"

text \<open>\<open>dict(v)\<close>: a mapping, or a sequence of key and value pairs\<close>
definition pair_of :: "json \<Rightarrow> (string \<times> json) result" where
  "pair_of v = (case v of
       JList [JStr k, x] \<Rightarrow> Inr (k, x)
     | JStr [k, x] \<Rightarrow> Inr ([k], JStr [x])
     | _ \<Rightarrow> Inl (ValueError ''dictionary update sequence''))"

definition to_dict :: "json \<Rightarrow> payload result" where
  "to_dict v = (case v of
       JObj d \<Rightarrow> Inr d
     | JList xs \<Rightarrow> rbind (rmap pair_of xs) (\<lambda>kvs. Inr (foldl (\<lambda>d kv. dict_set (fst kv) (snd kv) d) [] kvs))
     | JStr [] \<Rightarrow> Inr []
     | JStr _ \<Rightarrow> Inl (ValueError ''dictionary update sequence'')
     | _ \<Rightarrow> Inl (TypeError ''object is not iterable''))"

definition cursor_from_record :: "json \<Rightarrow> completion_cursor option result" where
  "cursor_from_record v = (if v = JNull then Inr None else
       rbind (as_dict v) (\<lambda>p.
       rbind (validate_record COMPLETION_SCHEMA_VERSION p ''completion_cursor'') (\<lambda>_.
       rbind (jfield p ''source_kind'') (\<lambda>kj.
       rbind (enum_of_json ''CompletionSourceKind'' completion_source_kinds completion_source_kind_value kj) (\<lambda>k.
       rbind (opt_string (jget p ''opaque_cursor'')) (\<lambda>oc.
       rbind (opt_string (jget p ''session_path'')) (\<lambda>sp.
       rbind (opt_integer (jget p ''offset'')) (\<lambda>off.
       rbind (opt_integer (jget p ''line_no'')) (\<lambda>ln.
       rbind (opt_integer (jget p ''event_seq'')) (\<lambda>es.
       rbind (opt_string (jget p ''updated_at'')) (\<lambda>ua.
       rbind (CompletionCursor \<lparr>cu_source_kind = k, cu_opaque_cursor = oc, cu_session_path = sp,
         cu_offset = off, cu_line_no = ln, cu_event_seq = es, cu_updated_at = ua\<rparr>) (\<lambda>c.
       Inr (Some c)))))))))))))"

definition flag :: "payload \<Rightarrow> string \<Rightarrow> bool" where
  "flag p k = py_truthy (jget_default p k (JBool False))"

definition state_from_record :: "payload \<Rightarrow> completion_state result" where
  "state_from_record p =
     rbind (validate_record COMPLETION_SCHEMA_VERSION p ''completion_state'') (\<lambda>_.
     rbind (opt_string (jget p ''last_reply_hash'')) (\<lambda>h.
     rbind (opt_string (jget p ''last_reply_at'')) (\<lambda>la.
     rbind (opt_string (jget p ''stable_since'')) (\<lambda>ss.
     rbind (opt_string (jget p ''provider_turn_ref'')) (\<lambda>tr.
     rbind (cursor_from_record (jget p ''latest_cursor'')) (\<lambda>cu.
     Inr \<lparr>st_anchor_seen = flag p ''anchor_seen'', st_reply_started = flag p ''reply_started'',
       st_reply_stable = flag p ''reply_stable'', st_tool_active = flag p ''tool_active'',
       st_subagent_activity_seen = flag p ''subagent_activity_seen'', st_last_reply_hash = h,
       st_last_reply_at = la, st_stable_since = ss, st_provider_turn_ref = tr, st_latest_cursor = cu,
       st_terminal = flag p ''terminal''\<rparr>))))))"

definition opt_confidence :: "json \<Rightarrow> completion_confidence option result" where
  "opt_confidence v = (if v = JNull then Inr None
     else rbind (enum_of_json ''CompletionConfidence'' completion_confidences
            completion_confidence_value v) (\<lambda>c. Inr (Some c)))"

definition decision_from_record :: "payload \<Rightarrow> completion_decision result" where
  "decision_from_record p =
     rbind (validate_record COMPLETION_SCHEMA_VERSION p ''completion_decision'') (\<lambda>_.
     rbind (jfield p ''terminal'') (\<lambda>tj.
     rbind (jfield p ''status'') (\<lambda>stj.
     rbind (enum_of_json ''CompletionStatus'' completion_statuses completion_status_value stj) (\<lambda>status.
     rbind (opt_string (jget p ''reason'')) (\<lambda>reason.
     rbind (opt_confidence (jget p ''confidence'')) (\<lambda>conf.
     rbind (opt_string (jget_default p ''reply'' (JStr ''''))) (\<lambda>reply.
     rbind (opt_string (jget p ''provider_turn_ref'')) (\<lambda>tr.
     rbind (cursor_from_record (jget p ''source_cursor'')) (\<lambda>cu.
     rbind (opt_string (jget p ''finished_at'')) (\<lambda>fin.
     rbind (to_dict (jget_default p ''diagnostics'' (JObj []))) (\<lambda>diag.
     CompletionDecision \<lparr>de_terminal = py_truthy tj, de_status = status, de_reason = reason,
       de_confidence = conf, de_reply = str_or_empty reply, de_anchor_seen = flag p ''anchor_seen'',
       de_reply_started = flag p ''reply_started'', de_reply_stable = flag p ''reply_stable'',
       de_provider_turn_ref = tr, de_source_cursor = cu, de_finished_at = fin,
       de_diagnostics = diag\<rparr>)))))))))))"

definition completion_snapshot_from_record :: "payload \<Rightarrow> completion_snapshot result" where
  "completion_snapshot_from_record p =
     rbind (validate_record COMPLETION_SCHEMA_VERSION p ''completion_snapshot'') (\<lambda>_.
     rbind (rbind (jfield p ''job_id'') as_string) (\<lambda>job_id.
     rbind (rbind (jfield p ''agent_name'') as_string) (\<lambda>agent_name.
     rbind (jfield p ''profile_family'') (\<lambda>fj.
     rbind (enum_of_json ''CompletionFamily'' completion_families completion_family_value fj) (\<lambda>family.
     rbind (rbind (jfield p ''state'') as_dict) (\<lambda>sp.
     rbind (state_from_record sp) (\<lambda>state.
     rbind (rbind (jfield p ''latest_decision'') as_dict) (\<lambda>dp.
     rbind (decision_from_record dp) (\<lambda>decision.
     rbind (opt_string (jget_default p ''latest_reply_preview'' (JStr ''''))) (\<lambda>preview.
     rbind (rbind (jfield p ''updated_at'') as_string) (\<lambda>updated_at.
     CompletionSnapshot \<lparr>sn_job_id = job_id, sn_agent_name = agent_name, sn_profile_family = family,
       sn_state = state, sn_latest_decision = decision,
       sn_latest_reply_preview = str_or_empty preview, sn_updated_at = updated_at\<rparr>)))))))))))"

definition valid_opt_cursor :: "completion_cursor option \<Rightarrow> bool" where
  "valid_opt_cursor c = (case c of None \<Rightarrow> True | Some x \<Rightarrow> valid_cursor x)"

definition valid_snapshot :: "completion_snapshot \<Rightarrow> bool" where
  "valid_snapshot s \<longleftrightarrow> py_strip (sn_job_id s) \<noteq> [] \<and> agent_name_ok (sn_agent_name s) \<and>
     sn_updated_at s \<noteq> [] \<and> valid_opt_cursor (st_latest_cursor (sn_state s)) \<and>
     valid_decision (sn_latest_decision s) \<and>
     valid_opt_cursor (de_source_cursor (sn_latest_decision s))"

lemma cursor_roundtrip [simp]:
  assumes "valid_opt_cursor c"
  shows "cursor_from_record (opt_cursor_to_record c) = Inr c"
proof (cases c)
  case (Some x)
  with assms have "valid_cursor x" by (simp add: valid_opt_cursor_def)
  with Some show ?thesis
    by (cases x) (simp add: cursor_from_record_def opt_cursor_to_record_def cursor_to_record_def
        as_dict_def enum_of_json_def codec_simps)
qed (simp add: cursor_from_record_def opt_cursor_to_record_def)

lemma state_roundtrip:
  "valid_opt_cursor (st_latest_cursor s) \<Longrightarrow> state_from_record (state_to_record s) = Inr s"
  by (cases s) (simp add: state_from_record_def state_to_record_def flag_def)

lemma decision_roundtrip:
  assumes "valid_decision d" "valid_opt_cursor (de_source_cursor d)"
  shows "decision_from_record (decision_to_record d) = Inr d"
proof -
  have "opt_confidence (jopt (map_option completion_confidence_value x)) = Inr x" for x
    by (cases x) (simp_all add: opt_confidence_def jopt_def enum_of_json_def codec_simps)
  with assms show ?thesis
    by (cases d) (simp add: decision_from_record_def decision_to_record_def flag_def enum_of_json_def
        codec_simps to_dict_def str_or_empty_def)
qed

lemma CompletionSnapshot_valid: "valid_snapshot s \<Longrightarrow> CompletionSnapshot s = Inr s"
  by (simp add: CompletionSnapshot_def valid_snapshot_def)

lemma snapshot_roundtrip:
  assumes "valid_snapshot s"
  shows "completion_snapshot_from_record (snapshot_to_record s) = Inr s"
  using assms CompletionSnapshot_valid [OF assms]
  by (cases s) (simp add: completion_snapshot_from_record_def snapshot_to_record_def as_string_def
      as_dict_def enum_of_json_def codec_simps state_roundtrip decision_roundtrip valid_snapshot_def
      str_or_empty_def)

section \<open>Properties of the stored snapshot\<close>

text \<open>
  C34. A stored completion snapshot reads back. Every snapshot the constructors accept, with its
  state, its decision and both cursors, is read back unchanged from the nested dictionary that is
  written for it.
\<close>
theorem completion_snapshot_roundtrip:
  assumes "valid_snapshot s"
  shows "completion_snapshot_from_record (snapshot_to_record s) = Inr s"
  using assms by (rule snapshot_roundtrip)

theorem completion_snapshot_roundtrip_witness:
  "let c = \<lparr>cu_source_kind = SK_SESSION_EVENT_LOG, cu_opaque_cursor = Some ''x'', cu_session_path = None,
        cu_offset = Some 12, cu_line_no = None, cu_event_seq = Some 3, cu_updated_at = Some ''t1''\<rparr>;
      d = \<lparr>de_terminal = True, de_status = CS_FAILED, de_reason = Some ''api_error'',
        de_confidence = Some CC_OBSERVED, de_reply = '''', de_anchor_seen = True, de_reply_started = False,
        de_reply_stable = False, de_provider_turn_ref = None, de_source_cursor = Some c,
        de_finished_at = Some ''t2'', de_diagnostics = [(''status_code'', JInt 500)]\<rparr>;
      s = \<lparr>sn_job_id = ''job_1'', sn_agent_name = ''agent1'', sn_profile_family = SESSION_BOUNDARY,
        sn_state = CompletionState (Some c), sn_latest_decision = d, sn_latest_reply_preview = '''',
        sn_updated_at = ''t2''\<rparr>
   in completion_snapshot_from_record (snapshot_to_record s) = Inr s"
  unfolding Let_def by (rule completion_snapshot_roundtrip) code_simp

end
