(* ===== verification/Jobs.thy ===== *)
theory Jobs
  imports Codecs Agent_Names Completion_Models
begin

text \<open>
  Jobs, submissions and job events (\<open>lib/ccbd/api_models_runtime\<close>) and their append-only stores
  (\<open>lib/jobs/store.py\<close>): the message envelope, the records with the checks of their constructors,
  both directions of their codecs and the store operations on typed rows.
\<close>

section \<open>Enums\<close>

datatype job_status =
  JS_ACCEPTED | JS_QUEUED | JS_RUNNING | JS_COMPLETED | JS_CANCELLED | JS_FAILED | JS_INCOMPLETE

fun job_status_value :: "job_status \<Rightarrow> string" where
  "job_status_value JS_ACCEPTED = ''accepted''"
| "job_status_value JS_QUEUED = ''queued''"
| "job_status_value JS_RUNNING = ''running''"
| "job_status_value JS_COMPLETED = ''completed''"
| "job_status_value JS_CANCELLED = ''cancelled''"
| "job_status_value JS_FAILED = ''failed''"
| "job_status_value JS_INCOMPLETE = ''incomplete''"

definition job_statuses :: "job_status list" where
  "job_statuses = [JS_ACCEPTED, JS_QUEUED, JS_RUNNING, JS_COMPLETED, JS_CANCELLED, JS_FAILED, JS_INCOMPLETE]"

datatype delivery_scope = DS_SINGLE | DS_BROADCAST

fun delivery_scope_value :: "delivery_scope \<Rightarrow> string" where
  "delivery_scope_value DS_SINGLE = ''single''"
| "delivery_scope_value DS_BROADCAST = ''broadcast''"

definition delivery_scopes :: "delivery_scope list" where
  "delivery_scopes = [DS_SINGLE, DS_BROADCAST]"

datatype target_kind = TK_AGENT

fun target_kind_value :: "target_kind \<Rightarrow> string" where
  "target_kind_value TK_AGENT = ''agent''"

definition target_kinds :: "target_kind list" where
  "target_kinds = [TK_AGENT]"

interpretation jstatus: enum_codec job_statuses job_status_value
proof
  show "x \<in> set job_statuses" for x by (cases x) (simp_all add: job_statuses_def)
  show "job_status_value x = job_status_value y \<Longrightarrow> x = y" for x y by (cases x; cases y) simp_all
qed

interpretation dscope: enum_codec delivery_scopes delivery_scope_value
proof
  show "x \<in> set delivery_scopes" for x by (cases x) (simp_all add: delivery_scopes_def)
  show "delivery_scope_value x = delivery_scope_value y \<Longrightarrow> x = y" for x y by (cases x; cases y) simp_all
qed

interpretation tkind: enum_codec target_kinds target_kind_value
proof
  show "x \<in> set target_kinds" for x by (cases x) (simp_all add: target_kinds_def)
  show "target_kind_value x = target_kind_value y \<Longrightarrow> x = y" for x y by (cases x; cases y) simp_all
qed

lemmas job_enum_roundtrips [codec_simps] =
  jstatus.of_value_value dscope.of_value_value tkind.of_value_value

definition TERMINAL_JOB_STATES :: "job_status list" where
  "TERMINAL_JOB_STATES = [JS_COMPLETED, JS_CANCELLED, JS_FAILED, JS_INCOMPLETE]"

section \<open>The message envelope\<close>

record message_envelope =
  me_project_id :: string
  me_to_agent :: string
  me_from_actor :: string
  me_body :: string
  me_task_id :: "string option"
  me_reply_to :: "string option"
  me_message_type :: string
  me_delivery_scope :: delivery_scope
  me_silence_on_success :: bool
  me_route_options :: payload
  me_body_artifact :: "payload option"

definition MessageEnvelope :: "message_envelope \<Rightarrow> message_envelope result" where
  "MessageEnvelope m =
     rbind (rcheck (me_project_id m = []) (ValueError ''project_id cannot be empty'')) (\<lambda>_.
     rbind (rcheck (me_to_agent m = []) (ValueError ''to_agent cannot be empty'')) (\<lambda>_.
     rbind (rcheck (me_from_actor m = []) (ValueError ''from_actor cannot be empty'')) (\<lambda>_.
     rbind (rcheck (py_strip (me_body m) = []) (ValueError ''body cannot be empty'')) (\<lambda>_.
     rbind (if py_lower (py_strip (me_to_agent m)) = ''all'' then Inr ''all''
            else normalize_agent_name (me_to_agent m)) (\<lambda>to_agent.
     rbind (normalize_actor_name (Some (me_from_actor m))) (\<lambda>from_actor.
     rbind (rcheck (to_agent = ''all'' \<and> me_delivery_scope m \<noteq> DS_BROADCAST)
              (ValueError ''to_agent=all requires delivery_scope=broadcast'')) (\<lambda>_.
     rbind (rcheck (to_agent \<noteq> ''all'' \<and> me_delivery_scope m \<noteq> DS_SINGLE)
              (ValueError ''single target requires delivery_scope=single'')) (\<lambda>_.
     Inr (m\<lparr>me_to_agent := to_agent, me_from_actor := from_actor\<rparr>)))))))))"

definition envelope_to_record :: "message_envelope \<Rightarrow> payload" where
  "envelope_to_record m =
     [(''project_id'', JStr (me_project_id m)), (''to_agent'', JStr (me_to_agent m)),
      (''from_actor'', JStr (me_from_actor m)), (''body'', JStr (me_body m)),
      (''task_id'', jopt (me_task_id m)), (''reply_to'', jopt (me_reply_to m)),
      (''message_type'', JStr (me_message_type m)),
      (''delivery_scope'', JStr (delivery_scope_value (me_delivery_scope m))),
      (''silence_on_success'', JBool (me_silence_on_success m)),
      (''route_options'', JObj (me_route_options m)),
      (''body_artifact'', (case me_body_artifact m of None \<Rightarrow> JNull
         | Some d \<Rightarrow> if d = [] then JNull else JObj d))]"

text \<open>\<open>record['k']\<close> for a field of type \<open>str\<close>\<close>
definition str_field :: "payload \<Rightarrow> string \<Rightarrow> string result" where
  "str_field p k = rbind (jfield p k) as_string"

text \<open>\<open>dict(v or {})\<close>\<close>
definition to_dict_or_empty :: "json \<Rightarrow> payload result" where
  "to_dict_or_empty v = (if py_truthy v then to_dict v else Inr [])"

definition message_envelope_from_record :: "payload \<Rightarrow> message_envelope result" where
  "message_envelope_from_record p =
     rbind (str_field p ''project_id'') (\<lambda>project_id.
     rbind (str_field p ''to_agent'') (\<lambda>to_agent.
     rbind (str_field p ''from_actor'') (\<lambda>from_actor.
     rbind (str_field p ''body'') (\<lambda>body.
     rbind (opt_string (jget p ''task_id'')) (\<lambda>task_id.
     rbind (opt_string (jget p ''reply_to'')) (\<lambda>reply_to.
     rbind (str_field p ''message_type'') (\<lambda>message_type.
     rbind (jfield p ''delivery_scope'') (\<lambda>scj.
     rbind (enum_of_json ''DeliveryScope'' delivery_scopes delivery_scope_value scj) (\<lambda>scope.
     rbind (to_dict_or_empty (jget p ''route_options'')) (\<lambda>route_options.
     MessageEnvelope \<lparr>me_project_id = project_id, me_to_agent = to_agent, me_from_actor = from_actor,
       me_body = body, me_task_id = task_id, me_reply_to = reply_to, me_message_type = message_type,
       me_delivery_scope = scope, me_silence_on_success = flag p ''silence_on_success'',
       me_route_options = route_options,
       me_body_artifact = (case jget p ''body_artifact'' of JObj d \<Rightarrow> Some d | _ \<Rightarrow> None)\<rparr>))))))))))"

text \<open>What the constructor accepts unchanged; an empty artifact is not stored\<close>
definition valid_envelope :: "message_envelope \<Rightarrow> bool" where
  "valid_envelope m \<longleftrightarrow> MessageEnvelope m = Inr m"

lemma envelope_roundtrip:
  assumes "valid_envelope m" "me_body_artifact m \<noteq> Some []"
  shows "message_envelope_from_record (envelope_to_record m) = Inr m"
proof -
  have "(case (case x of None \<Rightarrow> JNull | Some d \<Rightarrow> if d = [] then JNull else JObj d) of JObj d \<Rightarrow> Some d | _ \<Rightarrow> None) = x"
    if "x \<noteq> Some []" for x :: "payload option" using that by (cases x) auto
  moreover have "to_dict_or_empty (JObj d) = Inr d" for d by (simp add: to_dict_or_empty_def to_dict_def)
  ultimately show ?thesis
    using assms
    by (cases m) (simp add: message_envelope_from_record_def envelope_to_record_def str_field_def as_string_def
        enum_of_json_def codec_simps flag_def valid_envelope_def)
qed

section \<open>Jobs, submissions and events\<close>

record job_record =
  jr_job_id :: string
  jr_submission_id :: "string option"
  jr_agent_name :: string
  jr_provider :: string
  jr_request :: message_envelope
  jr_status :: job_status
  jr_terminal_decision :: "payload option"
  jr_cancel_requested_at :: "string option"
  jr_created_at :: string
  jr_updated_at :: string
  jr_workspace_path :: "string option"
  jr_target_kind :: target_kind
  jr_target_name :: string
  jr_provider_instance :: "string option"
  jr_provider_options :: payload

definition JobRecord :: "job_record \<Rightarrow> job_record result" where
  "JobRecord j =
     rbind (rcheck (jr_job_id j = []) (ValueError ''job_id cannot be empty'')) (\<lambda>_.
     rbind (normalize_agent_name (if jr_target_name j = [] then jr_agent_name j else jr_target_name j)) (\<lambda>n.
     rbind (rcheck (jr_status j \<in> set TERMINAL_JOB_STATES \<and> jr_terminal_decision j = None)
              (ValueError ''terminal_decision is required for terminal job states'')) (\<lambda>_.
     Inr (j\<lparr>jr_agent_name := n, jr_target_name := n, jr_provider_instance := None\<rparr>))))"

definition job_to_record :: "job_record \<Rightarrow> payload" where
  "job_to_record j =
     [(''schema_version'', JInt 2), (''record_type'', JStr ''job_record''),
      (''job_id'', JStr (jr_job_id j)), (''submission_id'', jopt (jr_submission_id j)),
      (''agent_name'', JStr (jr_agent_name j)),
      (''target_kind'', JStr (target_kind_value (jr_target_kind j))),
      (''target_name'', JStr (jr_target_name j)), (''provider'', JStr (jr_provider j)),
      (''provider_instance'', jopt (jr_provider_instance j)),
      (''provider_options'', JObj (jr_provider_options j)),
      (''request'', JObj (envelope_to_record (jr_request j))),
      (''status'', JStr (job_status_value (jr_status j))),
      (''terminal_decision'', (case jr_terminal_decision j of None \<Rightarrow> JNull | Some d \<Rightarrow> JObj d)),
      (''cancel_requested_at'', jopt (jr_cancel_requested_at j)),
      (''created_at'', JStr (jr_created_at j)), (''updated_at'', JStr (jr_updated_at j)),
      (''workspace_path'', jopt (jr_workspace_path j))]"

text \<open>A field of type \<open>dict | None\<close> that the code passes on\<close>
definition opt_dict :: "json \<Rightarrow> payload option result" where
  "opt_dict v = (case v of JNull \<Rightarrow> Inr None | JObj d \<Rightarrow> Inr (Some d)
     | _ \<Rightarrow> Inl (TypeError ''dict or None expected''))"

definition job_record_from_record :: "payload \<Rightarrow> job_record result" where
  "job_record_from_record p =
     rbind (validate_record 2 p ''job_record'') (\<lambda>_.
     rbind (str_field p ''job_id'') (\<lambda>job_id.
     rbind (opt_string (jget p ''submission_id'')) (\<lambda>submission_id.
     rbind (as_string (jget_default p ''agent_name'' (JStr ''''))) (\<lambda>agent_name.
     rbind (str_field p ''provider'') (\<lambda>provider.
     rbind (rbind (jfield p ''request'') as_dict) (\<lambda>rp.
     rbind (message_envelope_from_record rp) (\<lambda>request.
     rbind (jfield p ''status'') (\<lambda>stj.
     rbind (enum_of_json ''JobStatus'' job_statuses job_status_value stj) (\<lambda>status.
     rbind (opt_dict (jget p ''terminal_decision'')) (\<lambda>terminal_decision.
     rbind (opt_string (jget p ''cancel_requested_at'')) (\<lambda>cancel_requested_at.
     rbind (str_field p ''created_at'') (\<lambda>created_at.
     rbind (str_field p ''updated_at'') (\<lambda>updated_at.
     rbind (opt_string (jget p ''workspace_path'')) (\<lambda>workspace_path.
     rbind (as_string (jget_default p ''target_name'' (jget_default p ''agent_name'' (JStr '''')))) (\<lambda>target_name.
     rbind (opt_string (jget p ''provider_instance'')) (\<lambda>provider_instance.
     rbind (to_dict_or_empty (jget p ''provider_options'')) (\<lambda>provider_options.
     rbind (enum_of_json ''TargetKind'' target_kinds target_kind_value
              (jget_default p ''target_kind'' (JStr (target_kind_value TK_AGENT)))) (\<lambda>target_kind.
     JobRecord \<lparr>jr_job_id = job_id, jr_submission_id = submission_id, jr_agent_name = agent_name,
       jr_provider = provider, jr_request = request, jr_status = status,
       jr_terminal_decision = terminal_decision, jr_cancel_requested_at = cancel_requested_at,
       jr_created_at = created_at, jr_updated_at = updated_at, jr_workspace_path = workspace_path,
       jr_target_kind = target_kind, jr_target_name = target_name,
       jr_provider_instance = provider_instance, jr_provider_options = provider_options\<rparr>))))))))))))))))))"

record submission_record =
  sr_submission_id :: string
  sr_project_id :: string
  sr_from_actor :: string
  sr_target_scope :: string
  sr_task_id :: "string option"
  sr_job_ids :: "string list"
  sr_created_at :: string
  sr_updated_at :: string

definition SubmissionRecord :: "submission_record \<Rightarrow> submission_record result" where
  "SubmissionRecord s =
     rbind (rcheck (sr_submission_id s = []) (ValueError ''submission_id cannot be empty'')) (\<lambda>_.
     rbind (rcheck (sr_project_id s = []) (ValueError ''project_id cannot be empty'')) (\<lambda>_.
     rbind (normalize_actor_name (Some (sr_from_actor s))) (\<lambda>a. Inr (s\<lparr>sr_from_actor := a\<rparr>))))"

definition submission_to_record :: "submission_record \<Rightarrow> payload" where
  "submission_to_record s =
     [(''schema_version'', JInt 2), (''record_type'', JStr ''submission_record''),
      (''submission_id'', JStr (sr_submission_id s)), (''project_id'', JStr (sr_project_id s)),
      (''from_actor'', JStr (sr_from_actor s)), (''target_scope'', JStr (sr_target_scope s)),
      (''task_id'', jopt (sr_task_id s)), (''job_ids'', JList (map JStr (sr_job_ids s))),
      (''created_at'', JStr (sr_created_at s)), (''updated_at'', JStr (sr_updated_at s))]"

definition str_list :: "json \<Rightarrow> string list result" where
  "str_list v = (case v of JList xs \<Rightarrow> rmap as_string xs | _ \<Rightarrow> Inl (TypeError ''list expected''))"

definition submission_record_from_record :: "payload \<Rightarrow> submission_record result" where
  "submission_record_from_record p =
     rbind (validate_record 2 p ''submission_record'') (\<lambda>_.
     rbind (str_field p ''submission_id'') (\<lambda>submission_id.
     rbind (str_field p ''project_id'') (\<lambda>project_id.
     rbind (str_field p ''from_actor'') (\<lambda>from_actor.
     rbind (str_field p ''target_scope'') (\<lambda>target_scope.
     rbind (opt_string (jget p ''task_id'')) (\<lambda>task_id.
     rbind (str_list (jget_default p ''job_ids'' (JList []))) (\<lambda>job_ids.
     rbind (as_string (jget_default p ''created_at'' (JStr ''''))) (\<lambda>created_at.
     rbind (as_string (jget_default p ''updated_at'' (JStr ''''))) (\<lambda>updated_at.
     SubmissionRecord \<lparr>sr_submission_id = submission_id, sr_project_id = project_id,
       sr_from_actor = from_actor, sr_target_scope = target_scope, sr_task_id = task_id,
       sr_job_ids = job_ids, sr_created_at = created_at, sr_updated_at = updated_at\<rparr>)))))))))"

record job_event =
  je_event_id :: string
  je_job_id :: string
  je_agent_name :: string
  je_type :: string
  je_payload :: payload
  je_timestamp :: string
  je_target_kind :: target_kind
  je_target_name :: string

definition JobEvent :: "job_event \<Rightarrow> job_event result" where
  "JobEvent e =
     rbind (rcheck (je_event_id e = []) (ValueError ''event_id cannot be empty'')) (\<lambda>_.
     rbind (rcheck (je_job_id e = []) (ValueError ''job_id cannot be empty'')) (\<lambda>_.
     rbind (rcheck (je_type e = []) (ValueError ''type cannot be empty'')) (\<lambda>_.
     rbind (normalize_agent_name (if je_target_name e = [] then je_agent_name e else je_target_name e)) (\<lambda>n.
     Inr (e\<lparr>je_agent_name := n, je_target_name := n\<rparr>)))))"

definition job_event_to_record :: "job_event \<Rightarrow> payload" where
  "job_event_to_record e =
     [(''schema_version'', JInt 2), (''record_type'', JStr ''job_event''),
      (''event_id'', JStr (je_event_id e)), (''job_id'', JStr (je_job_id e)),
      (''agent_name'', JStr (je_agent_name e)),
      (''target_kind'', JStr (target_kind_value (je_target_kind e))),
      (''target_name'', JStr (je_target_name e)), (''type'', JStr (je_type e)),
      (''payload'', JObj (je_payload e)), (''timestamp'', JStr (je_timestamp e))]"

definition job_event_from_record :: "payload \<Rightarrow> job_event result" where
  "job_event_from_record p =
     rbind (validate_record 2 p ''job_event'') (\<lambda>_.
     rbind (str_field p ''event_id'') (\<lambda>event_id.
     rbind (str_field p ''job_id'') (\<lambda>job_id.
     rbind (as_string (jget_default p ''agent_name'' (JStr ''''))) (\<lambda>agent_name.
     rbind (as_string (jget_default p ''target_name'' (jget_default p ''agent_name'' (JStr '''')))) (\<lambda>target_name.
     rbind (str_field p ''type'') (\<lambda>ty.
     rbind (to_dict (jget_default p ''payload'' (JObj []))) (\<lambda>pl.
     rbind (str_field p ''timestamp'') (\<lambda>timestamp.
     rbind (enum_of_json ''TargetKind'' target_kinds target_kind_value
              (jget_default p ''target_kind'' (JStr (target_kind_value TK_AGENT)))) (\<lambda>target_kind.
     JobEvent \<lparr>je_event_id = event_id, je_job_id = job_id, je_agent_name = agent_name, je_type = ty,
       je_payload = pl, je_timestamp = timestamp, je_target_kind = target_kind,
       je_target_name = target_name\<rparr>)))))))))"

section \<open>The codecs meet their contract\<close>

definition valid_job :: "job_record \<Rightarrow> bool" where
  "valid_job j \<longleftrightarrow> JobRecord j = Inr j \<and> valid_envelope (jr_request j) \<and>
     me_body_artifact (jr_request j) \<noteq> Some []"

definition valid_submission :: "submission_record \<Rightarrow> bool" where
  "valid_submission s \<longleftrightarrow> SubmissionRecord s = Inr s"

definition valid_job_event :: "job_event \<Rightarrow> bool" where
  "valid_job_event e \<longleftrightarrow> JobEvent e = Inr e"

lemma to_dict_or_empty_JObj [simp]: "to_dict_or_empty (JObj d) = Inr d"
  by (simp add: to_dict_or_empty_def to_dict_def)

lemma str_list_map [simp]: "str_list (JList (map JStr xs)) = Inr xs"
  by (induction xs) (simp_all add: str_list_def as_string_def)

lemma job_roundtrip:
  assumes "valid_job j"
  shows "job_record_from_record (job_to_record j) = Inr j"
proof -
  have "opt_dict (case x of None \<Rightarrow> JNull | Some d \<Rightarrow> JObj d) = Inr x" for x
    by (cases x) (simp_all add: opt_dict_def)
  with assms show ?thesis
    by (cases j) (simp add: job_record_from_record_def job_to_record_def str_field_def as_string_def
        as_dict_def enum_of_json_def codec_simps envelope_roundtrip valid_job_def)
qed

lemma submission_roundtrip:
  "valid_submission s \<Longrightarrow> submission_record_from_record (submission_to_record s) = Inr s"
  by (cases s) (simp add: submission_record_from_record_def submission_to_record_def str_field_def
      as_string_def valid_submission_def)

lemma job_event_roundtrip:
  "valid_job_event e \<Longrightarrow> job_event_from_record (job_event_to_record e) = Inr e"
  by (cases e) (simp add: job_event_from_record_def job_event_to_record_def str_field_def as_string_def
      enum_of_json_def codec_simps valid_job_event_def to_dict_def)

section \<open>The stores\<close>

record job_logs =
  jl_jobs :: "string \<Rightarrow> job_record list"
  jl_events :: "string \<Rightarrow> job_event list"
  jl_submissions :: "submission_record list"

type_synonym 'a jobs = "(job_logs, 'a) py"

definition job_append :: "job_record \<Rightarrow> unit jobs" where
  "job_append r = py_bind (py_lift (normalize_agent_name (jr_target_name r))) (\<lambda>k.
     py_modify (\<lambda>s. s\<lparr>jl_jobs := (jl_jobs s)(k := jl_jobs s k @ [r])\<rparr>))"

definition job_list_target :: "string \<Rightarrow> job_record list jobs" where
  "job_list_target name = py_bind (py_lift (normalize_agent_name name)) (\<lambda>k. py_gets (\<lambda>s. jl_jobs s k))"

definition job_list_target_tail :: "string \<Rightarrow> int \<Rightarrow> job_record list jobs" where
  "job_list_target_tail name limit = py_bind (py_lift (normalize_agent_name name)) (\<lambda>k.
     if limit < 0 then py_raise (ValueError ''limit cannot be negative'')
     else py_gets (\<lambda>s. drop (length (jl_jobs s k) - nat limit) (jl_jobs s k)))"

definition job_get_latest :: "string \<Rightarrow> string \<Rightarrow> job_record option jobs" where
  "job_get_latest name job_id = py_bind (py_lift (normalize_agent_name name)) (\<lambda>k.
     py_gets (\<lambda>s. find_last_in (\<lambda>r. jr_job_id r = job_id) (jl_jobs s k)))"

definition job_event_append :: "job_event \<Rightarrow> unit jobs" where
  "job_event_append e = py_bind (py_lift (normalize_agent_name (je_target_name e))) (\<lambda>k.
     py_modify (\<lambda>s. s\<lparr>jl_events := (jl_events s)(k := jl_events s k @ [e])\<rparr>))"

definition job_event_read_since :: "string \<Rightarrow> int \<Rightarrow> (int \<times> job_event list) jobs" where
  "job_event_read_since name start_line = py_bind (py_lift (normalize_agent_name name)) (\<lambda>k.
     if start_line < 0 then py_raise (ValueError ''start_line cannot be negative'')
     else py_gets (\<lambda>s. if jl_events s k = [] then (start_line, [])
            else (int (length (jl_events s k)), drop (nat start_line) (jl_events s k))))"

definition submission_append :: "submission_record \<Rightarrow> unit jobs" where
  "submission_append r = py_modify (\<lambda>s. s\<lparr>jl_submissions := jl_submissions s @ [r]\<rparr>)"

definition submission_get_latest :: "string \<Rightarrow> submission_record option jobs" where
  "submission_get_latest submission_id =
     py_gets (\<lambda>s. find_last_in (\<lambda>r. sr_submission_id r = submission_id) (jl_submissions s))"

text \<open>
  An append-only store of rows with an id: what a read of the newest row returns after an append.
  The job and submission stores meet it.
\<close>

locale row_store =
  fixes append_row :: "'r \<Rightarrow> ('s, unit) py"
    and latest_row :: "'r \<Rightarrow> ('s, 'r option) py"
    and storable :: "'r \<Rightarrow> bool"
    and same_row :: "'r \<Rightarrow> 'r \<Rightarrow> bool"
  assumes append_then_latest: "storable r \<Longrightarrow> storable q \<Longrightarrow>
      fst (latest_row q (snd (append_row r s))) = (if same_row r q then Inr (Some r) else fst (latest_row q s))"
    and append_returns: "storable r \<Longrightarrow> fst (append_row r s) = Inr ()"
begin

text \<open>After a sequence of appends the newest row of a key is the last one appended for it.\<close>
lemma latest_after_appends:
  "\<forall>r \<in> set rs. storable r \<Longrightarrow> storable q \<Longrightarrow>
   fst (latest_row q (snd (py_for rs append_row s))) =
     (case find_last_in (\<lambda>r. same_row r q) rs of Some r \<Rightarrow> Inr (Some r) | None \<Rightarrow> fst (latest_row q s))"
proof (induction rs arbitrary: s)
  case (Cons r rs)
  obtain s' where s': "append_row r s = (Inr (), s')"
    using append_returns [of r s] Cons.prems by (cases "append_row r s") auto
  have "find_last_in P (r # rs) = (case find_last_in P rs of Some x \<Rightarrow> Some x | None \<Rightarrow> if P r then Some r else None)" for P
    using find_last_in_append [of P "[r]" rs] by (simp add: find_last_in_def split: option.splits)
  with Cons.IH [of s'] Cons.prems append_then_latest [of r q s] s' show ?case
    by (auto split: option.splits)
qed simp

end

definition storable_job :: "job_record \<Rightarrow> bool" where
  "storable_job r \<longleftrightarrow> agent_name_ok (jr_target_name r)"

interpretation job_rows: row_store job_append "\<lambda>q. job_get_latest (jr_target_name q) (jr_job_id q)" storable_job
  "\<lambda>r q. jr_target_name r = jr_target_name q \<and> jr_job_id r = jr_job_id q"
  by unfold_locales (auto simp: job_append_def job_get_latest_def storable_job_def)

interpretation submission_rows: row_store submission_append "\<lambda>q. submission_get_latest (sr_submission_id q)"
  "\<lambda>_. True" "\<lambda>r q. sr_submission_id r = sr_submission_id q"
  by unfold_locales (auto simp: submission_append_def submission_get_latest_def)

section \<open>Properties of the job records\<close>

text \<open>
  C35. Job rows read back. A job, a submission and a job event that their constructors accept (the
  job's message without an empty artifact, which is stored as none) are read back unchanged from
  the rows they are written as, the nested message envelope included.
\<close>
theorem job_rows_roundtrip:
  assumes "valid_job j" "valid_submission s" "valid_job_event e"
  shows "job_record_from_record (job_to_record j) = Inr j \<and>
    submission_record_from_record (submission_to_record s) = Inr s \<and>
    job_event_from_record (job_event_to_record e) = Inr e"
  using assms by (simp add: job_roundtrip submission_roundtrip job_event_roundtrip)

definition demo_envelope :: message_envelope where
  "demo_envelope = \<lparr>me_project_id = ''p1'', me_to_agent = ''agent1'', me_from_actor = ''user'',
     me_body = ''do it'', me_task_id = Some ''t1'', me_reply_to = None, me_message_type = ''ask'',
     me_delivery_scope = DS_SINGLE, me_silence_on_success = False,
     me_route_options = [(''callback'', JBool True)], me_body_artifact = None\<rparr>"

definition demo_job :: "string \<Rightarrow> job_status \<Rightarrow> job_record" where
  "demo_job i st = \<lparr>jr_job_id = i, jr_submission_id = None, jr_agent_name = ''agent1'', jr_provider = ''codex'',
     jr_request = demo_envelope, jr_status = st, jr_terminal_decision = Some [(''terminal'', JBool True)],
     jr_cancel_requested_at = None, jr_created_at = ''t0'', jr_updated_at = ''t1'', jr_workspace_path = None,
     jr_target_kind = TK_AGENT, jr_target_name = ''agent1'', jr_provider_instance = None,
     jr_provider_options = []\<rparr>"

theorem job_rows_roundtrip_witness:
  "let s = \<lparr>sr_submission_id = ''sub_1'', sr_project_id = ''p1'', sr_from_actor = ''cmd'',
        sr_target_scope = ''broadcast'', sr_task_id = None, sr_job_ids = [''j1'', ''j2''],
        sr_created_at = ''t0'', sr_updated_at = ''t0''\<rparr>;
      e = \<lparr>je_event_id = ''evt_1'', je_job_id = ''j1'', je_agent_name = ''agent1'', je_type = ''job_started'',
        je_payload = [(''n'', JInt 1)], je_timestamp = ''t1'', je_target_kind = TK_AGENT,
        je_target_name = ''agent1''\<rparr>
   in job_record_from_record (job_to_record (demo_job ''j1'' JS_COMPLETED)) = Inr (demo_job ''j1'' JS_COMPLETED) \<and>
      submission_record_from_record (submission_to_record s) = Inr s \<and>
      job_event_from_record (job_event_to_record e) = Inr e"
  unfolding Let_def by (intro job_rows_roundtrip; code_simp)



end
