(* ===== verification/Bureau_Models.thy ===== *)
theory Bureau_Models
  imports Jobs
begin

text \<open>
  The records of the message bureau (\<open>lib/message_bureau\<close>): messages, delivery attempts, replies
  and callback edges with the checks of their constructors and both directions of their codecs
  (\<open>model_enums.py\<close>, \<open>models.py\<close>, \<open>model_codecs.py\<close>, \<open>callback_edges.py\<close>), the references that
  inbound events carry in their payload (\<open>reply_payloads.py\<close>) and what is read out of a reply's
  diagnostics (\<open>reply_metadata.py\<close>).
\<close>

section \<open>Enums\<close>

datatype message_state =
    MSG_CREATED | MSG_QUEUED | MSG_DISPATCHING | MSG_RUNNING | MSG_PARTIALLY_REPLIED | MSG_COMPLETED
  | MSG_INCOMPLETE | MSG_FAILED | MSG_CANCELLED | MSG_DEAD_LETTER

fun message_state_value :: "message_state \<Rightarrow> string" where
  "message_state_value MSG_CREATED = ''created''"
| "message_state_value MSG_QUEUED = ''queued''"
| "message_state_value MSG_DISPATCHING = ''dispatching''"
| "message_state_value MSG_RUNNING = ''running''"
| "message_state_value MSG_PARTIALLY_REPLIED = ''partially_replied''"
| "message_state_value MSG_COMPLETED = ''completed''"
| "message_state_value MSG_INCOMPLETE = ''incomplete''"
| "message_state_value MSG_FAILED = ''failed''"
| "message_state_value MSG_CANCELLED = ''cancelled''"
| "message_state_value MSG_DEAD_LETTER = ''dead_letter''"

definition message_states :: "message_state list" where
  "message_states = [MSG_CREATED, MSG_QUEUED, MSG_DISPATCHING, MSG_RUNNING, MSG_PARTIALLY_REPLIED,
     MSG_COMPLETED, MSG_INCOMPLETE, MSG_FAILED, MSG_CANCELLED, MSG_DEAD_LETTER]"

datatype attempt_state =
    ATT_PENDING | ATT_DELIVERING | ATT_RUNNING | ATT_WAITING_COMPLETION | ATT_REPLY_READY | ATT_STALLED
  | ATT_RUNTIME_DEAD | ATT_FAILED | ATT_INCOMPLETE | ATT_CANCELLED | ATT_SUPERSEDED | ATT_DEAD_LETTER
  | ATT_COMPLETED

fun attempt_state_value :: "attempt_state \<Rightarrow> string" where
  "attempt_state_value ATT_PENDING = ''pending''"
| "attempt_state_value ATT_DELIVERING = ''delivering''"
| "attempt_state_value ATT_RUNNING = ''running''"
| "attempt_state_value ATT_WAITING_COMPLETION = ''waiting_completion''"
| "attempt_state_value ATT_REPLY_READY = ''reply_ready''"
| "attempt_state_value ATT_STALLED = ''stalled''"
| "attempt_state_value ATT_RUNTIME_DEAD = ''runtime_dead''"
| "attempt_state_value ATT_FAILED = ''failed''"
| "attempt_state_value ATT_INCOMPLETE = ''incomplete''"
| "attempt_state_value ATT_CANCELLED = ''cancelled''"
| "attempt_state_value ATT_SUPERSEDED = ''superseded''"
| "attempt_state_value ATT_DEAD_LETTER = ''dead_letter''"
| "attempt_state_value ATT_COMPLETED = ''completed''"

definition attempt_states :: "attempt_state list" where
  "attempt_states = [ATT_PENDING, ATT_DELIVERING, ATT_RUNNING, ATT_WAITING_COMPLETION, ATT_REPLY_READY,
     ATT_STALLED, ATT_RUNTIME_DEAD, ATT_FAILED, ATT_INCOMPLETE, ATT_CANCELLED, ATT_SUPERSEDED,
     ATT_DEAD_LETTER, ATT_COMPLETED]"

datatype reply_status = REP_COMPLETED | REP_INCOMPLETE | REP_FAILED | REP_CANCELLED

fun reply_status_value :: "reply_status \<Rightarrow> string" where
  "reply_status_value REP_COMPLETED = ''completed''"
| "reply_status_value REP_INCOMPLETE = ''incomplete''"
| "reply_status_value REP_FAILED = ''failed''"
| "reply_status_value REP_CANCELLED = ''cancelled''"

definition reply_statuses :: "reply_status list" where
  "reply_statuses = [REP_COMPLETED, REP_INCOMPLETE, REP_FAILED, REP_CANCELLED]"

datatype callback_edge_state =
  CB_PENDING | CB_CHILD_COMPLETED | CB_CONTINUATION_SUBMITTED | CB_DONE | CB_FAILED | CB_TIMED_OUT

fun edge_state_value :: "callback_edge_state \<Rightarrow> string" where
  "edge_state_value CB_PENDING = ''pending''"
| "edge_state_value CB_CHILD_COMPLETED = ''child_completed''"
| "edge_state_value CB_CONTINUATION_SUBMITTED = ''continuation_submitted''"
| "edge_state_value CB_DONE = ''done''"
| "edge_state_value CB_FAILED = ''failed''"
| "edge_state_value CB_TIMED_OUT = ''timed_out''"

definition edge_states :: "callback_edge_state list" where
  "edge_states = [CB_PENDING, CB_CHILD_COMPLETED, CB_CONTINUATION_SUBMITTED, CB_DONE, CB_FAILED, CB_TIMED_OUT]"

interpretation mstate: enum_codec message_states message_state_value
proof
  show "x \<in> set message_states" for x by (cases x) (simp_all add: message_states_def)
  show "message_state_value x = message_state_value y \<Longrightarrow> x = y" for x y by (cases x; cases y) simp_all
qed

interpretation astate: enum_codec attempt_states attempt_state_value
proof
  show "x \<in> set attempt_states" for x by (cases x) (simp_all add: attempt_states_def)
  show "attempt_state_value x = attempt_state_value y \<Longrightarrow> x = y" for x y by (cases x; cases y) simp_all
qed

interpretation rstatus: enum_codec reply_statuses reply_status_value
proof
  show "x \<in> set reply_statuses" for x by (cases x) (simp_all add: reply_statuses_def)
  show "reply_status_value x = reply_status_value y \<Longrightarrow> x = y" for x y by (cases x; cases y) simp_all
qed

interpretation estate: enum_codec edge_states edge_state_value
proof
  show "x \<in> set edge_states" for x by (cases x) (simp_all add: edge_states_def)
  show "edge_state_value x = edge_state_value y \<Longrightarrow> x = y" for x y by (cases x; cases y) simp_all
qed

lemmas bureau_enum_roundtrips [codec_simps] =
  mstate.of_value_value astate.of_value_value rstatus.of_value_value estate.of_value_value

section \<open>Records\<close>

record message_record =
  msg_message_id :: string
  msg_origin_message_id :: "string option"
  msg_from_actor :: string
  msg_target_scope :: string
  msg_target_agents :: "string list"
  msg_message_class :: string
  msg_reply_policy :: payload
  msg_retry_policy :: payload
  msg_priority :: int
  msg_payload_ref :: "string option"
  msg_submission_id :: "string option"
  msg_created_at :: string
  msg_updated_at :: string
  msg_message_state :: message_state

definition require_value :: "string \<Rightarrow> string \<Rightarrow> unit result" where
  "require_value field_name v = rcheck (v = []) (ValueError (field_name @ '' cannot be empty''))"

definition normalize_message_record :: "message_record \<Rightarrow> message_record result" where
  "normalize_message_record m =
     rbind (require_value ''message_id'' (msg_message_id m)) (\<lambda>_.
     rbind (require_value ''from_actor'' (msg_from_actor m)) (\<lambda>_.
     rbind (require_value ''target_scope'' (msg_target_scope m)) (\<lambda>_.
     rbind (rcheck (msg_target_agents m = []) (ValueError ''target_agents cannot be empty'')) (\<lambda>_.
     rbind (require_value ''message_class'' (msg_message_class m)) (\<lambda>_.
     rbind (rcheck (msg_priority m < 0) (ValueError ''priority cannot be negative'')) (\<lambda>_.
     rbind (normalize_actor_name (Some (msg_from_actor m))) (\<lambda>from_actor.
     rbind (rmap normalize_agent_name (msg_target_agents m)) (\<lambda>target_agents.
     Inr (m\<lparr>msg_from_actor := from_actor, msg_target_agents := target_agents\<rparr>)))))))))"

record attempt_record =
  att_attempt_id :: string
  att_message_id :: string
  att_agent_name :: string
  att_provider :: string
  att_job_id :: string
  att_retry_index :: int
  att_health_snapshot_ref :: "string option"
  att_started_at :: string
  att_updated_at :: string
  att_attempt_state :: attempt_state

definition normalize_attempt_record :: "attempt_record \<Rightarrow> attempt_record result" where
  "normalize_attempt_record a =
     rbind (require_value ''attempt_id'' (att_attempt_id a)) (\<lambda>_.
     rbind (require_value ''message_id'' (att_message_id a)) (\<lambda>_.
     rbind (require_value ''agent_name'' (att_agent_name a)) (\<lambda>_.
     rbind (require_value ''provider'' (att_provider a)) (\<lambda>_.
     rbind (require_value ''job_id'' (att_job_id a)) (\<lambda>_.
     rbind (rcheck (att_retry_index a < 0) (ValueError ''retry_index cannot be negative'')) (\<lambda>_.
     rbind (normalize_agent_name (att_agent_name a)) (\<lambda>n. Inr (a\<lparr>att_agent_name := n\<rparr>))))))))"

record reply_record =
  rep_reply_id :: string
  rep_message_id :: string
  rep_attempt_id :: string
  rep_agent_name :: string
  rep_terminal_status :: reply_status
  rep_reply :: string
  rep_reply_artifact :: "payload option"
  rep_diagnostics :: payload
  rep_finished_at :: string

definition normalize_reply_record :: "reply_record \<Rightarrow> reply_record result" where
  "normalize_reply_record r =
     rbind (require_value ''reply_id'' (rep_reply_id r)) (\<lambda>_.
     rbind (require_value ''message_id'' (rep_message_id r)) (\<lambda>_.
     rbind (require_value ''attempt_id'' (rep_attempt_id r)) (\<lambda>_.
     rbind (require_value ''agent_name'' (rep_agent_name r)) (\<lambda>_.
     rbind (normalize_agent_name (rep_agent_name r)) (\<lambda>n. Inr (r\<lparr>rep_agent_name := n\<rparr>))))))"

record callback_edge =
  ce_edge_id :: string
  ce_parent_job_id :: string
  ce_parent_message_id :: string
  ce_parent_agent :: string
  ce_child_job_id :: string
  ce_child_message_id :: string
  ce_callback_target_agent :: string
  ce_original_caller :: string
  ce_original_task_id :: "string option"
  ce_state :: callback_edge_state
  ce_child_reply_id :: "string option"
  ce_child_status :: "string option"
  ce_continuation_job_id :: "string option"
  ce_continuation_message_id :: "string option"
  ce_timeout_at :: "string option"
  ce_created_at :: string
  ce_updated_at :: string
  ce_diagnostics :: payload

definition CallbackEdgeRecord :: "callback_edge \<Rightarrow> callback_edge result" where
  "CallbackEdgeRecord e =
     rbind (require_value ''edge_id'' (ce_edge_id e)) (\<lambda>_.
     rbind (require_value ''parent_job_id'' (ce_parent_job_id e)) (\<lambda>_.
     rbind (require_value ''parent_message_id'' (ce_parent_message_id e)) (\<lambda>_.
     rbind (require_value ''child_job_id'' (ce_child_job_id e)) (\<lambda>_.
     rbind (require_value ''child_message_id'' (ce_child_message_id e)) (\<lambda>_. Inr e)))))"

section \<open>Codecs\<close>

definition message_to_record :: "message_record \<Rightarrow> payload" where
  "message_to_record m =
     [(''schema_version'', JInt 1), (''record_type'', JStr ''message_record''),
      (''message_id'', JStr (msg_message_id m)), (''origin_message_id'', jopt (msg_origin_message_id m)),
      (''from_actor'', JStr (msg_from_actor m)), (''target_scope'', JStr (msg_target_scope m)),
      (''target_agents'', JList (map JStr (msg_target_agents m))),
      (''message_class'', JStr (msg_message_class m)), (''reply_policy'', JObj (msg_reply_policy m)),
      (''retry_policy'', JObj (msg_retry_policy m)), (''priority'', JInt (msg_priority m)),
      (''payload_ref'', jopt (msg_payload_ref m)), (''submission_id'', jopt (msg_submission_id m)),
      (''created_at'', JStr (msg_created_at m)), (''updated_at'', JStr (msg_updated_at m)),
      (''message_state'', JStr (message_state_value (msg_message_state m)))]"

text \<open>\<open>tuple(record.get(k) or ())\<close> for a list of strings\<close>
definition str_list_or_empty :: "json \<Rightarrow> string list result" where
  "str_list_or_empty v = (if py_truthy v then str_list v else Inr [])"

definition message_from_record :: "payload \<Rightarrow> message_record result" where
  "message_from_record p =
     rbind (validate_record 1 p ''message_record'') (\<lambda>_.
     rbind (jfield p ''message_id'') (\<lambda>message_id.
     rbind (opt_string (jget p ''origin_message_id'')) (\<lambda>origin_message_id.
     rbind (jfield p ''from_actor'') (\<lambda>from_actor.
     rbind (jfield p ''target_scope'') (\<lambda>target_scope.
     rbind (str_list_or_empty (jget p ''target_agents'')) (\<lambda>target_agents.
     rbind (to_dict_or_empty (jget p ''reply_policy'')) (\<lambda>reply_policy.
     rbind (to_dict_or_empty (jget p ''retry_policy'')) (\<lambda>retry_policy.
     rbind (py_int (jget_default p ''priority'' (JInt 100))) (\<lambda>priority.
     rbind (opt_string (jget p ''payload_ref'')) (\<lambda>payload_ref.
     rbind (opt_string (jget p ''submission_id'')) (\<lambda>submission_id.
     rbind (enum_of_value ''MessageState'' message_states message_state_value
              (py_str (jget_default p ''message_state'' (JStr (message_state_value MSG_CREATED))))) (\<lambda>message_state.
     Inr \<lparr>msg_message_id = py_str message_id, msg_origin_message_id = origin_message_id,
       msg_from_actor = py_str from_actor, msg_target_scope = py_str target_scope,
       msg_target_agents = target_agents,
       msg_message_class = str_or (jget p ''message_class'') ''task_request'',
       msg_reply_policy = reply_policy, msg_retry_policy = retry_policy, msg_priority = priority,
       msg_payload_ref = payload_ref, msg_submission_id = submission_id,
       msg_created_at = str_or (jget p ''created_at'') '''', msg_updated_at = str_or (jget p ''updated_at'') '''',
       msg_message_state = message_state\<rparr>))))))))))))"

definition MessageRecord_from_record :: "payload \<Rightarrow> message_record result" where
  "MessageRecord_from_record p = rbind (message_from_record p) normalize_message_record"

definition attempt_to_record :: "attempt_record \<Rightarrow> payload" where
  "attempt_to_record a =
     [(''schema_version'', JInt 1), (''record_type'', JStr ''attempt_record''),
      (''attempt_id'', JStr (att_attempt_id a)), (''message_id'', JStr (att_message_id a)),
      (''agent_name'', JStr (att_agent_name a)), (''provider'', JStr (att_provider a)),
      (''job_id'', JStr (att_job_id a)), (''retry_index'', JInt (att_retry_index a)),
      (''health_snapshot_ref'', jopt (att_health_snapshot_ref a)),
      (''started_at'', JStr (att_started_at a)), (''updated_at'', JStr (att_updated_at a)),
      (''attempt_state'', JStr (attempt_state_value (att_attempt_state a)))]"

definition attempt_from_record :: "payload \<Rightarrow> attempt_record result" where
  "attempt_from_record p =
     rbind (validate_record 1 p ''attempt_record'') (\<lambda>_.
     rbind (jfield p ''attempt_id'') (\<lambda>attempt_id.
     rbind (jfield p ''message_id'') (\<lambda>message_id.
     rbind (jfield p ''agent_name'') (\<lambda>agent_name.
     rbind (jfield p ''provider'') (\<lambda>provider.
     rbind (jfield p ''job_id'') (\<lambda>job_id.
     rbind (py_int (jget_default p ''retry_index'' (JInt 0))) (\<lambda>retry_index.
     rbind (opt_string (jget p ''health_snapshot_ref'')) (\<lambda>health_snapshot_ref.
     rbind (enum_of_value ''AttemptState'' attempt_states attempt_state_value
              (py_str (jget_default p ''attempt_state'' (JStr (attempt_state_value ATT_PENDING))))) (\<lambda>attempt_state.
     Inr \<lparr>att_attempt_id = py_str attempt_id, att_message_id = py_str message_id,
       att_agent_name = py_str agent_name, att_provider = py_str provider, att_job_id = py_str job_id,
       att_retry_index = retry_index, att_health_snapshot_ref = health_snapshot_ref,
       att_started_at = str_or (jget p ''started_at'') '''', att_updated_at = str_or (jget p ''updated_at'') '''',
       att_attempt_state = attempt_state\<rparr>)))))))))"

definition AttemptRecord_from_record :: "payload \<Rightarrow> attempt_record result" where
  "AttemptRecord_from_record p = rbind (attempt_from_record p) normalize_attempt_record"

definition opt_dict_json :: "payload option \<Rightarrow> json" where
  "opt_dict_json x = (case x of None \<Rightarrow> JNull | Some d \<Rightarrow> if d = [] then JNull else JObj d)"

definition dict_or_none :: "json \<Rightarrow> payload option" where
  "dict_or_none v = (case v of JObj d \<Rightarrow> Some d | _ \<Rightarrow> None)"

definition reply_to_record :: "reply_record \<Rightarrow> payload" where
  "reply_to_record r =
     [(''schema_version'', JInt 1), (''record_type'', JStr ''reply_record''),
      (''reply_id'', JStr (rep_reply_id r)), (''message_id'', JStr (rep_message_id r)),
      (''attempt_id'', JStr (rep_attempt_id r)), (''agent_name'', JStr (rep_agent_name r)),
      (''terminal_status'', JStr (reply_status_value (rep_terminal_status r))),
      (''reply'', JStr (rep_reply r)), (''reply_artifact'', opt_dict_json (rep_reply_artifact r)),
      (''diagnostics'', JObj (rep_diagnostics r)), (''finished_at'', JStr (rep_finished_at r))]"

definition reply_from_record :: "payload \<Rightarrow> reply_record result" where
  "reply_from_record p =
     rbind (validate_record 1 p ''reply_record'') (\<lambda>_.
     rbind (jfield p ''reply_id'') (\<lambda>reply_id.
     rbind (jfield p ''message_id'') (\<lambda>message_id.
     rbind (jfield p ''attempt_id'') (\<lambda>attempt_id.
     rbind (jfield p ''agent_name'') (\<lambda>agent_name.
     rbind (enum_of_value ''ReplyTerminalStatus'' reply_statuses reply_status_value
              (py_str (jget_default p ''terminal_status'' (JStr (reply_status_value REP_COMPLETED))))) (\<lambda>status.
     rbind (to_dict_or_empty (jget p ''diagnostics'')) (\<lambda>diagnostics.
     Inr \<lparr>rep_reply_id = py_str reply_id, rep_message_id = py_str message_id,
       rep_attempt_id = py_str attempt_id, rep_agent_name = py_str agent_name,
       rep_terminal_status = status, rep_reply = str_or (jget p ''reply'') '''',
       rep_reply_artifact = dict_or_none (jget p ''reply_artifact''), rep_diagnostics = diagnostics,
       rep_finished_at = str_or (jget p ''finished_at'') ''''\<rparr>)))))))"

definition ReplyRecord_from_record :: "payload \<Rightarrow> reply_record result" where
  "ReplyRecord_from_record p = rbind (reply_from_record p) normalize_reply_record"

definition edge_to_record :: "callback_edge \<Rightarrow> payload" where
  "edge_to_record e =
     [(''schema_version'', JInt 1), (''record_type'', JStr ''callback_edge''),
      (''edge_id'', JStr (ce_edge_id e)), (''parent_job_id'', JStr (ce_parent_job_id e)),
      (''parent_message_id'', JStr (ce_parent_message_id e)), (''parent_agent'', JStr (ce_parent_agent e)),
      (''child_job_id'', JStr (ce_child_job_id e)), (''child_message_id'', JStr (ce_child_message_id e)),
      (''callback_target_agent'', JStr (ce_callback_target_agent e)),
      (''original_caller'', JStr (ce_original_caller e)), (''original_task_id'', jopt (ce_original_task_id e)),
      (''state'', JStr (edge_state_value (ce_state e))), (''child_reply_id'', jopt (ce_child_reply_id e)),
      (''child_status'', jopt (ce_child_status e)), (''continuation_job_id'', jopt (ce_continuation_job_id e)),
      (''continuation_message_id'', jopt (ce_continuation_message_id e)), (''timeout_at'', jopt (ce_timeout_at e)),
      (''created_at'', JStr (ce_created_at e)), (''updated_at'', JStr (ce_updated_at e)),
      (''diagnostics'', JObj (ce_diagnostics e))]"

definition edge_from_record :: "payload \<Rightarrow> callback_edge result" where
  "edge_from_record p =
     rbind (py_int (if py_truthy (jget p ''schema_version'') then jget p ''schema_version'' else JInt 0)) (\<lambda>version.
     rbind (rcheck (version \<noteq> 1) (ValueError ''schema_version must be 1'')) (\<lambda>_.
     rbind (rcheck (jget p ''record_type'' \<noteq> JStr ''callback_edge'') (ValueError (''record_type must be '' @ repr_str ''callback_edge'')))
       (\<lambda>_.
     rbind (jfield p ''edge_id'') (\<lambda>edge_id.
     rbind (jfield p ''parent_job_id'') (\<lambda>parent_job_id.
     rbind (jfield p ''parent_message_id'') (\<lambda>parent_message_id.
     rbind (jfield p ''parent_agent'') (\<lambda>parent_agent.
     rbind (jfield p ''child_job_id'') (\<lambda>child_job_id.
     rbind (jfield p ''child_message_id'') (\<lambda>child_message_id.
     rbind (jfield p ''callback_target_agent'') (\<lambda>callback_target_agent.
     rbind (jfield p ''original_caller'') (\<lambda>original_caller.
     rbind (opt_string (jget p ''original_task_id'')) (\<lambda>original_task_id.
     rbind (enum_of_json ''CallbackEdgeState'' edge_states edge_state_value
              (jget_default p ''state'' (JStr (edge_state_value CB_PENDING)))) (\<lambda>state.
     rbind (opt_string (jget p ''child_reply_id'')) (\<lambda>child_reply_id.
     rbind (opt_string (jget p ''child_status'')) (\<lambda>child_status.
     rbind (opt_string (jget p ''continuation_job_id'')) (\<lambda>continuation_job_id.
     rbind (opt_string (jget p ''continuation_message_id'')) (\<lambda>continuation_message_id.
     rbind (opt_string (jget p ''timeout_at'')) (\<lambda>timeout_at.
     rbind (to_dict_or_empty (jget p ''diagnostics'')) (\<lambda>diagnostics.
     CallbackEdgeRecord \<lparr>ce_edge_id = py_str edge_id, ce_parent_job_id = py_str parent_job_id,
       ce_parent_message_id = py_str parent_message_id, ce_parent_agent = py_str parent_agent,
       ce_child_job_id = py_str child_job_id, ce_child_message_id = py_str child_message_id,
       ce_callback_target_agent = py_str callback_target_agent, ce_original_caller = py_str original_caller,
       ce_original_task_id = original_task_id, ce_state = state, ce_child_reply_id = child_reply_id,
       ce_child_status = child_status, ce_continuation_job_id = continuation_job_id,
       ce_continuation_message_id = continuation_message_id, ce_timeout_at = timeout_at,
       ce_created_at = str_or (jget p ''created_at'') '''', ce_updated_at = str_or (jget p ''updated_at'') '''',
       ce_diagnostics = diagnostics\<rparr>)))))))))))))))))))"

section \<open>The codecs meet their contract\<close>

definition valid_message :: "message_record \<Rightarrow> bool" where
  "valid_message m \<longleftrightarrow> normalize_message_record m = Inr m"

definition valid_attempt :: "attempt_record \<Rightarrow> bool" where
  "valid_attempt a \<longleftrightarrow> att_attempt_id a \<noteq> [] \<and> att_message_id a \<noteq> [] \<and> agent_name_ok (att_agent_name a) \<and>
     att_provider a \<noteq> [] \<and> att_job_id a \<noteq> [] \<and> 0 \<le> att_retry_index a"

definition valid_reply :: "reply_record \<Rightarrow> bool" where
  "valid_reply r \<longleftrightarrow> rep_reply_id r \<noteq> [] \<and> rep_message_id r \<noteq> [] \<and> rep_attempt_id r \<noteq> [] \<and>
     agent_name_ok (rep_agent_name r)"

definition valid_edge :: "callback_edge \<Rightarrow> bool" where
  "valid_edge e \<longleftrightarrow> CallbackEdgeRecord e = Inr e"

lemma agent_ok_not_Nil: "agent_name_ok n \<Longrightarrow> n \<noteq> []"
  using agent_name_ok_length by fastforce

lemma require_value_simps [simp]: "require_value k v = Inr u \<longleftrightarrow> v \<noteq> []"
  by (simp add: require_value_def)

lemma normalize_attempt_fixed [simp]: "valid_attempt a \<Longrightarrow> normalize_attempt_record a = Inr a"
  by (simp add: normalize_attempt_record_def valid_attempt_def require_value_def agent_ok_not_Nil)

lemma normalize_attempt_valid: "normalize_attempt_record a = Inr a' \<Longrightarrow> valid_attempt a'"
  by (auto simp: normalize_attempt_record_def valid_attempt_def rbind_Inr_iff dest: normalize_agent_name_ok)

lemma normalize_reply_fixed [simp]: "valid_reply r \<Longrightarrow> normalize_reply_record r = Inr r"
  by (simp add: normalize_reply_record_def valid_reply_def require_value_def agent_ok_not_Nil)

lemma normalize_reply_valid: "normalize_reply_record r = Inr r' \<Longrightarrow> valid_reply r'"
  by (auto simp: normalize_reply_record_def valid_reply_def rbind_Inr_iff dest: normalize_agent_name_ok)

lemma normalize_agents_fixed: "rmap normalize_agent_name ns = Inr ns' \<Longrightarrow> rmap normalize_agent_name ns' = Inr ns'"
proof (induction ns arbitrary: ns')
  case (Cons n ns)
  then obtain n' ms where h: "normalize_agent_name n = Inr n'" "rmap normalize_agent_name ns = Inr ms" "ns' = n' # ms"
    by (auto simp: rbind_Inr_iff)
  from h(1) have "normalize_agent_name n' = Inr n'"
    by (rule normalize_agent_name_ok [THEN normalize_agent_name_fixed])
  moreover from Cons.IH [OF h(2)] have "rmap normalize_agent_name ms = Inr ms" .
  ultimately show ?case by (simp add: h(3))
qed simp

lemma normalize_actor_ne: "normalize_actor_name a = Inr n \<Longrightarrow> n \<noteq> []"
  by (auto simp: normalize_actor_name_def Let_def CMD_ACTOR_def NON_MAILBOX_ACTORS_def
      dest!: normalize_agent_name_ok agent_ok_not_Nil split: if_splits)

lemma normalize_actor_fixed: "normalize_actor_name a = Inr n \<Longrightarrow> normalize_actor_name (Some n) = Inr n"
proof -
  assume a: "normalize_actor_name a = Inr n"
  let ?x = "py_lower (py_strip (str_or_empty a))"
  have "n = ?x \<and> (?x = CMD_ACTOR \<or> ?x \<in> set NON_MAILBOX_ACTORS) \<or> agent_name_ok n \<and> normalize_agent_name ?x = Inr n"
    using a by (auto simp: normalize_actor_name_def Let_def split: if_splits dest: normalize_agent_name_ok)
  then show ?thesis
  proof
    assume h: "n = ?x \<and> (?x = CMD_ACTOR \<or> ?x \<in> set NON_MAILBOX_ACTORS)"
    then have "py_lower (py_strip n) = n" by (simp add: stripped_py_strip)
    moreover have "n \<noteq> []" by (rule normalize_actor_ne [OF a])
    ultimately show ?thesis using h by (auto simp: normalize_actor_name_def Let_def str_or_empty_def)
  next
    assume h: "agent_name_ok n \<and> normalize_agent_name ?x = Inr n"
    then have ok: "AGENT_NAME_PATTERN n" "py_lower n = n" by (simp_all add: agent_name_ok_def)
    then have "py_strip n = n" by (simp add: pattern_stripped)
    with h ok show ?thesis by (auto simp: normalize_actor_name_def Let_def str_or_empty_def agent_ok_not_Nil)
  qed
qed

lemma normalize_message_valid: "normalize_message_record m = Inr m' \<Longrightarrow> valid_message m'"
proof -
  assume "normalize_message_record m = Inr m'"
  then obtain f ts where h: "msg_message_id m \<noteq> []" "msg_target_scope m \<noteq> []" "msg_message_class m \<noteq> []"
    "msg_target_agents m \<noteq> []" "0 \<le> msg_priority m" "normalize_actor_name (Some (msg_from_actor m)) = Inr f"
    "rmap normalize_agent_name (msg_target_agents m) = Inr ts"
    "m' = m\<lparr>msg_from_actor := f, msg_target_agents := ts\<rparr>"
    by (auto simp: normalize_message_record_def rbind_Inr_iff)
  have "f \<noteq> []" "ts \<noteq> []"
    using h(4,7) normalize_actor_ne [OF h(6)] by (auto simp: rmap_Inr_iff)
  with h normalize_actor_fixed [OF h(6)] normalize_agents_fixed [OF h(7)] show ?thesis
    by (simp add: valid_message_def normalize_message_record_def require_value_def)
qed

lemma message_target_list: "str_list_or_empty (JList (map JStr xs)) = Inr xs"
  by (cases xs) (simp_all add: str_list_or_empty_def str_list_map [of "_ # _", simplified])

interpretation message_codec: record_codec message_to_record MessageRecord_from_record valid_message
proof
  show "MessageRecord_from_record (message_to_record r) = Inr r" if "valid_message r" for r
  proof -
    have "msg_message_class r \<noteq> []"
      using that by (auto simp: valid_message_def normalize_message_record_def rbind_Inr_iff)
    with that show ?thesis
      by (cases r) (simp add: MessageRecord_from_record_def message_from_record_def message_to_record_def
          message_target_list codec_simps valid_message_def)
  qed
  show "valid_message r" if "MessageRecord_from_record p = Inr r" for p r
    using that by (auto simp: MessageRecord_from_record_def rbind_Inr_iff intro: normalize_message_valid)
qed

interpretation attempt_codec: record_codec attempt_to_record AttemptRecord_from_record valid_attempt
proof
  show "AttemptRecord_from_record (attempt_to_record r) = Inr r" if "valid_attempt r" for r
    using that by (cases r) (simp add: AttemptRecord_from_record_def attempt_from_record_def
        attempt_to_record_def codec_simps)
  show "valid_attempt r" if "AttemptRecord_from_record p = Inr r" for p r
    using that by (auto simp: AttemptRecord_from_record_def rbind_Inr_iff intro: normalize_attempt_valid)
qed

lemma opt_dict_roundtrip: "x \<noteq> Some [] \<Longrightarrow> dict_or_none (opt_dict_json x) = x"
  by (cases x) (simp_all add: dict_or_none_def opt_dict_json_def)

lemma reply_roundtrip:
  "valid_reply r \<Longrightarrow> rep_reply_artifact r \<noteq> Some [] \<Longrightarrow> ReplyRecord_from_record (reply_to_record r) = Inr r"
  by (cases r) (simp add: ReplyRecord_from_record_def reply_from_record_def reply_to_record_def codec_simps
      opt_dict_roundtrip)

lemma edge_roundtrip: "valid_edge e \<Longrightarrow> edge_from_record (edge_to_record e) = Inr e"
  by (cases e) (simp add: edge_from_record_def edge_to_record_def enum_of_json_def codec_simps valid_edge_def)

text \<open>
  C39. The bureau's rows read back. A message, an attempt, a reply (its artifact not the empty
  dictionary, which is stored as none) and a callback edge that their constructors accept unchanged are
  read back unchanged from the rows they are written as.
\<close>
theorem bureau_rows_roundtrip:
  assumes "normalize_message_record m = Inr m" "normalize_attempt_record a = Inr a"
    "normalize_reply_record r = Inr r" "rep_reply_artifact r \<noteq> Some []" "CallbackEdgeRecord e = Inr e"
  shows "MessageRecord_from_record (message_to_record m) = Inr m \<and>
    AttemptRecord_from_record (attempt_to_record a) = Inr a \<and>
    ReplyRecord_from_record (reply_to_record r) = Inr r \<and> edge_from_record (edge_to_record e) = Inr e"
  using assms message_codec.decode_encode [of m] attempt_codec.decode_encode [of a] reply_roundtrip [of r]
    edge_roundtrip [of e] normalize_attempt_valid [of a a] normalize_reply_valid [of r r]
  by (simp add: valid_message_def valid_edge_def)

definition demo_message :: message_record where
  "demo_message = \<lparr>msg_message_id = ''msg_1'', msg_origin_message_id = None, msg_from_actor = ''user'',
     msg_target_scope = ''single'', msg_target_agents = [''agent1''], msg_message_class = ''ask'',
     msg_reply_policy = [(''mode'', JStr ''single'')], msg_retry_policy = [], msg_priority = 100,
     msg_payload_ref = None, msg_submission_id = None, msg_created_at = ''t0'', msg_updated_at = ''t0'',
     msg_message_state = MSG_QUEUED\<rparr>"

definition demo_attempt :: attempt_record where
  "demo_attempt = \<lparr>att_attempt_id = ''att_1'', att_message_id = ''msg_1'', att_agent_name = ''agent1'',
     att_provider = ''codex'', att_job_id = ''job_1'', att_retry_index = 0, att_health_snapshot_ref = None,
     att_started_at = ''t0'', att_updated_at = ''t0'', att_attempt_state = ATT_PENDING\<rparr>"

definition demo_reply :: reply_record where
  "demo_reply = \<lparr>rep_reply_id = ''rep_1'', rep_message_id = ''msg_1'', rep_attempt_id = ''att_1'',
     rep_agent_name = ''agent1'', rep_terminal_status = REP_COMPLETED, rep_reply = ''ok'',
     rep_reply_artifact = Some [(''path'', JStr ''p'')], rep_diagnostics = [], rep_finished_at = ''t1''\<rparr>"

definition demo_edge :: callback_edge where
  "demo_edge = \<lparr>ce_edge_id = ''cb_1'', ce_parent_job_id = ''job_1'', ce_parent_message_id = ''msg_1'',
     ce_parent_agent = ''agent1'', ce_child_job_id = ''job_2'', ce_child_message_id = ''msg_2'',
     ce_callback_target_agent = ''agent1'', ce_original_caller = ''user'', ce_original_task_id = None,
     ce_state = CB_PENDING, ce_child_reply_id = None, ce_child_status = None, ce_continuation_job_id = None,
     ce_continuation_message_id = None, ce_timeout_at = None, ce_created_at = ''t0'', ce_updated_at = ''t0'',
     ce_diagnostics = []\<rparr>"

theorem bureau_rows_roundtrip_witness:
  "MessageRecord_from_record (message_to_record demo_message) = Inr demo_message \<and>
   AttemptRecord_from_record (attempt_to_record demo_attempt) = Inr demo_attempt \<and>
   ReplyRecord_from_record (reply_to_record demo_reply) = Inr demo_reply \<and>
   edge_from_record (edge_to_record demo_edge) = Inr demo_edge"
  by (rule bureau_rows_roundtrip; code_simp)

end
