(* ===== verification/Bureau_Payloads.thy ===== *)
theory Bureau_Payloads
  imports Bureau_Models
begin

text \<open>
  The references that inbound events carry (\<open>reply_payloads.py\<close> and \<open>job_id_from_payload_ref\<close>), what is
  read out of the diagnostics of a reply (\<open>reply_metadata.py\<close>) and the text delivered for a finished job
  (\<open>facade_recording_common.py\<close>).
\<close>

section \<open>Splitting text\<close>

text \<open>\<open>str.split()\<close>: the maximal runs of characters that are not white space\<close>
fun split_words :: "string \<Rightarrow> string \<Rightarrow> string list" where
  "split_words word [] = (if word = [] then [] else [word])"
| "split_words word (c # cs) =
     (if py_isspace c then (if word = [] then split_words [] cs else word # split_words [] cs)
      else split_words (word @ [c]) cs)"

definition py_split :: "string \<Rightarrow> string list" where
  "py_split s = split_words [] s"

definition no_space :: "string \<Rightarrow> bool" where
  "no_space s \<longleftrightarrow> list_all (\<lambda>c. \<not> py_isspace c) s"

lemma split_words_word: "no_space s \<Longrightarrow> split_words w (s @ rest) = split_words (w @ s) rest"
  by (induction s arbitrary: w) (simp_all add: no_space_def)

lemma py_split_join:
  assumes "\<And>w. w \<in> set ws \<Longrightarrow> no_space w \<and> w \<noteq> []"
  shows "py_split (join '' '' ws) = ws"
  using assms
proof (induction ws rule: induct_list012)
  case (2 w)
  then show ?case using split_words_word [of w "[]" "[]"] by (simp add: py_split_def)
next
  case (3 w v ws)
  have sp: "py_isspace (CHR '' '')" by (simp add: py_isspace_def)
  have "py_split (join '' '' (w # v # ws)) = w # py_split (join '' '' (v # ws))"
    using 3 split_words_word [of w "[]"] sp by (simp add: py_split_def)
  with 3 show ?case by simp
qed (simp add: py_split_def)

lemma no_space_stripped: "no_space s \<Longrightarrow> stripped s"
  by (auto simp: no_space_def stripped_def list_all_iff)

section \<open>References to replies and delivery jobs\<close>

definition REPLY_PREFIX :: string where
  "REPLY_PREFIX = ''reply:''"

definition DELIVERY_PREFIX :: string where
  "DELIVERY_PREFIX = ''delivery:''"

definition compose_reply_payload :: "string \<Rightarrow> string option \<Rightarrow> string result" where
  "compose_reply_payload reply_id delivery_job_id =
     (let normalized_reply_id = py_strip reply_id;
          normalized_delivery_job_id = py_strip (str_or_empty delivery_job_id) in
      if normalized_reply_id = [] then Inl (ValueError ''reply_id cannot be empty'')
      else Inr (join '' '' ([REPLY_PREFIX @ normalized_reply_id] @
             (if normalized_delivery_job_id \<noteq> [] then [DELIVERY_PREFIX @ normalized_delivery_job_id] else []))))"

fun first_with_prefix :: "string \<Rightarrow> string list \<Rightarrow> string option" where
  "first_with_prefix p [] = None"
| "first_with_prefix p (token # tokens) =
     (if py_startswith token p then str_or_none (py_strip (drop (length p) token))
      else first_with_prefix p tokens)"

definition value_for_prefix :: "string option \<Rightarrow> string \<Rightarrow> string option" where
  "value_for_prefix payload_ref prefix =
     (let text = py_strip (str_or_empty payload_ref) in
      if text = [] then None
      else first_with_prefix prefix (py_split (map (\<lambda>c. if c = CHR '';'' then CHR '' '' else c) text)))"

definition reply_id_from_payload :: "string option \<Rightarrow> string option" where
  "reply_id_from_payload payload_ref = value_for_prefix payload_ref REPLY_PREFIX"

definition delivery_job_id_from_payload :: "string option \<Rightarrow> string option" where
  "delivery_job_id_from_payload payload_ref = value_for_prefix payload_ref DELIVERY_PREFIX"

text \<open>An id that stands as one token of a reference\<close>
definition plain_id :: "string \<Rightarrow> bool" where
  "plain_id s \<longleftrightarrow> s \<noteq> [] \<and> no_space s \<and> CHR '';'' \<notin> set s"

lemma plain_id_strip [simp]: "plain_id s \<Longrightarrow> py_strip s = s"
  by (simp add: plain_id_def no_space_stripped)

lemma replace_semicolon: "CHR '';'' \<notin> set s \<Longrightarrow> map (\<lambda>c. if c = CHR '';'' then CHR '' '' else c) s = s"
  by (rule map_idI) auto

lemma startswith_append [simp]: "py_startswith (p @ s) p"
  by (simp add: py_startswith_def)

lemma value_of_tokens:
  assumes "\<And>w. w \<in> set ws \<Longrightarrow> no_space w \<and> w \<noteq> [] \<and> CHR '';'' \<notin> set w" "ws \<noteq> []"
  shows "value_for_prefix (Some (join '' '' ws)) p = first_with_prefix p ws"
proof -
  have ne: "join '' '' ws \<noteq> []" using assms by (cases ws; cases "tl ws") auto
  have hd: "hd (join '' '' ws) = hd (hd ws)" using assms by (cases ws; cases "tl ws") auto
  have "last (join '' '' ws) = last (last ws)" using assms
  proof (induction ws rule: induct_list012)
    case (3 w v ws)
    have "join '' '' (v # ws) \<noteq> []" using 3 by (cases ws) auto
    with 3 show ?case by (simp add: last_append)
  qed auto
  moreover have "\<not> py_isspace (hd (hd ws))" "\<not> py_isspace (last (last ws))"
    using assms(1) [of "hd ws"] assms(1) [of "last ws"] assms(2)
    by (auto simp: no_space_def list_all_iff)
  ultimately have st: "stripped (join '' '' ws)" using hd by (simp add: stripped_def)
  have "CHR '';'' \<notin> set (join '' '' ws)" using assms by (induction ws rule: induct_list012) auto
  then show ?thesis
    using st ne assms py_split_join [of ws]
    by (simp add: value_for_prefix_def str_or_empty_def Let_def replace_semicolon)
qed

lemma reply_ref_roundtrip:
  "plain_id r \<Longrightarrow> reply_id_from_payload (Some (''reply:'' @ r)) = Some r"
  "plain_id r \<Longrightarrow> delivery_job_id_from_payload (Some (''reply:'' @ r)) = None"
proof -
  assume r: "plain_id r"
  have v: "value_for_prefix (Some (join '' '' [REPLY_PREFIX @ r])) p = first_with_prefix p [REPLY_PREFIX @ r]" for p
    using r by (intro value_of_tokens) (auto simp: plain_id_def no_space_def REPLY_PREFIX_def py_isspace_def)
  from r v show "reply_id_from_payload (Some (''reply:'' @ r)) = Some r"
    by (simp add: reply_id_from_payload_def plain_id_def REPLY_PREFIX_def py_startswith_def)
  from r v show "delivery_job_id_from_payload (Some (''reply:'' @ r)) = None"
    by (simp add: delivery_job_id_from_payload_def plain_id_def REPLY_PREFIX_def DELIVERY_PREFIX_def py_startswith_def)
qed

text \<open>
  C40. References read back. For ids without white space and semicolons the reference composed for a
  reply, with or without the job that delivers it, is read back to exactly these ids.
\<close>
theorem reply_payload_roundtrip:
  assumes "plain_id r" "\<And>j. d = Some j \<Longrightarrow> plain_id j"
  shows "\<exists>ref. compose_reply_payload r d = Inr ref \<and> reply_id_from_payload (Some ref) = Some r \<and>
    delivery_job_id_from_payload (Some ref) = d"
proof (cases d)
  case None
  have "value_for_prefix (Some (join '' '' [REPLY_PREFIX @ r])) p = first_with_prefix p [REPLY_PREFIX @ r]" for p
    using assms(1) by (intro value_of_tokens) (auto simp: plain_id_def no_space_def REPLY_PREFIX_def py_isspace_def)
  with assms(1) None show ?thesis
    by (simp add: compose_reply_payload_def Let_def reply_id_from_payload_def delivery_job_id_from_payload_def
        str_or_empty_def)
      (simp add: plain_id_def REPLY_PREFIX_def DELIVERY_PREFIX_def py_startswith_def)
next
  case (Some j)
  then have j: "plain_id j" using assms(2) by simp
  have "value_for_prefix (Some (join '' '' [REPLY_PREFIX @ r, DELIVERY_PREFIX @ j])) p =
      first_with_prefix p [REPLY_PREFIX @ r, DELIVERY_PREFIX @ j]" for p
    using assms(1) j
    by (intro value_of_tokens) (auto simp: plain_id_def no_space_def REPLY_PREFIX_def DELIVERY_PREFIX_def py_isspace_def)
  with assms(1) j Some show ?thesis
    by (simp add: compose_reply_payload_def Let_def reply_id_from_payload_def delivery_job_id_from_payload_def
        str_or_empty_def plain_id_def [of j])
      (simp add: plain_id_def REPLY_PREFIX_def DELIVERY_PREFIX_def py_startswith_def)
qed

theorem reply_payload_roundtrip_witness:
  "\<exists>ref. compose_reply_payload ''rep_1'' (Some ''job_2'') = Inr ref \<and>
    reply_id_from_payload (Some ref) = Some ''rep_1'' \<and> delivery_job_id_from_payload (Some ref) = Some ''job_2''"
  by (rule reply_payload_roundtrip) (auto simp: plain_id_def no_space_def py_isspace_def)

section \<open>References to jobs\<close>

definition job_id_from_payload_ref :: "string option \<Rightarrow> string option" where
  "job_id_from_payload_ref payload_ref =
     (let text = py_strip (str_or_empty payload_ref) in
      if \<not> py_startswith text ''job:'' then None else str_or_none (py_strip (drop 4 text)))"

lemma job_ref_roundtrip: "stripped j \<Longrightarrow> j \<noteq> [] \<Longrightarrow> job_id_from_payload_ref (Some (''job:'' @ j)) = Some j"
proof -
  assume j: "stripped j" "j \<noteq> []"
  then have "stripped (''job:'' @ j)" by (auto simp: stripped_def py_isspace_def)
  with j show ?thesis
    by (simp add: job_id_from_payload_ref_def str_or_empty_def Let_def py_startswith_def)
qed

section \<open>Diagnostics of a reply\<close>

definition reply_notice_kind :: "reply_record \<Rightarrow> string option" where
  "reply_notice_kind r = str_or_none (py_lower (py_strip (str_or (jget (rep_diagnostics r) ''notice_kind'') '''')))"

definition reply_notice :: "reply_record \<Rightarrow> bool" where
  "reply_notice r \<longleftrightarrow> py_truthy (jget (rep_diagnostics r) ''notice'') \<or> opt_truthy (reply_notice_kind r)"

definition reply_last_progress_at :: "reply_record \<Rightarrow> string option" where
  "reply_last_progress_at r = str_or_none (py_strip (str_or (jget (rep_diagnostics r) ''last_progress_at'') ''''))"

section \<open>What is recorded for a finished job\<close>

definition attempt_state_for_status :: "job_status \<Rightarrow> attempt_state" where
  "attempt_state_for_status status = (case status of
       JS_COMPLETED \<Rightarrow> ATT_COMPLETED | JS_FAILED \<Rightarrow> ATT_FAILED | JS_INCOMPLETE \<Rightarrow> ATT_INCOMPLETE
     | JS_CANCELLED \<Rightarrow> ATT_CANCELLED | _ \<Rightarrow> ATT_INCOMPLETE)"

definition reply_status_for_job :: "job_status \<Rightarrow> reply_status" where
  "reply_status_for_job status = (case status of
       JS_COMPLETED \<Rightarrow> REP_COMPLETED | JS_FAILED \<Rightarrow> REP_FAILED | JS_INCOMPLETE \<Rightarrow> REP_INCOMPLETE
     | JS_CANCELLED \<Rightarrow> REP_CANCELLED | _ \<Rightarrow> REP_INCOMPLETE)"

definition delivered_reply_text :: "job_record \<Rightarrow> completion_decision \<Rightarrow> string" where
  "delivered_reply_text job decision =
     (if jr_status job \<noteq> JS_COMPLETED then de_reply decision
      else if \<not> me_silence_on_success (jr_request job) then de_reply decision
      else let task_id = py_strip (str_or_empty (me_task_id (jr_request job))) in
        join '' '' ([''CCB_COMPLETE'', ''from='' @ jr_agent_name job,
            ''status='' @ job_status_value (jr_status job), ''job='' @ jr_job_id job] @
          (if task_id \<noteq> [] then [''task='' @ task_id] else []) @ [''result=hidden'']))"

end
