(* ===== verification/Mailbox_Models.thy ===== *)
theory Mailbox_Models
  imports Codecs Agent_Names
begin

text \<open>
  The records of the mailbox kernel and their codecs: \<open>lib/mailbox_kernel/model_enums.py\<close>,
  \<open>models.py\<close> and \<open>model_codecs.py\<close>. The field \<open>agent_name\<close> of \<open>MailboxRecord\<close> is
  \<open>mb_agent_name\<close>, of \<open>InboundEventRecord\<close> \<open>ev_agent_name\<close>, of \<open>DeliveryLease\<close>
  \<open>dl_agent_name\<close>, and likewise for the other fields. A dataclass constructor is
  \<open>normalize_...\<close>, its \<open>__post_init__\<close>, applied to the fields.
\<close>

section \<open>Enumerations\<close>

definition SCHEMA_VERSION :: int where
  "SCHEMA_VERSION = 1"

datatype mailbox_state = MS_IDLE | MS_DELIVERING | MS_BLOCKED | MS_RECOVERING | MS_DEGRADED

fun mailbox_state_value :: "mailbox_state \<Rightarrow> string" where
  "mailbox_state_value MS_IDLE = ''idle''"
| "mailbox_state_value MS_DELIVERING = ''delivering''"
| "mailbox_state_value MS_BLOCKED = ''blocked''"
| "mailbox_state_value MS_RECOVERING = ''recovering''"
| "mailbox_state_value MS_DEGRADED = ''degraded''"

definition mailbox_states :: "mailbox_state list" where
  "mailbox_states = [MS_IDLE, MS_DELIVERING, MS_BLOCKED, MS_RECOVERING, MS_DEGRADED]"

datatype inbound_event_type =
  TASK_REQUEST | TASK_REPLY | COMPLETION_NOTICE | RETRY_SIGNAL | SYSTEM_SIGNAL | BARRIER_RELEASE

fun event_type_value :: "inbound_event_type \<Rightarrow> string" where
  "event_type_value TASK_REQUEST = ''task_request''"
| "event_type_value TASK_REPLY = ''task_reply''"
| "event_type_value COMPLETION_NOTICE = ''completion_notice''"
| "event_type_value RETRY_SIGNAL = ''retry_signal''"
| "event_type_value SYSTEM_SIGNAL = ''system_signal''"
| "event_type_value BARRIER_RELEASE = ''barrier_release''"

definition event_types :: "inbound_event_type list" where
  "event_types = [TASK_REQUEST, TASK_REPLY, COMPLETION_NOTICE, RETRY_SIGNAL, SYSTEM_SIGNAL,
     BARRIER_RELEASE]"

datatype inbound_event_status =
  IE_CREATED | IE_QUEUED | IE_DELIVERING | IE_CONSUMED | IE_SUPERSEDED | IE_ABANDONED

fun event_status_value :: "inbound_event_status \<Rightarrow> string" where
  "event_status_value IE_CREATED = ''created''"
| "event_status_value IE_QUEUED = ''queued''"
| "event_status_value IE_DELIVERING = ''delivering''"
| "event_status_value IE_CONSUMED = ''consumed''"
| "event_status_value IE_SUPERSEDED = ''superseded''"
| "event_status_value IE_ABANDONED = ''abandoned''"

definition event_statuses :: "inbound_event_status list" where
  "event_statuses = [IE_CREATED, IE_QUEUED, IE_DELIVERING, IE_CONSUMED, IE_SUPERSEDED, IE_ABANDONED]"

datatype lease_state = LS_ACQUIRED | LS_RELEASED | LS_EXPIRED | LS_ORPHANED

fun lease_state_value :: "lease_state \<Rightarrow> string" where
  "lease_state_value LS_ACQUIRED = ''acquired''"
| "lease_state_value LS_RELEASED = ''released''"
| "lease_state_value LS_EXPIRED = ''expired''"
| "lease_state_value LS_ORPHANED = ''orphaned''"

definition lease_states :: "lease_state list" where
  "lease_states = [LS_ACQUIRED, LS_RELEASED, LS_EXPIRED, LS_ORPHANED]"

interpretation mstate: enum_codec mailbox_states mailbox_state_value
proof
  show "x \<in> set mailbox_states" for x by (cases x) (simp_all add: mailbox_states_def)
  show "mailbox_state_value x = mailbox_state_value y \<Longrightarrow> x = y" for x y
    by (cases x; cases y) simp_all
qed

interpretation etype: enum_codec event_types event_type_value
proof
  show "x \<in> set event_types" for x by (cases x) (simp_all add: event_types_def)
  show "event_type_value x = event_type_value y \<Longrightarrow> x = y" for x y
    by (cases x; cases y) simp_all
qed

interpretation estatus: enum_codec event_statuses event_status_value
proof
  show "x \<in> set event_statuses" for x by (cases x) (simp_all add: event_statuses_def)
  show "event_status_value x = event_status_value y \<Longrightarrow> x = y" for x y
    by (cases x; cases y) simp_all
qed

interpretation lstate: enum_codec lease_states lease_state_value
proof
  show "x \<in> set lease_states" for x by (cases x) (simp_all add: lease_states_def)
  show "lease_state_value x = lease_state_value y \<Longrightarrow> x = y" for x y
    by (cases x; cases y) simp_all
qed

lemmas mailbox_enum_roundtrips [codec_simps] =
  mstate.of_value_value etype.of_value_value estatus.of_value_value lstate.of_value_value

section \<open>Records\<close>

record mailbox_record =
  mb_mailbox_id :: string
  mb_agent_name :: string
  mb_summary_version :: int
  mb_summary_source :: string
  mb_summary_refreshed_at :: string
  mb_active_inbound_event_id :: "string option"
  mb_queue_depth :: int
  mb_pending_reply_count :: int
  mb_head_inbound_event_id :: "string option"
  mb_head_event_type :: "string option"
  mb_head_status :: "string option"
  mb_head_message_id :: "string option"
  mb_head_attempt_id :: "string option"
  mb_head_payload_ref :: "string option"
  mb_last_inbound_started_at :: "string option"
  mb_last_inbound_finished_at :: "string option"
  mb_mailbox_state :: mailbox_state
  mb_lease_version :: int
  mb_updated_at :: string

record inbound_event =
  ev_inbound_event_id :: string
  ev_agent_name :: string
  ev_event_type :: inbound_event_type
  ev_message_id :: string
  ev_attempt_id :: "string option"
  ev_payload_ref :: "string option"
  ev_priority :: int
  ev_status :: inbound_event_status
  ev_created_at :: string
  ev_started_at :: "string option"
  ev_finished_at :: "string option"

record delivery_lease =
  dl_agent_name :: string
  dl_inbound_event_id :: string
  dl_lease_version :: int
  dl_acquired_at :: string
  dl_last_progress_at :: "string option"
  dl_expires_at :: "string option"
  dl_lease_state :: lease_state

section \<open>Constructors\<close>

definition normalize_mailbox_record :: "mailbox_record \<Rightarrow> mailbox_record result" where
  "normalize_mailbox_record r =
     rbind (rcheck (mb_mailbox_id r = []) (ValueError ''mailbox_id cannot be empty'')) (\<lambda>_.
     rbind (rcheck (mb_agent_name r = []) (ValueError ''agent_name cannot be empty'')) (\<lambda>_.
     rbind (rcheck (mb_summary_version r < 0) (ValueError ''summary_version cannot be negative'')) (\<lambda>_.
     rbind (rcheck (py_strip (mb_summary_source r) = []) (ValueError ''summary_source cannot be empty'')) (\<lambda>_.
     rbind (rcheck (py_strip (mb_summary_refreshed_at r) = [])
              (ValueError ''summary_refreshed_at cannot be empty'')) (\<lambda>_.
     rbind (rcheck (mb_queue_depth r < 0) (ValueError ''queue_depth cannot be negative'')) (\<lambda>_.
     rbind (rcheck (mb_pending_reply_count r < 0) (ValueError ''pending_reply_count cannot be negative'')) (\<lambda>_.
     rbind (rcheck (mb_lease_version r < 0) (ValueError ''lease_version cannot be negative'')) (\<lambda>_.
     rbind (normalize_mailbox_owner_name (Some (mb_agent_name r))) (\<lambda>name.
     Inr (r\<lparr>mb_agent_name := name\<rparr>))))))))))"

definition normalize_inbound_event_record :: "inbound_event \<Rightarrow> inbound_event result" where
  "normalize_inbound_event_record r =
     rbind (rcheck (ev_inbound_event_id r = []) (ValueError ''inbound_event_id cannot be empty'')) (\<lambda>_.
     rbind (rcheck (ev_agent_name r = []) (ValueError ''agent_name cannot be empty'')) (\<lambda>_.
     rbind (rcheck (ev_message_id r = []) (ValueError ''message_id cannot be empty'')) (\<lambda>_.
     rbind (rcheck (ev_priority r < 0) (ValueError ''priority cannot be negative'')) (\<lambda>_.
     rbind (normalize_mailbox_owner_name (Some (ev_agent_name r))) (\<lambda>name.
     Inr (r\<lparr>ev_agent_name := name\<rparr>))))))"

definition normalize_delivery_lease :: "delivery_lease \<Rightarrow> delivery_lease result" where
  "normalize_delivery_lease r =
     rbind (rcheck (dl_agent_name r = []) (ValueError ''agent_name cannot be empty'')) (\<lambda>_.
     rbind (rcheck (dl_inbound_event_id r = []) (ValueError ''inbound_event_id cannot be empty'')) (\<lambda>_.
     rbind (rcheck (dl_lease_version r < 0) (ValueError ''lease_version cannot be negative'')) (\<lambda>_.
     rbind (normalize_mailbox_owner_name (Some (dl_agent_name r))) (\<lambda>name.
     Inr (r\<lparr>dl_agent_name := name\<rparr>)))))"

text \<open>The records a constructor returns\<close>

definition valid_mailbox :: "mailbox_record \<Rightarrow> bool" where
  "valid_mailbox r \<longleftrightarrow> mb_mailbox_id r \<noteq> [] \<and> owner_name_ok (mb_agent_name r) \<and>
     0 \<le> mb_summary_version r \<and> py_strip (mb_summary_source r) \<noteq> [] \<and>
     py_strip (mb_summary_refreshed_at r) \<noteq> [] \<and> 0 \<le> mb_queue_depth r \<and>
     0 \<le> mb_pending_reply_count r \<and> 0 \<le> mb_lease_version r"

definition valid_event :: "inbound_event \<Rightarrow> bool" where
  "valid_event r \<longleftrightarrow> ev_inbound_event_id r \<noteq> [] \<and> owner_name_ok (ev_agent_name r) \<and>
     ev_message_id r \<noteq> [] \<and> 0 \<le> ev_priority r"

definition valid_lease :: "delivery_lease \<Rightarrow> bool" where
  "valid_lease r \<longleftrightarrow> owner_name_ok (dl_agent_name r) \<and> dl_inbound_event_id r \<noteq> [] \<and>
     0 \<le> dl_lease_version r"

lemma normalize_mailbox_record_valid: "normalize_mailbox_record r = Inr r' \<Longrightarrow> valid_mailbox r'"
  by (auto simp: normalize_mailbox_record_def valid_mailbox_def rbind_Inr_iff
      dest: normalize_owner_ok)

lemma normalize_mailbox_record_fixed [simp]:
  "valid_mailbox r \<Longrightarrow> normalize_mailbox_record r = Inr r"
  by (auto simp: normalize_mailbox_record_def valid_mailbox_def dest: owner_name_ok_not_Nil)

lemma normalize_inbound_event_valid: "normalize_inbound_event_record r = Inr r' \<Longrightarrow> valid_event r'"
  by (auto simp: normalize_inbound_event_record_def valid_event_def rbind_Inr_iff
      dest: normalize_owner_ok)

lemma normalize_inbound_event_fixed [simp]:
  "valid_event r \<Longrightarrow> normalize_inbound_event_record r = Inr r"
  by (auto simp: normalize_inbound_event_record_def valid_event_def dest: owner_name_ok_not_Nil)

lemma normalize_delivery_lease_valid: "normalize_delivery_lease r = Inr r' \<Longrightarrow> valid_lease r'"
  by (auto simp: normalize_delivery_lease_def valid_lease_def rbind_Inr_iff
      dest: normalize_owner_ok)

lemma normalize_delivery_lease_fixed [simp]:
  "valid_lease r \<Longrightarrow> normalize_delivery_lease r = Inr r"
  by (auto simp: normalize_delivery_lease_def valid_lease_def dest: owner_name_ok_not_Nil)

section \<open>Codecs\<close>

definition mailbox_to_record :: "mailbox_record \<Rightarrow> payload" where
  "mailbox_to_record r =
     [(''schema_version'', JInt SCHEMA_VERSION),
      (''record_type'', JStr ''mailbox_record''),
      (''mailbox_id'', JStr (mb_mailbox_id r)),
      (''agent_name'', JStr (mb_agent_name r)),
      (''summary_version'', JInt (mb_summary_version r)),
      (''summary_source'', JStr (mb_summary_source r)),
      (''summary_refreshed_at'', JStr (mb_summary_refreshed_at r)),
      (''active_inbound_event_id'', jopt (mb_active_inbound_event_id r)),
      (''queue_depth'', JInt (mb_queue_depth r)),
      (''pending_reply_count'', JInt (mb_pending_reply_count r)),
      (''head_inbound_event_id'', jopt (mb_head_inbound_event_id r)),
      (''head_event_type'', jopt (mb_head_event_type r)),
      (''head_status'', jopt (mb_head_status r)),
      (''head_message_id'', jopt (mb_head_message_id r)),
      (''head_attempt_id'', jopt (mb_head_attempt_id r)),
      (''head_payload_ref'', jopt (mb_head_payload_ref r)),
      (''last_inbound_started_at'', jopt (mb_last_inbound_started_at r)),
      (''last_inbound_finished_at'', jopt (mb_last_inbound_finished_at r)),
      (''mailbox_state'', JStr (mailbox_state_value (mb_mailbox_state r))),
      (''lease_version'', JInt (mb_lease_version r)),
      (''updated_at'', JStr (mb_updated_at r))]"

definition mailbox_from_record :: "payload \<Rightarrow> mailbox_record result" where
  "mailbox_from_record p =
     rbind (validate_record SCHEMA_VERSION p ''mailbox_record'') (\<lambda>_.
     rbind (jfield p ''mailbox_id'') (\<lambda>mailbox_id.
     rbind (jfield p ''agent_name'') (\<lambda>agent_name.
     rbind (py_int (jget_default p ''summary_version'' (JInt 0))) (\<lambda>summary_version.
     rbind (opt_string (jget p ''active_inbound_event_id'')) (\<lambda>active.
     rbind (py_int (jget_default p ''queue_depth'' (JInt 0))) (\<lambda>queue_depth.
     rbind (py_int (jget_default p ''pending_reply_count'' (JInt 0))) (\<lambda>pending.
     rbind (opt_string (jget p ''head_inbound_event_id'')) (\<lambda>head_id.
     rbind (opt_string (jget p ''head_event_type'')) (\<lambda>head_type.
     rbind (opt_string (jget p ''head_status'')) (\<lambda>head_status.
     rbind (opt_string (jget p ''head_message_id'')) (\<lambda>head_message.
     rbind (opt_string (jget p ''head_attempt_id'')) (\<lambda>head_attempt.
     rbind (opt_string (jget p ''head_payload_ref'')) (\<lambda>head_payload.
     rbind (opt_string (jget p ''last_inbound_started_at'')) (\<lambda>last_started.
     rbind (opt_string (jget p ''last_inbound_finished_at'')) (\<lambda>last_finished.
     rbind (enum_of_value ''MailboxState'' mailbox_states mailbox_state_value
              (py_str (jget_default p ''mailbox_state'' (JStr (mailbox_state_value MS_IDLE))))) (\<lambda>state.
     rbind (py_int (jget_default p ''lease_version'' (JInt 0))) (\<lambda>lease_version.
     Inr \<lparr>mb_mailbox_id = py_str mailbox_id, mb_agent_name = py_str agent_name,
          mb_summary_version = summary_version,
          mb_summary_source = str_or (jget p ''summary_source'') ''legacy-load'',
          mb_summary_refreshed_at =
            str_or (jget p ''summary_refreshed_at'') (str_or (jget p ''updated_at'') ''''),
          mb_active_inbound_event_id = active, mb_queue_depth = queue_depth,
          mb_pending_reply_count = pending, mb_head_inbound_event_id = head_id,
          mb_head_event_type = head_type, mb_head_status = head_status,
          mb_head_message_id = head_message, mb_head_attempt_id = head_attempt,
          mb_head_payload_ref = head_payload, mb_last_inbound_started_at = last_started,
          mb_last_inbound_finished_at = last_finished, mb_mailbox_state = state,
          mb_lease_version = lease_version,
          mb_updated_at = str_or (jget p ''updated_at'') ''''\<rparr>)))))))))))))))))"

definition MailboxRecord_from_record :: "payload \<Rightarrow> mailbox_record result" where
  "MailboxRecord_from_record p = rbind (mailbox_from_record p) normalize_mailbox_record"

definition inbound_event_to_record :: "inbound_event \<Rightarrow> payload" where
  "inbound_event_to_record r =
     [(''schema_version'', JInt SCHEMA_VERSION),
      (''record_type'', JStr ''inbound_event_record''),
      (''inbound_event_id'', JStr (ev_inbound_event_id r)),
      (''agent_name'', JStr (ev_agent_name r)),
      (''event_type'', JStr (event_type_value (ev_event_type r))),
      (''message_id'', JStr (ev_message_id r)),
      (''attempt_id'', jopt (ev_attempt_id r)),
      (''payload_ref'', jopt (ev_payload_ref r)),
      (''priority'', JInt (ev_priority r)),
      (''status'', JStr (event_status_value (ev_status r))),
      (''created_at'', JStr (ev_created_at r)),
      (''started_at'', jopt (ev_started_at r)),
      (''finished_at'', jopt (ev_finished_at r))]"

definition inbound_event_from_record :: "payload \<Rightarrow> inbound_event result" where
  "inbound_event_from_record p =
     rbind (validate_record SCHEMA_VERSION p ''inbound_event_record'') (\<lambda>_.
     rbind (jfield p ''inbound_event_id'') (\<lambda>inbound_event_id.
     rbind (jfield p ''agent_name'') (\<lambda>agent_name.
     rbind (jfield p ''event_type'') (\<lambda>event_type_json.
     rbind (enum_of_value ''InboundEventType'' event_types event_type_value (py_str event_type_json)) (\<lambda>event_type.
     rbind (jfield p ''message_id'') (\<lambda>message_id.
     rbind (opt_string (jget p ''attempt_id'')) (\<lambda>attempt_id.
     rbind (opt_string (jget p ''payload_ref'')) (\<lambda>payload_ref.
     rbind (py_int (jget_default p ''priority'' (JInt 0))) (\<lambda>priority.
     rbind (enum_of_value ''InboundEventStatus'' event_statuses event_status_value
              (py_str (jget_default p ''status'' (JStr (event_status_value IE_QUEUED))))) (\<lambda>status.
     rbind (opt_string (jget p ''started_at'')) (\<lambda>started_at.
     rbind (opt_string (jget p ''finished_at'')) (\<lambda>finished_at.
     Inr \<lparr>ev_inbound_event_id = py_str inbound_event_id, ev_agent_name = py_str agent_name,
          ev_event_type = event_type, ev_message_id = py_str message_id,
          ev_attempt_id = attempt_id, ev_payload_ref = payload_ref, ev_priority = priority,
          ev_status = status, ev_created_at = str_or (jget p ''created_at'') '''',
          ev_started_at = started_at, ev_finished_at = finished_at\<rparr>))))))))))))"

definition InboundEventRecord_from_record :: "payload \<Rightarrow> inbound_event result" where
  "InboundEventRecord_from_record p = rbind (inbound_event_from_record p) normalize_inbound_event_record"

definition delivery_lease_to_record :: "delivery_lease \<Rightarrow> payload" where
  "delivery_lease_to_record r =
     [(''schema_version'', JInt SCHEMA_VERSION),
      (''record_type'', JStr ''delivery_lease''),
      (''agent_name'', JStr (dl_agent_name r)),
      (''inbound_event_id'', JStr (dl_inbound_event_id r)),
      (''lease_version'', JInt (dl_lease_version r)),
      (''acquired_at'', JStr (dl_acquired_at r)),
      (''last_progress_at'', jopt (dl_last_progress_at r)),
      (''expires_at'', jopt (dl_expires_at r)),
      (''lease_state'', JStr (lease_state_value (dl_lease_state r)))]"

definition delivery_lease_from_record :: "payload \<Rightarrow> delivery_lease result" where
  "delivery_lease_from_record p =
     rbind (validate_record SCHEMA_VERSION p ''delivery_lease'') (\<lambda>_.
     rbind (jfield p ''agent_name'') (\<lambda>agent_name.
     rbind (jfield p ''inbound_event_id'') (\<lambda>inbound_event_id.
     rbind (py_int (jget_default p ''lease_version'' (JInt 0))) (\<lambda>lease_version.
     rbind (opt_string (jget p ''last_progress_at'')) (\<lambda>last_progress_at.
     rbind (opt_string (jget p ''expires_at'')) (\<lambda>expires_at.
     rbind (enum_of_value ''LeaseState'' lease_states lease_state_value
              (py_str (jget_default p ''lease_state'' (JStr (lease_state_value LS_ACQUIRED))))) (\<lambda>lease_state.
     Inr \<lparr>dl_agent_name = py_str agent_name, dl_inbound_event_id = py_str inbound_event_id,
          dl_lease_version = lease_version, dl_acquired_at = str_or (jget p ''acquired_at'') '''',
          dl_last_progress_at = last_progress_at, dl_expires_at = expires_at,
          dl_lease_state = lease_state\<rparr>)))))))"

definition DeliveryLease_from_record :: "payload \<Rightarrow> delivery_lease result" where
  "DeliveryLease_from_record p = rbind (delivery_lease_from_record p) normalize_delivery_lease"

section \<open>The codecs meet their contract\<close>

interpretation mailbox_codec:
  record_codec mailbox_to_record MailboxRecord_from_record valid_mailbox
proof
  fix r :: mailbox_record
  assume v: "valid_mailbox r"
  then have "mb_summary_source r \<noteq> []" "mb_summary_refreshed_at r \<noteq> []"
    by (auto simp: valid_mailbox_def)
  then have "mailbox_from_record (mailbox_to_record r) = Inr r"
    by (cases r) (simp add: mailbox_to_record_def mailbox_from_record_def codec_simps)
  with v show "MailboxRecord_from_record (mailbox_to_record r) = Inr r"
    by (simp add: MailboxRecord_from_record_def)
next
  show "MailboxRecord_from_record p = Inr r \<Longrightarrow> valid_mailbox r" for p r
    by (auto simp: MailboxRecord_from_record_def rbind_Inr_iff dest: normalize_mailbox_record_valid)
qed

interpretation event_codec:
  record_codec inbound_event_to_record InboundEventRecord_from_record valid_event
proof
  fix r :: inbound_event
  assume v: "valid_event r"
  have "inbound_event_from_record (inbound_event_to_record r) = Inr r"
    by (cases r) (simp add: inbound_event_to_record_def inbound_event_from_record_def codec_simps)
  with v show "InboundEventRecord_from_record (inbound_event_to_record r) = Inr r"
    by (simp add: InboundEventRecord_from_record_def)
next
  show "InboundEventRecord_from_record p = Inr r \<Longrightarrow> valid_event r" for p r
    by (auto simp: InboundEventRecord_from_record_def rbind_Inr_iff
        dest: normalize_inbound_event_valid)
qed

interpretation lease_codec:
  record_codec delivery_lease_to_record DeliveryLease_from_record valid_lease
proof
  fix r :: delivery_lease
  assume v: "valid_lease r"
  have "delivery_lease_from_record (delivery_lease_to_record r) = Inr r"
    by (cases r) (simp add: delivery_lease_to_record_def delivery_lease_from_record_def codec_simps)
  with v show "DeliveryLease_from_record (delivery_lease_to_record r) = Inr r"
    by (simp add: DeliveryLease_from_record_def)
next
  show "DeliveryLease_from_record p = Inr r \<Longrightarrow> valid_lease r" for p r
    by (auto simp: DeliveryLease_from_record_def rbind_Inr_iff dest: normalize_delivery_lease_valid)
qed

section \<open>Properties of the stored records\<close>

text \<open>
  C26. What is stored reads back. A mailbox summary, the rows of an inbound log and a delivery lease
  that the constructors accept are read back unchanged from the dictionaries they are written as.
\<close>
theorem kernel_records_roundtrip:
  assumes "valid_mailbox m" "list_all valid_event es" "valid_lease l"
  shows "MailboxRecord_from_record (mailbox_to_record m) = Inr m \<and>
    rmap InboundEventRecord_from_record (map inbound_event_to_record es) = Inr es \<and>
    DeliveryLease_from_record (delivery_lease_to_record l) = Inr l"
  using assms by (simp add: mailbox_codec.decode_encode event_codec.rows_roundtrip lease_codec.decode_encode)

theorem kernel_records_roundtrip_witness:
  "let e = \<lparr>ev_inbound_event_id = ''iev_1'', ev_agent_name = ''agent1'', ev_event_type = TASK_REPLY,
     ev_message_id = ''msg_1'', ev_attempt_id = None, ev_payload_ref = Some ''reply:rep_1'',
     ev_priority = 10, ev_status = IE_QUEUED, ev_created_at = ''t0'', ev_started_at = None,
     ev_finished_at = None\<rparr>;
     l = \<lparr>dl_agent_name = ''agent1'', dl_inbound_event_id = ''iev_1'', dl_lease_version = 3,
     dl_acquired_at = ''t1'', dl_last_progress_at = Some ''t1'', dl_expires_at = None,
     dl_lease_state = LS_ACQUIRED\<rparr>;
     m = \<lparr>mb_mailbox_id = ''mbx_agent1'', mb_agent_name = ''agent1'', mb_summary_version = 4,
     mb_summary_source = ''transition-claim'', mb_summary_refreshed_at = ''t1'',
     mb_active_inbound_event_id = Some ''iev_1'', mb_queue_depth = 1, mb_pending_reply_count = 1,
     mb_head_inbound_event_id = Some ''iev_1'', mb_head_event_type = Some ''task_reply'',
     mb_head_status = Some ''delivering'', mb_head_message_id = Some ''msg_1'', mb_head_attempt_id = None,
     mb_head_payload_ref = Some ''reply:rep_1'', mb_last_inbound_started_at = Some ''t1'',
     mb_last_inbound_finished_at = None, mb_mailbox_state = MS_DELIVERING, mb_lease_version = 3,
     mb_updated_at = ''t1''\<rparr>
   in MailboxRecord_from_record (mailbox_to_record m) = Inr m \<and>
      rmap InboundEventRecord_from_record (map inbound_event_to_record [e, e]) = Inr [e, e] \<and>
      DeliveryLease_from_record (delivery_lease_to_record l) = Inr l"
  unfolding Let_def by (intro kernel_records_roundtrip; code_simp)

end
