(* ===== verification/Mailbox_Kernel.thy ===== *)
theory Mailbox_Kernel
  imports Mailbox_Models
begin

text \<open>
  The state of the mailbox kernel, its three stores, the queries over the inbound log and the
  mailbox summary: \<open>lib/mailbox_kernel/store.py\<close>, \<open>service_state.py\<close>,
  \<open>service_runtime/queries.py\<close>, \<open>service_runtime/mailbox.py\<close> and
  \<open>service_runtime/summary.py\<close>.

  A store maps the name its path is built from to the typed record (the codecs of
  \<open>Mailbox_Models\<close> show that a record survives its file). The clock is a sequence of readings;
  each call of \<open>service._clock()\<close> takes the next one. The state is an extensible record, so
  that the message bureau can run the same operations on its own, larger state.
\<close>

named_theorems kernel_defs \<open>definitions of the kernel's operations\<close>
named_theorems kernel_run \<open>the kernel's operations run on a normal name\<close>

section \<open>State and stores\<close>

record kernel_state =
  ks_mailboxes :: "string \<Rightarrow> mailbox_record option"
  ks_inboxes :: "string \<Rightarrow> inbound_event list"
  ks_leases :: "string \<Rightarrow> delivery_lease option"
  ks_clock :: "nat \<Rightarrow> string"
  ks_tick :: nat

definition read_clock :: "('z kernel_state_scheme, string) py" where
  "read_clock s = (Inr (ks_clock s (ks_tick s)), s\<lparr>ks_tick := Suc (ks_tick s)\<rparr>)"

text \<open>\<open>given or service._clock()\<close>\<close>
definition given_or_clock :: "string option \<Rightarrow> ('z kernel_state_scheme, string) py" where
  "given_or_clock given = (case given of
       Some (c # cs) \<Rightarrow> py_return (c # cs)
     | _ \<Rightarrow> read_clock)"

definition store_key :: "string \<Rightarrow> ('z kernel_state_scheme, string) py" where
  "store_key agent_name = py_lift (normalize_mailbox_owner_name (Some agent_name))"

definition mailbox_load :: "string \<Rightarrow> ('z kernel_state_scheme, mailbox_record option) py" where
  "mailbox_load agent_name =
     py_bind (store_key agent_name) (\<lambda>k. py_gets (\<lambda>s. ks_mailboxes s k))"

definition mailbox_save :: "mailbox_record \<Rightarrow> ('z kernel_state_scheme, unit) py" where
  "mailbox_save r =
     py_bind (store_key (mb_agent_name r)) (\<lambda>k.
       py_modify (\<lambda>s. s\<lparr>ks_mailboxes := (ks_mailboxes s)(k \<mapsto> r)\<rparr>))"

definition compare_and_save :: "mailbox_record \<Rightarrow> int option \<Rightarrow> ('z kernel_state_scheme, bool) py" where
  "compare_and_save r expected_summary_version =
     py_bind (mailbox_load (mb_agent_name r)) (\<lambda>current.
       if map_option mb_summary_version current \<noteq> expected_summary_version then py_return False
       else py_then (mailbox_save r) (py_return True))"

definition inbound_append :: "inbound_event \<Rightarrow> ('z kernel_state_scheme, unit) py" where
  "inbound_append r =
     py_bind (store_key (ev_agent_name r)) (\<lambda>k.
       py_modify (\<lambda>s. s\<lparr>ks_inboxes := (ks_inboxes s)(k := ks_inboxes s k @ [r])\<rparr>))"

definition inbound_list_agent :: "string \<Rightarrow> ('z kernel_state_scheme, inbound_event list) py" where
  "inbound_list_agent agent_name =
     py_bind (store_key agent_name) (\<lambda>k. py_gets (\<lambda>s. ks_inboxes s k))"

definition inbound_read_since ::
  "string \<Rightarrow> int \<Rightarrow> ('z kernel_state_scheme, int \<times> inbound_event list) py" where
  "inbound_read_since agent_name start_line =
     py_bind (store_key agent_name) (\<lambda>k.
       if start_line < 0 then py_raise (ValueError ''start_line cannot be negative'')
       else py_gets (\<lambda>s. if ks_inboxes s k = [] then (start_line, [])
              else (int (length (ks_inboxes s k)), drop (nat start_line) (ks_inboxes s k))))"

definition inbound_get_latest ::
  "string \<Rightarrow> string \<Rightarrow> ('z kernel_state_scheme, inbound_event option) py" where
  "inbound_get_latest agent_name inbound_event_id =
     py_bind (store_key agent_name) (\<lambda>k.
       py_gets (\<lambda>s. find_last_in (\<lambda>e. ev_inbound_event_id e = inbound_event_id) (ks_inboxes s k)))"

definition inbound_get_latest_for_attempt ::
  "string \<Rightarrow> string \<Rightarrow> ('z kernel_state_scheme, inbound_event option) py" where
  "inbound_get_latest_for_attempt agent_name attempt_id =
     py_bind (store_key agent_name) (\<lambda>k.
       py_gets (\<lambda>s. find_last_in (\<lambda>e. str_or_empty (ev_attempt_id e) = attempt_id) (ks_inboxes s k)))"

definition lease_load :: "string \<Rightarrow> ('z kernel_state_scheme, delivery_lease option) py" where
  "lease_load agent_name =
     py_bind (store_key agent_name) (\<lambda>k. py_gets (\<lambda>s. ks_leases s k))"

definition lease_save :: "delivery_lease \<Rightarrow> ('z kernel_state_scheme, unit) py" where
  "lease_save r =
     py_bind (store_key (dl_agent_name r)) (\<lambda>k.
       py_modify (\<lambda>s. s\<lparr>ks_leases := (ks_leases s)(k \<mapsto> r)\<rparr>))"

definition lease_remove :: "string \<Rightarrow> ('z kernel_state_scheme, unit) py" where
  "lease_remove agent_name =
     py_bind (store_key agent_name) (\<lambda>k.
       py_modify (\<lambda>s. s\<lparr>ks_leases := (ks_leases s)(k := None)\<rparr>))"

section \<open>Queries\<close>

definition TERMINAL_EVENT_STATES :: "inbound_event_status list" where
  "TERMINAL_EVENT_STATES = [IE_CONSUMED, IE_SUPERSEDED, IE_ABANDONED]"

definition CLAIMABLE_EVENT_STATES :: "inbound_event_status list" where
  "CLAIMABLE_EVENT_STATES = [IE_CREATED, IE_QUEUED]"

abbreviation event_terminal :: "inbound_event \<Rightarrow> bool" where
  "event_terminal e \<equiv> ev_status e \<in> set TERMINAL_EVENT_STATES"

text \<open>The loop of \<open>latest_events\<close>: the newest row per event id and the ids in order of first
  appearance.\<close>
fun latest_loop :: "inbound_event dict \<Rightarrow> string list \<Rightarrow> inbound_event list
    \<Rightarrow> inbound_event dict \<times> string list" where
  "latest_loop latest order [] = (latest, order)"
| "latest_loop latest order (record # records) =
     (let event_id = ev_inbound_event_id record in
      latest_loop (dict_set event_id record latest)
        (if event_id \<in> set (dict_keys latest) then order else order @ [event_id]) records)"

definition latest_of :: "inbound_event list \<Rightarrow> inbound_event list" where
  "latest_of records =
     (let (latest, order) = latest_loop [] [] records in List.map_filter (map_of latest) order)"

definition latest_events :: "string \<Rightarrow> ('z kernel_state_scheme, inbound_event list) py" where
  "latest_events agent_name =
     py_bind (py_lift (normalize_mailbox_owner_name (Some agent_name))) (\<lambda>normalized.
     py_bind (inbound_list_agent normalized) (\<lambda>records. py_return (latest_of records)))"

definition pending_of :: "inbound_event_type option \<Rightarrow> inbound_event list \<Rightarrow> inbound_event list" where
  "pending_of event_type events =
     filter (\<lambda>e. \<not> event_terminal e \<and> (event_type = None \<or> event_type = Some (ev_event_type e))) events"

definition pending_events ::
  "string \<Rightarrow> inbound_event_type option \<Rightarrow> ('z kernel_state_scheme, inbound_event list) py" where
  "pending_events agent_name event_type =
     py_bind (latest_events agent_name) (\<lambda>events. py_return (pending_of event_type events))"

definition head_pending_event :: "string \<Rightarrow> ('z kernel_state_scheme, inbound_event option) py" where
  "head_pending_event agent_name =
     py_bind (pending_events agent_name None) (\<lambda>events.
       py_return (case events of [] \<Rightarrow> None | e # _ \<Rightarrow> Some e))"

definition peek_next ::
  "string \<Rightarrow> inbound_event_type option \<Rightarrow> ('z kernel_state_scheme, inbound_event option) py" where
  "peek_next agent_name event_type =
     py_bind (head_pending_event agent_name) (\<lambda>head.
       case head of None \<Rightarrow> py_return None
       | Some h \<Rightarrow>
           if event_type \<noteq> None \<and> event_type \<noteq> Some (ev_event_type h) then py_return None
           else if ev_status h \<notin> set CLAIMABLE_EVENT_STATES then py_return None
           else py_return (Some h))"

section \<open>The mailbox summary\<close>

text \<open>An argument that defaults to \<open>Ellipsis\<close>\<close>
datatype 'a ellipsis = Ellipsis | Given 'a

record summary_head =
  sh_inbound_event_id :: "string option"
  sh_event_type :: "string option"
  sh_status :: "string option"
  sh_message_id :: "string option"
  sh_attempt_id :: "string option"
  sh_payload_ref :: "string option"

definition empty_head :: summary_head where
  "empty_head = \<lparr>sh_inbound_event_id = None, sh_event_type = None, sh_status = None,
     sh_message_id = None, sh_attempt_id = None, sh_payload_ref = None\<rparr>"

definition summary_head_from_event :: "inbound_event option \<Rightarrow> summary_head" where
  "summary_head_from_event record = (case record of None \<Rightarrow> empty_head
     | Some e \<Rightarrow> \<lparr>sh_inbound_event_id = Some (ev_inbound_event_id e),
         sh_event_type = Some (event_type_value (ev_event_type e)),
         sh_status = Some (event_status_value (ev_status e)),
         sh_message_id = Some (ev_message_id e),
         sh_attempt_id = ev_attempt_id e, sh_payload_ref = ev_payload_ref e\<rparr>)"

definition resolve_summary_head :: "string \<Rightarrow> ('z kernel_state_scheme, summary_head) py" where
  "resolve_summary_head agent_name =
     py_bind (head_pending_event agent_name) (\<lambda>head. py_return (summary_head_from_event head))"

text \<open>The six head fields of a stored summary, as \<open>mark_terminal\<close> copies them\<close>
definition head_of_mailbox :: "mailbox_record \<Rightarrow> summary_head" where
  "head_of_mailbox m = \<lparr>sh_inbound_event_id = mb_head_inbound_event_id m,
     sh_event_type = mb_head_event_type m, sh_status = mb_head_status m,
     sh_message_id = mb_head_message_id m, sh_attempt_id = mb_head_attempt_id m,
     sh_payload_ref = mb_head_payload_ref m\<rparr>"

definition next_summary_version :: "mailbox_record option \<Rightarrow> int" where
  "next_summary_version prior = (case prior of None \<Rightarrow> 1 | Some p \<Rightarrow> mb_summary_version p + 1)"

definition summary_version_for_record ::
  "mailbox_record option \<Rightarrow> int \<Rightarrow> int \<Rightarrow> string option \<Rightarrow> summary_head \<Rightarrow> string option \<Rightarrow>
   string option \<Rightarrow> mailbox_state \<Rightarrow> int \<Rightarrow> int" where
  "summary_version_for_record prior queue_depth pending_reply_count active head
     last_started_at last_finished_at mailbox_state lease_version =
     (case prior of None \<Rightarrow> 1
      | Some p \<Rightarrow>
          if mb_active_inbound_event_id p = active \<and> mb_queue_depth p = queue_depth \<and>
             mb_pending_reply_count p = pending_reply_count \<and>
             mb_head_inbound_event_id p = sh_inbound_event_id head \<and>
             mb_head_event_type p = sh_event_type head \<and> mb_head_status p = sh_status head \<and>
             mb_head_message_id p = sh_message_id head \<and> mb_head_attempt_id p = sh_attempt_id head \<and>
             mb_head_payload_ref p = sh_payload_ref head \<and>
             mb_last_inbound_started_at p = last_started_at \<and>
             mb_last_inbound_finished_at p = last_finished_at \<and>
             mb_mailbox_state p = mailbox_state \<and> mb_lease_version p = lease_version
          then mb_summary_version p else next_summary_version prior)"

definition derive_mailbox_state :: "bool \<Rightarrow> int \<Rightarrow> mailbox_state" where
  "derive_mailbox_state has_active queue_depth =
     (if has_active then MS_DELIVERING else if queue_depth > 0 then MS_BLOCKED else MS_IDLE)"

definition lease_active :: "delivery_lease option \<Rightarrow> bool" where
  "lease_active lease = (case lease of None \<Rightarrow> False
     | Some l \<Rightarrow> dl_lease_state l = LS_ACQUIRED \<and> dl_inbound_event_id l \<noteq> [])"

text \<open>The fields of the record that \<open>build_mailbox_summary_record\<close> constructs\<close>
definition summary_of ::
  "string \<Rightarrow> mailbox_record option \<Rightarrow> delivery_lease option \<Rightarrow> int \<Rightarrow> int \<Rightarrow> string option \<Rightarrow>
   string option \<Rightarrow> string option \<Rightarrow> string \<Rightarrow> string \<Rightarrow> summary_head \<Rightarrow> mailbox_record" where
  "summary_of agent_name prior lease queue_depth pending_reply_count active
     last_started_at last_finished_at updated_at summary_source head =
     (let lease_version = (case lease of Some l \<Rightarrow> dl_lease_version l
            | None \<Rightarrow> (case prior of Some p \<Rightarrow> mb_lease_version p | None \<Rightarrow> 0));
          has_active = (lease_active lease \<or> opt_truthy active);
          state = derive_mailbox_state has_active queue_depth
      in \<lparr>mb_mailbox_id = (case prior of Some p \<Rightarrow> mb_mailbox_id p | None \<Rightarrow> ''mbx_'' @ agent_name),
        mb_agent_name = agent_name,
        mb_summary_version = summary_version_for_record prior queue_depth pending_reply_count active
            head last_started_at last_finished_at state lease_version,
        mb_summary_source = summary_source,
        mb_summary_refreshed_at = updated_at, mb_active_inbound_event_id = active,
        mb_queue_depth = queue_depth, mb_pending_reply_count = pending_reply_count,
        mb_head_inbound_event_id = sh_inbound_event_id head,
        mb_head_event_type = sh_event_type head, mb_head_status = sh_status head,
        mb_head_message_id = sh_message_id head, mb_head_attempt_id = sh_attempt_id head,
        mb_head_payload_ref = sh_payload_ref head,
        mb_last_inbound_started_at = last_started_at,
        mb_last_inbound_finished_at = last_finished_at, mb_mailbox_state = state,
        mb_lease_version = lease_version, mb_updated_at = updated_at\<rparr>)"

definition build_mailbox_summary_record ::
  "string \<Rightarrow> mailbox_record option \<Rightarrow> delivery_lease option \<Rightarrow> int \<Rightarrow> int \<Rightarrow> string option \<Rightarrow>
   string option \<Rightarrow> string option \<Rightarrow> string \<Rightarrow> string \<Rightarrow> summary_head ellipsis \<Rightarrow>
   ('z kernel_state_scheme, mailbox_record) py" where
  "build_mailbox_summary_record agent_name prior lease queue_depth pending_reply_count active
     last_started_at last_finished_at updated_at summary_source summary_head =
   py_bind (case summary_head of Ellipsis \<Rightarrow> resolve_summary_head agent_name
              | Given h \<Rightarrow> py_return h) (\<lambda>head.
     py_lift (normalize_mailbox_record (summary_of agent_name prior lease queue_depth
       pending_reply_count active last_started_at last_finished_at updated_at summary_source head)))"

text \<open>The newer of two optional time stamps, compared as strings\<close>
definition latest_timestamp :: "string option \<Rightarrow> string option \<Rightarrow> string option" where
  "latest_timestamp current candidate =
     (if opt_truthy candidate \<and>
         (case current of None \<Rightarrow> True
          | Some c \<Rightarrow> (case candidate of None \<Rightarrow> False | Some d \<Rightarrow> c < d))
      then candidate else current)"

definition save_summary_record ::
  "mailbox_record \<Rightarrow> int option \<Rightarrow> ('z kernel_state_scheme, mailbox_record) py" where
  "save_summary_record record expected_summary_version =
     py_bind (compare_and_save record expected_summary_version) (\<lambda>saved.
       if saved then py_return record
       else py_bind (mailbox_load (mb_agent_name record)) (\<lambda>current.
         case current of Some c \<Rightarrow> py_return c
         | None \<Rightarrow> py_then (mailbox_save record) (py_return record)))"

definition apply_incremental_summary_update ::
  "string \<Rightarrow> int \<Rightarrow> int \<Rightarrow> string option ellipsis \<Rightarrow> string option \<Rightarrow> string option \<Rightarrow>
   string option \<Rightarrow> ('z kernel_state_scheme, mailbox_record) py" where
  "apply_incremental_summary_update agent_name queue_delta pending_reply_delta active
     last_started_at last_finished_at updated_at =
   py_bind (py_lift (normalize_mailbox_owner_name (Some agent_name))) (\<lambda>normalized.
   py_bind (given_or_clock updated_at) (\<lambda>timestamp.
   py_bind (mailbox_load normalized) (\<lambda>prior.
   py_bind (lease_load normalized) (\<lambda>lease.
   let queue_depth = max 0 ((case prior of Some p \<Rightarrow> mb_queue_depth p | None \<Rightarrow> 0) + queue_delta);
       pending_reply_count =
         max 0 ((case prior of Some p \<Rightarrow> mb_pending_reply_count p | None \<Rightarrow> 0) + pending_reply_delta);
       current_active = (case active of
           Given x \<Rightarrow> x
         | Ellipsis \<Rightarrow> (case prior of Some p \<Rightarrow> mb_active_inbound_event_id p | None \<Rightarrow> None))
   in py_bind (build_mailbox_summary_record normalized prior lease queue_depth pending_reply_count
        current_active
        (latest_timestamp (case prior of Some p \<Rightarrow> mb_last_inbound_started_at p | None \<Rightarrow> None)
           last_started_at)
        (latest_timestamp (case prior of Some p \<Rightarrow> mb_last_inbound_finished_at p | None \<Rightarrow> None)
           last_finished_at)
        timestamp ''incremental-upsert'' Ellipsis) (\<lambda>record.
      save_summary_record record (map_option mb_summary_version prior))))))"

definition apply_transition_summary_update ::
  "string \<Rightarrow> int \<Rightarrow> int \<Rightarrow> string option \<Rightarrow> string option \<Rightarrow> string option \<Rightarrow> string option \<Rightarrow>
   string \<Rightarrow> summary_head ellipsis \<Rightarrow> ('z kernel_state_scheme, mailbox_record) py" where
  "apply_transition_summary_update agent_name queue_depth pending_reply_count active
     last_started_at last_finished_at updated_at summary_source summary_head =
   py_bind (py_lift (normalize_mailbox_owner_name (Some agent_name))) (\<lambda>normalized.
   py_bind (given_or_clock updated_at) (\<lambda>timestamp.
   py_bind (mailbox_load normalized) (\<lambda>prior.
   py_bind (lease_load normalized) (\<lambda>lease.
   py_bind (build_mailbox_summary_record normalized prior lease (max 0 queue_depth)
        (max 0 pending_reply_count) active last_started_at last_finished_at timestamp
        summary_source summary_head) (\<lambda>record.
      save_summary_record record (map_option mb_summary_version prior))))))"

definition mailbox_head_payload :: "mailbox_record option \<Rightarrow> payload option" where
  "mailbox_head_payload record = (case record of None \<Rightarrow> None
     | Some m \<Rightarrow> if \<not> opt_truthy (mb_head_inbound_event_id m) then None
         else Some [(''inbound_event_id'', jopt (mb_head_inbound_event_id m)),
                    (''event_type'', jopt (mb_head_event_type m)),
                    (''status'', jopt (mb_head_status m)),
                    (''message_id'', jopt (mb_head_message_id m)),
                    (''attempt_id'', jopt (mb_head_attempt_id m)),
                    (''payload_ref'', jopt (mb_head_payload_ref m))])"

text \<open>\<open>service_runtime/mailbox.py\<close>\<close>

definition lease_active_event_id :: "delivery_lease option \<Rightarrow> string option" where
  "lease_active_event_id lease = (case lease of None \<Rightarrow> None
     | Some l \<Rightarrow> if dl_lease_state l \<noteq> LS_ACQUIRED then None else str_or_none (dl_inbound_event_id l))"

fun latest_activity :: "string option \<Rightarrow> string option \<Rightarrow> inbound_event list \<Rightarrow>
    string option \<times> string option" where
  "latest_activity last_started last_finished [] = (last_started, last_finished)"
| "latest_activity last_started last_finished (e # es) =
     latest_activity (latest_timestamp last_started (ev_started_at e))
       (latest_timestamp last_finished (ev_finished_at e)) es"

definition project_mailbox_summary ::
  "string \<Rightarrow> string option \<Rightarrow> mailbox_record option ellipsis \<Rightarrow> string \<Rightarrow>
   ('z kernel_state_scheme, mailbox_record) py" where
  "project_mailbox_summary agent_name updated_at prior_arg summary_source =
   py_bind (py_lift (normalize_mailbox_owner_name (Some agent_name))) (\<lambda>normalized.
   py_bind (given_or_clock updated_at) (\<lambda>timestamp.
   py_bind (case prior_arg of Ellipsis \<Rightarrow> mailbox_load normalized | Given p \<Rightarrow> py_return p) (\<lambda>prior.
   py_bind (lease_load normalized) (\<lambda>lease.
   py_bind (pending_events normalized None) (\<lambda>events.
   py_bind (latest_events normalized) (\<lambda>all_events.
   let (last_started, last_finished) = latest_activity
         (case prior of Some p \<Rightarrow> mb_last_inbound_started_at p | None \<Rightarrow> None)
         (case prior of Some p \<Rightarrow> mb_last_inbound_finished_at p | None \<Rightarrow> None) all_events
   in build_mailbox_summary_record normalized prior lease (int (length events))
        (int (length (filter (\<lambda>e. ev_event_type e = TASK_REPLY) events)))
        (lease_active_event_id lease) last_started last_finished timestamp summary_source Ellipsis))))))"

definition rebuild_mailbox_summary ::
  "string \<Rightarrow> string option \<Rightarrow> ('z kernel_state_scheme, mailbox_record) py" where
  "rebuild_mailbox_summary agent_name updated_at =
   py_bind (py_lift (normalize_mailbox_owner_name (Some agent_name))) (\<lambda>normalized.
   py_bind (mailbox_load normalized) (\<lambda>prior.
   py_bind (project_mailbox_summary normalized updated_at (Given prior) ''history-refresh'') (\<lambda>record.
     save_summary_record record (map_option mb_summary_version prior))))"

end
