(* ===== verification/Mailbox_Transitions.thy ===== *)
theory Mailbox_Transitions
  imports Mailbox_Kernel
begin

text \<open>
  The state transitions of an inbound event: \<open>transitions_runtime/leasing.py\<close>,
  \<open>claiming.py\<close>, \<open>terminal.py\<close> and the entry points of \<open>lib/mailbox_kernel/service.py\<close>.
  Each operation returns the event record it produced or \<open>None\<close>, as the code does.
\<close>

section \<open>Claiming\<close>

definition next_lease_version :: "string \<Rightarrow> ('z kernel_state_scheme, int) py" where
  "next_lease_version agent_name =
   py_bind (py_lift (normalize_mailbox_owner_name (Some agent_name))) (\<lambda>normalized.
   py_bind (lease_load normalized) (\<lambda>lease.
     case lease of Some l \<Rightarrow> py_return (dl_lease_version l + 1)
     | None \<Rightarrow> py_bind (mailbox_load normalized) (\<lambda>mailbox.
         case mailbox of Some m \<Rightarrow> py_return (mb_lease_version m + 1) | None \<Rightarrow> py_return 1)))"

definition load_claim_candidate ::
  "string \<Rightarrow> string \<Rightarrow> ('z kernel_state_scheme, inbound_event option) py" where
  "load_claim_candidate agent_name inbound_event_id =
   py_bind (inbound_get_latest agent_name inbound_event_id) (\<lambda>current.
     py_return (case current of None \<Rightarrow> None
       | Some c \<Rightarrow> if event_terminal c then None else Some c))"

definition has_conflicting_lease :: "string \<Rightarrow> string \<Rightarrow> ('z kernel_state_scheme, bool) py" where
  "has_conflicting_lease agent_name inbound_event_id =
   py_bind (lease_load agent_name) (\<lambda>lease.
     py_return (case lease of None \<Rightarrow> False
       | Some l \<Rightarrow> dl_lease_state l = LS_ACQUIRED \<and> dl_inbound_event_id l \<noteq> inbound_event_id))"

definition is_claimable_head :: "string \<Rightarrow> inbound_event \<Rightarrow> ('z kernel_state_scheme, bool) py" where
  "is_claimable_head agent_name current =
   (if ev_status current \<notin> set CLAIMABLE_EVENT_STATES then py_return False
    else py_bind (head_pending_event agent_name) (\<lambda>head.
      py_return (case head of None \<Rightarrow> False
        | Some h \<Rightarrow> ev_inbound_event_id h = ev_inbound_event_id current)))"

definition delivery_record :: "inbound_event \<Rightarrow> string \<Rightarrow> inbound_event result" where
  "delivery_record current timestamp =
     normalize_inbound_event_record (current\<lparr>ev_status := IE_DELIVERING,
       ev_started_at := Some (opt_str_or (ev_started_at current) timestamp),
       ev_finished_at := None\<rparr>)"

definition make_delivery_lease ::
  "string \<Rightarrow> string \<Rightarrow> string \<Rightarrow> ('z kernel_state_scheme, delivery_lease) py" where
  "make_delivery_lease agent_name inbound_event_id timestamp =
   py_bind (next_lease_version agent_name) (\<lambda>version.
     py_lift (normalize_delivery_lease \<lparr>dl_agent_name = agent_name,
       dl_inbound_event_id = inbound_event_id, dl_lease_version = version,
       dl_acquired_at = timestamp, dl_last_progress_at = Some timestamp, dl_expires_at = None,
       dl_lease_state = LS_ACQUIRED\<rparr>))"

definition claim_current ::
  "string \<Rightarrow> inbound_event \<Rightarrow> string \<Rightarrow> ('z kernel_state_scheme, inbound_event option) py" where
  "claim_current agent_name current timestamp =
   py_bind (py_lift (delivery_record current timestamp)) (\<lambda>updated.
   py_then (inbound_append updated) (
   py_bind (make_delivery_lease agent_name (ev_inbound_event_id current) timestamp) (\<lambda>lease.
   py_then (lease_save lease) (
   py_bind (mailbox_load agent_name) (\<lambda>prior.
   case prior of
     None \<Rightarrow> py_then (rebuild_mailbox_summary agent_name (Some timestamp)) (py_return (Some updated))
   | Some p \<Rightarrow>
       if mb_queue_depth p \<le> 0 \<or>
          mb_head_inbound_event_id p \<noteq> Some (ev_inbound_event_id current)
       then py_then (rebuild_mailbox_summary agent_name (Some timestamp)) (py_return (Some updated))
       else py_then (apply_transition_summary_update agent_name (mb_queue_depth p)
              (mb_pending_reply_count p) (Some (ev_inbound_event_id current))
              (latest_timestamp (mb_last_inbound_started_at p) (ev_started_at updated))
              (mb_last_inbound_finished_at p) (Some timestamp) ''transition-claim''
              (Given (summary_head_from_event (Some updated))))
            (py_return (Some updated)))))))"

definition refresh_and_return ::
  "string \<Rightarrow> string \<Rightarrow> inbound_event option \<Rightarrow> ('z kernel_state_scheme, inbound_event option) py" where
  "refresh_and_return agent_name timestamp v =
     py_then (rebuild_mailbox_summary agent_name (Some timestamp)) (py_return v)"

definition claim ::
  "string \<Rightarrow> string \<Rightarrow> string option \<Rightarrow> ('z kernel_state_scheme, inbound_event option) py" where
  "claim agent_name inbound_event_id started_at =
   py_bind (py_lift (normalize_mailbox_owner_name (Some agent_name))) (\<lambda>normalized.
   py_bind (given_or_clock started_at) (\<lambda>timestamp.
   py_bind (load_claim_candidate normalized inbound_event_id) (\<lambda>candidate.
   case candidate of None \<Rightarrow> refresh_and_return normalized timestamp None
   | Some current \<Rightarrow>
     py_bind (has_conflicting_lease normalized inbound_event_id) (\<lambda>conflict.
     if conflict then refresh_and_return normalized timestamp None
     else if ev_status current = IE_DELIVERING
     then refresh_and_return normalized timestamp (Some current)
     else py_bind (is_claimable_head normalized current) (\<lambda>claimable.
       if \<not> claimable then refresh_and_return normalized timestamp None
       else claim_current normalized current timestamp)))))"

definition claim_next ::
  "string \<Rightarrow> inbound_event_type option \<Rightarrow> string option \<Rightarrow>
   ('z kernel_state_scheme, inbound_event option) py" where
  "claim_next agent_name event_type started_at =
   py_bind (peek_next agent_name event_type) (\<lambda>next_event.
   case next_event of
     None \<Rightarrow> py_bind (given_or_clock started_at) (\<lambda>t.
       py_then (rebuild_mailbox_summary agent_name (Some t)) (py_return None))
   | Some e \<Rightarrow> claim agent_name (ev_inbound_event_id e) started_at)"

section \<open>Terminal transitions\<close>

definition release_matching_lease :: "string \<Rightarrow> string \<Rightarrow> ('z kernel_state_scheme, unit) py" where
  "release_matching_lease agent_name inbound_event_id =
   py_bind (lease_load agent_name) (\<lambda>lease.
     case lease of None \<Rightarrow> py_return ()
     | Some l \<Rightarrow>
         if dl_lease_state l \<noteq> LS_ACQUIRED then py_return ()
         else if dl_inbound_event_id l \<noteq> inbound_event_id then py_return ()
         else lease_remove agent_name)"

definition mark_terminal ::
  "string \<Rightarrow> string \<Rightarrow> inbound_event_status \<Rightarrow> string option \<Rightarrow>
   ('z kernel_state_scheme, inbound_event option) py" where
  "mark_terminal agent_name inbound_event_id status finished_at =
   py_bind (py_lift (normalize_mailbox_owner_name (Some agent_name))) (\<lambda>normalized.
   py_bind (given_or_clock finished_at) (\<lambda>timestamp.
   py_bind (inbound_get_latest normalized inbound_event_id) (\<lambda>found.
   case found of None \<Rightarrow> refresh_and_return normalized timestamp None
   | Some current \<Rightarrow>
     if event_terminal current then refresh_and_return normalized timestamp (Some current)
     else
     py_bind (py_lift (normalize_inbound_event_record
        (current\<lparr>ev_status := status, ev_finished_at := Some timestamp\<rparr>))) (\<lambda>updated.
     py_then (inbound_append updated) (
     py_then (release_matching_lease normalized inbound_event_id) (
     py_bind (mailbox_load normalized) (\<lambda>prior.
     case prior of None \<Rightarrow> refresh_and_return normalized timestamp (Some updated)
     | Some p \<Rightarrow>
       if mb_queue_depth p \<le> 0 then refresh_and_return normalized timestamp (Some updated)
       else
       let queue_depth = max 0 (mb_queue_depth p - 1);
           pending_reply_count = max 0 (mb_pending_reply_count p -
             (if ev_event_type current = TASK_REPLY then 1 else 0));
           active = (if mb_active_inbound_event_id p = Some (ev_inbound_event_id current) then None
                     else mb_active_inbound_event_id p);
           finish = (\<lambda>summary_head.
             py_then (apply_transition_summary_update normalized queue_depth pending_reply_count
               active (mb_last_inbound_started_at p)
               (latest_timestamp (mb_last_inbound_finished_at p) (Some timestamp))
               (Some timestamp) ''transition-terminal'' (Given summary_head))
             (py_return (Some updated)))
       in if mb_head_inbound_event_id p = Some (ev_inbound_event_id current)
          then if queue_depth = 0 then finish (summary_head_from_event None)
               else if queue_depth = 1
               then py_bind (head_pending_event normalized) (\<lambda>head.
                      finish (summary_head_from_event head))
               else py_bind (head_pending_event normalized) (\<lambda>next_head.
                      case next_head of
                        None \<Rightarrow> refresh_and_return normalized timestamp (Some updated)
                      | Some h \<Rightarrow> finish (summary_head_from_event (Some h)))
          else finish (head_of_mailbox p))))))))"

definition rewrite_head ::
  "string \<Rightarrow> string \<Rightarrow> string option \<Rightarrow> inbound_event_status \<Rightarrow> string option \<Rightarrow> bool \<Rightarrow>
   ('z kernel_state_scheme, inbound_event option) py" where
  "rewrite_head agent_name inbound_event_id payload_ref status updated_at clear_progress =
   py_bind (py_lift (normalize_mailbox_owner_name (Some agent_name))) (\<lambda>normalized.
   py_bind (given_or_clock updated_at) (\<lambda>timestamp.
   py_bind (inbound_get_latest normalized inbound_event_id) (\<lambda>found.
   case found of None \<Rightarrow> refresh_and_return normalized timestamp None
   | Some current \<Rightarrow>
     if event_terminal current then refresh_and_return normalized timestamp None
     else
     py_bind (py_lift (normalize_inbound_event_record
        (current\<lparr>ev_payload_ref := payload_ref, ev_status := status,
           ev_started_at := (if clear_progress then None else ev_started_at current),
           ev_finished_at := (if clear_progress then None else ev_finished_at current)\<rparr>))) (\<lambda>updated.
     py_then (inbound_append updated) (
     py_then (release_matching_lease normalized inbound_event_id) (
     py_bind (mailbox_load normalized) (\<lambda>prior.
     case prior of None \<Rightarrow> refresh_and_return normalized timestamp (Some updated)
     | Some p \<Rightarrow>
       if mb_head_inbound_event_id p \<noteq> Some inbound_event_id \<or> mb_queue_depth p \<le> 0
       then refresh_and_return normalized timestamp (Some updated)
       else py_then (apply_transition_summary_update normalized (mb_queue_depth p)
              (mb_pending_reply_count p)
              (if mb_active_inbound_event_id p = Some inbound_event_id then None
               else mb_active_inbound_event_id p)
              (mb_last_inbound_started_at p) (mb_last_inbound_finished_at p) (Some timestamp)
              ''transition-rewrite-head'' (Given (summary_head_from_event (Some updated))))
            (py_return (Some updated)))))))))"

definition head_matches_reply :: "inbound_event option \<Rightarrow> string \<Rightarrow> bool" where
  "head_matches_reply head inbound_event_id = (case head of None \<Rightarrow> False
     | Some h \<Rightarrow> ev_inbound_event_id h = inbound_event_id \<and> ev_event_type h = TASK_REPLY)"

text \<open>\<open>finished_at or started_at or service._clock()\<close>\<close>
definition ack_timestamp ::
  "string option \<Rightarrow> string option \<Rightarrow> ('z kernel_state_scheme, string) py" where
  "ack_timestamp started_at finished_at =
     (if opt_truthy finished_at then py_return (opt_str_or finished_at [])
      else given_or_clock started_at)"

definition ack_reply ::
  "string \<Rightarrow> string \<Rightarrow> string option \<Rightarrow> string option \<Rightarrow>
   ('z kernel_state_scheme, inbound_event option) py" where
  "ack_reply agent_name inbound_event_id started_at finished_at =
   py_bind (py_lift (normalize_mailbox_owner_name (Some agent_name))) (\<lambda>normalized.
   py_bind (head_pending_event normalized) (\<lambda>head.
   py_bind (ack_timestamp started_at finished_at) (\<lambda>timestamp.
   if \<not> head_matches_reply head inbound_event_id
   then refresh_and_return normalized timestamp None
   else py_bind (inbound_get_latest normalized inbound_event_id) (\<lambda>found.
   case found of None \<Rightarrow> refresh_and_return normalized timestamp None
   | Some current \<Rightarrow>
     if event_terminal current then refresh_and_return normalized timestamp (Some current)
     else if ev_status current = IE_DELIVERING
     then mark_terminal normalized inbound_event_id IE_CONSUMED
            (Some (opt_str_or finished_at timestamp))
     else py_bind (claim normalized inbound_event_id (Some (opt_str_or started_at timestamp)))
       (\<lambda>claimed. case claimed of None \<Rightarrow> refresh_and_return normalized timestamp None
        | Some _ \<Rightarrow> mark_terminal normalized inbound_event_id IE_CONSUMED
            (Some (opt_str_or finished_at timestamp)))))))"

section \<open>Entry points of the service\<close>

definition kernel_consume ::
  "string \<Rightarrow> string \<Rightarrow> string option \<Rightarrow> ('z kernel_state_scheme, inbound_event option) py" where
  "kernel_consume agent_name inbound_event_id finished_at =
     mark_terminal agent_name inbound_event_id IE_CONSUMED finished_at"

definition kernel_abandon ::
  "string \<Rightarrow> string \<Rightarrow> string option \<Rightarrow> ('z kernel_state_scheme, inbound_event option) py" where
  "kernel_abandon agent_name inbound_event_id finished_at =
     mark_terminal agent_name inbound_event_id IE_ABANDONED finished_at"

definition kernel_supersede ::
  "string \<Rightarrow> string \<Rightarrow> string option \<Rightarrow> ('z kernel_state_scheme, inbound_event option) py" where
  "kernel_supersede agent_name inbound_event_id finished_at =
     mark_terminal agent_name inbound_event_id IE_SUPERSEDED finished_at"

definition refresh_mailbox ::
  "string \<Rightarrow> string option \<Rightarrow> ('z kernel_state_scheme, mailbox_record) py" where
  "refresh_mailbox agent_name updated_at = rebuild_mailbox_summary agent_name updated_at"

definition upsert_mailbox_summary ::
  "string \<Rightarrow> int \<Rightarrow> int \<Rightarrow> string option ellipsis \<Rightarrow> string option \<Rightarrow> string option \<Rightarrow>
   string option \<Rightarrow> ('z kernel_state_scheme, mailbox_record) py" where
  "upsert_mailbox_summary agent_name queue_delta pending_reply_delta active last_started_at
     last_finished_at updated_at =
   apply_incremental_summary_update agent_name queue_delta pending_reply_delta active
     last_started_at last_finished_at updated_at"

end
