(* ===== verification/Mailbox_Invariants.thy ===== *)
theory Mailbox_Invariants
  imports Mailbox_Transitions
begin

text \<open>
  What the kernel keeps true of one mailbox. \<open>pend\<close> is the queue the log stands for: the newest
  row of every event id, in order of first appearance, without the terminal ones. The invariant
  \<open>mailbox_inv\<close> says that the stored summary is the projection of log and lease, and that an
  event is being delivered exactly when it is the head and holds the lease.
\<close>

section \<open>The queue a log stands for\<close>

lemma latest_loop_snoc:
  "latest_loop latest order (rs @ [r]) =
     (let (l, ord) = latest_loop latest order rs in
      (dict_set (ev_inbound_event_id r) r l,
       if ev_inbound_event_id r \<in> set (dict_keys l) then ord else ord @ [ev_inbound_event_id r]))"
  by (induction latest order rs rule: latest_loop.induct) (auto simp: Let_def)

lemma dict_keys_set: "dict_keys (dict_set k v d) = (if k \<in> set (dict_keys d) then dict_keys d else dict_keys d @ [k])"
  by (induction k v d rule: dict_set.induct) (auto simp: dict_keys_def)

lemma latest_dict_Nil: "latest_dict key [] = []"
  by (simp add: latest_dict_def)

lemma latest_loop_eq:
  "latest_loop [] [] rs = (latest_dict ev_inbound_event_id rs, dict_keys (latest_dict ev_inbound_event_id rs))"
  by (induction rs rule: rev_induct)
    (simp_all add: latest_loop_snoc dict_keys_set latest_dict_Nil, simp add: dict_keys_def)

lemma map_filter_agree:
  "\<forall>k \<in> set ks. f k = g k \<Longrightarrow> List.map_filter f ks = List.map_filter g ks"
  by (induction ks) (auto simp: List.map_filter_simps split: option.splits)

lemma map_filter_map_of:
  "distinct (map fst d) \<Longrightarrow> List.map_filter (map_of d) (map fst d) = map snd d"
proof (induction d)
  case (Cons kv d)
  then have "List.map_filter (map_of (kv # d)) (map fst d) = List.map_filter (map_of d) (map fst d)"
    by (intro map_filter_agree) (cases kv, auto)
  with Cons show ?case by (cases kv) (auto simp: List.map_filter_simps fun_upd_def)
qed (simp add: List.map_filter_simps)

lemma latest_of_eq: "latest_of rs = latest_by ev_inbound_event_id rs"
  using map_filter_map_of [OF distinct_latest_dict]
  by (simp add: latest_of_def latest_loop_eq latest_by_def dict_keys_def)

abbreviation eid :: "inbound_event \<Rightarrow> string" where
  "eid \<equiv> ev_inbound_event_id"

definition pend :: "'z kernel_state_scheme \<Rightarrow> string \<Rightarrow> inbound_event list" where
  "pend s a = pending_of None (latest_of (ks_inboxes s a))"

definition pending_log :: "inbound_event list \<Rightarrow> inbound_event list" where
  "pending_log rs = filter (\<lambda>e. \<not> event_terminal e) (latest_by eid rs)"

lemma pend_eq: "pend s a = pending_log (ks_inboxes s a)"
  by (simp add: pend_def pending_of_def pending_log_def latest_of_eq)

lemma distinct_pending_log: "distinct (map eid (pending_log rs))"
  by (simp add: pending_log_def distinct_map_filter distinct_latest_by)

lemma pending_log_Nil [simp]: "pending_log [] = []"
  by (simp add: pending_log_def)

lemma in_pending_log:
  "e \<in> set (pending_log rs) \<longleftrightarrow> find_last_in (\<lambda>x. eid x = eid e) rs = Some e \<and> \<not> event_terminal e"
  by (auto simp: pending_log_def latest_by_Some_iff)

text \<open>The three ways a row changes the queue\<close>

lemma pending_log_new:
  "eid e \<notin> eid ` set rs \<Longrightarrow> \<not> event_terminal e \<Longrightarrow> pending_log (rs @ [e]) = pending_log rs @ [e]"
  by (simp add: pending_log_def latest_by_snoc key_latest_by)

lemma pending_log_replace:
  assumes "find_last_in (\<lambda>x. eid x = eid e) rs = Some c" "\<not> event_terminal c" "\<not> event_terminal e"
  shows "pending_log (rs @ [e]) = map (\<lambda>x. if eid x = eid e then e else x) (pending_log rs)"
proof -
  from assms have c: "c \<in> set (latest_by eid rs)" "eid c = eid e"
    by (auto simp: latest_by_Some_iff)
  then have mem: "eid e \<in> eid ` set (latest_by eid rs)" by (metis image_eqI)
  have "\<forall>x \<in> set (latest_by eid rs). eid x = eid e \<longrightarrow> \<not> event_terminal x"
  proof (intro ballI impI)
    fix x assume "x \<in> set (latest_by eid rs)" "eid x = eid e"
    then have "find_last_in (\<lambda>y. eid y = eid e) rs = Some x" by (simp add: latest_by_Some_iff)
    with assms show "\<not> event_terminal x" by simp
  qed
  with mem assms(3) show ?thesis
    unfolding pending_log_def latest_by_snoc if_P [OF mem] by (intro filter_map_replace) auto
qed

lemma pending_log_remove:
  assumes "eid e \<in> eid ` set rs" "event_terminal e"
  shows "pending_log (rs @ [e]) = filter (\<lambda>x. eid x \<noteq> eid e) (pending_log rs)"
proof -
  from assms have mem: "eid e \<in> eid ` set (latest_by eid rs)" by (simp add: key_latest_by)
  show ?thesis
    unfolding pending_log_def latest_by_snoc if_P [OF mem]
    by (rule filter_map_remove) (simp add: assms(2))
qed

section \<open>Newest time stamps\<close>

text \<open>\<open>absorbed c x\<close>: folding \<open>x\<close> into \<open>c\<close> with \<open>latest_timestamp\<close> leaves \<open>c\<close>.\<close>
definition absorbed :: "string option \<Rightarrow> string option \<Rightarrow> bool" where
  "absorbed c x \<longleftrightarrow> latest_timestamp c x = c"

lemma absorbed_latest_new: "absorbed (latest_timestamp c x) x"
  by (auto simp: absorbed_def latest_timestamp_def split: option.splits)

lemma absorbed_latest_old: "absorbed c y \<Longrightarrow> absorbed (latest_timestamp c x) y"
  by (auto simp: absorbed_def latest_timestamp_def split: option.splits if_splits)

lemma latest_activity_absorbed:
  "\<forall>e \<in> set es. absorbed ls (ev_started_at e) \<and> absorbed lf (ev_finished_at e) \<Longrightarrow>
   latest_activity ls lf es = (ls, lf)"
  by (induction es) (auto simp: absorbed_def)

lemma latest_activity_mono:
  "absorbed ls x \<Longrightarrow> absorbed (fst (latest_activity ls lf es)) x"
  "absorbed lf x \<Longrightarrow> absorbed (snd (latest_activity ls lf es)) x"
  by (induction es arbitrary: ls lf) (auto simp: absorbed_latest_old)

lemma latest_activity_absorbs:
  "e \<in> set es \<Longrightarrow> absorbed (fst (latest_activity ls lf es)) (ev_started_at e) \<and>
     absorbed (snd (latest_activity ls lf es)) (ev_finished_at e)"
  by (induction es arbitrary: ls lf)
    (auto simp: latest_activity_mono absorbed_latest_new)

section \<open>The operations on a normal name\<close>

definition opt_hd :: "'a list \<Rightarrow> 'a option" where
  "opt_hd xs = (case xs of [] \<Rightarrow> None | x # _ \<Rightarrow> Some x)"

lemma opt_hd_simps [simp]: "opt_hd [] = None" "opt_hd (x # xs) = Some x"
  "opt_hd xs = None \<longleftrightarrow> xs = []"
  by (auto simp: opt_hd_def split: list.splits)

lemma opt_hd_in: "opt_hd xs = Some x \<Longrightarrow> x \<in> set xs"
  by (cases xs) auto

text \<open>A time stamp the record constructor accepts\<close>
definition nonblank :: "string \<Rightarrow> bool" where
  "nonblank t \<longleftrightarrow> py_strip t \<noteq> []"

lemma nonblank_not_Nil: "nonblank t \<Longrightarrow> t \<noteq> []"
  by (auto simp: nonblank_def)

lemma given_or_clock_nonblank [kernel_run]: "nonblank t \<Longrightarrow> given_or_clock (Some t) s = (Inr t, s)"
  by (cases t) (auto simp: given_or_clock_def nonblank_def)

lemma store_runs [kernel_run]:
  assumes "owner_name_ok a"
  shows "mailbox_load a s = (Inr (ks_mailboxes s a), s)"
    and "lease_load a s = (Inr (ks_leases s a), s)"
    and "inbound_list_agent a s = (Inr (ks_inboxes s a), s)"
    and "inbound_get_latest a i s = (Inr (find_last_in (\<lambda>e. eid e = i) (ks_inboxes s a)), s)"
    and "lease_remove a s = (Inr (), s\<lparr>ks_leases := (ks_leases s)(a := None)\<rparr>)"
  using assms
  by (simp_all add: mailbox_load_def lease_load_def inbound_list_agent_def inbound_get_latest_def
      lease_remove_def store_key_def)

lemma append_run [kernel_run]:
  "owner_name_ok (ev_agent_name e) \<Longrightarrow>
   inbound_append e s = (Inr (), s\<lparr>ks_inboxes := (ks_inboxes s)(ev_agent_name e :=
      ks_inboxes s (ev_agent_name e) @ [e])\<rparr>)"
  by (simp add: inbound_append_def store_key_def)

lemma lease_save_run [kernel_run]:
  "owner_name_ok (dl_agent_name l) \<Longrightarrow>
   lease_save l s = (Inr (), s\<lparr>ks_leases := (ks_leases s)(dl_agent_name l \<mapsto> l)\<rparr>)"
  by (simp add: lease_save_def store_key_def)

lemma query_runs [kernel_run]:
  assumes "owner_name_ok a"
  shows "latest_events a s = (Inr (latest_by eid (ks_inboxes s a)), s)"
    and "pending_events a None s = (Inr (pend s a), s)"
    and "head_pending_event a s = (Inr (opt_hd (pend s a)), s)"
    and "resolve_summary_head a s = (Inr (summary_head_from_event (opt_hd (pend s a))), s)"
  using assms
  by (simp_all add: latest_events_def pending_events_def head_pending_event_def
      resolve_summary_head_def store_runs latest_of_eq pend_def opt_hd_def)

text \<open>Saving with the version that was read always stores the record.\<close>
lemma save_summary_run [kernel_run]:
  "owner_name_ok (mb_agent_name r) \<Longrightarrow> v = map_option mb_summary_version (ks_mailboxes s (mb_agent_name r)) \<Longrightarrow>
   save_summary_record r v s =
     (Inr r, s\<lparr>ks_mailboxes := (ks_mailboxes s)(mb_agent_name r \<mapsto> r)\<rparr>)"
  by (simp add: save_summary_record_def compare_and_save_def store_runs mailbox_save_def store_key_def)

section \<open>The invariant of a mailbox\<close>

definition mailbox_wf :: "'z kernel_state_scheme \<Rightarrow> string \<Rightarrow> bool" where
  "mailbox_wf s a \<longleftrightarrow> owner_name_ok a \<and>
     (\<forall>m. ks_mailboxes s a = Some m \<longrightarrow> valid_mailbox m \<and> mb_agent_name m = a) \<and>
     (\<forall>e \<in> set (ks_inboxes s a). valid_event e \<and> ev_agent_name e = a) \<and>
     (\<forall>l. ks_leases s a = Some l \<longrightarrow> valid_lease l \<and> dl_agent_name l = a)"

definition lease_inv :: "'z kernel_state_scheme \<Rightarrow> string \<Rightarrow> bool" where
  "lease_inv s a \<longleftrightarrow>
     (\<forall>e \<in> set (pend s a). ev_status e = IE_DELIVERING \<longleftrightarrow>
        lease_active_event_id (ks_leases s a) = Some (eid e)) \<and>
     (\<forall>i. lease_active_event_id (ks_leases s a) = Some i \<longrightarrow>
        map_option eid (opt_hd (pend s a)) = Some i)"

definition summary_matches :: "'z kernel_state_scheme \<Rightarrow> string \<Rightarrow> mailbox_record \<Rightarrow> bool" where
  "summary_matches s a m \<longleftrightarrow>
     mb_queue_depth m = int (length (pend s a)) \<and>
     mb_pending_reply_count m = int (length (filter (\<lambda>e. ev_event_type e = TASK_REPLY) (pend s a))) \<and>
     mb_active_inbound_event_id m = lease_active_event_id (ks_leases s a) \<and>
     head_of_mailbox m = summary_head_from_event (opt_hd (pend s a)) \<and>
     mb_mailbox_state m = derive_mailbox_state (lease_active_event_id (ks_leases s a) \<noteq> None)
       (int (length (pend s a))) \<and>
     (\<forall>l. ks_leases s a = Some l \<longrightarrow> mb_lease_version m = dl_lease_version l) \<and>
     (\<forall>e \<in> set (latest_by eid (ks_inboxes s a)).
        absorbed (mb_last_inbound_started_at m) (ev_started_at e) \<and>
        absorbed (mb_last_inbound_finished_at m) (ev_finished_at e))"

definition summary_inv :: "'z kernel_state_scheme \<Rightarrow> string \<Rightarrow> bool" where
  "summary_inv s a \<longleftrightarrow> (case ks_mailboxes s a of
       None \<Rightarrow> ks_inboxes s a = [] \<and> ks_leases s a = None
     | Some m \<Rightarrow> summary_matches s a m)"

definition mailbox_inv :: "'z kernel_state_scheme \<Rightarrow> string \<Rightarrow> bool" where
  "mailbox_inv s a \<longleftrightarrow> mailbox_wf s a \<and> lease_inv s a \<and> summary_inv s a"

lemma mailbox_invD:
  "mailbox_inv s a \<Longrightarrow> mailbox_wf s a" "mailbox_inv s a \<Longrightarrow> lease_inv s a"
  "mailbox_inv s a \<Longrightarrow> summary_inv s a" "mailbox_inv s a \<Longrightarrow> owner_name_ok a"
  by (simp_all add: mailbox_inv_def mailbox_wf_def)

lemma pend_mailboxes [simp]:
  "pend (s\<lparr>ks_mailboxes := M\<rparr>) a = pend s a" "pend (s\<lparr>ks_leases := L\<rparr>) a = pend s a"
  "pend (s\<lparr>ks_tick := n\<rparr>) a = pend s a"
  by (simp_all add: pend_def)

text \<open>The projection of log and lease that a rebuild stores\<close>
definition projected :: "'z kernel_state_scheme \<Rightarrow> string \<Rightarrow> string \<Rightarrow> string \<Rightarrow> mailbox_record" where
  "projected s a t src =
     (let prior = ks_mailboxes s a;
          act = latest_activity (Option.bind prior mb_last_inbound_started_at)
            (Option.bind prior mb_last_inbound_finished_at) (latest_by eid (ks_inboxes s a))
      in summary_of a prior (ks_leases s a) (int (length (pend s a)))
          (int (length (filter (\<lambda>e. ev_event_type e = TASK_REPLY) (pend s a))))
          (lease_active_event_id (ks_leases s a)) (fst act) (snd act) t src
          (summary_head_from_event (opt_hd (pend s a))))"

lemma summary_of_fields [simp]:
  "mb_agent_name (summary_of a p l q r act ls lf t src h) = a"
  "mb_queue_depth (summary_of a p l q r act ls lf t src h) = q"
  "mb_pending_reply_count (summary_of a p l q r act ls lf t src h) = r"
  "mb_active_inbound_event_id (summary_of a p l q r act ls lf t src h) = act"
  "head_of_mailbox (summary_of a p l q r act ls lf t src h) = h"
  "mb_last_inbound_started_at (summary_of a p l q r act ls lf t src h) = ls"
  "mb_last_inbound_finished_at (summary_of a p l q r act ls lf t src h) = lf"
  "mb_mailbox_state (summary_of a p l q r act ls lf t src h) =
     derive_mailbox_state (lease_active l \<or> opt_truthy act) q"
  "mb_lease_version (summary_of a p l q r act ls lf t src h) =
     (case l of Some l' \<Rightarrow> dl_lease_version l' | None \<Rightarrow> (case p of Some p' \<Rightarrow> mb_lease_version p' | None \<Rightarrow> 0))"
  by (simp_all add: summary_of_def Let_def head_of_mailbox_def)

lemma summary_version_nonneg:
  "(\<And>p. prior = Some p \<Longrightarrow> 0 \<le> mb_summary_version p) \<Longrightarrow>
   0 \<le> summary_version_for_record prior q r act h ls lf st lv"
  by (cases prior) (simp_all add: summary_version_for_record_def next_summary_version_def)

lemma summary_of_valid:
  assumes "mailbox_wf s a" "nonblank t" "py_strip src \<noteq> []" "0 \<le> q" "0 \<le> r"
    "p = ks_mailboxes s a" "l = ks_leases s a"
  shows "valid_mailbox (summary_of a p l q r act ls lf t src h)"
proof -
  let ?r = "summary_of a p l q r act ls lf t src h"
  have "mb_mailbox_id ?r \<noteq> []"
    using assms by (auto simp: summary_of_def Let_def mailbox_wf_def valid_mailbox_def split: option.splits)
  moreover have "0 \<le> mb_summary_version ?r"
    using assms unfolding summary_of_def Let_def
    by simp (rule summary_version_nonneg, simp add: mailbox_wf_def valid_mailbox_def)
  moreover have "0 \<le> mb_lease_version ?r"
    using assms by (auto simp: mailbox_wf_def valid_mailbox_def valid_lease_def split: option.splits)
  moreover have "mb_summary_source ?r = src" "mb_summary_refreshed_at ?r = t"
    by (simp_all add: summary_of_def Let_def)
  ultimately show ?thesis
    using assms by (simp add: valid_mailbox_def nonblank_def mailbox_wf_def)
qed

lemma rebuild_run [kernel_run]:
  assumes "mailbox_wf s a" "nonblank t"
  shows "rebuild_mailbox_summary a (Some t) s =
    (Inr (projected s a t ''history-refresh''),
     s\<lparr>ks_mailboxes := (ks_mailboxes s)(a \<mapsto> projected s a t ''history-refresh'')\<rparr>)"
proof -
  have ok: "owner_name_ok a" using assms by (simp add: mailbox_wf_def)
  have v: "valid_mailbox (projected s a t ''history-refresh'')"
    unfolding projected_def Let_def
    by (rule summary_of_valid [OF assms(1) assms(2)]) (simp_all add: py_strip_def py_rstrip_def py_lstrip_def py_isspace_def)
  have b: "Option.bind p f = (case p of Some x \<Rightarrow> f x | None \<Rightarrow> None)" for p :: "mailbox_record option" and f :: "mailbox_record \<Rightarrow> string option"
    by (cases p) simp_all
  have "project_mailbox_summary a (Some t) (Given (ks_mailboxes s a)) ''history-refresh'' s =
      (Inr (projected s a t ''history-refresh''), s)"
    using ok assms v
    by (simp add: project_mailbox_summary_def kernel_run build_mailbox_summary_record_def
        projected_def Let_def b split_beta)
  then show ?thesis
    using ok by (simp add: rebuild_mailbox_summary_def kernel_run) (simp add: projected_def Let_def kernel_run)
qed

lemma lease_active_iff: "mailbox_wf s a \<Longrightarrow>
    lease_active (ks_leases s a) \<longleftrightarrow> lease_active_event_id (ks_leases s a) \<noteq> None"
  by (auto simp: lease_active_def lease_active_event_id_def mailbox_wf_def valid_lease_def
      split: option.splits)

lemma lease_active_id_truthy: "opt_truthy (lease_active_event_id l) \<longleftrightarrow> lease_active_event_id l \<noteq> None"
  by (auto simp: lease_active_event_id_def opt_truthy_def split: option.splits)

text \<open>
  A record built from the right counts, head and time stamps makes the summary match: the one
  step that every operation ends with.
\<close>
lemma stored_summary_inv:
  assumes wf: "mailbox_wf s a" and li: "lease_inv s a" and nb: "nonblank t" and src: "py_strip src \<noteq> []"
    and q: "q = int (length (pend s a))"
    and r: "n = int (length (filter (\<lambda>e. ev_event_type e = TASK_REPLY) (pend s a)))"
    and act: "act = lease_active_event_id (ks_leases s a)"
    and h: "h = summary_head_from_event (opt_hd (pend s a))"
    and ts: "\<forall>e \<in> set (latest_by eid (ks_inboxes s a)).
        absorbed ls (ev_started_at e) \<and> absorbed lf (ev_finished_at e)"
    and m: "m = summary_of a (ks_mailboxes s a) (ks_leases s a) q n act ls lf t src h"
  shows "mailbox_inv (s\<lparr>ks_mailboxes := (ks_mailboxes s)(a \<mapsto> m)\<rparr>) a"
proof -
  let ?s = "s\<lparr>ks_mailboxes := (ks_mailboxes s)(a \<mapsto> m)\<rparr>"
  have "valid_mailbox m"
    unfolding m using wf nb src by (rule summary_of_valid) (simp_all add: q r)
  then have 1: "mailbox_wf ?s a"
    using wf by (auto simp: mailbox_wf_def m)
  have 2: "lease_inv ?s a" using li by (simp add: lease_inv_def)
  have "summary_matches ?s a m"
    using ts lease_active_iff [OF wf]
    by (simp add: summary_matches_def m q r act h lease_active_id_truthy)
  with 1 2 show ?thesis by (simp add: mailbox_inv_def summary_inv_def)
qed

lemma rebuild_inv:
  assumes "mailbox_wf s a" "lease_inv s a" "nonblank t"
  shows "mailbox_inv (s\<lparr>ks_mailboxes := (ks_mailboxes s)(a \<mapsto> projected s a t ''history-refresh'')\<rparr>) a"
  by (rule stored_summary_inv [OF assms])
    (auto simp: projected_def Let_def latest_activity_absorbs,
     simp add: py_strip_def py_rstrip_def py_lstrip_def py_isspace_def)

text \<open>
  In a state that satisfies the invariant the stored summary already is the projection: a rebuild
  changes nothing but its time stamp and source, and keeps the version.
\<close>
lemma projected_stable:
  assumes "summary_matches s a m" "ks_mailboxes s a = Some m" "mailbox_wf s a"
  shows "projected s a t src =
    m\<lparr>mb_summary_source := src, mb_summary_refreshed_at := t, mb_updated_at := t\<rparr>"
proof -
  from assms have act: "latest_activity (mb_last_inbound_started_at m) (mb_last_inbound_finished_at m)
      (latest_by eid (ks_inboxes s a)) = (mb_last_inbound_started_at m, mb_last_inbound_finished_at m)"
    by (intro latest_activity_absorbed) (auto simp: summary_matches_def)
  from assms(1) have flds: "int (length (pend s a)) = mb_queue_depth m"
    "int (length (filter (\<lambda>e. ev_event_type e = TASK_REPLY) (pend s a))) = mb_pending_reply_count m"
    "lease_active_event_id (ks_leases s a) = mb_active_inbound_event_id m"
    "summary_head_from_event (opt_hd (pend s a)) = head_of_mailbox m"
    "derive_mailbox_state (mb_active_inbound_event_id m \<noteq> None) (mb_queue_depth m) = mb_mailbox_state m"
    by (simp_all add: summary_matches_def)
  have lv: "(case ks_leases s a of Some l \<Rightarrow> dl_lease_version l | None \<Rightarrow> mb_lease_version m) = mb_lease_version m"
    using assms by (auto simp: summary_matches_def split: option.splits)
  have name: "mb_agent_name m = a" using assms by (simp add: mailbox_wf_def)
  have la: "lease_active (ks_leases s a) \<longleftrightarrow> mb_active_inbound_event_id m \<noteq> None"
    "opt_truthy (mb_active_inbound_event_id m) \<longleftrightarrow> mb_active_inbound_event_id m \<noteq> None"
    using lease_active_iff [OF assms(3)] lease_active_id_truthy [of "ks_leases s a"]
    by (simp_all only: flds(3))
  show ?thesis
    unfolding projected_def Let_def assms(2) flds Option.bind.bind_lunit act summary_of_def
      summary_version_for_record_def option.case la
    using lv name flds(5) by (simp add: head_of_mailbox_def)
qed

end
