(* ===== verification/Mailbox_Preservation.thy ===== *)
theory Mailbox_Preservation
  imports Mailbox_Invariants
begin

text \<open>
  Every operation of the kernel keeps \<open>mailbox_inv\<close>, and what it does to the queue. The proofs
  follow the code: an operation appends one row and possibly changes the lease (\<open>put\<close>), then
  stores a summary that was either rebuilt from the log or updated from the previous one.
\<close>

section \<open>One row and one lease\<close>

definition put :: "'z kernel_state_scheme \<Rightarrow> string \<Rightarrow> inbound_event \<Rightarrow> delivery_lease option \<Rightarrow>
    'z kernel_state_scheme" where
  "put s a e L = s\<lparr>ks_inboxes := (ks_inboxes s)(a := ks_inboxes s a @ [e]),
     ks_leases := (ks_leases s)(a := L)\<rparr>"

lemma put_fields [simp]:
  "ks_inboxes (put s a e L) a = ks_inboxes s a @ [e]" "ks_leases (put s a e L) a = L"
  "ks_mailboxes (put s a e L) = ks_mailboxes s"
  by (simp_all add: put_def)

lemma pend_put: "pend (put s a e L) a = pending_log (ks_inboxes s a @ [e])"
  by (simp add: put_def pend_eq)

lemma put_wf:
  "mailbox_wf s a \<Longrightarrow> valid_event e \<Longrightarrow> ev_agent_name e = a \<Longrightarrow>
   (\<And>l. L = Some l \<Longrightarrow> valid_lease l \<and> dl_agent_name l = a) \<Longrightarrow> mailbox_wf (put s a e L) a"
  by (auto simp: mailbox_wf_def)

definition released :: "delivery_lease option \<Rightarrow> string \<Rightarrow> delivery_lease option" where
  "released lease i = (case lease of None \<Rightarrow> None
     | Some l \<Rightarrow> if dl_lease_state l = LS_ACQUIRED \<and> dl_inbound_event_id l = i then None else Some l)"

lemma release_run [kernel_run]:
  "owner_name_ok a \<Longrightarrow> release_matching_lease a i s =
     (Inr (), s\<lparr>ks_leases := (ks_leases s)(a := released (ks_leases s a) i)\<rparr>)"
  by (auto simp: release_matching_lease_def kernel_run released_def fun_upd_idem split: option.splits)

lemma released_active:
  "i \<noteq> [] \<Longrightarrow> lease_active_event_id (released lease i) =
     (if lease_active_event_id lease = Some i then None else lease_active_event_id lease)"
  by (auto simp: released_def lease_active_event_id_def split: option.splits)

lemma released_Some: "released lease i = Some l \<Longrightarrow> lease = Some l"
  by (auto simp: released_def split: option.splits if_splits)

section \<open>Places in the queue\<close>

lemma pend_split:
  assumes "find_last_in (\<lambda>x. eid x = eid c) (ks_inboxes s a) = Some c" "\<not> event_terminal c"
  obtains as bs where "pend s a = as @ c # bs" "eid c \<notin> eid ` set as" "eid c \<notin> eid ` set bs"
proof -
  from assms have "c \<in> set (pend s a)" by (simp add: pend_eq in_pending_log)
  then obtain as bs where ab: "pend s a = as @ c # bs" by (meson split_list)
  then have "distinct (map eid (as @ c # bs))"
    using distinct_pending_log [of "ks_inboxes s a"] by (simp add: pend_eq)
  with ab show ?thesis by (intro that [of as bs]) auto
qed

lemma map_replace_id: "k \<notin> key ` set xs \<Longrightarrow> map (\<lambda>x. if key x = k then r else x) xs = xs"
  by (rule map_idI) auto

lemma filter_other_id: "k \<notin> key ` set xs \<Longrightarrow> filter (\<lambda>x. key x \<noteq> k) xs = xs"
  by (rule filter_True) auto

lemma pend_replaced:
  assumes c: "find_last_in (\<lambda>x. eid x = eid c) (ks_inboxes s a) = Some c" "\<not> event_terminal c"
    and p: "pend s a = as @ c # bs" "eid c \<notin> eid ` set as" "eid c \<notin> eid ` set bs"
    and e: "eid e = eid c" "\<not> event_terminal e"
  shows "pend (put s a e L) a = as @ e # bs"
proof -
  have "pending_log (ks_inboxes s a @ [e]) = map (\<lambda>x. if eid x = eid e then e else x) (pend s a)"
    using pending_log_replace [of e "ks_inboxes s a" c] c e by (simp add: pend_eq)
  also have "\<dots> = as @ e # bs"
    using p e map_replace_id [of "eid c" eid as e] map_replace_id [of "eid c" eid bs e] by simp
  finally show ?thesis by (simp add: pend_put)
qed

lemma pend_removed:
  assumes c: "find_last_in (\<lambda>x. eid x = eid c) (ks_inboxes s a) = Some c"
    and p: "pend s a = as @ c # bs" "eid c \<notin> eid ` set as" "eid c \<notin> eid ` set bs"
    and e: "eid e = eid c" "event_terminal e"
  shows "pend (put s a e L) a = as @ bs"
proof -
  from c have "c \<in> set (ks_inboxes s a)" using find_last_in_Some by metis
  with e have "pending_log (ks_inboxes s a @ [e]) = filter (\<lambda>x. eid x \<noteq> eid e) (pend s a)"
    using pending_log_remove [of e "ks_inboxes s a"] by (simp add: pend_eq)
  also have "\<dots> = as @ bs"
    using p e filter_other_id [of "eid c" eid as] filter_other_id [of "eid c" eid bs] by simp
  finally show ?thesis by (simp add: pend_put)
qed

lemma absorbed_put:
  assumes "\<forall>x \<in> set (latest_by eid (ks_inboxes s a)).
        absorbed ls (ev_started_at x) \<and> absorbed lf (ev_finished_at x)"
    and "absorbed ls (ev_started_at e)" "absorbed lf (ev_finished_at e)"
  shows "\<forall>x \<in> set (latest_by eid (ks_inboxes (put s a e L) a)).
        absorbed ls (ev_started_at x) \<and> absorbed lf (ev_finished_at x)"
  using assms by (auto simp: latest_by_snoc split: if_splits)

lemma summary_matchesD:
  assumes "summary_matches s a m"
  shows "mb_queue_depth m = int (length (pend s a))"
    "mb_pending_reply_count m = int (length (filter (\<lambda>e. ev_event_type e = TASK_REPLY) (pend s a)))"
    "mb_active_inbound_event_id m = lease_active_event_id (ks_leases s a)"
    "head_of_mailbox m = summary_head_from_event (opt_hd (pend s a))"
    "mb_head_inbound_event_id m = map_option eid (opt_hd (pend s a))"
    "\<forall>e \<in> set (latest_by eid (ks_inboxes s a)).
        absorbed (mb_last_inbound_started_at m) (ev_started_at e) \<and>
        absorbed (mb_last_inbound_finished_at m) (ev_finished_at e)"
proof -
  show h: "head_of_mailbox m = summary_head_from_event (opt_hd (pend s a))"
    using assms by (simp add: summary_matches_def)
  have "mb_head_inbound_event_id m = sh_inbound_event_id (head_of_mailbox m)"
    by (simp add: head_of_mailbox_def)
  then show "mb_head_inbound_event_id m = map_option eid (opt_hd (pend s a))"
    by (cases "opt_hd (pend s a)") (simp_all add: h summary_head_from_event_def empty_head_def)
qed (use assms in \<open>auto simp: summary_matches_def\<close>)

lemma summary_present:
  assumes "mailbox_inv s a" "pend s a \<noteq> []"
  obtains m where "ks_mailboxes s a = Some m" "summary_matches s a m"
  using assms by (cases "ks_mailboxes s a") (auto simp: mailbox_inv_def summary_inv_def pend_eq)

lemma opt_hd_append: "opt_hd (as @ c # bs) = Some (case as of [] \<Rightarrow> c | x # _ \<Rightarrow> x)"
  by (cases as) simp_all

lemma transition_run [kernel_run]:
  assumes "mailbox_wf s a" "nonblank t" "py_strip src \<noteq> []"
  shows "apply_transition_summary_update a q n act ls lf (Some t) src (Given h) s =
    (let m = summary_of a (ks_mailboxes s a) (ks_leases s a) (max 0 q) (max 0 n) act ls lf t src h
     in (Inr m, s\<lparr>ks_mailboxes := (ks_mailboxes s)(a \<mapsto> m)\<rparr>))"
proof -
  have ok: "owner_name_ok a" using assms by (simp add: mailbox_wf_def)
  have "valid_mailbox (summary_of a (ks_mailboxes s a) (ks_leases s a) (max 0 q) (max 0 n) act ls lf t src h)"
    by (rule summary_of_valid [OF assms]) simp_all
  with ok assms show ?thesis
    by (simp add: apply_transition_summary_update_def kernel_run build_mailbox_summary_record_def Let_def)
qed

lemma source_nonblank [simp]:
  "py_strip ''transition-claim'' \<noteq> []" "py_strip ''transition-terminal'' \<noteq> []"
  "py_strip ''transition-rewrite-head'' \<noteq> []" "py_strip ''incremental-upsert'' \<noteq> []"
  "py_strip ''history-refresh'' \<noteq> []"
  by (simp_all add: py_strip_def py_rstrip_def py_lstrip_def py_isspace_def)

lemma refresh_run [kernel_run]:
  "mailbox_wf s a \<Longrightarrow> nonblank t \<Longrightarrow> refresh_and_return a t v s =
    (Inr v, s\<lparr>ks_mailboxes := (ks_mailboxes s)(a \<mapsto> projected s a t ''history-refresh'')\<rparr>)"
  by (simp add: refresh_and_return_def kernel_run)

text \<open>The state changed by nothing but a new summary, and by one row, one lease and a summary\<close>

definition lease_mark :: "'z kernel_state_scheme \<Rightarrow> string \<Rightarrow> int" where
  "lease_mark s a = (case ks_mailboxes s a of Some m \<Rightarrow> mb_lease_version m | None \<Rightarrow> 0)"

definition refreshed :: "'z kernel_state_scheme \<Rightarrow> string \<Rightarrow> 'z kernel_state_scheme \<Rightarrow> bool" where
  "refreshed s a s' \<longleftrightarrow> (\<exists>m. s' = s\<lparr>ks_mailboxes := (ks_mailboxes s)(a \<mapsto> m)\<rparr>) \<and> mailbox_inv s' a \<and>
     lease_mark s' a = lease_mark s a"

definition committed :: "'z kernel_state_scheme \<Rightarrow> string \<Rightarrow> inbound_event \<Rightarrow> delivery_lease option \<Rightarrow>
    'z kernel_state_scheme \<Rightarrow> bool" where
  "committed s a e L s' \<longleftrightarrow>
     (\<exists>m. s' = (put s a e L)\<lparr>ks_mailboxes := (ks_mailboxes s)(a \<mapsto> m)\<rparr>) \<and> mailbox_inv s' a \<and>
     lease_mark s' a = (case L of Some l \<Rightarrow> dl_lease_version l | None \<Rightarrow> lease_mark s a)"

lemma put_mark [simp]: "lease_mark (put s a e L) b = lease_mark s b"
  by (simp add: lease_mark_def put_def)

lemma summary_of_mark:
  "p = ks_mailboxes s a \<Longrightarrow>
   lease_mark ((put s a e L)\<lparr>ks_mailboxes := M(a \<mapsto> summary_of b p L q n act ls lf t src h)\<rparr>) a =
     (case L of Some l \<Rightarrow> dl_lease_version l | None \<Rightarrow> lease_mark s a)"
  by (simp add: lease_mark_def split: option.splits)

lemma projected_mark:
  "lease_mark (s\<lparr>ks_mailboxes := M(a \<mapsto> projected s a t src)\<rparr>) a =
     (case ks_leases s a of Some l \<Rightarrow> dl_lease_version l | None \<Rightarrow> lease_mark s a)"
  by (simp add: projected_def Let_def lease_mark_def split: option.splits)

lemma inv_mark: "mailbox_inv s a \<Longrightarrow>
    (case ks_leases s a of Some l \<Rightarrow> dl_lease_version l | None \<Rightarrow> lease_mark s a) = lease_mark s a"
  by (auto simp: mailbox_inv_def summary_inv_def summary_matches_def lease_mark_def split: option.splits)

lemma refreshed_fields:
  "refreshed s a s' \<Longrightarrow> pend s' b = pend s b" "refreshed s a s' \<Longrightarrow> ks_inboxes s' = ks_inboxes s"
  "refreshed s a s' \<Longrightarrow> ks_leases s' = ks_leases s"
  "refreshed s a s' \<Longrightarrow> b \<noteq> a \<Longrightarrow> ks_mailboxes s' b = ks_mailboxes s b"
  "refreshed s a s' \<Longrightarrow> ks_clock s' = ks_clock s"
  by (auto simp: refreshed_def)

lemma committed_fields:
  "committed s a e L s' \<Longrightarrow> pend s' a = pend (put s a e L) a"
  "committed s a e L s' \<Longrightarrow> ks_inboxes s' = (ks_inboxes s)(a := ks_inboxes s a @ [e])"
  "committed s a e L s' \<Longrightarrow> ks_leases s' = (ks_leases s)(a := L)"
  "committed s a e L s' \<Longrightarrow> b \<noteq> a \<Longrightarrow> ks_mailboxes s' b = ks_mailboxes s b"
  "committed s a e L s' \<Longrightarrow> ks_clock s' = ks_clock s"
  by (auto simp: committed_def pend_eq put_def)

lemma inv_of_refreshed: "refreshed s a s' \<Longrightarrow> mailbox_inv s' a"
  by (simp add: refreshed_def)

lemma inv_of_committed: "committed s a e L s' \<Longrightarrow> mailbox_inv s' a"
  by (simp add: committed_def)

lemma rebuild_refreshed:
  "mailbox_inv s a \<Longrightarrow> nonblank t \<Longrightarrow>
   refreshed s a (s\<lparr>ks_mailboxes := (ks_mailboxes s)(a \<mapsto> projected s a t ''history-refresh'')\<rparr>)"
  using rebuild_inv [of s a t] by (auto simp: refreshed_def projected_mark inv_mark dest: mailbox_invD)

lemma refresh_refreshed:
  "mailbox_inv s a \<Longrightarrow> nonblank t \<Longrightarrow>
   \<exists>s'. refresh_and_return a t v s = (Inr v, s') \<and> refreshed s a s'"
  using rebuild_refreshed [of s a t] by (simp add: refresh_run mailbox_inv_def)

lemma rebuild_committed:
  assumes "mailbox_wf (put s a e L) a" "lease_inv (put s a e L) a" "nonblank t"
  shows "committed s a e L ((put s a e L)\<lparr>ks_mailboxes :=
      (ks_mailboxes s)(a \<mapsto> projected (put s a e L) a t ''history-refresh'')\<rparr>)"
  using rebuild_inv [OF assms] projected_mark [where s = "put s a e L" and a = a]
  by (cases L) (auto simp: committed_def)

section \<open>Claiming\<close>

definition delivered :: "inbound_event \<Rightarrow> string \<Rightarrow> inbound_event" where
  "delivered c t = c\<lparr>ev_status := IE_DELIVERING,
     ev_started_at := Some (opt_str_or (ev_started_at c) t), ev_finished_at := None\<rparr>"

definition issued_version :: "'z kernel_state_scheme \<Rightarrow> string \<Rightarrow> int" where
  "issued_version s a = (case ks_leases s a of Some l \<Rightarrow> dl_lease_version l + 1
     | None \<Rightarrow> (case ks_mailboxes s a of Some m \<Rightarrow> mb_lease_version m + 1 | None \<Rightarrow> 1))"

definition claim_lease :: "'z kernel_state_scheme \<Rightarrow> string \<Rightarrow> string \<Rightarrow> string \<Rightarrow> delivery_lease" where
  "claim_lease s a i t = \<lparr>dl_agent_name = a, dl_inbound_event_id = i,
     dl_lease_version = issued_version s a, dl_acquired_at = t, dl_last_progress_at = Some t,
     dl_expires_at = None, dl_lease_state = LS_ACQUIRED\<rparr>"

lemma pend_mem_latest:
  "c \<in> set (pend s a) \<Longrightarrow> find_last_in (\<lambda>x. eid x = eid c) (ks_inboxes s a) = Some c \<and> \<not> event_terminal c"
  by (simp add: pend_eq in_pending_log)

lemma pend_valid: "mailbox_wf s a \<Longrightarrow> c \<in> set (pend s a) \<Longrightarrow> valid_event c \<and> ev_agent_name c = a"
  using pend_mem_latest [of c s a] find_last_in_Some [of _ "ks_inboxes s a" c]
  by (auto simp: mailbox_wf_def)

lemma head_claimable_no_lease:
  assumes "lease_inv s a" "pend s a = c # bs" "ev_status c \<in> set CLAIMABLE_EVENT_STATES"
  shows "lease_active_event_id (ks_leases s a) = None"
proof (rule ccontr)
  assume "lease_active_event_id (ks_leases s a) \<noteq> None"
  then obtain i where i: "lease_active_event_id (ks_leases s a) = Some i" by auto
  with assms(1,2) have "i = eid c" by (simp add: lease_inv_def)
  with assms i have "ev_status c = IE_DELIVERING" by (simp add: lease_inv_def)
  with assms(3) show False by (simp add: CLAIMABLE_EVENT_STATES_def)
qed

lemma claim_lease_valid:
  "mailbox_wf s a \<Longrightarrow> i \<noteq> [] \<Longrightarrow> valid_lease (claim_lease s a i t)"
  by (auto simp: mailbox_wf_def valid_lease_def valid_mailbox_def claim_lease_def issued_version_def
      split: option.splits)

lemma pend_ids_distinct: "distinct (map eid (pend s a))"
  by (simp add: pend_eq distinct_pending_log)

lemma terminal_states [simp]:
  "IE_DELIVERING \<notin> set TERMINAL_EVENT_STATES" "IE_QUEUED \<notin> set TERMINAL_EVENT_STATES"
  "IE_CONSUMED \<in> set TERMINAL_EVENT_STATES" "IE_SUPERSEDED \<in> set TERMINAL_EVENT_STATES"
  "IE_ABANDONED \<in> set TERMINAL_EVENT_STATES"
  by (simp_all add: TERMINAL_EVENT_STATES_def)

lemma delivered_fields [simp]:
  "eid (delivered c t) = eid c" "ev_agent_name (delivered c t) = ev_agent_name c"
  "ev_status (delivered c t) = IE_DELIVERING"
  "ev_event_type (delivered c t) = ev_event_type c"
  "valid_event (delivered c t) = valid_event c"
  by (simp_all add: delivered_def valid_event_def)

lemma claim_put:
  assumes inv: "mailbox_inv s a" and p: "pend s a = c # bs"
    and cl: "ev_status c \<in> set CLAIMABLE_EVENT_STATES"
    and u: "u = delivered c t" and l: "l = claim_lease s a (eid c) t"
  shows "pend (put s a u (Some l)) a = u # bs" "mailbox_wf (put s a u (Some l)) a"
    "lease_inv (put s a u (Some l)) a"
proof -
  have wf: "mailbox_wf s a" and li: "lease_inv s a" using inv by (simp_all add: mailbox_inv_def)
  have c: "find_last_in (\<lambda>x. eid x = eid c) (ks_inboxes s a) = Some c" "\<not> event_terminal c"
    using pend_mem_latest [of c s a] p by simp_all
  have vc: "valid_event c" "ev_agent_name c = a" using pend_valid [OF wf, of c] p by simp_all
  then have ne: "eid c \<noteq> []" by (simp add: valid_event_def)
  have nin: "eid c \<notin> eid ` set bs" using pend_ids_distinct [of s a] p by simp
  show pd: "pend (put s a u (Some l)) a = u # bs"
    using pend_replaced [OF c, of "[]" bs u "Some l"] p nin by (simp add: u)
  show "mailbox_wf (put s a u (Some l)) a"
    using wf vc claim_lease_valid [OF wf ne, of t] by (intro put_wf) (auto simp: u l claim_lease_def)
  have la: "lease_active_event_id (Some l) = Some (eid c)"
    using ne by (simp add: lease_active_event_id_def l claim_lease_def str_or_none_def)
  have "\<forall>e \<in> set bs. ev_status e \<noteq> IE_DELIVERING"
    using li head_claimable_no_lease [OF li p cl] p by (simp add: lease_inv_def)
  with nin la show "lease_inv (put s a u (Some l)) a"
    unfolding lease_inv_def pd put_fields la by (auto simp: u)
qed

lemma claim_head:
  assumes inv: "mailbox_inv s a" and p: "pend s a = c # bs"
    and cl: "ev_status c \<in> set CLAIMABLE_EVENT_STATES" and nb: "nonblank t"
  shows "\<exists>s'. claim a (eid c) (Some t) s = (Inr (Some (delivered c t)), s') \<and>
    committed s a (delivered c t) (Some (claim_lease s a (eid c) t)) s'"
proof -
  let ?u = "delivered c t" and ?l = "claim_lease s a (eid c) t"
  let ?s = "put s a ?u (Some ?l)"
  have wf: "mailbox_wf s a" and li: "lease_inv s a" and si: "summary_inv s a" and ok: "owner_name_ok a"
    using inv by (simp_all add: mailbox_inv_def mailbox_wf_def)
  note pt = claim_put [OF inv p cl refl refl, of t]
  have c: "find_last_in (\<lambda>x. eid x = eid c) (ks_inboxes s a) = Some c" "\<not> event_terminal c"
    using pend_mem_latest [of c s a] p by simp_all
  have vc: "valid_event c" "ev_agent_name c = a" using pend_valid [OF wf, of c] p by simp_all
  have nconf: "has_conflicting_lease a (eid c) s = (Inr False, s)"
    using head_claimable_no_lease [OF li p cl] wf ok
    by (auto simp: has_conflicting_lease_def kernel_run lease_active_event_id_def mailbox_wf_def
        valid_lease_def split: option.splits)
  have nd: "ev_status c \<noteq> IE_DELIVERING" using cl by (auto simp: CLAIMABLE_EVENT_STATES_def)
  have run: "claim a (eid c) (Some t) s = claim_current a c t s"
    using ok nb c nconf nd cl p
    by (simp add: claim_def kernel_run load_claim_candidate_def is_claimable_head_def)
  let ?s1 = "s\<lparr>ks_inboxes := (ks_inboxes s)(a := ks_inboxes s a @ [?u])\<rparr>"
  have rec: "delivery_record c t = Inr ?u"
    using vc by (simp add: delivery_record_def flip: delivered_def)
  have app: "inbound_append ?u s = (Inr (), ?s1)"
    using ok vc by (simp add: kernel_run)
  have nlv: "next_lease_version a ?s1 = (Inr (issued_version s a), ?s1)"
    using ok by (simp add: next_lease_version_def kernel_run issued_version_def split: option.splits)
  have mkl: "make_delivery_lease a (eid c) t ?s1 = (Inr ?l, ?s1)"
    using claim_lease_valid [OF wf, of "eid c" t] vc nlv
    by (simp add: make_delivery_lease_def valid_event_def flip: claim_lease_def)
  have svl: "lease_save ?l ?s1 = (Inr (), ?s)"
    using ok by (simp add: lease_save_run claim_lease_def put_def)
  note steps = rec app mkl svl
  obtain m where m: "ks_mailboxes s a = Some m" and sm: "summary_matches s a m"
    using summary_present [OF inv] p by auto
  note D = summary_matchesD [OF sm]
  have head: "mb_queue_depth m > 0" "mb_head_inbound_event_id m = Some (eid c)"
    using D p by simp_all
  let ?ls = "latest_timestamp (mb_last_inbound_started_at m) (ev_started_at ?u)"
  let ?m = "summary_of a (Some m) (Some ?l) (mb_queue_depth m) (max 0 (mb_pending_reply_count m))
      (Some (eid c)) ?ls (mb_last_inbound_finished_at m) t ''transition-claim''
      (summary_head_from_event (Some ?u))"
  have fin: "claim_current a c t s =
      (Inr (Some ?u), ?s\<lparr>ks_mailboxes := (ks_mailboxes s)(a \<mapsto> ?m)\<rparr>)"
    using ok head m pt(2) nb
    by (simp add: claim_current_def steps store_runs transition_run Let_def)
  have absf: "absorbed x None" for x by (simp add: absorbed_def latest_timestamp_def)
  have "mailbox_inv (?s\<lparr>ks_mailboxes := (ks_mailboxes ?s)(a \<mapsto> ?m)\<rparr>) a"
  proof (rule stored_summary_inv [OF pt(2,3) nb])
    show "\<forall>e \<in> set (latest_by eid (ks_inboxes ?s a)). absorbed ?ls (ev_started_at e) \<and>
        absorbed (mb_last_inbound_finished_at m) (ev_finished_at e)"
      using D(6) by (intro absorbed_put)
        (auto simp: absorbed_latest_old absorbed_latest_new absf, simp add: delivered_def absf)
    show "Some (eid c) = lease_active_event_id (ks_leases ?s a)"
      using vc by (simp add: lease_active_event_id_def claim_lease_def valid_event_def str_or_none_def)
  qed (use D p pt(1) m in simp_all)
  then show ?thesis using run fin m by (auto simp: committed_def summary_of_mark)
qed

text \<open>Every other call of \<open>claim\<close> leaves log and lease alone.\<close>

lemma pending_status:
  "\<not> event_terminal e \<Longrightarrow> ev_status e \<in> set CLAIMABLE_EVENT_STATES \<or> ev_status e = IE_DELIVERING"
  by (cases "ev_status e") (simp_all add: CLAIMABLE_EVENT_STATES_def TERMINAL_EVENT_STATES_def)

lemma active_is_head:
  "lease_inv s a \<Longrightarrow> lease_active_event_id (ks_leases s a) = Some i \<Longrightarrow>
   \<exists>c bs. pend s a = c # bs \<and> eid c = i \<and> ev_status c = IE_DELIVERING"
  by (cases "pend s a") (auto simp: lease_inv_def)

lemma delivering_has_lease:
  "lease_inv s a \<Longrightarrow> c \<in> set (pend s a) \<Longrightarrow> ev_status c = IE_DELIVERING \<Longrightarrow>
   lease_active_event_id (ks_leases s a) = Some (eid c)"
  unfolding lease_inv_def by blast

lemma delivering_is_head:
  assumes "lease_inv s a" "c \<in> set (pend s a)" "ev_status c = IE_DELIVERING"
  shows "opt_hd (pend s a) = Some c"
proof -
  have "lease_active_event_id (ks_leases s a) = Some (eid c)" using assms by (simp add: lease_inv_def)
  then obtain h bs where "pend s a = h # bs" "eid h = eid c"
    using active_is_head [OF assms(1)] by blast
  with assms(2) pend_ids_distinct [of s a] show ?thesis by (auto simp: image_iff)
qed

lemma conflict_run:
  assumes "mailbox_wf s a"
  shows "has_conflicting_lease a i s =
    (Inr (case lease_active_event_id (ks_leases s a) of None \<Rightarrow> False | Some j \<Rightarrow> j \<noteq> i), s)"
  using assms by (auto simp: has_conflicting_lease_def kernel_run lease_active_event_id_def mailbox_wf_def
      valid_lease_def split: option.splits)

lemma claim_redelivers:
  assumes inv: "mailbox_inv s a" and p: "opt_hd (pend s a) = Some c"
    and st: "ev_status c = IE_DELIVERING" and nb: "nonblank t"
  shows "\<exists>s'. claim a (eid c) (Some t) s = (Inr (Some c), s') \<and> refreshed s a s'"
proof -
  note i = mailbox_invD [OF inv]
  have mem: "c \<in> set (pend s a)" using p by (rule opt_hd_in)
  have "lease_active_event_id (ks_leases s a) = Some (eid c)"
    using i(2) mem st by (simp add: lease_inv_def)
  then have "has_conflicting_lease a (eid c) s = (Inr False, s)"
    using conflict_run [OF i(1), of "eid c"] by simp
  then have "claim a (eid c) (Some t) s = refresh_and_return a t (Some c) s"
    using nb st pend_mem_latest [OF mem] i(1,4)
    by (simp add: claim_def kernel_run load_claim_candidate_def)
  with refresh_refreshed [OF inv nb] show ?thesis by simp
qed

lemma claim_refused:
  assumes inv: "mailbox_inv s a" and p: "map_option eid (opt_hd (pend s a)) \<noteq> Some i" and nb: "nonblank t"
  shows "\<exists>s'. claim a i (Some t) s = (Inr None, s') \<and> refreshed s a s'"
proof -
  note i = mailbox_invD [OF inv] and ok = mailbox_invD(4) [OF inv]
  have "claim a i (Some t) s = refresh_and_return a t None s"
  proof (cases "find_last_in (\<lambda>x. eid x = i) (ks_inboxes s a)")
    case None then show ?thesis
      using nb ok i(1) by (simp add: claim_def kernel_run load_claim_candidate_def)
  next
    case c: (Some c)
    then have ci: "eid c = i" using find_last_in_Some [OF c] by simp
    have nd: "ev_status c \<noteq> IE_DELIVERING" if nt: "\<not> event_terminal c"
    proof -
      have "c \<in> set (pend s a)" using c ci nt by (simp add: pend_eq in_pending_log)
      with delivering_is_head [OF i(2)] p ci show ?thesis by fastforce
    qed
    have h: "is_claimable_head a c s = (Inr False, s)"
      using p ci ok by (cases "opt_hd (pend s a)") (simp_all add: is_claimable_head_def kernel_run)
    obtain b where "has_conflicting_lease a i s = (Inr b, s)" using conflict_run [OF i(1)] by blast
    with c nd nb ok i(1) h show ?thesis
      by (cases b; cases "event_terminal c") (simp_all add: claim_def kernel_run load_claim_candidate_def)
  qed
  with refresh_refreshed [OF inv nb] show ?thesis by simp
qed

section \<open>Terminal transitions\<close>

definition finished :: "inbound_event \<Rightarrow> inbound_event_status \<Rightarrow> string \<Rightarrow> inbound_event" where
  "finished c st t = c\<lparr>ev_status := st, ev_finished_at := Some t\<rparr>"

lemma finished_fields [simp]:
  "eid (finished c st t) = eid c" "ev_agent_name (finished c st t) = ev_agent_name c"
  "ev_status (finished c st t) = st" "ev_event_type (finished c st t) = ev_event_type c"
  "ev_started_at (finished c st t) = ev_started_at c" "ev_finished_at (finished c st t) = Some t"
  "valid_event (finished c st t) = valid_event c"
  by (simp_all add: finished_def valid_event_def)

lemma lease_inv_removed:
  assumes li: "lease_inv s a" and p: "pend s a = as @ c # bs" "eid c \<noteq> []"
    and s': "pend s' a = as @ bs" "ks_leases s' a = released (ks_leases s a) (eid c)"
  shows "lease_inv s' a"
proof -
  have d: "distinct (map eid (as @ c # bs))" using pend_ids_distinct [of s a] p by simp
  have act: "lease_active_event_id (ks_leases s' a) =
     (if lease_active_event_id (ks_leases s a) = Some (eid c) then None
      else lease_active_event_id (ks_leases s a))"
    using s'(2) p(2) by (simp add: released_active)
  show ?thesis
  proof (cases "lease_active_event_id (ks_leases s a) = Some (eid c)")
    case True
    with li p d show ?thesis by (auto simp: lease_inv_def act s'(1) p(1) image_iff)
  next
    case False
    moreover have "as \<noteq> []" if "lease_active_event_id (ks_leases s a) = Some i" for i
      using li that False p by (auto simp: lease_inv_def)
    ultimately show ?thesis using li p
      by (auto simp: lease_inv_def act s'(1) opt_hd_append) (cases as; fastforce)+
  qed
qed

lemma terminal_put:
  assumes inv: "mailbox_inv s a" and p: "pend s a = as @ c # bs" and st: "st \<in> set TERMINAL_EVENT_STATES"
    and u: "u = finished c st t" and l: "l = released (ks_leases s a) (eid c)"
  shows "pend (put s a u l) a = as @ bs" "mailbox_wf (put s a u l) a" "lease_inv (put s a u l) a"
proof -
  note i = mailbox_invD [OF inv]
  have c: "find_last_in (\<lambda>x. eid x = eid c) (ks_inboxes s a) = Some c"
    using pend_mem_latest [of c s a] p by simp
  have vc: "valid_event c" "ev_agent_name c = a" using pend_valid [OF i(1), of c] p by simp_all
  have "distinct (map eid (as @ c # bs))" using pend_ids_distinct [of s a] p by simp
  then show pd: "pend (put s a u l) a = as @ bs"
    using st by (intro pend_removed [OF c p]) (simp_all add: u)
  show "mailbox_wf (put s a u l) a"
    using i(1) vc by (intro put_wf) (auto simp: u l mailbox_wf_def dest!: released_Some)
  show "lease_inv (put s a u l) a"
    using vc by (intro lease_inv_removed [OF i(2) p _ pd]) (simp_all add: l valid_event_def)
qed

lemma mark_terminal_missing:
  "mailbox_inv s a \<Longrightarrow> nonblank t \<Longrightarrow> find_last_in (\<lambda>x. eid x = i) (ks_inboxes s a) = None \<Longrightarrow>
   \<exists>s'. mark_terminal a i st (Some t) s = (Inr None, s') \<and> refreshed s a s'"
  using refresh_refreshed [of s a t None] mailbox_invD [of s a]
  by (simp add: mark_terminal_def kernel_run)

lemma mark_terminal_done:
  "mailbox_inv s a \<Longrightarrow> nonblank t \<Longrightarrow> find_last_in (\<lambda>x. eid x = i) (ks_inboxes s a) = Some c \<Longrightarrow>
   event_terminal c \<Longrightarrow>
   \<exists>s'. mark_terminal a i st (Some t) s = (Inr (Some c), s') \<and> refreshed s a s'"
  using refresh_refreshed [of s a t "Some c"] mailbox_invD [of s a]
  by (simp add: mark_terminal_def kernel_run)

text \<open>The head that the summary of a queue without its event \<open>c\<close> gets, as the code computes it\<close>
lemma terminal_head:
  assumes d: "distinct (map eid (as @ c # bs))" and sm: "summary_matches s a m" and p: "pend s a = as @ c # bs"
  shows "mb_head_inbound_event_id m = Some (eid c) \<longleftrightarrow> as = []"
    "as \<noteq> [] \<Longrightarrow> head_of_mailbox m = summary_head_from_event (opt_hd (as @ bs))"
  using summary_matchesD(4,5) [OF sm] d by (cases as; auto simp: p)+

lemma mark_terminal_run:
  assumes inv: "mailbox_inv s a" and p: "pend s a = as @ c # bs"
    and st: "st \<in> set TERMINAL_EVENT_STATES" and nb: "nonblank t"
    and m: "ks_mailboxes s a = Some m" "summary_matches s a m"
    and u: "u = finished c st t" and l: "l = released (ks_leases s a) (eid c)"
    and n: "n = max 0 (mb_pending_reply_count m - (if ev_event_type c = TASK_REPLY then 1 else 0))"
    and act: "act = (if mb_active_inbound_event_id m = Some (eid c) then None
        else mb_active_inbound_event_id m)"
    and m': "m' = summary_of a (Some m) l (int (length (as @ bs))) n act (mb_last_inbound_started_at m)
        (latest_timestamp (mb_last_inbound_finished_at m) (Some t)) t
        ''transition-terminal'' (summary_head_from_event (opt_hd (as @ bs)))"
  shows "mark_terminal a (eid c) st (Some t) s =
      (Inr (Some u), (put s a u l)\<lparr>ks_mailboxes := (ks_mailboxes s)(a \<mapsto> m')\<rparr>)"
proof -
  let ?s = "put s a u l" and ?s1 = "s\<lparr>ks_inboxes := (ks_inboxes s)(a := ks_inboxes s a @ [u])\<rparr>"
  note i = mailbox_invD [OF inv] and pt = terminal_put [OF inv p st u l]
  have c: "find_last_in (\<lambda>x. eid x = eid c) (ks_inboxes s a) = Some c" "\<not> event_terminal c"
    using pend_mem_latest [of c s a] p by simp_all
  have vc: "valid_event c" "ev_agent_name c = a" using pend_valid [OF i(1), of c] p by simp_all
  have d: "distinct (map eid (as @ c # bs))" using pend_ids_distinct [of s a] p by simp
  have q: "mb_queue_depth m = int (length (as @ bs)) + 1" using summary_matchesD(1) [OF m(2)] p by simp
  have rec: "normalize_inbound_event_record (c\<lparr>ev_status := st, ev_finished_at := Some t\<rparr>) = Inr u"
    using vc by (simp add: u flip: finished_def)
  have app: "inbound_append u s = (Inr (), ?s1)" using i(4) vc by (simp add: u kernel_run)
  have rel: "release_matching_lease a (eid c) ?s1 = (Inr (), ?s)"
    using i(4) by (simp add: release_run put_def l)
  have hd: "head_pending_event a ?s = (Inr (opt_hd (as @ bs)), ?s)"
    using i(4) by (simp add: query_runs pt(1))
  have fin: "apply_transition_summary_update a (int (length (as @ bs))) n act
      (mb_last_inbound_started_at m) (latest_timestamp (mb_last_inbound_finished_at m) (Some t)) (Some t)
      ''transition-terminal'' (Given (summary_head_from_event (opt_hd (as @ bs)))) ?s =
    (Inr m', ?s\<lparr>ks_mailboxes := (ks_mailboxes s)(a \<mapsto> m')\<rparr>)"
    using transition_run [OF pt(2) nb, of "''transition-terminal''"] m(1)
    by (simp add: Let_def m' n)
  note steps = mark_terminal_def rec app rel terminal_head(1) [OF d m(2) p] store_runs
    given_or_clock_nonblank nb n act Let_def
  show ?thesis
  proof (cases as)
    case Nil
    show ?thesis
      using c i(4) m(1) q fin hd unfolding Nil
      by (cases bs; cases "tl bs") (simp_all add: steps Nil)
  next
    case (Cons x xs)
    then show ?thesis
      using c i(4) m(1) q fin terminal_head(2) [OF d m(2) p] by (simp add: steps)
  qed
qed

lemma mark_terminal_pending:
  assumes inv: "mailbox_inv s a" and p: "pend s a = as @ c # bs"
    and st: "st \<in> set TERMINAL_EVENT_STATES" and nb: "nonblank t"
  shows "\<exists>s'. mark_terminal a (eid c) st (Some t) s = (Inr (Some (finished c st t)), s') \<and>
    committed s a (finished c st t) (released (ks_leases s a) (eid c)) s'"
proof -
  let ?s = "put s a (finished c st t) (released (ks_leases s a) (eid c))"
  note i = mailbox_invD [OF inv] and pt = terminal_put [OF inv p st refl refl, of t]
  obtain m where m: "ks_mailboxes s a = Some m" and sm: "summary_matches s a m"
    using summary_present [OF inv] p by auto
  note D = summary_matchesD [OF sm] and run = mark_terminal_run [OF inv p st nb m sm refl refl refl refl refl]
  have vc: "valid_event c" using pend_valid [OF i(1), of c] p by simp
  let ?act = "if mb_active_inbound_event_id m = Some (eid c) then None else mb_active_inbound_event_id m"
  let ?n = "max 0 (mb_pending_reply_count m - (if ev_event_type c = TASK_REPLY then 1 else 0))"
  let ?lf = "latest_timestamp (mb_last_inbound_finished_at m) (Some t)"
  let ?m = "summary_of a (Some m) (released (ks_leases s a) (eid c)) (int (length (as @ bs))) ?n ?act
      (mb_last_inbound_started_at m) ?lf t ''transition-terminal'' (summary_head_from_event (opt_hd (as @ bs)))"
  have "mailbox_inv (?s\<lparr>ks_mailboxes := (ks_mailboxes ?s)(a \<mapsto> ?m)\<rparr>) a"
  proof (rule stored_summary_inv [OF pt(2,3) nb])
    have mem: "c \<in> set (latest_by eid (ks_inboxes s a))"
      using pend_mem_latest [of c s a] p by (simp add: latest_by_Some_iff)
    show "\<forall>e \<in> set (latest_by eid (ks_inboxes ?s a)).
        absorbed (mb_last_inbound_started_at m) (ev_started_at e) \<and> absorbed ?lf (ev_finished_at e)"
      using D(6) mem by (intro absorbed_put) (auto simp: absorbed_latest_old absorbed_latest_new)
    show "?act = lease_active_event_id (ks_leases ?s a)"
      using vc D(3) by (simp add: released_active valid_event_def)
    show "?n = int (length (filter (\<lambda>e. ev_event_type e = TASK_REPLY) (pend ?s a)))"
      using D(2) by (simp add: pt(1) p)
  qed (use m in \<open>simp_all add: pt(1)\<close>)
  then show ?thesis using run m by (auto simp: committed_def summary_of_mark)
qed

section \<open>Rewriting the head\<close>

definition rewritten :: "inbound_event \<Rightarrow> string option \<Rightarrow> inbound_event_status \<Rightarrow> bool \<Rightarrow> inbound_event" where
  "rewritten c ref st clr = c\<lparr>ev_payload_ref := ref, ev_status := st,
     ev_started_at := (if clr then None else ev_started_at c),
     ev_finished_at := (if clr then None else ev_finished_at c)\<rparr>"

lemma rewritten_fields [simp]:
  "eid (rewritten c ref st clr) = eid c" "ev_agent_name (rewritten c ref st clr) = ev_agent_name c"
  "ev_status (rewritten c ref st clr) = st" "ev_event_type (rewritten c ref st clr) = ev_event_type c"
  "valid_event (rewritten c ref st clr) = valid_event c"
  by (simp_all add: rewritten_def valid_event_def)

lemma lease_inv_requeued:
  assumes li: "lease_inv s a" and p: "pend s a = as @ c # bs" "eid c \<noteq> []"
    and s': "pend s' a = as @ u # bs" "ks_leases s' a = released (ks_leases s a) (eid c)"
    and u: "eid u = eid c" "ev_status u \<noteq> IE_DELIVERING"
  shows "lease_inv s' a"
proof -
  have d: "distinct (map eid (as @ c # bs))" using pend_ids_distinct [of s a] p by simp
  have act: "lease_active_event_id (ks_leases s' a) =
     (if lease_active_event_id (ks_leases s a) = Some (eid c) then None
      else lease_active_event_id (ks_leases s a))"
    using s'(2) p(2) by (simp add: released_active)
  show ?thesis
  proof (cases "lease_active_event_id (ks_leases s a) = Some (eid c)")
    case True
    with li p d u show ?thesis by (auto simp: lease_inv_def act s'(1) p(1) image_iff)
  next
    case False
    moreover have "as \<noteq> []" if "lease_active_event_id (ks_leases s a) = Some i" for i
      using li that False p by (auto simp: lease_inv_def)
    ultimately show ?thesis using li p u
      by (auto simp: lease_inv_def act s'(1) opt_hd_append) (cases as; fastforce)+
  qed
qed

lemma rewrite_put:
  assumes inv: "mailbox_inv s a" and p: "pend s a = as @ c # bs" and st: "st \<in> set CLAIMABLE_EVENT_STATES"
    and u: "u = rewritten c ref st clr" and l: "l = released (ks_leases s a) (eid c)"
  shows "pend (put s a u l) a = as @ u # bs" "mailbox_wf (put s a u l) a" "lease_inv (put s a u l) a"
proof -
  note i = mailbox_invD [OF inv]
  have c: "find_last_in (\<lambda>x. eid x = eid c) (ks_inboxes s a) = Some c" "\<not> event_terminal c"
    using pend_mem_latest [of c s a] p by simp_all
  have vc: "valid_event c" "ev_agent_name c = a" using pend_valid [OF i(1), of c] p by simp_all
  have st': "st \<notin> set TERMINAL_EVENT_STATES" "st \<noteq> IE_DELIVERING"
    using st by (auto simp: CLAIMABLE_EVENT_STATES_def TERMINAL_EVENT_STATES_def)
  have "distinct (map eid (as @ c # bs))" using pend_ids_distinct [of s a] p by simp
  then show pd: "pend (put s a u l) a = as @ u # bs"
    using st' by (intro pend_replaced [OF c p]) (simp_all add: u)
  show "mailbox_wf (put s a u l) a"
    using i(1) vc by (intro put_wf) (auto simp: u l mailbox_wf_def dest!: released_Some)
  show "lease_inv (put s a u l) a"
    using vc st' by (intro lease_inv_requeued [OF i(2) p _ pd]) (simp_all add: l u valid_event_def)
qed

lemma rewrite_head_missing:
  "mailbox_inv s a \<Longrightarrow> nonblank t \<Longrightarrow> find_last_in (\<lambda>x. eid x = i) (ks_inboxes s a) = None \<Longrightarrow>
   \<exists>s'. rewrite_head a i ref st (Some t) clr s = (Inr None, s') \<and> refreshed s a s'"
  using refresh_refreshed [of s a t None] mailbox_invD [of s a]
  by (simp add: rewrite_head_def kernel_run)

lemma rewrite_head_done:
  "mailbox_inv s a \<Longrightarrow> nonblank t \<Longrightarrow> find_last_in (\<lambda>x. eid x = i) (ks_inboxes s a) = Some c \<Longrightarrow>
   event_terminal c \<Longrightarrow>
   \<exists>s'. rewrite_head a i ref st (Some t) clr s = (Inr None, s') \<and> refreshed s a s'"
  using refresh_refreshed [of s a t None] mailbox_invD [of s a]
  by (simp add: rewrite_head_def kernel_run)

lemma rewrite_head_pending:
  assumes inv: "mailbox_inv s a" and p: "pend s a = as @ c # bs"
    and st: "st \<in> set CLAIMABLE_EVENT_STATES" and nb: "nonblank t"
  shows "\<exists>s'. rewrite_head a (eid c) ref st (Some t) clr s = (Inr (Some (rewritten c ref st clr)), s') \<and>
    committed s a (rewritten c ref st clr) (released (ks_leases s a) (eid c)) s'"
proof -
  let ?u = "rewritten c ref st clr" and ?l = "released (ks_leases s a) (eid c)"
  let ?s = "put s a ?u ?l" and ?s1 = "s\<lparr>ks_inboxes := (ks_inboxes s)(a := ks_inboxes s a @ [?u])\<rparr>"
  note i = mailbox_invD [OF inv] and pt = rewrite_put [OF inv p st refl refl]
  have c: "find_last_in (\<lambda>x. eid x = eid c) (ks_inboxes s a) = Some c" "\<not> event_terminal c"
    using pend_mem_latest [of c s a] p by simp_all
  have vc: "valid_event c" "ev_agent_name c = a" using pend_valid [OF i(1), of c] p by simp_all
  have d: "distinct (map eid (as @ c # bs))" using pend_ids_distinct [of s a] p by simp
  obtain m where m: "ks_mailboxes s a = Some m" and sm: "summary_matches s a m"
    using summary_present [OF inv] p by auto
  note D = summary_matchesD [OF sm]
  have rec: "normalize_inbound_event_record (c\<lparr>ev_payload_ref := ref, ev_status := st,
      ev_started_at := (if clr then None else ev_started_at c),
      ev_finished_at := (if clr then None else ev_finished_at c)\<rparr>) = Inr ?u"
    using vc by (simp flip: rewritten_def)
  have app: "inbound_append ?u s = (Inr (), ?s1)" using i(4) vc by (simp add: kernel_run)
  have rel: "release_matching_lease a (eid c) ?s1 = (Inr (), ?s)"
    using i(4) by (simp add: release_run put_def)
  note steps = rewrite_head_def rec app rel terminal_head(1) [OF d sm p] store_runs given_or_clock_nonblank nb
  show ?thesis
  proof (cases "as = []")
    case True
    let ?act = "if mb_active_inbound_event_id m = Some (eid c) then None else mb_active_inbound_event_id m"
    let ?m = "summary_of a (Some m) ?l (mb_queue_depth m) (mb_pending_reply_count m) ?act
        (mb_last_inbound_started_at m) (mb_last_inbound_finished_at m) t ''transition-rewrite-head''
        (summary_head_from_event (Some ?u))"
    have run: "rewrite_head a (eid c) ref st (Some t) clr s =
        (Inr (Some ?u), ?s\<lparr>ks_mailboxes := (ks_mailboxes s)(a \<mapsto> ?m)\<rparr>)"
      using c i(4) m D(1,2) True p transition_run [OF pt(2) nb, of "''transition-rewrite-head''"]
      by (simp add: steps Let_def)
    have "mailbox_inv (?s\<lparr>ks_mailboxes := (ks_mailboxes ?s)(a \<mapsto> ?m)\<rparr>) a"
    proof (rule stored_summary_inv [OF pt(2,3) nb])
      have mem: "c \<in> set (latest_by eid (ks_inboxes s a))" using c by (simp add: latest_by_Some_iff)
      have "absorbed x None" for x by (simp add: absorbed_def latest_timestamp_def)
      with D(6) mem show "\<forall>e \<in> set (latest_by eid (ks_inboxes ?s a)).
          absorbed (mb_last_inbound_started_at m) (ev_started_at e) \<and>
          absorbed (mb_last_inbound_finished_at m) (ev_finished_at e)"
        by (intro absorbed_put) (auto simp: rewritten_def)
      show "?act = lease_active_event_id (ks_leases ?s a)"
        using vc D(3) by (simp add: released_active valid_event_def)
    qed (use m D(1,2) True p in \<open>simp_all add: pt(1)\<close>)
    then show ?thesis using run m by (auto simp: committed_def summary_of_mark)
  next
    case False
    then have "rewrite_head a (eid c) ref st (Some t) clr s = refresh_and_return a t (Some ?u) ?s"
      using c i(4) m by (simp add: steps)
    then show ?thesis
      using rebuild_committed [OF pt(2,3) nb] by (simp add: refresh_run [OF pt(2) nb])
  qed
qed

section \<open>Adding an event\<close>

text \<open>
  The message bureau enqueues by appending a row and then moving the counters of the summary by
  one (and the reply counter with it when the event is a reply).
\<close>

definition fresh_event :: "'z kernel_state_scheme \<Rightarrow> string \<Rightarrow> inbound_event \<Rightarrow> bool" where
  "fresh_event s a e \<longleftrightarrow> valid_event e \<and> ev_agent_name e = a \<and> eid e \<notin> eid ` set (ks_inboxes s a) \<and>
     ev_status e \<in> set CLAIMABLE_EVENT_STATES \<and> ev_started_at e = None \<and> ev_finished_at e = None"

lemma enqueue_put:
  assumes inv: "mailbox_inv s a" and e: "fresh_event s a e"
  shows "pend (put s a e (ks_leases s a)) a = pend s a @ [e]"
    "mailbox_wf (put s a e (ks_leases s a)) a" "lease_inv (put s a e (ks_leases s a)) a"
proof -
  note i = mailbox_invD [OF inv]
  have st: "\<not> event_terminal e" "ev_status e \<noteq> IE_DELIVERING"
    using e by (auto simp: fresh_event_def CLAIMABLE_EVENT_STATES_def TERMINAL_EVENT_STATES_def)
  show pd: "pend (put s a e (ks_leases s a)) a = pend s a @ [e]"
    using e st by (simp add: pend_put pending_log_new fresh_event_def) (simp add: pend_eq)
  show "mailbox_wf (put s a e (ks_leases s a)) a"
    using i(1) e by (intro put_wf) (auto simp: mailbox_wf_def fresh_event_def)
  have ne: "x \<in> set (pend s a) \<Longrightarrow> eid x \<noteq> eid e" for x
    using e pend_mem_latest [of x s a] find_last_in_Some [of _ "ks_inboxes s a" x]
    by (metis fresh_event_def image_eqI)
  have "lease_active_event_id (ks_leases s a) \<noteq> Some (eid e)"
    using active_is_head [OF i(2)] ne by fastforce
  with i(2) st show "lease_inv (put s a e (ks_leases s a)) a"
    by (cases "pend s a") (auto simp: lease_inv_def pd)
qed

lemma enqueue_committed:
  assumes inv: "mailbox_inv s a" and e: "fresh_event s a e" and nb: "nonblank t"
    and d: "d = (if ev_event_type e = TASK_REPLY then 1 else 0)"
  shows "\<exists>m s'. inbound_append e s = (Inr (), put s a e (ks_leases s a)) \<and>
    apply_incremental_summary_update a 1 d Ellipsis None None (Some t) (put s a e (ks_leases s a)) =
      (Inr m, s') \<and> committed s a e (ks_leases s a) s'"
proof -
  let ?s = "put s a e (ks_leases s a)" and ?p = "ks_mailboxes s a"
  note i = mailbox_invD [OF inv] and pt = enqueue_put [OF inv e]
  have app: "inbound_append e s = (Inr (), ?s)"
    using i(4) e by (simp add: kernel_run fresh_event_def put_def)
  have n: "latest_timestamp x None = x" for x by (simp add: latest_timestamp_def)
  let ?q = "int (length (pend s a)) + 1"
  let ?n = "int (length (filter (\<lambda>e. ev_event_type e = TASK_REPLY) (pend s a))) + d"
  let ?act = "lease_active_event_id (ks_leases s a)"
  let ?ls = "case ?p of Some p \<Rightarrow> mb_last_inbound_started_at p | None \<Rightarrow> None"
  let ?lf = "case ?p of Some p \<Rightarrow> mb_last_inbound_finished_at p | None \<Rightarrow> None"
  let ?m = "summary_of a ?p (ks_leases s a) ?q ?n ?act ?ls ?lf t ''incremental-upsert''
      (summary_head_from_event (opt_hd (pend s a @ [e])))"
  have v: "valid_mailbox ?m"
    by (rule summary_of_valid [OF pt(2) nb]) (simp_all add: d)
  have prior: "(case ?p of Some p \<Rightarrow> mb_queue_depth p | None \<Rightarrow> 0) = int (length (pend s a))"
    "(case ?p of Some p \<Rightarrow> mb_pending_reply_count p | None \<Rightarrow> 0) =
       int (length (filter (\<lambda>e. ev_event_type e = TASK_REPLY) (pend s a)))"
    "(case ?p of Some p \<Rightarrow> mb_active_inbound_event_id p | None \<Rightarrow> None) = ?act"
    using i(3) by (auto simp: summary_inv_def pend_eq lease_active_event_id_def dest: summary_matchesD(1-3)
        split: option.splits)
  have run: "apply_incremental_summary_update a 1 d Ellipsis None None (Some t) ?s =
      (Inr ?m, ?s\<lparr>ks_mailboxes := (ks_mailboxes s)(a \<mapsto> ?m)\<rparr>)"
    using i(4) nb v d
    by (simp add: apply_incremental_summary_update_def kernel_run build_mailbox_summary_record_def
        Let_def n prior pt(1) max_def)
  have "mailbox_inv (?s\<lparr>ks_mailboxes := (ks_mailboxes ?s)(a \<mapsto> ?m)\<rparr>) a"
  proof (rule stored_summary_inv [OF pt(2,3) nb])
    have abs: "absorbed x None" for x by (simp add: absorbed_def n)
    have "\<forall>x \<in> set (latest_by eid (ks_inboxes s a)).
        absorbed ?ls (ev_started_at x) \<and> absorbed ?lf (ev_finished_at x)"
      using i(3) by (auto simp: summary_inv_def dest: summary_matchesD(6) split: option.splits)
    then show "\<forall>x \<in> set (latest_by eid (ks_inboxes ?s a)).
        absorbed ?ls (ev_started_at x) \<and> absorbed ?lf (ev_finished_at x)"
      using e by (intro absorbed_put) (simp_all add: fresh_event_def abs)
  qed (simp_all add: pt(1) d)
  then show ?thesis using app run by (auto simp: committed_def summary_of_mark)
qed

section \<open>Acknowledging a reply\<close>

lemma ack_refused:
  assumes inv: "mailbox_inv s a" and nb: "nonblank t" "nonblank u"
    and h: "\<not> head_matches_reply (opt_hd (pend s a)) i"
  shows "\<exists>s'. ack_reply a i (Some t) (Some u) s = (Inr None, s') \<and> refreshed s a s'"
proof -
  have ts: "ack_timestamp (Some t) (Some u) s = (Inr u, s)"
    using nb nonblank_not_Nil [of u] by (simp add: ack_timestamp_def opt_truthy_def opt_str_or_def)
  then have "ack_reply a i (Some t) (Some u) s = refresh_and_return a u None s"
    using h mailbox_invD [OF inv] by (simp add: ack_reply_def kernel_run)
  with refresh_refreshed [OF inv nb(2)] show ?thesis by simp
qed

lemma ack_accepted:
  assumes inv: "mailbox_inv s a" and nb: "nonblank t" "nonblank u"
    and p: "pend s a = c # bs" and ty: "ev_event_type c = TASK_REPLY"
  shows "\<exists>r s' s''. ack_reply a (eid c) (Some t) (Some u) s = (Inr (Some r), s'') \<and>
    (s' = s \<or> committed s a (delivered c t) (Some (claim_lease s a (eid c) t)) s') \<and>
    pend s' a = (if ev_status c = IE_DELIVERING then c else delivered c t) # bs \<and>
    r = finished (hd (pend s' a)) IE_CONSUMED u \<and>
    committed s' a r (released (ks_leases s' a) (eid c)) s''"
proof -
  note i = mailbox_invD [OF inv]
  have ts: "ack_timestamp (Some t) (Some u) s = (Inr u, s)"
    using nb nonblank_not_Nil [of u] by (simp add: ack_timestamp_def opt_truthy_def opt_str_or_def)
  have or: "opt_str_or (Some t) u = t" "opt_str_or (Some u) u = u"
    using nb nonblank_not_Nil by (simp_all add: opt_str_or_def)
  have c: "find_last_in (\<lambda>x. eid x = eid c) (ks_inboxes s a) = Some c" "\<not> event_terminal c"
    using pend_mem_latest [of c s a] p by simp_all
  have h: "head_matches_reply (Some c) (eid c)" by (simp add: head_matches_reply_def ty)
  note steps = ack_reply_def query_runs store_runs ts or
  show ?thesis
  proof (cases "ev_status c = IE_DELIVERING")
    case True
    have "ack_reply a (eid c) (Some t) (Some u) s = mark_terminal a (eid c) IE_CONSUMED (Some u) s"
      using i(4) h p c True by (simp add: steps)
    moreover obtain s'' where "mark_terminal a (eid c) IE_CONSUMED (Some u) s =
        (Inr (Some (finished c IE_CONSUMED u)), s'')"
        "committed s a (finished c IE_CONSUMED u) (released (ks_leases s a) (eid c)) s''"
      using mark_terminal_pending [OF inv, of "[]" c bs IE_CONSUMED u] p nb by auto
    ultimately show ?thesis
      using p True by (intro exI [of _ "finished c IE_CONSUMED u"] exI [of _ s] exI [of _ s'']) simp
  next
    case False
    then have cl: "ev_status c \<in> set CLAIMABLE_EVENT_STATES" using pending_status [OF c(2)] by simp
    obtain s' where s': "claim a (eid c) (Some t) s = (Inr (Some (delivered c t)), s')"
      "committed s a (delivered c t) (Some (claim_lease s a (eid c) t)) s'"
      using claim_head [OF inv p cl nb(1)] by blast
    then have p': "pend s' a = delivered c t # bs"
      using committed_fields(1) claim_put(1) [OF inv p cl refl refl] by metis
    obtain s'' where s'': "mark_terminal a (eid c) IE_CONSUMED (Some u) s' =
        (Inr (Some (finished (delivered c t) IE_CONSUMED u)), s'')"
        "committed s' a (finished (delivered c t) IE_CONSUMED u) (released (ks_leases s' a) (eid c)) s''"
      using mark_terminal_pending [OF inv_of_committed [OF s'(2)], of "[]" "delivered c t" bs IE_CONSUMED u]
        p' nb by auto
    have "ack_reply a (eid c) (Some t) (Some u) s = mark_terminal a (eid c) IE_CONSUMED (Some u) s'"
      using i(4) h p c False s'(1) by (simp add: steps)
    with s'(2) s'' p' False show ?thesis
      by (intro exI [of _ "finished (delivered c t) IE_CONSUMED u"] exI [of _ s'] exI [of _ s'']) simp
  qed
qed

section \<open>Time stamps taken from the clock\<close>

definition stamp :: "'z kernel_state_scheme \<Rightarrow> string option \<Rightarrow> string" where
  "stamp s t = (if opt_truthy t then opt_str_or t [] else ks_clock s (ks_tick s))"

definition ticked :: "'z kernel_state_scheme \<Rightarrow> string option \<Rightarrow> 'z kernel_state_scheme" where
  "ticked s t = (if opt_truthy t then s else s\<lparr>ks_tick := Suc (ks_tick s)\<rparr>)"

lemma ticked_fields [simp]:
  "ks_mailboxes (ticked s t) = ks_mailboxes s" "ks_inboxes (ticked s t) = ks_inboxes s"
  "ks_leases (ticked s t) = ks_leases s" "ks_clock (ticked s t) = ks_clock s"
  "pend (ticked s t) a = pend s a"
  by (simp_all add: ticked_def pend_eq)

lemma ticked_inv [simp]: "mailbox_inv (ticked s t) a = mailbox_inv s a"
  by (simp add: mailbox_inv_def mailbox_wf_def lease_inv_def summary_inv_def summary_matches_def
      split: option.splits)

lemma given_or_clock_run: "given_or_clock t s = (Inr (stamp s t), ticked s t)"
  by (auto simp: given_or_clock_def stamp_def ticked_def read_clock_def opt_truthy_def opt_str_or_def
      split: option.splits list.splits)

lemma stamped_ops:
  assumes "owner_name_ok a" "nonblank (stamp s t)"
  shows "claim a i t s = claim a i (Some (stamp s t)) (ticked s t)"
    and "mark_terminal a i st t s = mark_terminal a i st (Some (stamp s t)) (ticked s t)"
    and "rewrite_head a i ref st t clr s = rewrite_head a i ref st (Some (stamp s t)) clr (ticked s t)"
    and "rebuild_mailbox_summary a t s = rebuild_mailbox_summary a (Some (stamp s t)) (ticked s t)"
    and "apply_incremental_summary_update a q n act ls lf t s =
      apply_incremental_summary_update a q n act ls lf (Some (stamp s t)) (ticked s t)"
  using assms given_or_clock_nonblank [OF assms(2), of "ticked s t"]
  by (simp_all add: claim_def mark_terminal_def rewrite_head_def rebuild_mailbox_summary_def
      project_mailbox_summary_def apply_incremental_summary_update_def store_runs given_or_clock_run
      py_bind_assoc)

end
