(* ===== verification/Refinement.thy ===== *)
theory Refinement
  imports Prelude
begin

text \<open>
  The contract between a stateful component and the abstract machine it implements, shared by
  the components of the bridge: an invariant, an abstraction function and, per operation, a step
  of the abstract machine. Under the contract a whole sequence of calls succeeds and performs the
  same sequence of abstract steps.
\<close>

section \<open>Sequences of calls\<close>

fun run_ops :: "('op \<Rightarrow> ('s, 'r) py) \<Rightarrow> 'op list \<Rightarrow> ('s, 'r list) py" where
  "run_ops run [] = py_return []"
| "run_ops run (x # xs) = py_bind (run x) (\<lambda>r. py_bind (run_ops run xs) (\<lambda>rs. py_return (r # rs)))"

fun all_ok :: "('op \<Rightarrow> ('s, 'r) py) \<Rightarrow> ('s \<Rightarrow> 'op \<Rightarrow> bool) \<Rightarrow> 's \<Rightarrow> 'op list \<Rightarrow> bool" where
  "all_ok run ok s [] = True"
| "all_ok run ok s (x # xs) = (ok s x \<and> all_ok run ok (snd (run x s)) xs)"

section \<open>The contract\<close>

locale implements =
  fixes run :: "'op \<Rightarrow> ('s, 'r) py"
    and inv :: "'s \<Rightarrow> bool"
    and ok :: "'s \<Rightarrow> 'op \<Rightarrow> bool"
    and abs :: "'s \<Rightarrow> 'a"
    and step :: "'op \<Rightarrow> 'a \<Rightarrow> 'a"
  assumes simulates: "inv s \<Longrightarrow> ok s x \<Longrightarrow> \<exists>r s'. run x s = (Inr r, s') \<and> inv s' \<and> abs s' = step x (abs s)"
begin

lemma run_inv: "inv s \<Longrightarrow> ok s x \<Longrightarrow> inv (snd (run x s))"
  using simulates [of s x] by fastforce

lemma run_abs: "inv s \<Longrightarrow> ok s x \<Longrightarrow> abs (snd (run x s)) = step x (abs s)"
  using simulates [of s x] by fastforce

lemma run_ops_simulates:
  "inv s \<Longrightarrow> all_ok run ok s xs \<Longrightarrow>
   \<exists>rs s'. run_ops run xs s = (Inr rs, s') \<and> inv s' \<and> abs s' = fold step xs (abs s) \<and>
     length rs = length xs"
proof (induction xs arbitrary: s)
  case (Cons x xs)
  then obtain r s1 where 1: "run x s = (Inr r, s1)" "inv s1" "abs s1 = step x (abs s)"
    using simulates [of s x] by auto
  with Cons.prems have "all_ok run ok s1 xs" by simp
  with Cons.IH [of s1] 1(2) obtain rs s2 where
    "run_ops run xs s1 = (Inr rs, s2)" "inv s2" "abs s2 = fold step xs (abs s1)" "length rs = length xs"
    by blast
  with 1 show ?case by simp
qed simp

end

end
