(* ===== verification/Mailbox_Queue.thy ===== *)
theory Mailbox_Queue
  imports Mailbox_Preservation Refinement "HOL-Library.Sublist"
begin

text \<open>
  The kernel implements a queue. \<open>q_step\<close> is the abstract machine of one mailbox, a list of
  pending events; \<open>kernel_exec\<close> runs the kernel's operation. The refinement theorem says that,
  under the invariant, every operation returns, keeps the invariant, performs the abstract step
  and touches no other mailbox. The second half closes the system under every operation on every
  mailbox and derives what holds in all reachable states.
\<close>

section \<open>The abstract machine\<close>

datatype queue_op =
    Enqueue inbound_event string
  | Claim string "string option"
  | Claim_Next "inbound_event_type option" "string option"
  | Finish inbound_event_status string "string option"
  | Rewrite string "string option" inbound_event_status bool "string option"
  | Ack string "string option" "string option"
  | Refresh "string option"

definition claimable :: "inbound_event \<Rightarrow> bool" where
  "claimable e \<longleftrightarrow> ev_status e \<in> set CLAIMABLE_EVENT_STATES"

definition q_claim :: "(inbound_event \<Rightarrow> bool) \<Rightarrow> string \<Rightarrow> inbound_event list \<Rightarrow> inbound_event list" where
  "q_claim sel t q = (case q of [] \<Rightarrow> []
     | c # bs \<Rightarrow> if sel c \<and> claimable c then delivered c t # bs else q)"

definition q_ack :: "string \<Rightarrow> inbound_event list \<Rightarrow> inbound_event list" where
  "q_ack i q = (case q of [] \<Rightarrow> []
     | c # bs \<Rightarrow> if eid c = i \<and> ev_event_type c = TASK_REPLY then bs else q)"

definition q_remove :: "string \<Rightarrow> inbound_event list \<Rightarrow> inbound_event list" where
  "q_remove i q = filter (\<lambda>e. eid e \<noteq> i) q"

definition q_replace :: "string \<Rightarrow> (inbound_event \<Rightarrow> inbound_event) \<Rightarrow> inbound_event list \<Rightarrow> inbound_event list" where
  "q_replace i f q = map (\<lambda>e. if eid e = i then f e else e) q"

text \<open>The stamp is an argument: it is the one given or the clock's reading.\<close>
fun q_step :: "(string option \<Rightarrow> string) \<Rightarrow> queue_op \<Rightarrow> inbound_event list \<Rightarrow> inbound_event list" where
  "q_step st (Enqueue e t) q = q @ [e]"
| "q_step st (Claim i t) q = q_claim (\<lambda>e. eid e = i) (st t) q"
| "q_step st (Claim_Next ty t) q = q_claim (\<lambda>e. ty = None \<or> ty = Some (ev_event_type e)) (st t) q"
| "q_step st (Finish s i t) q = q_remove i q"
| "q_step st (Rewrite i ref s clr t) q = q_replace i (\<lambda>e. rewritten e ref s clr) q"
| "q_step st (Ack i t u) q = q_ack i q"
| "q_step st (Refresh t) q = q"

section \<open>The kernel's operations\<close>

fun kernel_exec :: "string \<Rightarrow> queue_op \<Rightarrow> ('z kernel_state_scheme, inbound_event option) py" where
  "kernel_exec a (Enqueue e t) =
     py_then (inbound_append e) (py_then
       (apply_incremental_summary_update a 1 (if ev_event_type e = TASK_REPLY then 1 else 0) Ellipsis
          None None (Some t)) (py_return None))"
| "kernel_exec a (Claim i t) = claim a i t"
| "kernel_exec a (Claim_Next ty t) = claim_next a ty t"
| "kernel_exec a (Finish st i t) = mark_terminal a i st t"
| "kernel_exec a (Rewrite i ref st clr t) = rewrite_head a i ref st t clr"
| "kernel_exec a (Ack i t u) = ack_reply a i t u"
| "kernel_exec a (Refresh t) = py_then (refresh_mailbox a t) (py_return None)"

text \<open>What a caller owes: a time stamp that is not blank, a new event, a terminal status for
  \<open>mark_terminal\<close> and a claimable one for \<open>rewrite_head\<close>.\<close>

fun op_ok :: "string \<Rightarrow> 'z kernel_state_scheme \<Rightarrow> queue_op \<Rightarrow> bool" where
  "op_ok a s (Enqueue e t) = (fresh_event s a e \<and> nonblank t)"
| "op_ok a s (Claim i t) = nonblank (stamp s t)"
| "op_ok a s (Claim_Next ty t) = nonblank (stamp s t)"
| "op_ok a s (Finish st i t) = (st \<in> set TERMINAL_EVENT_STATES \<and> nonblank (stamp s t))"
| "op_ok a s (Rewrite i ref st clr t) = (st \<in> set CLAIMABLE_EVENT_STATES \<and> nonblank (stamp s t))"
| "op_ok a s (Ack i t u) = (nonblank (stamp s (if opt_truthy u then u else t)) \<and>
     (opt_truthy t \<longrightarrow> nonblank (stamp s t)))"
| "op_ok a s (Refresh t) = nonblank (stamp s t)"

definition elsewhere :: "'z kernel_state_scheme \<Rightarrow> string \<Rightarrow> 'z kernel_state_scheme \<Rightarrow> bool" where
  "elsewhere s a s' \<longleftrightarrow> ks_clock s' = ks_clock s \<and> kernel_state.more s' = kernel_state.more s \<and>
     (\<forall>b. b \<noteq> a \<longrightarrow> ks_mailboxes s' b = ks_mailboxes s b \<and> ks_inboxes s' b = ks_inboxes s b \<and>
        ks_leases s' b = ks_leases s b)"

lemma elsewhere_refl [simp]: "elsewhere s a s"
  by (simp add: elsewhere_def)

lemma elsewhere_trans: "elsewhere s a s' \<Longrightarrow> elsewhere s' a s'' \<Longrightarrow> elsewhere s a s''"
  by (simp add: elsewhere_def)

lemma elsewhere_ticked [simp]: "elsewhere (ticked s t) a s' = elsewhere s a s'"
  by (simp add: elsewhere_def ticked_def)

lemma elsewhere_refreshed: "refreshed s a s' \<Longrightarrow> elsewhere s a s'"
  by (auto simp: refreshed_def elsewhere_def)

lemma elsewhere_committed: "committed s a e L s' \<Longrightarrow> elsewhere s a s'"
  by (auto simp: committed_def elsewhere_def put_def)

lemma elsewhere_inv:
  assumes "elsewhere s a s'" "b \<noteq> a" "mailbox_inv s b"
  shows "mailbox_inv s' b"
proof -
  have "ks_mailboxes s' b = ks_mailboxes s b" "ks_inboxes s' b = ks_inboxes s b"
    "ks_leases s' b = ks_leases s b" using assms by (simp_all add: elsewhere_def)
  moreover from this have "pend s' b = pend s b" by (simp add: pend_eq)
  ultimately show ?thesis using assms(3)
    by (simp add: mailbox_inv_def mailbox_wf_def lease_inv_def summary_inv_def summary_matches_def
        split: option.splits)
qed

section \<open>Each operation performs its step\<close>

text \<open>Rows a log may gain: rows of pending events and of new ones, never of a settled one\<close>
definition extends_log :: "'z kernel_state_scheme \<Rightarrow> string \<Rightarrow> 'z kernel_state_scheme \<Rightarrow> bool" where
  "extends_log s a s' \<longleftrightarrow> (\<exists>rows. ks_inboxes s' a = ks_inboxes s a @ rows \<and>
     (\<forall>e \<in> set rows. eid e \<in> eid ` set (pend s a) \<or> eid e \<notin> eid ` set (ks_inboxes s a)))"

definition performs :: "'z kernel_state_scheme \<Rightarrow> string \<Rightarrow> inbound_event list \<Rightarrow> 'r result \<times> 'z kernel_state_scheme \<Rightarrow> bool" where
  "performs s a q x \<longleftrightarrow> (\<exists>r s'. x = (Inr r, s') \<and> mailbox_inv s' a \<and> pend s' a = q \<and>
     elsewhere s a s' \<and> ks_tick s' = ks_tick s \<and> extends_log s a s' \<and> lease_mark s a \<le> lease_mark s' a)"

lemma tick_refreshed: "refreshed s a s' \<Longrightarrow> ks_tick s' = ks_tick s"
  by (auto simp: refreshed_def)

lemma tick_committed: "committed s a e L s' \<Longrightarrow> ks_tick s' = ks_tick s"
  by (auto simp: committed_def put_def)

lemma mark_refreshed: "refreshed s a s' \<Longrightarrow> lease_mark s' a = lease_mark s a"
  by (simp add: refreshed_def)

lemma mark_committed:
  "committed s a e L s' \<Longrightarrow>
   lease_mark s' a = (case L of Some l \<Rightarrow> dl_lease_version l | None \<Rightarrow> lease_mark s a)"
  by (simp add: committed_def)

text \<open>A lease that is kept or dropped leaves the mark; a new one raises it by one.\<close>

definition mark_le :: "'z kernel_state_scheme \<Rightarrow> string \<Rightarrow> delivery_lease option \<Rightarrow> bool" where
  "mark_le s a L \<longleftrightarrow> (\<forall>l. L = Some l \<longrightarrow> lease_mark s a \<le> dl_lease_version l)"

lemma mark_le_same: "mailbox_inv s a \<Longrightarrow> mark_le s a (ks_leases s a)"
  using inv_mark [of s a] by (auto simp: mark_le_def)

lemma mark_le_released: "mailbox_inv s a \<Longrightarrow> mark_le s a (released (ks_leases s a) i)"
  using mark_le_same [of s a] by (auto simp: mark_le_def dest: released_Some)

lemma issued_version_eq: "mailbox_inv s a \<Longrightarrow> issued_version s a = lease_mark s a + 1"
  using inv_mark [of s a] by (auto simp: issued_version_def lease_mark_def split: option.splits)

lemma mark_le_claim: "mailbox_inv s a \<Longrightarrow> mark_le s a (Some (claim_lease s a i t))"
  by (simp add: mark_le_def claim_lease_def issued_version_eq)

lemma extends_refreshed: "refreshed s a s' \<Longrightarrow> extends_log s a s'"
  by (auto simp: extends_log_def refreshed_fields)

lemma extends_committed:
  "committed s a e L s' \<Longrightarrow> eid e \<in> eid ` set (pend s a) \<or> eid e \<notin> eid ` set (ks_inboxes s a) \<Longrightarrow>
   extends_log s a s'"
  by (auto simp: extends_log_def committed_fields)

lemma performs_refreshed:
  "\<exists>s'. x = (Inr r, s') \<and> refreshed s a s' \<Longrightarrow> q = pend s a \<Longrightarrow> performs s a q x"
  by (auto simp: performs_def inv_of_refreshed refreshed_fields elsewhere_refreshed tick_refreshed
      extends_refreshed mark_refreshed)

lemma performs_committed:
  assumes "\<exists>s'. x = (Inr r, s') \<and> committed s a e L s'" "q = pend (put s a e L) a" "mark_le s a L"
    "eid e \<in> eid ` set (pend s a) \<or> eid e \<notin> eid ` set (ks_inboxes s a)"
  shows "performs s a q x"
proof -
  from assms(1) obtain s' where s': "x = (Inr r, s')" "committed s a e L s'" by blast
  have "lease_mark s a \<le> lease_mark s' a"
    using assms(3) mark_committed [OF s'(2)] by (auto simp: mark_le_def split: option.splits)
  with s' assms(2,4) show ?thesis
    using extends_committed [OF s'(2)]
    by (auto simp: performs_def inv_of_committed committed_fields(1) tick_committed
        intro!: elsewhere_committed)
qed

lemma extends_trans:
  assumes "extends_log s a s'" "extends_log s' a s''" "eid ` set (pend s' a) \<subseteq> eid ` set (ks_inboxes s' a)"
    "\<And>i. i \<in> eid ` set (pend s' a) \<Longrightarrow> i \<in> eid ` set (pend s a) \<or> i \<notin> eid ` set (ks_inboxes s a)"
  shows "extends_log s a s''"
proof -
  from assms(1) obtain r1 where r1: "ks_inboxes s' a = ks_inboxes s a @ r1"
    "\<forall>e \<in> set r1. eid e \<in> eid ` set (pend s a) \<or> eid e \<notin> eid ` set (ks_inboxes s a)"
    by (auto simp: extends_log_def)
  from assms(2) obtain r2 where r2: "ks_inboxes s'' a = ks_inboxes s' a @ r2"
    "\<forall>e \<in> set r2. eid e \<in> eid ` set (pend s' a) \<or> eid e \<notin> eid ` set (ks_inboxes s' a)"
    by (auto simp: extends_log_def)
  have "eid e \<in> eid ` set (pend s a) \<or> eid e \<notin> eid ` set (ks_inboxes s a)" if "e \<in> set (r1 @ r2)" for e
    using that r1 r2(2) assms(4) [of "eid e"] by auto
  with r1(1) r2(1) show ?thesis unfolding extends_log_def by (intro exI [of _ "r1 @ r2"]) simp
qed

lemma performs_claim:
  assumes inv: "mailbox_inv s a" and nb: "nonblank t"
  shows "performs s a (q_claim (\<lambda>e. eid e = i) t (pend s a)) (claim a i (Some t) s)"
proof (cases "pend s a")
  case Nil
  with claim_refused [OF inv _ nb, of i] show ?thesis by (auto simp: q_claim_def intro!: performs_refreshed)
next
  case (Cons c bs)
  show ?thesis
  proof (cases "eid c = i")
    case False
    with Cons claim_refused [OF inv _ nb, of i] show ?thesis
      by (auto simp: q_claim_def intro!: performs_refreshed)
  next
    case i: True
    show ?thesis
    proof (cases "claimable c")
      case True
      then have cl: "ev_status c \<in> set CLAIMABLE_EVENT_STATES" by (simp add: claimable_def)
      show ?thesis
        using claim_head [OF inv Cons cl nb] claim_put(1) [OF inv Cons cl refl refl, of t] Cons i True
          mark_le_claim [OF inv, of i t]
        by (auto simp: q_claim_def intro!: performs_committed)
    next
      case False
      moreover have "\<not> event_terminal c" using pend_mem_latest [of c s a] Cons by simp
      ultimately have "ev_status c = IE_DELIVERING"
        using pending_status [of c] by (simp add: claimable_def)
      with claim_redelivers [OF inv, of c t] Cons i nb False show ?thesis
        by (auto simp: q_claim_def intro!: performs_refreshed)
    qed
  qed
qed

lemma find_last_pend:
  "find_last_in (\<lambda>x. eid x = i) (ks_inboxes s a) = Some c \<Longrightarrow> \<not> event_terminal c \<Longrightarrow>
   eid c = i \<and> c \<in> set (pend s a)"
  using find_last_in_Some [of "\<lambda>x. eid x = i" "ks_inboxes s a" c] by (auto simp: pend_eq in_pending_log)

lemma absent_pend:
  assumes "find_last_in (\<lambda>x. eid x = i) (ks_inboxes s a) = None \<or>
    (\<exists>c. find_last_in (\<lambda>x. eid x = i) (ks_inboxes s a) = Some c \<and> event_terminal c)"
  shows "i \<notin> eid ` set (pend s a)"
  using assms by (auto simp: pend_eq in_pending_log)

lemma q_remove_absent: "i \<notin> eid ` set q \<Longrightarrow> q_remove i q = q"
  unfolding q_remove_def by (rule filter_other_id)

lemma q_replace_absent: "i \<notin> eid ` set q \<Longrightarrow> q_replace i f q = q"
  unfolding q_replace_def by (rule map_idI) auto

lemma q_remove_split: "distinct (map eid (as @ c # bs)) \<Longrightarrow> q_remove (eid c) (as @ c # bs) = as @ bs"
  using filter_other_id [of "eid c" eid as] filter_other_id [of "eid c" eid bs] by (simp add: q_remove_def)

lemma q_replace_split:
  "distinct (map eid (as @ c # bs)) \<Longrightarrow> q_replace (eid c) f (as @ c # bs) = as @ f c # bs"
  using q_replace_absent [of "eid c" as f] q_replace_absent [of "eid c" bs f] by (simp add: q_replace_def)

text \<open>The three cases of an event id: not in the log, terminal, or at a place of the queue\<close>
lemma event_cases:
  obtains (missing) "find_last_in (\<lambda>x. eid x = i) (ks_inboxes s a) = None" "i \<notin> eid ` set (pend s a)"
  | (settled) c where "find_last_in (\<lambda>x. eid x = i) (ks_inboxes s a) = Some c" "event_terminal c"
      "i \<notin> eid ` set (pend s a)"
  | (pending) as c bs where "pend s a = as @ c # bs" "eid c = i" "distinct (map eid (as @ c # bs))"
proof (cases "find_last_in (\<lambda>x. eid x = i) (ks_inboxes s a)")
  case None
  then show ?thesis using absent_pend [of i s a] missing by simp
next
  case (Some c)
  show ?thesis
  proof (cases "event_terminal c")
    case True
    then show ?thesis using absent_pend [of i s a] settled Some by auto
  next
    case False
    then obtain as bs where "pend s a = as @ c # bs" "eid c = i"
      using find_last_pend [OF Some] split_list by metis
    then show ?thesis using pending pend_ids_distinct [of s a] by metis
  qed
qed

lemma performs_finish:
  assumes inv: "mailbox_inv s a" and nb: "nonblank t" and st: "st \<in> set TERMINAL_EVENT_STATES"
  shows "performs s a (q_remove i (pend s a)) (mark_terminal a i st (Some t) s)"
proof (cases rule: event_cases [of i s a])
  case missing
  then show ?thesis
    using mark_terminal_missing [OF inv nb] by (intro performs_refreshed) (auto simp: q_remove_absent)
next
  case (settled c)
  then show ?thesis
    using mark_terminal_done [OF inv nb] by (intro performs_refreshed) (auto simp: q_remove_absent)
next
  case (pending as c bs)
  then show ?thesis
    using mark_terminal_pending [OF inv pending(1) st nb] terminal_put(1) [OF inv pending(1) st refl refl, of t]
      q_remove_split [OF pending(3)] mark_le_released [OF inv, of i]
    by (intro performs_committed) auto
qed

lemma performs_rewrite:
  assumes inv: "mailbox_inv s a" and nb: "nonblank t" and st: "st \<in> set CLAIMABLE_EVENT_STATES"
  shows "performs s a (q_replace i (\<lambda>e. rewritten e ref st clr) (pend s a))
    (rewrite_head a i ref st (Some t) clr s)"
proof (cases rule: event_cases [of i s a])
  case missing
  then show ?thesis
    using rewrite_head_missing [OF inv nb] by (intro performs_refreshed) (auto simp: q_replace_absent)
next
  case (settled c)
  then show ?thesis
    using rewrite_head_done [OF inv nb] by (intro performs_refreshed) (auto simp: q_replace_absent)
next
  case (pending as c bs)
  then show ?thesis
    using rewrite_head_pending [OF inv pending(1) st nb, of ref clr]
      rewrite_put(1) [OF inv pending(1) st refl refl, of ref clr]
      q_replace_split [OF pending(3), of "\<lambda>e. rewritten e ref st clr"] mark_le_released [OF inv, of i]
    by (intro performs_committed) auto
qed

lemma performs_enqueue:
  assumes "mailbox_inv s a" "fresh_event s a e" "nonblank t"
  shows "performs s a (pend s a @ [e]) (kernel_exec a (Enqueue e t) s)"
proof -
  obtain m s' where "inbound_append e s = (Inr (), put s a e (ks_leases s a))"
    "apply_incremental_summary_update a 1 (if ev_event_type e = TASK_REPLY then 1 else 0) Ellipsis
       None None (Some t) (put s a e (ks_leases s a)) = (Inr m, s')"
    "committed s a e (ks_leases s a) s'"
    using enqueue_committed [OF assms refl] by blast
  then show ?thesis
    using enqueue_put(1) [OF assms(1,2)] mark_le_same [OF assms(1)] assms(2)
    by (intro performs_committed) (auto simp: fresh_event_def)
qed

lemma performs_refresh:
  assumes "mailbox_inv s a" "nonblank t"
  shows "performs s a (pend s a) (rebuild_mailbox_summary a (Some t) s)"
  using rebuild_run [OF mailbox_invD(1) [OF assms(1)] assms(2)] rebuild_refreshed [OF assms]
  by (intro performs_refreshed) auto

lemma performs_then: "performs s a q (m s) \<Longrightarrow> performs s a q (py_then m (py_return r) s)"
  by (auto simp: performs_def)

lemma performs_trans:
  assumes 1: "s' = s \<or> performs s a (pend s' a) (Inr x, s')" and 2: "performs s' a q (Inr y, s'')"
    and 3: "eid ` set (pend s' a) \<subseteq> eid ` set (pend s a)"
  shows "performs s a q (Inr z, s'')"
proof (cases "s' = s")
  case True
  with 2 show ?thesis by (auto simp: performs_def)
next
  case False
  with 1 have 1: "performs s a (pend s' a) (Inr x, s')" by simp
  have "eid ` set (pend s' a) \<subseteq> eid ` set (ks_inboxes s' a)"
    by (auto simp: pend_eq in_pending_log dest!: find_last_in_Some)
  then have "extends_log s a s''"
    using 1 2 3 by (intro extends_trans [of s a s' s'']) (auto simp: performs_def)
  with 1 2 show ?thesis by (auto simp: performs_def intro: elsewhere_trans)
qed

lemma performs_ack:
  assumes inv: "mailbox_inv s a" and nb: "nonblank t" "nonblank u"
  shows "performs s a (q_ack i (pend s a)) (ack_reply a i (Some t) (Some u) s)"
proof (cases "head_matches_reply (opt_hd (pend s a)) i")
  case False
  then have "q_ack i (pend s a) = pend s a"
    by (cases "pend s a") (auto simp: q_ack_def head_matches_reply_def)
  with ack_refused [OF inv nb False] show ?thesis by (intro performs_refreshed) auto
next
  case True
  then obtain c bs where p: "pend s a = c # bs" "eid c = i" "ev_event_type c = TASK_REPLY"
    by (cases "pend s a") (auto simp: head_matches_reply_def)
  obtain r s' s'' where r: "ack_reply a i (Some t) (Some u) s = (Inr (Some r), s'')"
    "s' = s \<or> committed s a (delivered c t) (Some (claim_lease s a (eid c) t)) s'"
    "pend s' a = (if ev_status c = IE_DELIVERING then c else delivered c t) # bs"
    "r = finished (hd (pend s' a)) IE_CONSUMED u"
    "committed s' a r (released (ks_leases s' a) (eid c)) s''"
    using ack_accepted [OF inv nb p(1,3)] p(2) by metis
  obtain c' where c': "pend s' a = c' # bs" "eid c' = eid c" using r(3) by (auto split: if_splits)
  have inv': "mailbox_inv s' a" using r(2) inv inv_of_committed by blast
  have "pend s'' a = bs"
    using committed_fields(1) [OF r(5)] c' r(4)
      terminal_put(1) [OF inv', of "[]" c' bs IE_CONSUMED r u] by simp
  moreover have "performs s' a bs (Inr (Some r), s'')"
    using terminal_put(1) [OF inv', of "[]" c' bs IE_CONSUMED r u] c' r(4,5) mark_le_released [OF inv', of "eid c"]
    by (intro performs_committed) auto
  moreover have "s' = s \<or> performs s a (pend s' a) (Inr (Some c'), s')"
    using r(2)
  proof
    assume cm: "committed s a (delivered c t) (Some (claim_lease s a (eid c) t)) s'"
    have "performs s a (pend s' a) (Inr (Some c'), s')"
      using cm committed_fields(1) [OF cm] p mark_le_claim [OF inv, of "eid c" t]
      by (intro performs_committed) auto
    then show ?thesis ..
  qed simp
  ultimately show ?thesis
    using r(1) p c' performs_trans [of s' s a "Some c'" bs "Some r" s'' "Some r"] by (auto simp: q_ack_def)
qed

lemma peek_next_run:
  "owner_name_ok a \<Longrightarrow> peek_next a ty s = (Inr (case pend s a of [] \<Rightarrow> None
     | c # bs \<Rightarrow> if (ty = None \<or> ty = Some (ev_event_type c)) \<and> claimable c then Some c else None), s)"
  by (auto simp: peek_next_def query_runs claimable_def split: list.splits)

lemma performs_claim_next:
  assumes inv: "mailbox_inv s a" and nb: "nonblank t"
  shows "performs s a (q_claim (\<lambda>e. ty = None \<or> ty = Some (ev_event_type e)) t (pend s a))
    (claim_next a ty (Some t) s)"
proof -
  note i = mailbox_invD [OF inv]
  let ?sel = "\<lambda>e. ty = None \<or> ty = Some (ev_event_type e)"
  show ?thesis
  proof (cases "\<exists>c bs. pend s a = c # bs \<and> ?sel c \<and> claimable c")
    case True
    then obtain c bs where c: "pend s a = c # bs" "?sel c" "claimable c" by blast
    then have "claim_next a ty (Some t) s = claim a (eid c) (Some t) s"
      using peek_next_run [OF i(4), of ty s] by (simp add: claim_next_def)
    with performs_claim [OF inv nb, of "eid c"] c show ?thesis by (auto simp: q_claim_def)
  next
    case False
    then have "peek_next a ty s = (Inr None, s)"
      using peek_next_run [OF i(4), of ty s] by (auto split: list.splits)
    then have "claim_next a ty (Some t) s = py_then (rebuild_mailbox_summary a (Some t)) (py_return None) s"
      using nb by (simp add: claim_next_def kernel_run)
    moreover have "q_claim ?sel t (pend s a) = pend s a"
      using False by (auto simp: q_claim_def split: list.splits)
    ultimately show ?thesis using performs_then [where m = "rebuild_mailbox_summary a (Some t)", OF performs_refresh [OF inv nb]]
      by simp
  qed
qed

section \<open>Refinement\<close>

text \<open>The stamp an operation asks for: given, or read from the clock\<close>
fun op_time :: "queue_op \<Rightarrow> string option" where
  "op_time (Enqueue e t) = Some t"
| "op_time (Claim i t) = t"
| "op_time (Claim_Next ty t) = t"
| "op_time (Finish s i t) = t"
| "op_time (Rewrite i ref s clr t) = t"
| "op_time (Ack i t u) = (if opt_truthy u then u else t)"
| "op_time (Refresh t) = t"

lemma claim_next_stamp:
  assumes "owner_name_ok a" "nonblank (stamp s t)"
  shows "claim_next a ty t s = claim_next a ty (Some (stamp s t)) (ticked s t)"
proof -
  obtain x where x: "peek_next a ty s = (Inr x, s)" "peek_next a ty (ticked s t) = (Inr x, ticked s t)"
    using peek_next_run [OF assms(1), of ty s] peek_next_run [OF assms(1), of ty "ticked s t"] by simp
  then show ?thesis
    using given_or_clock_nonblank [OF assms(2), of "ticked s t"] stamped_ops(1) [OF assms]
    by (cases x) (simp_all add: claim_next_def given_or_clock_run)
qed

lemma ack_stamp:
  assumes ok: "owner_name_ok a" and nb: "nonblank (stamp s w)" "opt_truthy t \<Longrightarrow> nonblank (stamp s t)"
    and w: "w = (if opt_truthy u then u else t)"
  shows "ack_reply a i t u s = ack_reply a i (Some (opt_str_or t (stamp s w))) (Some (stamp s w)) (ticked s w)"
    "nonblank (opt_str_or t (stamp s w))"
proof -
  have z: "ack_timestamp t u s = (Inr (stamp s w), ticked s w)"
    by (simp add: ack_timestamp_def w given_or_clock_run) (simp add: stamp_def ticked_def)
  have z': "ack_timestamp x (Some (stamp s w)) s' = (Inr (stamp s w), s')" for x and s' :: "'a kernel_state_scheme"
    using nb(1) nonblank_not_Nil by (simp add: ack_timestamp_def opt_str_or_def)
  have o: "opt_str_or u (stamp s w) = stamp s w"
    "opt_str_or (Some (stamp s w)) (stamp s w) = stamp s w"
    "opt_str_or (Some (opt_str_or t (stamp s w))) (stamp s w) = opt_str_or t (stamp s w)"
    by (auto simp: w stamp_def opt_str_or_def opt_truthy_def split: option.splits)
  show "ack_reply a i t u s = ack_reply a i (Some (opt_str_or t (stamp s w))) (Some (stamp s w)) (ticked s w)"
    using ok by (simp add: ack_reply_def query_runs z z') (simp only: o simp_thms cong del: if_weak_cong option.case_cong_weak)
  show "nonblank (opt_str_or t (stamp s w))"
    using nb by (auto simp: opt_str_or_def opt_truthy_def stamp_def split: option.splits)
qed

lemma stamp_ticked: "nonblank (stamp s t) \<Longrightarrow> stamp s' (Some (stamp s t)) = stamp s t"
  using nonblank_not_Nil by (simp add: stamp_def opt_truthy_def opt_str_or_def)

lemma kernel_exec_performs:
  assumes inv: "mailbox_inv s a" and ok: "op_ok a s x"
  shows "performs (ticked s (op_time x)) a (q_step (stamp s) x (pend s a)) (kernel_exec a x s)"
proof -
  have i: "owner_name_ok a" "mailbox_inv (ticked s t) a" "pend (ticked s t) a = pend s a" for t
    using inv by (simp_all add: mailbox_invD(4))
  show ?thesis
  proof (cases x)
    case (Enqueue e t)
    then have "ticked s (op_time x) = s" using ok nonblank_not_Nil by (simp add: ticked_def)
    with performs_enqueue [OF inv] ok Enqueue show ?thesis by simp
  next
    case (Claim j t)
    with performs_claim [OF i(2) [of t], of "stamp s t" j] ok show ?thesis
      by (simp add: stamped_ops(1) [OF i(1)])
  next
    case (Claim_Next ty t)
    with performs_claim_next [OF i(2) [of t], of "stamp s t" ty] ok show ?thesis
      by (simp add: claim_next_stamp [OF i(1)])
  next
    case (Finish st j t)
    with performs_finish [OF i(2) [of t], of "stamp s t" st j] ok show ?thesis
      by (simp add: stamped_ops(2) [OF i(1)])
  next
    case (Rewrite j ref st clr t)
    with performs_rewrite [OF i(2) [of t], of "stamp s t" st j ref clr] ok show ?thesis
      by (simp add: stamped_ops(3) [OF i(1)])
  next
    case (Ack j t u)
    let ?w = "if opt_truthy u then u else t"
    note st = ack_stamp [OF i(1), of s ?w t u]
    from ok Ack have nb: "nonblank (stamp s ?w)" "opt_truthy t \<Longrightarrow> nonblank (stamp s t)" by simp_all
    from performs_ack [OF i(2) [of ?w] st(2) [OF nb refl] nb(1), of j] Ack show ?thesis
      by (simp only: kernel_exec.simps op_time.simps q_step.simps st(1) [OF nb refl] i(3))
  next
    case (Refresh t)
    with performs_then [where m = "rebuild_mailbox_summary a t" and r = None]
      performs_refresh [OF i(2) [of t], of "stamp s t"] ok
    show ?thesis by (auto simp: refresh_mailbox_def stamped_ops(4) [OF i(1)] performs_def)
  qed
qed

text \<open>The abstract state of one mailbox: its queue and the clock\<close>
type_synonym queue_state = "inbound_event list \<times> (nat \<Rightarrow> string) \<times> nat"

definition queue_abs :: "string \<Rightarrow> 'z kernel_state_scheme \<Rightarrow> queue_state" where
  "queue_abs a s = (pend s a, ks_clock s, ks_tick s)"

definition queue_step :: "queue_op \<Rightarrow> queue_state \<Rightarrow> queue_state" where
  "queue_step x st = (case st of (q, clk, n) \<Rightarrow>
     (q_step (\<lambda>t. if opt_truthy t then opt_str_or t [] else clk n) x q, clk,
      if opt_truthy (op_time x) then n else Suc n))"

lemma stamp_eq: "stamp s = (\<lambda>t. if opt_truthy t then opt_str_or t [] else ks_clock s (ks_tick s))"
  by (simp add: fun_eq_iff stamp_def)

interpretation kq: implements "kernel_exec a" "\<lambda>s. mailbox_inv s a" "op_ok a" "queue_abs a" queue_step for a
proof
  fix s :: "'a kernel_state_scheme" and x
  assume "mailbox_inv s a" "op_ok a s x"
  from kernel_exec_performs [OF this] show
    "\<exists>r s'. kernel_exec a x s = (Inr r, s') \<and> mailbox_inv s' a \<and> queue_abs a s' = queue_step x (queue_abs a s)"
    by (auto simp: performs_def queue_abs_def queue_step_def stamp_eq elsewhere_def) (auto simp: ticked_def)
qed

section \<open>Order\<close>

fun new_ids :: "queue_op list \<Rightarrow> string list" where
  "new_ids [] = []"
| "new_ids (Enqueue e t # xs) = eid e # new_ids xs"
| "new_ids (_ # xs) = new_ids xs"

lemma subseq_filter_map: "subseq (map f (filter P xs)) (map f xs)"
  by (induction xs) auto

lemma q_step_order:
  "subseq (map eid (q_step st x q)) (map eid q @ new_ids [x])"
proof (cases x)
  case (Finish s i t) then show ?thesis by (simp add: q_remove_def subseq_filter_map)
next
  case (Rewrite i ref s clr t)
  have "map eid (q_replace i (\<lambda>e. rewritten e ref s clr) q) = map eid q"
    by (simp add: q_replace_def)
  with Rewrite show ?thesis by simp
qed (auto simp: q_claim_def q_ack_def split: list.splits)

lemma new_ids_Cons: "new_ids (x # xs) = new_ids [x] @ new_ids xs"
  by (cases x) simp_all

lemma queue_steps_order:
  "subseq (map eid (fst (fold queue_step xs st))) (map eid (fst st) @ new_ids xs)"
proof (induction xs arbitrary: st)
  case (Cons x xs)
  obtain q clk n where st: "st = (q, clk, n)" by (cases st)
  let ?st = "queue_step x st"
  have "subseq (map eid (fst ?st)) (map eid q @ new_ids [x])"
    by (simp add: queue_step_def st q_step_order)
  then have "subseq (map eid (fst ?st) @ new_ids xs) ((map eid q @ new_ids [x]) @ new_ids xs)"
    by (intro list_emb_append_mono) simp_all
  with Cons.IH [of ?st] show ?case
    by (simp add: st new_ids_Cons [of x xs] subseq_order.order_trans)
qed simp

section \<open>Reachable states\<close>

definition empty_kernel :: "(nat \<Rightarrow> string) \<Rightarrow> kernel_state" where
  "empty_kernel clk = \<lparr>ks_mailboxes = (\<lambda>_. None), ks_inboxes = (\<lambda>_. []), ks_leases = (\<lambda>_. None),
     ks_clock = clk, ks_tick = 0\<rparr>"

inductive reachable :: "(nat \<Rightarrow> string) \<Rightarrow> kernel_state \<Rightarrow> bool" for clk where
  reach_init: "reachable clk (empty_kernel clk)"
| reach_step: "reachable clk s \<Longrightarrow> owner_name_ok a \<Longrightarrow> op_ok a s x \<Longrightarrow>
    reachable clk (snd (kernel_exec a x s))"

lemma empty_kernel_inv: "owner_name_ok a \<Longrightarrow> mailbox_inv (empty_kernel clk) a"
  by (simp add: empty_kernel_def mailbox_inv_def mailbox_wf_def lease_inv_def summary_inv_def pend_eq
      lease_active_event_id_def)

lemma exec_snd:
  assumes "mailbox_inv s a" "op_ok a s x"
  obtains s' where "snd (kernel_exec a x s) = s'" "mailbox_inv s' a" "elsewhere s a s'"
    "pend s' a = q_step (stamp s) x (pend s a)" "extends_log s a s'" "lease_mark s a \<le> lease_mark s' a"
  using kernel_exec_performs [OF assms]
  by (auto simp: performs_def extends_log_def lease_mark_def)

lemma reachable_inv: "reachable clk s \<Longrightarrow> owner_name_ok a \<Longrightarrow> mailbox_inv s a"
proof (induction arbitrary: a rule: reachable.induct)
  case reach_init
  then show ?case by (rule empty_kernel_inv)
next
  case (reach_step s b x)
  obtain s' where "snd (kernel_exec b x s) = s'" "mailbox_inv s' b" "elsewhere s b s'"
    using exec_snd [OF reach_step.IH [OF reach_step.hyps(2)] reach_step.hyps(3)] by metis
  with reach_step.IH [OF reach_step.prems] elsewhere_inv [of s b s' a] show ?case by metis
qed

lemma settled_kept:
  assumes x: "extends_log s a s'" and c: "find_last_in (\<lambda>e. eid e = i) (ks_inboxes s a) = Some c" "event_terminal c"
  shows "find_last_in (\<lambda>e. eid e = i) (ks_inboxes s' a) = Some c"
proof -
  have i: "i \<notin> eid ` set (pend s a)" using c by (intro absent_pend) auto
  have m: "i \<in> eid ` set (ks_inboxes s a)" using find_last_in_Some [OF c(1)] by auto
  from x obtain rows where r: "ks_inboxes s' a = ks_inboxes s a @ rows"
    "\<forall>e \<in> set rows. eid e \<in> eid ` set (pend s a) \<or> eid e \<notin> eid ` set (ks_inboxes s a)"
    by (auto simp: extends_log_def)
  then have "\<forall>e \<in> set rows. eid e \<noteq> i" using i m by blast
  then have "find_last_in (\<lambda>e. eid e = i) rows = None" by (simp add: find_last_in_None)
  with r(1) c(1) show ?thesis by (simp add: find_last_in_append)
qed

section \<open>A mailbox to evaluate on\<close>

definition demo_clock :: "nat \<Rightarrow> string" where
  "demo_clock n = ''2026-01-01T00:00:0'' @ show_nat n @ ''Z''"

definition demo_event :: "string \<Rightarrow> inbound_event_type \<Rightarrow> inbound_event" where
  "demo_event i ty = \<lparr>ev_inbound_event_id = i, ev_agent_name = ''agent1'', ev_event_type = ty,
     ev_message_id = ''msg_1'', ev_attempt_id = Some ''att_1'', ev_payload_ref = Some ''job:j1'',
     ev_priority = 100, ev_status = IE_QUEUED, ev_created_at = ''t0'', ev_started_at = None,
     ev_finished_at = None\<rparr>"

definition demo_kernel :: kernel_state where
  "demo_kernel = snd (kernel_exec ''agent1'' (Enqueue (demo_event ''iev_2'' TASK_REPLY) ''t1'')
     (snd (kernel_exec ''agent1'' (Enqueue (demo_event ''iev_1'' TASK_REQUEST) ''t0'')
       (empty_kernel demo_clock))))"

lemma demo_owner: "owner_name_ok ''agent1''"
  by code_simp

lemma demo_fresh1: "op_ok ''agent1'' (empty_kernel demo_clock) (Enqueue (demo_event ''iev_1'' TASK_REQUEST) ''t0'')"
  by code_simp

lemma demo_fresh2: "op_ok ''agent1''
    (snd (kernel_exec ''agent1'' (Enqueue (demo_event ''iev_1'' TASK_REQUEST) ''t0'') (empty_kernel demo_clock)))
    (Enqueue (demo_event ''iev_2'' TASK_REPLY) ''t1'')"
  by code_simp

lemma demo_reachable: "reachable demo_clock demo_kernel"
  unfolding demo_kernel_def
  by (intro reach_step reach_init demo_owner demo_fresh1 demo_fresh2)

lemma demo_pend: "map eid (pend demo_kernel ''agent1'') = [''iev_1'', ''iev_2'']"
  by code_simp

section \<open>Properties of the mailbox kernel\<close>

text \<open>
  C4. The kernel refines the queue. In a state where the mailbox of \<open>a\<close> satisfies the invariant,
  every operation of the service (enqueue, claim, claim_next, consume/abandon/supersede,
  rewrite_head, ack_reply, refresh), called with what it asks for, returns without raising, keeps
  the invariant, changes the pending events exactly as the abstract queue does, and leaves every
  other mailbox, its log and its lease as they were.
\<close>
theorem kernel_refines_queue:
  assumes "mailbox_inv s a" "op_ok a s x"
  shows "\<exists>r s'. kernel_exec a x s = (Inr r, s') \<and> mailbox_inv s' a \<and>
    pend s' a = q_step (stamp s) x (pend s a) \<and> elsewhere s a s'"
  using kernel_exec_performs [OF assms] by (auto simp: performs_def)

theorem kernel_refines_queue_witness:
  "\<exists>r s'. kernel_exec ''agent1'' (Claim_Next None None) demo_kernel = (Inr r, s') \<and>
    mailbox_inv s' ''agent1'' \<and>
    pend s' ''agent1'' = q_step (stamp demo_kernel) (Claim_Next None None) (pend demo_kernel ''agent1'') \<and>
    elsewhere demo_kernel ''agent1'' s'"
proof (rule kernel_refines_queue)
  show "mailbox_inv demo_kernel ''agent1''" by (rule reachable_inv [OF demo_reachable demo_owner])
  show "op_ok ''agent1'' demo_kernel (Claim_Next None None)" by code_simp
qed

text \<open>
  C5. The incremental summary is exact. In every state reachable from the empty store by operations
  on any mailboxes, the summary that the operations have maintained by deltas is the one a rebuild
  from the whole history computes: a rebuild changes its source and its two time stamps and
  nothing else, the version included.
\<close>
theorem summary_equals_history:
  assumes "reachable clk s" "owner_name_ok a" "ks_mailboxes s a = Some m" "nonblank t"
  shows "fst (rebuild_mailbox_summary a (Some t) s) =
    Inr (m\<lparr>mb_summary_source := ''history-refresh'', mb_summary_refreshed_at := t, mb_updated_at := t\<rparr>)"
proof -
  have inv: "mailbox_inv s a" using assms by (intro reachable_inv)
  then have "summary_matches s a m" using assms(3) by (simp add: mailbox_inv_def summary_inv_def)
  then show ?thesis
    using rebuild_run [OF mailbox_invD(1) [OF inv] assms(4)]
      projected_stable [OF _ assms(3) mailbox_invD(1) [OF inv]] by simp
qed

theorem summary_equals_history_witness:
  "fst (rebuild_mailbox_summary ''agent1'' (Some ''t9'') demo_kernel) =
    Inr ((the (ks_mailboxes demo_kernel ''agent1''))\<lparr>mb_summary_source := ''history-refresh'',
      mb_summary_refreshed_at := ''t9'', mb_updated_at := ''t9''\<rparr>) \<and>
   mb_queue_depth (the (ks_mailboxes demo_kernel ''agent1'')) = 2"
proof
  have "ks_mailboxes demo_kernel ''agent1'' \<noteq> None" by code_simp
  then have m: "ks_mailboxes demo_kernel ''agent1'' = Some (the (ks_mailboxes demo_kernel ''agent1''))" by simp
  have "nonblank ''t9''" by code_simp
  then show "fst (rebuild_mailbox_summary ''agent1'' (Some ''t9'') demo_kernel) =
    Inr ((the (ks_mailboxes demo_kernel ''agent1''))\<lparr>mb_summary_source := ''history-refresh'',
      mb_summary_refreshed_at := ''t9'', mb_updated_at := ''t9''\<rparr>)"
    by (rule summary_equals_history [OF demo_reachable demo_owner m])
  show "mb_queue_depth (the (ks_mailboxes demo_kernel ''agent1'')) = 2" by code_simp
qed

text \<open>
  C6. Single delivery. In every reachable state at most one pending event of a mailbox is being
  delivered; it is the oldest pending one, the acquired lease names it, and the stored summary
  reports it as the active event and the mailbox as delivering.
\<close>
theorem single_delivery:
  assumes "reachable clk s" "owner_name_ok a" "c \<in> set (pend s a)" "ev_status c = IE_DELIVERING"
  shows "opt_hd (pend s a) = Some c \<and> lease_active_event_id (ks_leases s a) = Some (eid c) \<and>
    (\<forall>d \<in> set (pend s a). ev_status d = IE_DELIVERING \<longrightarrow> d = c) \<and>
    (\<exists>m. ks_mailboxes s a = Some m \<and> mb_active_inbound_event_id m = Some (eid c) \<and>
       mb_mailbox_state m = MS_DELIVERING)"
proof -
  have inv: "mailbox_inv s a" using assms by (intro reachable_inv)
  note i = mailbox_invD [OF inv]
  have h: "opt_hd (pend s a) = Some c" by (rule delivering_is_head [OF i(2) assms(3,4)])
  have l: "lease_active_event_id (ks_leases s a) = Some (eid c)" using i(2) assms by (simp add: lease_inv_def)
  have u: "\<forall>d \<in> set (pend s a). ev_status d = IE_DELIVERING \<longrightarrow> d = c"
    using delivering_is_head [OF i(2)] h by force
  have "pend s a \<noteq> []" using assms(3) by auto
  then obtain m where m: "ks_mailboxes s a = Some m" "summary_matches s a m"
    using summary_present [OF inv] by blast
  then have "mb_active_inbound_event_id m = Some (eid c)" "mb_mailbox_state m = MS_DELIVERING"
    using l by (simp_all add: summary_matches_def derive_mailbox_state_def)
  with h l u m show ?thesis by blast
qed

text \<open>The demo mailbox after its oldest event has been claimed\<close>
definition demo_claimed :: kernel_state where
  "demo_claimed = snd (kernel_exec ''agent1'' (Claim ''iev_1'' (Some ''t2'')) demo_kernel)"

lemma demo_claim_ok: "op_ok ''agent1'' demo_kernel (Claim ''iev_1'' (Some ''t2''))"
  by code_simp

lemma demo_claimed_reachable: "reachable demo_clock demo_claimed"
  unfolding demo_claimed_def by (rule reach_step [OF demo_reachable demo_owner demo_claim_ok])

lemma demo_claimed_pend: "pend demo_claimed ''agent1'' =
    [delivered (demo_event ''iev_1'' TASK_REQUEST) ''t2'', demo_event ''iev_2'' TASK_REPLY]"
proof -
  have "pend demo_kernel ''agent1'' = [demo_event ''iev_1'' TASK_REQUEST, demo_event ''iev_2'' TASK_REPLY]"
    by code_simp
  moreover obtain s' where "snd (kernel_exec ''agent1'' (Claim ''iev_1'' (Some ''t2'')) demo_kernel) = s'"
    "pend s' ''agent1'' = q_step (stamp demo_kernel) (Claim ''iev_1'' (Some ''t2'')) (pend demo_kernel ''agent1'')"
    using exec_snd [OF reachable_inv [OF demo_reachable demo_owner] demo_claim_ok] by metis
  ultimately show ?thesis
    by (simp add: demo_claimed_def q_claim_def claimable_def demo_event_def CLAIMABLE_EVENT_STATES_def
        stamp_def opt_str_or_def)
qed

theorem single_delivery_witness:
  "opt_hd (pend demo_claimed ''agent1'') = Some (delivered (demo_event ''iev_1'' TASK_REQUEST) ''t2'') \<and>
   lease_active_event_id (ks_leases demo_claimed ''agent1'') = Some ''iev_1''"
  using single_delivery [OF demo_claimed_reachable demo_owner, of "delivered (demo_event ''iev_1'' TASK_REQUEST) ''t2''"]
  by (simp add: demo_claimed_pend demo_event_def)

text \<open>
  C7. First in, first out. After any sequence of operations on a mailbox the ids of its pending
  events are a subsequence of the ids that were pending before followed by the ids enqueued on the
  way, in the order they were enqueued: no operation reorders the queue, and the event that is
  delivered next is always the oldest one left.
\<close>
theorem kernel_fifo:
  assumes "mailbox_inv s a" "all_ok (kernel_exec a) (op_ok a) s xs"
  shows "\<exists>rs s'. run_ops (kernel_exec a) xs s = (Inr rs, s') \<and> mailbox_inv s' a \<and>
    subseq (map eid (pend s' a)) (map eid (pend s a) @ new_ids xs)"
proof -
  obtain rs s' where r: "run_ops (kernel_exec a) xs s = (Inr rs, s')" "mailbox_inv s' a"
    "queue_abs a s' = fold queue_step xs (queue_abs a s)"
    using kq.run_ops_simulates [OF assms] by blast
  have "pend s' a = fst (queue_abs a s')" by (simp add: queue_abs_def)
  then have "pend s' a = fst (fold queue_step xs (queue_abs a s))" by (simp only: r(3))
  with r(1,2) queue_steps_order [of xs "queue_abs a s"] show ?thesis by (simp add: queue_abs_def)
qed

theorem kernel_fifo_witness:
  "\<exists>rs s'. run_ops (kernel_exec ''agent1'')
      [Enqueue (demo_event ''iev_1'' TASK_REQUEST) ''t0'', Claim ''iev_1'' None] (empty_kernel demo_clock) =
      (Inr rs, s') \<and> mailbox_inv s' ''agent1'' \<and>
    subseq (map eid (pend s' ''agent1'')) (map eid (pend (empty_kernel demo_clock) ''agent1'') @
      new_ids [Enqueue (demo_event ''iev_1'' TASK_REQUEST) ''t0'', Claim ''iev_1'' None])"
proof (rule kernel_fifo)
  show "mailbox_inv (empty_kernel demo_clock) ''agent1''" by (rule empty_kernel_inv [OF demo_owner])
  show "all_ok (kernel_exec ''agent1'') (op_ok ''agent1'') (empty_kernel demo_clock)
      [Enqueue (demo_event ''iev_1'' TASK_REQUEST) ''t0'', Claim ''iev_1'' None]" by code_simp
qed

text \<open>
  C8. The oldest event can always be delivered. In every reachable state with pending events,
  claiming the oldest one returns it in the delivering state, whether it was already being
  delivered (the claim is idempotent) or is claimed now; no lease left behind blocks it.
\<close>
theorem head_always_claimable:
  assumes "reachable clk s" "owner_name_ok a" "pend s a = c # bs" "nonblank t"
  shows "\<exists>e s'. claim a (eid c) (Some t) s = (Inr (Some e), s') \<and> eid e = eid c \<and>
    ev_status e = IE_DELIVERING \<and> pend s' a = e # bs \<and>
    lease_active_event_id (ks_leases s' a) = Some (eid c)"
proof -
  have inv: "mailbox_inv s a" using assms by (intro reachable_inv)
  have nt: "\<not> event_terminal c" using pend_mem_latest [of c s a] assms(3) by simp
  consider "ev_status c = IE_DELIVERING" | "ev_status c \<in> set CLAIMABLE_EVENT_STATES"
    using pending_status [OF nt] by blast
  then show ?thesis
  proof cases
    case 1
    have "lease_active_event_id (ks_leases s a) = Some (eid c)"
      using delivering_has_lease [OF mailbox_invD(2) [OF inv], of c] assms(3) 1 by simp
    moreover obtain s' where "claim a (eid c) (Some t) s = (Inr (Some c), s')" "refreshed s a s'"
    proof -
      have "opt_hd (pend s a) = Some c" using assms(3) by simp
      from claim_redelivers [OF inv this 1 assms(4)] that show ?thesis by blast
    qed
    ultimately show ?thesis using assms(3) 1 by (simp add: refreshed_fields)
  next
    case 2
    obtain s' where s': "claim a (eid c) (Some t) s = (Inr (Some (delivered c t)), s')"
      "committed s a (delivered c t) (Some (claim_lease s a (eid c) t)) s'"
      using claim_head [OF inv assms(3) 2 assms(4)] by blast
    have p: "pend s' a = delivered c t # bs"
      using committed_fields(1) [OF s'(2)] claim_put(1) [OF inv assms(3) 2 refl refl] by simp
    have "lease_active_event_id (ks_leases s' a) = Some (eid c)"
      using delivering_has_lease [OF mailbox_invD(2) [OF inv_of_committed [OF s'(2)]], of "delivered c t"] p
      by simp
    with s'(1) p show ?thesis by simp
  qed
qed

theorem head_always_claimable_witness:
  "\<exists>e s'. claim ''agent1'' ''iev_1'' (Some ''t3'') demo_claimed = (Inr (Some e), s') \<and> eid e = ''iev_1'' \<and>
    ev_status e = IE_DELIVERING"
proof -
  have "nonblank ''t3''" by code_simp
  from head_always_claimable [OF demo_claimed_reachable demo_owner demo_claimed_pend this]
  show ?thesis by (auto simp: demo_event_def)
qed

text \<open>
  C22. A settled event stays settled. Once the newest row of an event is consumed, superseded or
  abandoned, no operation on any mailbox ever appends another row for it: the row read back for
  its id is the same after every further operation.
\<close>
theorem settled_is_final:
  assumes "reachable clk s" "owner_name_ok a" "owner_name_ok b" "op_ok b s x"
    and "find_last_in (\<lambda>e. eid e = i) (ks_inboxes s a) = Some c" "event_terminal c"
  shows "find_last_in (\<lambda>e. eid e = i) (ks_inboxes (snd (kernel_exec b x s)) a) = Some c"
proof -
  obtain s' where s': "snd (kernel_exec b x s) = s'" "elsewhere s b s'" "extends_log s b s'"
    using exec_snd [OF reachable_inv [OF assms(1,3)] assms(4)] by metis
  show ?thesis
  proof (cases "a = b")
    case True
    with settled_kept [OF s'(3)] assms(5,6) s'(1) show ?thesis by simp
  next
    case False
    with s' assms(5) show ?thesis by (simp add: elsewhere_def)
  qed
qed

definition demo_consumed :: kernel_state where
  "demo_consumed = snd (kernel_exec ''agent1'' (Finish IE_CONSUMED ''iev_1'' (Some ''t1''))
     (snd (kernel_exec ''agent1'' (Enqueue (demo_event ''iev_1'' TASK_REQUEST) ''t0'') (empty_kernel demo_clock))))"

theorem settled_is_final_witness:
  "find_last_in (\<lambda>e. eid e = ''iev_1'') (ks_inboxes (snd (kernel_exec ''agent1''
      (Claim ''iev_1'' (Some ''t2'')) demo_consumed)) ''agent1'') =
   Some (finished (demo_event ''iev_1'' TASK_REQUEST) IE_CONSUMED ''t1'')"
proof (rule settled_is_final [where clk = demo_clock])
  have "op_ok ''agent1'' (snd (kernel_exec ''agent1'' (Enqueue (demo_event ''iev_1'' TASK_REQUEST) ''t0'')
      (empty_kernel demo_clock))) (Finish IE_CONSUMED ''iev_1'' (Some ''t1''))" by code_simp
  then show "reachable demo_clock demo_consumed"
    unfolding demo_consumed_def by (intro reach_step reach_init demo_owner demo_fresh1)
  show "find_last_in (\<lambda>e. eid e = ''iev_1'') (ks_inboxes demo_consumed ''agent1'') =
      Some (finished (demo_event ''iev_1'' TASK_REQUEST) IE_CONSUMED ''t1'')" by code_simp
  show "op_ok ''agent1'' demo_consumed (Claim ''iev_1'' (Some ''t2''))" by code_simp
qed (simp_all add: demo_owner)

text \<open>
  C23. Lease versions are never reused. The version recorded in the summary never decreases, and a
  claim that starts a delivery issues a lease whose version is one more than every version the
  mailbox has seen, and records it.
\<close>
theorem lease_versions_increase:
  assumes "reachable clk s" "owner_name_ok a" "op_ok a s x"
  shows "lease_mark s a \<le> lease_mark (snd (kernel_exec a x s)) a \<and>
    (\<forall>i t c bs. x = Claim i t \<and> pend s a = c # bs \<and> eid c = i \<and> claimable c \<longrightarrow>
       map_option dl_lease_version (ks_leases (snd (kernel_exec a x s)) a) = Some (lease_mark s a + 1) \<and>
       lease_mark (snd (kernel_exec a x s)) a = lease_mark s a + 1)"
proof -
  have inv: "mailbox_inv s a" using assms by (intro reachable_inv)
  have "map_option dl_lease_version (ks_leases (snd (claim a (eid c) t s)) a) = Some (lease_mark s a + 1) \<and>
      lease_mark (snd (claim a (eid c) t s)) a = lease_mark s a + 1"
    if x: "x = Claim (eid c) t" and p: "pend s a = c # bs" "claimable c" for t c bs
  proof -
    let ?s = "ticked s t"
    have inv': "mailbox_inv ?s a" and mk: "lease_mark ?s a = lease_mark s a"
      using inv by (simp_all add: lease_mark_def)
    have nb: "nonblank (stamp s t)" using assms(3) x by simp
    obtain s' where s': "claim a (eid c) (Some (stamp s t)) ?s = (Inr (Some (delivered c (stamp s t))), s')"
      "committed ?s a (delivered c (stamp s t)) (Some (claim_lease ?s a (eid c) (stamp s t))) s'"
      using claim_head [OF inv' _ _ nb] p by (auto simp: claimable_def)
    with stamped_ops(1) [OF assms(2) nb, of "eid c"] issued_version_eq [OF inv'] mk show ?thesis
      by (simp add: committed_fields(3) [OF s'(2)] mark_committed [OF s'(2)] claim_lease_def)
  qed
  moreover have "lease_mark s a \<le> lease_mark (snd (kernel_exec a x s)) a"
    using exec_snd [OF inv assms(3)] by metis
  ultimately show ?thesis by auto
qed

theorem lease_versions_increase_witness:
  "lease_mark demo_claimed ''agent1'' = lease_mark demo_kernel ''agent1'' + 1"
proof -
  have "pend demo_kernel ''agent1'' = [demo_event ''iev_1'' TASK_REQUEST, demo_event ''iev_2'' TASK_REPLY]"
    by code_simp
  moreover have "claimable (demo_event ''iev_1'' TASK_REQUEST)" "eid (demo_event ''iev_1'' TASK_REQUEST) = ''iev_1''"
    by code_simp+
  ultimately show ?thesis
    using lease_versions_increase [OF demo_reachable demo_owner demo_claim_ok] by (auto simp: demo_claimed_def)
qed

end
