(* ===== verification/Bureau_State.thy ===== *)
theory Bureau_State
  imports Bureau_Payloads Mailbox_Queue
begin

text \<open>
  The message bureau: its stores (\<open>store.py\<close>, \<open>callback_edges.py\<close>), the state of messages
  (\<open>facade_state.py\<close>) and the recording of submissions, attempts and replies
  (\<open>facade_recording_*.py\<close>, \<open>facade.py\<close>). Its state extends the mailbox kernel's, whose operations it
  calls unchanged. The rows of a store are typed (their codecs are in \<open>Bureau_Models\<close>); \<open>new_id\<close> takes the
  next suffix of a supply in place of \<open>uuid4().hex[:12]\<close>.
\<close>

named_theorems bureau_run \<open>the bureau's stores run\<close>

section \<open>State and stores\<close>

record bureau_state = kernel_state +
  bs_messages :: "message_record list"
  bs_attempts :: "attempt_record list"
  bs_replies :: "reply_record list"
  bs_edges :: "callback_edge list"
  bs_known_mailboxes :: "string list"
  bs_ids :: "nat \<Rightarrow> string"
  bs_next_id :: nat

definition new_id :: "string \<Rightarrow> ('z bureau_state_scheme, string) py" where
  "new_id pre s = (Inr (pre @ ''_'' @ bs_ids s (bs_next_id s)), s\<lparr>bs_next_id := Suc (bs_next_id s)\<rparr>)"

definition message_append :: "message_record \<Rightarrow> ('z bureau_state_scheme, unit) py" where
  "message_append r = py_modify (\<lambda>s. s\<lparr>bs_messages := bs_messages s @ [r]\<rparr>)"

definition message_get_latest :: "string \<Rightarrow> ('z bureau_state_scheme, message_record option) py" where
  "message_get_latest message_id =
     py_gets (\<lambda>s. find_last_in (\<lambda>r. msg_message_id r = message_id) (bs_messages s))"

definition message_list_submission :: "string \<Rightarrow> ('z bureau_state_scheme, message_record list) py" where
  "message_list_submission submission_id =
     py_gets (\<lambda>s. filter (\<lambda>r. msg_submission_id r = Some submission_id) (bs_messages s))"

definition attempt_append :: "attempt_record \<Rightarrow> ('z bureau_state_scheme, unit) py" where
  "attempt_append r = py_modify (\<lambda>s. s\<lparr>bs_attempts := bs_attempts s @ [r]\<rparr>)"

definition attempt_get_latest :: "string \<Rightarrow> ('z bureau_state_scheme, attempt_record option) py" where
  "attempt_get_latest attempt_id =
     py_gets (\<lambda>s. find_last_in (\<lambda>r. att_attempt_id r = attempt_id) (bs_attempts s))"

definition attempt_get_latest_by_job_id :: "string \<Rightarrow> ('z bureau_state_scheme, attempt_record option) py" where
  "attempt_get_latest_by_job_id job_id =
     py_gets (\<lambda>s. find_last_in (\<lambda>r. att_job_id r = job_id) (bs_attempts s))"

definition attempt_get_latest_by_message_id ::
  "string \<Rightarrow> string option \<Rightarrow> ('z bureau_state_scheme, attempt_record option) py" where
  "attempt_get_latest_by_message_id message_id exclude_job_id =
     (let excluded = py_strip (str_or_empty exclude_job_id) in
      py_gets (\<lambda>s. find_last_in (\<lambda>r. att_message_id r = message_id \<and> (excluded = [] \<or> att_job_id r \<noteq> excluded))
        (bs_attempts s)))"

definition attempt_get_latest_by_message_agent ::
  "string \<Rightarrow> string \<Rightarrow> ('z bureau_state_scheme, attempt_record option) py" where
  "attempt_get_latest_by_message_agent message_id agent_name =
     py_bind (py_lift (normalize_agent_name agent_name)) (\<lambda>normalized.
       py_gets (\<lambda>s. find_last_in (\<lambda>r. att_message_id r = message_id \<and> att_agent_name r = normalized)
         (bs_attempts s)))"

definition attempt_list_message :: "string \<Rightarrow> ('z bureau_state_scheme, attempt_record list) py" where
  "attempt_list_message message_id = py_gets (\<lambda>s. filter (\<lambda>r. att_message_id r = message_id) (bs_attempts s))"

definition attempt_list_agent :: "string \<Rightarrow> ('z bureau_state_scheme, attempt_record list) py" where
  "attempt_list_agent agent_name = py_bind (py_lift (normalize_agent_name agent_name)) (\<lambda>normalized.
     py_gets (\<lambda>s. filter (\<lambda>r. att_agent_name r = normalized) (bs_attempts s)))"

definition reply_append :: "reply_record \<Rightarrow> ('z bureau_state_scheme, unit) py" where
  "reply_append r = py_modify (\<lambda>s. s\<lparr>bs_replies := bs_replies s @ [r]\<rparr>)"

definition reply_get_latest :: "string \<Rightarrow> ('z bureau_state_scheme, reply_record option) py" where
  "reply_get_latest reply_id = py_gets (\<lambda>s. find_last_in (\<lambda>r. rep_reply_id r = reply_id) (bs_replies s))"

definition reply_list_message :: "string \<Rightarrow> ('z bureau_state_scheme, reply_record list) py" where
  "reply_list_message message_id = py_gets (\<lambda>s. filter (\<lambda>r. rep_message_id r = message_id) (bs_replies s))"

definition edge_append :: "callback_edge \<Rightarrow> ('z bureau_state_scheme, unit) py" where
  "edge_append r = py_modify (\<lambda>s. s\<lparr>bs_edges := bs_edges s @ [r]\<rparr>)"

definition edge_get_latest :: "string \<Rightarrow> ('z bureau_state_scheme, callback_edge option) py" where
  "edge_get_latest edge_id = py_gets (\<lambda>s. find_last_in (\<lambda>r. ce_edge_id r = edge_id) (bs_edges s))"

definition edge_for_child_job :: "string \<Rightarrow> ('z bureau_state_scheme, callback_edge option) py" where
  "edge_for_child_job child_job_id = py_gets (\<lambda>s. find_last_in (\<lambda>r. ce_child_job_id r = child_job_id) (bs_edges s))"

definition edge_for_child_message :: "string \<Rightarrow> ('z bureau_state_scheme, callback_edge option) py" where
  "edge_for_child_message child_message_id =
     py_gets (\<lambda>s. find_last_in (\<lambda>r. ce_child_message_id r = child_message_id) (bs_edges s))"

definition edge_for_parent_job :: "string \<Rightarrow> ('z bureau_state_scheme, callback_edge option) py" where
  "edge_for_parent_job parent_job_id =
     py_gets (\<lambda>s. find_last_in (\<lambda>r. ce_parent_job_id r = parent_job_id) (bs_edges s))"

definition edge_continuation :: "string \<Rightarrow> ('z bureau_state_scheme, callback_edge option) py" where
  "edge_continuation edge_id = py_gets (\<lambda>s. find_last_in (\<lambda>r. ce_edge_id r = edge_id \<and>
     py_strip (str_or_empty (ce_continuation_job_id r)) \<noteq> []) (bs_edges s))"

text \<open>\<open>update(record, **changes)\<close>: the changes as a function on the record\<close>
definition edge_update :: "callback_edge \<Rightarrow> (callback_edge \<Rightarrow> callback_edge) \<Rightarrow>
    ('z bureau_state_scheme, callback_edge) py" where
  "edge_update record changes = py_bind (py_lift (CallbackEdgeRecord (changes record))) (\<lambda>updated.
     py_then (edge_append updated) (py_return updated))"

definition pending_callback_edges :: "('z bureau_state_scheme, callback_edge list) py" where
  "pending_callback_edges = py_gets (\<lambda>s. filter (\<lambda>e. ce_state e \<in> {CB_PENDING, CB_CHILD_COMPLETED})
     (latest_by ce_edge_id (bs_edges s)))"

section \<open>The state of a message\<close>

definition TERMINAL_ATTEMPT_STATES :: "attempt_state list" where
  "TERMINAL_ATTEMPT_STATES = [ATT_COMPLETED, ATT_INCOMPLETE, ATT_FAILED, ATT_CANCELLED, ATT_SUPERSEDED,
     ATT_DEAD_LETTER]"

definition resolve_origin_message_id :: "string option \<Rightarrow> ('z bureau_state_scheme, string option) py" where
  "resolve_origin_message_id reply_to =
     (let key = py_strip (str_or_empty reply_to) in
      if key = [] then py_return None
      else py_bind (attempt_get_latest key) (\<lambda>attempt. case attempt of
          Some a \<Rightarrow> py_return (Some (att_message_id a))
        | None \<Rightarrow> py_bind (attempt_get_latest_by_job_id key) (\<lambda>attempt. case attempt of
            Some a \<Rightarrow> py_return (Some (att_message_id a))
          | None \<Rightarrow> py_bind (message_get_latest key) (\<lambda>message.
              py_return (map_option msg_message_id message)))))"

definition set_message_state :: "string \<Rightarrow> message_state \<Rightarrow> string \<Rightarrow> ('z bureau_state_scheme, unit) py" where
  "set_message_state message_id next_state updated_at =
     py_bind (message_get_latest message_id) (\<lambda>current. case current of
         None \<Rightarrow> py_return ()
       | Some m \<Rightarrow> if msg_message_state m = next_state then py_return ()
           else py_bind (py_lift (normalize_message_record
                  (m\<lparr>msg_updated_at := updated_at, msg_message_state := next_state\<rparr>))) message_append)"

definition latest_attempts_for_message :: "string \<Rightarrow> ('z bureau_state_scheme, attempt_record list) py" where
  "latest_attempts_for_message message_id =
     py_bind (attempt_list_message message_id) (\<lambda>records. py_return (latest_by att_attempt_id records))"

definition terminal_replies :: "reply_record list \<Rightarrow> reply_record list" where
  "terminal_replies replies =
     (let terminal = filter (\<lambda>r. \<not> py_truthy (jget (rep_diagnostics r) ''notice'')) replies in
      if terminal \<noteq> [] then terminal else replies)"

definition active_attempts :: "attempt_record list \<Rightarrow> attempt_record list" where
  "active_attempts attempts = filter (\<lambda>a. att_attempt_state a \<notin> set TERMINAL_ATTEMPT_STATES) attempts"

definition reply_terminal_state :: "reply_status list \<Rightarrow> message_state" where
  "reply_terminal_state statuses =
     (if set statuses = {REP_COMPLETED} then MSG_COMPLETED
      else if set statuses = {REP_CANCELLED} then MSG_CANCELLED
      else if set statuses = {REP_FAILED} then MSG_FAILED
      else MSG_INCOMPLETE)"

definition attempt_terminal_state :: "attempt_state list \<Rightarrow> message_state" where
  "attempt_terminal_state statuses =
     (if set statuses = {ATT_COMPLETED} then MSG_COMPLETED
      else if set statuses = {ATT_CANCELLED} then MSG_CANCELLED
      else if set statuses = {ATT_FAILED} then MSG_FAILED
      else MSG_INCOMPLETE)"

definition next_message_state :: "attempt_record list \<Rightarrow> attempt_record list \<Rightarrow> reply_record list \<Rightarrow> message_state" where
  "next_message_state active attempts replies =
     (if active \<noteq> [] then (if replies \<noteq> [] then MSG_PARTIALLY_REPLIED else MSG_RUNNING)
      else let reply_statuses = map rep_terminal_status (terminal_replies replies) in
        if reply_statuses \<noteq> [] then reply_terminal_state reply_statuses
        else attempt_terminal_state (map att_attempt_state attempts))"

definition refresh_message_state :: "string \<Rightarrow> string \<Rightarrow> ('z bureau_state_scheme, unit) py" where
  "refresh_message_state message_id updated_at =
     py_bind (message_get_latest message_id) (\<lambda>message. case message of
         None \<Rightarrow> py_return ()
       | Some _ \<Rightarrow> py_bind (latest_attempts_for_message message_id) (\<lambda>attempts.
           if attempts = [] then py_return ()
           else py_bind (reply_list_message message_id) (\<lambda>replies.
             set_message_state message_id (next_message_state (active_attempts attempts) attempts replies)
               updated_at)))"

definition next_retry_index :: "string \<Rightarrow> string \<Rightarrow> ('z bureau_state_scheme, int) py" where
  "next_retry_index message_id agent_name =
     py_bind (py_lift (normalize_agent_name agent_name)) (\<lambda>normalized.
     py_bind (attempt_list_message message_id) (\<lambda>records.
       py_return (foldl (\<lambda>latest r. if att_agent_name r \<noteq> normalized then latest else max latest (att_retry_index r))
         (- 1) records + 1)))"

section \<open>Recording submissions\<close>

definition reply_policy_for :: "message_envelope \<Rightarrow> job_record list \<Rightarrow> payload" where
  "reply_policy_for request jobs =
     [(''mode'', JStr (if length jobs > 1 then ''all'' else ''single'')),
      (''expected_reply_count'', JInt (int (length jobs))),
      (''silence_on_success'', JBool (me_silence_on_success request))]"

definition retry_policy_default :: payload where
  "retry_policy_default =
     [(''mode'', JStr ''auto''), (''max_attempts'', JInt 3),
      (''retryable_reasons'', JList [JStr ''api_error'', JStr ''transport_error'']),
      (''retry_runtime_when_resume_supported'', JBool True),
      (''retryable_runtime_reasons'', JList [JStr ''pane_dead'', JStr ''pane_unavailable''])]"

text \<open>The attempt and the task request of one job, and the mailbox summary that counts it\<close>
definition record_job_attempt :: "string \<Rightarrow> job_record \<Rightarrow> int \<Rightarrow> string \<Rightarrow>
    ('z bureau_state_scheme, string) py" where
  "record_job_attempt message_id job retry_index accepted_at =
     py_bind (new_id ''att'') (\<lambda>attempt_id.
     py_bind (py_lift (normalize_attempt_record \<lparr>att_attempt_id = attempt_id, att_message_id = message_id,
         att_agent_name = jr_agent_name job, att_provider = jr_provider job, att_job_id = jr_job_id job,
         att_retry_index = retry_index, att_health_snapshot_ref = None, att_started_at = accepted_at,
         att_updated_at = accepted_at, att_attempt_state = ATT_PENDING\<rparr>)) (\<lambda>attempt.
     py_then (attempt_append attempt) (
     py_bind (new_id ''iev'') (\<lambda>inbound_event_id.
     py_bind (py_lift (normalize_inbound_event_record \<lparr>ev_inbound_event_id = inbound_event_id,
         ev_agent_name = jr_agent_name job, ev_event_type = TASK_REQUEST, ev_message_id = message_id,
         ev_attempt_id = Some attempt_id, ev_payload_ref = Some (''job:'' @ jr_job_id job), ev_priority = 100,
         ev_status = IE_QUEUED, ev_created_at = accepted_at, ev_started_at = None, ev_finished_at = None\<rparr>)) (\<lambda>event.
     py_then (inbound_append event) (
     py_then (apply_incremental_summary_update (jr_agent_name job) 1 0 Ellipsis None None (Some accepted_at)) (
     py_return attempt_id)))))))"

text \<open>The body of the loop over the jobs\<close>
definition record_request :: "string \<Rightarrow> string \<Rightarrow> job_record \<Rightarrow> ('z bureau_state_scheme, unit) py" where
  "record_request message_id accepted_at job =
     py_then (record_job_attempt message_id job 0 accepted_at) (py_return ())"

definition record_submission :: "message_envelope \<Rightarrow> job_record list \<Rightarrow> string option \<Rightarrow> string \<Rightarrow> string option \<Rightarrow>
    ('z bureau_state_scheme, string option) py" where
  "record_submission request jobs submission_id accepted_at origin_message_id =
     (if jobs = [] then py_return None
      else py_bind (new_id ''msg'') (\<lambda>message_id.
        py_bind (if opt_truthy origin_message_id then py_return origin_message_id
                 else resolve_origin_message_id (me_reply_to request)) (\<lambda>origin.
        py_bind (py_lift (normalize_message_record \<lparr>msg_message_id = message_id, msg_origin_message_id = origin,
            msg_from_actor = me_from_actor request,
            msg_target_scope = delivery_scope_value (me_delivery_scope request),
            msg_target_agents = map jr_agent_name jobs, msg_message_class = me_message_type request,
            msg_reply_policy = reply_policy_for request jobs, msg_retry_policy = retry_policy_default,
            msg_priority = 100, msg_payload_ref = None, msg_submission_id = submission_id,
            msg_created_at = accepted_at, msg_updated_at = accepted_at, msg_message_state = MSG_QUEUED\<rparr>)) (\<lambda>message.
        py_then (message_append message) (
        py_then (py_for jobs (record_request message_id accepted_at)) (
        py_return (Some message_id)))))))"

definition claimable_request_job_ids :: "string \<Rightarrow> ('z bureau_state_scheme, string list) py" where
  "claimable_request_job_ids agent_name =
     py_bind (peek_next agent_name (Some TASK_REQUEST)) (\<lambda>event. case event of
         None \<Rightarrow> py_return []
       | Some e \<Rightarrow> py_return (case job_id_from_payload_ref (ev_payload_ref e) of None \<Rightarrow> [] | Some j \<Rightarrow> [j]))"

definition record_retry_attempt :: "string \<Rightarrow> job_record \<Rightarrow> string \<Rightarrow> ('z bureau_state_scheme, string) py" where
  "record_retry_attempt message_id job accepted_at =
     py_bind (message_get_latest message_id) (\<lambda>message. case message of
         None \<Rightarrow> py_raise (ValueError (''message not found: '' @ message_id))
       | Some _ \<Rightarrow> py_bind (next_retry_index message_id (jr_agent_name job)) (\<lambda>retry_index.
           py_bind (record_job_attempt message_id job retry_index accepted_at) (\<lambda>attempt_id.
           py_then (set_message_state message_id MSG_QUEUED accepted_at) (py_return attempt_id))))"

section \<open>Recording the course of an attempt\<close>

definition resolve_inbound_for_attempt_start :: "job_record \<Rightarrow> string \<Rightarrow>
    ('z bureau_state_scheme, inbound_event option) py" where
  "resolve_inbound_for_attempt_start job attempt_id =
     (let fallback = inbound_get_latest_for_attempt (jr_agent_name job) attempt_id;
          inbound_event_id = py_strip (str_or (jget (jr_provider_options job) ''reply_delivery_inbound_event_id'') '''')
      in if (py_lower (py_strip (me_message_type (jr_request job))) = ''reply_delivery'' \<or>
             py_truthy (jget (jr_provider_options job) ''reply_delivery'')) \<and> inbound_event_id \<noteq> []
         then py_bind (inbound_get_latest (jr_agent_name job) inbound_event_id) (\<lambda>inbound. case inbound of
                Some e \<Rightarrow> py_return (Some e) | None \<Rightarrow> fallback)
         else fallback)"

definition mark_attempt_started :: "job_record \<Rightarrow> string \<Rightarrow> ('z bureau_state_scheme, unit) py" where
  "mark_attempt_started job started_at =
     py_bind (attempt_get_latest_by_job_id (jr_job_id job)) (\<lambda>found. case found of
         None \<Rightarrow> py_return ()
       | Some attempt \<Rightarrow>
           py_bind (py_lift (normalize_attempt_record (attempt\<lparr>
               att_started_at := (if att_started_at attempt = [] then started_at else att_started_at attempt),
               att_updated_at := started_at, att_attempt_state := ATT_RUNNING\<rparr>))) (\<lambda>updated.
           py_then (attempt_append updated) (
           py_bind (resolve_inbound_for_attempt_start job (att_attempt_id attempt)) (\<lambda>inbound.
           let set_running = set_message_state (att_message_id attempt) MSG_RUNNING started_at in
           case inbound of
             Some e \<Rightarrow>
               if \<not> event_terminal e
               then py_then (if ev_status e = IE_DELIVERING then py_return ()
                      else py_then (claim (jr_agent_name job) (ev_inbound_event_id e) (Some started_at)) (py_return ()))
                    set_running
               else py_then set_running (py_then (rebuild_mailbox_summary (jr_agent_name job) (Some started_at))
                      (py_return ()))
           | None \<Rightarrow> py_then set_running (py_then (rebuild_mailbox_summary (jr_agent_name job) (Some started_at))
                      (py_return ()))))))"

definition record_attempt_terminal :: "job_record \<Rightarrow> string \<Rightarrow> ('z bureau_state_scheme, unit) py" where
  "record_attempt_terminal job finished_at =
     py_bind (attempt_get_latest_by_job_id (jr_job_id job)) (\<lambda>found. case found of
         None \<Rightarrow> py_return ()
       | Some attempt \<Rightarrow>
           py_bind (py_lift (normalize_attempt_record (attempt\<lparr>att_updated_at := finished_at,
               att_attempt_state := attempt_state_for_status (jr_status job)\<rparr>))) (\<lambda>updated.
           py_then (attempt_append updated) (
           py_bind (inbound_get_latest_for_attempt (jr_agent_name job) (att_attempt_id attempt)) (\<lambda>inbound.
           py_then (case inbound of
               Some e \<Rightarrow>
                 if \<not> event_terminal e
                 then if ev_status e \<in> {IE_CREATED, IE_QUEUED} \<and> jr_status job = JS_CANCELLED
                      then py_then (kernel_abandon (jr_agent_name job) (ev_inbound_event_id e) (Some finished_at)) (py_return ())
                      else py_then (kernel_consume (jr_agent_name job) (ev_inbound_event_id e) (Some finished_at)) (py_return ())
                 else py_then (rebuild_mailbox_summary (jr_agent_name job) (Some finished_at)) (py_return ())
             | None \<Rightarrow> py_then (rebuild_mailbox_summary (jr_agent_name job) (Some finished_at)) (py_return ()))
           (refresh_message_state (att_message_id attempt) finished_at)))))"

section \<open>Recording replies\<close>

definition mailbox_actor :: "string \<Rightarrow> ('z bureau_state_scheme, string option) py" where
  "mailbox_actor actor = py_gets (\<lambda>s. normalize_mailbox_target (Some actor) (bs_known_mailboxes s))"

definition queue_reply_delivery :: "string \<Rightarrow> string \<Rightarrow> string \<Rightarrow> string \<Rightarrow> string \<Rightarrow>
    ('z bureau_state_scheme, unit) py" where
  "queue_reply_delivery caller_mailbox message_id attempt_id reply_id finished_at =
     py_bind (new_id ''iev'') (\<lambda>inbound_event_id.
     py_bind (py_lift (compose_reply_payload reply_id None)) (\<lambda>payload_ref.
     py_bind (py_lift (normalize_inbound_event_record \<lparr>ev_inbound_event_id = inbound_event_id,
         ev_agent_name = caller_mailbox, ev_event_type = TASK_REPLY, ev_message_id = message_id,
         ev_attempt_id = Some attempt_id, ev_payload_ref = Some payload_ref, ev_priority = 10,
         ev_status = IE_QUEUED, ev_created_at = finished_at, ev_started_at = None, ev_finished_at = None\<rparr>)) (\<lambda>event.
     py_then (inbound_append event) (
     py_then (apply_incremental_summary_update caller_mailbox 1 1 Ellipsis None None (Some finished_at)) (
     py_return ())))))"

definition reply_artifact_from_decision :: "completion_decision \<Rightarrow> payload option" where
  "reply_artifact_from_decision decision = dict_or_none (jget (de_diagnostics decision) ''reply_artifact'')"

definition reply_diagnostics :: "job_record \<Rightarrow> completion_decision \<Rightarrow> payload" where
  "reply_diagnostics job decision =
     [(''reason'', jopt (de_reason decision)), (''status'', JStr (job_status_value (jr_status job))),
      (''provider_turn_ref'', jopt (de_provider_turn_ref decision)),
      (''decision_diagnostics'', JObj (de_diagnostics decision)),
      (''silence_on_success'', JBool (me_silence_on_success (jr_request job)))]"

definition record_reply :: "job_record \<Rightarrow> completion_decision \<Rightarrow> string \<Rightarrow> bool \<Rightarrow>
    ('z bureau_state_scheme, string option) py" where
  "record_reply job decision finished_at deliver_to_caller =
     py_bind (attempt_get_latest_by_job_id (jr_job_id job)) (\<lambda>found. case found of
         None \<Rightarrow> py_return None
       | Some attempt \<Rightarrow>
           py_bind (new_id ''rep'') (\<lambda>reply_id.
           py_bind (py_lift (normalize_reply_record \<lparr>rep_reply_id = reply_id,
               rep_message_id = att_message_id attempt, rep_attempt_id = att_attempt_id attempt,
               rep_agent_name = jr_agent_name job, rep_terminal_status = reply_status_for_job (jr_status job),
               rep_reply = delivered_reply_text job decision,
               rep_reply_artifact = reply_artifact_from_decision decision,
               rep_diagnostics = reply_diagnostics job decision, rep_finished_at = finished_at\<rparr>)) (\<lambda>reply.
           py_then (reply_append reply) (
           py_bind (if deliver_to_caller then mailbox_actor (me_from_actor (jr_request job)) else py_return None)
             (\<lambda>caller_mailbox.
           py_then (case caller_mailbox of None \<Rightarrow> py_return ()
             | Some mailbox \<Rightarrow> queue_reply_delivery mailbox (att_message_id attempt) (att_attempt_id attempt)
                 reply_id finished_at) (
           py_then (refresh_message_state (att_message_id attempt) finished_at) (py_return (Some reply_id))))))))"

definition record_terminal :: "job_record \<Rightarrow> completion_decision \<Rightarrow> string \<Rightarrow> bool \<Rightarrow> bool \<Rightarrow>
    ('z bureau_state_scheme, string option) py" where
  "record_terminal job decision finished_at deliver_to_caller record_reply_enabled =
     py_then (record_attempt_terminal job finished_at)
       (if \<not> record_reply_enabled then py_return None
        else record_reply job decision finished_at deliver_to_caller)"

end
