(* ===== verification/Bureau_Invariants.thy ===== *)
theory Bureau_Invariants
  imports Bureau_State
begin

text \<open>
  What the message bureau keeps true: every mailbox satisfies the kernel's invariant, every row passes the
  checks of its constructor, and the ids still to be drawn are new. Each store operation and each kernel
  call it makes preserves this, and the larger operations are run on states that satisfy it.
\<close>

section \<open>Frames\<close>

text \<open>The bureau's own fields do not matter to the kernel, and the kernel keeps them.\<close>

lemma pend_bureau [simp]:
  "pend (s\<lparr>bs_messages := x1\<rparr>) a = pend s a" "pend (s\<lparr>bs_attempts := x2\<rparr>) a = pend s a"
  "pend (s\<lparr>bs_replies := x3\<rparr>) a = pend s a" "pend (s\<lparr>bs_edges := x4\<rparr>) a = pend s a"
  "pend (s\<lparr>bs_next_id := x5\<rparr>) a = pend s a"
  by (simp_all add: pend_def)

lemma mailbox_inv_cong:
  assumes "ks_mailboxes s' a = ks_mailboxes s a" "ks_inboxes s' a = ks_inboxes s a" "ks_leases s' a = ks_leases s a"
  shows "mailbox_inv s' a = mailbox_inv s a"
proof -
  have "pend s' a = pend s a" using assms by (simp add: pend_def)
  with assms show ?thesis
    by (simp add: mailbox_inv_def mailbox_wf_def lease_inv_def summary_inv_def summary_matches_def
        split: option.splits)
qed

lemma mailbox_inv_bureau [simp]:
  "mailbox_inv (s\<lparr>bs_messages := x1\<rparr>) a = mailbox_inv s a" "mailbox_inv (s\<lparr>bs_attempts := x2\<rparr>) a = mailbox_inv s a"
  "mailbox_inv (s\<lparr>bs_replies := x3\<rparr>) a = mailbox_inv s a" "mailbox_inv (s\<lparr>bs_edges := x4\<rparr>) a = mailbox_inv s a"
  "mailbox_inv (s\<lparr>bs_next_id := x5\<rparr>) a = mailbox_inv s a"
  by (rule mailbox_inv_cong; simp)+

lemma more_fields:
  assumes "kernel_state.more s' = kernel_state.more s"
  shows "bs_messages s' = bs_messages s" "bs_attempts s' = bs_attempts s" "bs_replies s' = bs_replies s"
    "bs_edges s' = bs_edges s" "bs_known_mailboxes s' = bs_known_mailboxes s" "bs_ids s' = bs_ids s"
    "bs_next_id s' = bs_next_id s"
  using assms by (cases s; cases s'; simp)+

definition same_ids :: "'z kernel_state_scheme \<Rightarrow> 'z kernel_state_scheme \<Rightarrow> bool" where
  "same_ids s s' \<longleftrightarrow> (\<forall>a. eid ` set (ks_inboxes s' a) = eid ` set (ks_inboxes s a))"

text \<open>A kernel call on mailbox \<open>a\<close> that adds no event\<close>
definition kernel_step :: "'z kernel_state_scheme \<Rightarrow> string \<Rightarrow> 'z kernel_state_scheme \<Rightarrow> bool" where
  "kernel_step s a s' \<longleftrightarrow> mailbox_inv s' a \<and> elsewhere s a s' \<and> same_ids s s'"

lemma step_refreshed: "refreshed s a s' \<Longrightarrow> kernel_step s a s'"
  by (auto simp: kernel_step_def same_ids_def refreshed_fields inv_of_refreshed intro: elsewhere_refreshed)

lemma pend_ids: "eid ` set (pend s a) \<subseteq> eid ` set (ks_inboxes s a)"
  by (auto simp: pend_eq in_pending_log dest!: find_last_in_Some)

lemma step_committed:
  "committed s a e L s' \<Longrightarrow> eid e \<in> eid ` set (pend s a) \<Longrightarrow> kernel_step s a s'"
  using pend_ids [of s a]
  by (auto simp: kernel_step_def same_ids_def committed_fields(2) inv_of_committed intro: elsewhere_committed)

lemma finish_step:
  assumes inv: "mailbox_inv s a" and nb: "nonblank t" and st: "st \<in> set TERMINAL_EVENT_STATES"
  obtains r s' where "mark_terminal a i st (Some t) s = (Inr r, s')" "kernel_step s a s'"
    "pend s' a = q_remove i (pend s a)" "i \<in> eid ` set (pend s a) \<Longrightarrow> r \<noteq> None"
proof (cases rule: event_cases [of i s a])
  case missing
  obtain s' where "mark_terminal a i st (Some t) s = (Inr None, s')" "refreshed s a s'"
    using mark_terminal_missing [OF inv nb missing(1)] by blast
  with missing show thesis
    by (intro that [of None s']) (auto simp: step_refreshed refreshed_fields q_remove_absent)
next
  case (settled c)
  obtain s' where "mark_terminal a i st (Some t) s = (Inr (Some c), s')" "refreshed s a s'"
    using mark_terminal_done [OF inv nb settled(1,2)] by blast
  with settled show thesis
    by (intro that [of "Some c" s']) (auto simp: step_refreshed refreshed_fields q_remove_absent)
next
  case (pending as c bs)
  obtain s' where s': "mark_terminal a i st (Some t) s = (Inr (Some (finished c st t)), s')"
    "committed s a (finished c st t) (released (ks_leases s a) (eid c)) s'"
    using mark_terminal_pending [OF inv pending(1) st nb] pending(2) by blast
  have "pend s' a = as @ bs"
    using committed_fields(1) [OF s'(2)] terminal_put(1) [OF inv pending(1) st refl refl] by simp
  moreover have "kernel_step s a s'" using s'(2) pending by (intro step_committed) auto
  ultimately show thesis
    using s'(1) pending(1,2) q_remove_split [OF pending(3)] by (intro that [of "Some (finished c st t)" s']) auto
qed

lemma claim_step:
  assumes inv: "mailbox_inv s a" and nb: "nonblank t"
  obtains r s' where "claim a i (Some t) s = (Inr r, s')" "kernel_step s a s'"
    "pend s' a = q_claim (\<lambda>e. eid e = i) t (pend s a)"
proof -
  obtain r s' where rs: "claim a i (Some t) s = (Inr r, s')" "pend s' a = q_claim (\<lambda>e. eid e = i) t (pend s a)"
    using performs_claim [OF inv nb, of i] by (auto simp: performs_def)
  have "kernel_step s a s'"
  proof (cases "map_option eid (opt_hd (pend s a)) = Some i")
    case False
    with claim_refused [OF inv False nb] rs(1) show ?thesis by (auto intro: step_refreshed)
  next
    case True
    then obtain c bs where p: "pend s a = c # bs" "eid c = i" by (cases "pend s a") auto
    then have "\<not> event_terminal c" using pend_mem_latest [of c s a] by simp
    then consider "ev_status c \<in> set CLAIMABLE_EVENT_STATES" | "ev_status c = IE_DELIVERING"
      using pending_status by blast
    then show ?thesis
    proof cases
      case 1
      with claim_head [OF inv p(1) _ nb] p rs(1) show ?thesis by (auto intro!: step_committed)
    next
      case 2
      with claim_redelivers [OF inv, of c t] p rs(1) nb show ?thesis by (auto intro!: step_refreshed)
    qed
  qed
  with rs that show thesis by blast
qed

lemma rebuild_step:
  assumes "mailbox_inv s a" "nonblank t"
  obtains m s' where "rebuild_mailbox_summary a (Some t) s = (Inr m, s')" "kernel_step s a s'" "pend s' a = pend s a"
  using rebuild_run [OF mailbox_invD(1) [OF assms(1)] assms(2)] rebuild_refreshed [OF assms]
    step_refreshed refreshed_fields(1) by blast

section \<open>The bureau's invariant\<close>

definition rows_ok :: "'z bureau_state_scheme \<Rightarrow> bool" where
  "rows_ok s \<longleftrightarrow> (\<forall>m \<in> set (bs_messages s). valid_message m) \<and> (\<forall>a \<in> set (bs_attempts s). valid_attempt a) \<and>
     (\<forall>r \<in> set (bs_replies s). valid_reply r)"

text \<open>The id that the \<open>n\<close>-th suffix gives\<close>
definition idn :: "string \<Rightarrow> 'z bureau_state_scheme \<Rightarrow> nat \<Rightarrow> string" where
  "idn p s n = p @ ''_'' @ bs_ids s n"

text \<open>The suffixes are distinct tokens, and none of those still to come is part of an id in use\<close>
definition ids_ok :: "'z bureau_state_scheme \<Rightarrow> bool" where
  "ids_ok s \<longleftrightarrow> inj (bs_ids s) \<and> (\<forall>n. plain_id (bs_ids s n)) \<and>
     (\<forall>n \<ge> bs_next_id s.
        (\<forall>a. idn ''iev'' s n \<notin> eid ` set (ks_inboxes s a)) \<and>
        idn ''msg'' s n \<notin> msg_message_id ` set (bs_messages s) \<and>
        idn ''att'' s n \<notin> att_attempt_id ` set (bs_attempts s) \<and>
        idn ''rep'' s n \<notin> rep_reply_id ` set (bs_replies s))"

definition bureau_ok :: "'z bureau_state_scheme \<Rightarrow> bool" where
  "bureau_ok s \<longleftrightarrow> (\<forall>a. owner_name_ok a \<longrightarrow> mailbox_inv s a) \<and> rows_ok s \<and> ids_ok s"

lemma bureau_okD:
  "bureau_ok s \<Longrightarrow> owner_name_ok a \<Longrightarrow> mailbox_inv s a"
  "bureau_ok s \<Longrightarrow> rows_ok s" "bureau_ok s \<Longrightarrow> ids_ok s"
  by (simp_all add: bureau_ok_def)

lemma idn_more: "kernel_state.more s' = kernel_state.more s \<Longrightarrow> idn p s' n = idn p s n"
  by (simp add: idn_def more_fields(6) [of s' s])

lemma bureau_ok_step:
  assumes "bureau_ok s" "kernel_step s a s'"
  shows "bureau_ok s'"
proof -
  have more: "kernel_state.more s' = kernel_state.more s" using assms(2) by (simp add: kernel_step_def elsewhere_def)
  have "mailbox_inv s' b" if "owner_name_ok b" for b
    using assms that elsewhere_inv [of s a s' b] by (cases "b = a") (auto simp: kernel_step_def bureau_ok_def)
  moreover have "ids_ok s'"
    using bureau_okD(3) [OF assms(1)] assms(2) more_fields [OF more]
    by (simp add: ids_ok_def kernel_step_def same_ids_def idn_more [OF more])
  ultimately show ?thesis
    using bureau_okD(2) [OF assms(1)] more_fields [OF more] by (simp add: bureau_ok_def rows_ok_def)
qed

definition drawn :: "'z bureau_state_scheme \<Rightarrow> string \<Rightarrow> string list \<Rightarrow> string \<Rightarrow> bool" where
  "drawn s p known i \<longleftrightarrow> i \<in> set known \<or> (\<exists>n < bs_next_id s. i = idn p s n)"

lemma idn_inj [simp]: "inj (bs_ids s) \<Longrightarrow> idn p s n = idn p s k \<longleftrightarrow> n = k"
  by (auto simp: idn_def dest: injD)

lemma idn_cong [simp]:
  "idn p (s\<lparr>bs_messages := x1\<rparr>) n = idn p s n" "idn p (s\<lparr>bs_attempts := x2\<rparr>) n = idn p s n"
  "idn p (s\<lparr>bs_replies := x3\<rparr>) n = idn p s n" "idn p (s\<lparr>bs_edges := x4\<rparr>) n = idn p s n"
  "idn p (s\<lparr>bs_next_id := x5\<rparr>) n = idn p s n"
  by (simp_all add: idn_def)

lemma new_id_run [bureau_run]:
  "new_id p s = (Inr (idn p s (bs_next_id s)), s\<lparr>bs_next_id := Suc (bs_next_id s)\<rparr>)"
  by (simp add: new_id_def idn_def)

lemma idn_ne [simp]: "idn p s n \<noteq> []"
  by (simp add: idn_def)

lemma drawn_not_fresh: "inj (bs_ids s) \<Longrightarrow> idn p s n \<notin> set known \<Longrightarrow> bs_next_id s \<le> n \<Longrightarrow>
    drawn s p known i \<Longrightarrow> i \<noteq> idn p s n"
  by (auto simp: drawn_def)

lemma bureau_ok_next [simp]: "bureau_ok s \<Longrightarrow> bureau_ok (s\<lparr>bs_next_id := Suc (bs_next_id s)\<rparr>)"
  by (auto simp: bureau_ok_def rows_ok_def ids_ok_def)

lemma bureau_ok_message:
  assumes "bureau_ok s" "valid_message m" "drawn s ''msg'' (map msg_message_id (bs_messages s)) (msg_message_id m)"
  shows "bureau_ok (s\<lparr>bs_messages := bs_messages s @ [m]\<rparr>)"
proof -
  have "idn ''msg'' s n \<noteq> msg_message_id m" if "bs_next_id s \<le> n" for n
    using bureau_okD(3) [OF assms(1)] that drawn_not_fresh [OF _ _ that assms(3)] by (fastforce simp: ids_ok_def)
  with assms(1,2) show ?thesis by (simp add: bureau_ok_def rows_ok_def ids_ok_def)
qed

lemma bureau_ok_attempt:
  assumes "bureau_ok s" "valid_attempt m" "drawn s ''att'' (map att_attempt_id (bs_attempts s)) (att_attempt_id m)"
  shows "bureau_ok (s\<lparr>bs_attempts := bs_attempts s @ [m]\<rparr>)"
proof -
  have "idn ''att'' s n \<noteq> att_attempt_id m" if "bs_next_id s \<le> n" for n
    using bureau_okD(3) [OF assms(1)] that drawn_not_fresh [OF _ _ that assms(3)] by (fastforce simp: ids_ok_def)
  with assms(1,2) show ?thesis by (simp add: bureau_ok_def rows_ok_def ids_ok_def)
qed

lemma bureau_ok_reply:
  assumes "bureau_ok s" "valid_reply m" "drawn s ''rep'' (map rep_reply_id (bs_replies s)) (rep_reply_id m)"
  shows "bureau_ok (s\<lparr>bs_replies := bs_replies s @ [m]\<rparr>)"
proof -
  have "idn ''rep'' s n \<noteq> rep_reply_id m" if "bs_next_id s \<le> n" for n
    using bureau_okD(3) [OF assms(1)] that drawn_not_fresh [OF _ _ that assms(3)] by (fastforce simp: ids_ok_def)
  with assms(1,2) show ?thesis by (simp add: bureau_ok_def rows_ok_def ids_ok_def)
qed

lemma enqueue_step:
  assumes ok: "bureau_ok s" and a: "owner_name_ok a" and nb: "nonblank t"
    and e: "valid_event e" "ev_agent_name e = a" "ev_status e = IE_QUEUED" "ev_started_at e = None" "ev_finished_at e = None"
    and i: "\<exists>n < bs_next_id s. eid e = idn ''iev'' s n" "eid e \<notin> eid ` set (ks_inboxes s a)"
    and d: "d = (if ev_event_type e = TASK_REPLY then 1 else 0)"
  obtains s1 m s' where "inbound_append e s = (Inr (), s1)"
    "apply_incremental_summary_update a 1 d Ellipsis None None (Some t) s1 = (Inr m, s')"
    "bureau_ok s'" "elsewhere s a s'" "pend s' a = pend s a @ [e]"
    "ks_inboxes s' a = ks_inboxes s a @ [e]"
proof -
  have inv: "mailbox_inv s a" using bureau_okD(1) [OF ok a] .
  have fr: "fresh_event s a e" using e i(2) by (simp add: fresh_event_def CLAIMABLE_EVENT_STATES_def)
  obtain m s' where r: "inbound_append e s = (Inr (), put s a e (ks_leases s a))"
    "apply_incremental_summary_update a 1 d Ellipsis None None (Some t) (put s a e (ks_leases s a)) = (Inr m, s')"
    "committed s a e (ks_leases s a) s'"
    using enqueue_committed [OF inv fr nb d] by blast
  have el: "elsewhere s a s'" by (rule elsewhere_committed [OF r(3)])
  have ids: "eid ` set (ks_inboxes s' b) = eid ` set (ks_inboxes s b) \<union> (if b = a then {eid e} else {})" for b
    by (simp add: committed_fields(2) [OF r(3)])
  have more: "kernel_state.more s' = kernel_state.more s" using el by (simp add: elsewhere_def)
  have "mailbox_inv s' b" if "owner_name_ok b" for b
    using ok that elsewhere_inv [OF el, of b] inv_of_committed [OF r(3)] by (cases "b = a") (auto simp: bureau_ok_def)
  moreover have "ids_ok s'"
    using bureau_okD(3) [OF ok] i(1) more_fields [OF more] by (auto simp: ids_ok_def ids idn_more [OF more])
  ultimately have "bureau_ok s'"
    using bureau_okD(2) [OF ok] more_fields [OF more] by (simp add: bureau_ok_def rows_ok_def)
  moreover have "pend s' a = pend s a @ [e]"
    using committed_fields(1) [OF r(3)] enqueue_put(1) [OF inv fr] by simp
  moreover have "ks_inboxes s' a = ks_inboxes s a @ [e]" by (simp add: committed_fields(2) [OF r(3)])
  ultimately show thesis using that [OF r(1,2)] el by blast
qed

section \<open>The stores run\<close>

lemma store_gets [bureau_run]:
  "message_append m s = (Inr (), s\<lparr>bs_messages := bs_messages s @ [m]\<rparr>)"
  "attempt_append a s = (Inr (), s\<lparr>bs_attempts := bs_attempts s @ [a]\<rparr>)"
  "reply_append r s = (Inr (), s\<lparr>bs_replies := bs_replies s @ [r]\<rparr>)"
  "message_get_latest i s = (Inr (find_last_in (\<lambda>r. msg_message_id r = i) (bs_messages s)), s)"
  "attempt_get_latest i s = (Inr (find_last_in (\<lambda>r. att_attempt_id r = i) (bs_attempts s)), s)"
  "attempt_get_latest_by_job_id i s = (Inr (find_last_in (\<lambda>r. att_job_id r = i) (bs_attempts s)), s)"
  "reply_get_latest i s = (Inr (find_last_in (\<lambda>r. rep_reply_id r = i) (bs_replies s)), s)"
  "attempt_list_message i s = (Inr (filter (\<lambda>r. att_message_id r = i) (bs_attempts s)), s)"
  "reply_list_message i s = (Inr (filter (\<lambda>r. rep_message_id r = i) (bs_replies s)), s)"
  "mailbox_actor w s = (Inr (normalize_mailbox_target (Some w) (bs_known_mailboxes s)), s)"
  by (simp_all add: message_append_def attempt_append_def reply_append_def message_get_latest_def
      attempt_get_latest_def attempt_get_latest_by_job_id_def reply_get_latest_def attempt_list_message_def
      reply_list_message_def mailbox_actor_def)

abbreviation latest_message :: "'z bureau_state_scheme \<Rightarrow> string \<Rightarrow> message_record option" where
  "latest_message s i \<equiv> find_last_in (\<lambda>r. msg_message_id r = i) (bs_messages s)"

abbreviation latest_attempt :: "'z bureau_state_scheme \<Rightarrow> string \<Rightarrow> attempt_record option" where
  "latest_attempt s i \<equiv> find_last_in (\<lambda>r. att_attempt_id r = i) (bs_attempts s)"

abbreviation attempt_of_job :: "'z bureau_state_scheme \<Rightarrow> string \<Rightarrow> attempt_record option" where
  "attempt_of_job s j \<equiv> find_last_in (\<lambda>r. att_job_id r = j) (bs_attempts s)"

lemma valid_message_iff:
  "valid_message m \<longleftrightarrow> msg_message_id m \<noteq> [] \<and> msg_from_actor m \<noteq> [] \<and> msg_target_scope m \<noteq> [] \<and>
     msg_target_agents m \<noteq> [] \<and> msg_message_class m \<noteq> [] \<and> 0 \<le> msg_priority m \<and>
     normalize_actor_name (Some (msg_from_actor m)) = Inr (msg_from_actor m) \<and>
     rmap normalize_agent_name (msg_target_agents m) = Inr (msg_target_agents m)"
proof -
  have "m\<lparr>msg_from_actor := f, msg_target_agents := ts\<rparr> = m \<longleftrightarrow> f = msg_from_actor m \<and> ts = msg_target_agents m" for f ts
    by (cases m) auto
  then show ?thesis
    by (auto simp: valid_message_def normalize_message_record_def rbind_Inr_iff)
qed

lemma normalize_message_fixed: "valid_message m \<Longrightarrow> normalize_message_record m = Inr m"
  by (simp add: valid_message_def)

lemma valid_message_state [simp]:
  "valid_message (m\<lparr>msg_updated_at := t, msg_message_state := st\<rparr>) = valid_message m"
  by (simp add: valid_message_iff)

lemma latest_message_valid: "bureau_ok s \<Longrightarrow> latest_message s i = Some m \<Longrightarrow> valid_message m \<and> msg_message_id m = i"
  by (auto simp: bureau_ok_def rows_ok_def dest: find_last_in_Some)

lemma attempt_of_job_valid: "bureau_ok s \<Longrightarrow> attempt_of_job s j = Some a \<Longrightarrow> valid_attempt a \<and> att_job_id a = j \<and> a \<in> set (bs_attempts s)"
  by (auto simp: bureau_ok_def rows_ok_def dest: find_last_in_Some)

section \<open>Message states\<close>

definition with_message_state :: "'z bureau_state_scheme \<Rightarrow> string \<Rightarrow> message_state \<Rightarrow> string \<Rightarrow> 'z bureau_state_scheme" where
  "with_message_state s i st t = (case latest_message s i of None \<Rightarrow> s
     | Some m \<Rightarrow> if msg_message_state m = st then s
         else s\<lparr>bs_messages := bs_messages s @ [m\<lparr>msg_updated_at := t, msg_message_state := st\<rparr>]\<rparr>)"

lemma set_message_state_run [bureau_run]:
  "bureau_ok s \<Longrightarrow> set_message_state i st t s = (Inr (), with_message_state s i st t)"
proof (cases "latest_message s i")
  case (Some m)
  assume "bureau_ok s"
  then have "valid_message m" using latest_message_valid [OF _ Some] by simp
  then show ?thesis
    using Some by (simp add: set_message_state_def bureau_run with_message_state_def normalize_message_fixed)
qed (simp add: set_message_state_def bureau_run with_message_state_def)

lemma with_message_state_fields [simp]:
  "bs_attempts (with_message_state s i st t) = bs_attempts s" "bs_replies (with_message_state s i st t) = bs_replies s"
  "bs_next_id (with_message_state s i st t) = bs_next_id s" "bs_ids (with_message_state s i st t) = bs_ids s"
  "bs_known_mailboxes (with_message_state s i st t) = bs_known_mailboxes s"
  "ks_mailboxes (with_message_state s i st t) = ks_mailboxes s" "ks_inboxes (with_message_state s i st t) = ks_inboxes s"
  "ks_leases (with_message_state s i st t) = ks_leases s" "pend (with_message_state s i st t) a = pend s a"
  by (simp_all add: with_message_state_def split: option.splits)

lemma with_message_state_latest [simp]:
  "map_option msg_message_state (latest_message (with_message_state s i st t) j) =
     (if i = j then map_option (\<lambda>_. st) (latest_message s i) else map_option msg_message_state (latest_message s j))"
  by (auto simp: with_message_state_def split: option.splits dest: find_last_in_Some)

lemma bureau_ok_with_state [simp]:
  assumes "bureau_ok s"
  shows "bureau_ok (with_message_state s i st t)"
proof (cases "latest_message s i")
  case (Some m)
  then have m: "m \<in> set (bs_messages s)" "valid_message m"
    using latest_message_valid [OF assms Some] find_last_in_Some [OF Some] by simp_all
  have "bureau_ok (s\<lparr>bs_messages := bs_messages s @ [m\<lparr>msg_updated_at := t, msg_message_state := st\<rparr>]\<rparr>)"
    using assms m by (intro bureau_ok_message) (simp_all add: drawn_def)
  with assms Some show ?thesis by (simp add: with_message_state_def)
qed (simp add: with_message_state_def assms)

text \<open>The state that the attempts and replies on record give a message\<close>
definition derived_state :: "'z bureau_state_scheme \<Rightarrow> string \<Rightarrow> message_state" where
  "derived_state s i = (let attempts = latest_by att_attempt_id (filter (\<lambda>r. att_message_id r = i) (bs_attempts s))
     in next_message_state (active_attempts attempts) attempts (filter (\<lambda>r. rep_message_id r = i) (bs_replies s)))"

definition with_derived_state :: "'z bureau_state_scheme \<Rightarrow> string \<Rightarrow> string \<Rightarrow> 'z bureau_state_scheme" where
  "with_derived_state s i t = (if i \<notin> att_message_id ` set (bs_attempts s) then s
     else with_message_state s i (derived_state s i) t)"

lemma latest_by_empty: "latest_by key xs = [] \<longleftrightarrow> xs = []"
  using key_latest_by [of key xs] by auto

lemma refresh_message_state_run [bureau_run]:
  "bureau_ok s \<Longrightarrow> refresh_message_state i t s = (Inr (), with_derived_state s i t)"
  by (auto simp: refresh_message_state_def bureau_run latest_attempts_for_message_def latest_by_empty filter_empty_conv
      with_derived_state_def derived_state_def Let_def with_message_state_def [of s i] split: option.splits)

lemma with_derived_state_fields [simp]:
  "bs_attempts (with_derived_state s i t) = bs_attempts s" "bs_replies (with_derived_state s i t) = bs_replies s"
  "bs_next_id (with_derived_state s i t) = bs_next_id s" "bs_ids (with_derived_state s i t) = bs_ids s"
  "bs_known_mailboxes (with_derived_state s i t) = bs_known_mailboxes s"
  "pend (with_derived_state s i t) a = pend s a" "bureau_ok s \<Longrightarrow> bureau_ok (with_derived_state s i t)"
  by (simp_all add: with_derived_state_def)

lemma with_derived_state_latest:
  "i \<in> att_message_id ` set (bs_attempts s) \<Longrightarrow>
   map_option msg_message_state (latest_message (with_derived_state s i t) j) =
     (if i = j then map_option (\<lambda>_. derived_state s i) (latest_message s i)
      else map_option msg_message_state (latest_message s j))"
  by (simp add: with_derived_state_def)

section \<open>Recording an attempt\<close>

definition job_ok :: "job_record \<Rightarrow> bool" where
  "job_ok j \<longleftrightarrow> owner_name_ok (jr_agent_name j) \<and> jr_provider j \<noteq> [] \<and> jr_job_id j \<noteq> [] \<and> stripped (jr_job_id j)"

definition new_attempt :: "string \<Rightarrow> string \<Rightarrow> job_record \<Rightarrow> int \<Rightarrow> string \<Rightarrow> attempt_record" where
  "new_attempt i mid job n t = \<lparr>att_attempt_id = i, att_message_id = mid,
     att_agent_name = jr_agent_name job, att_provider = jr_provider job, att_job_id = jr_job_id job,
     att_retry_index = n, att_health_snapshot_ref = None, att_started_at = t,
     att_updated_at = t, att_attempt_state = ATT_PENDING\<rparr>"

definition new_request :: "string \<Rightarrow> string \<Rightarrow> string \<Rightarrow> job_record \<Rightarrow> string \<Rightarrow> inbound_event" where
  "new_request e i mid job t = \<lparr>ev_inbound_event_id = e, ev_agent_name = jr_agent_name job,
     ev_event_type = TASK_REQUEST, ev_message_id = mid, ev_attempt_id = Some i,
     ev_payload_ref = Some (''job:'' @ jr_job_id job), ev_priority = 100,
     ev_status = IE_QUEUED, ev_created_at = t, ev_started_at = None, ev_finished_at = None\<rparr>"

text \<open>The events on record are a mailbox's own, so an id that is new to one mailbox is new to all\<close>
lemma idn_not_in_inbox: "bureau_ok s \<Longrightarrow> idn ''iev'' s (bs_next_id s) \<notin> eid ` set (ks_inboxes s a)"
  by (simp add: bureau_ok_def ids_ok_def)

lemma record_job_attempt_run:
  assumes ok: "bureau_ok s" and job: "job_ok job" and mid: "mid \<noteq> []" and n: "0 \<le> n" and nb: "nonblank t"
    and at: "at' = new_attempt (idn ''att'' s (bs_next_id s)) mid job n t"
    and ev: "ev = new_request (idn ''iev'' s (Suc (bs_next_id s))) (att_attempt_id at') mid job t"
  obtains s' where "record_job_attempt mid job n t s = (Inr (att_attempt_id at'), s')" "bureau_ok s'"
    "bs_attempts s' = bs_attempts s @ [at']" "bs_messages s' = bs_messages s" "bs_replies s' = bs_replies s"
    "bs_known_mailboxes s' = bs_known_mailboxes s" "bs_ids s' = bs_ids s"
    "\<And>b. pend s' b = pend s b @ (if b = jr_agent_name job then [ev] else [])"
    "\<And>b. ks_inboxes s' b = ks_inboxes s b @ (if b = jr_agent_name job then [ev] else [])" "ks_clock s' = ks_clock s"
proof -
  let ?a = "jr_agent_name job"
  let ?s2 = "s\<lparr>bs_next_id := Suc (bs_next_id s), bs_attempts := bs_attempts s @ [at'], bs_next_id := Suc (Suc (bs_next_id s))\<rparr>"
  have a: "owner_name_ok ?a" using job by (simp add: job_ok_def)
  have va: "valid_attempt at'"
    using job mid n by (simp add: at new_attempt_def valid_attempt_def job_ok_def owner_name_okD)
  have ve: "valid_event ev" using a mid by (simp add: ev new_request_def valid_event_def)
  have "bureau_ok (s\<lparr>bs_next_id := Suc (bs_next_id s), bs_attempts := bs_attempts s @ [at']\<rparr>)"
    using bureau_ok_attempt [of "s\<lparr>bs_next_id := Suc (bs_next_id s)\<rparr>" at'] ok va
    by (simp add: drawn_def) (simp add: at new_attempt_def; blast)
  then have ok2: "bureau_ok ?s2"
    using bureau_ok_next [of "s\<lparr>bs_next_id := Suc (bs_next_id s), bs_attempts := bs_attempts s @ [at']\<rparr>"] by simp
  have fr: "eid ev \<notin> eid ` set (ks_inboxes ?s2 ?a)"
    using ok by (simp add: ev new_request_def bureau_ok_def ids_ok_def)
  have ex: "\<exists>k < bs_next_id ?s2. eid ev = idn ''iev'' ?s2 k"
    by (rule exI [of _ "Suc (bs_next_id s)"]) (simp add: ev new_request_def)
  obtain s1 m s' where r: "inbound_append ev ?s2 = (Inr (), s1)"
    "apply_incremental_summary_update ?a 1 0 Ellipsis None None (Some t) s1 = (Inr m, s')"
    "bureau_ok s'" "elsewhere ?s2 ?a s'" "pend s' ?a = pend ?s2 ?a @ [ev]" "ks_inboxes s' ?a = ks_inboxes ?s2 ?a @ [ev]"
    by (rule enqueue_step [OF ok2 a nb ve _ _ _ _ ex fr, where d = 0]) (auto simp: ev new_request_def)
  have "record_job_attempt mid job n t s = (Inr (att_attempt_id at'), s')"
    using va ve r(1,2)
    by (simp add: record_job_attempt_def bureau_run at [unfolded new_attempt_def, symmetric])
      (simp add: at new_attempt_def ev new_request_def)
  moreover have more: "kernel_state.more s' = kernel_state.more ?s2" using r(4) by (simp add: elsewhere_def)
  moreover have "pend s' b = pend s b @ (if b = ?a then [ev] else [])" for b
  proof (cases "b = ?a")
    case False
    with r(4) have "ks_inboxes s' b = ks_inboxes s b" by (simp add: elsewhere_def)
    with False show ?thesis by (simp add: pend_def)
  qed (use r(5) in simp)
  moreover have "ks_inboxes s' b = ks_inboxes s b @ (if b = ?a then [ev] else [])" for b
    using r(4,6) by (simp add: elsewhere_def)
  moreover have "ks_clock s' = ks_clock s" using r(4) by (simp add: elsewhere_def)
  ultimately show thesis using that [of s'] r(3) more_fields [OF more] by simp
qed

text \<open>What the rows of a submission say: an attempt per job, and per mailbox the requests of its jobs in order\<close>
definition submitted :: "string \<Rightarrow> job_record list \<Rightarrow> attempt_record list \<Rightarrow> (string \<Rightarrow> inbound_event list) \<Rightarrow> bool" where
  "submitted mid jobs ats evs \<longleftrightarrow>
     map att_job_id ats = map jr_job_id jobs \<and> map att_agent_name ats = map jr_agent_name jobs \<and>
     list_all (\<lambda>a. att_message_id a = mid \<and> att_attempt_state a = ATT_PENDING) ats \<and>
     (\<forall>b. map ev_payload_ref (evs b) = map (\<lambda>j. Some (''job:'' @ jr_job_id j)) (filter (\<lambda>j. jr_agent_name j = b) jobs) \<and>
        map ev_attempt_id (evs b) = map (Some \<circ> att_attempt_id) (filter (\<lambda>a. att_agent_name a = b) ats) \<and>
        list_all (\<lambda>e. ev_event_type e = TASK_REQUEST \<and> ev_message_id e = mid \<and> ev_status e = IE_QUEUED) (evs b))"

lemma record_attempts_run:
  assumes "bureau_ok s" "list_all job_ok jobs" "mid \<noteq> []" "nonblank t"
  shows "\<exists>s' ats evs. py_for jobs (record_request mid t) s = (Inr (), s') \<and>
    bureau_ok s' \<and> bs_attempts s' = bs_attempts s @ ats \<and> bs_messages s' = bs_messages s \<and>
    bs_replies s' = bs_replies s \<and> bs_known_mailboxes s' = bs_known_mailboxes s \<and>
    (\<forall>b. pend s' b = pend s b @ evs b \<and> ks_inboxes s' b = ks_inboxes s b @ evs b) \<and> submitted mid jobs ats evs \<and>
    ks_clock s' = ks_clock s"
  using assms(1,2)
proof (induction jobs arbitrary: s)
  case Nil
  then show ?case by (intro exI [of _ s] exI [of _ "[]"] exI [of _ "\<lambda>_. []"]) (simp add: submitted_def)
next
  case (Cons job jobs)
  then have job: "job_ok job" and jobs': "list_all job_ok jobs" by simp_all
  define at' where "at' = new_attempt (idn ''att'' s (bs_next_id s)) mid job 0 t"
  define ev where "ev = new_request (idn ''iev'' s (Suc (bs_next_id s))) (att_attempt_id at') mid job t"
  obtain s1 where r: "record_job_attempt mid job 0 t s = (Inr (att_attempt_id at'), s1)" "bureau_ok s1"
    "bs_attempts s1 = bs_attempts s @ [at']" "bs_messages s1 = bs_messages s" "bs_replies s1 = bs_replies s"
    "bs_known_mailboxes s1 = bs_known_mailboxes s"
    "\<And>b. pend s1 b = pend s b @ (if b = jr_agent_name job then [ev] else [])"
    "\<And>b. ks_inboxes s1 b = ks_inboxes s b @ (if b = jr_agent_name job then [ev] else [])" "ks_clock s1 = ks_clock s"
    by (rule record_job_attempt_run [OF Cons.prems(1) job assms(3) order_refl assms(4) at'_def ev_def]) blast
  obtain s' ats evs where h: "py_for jobs (record_request mid t) s1 = (Inr (), s')"
    "bureau_ok s'" "bs_attempts s' = bs_attempts s1 @ ats" "bs_messages s' = bs_messages s1"
    "bs_replies s' = bs_replies s1" "bs_known_mailboxes s' = bs_known_mailboxes s1"
    "\<forall>b. pend s' b = pend s1 b @ evs b \<and> ks_inboxes s' b = ks_inboxes s1 b @ evs b" "submitted mid jobs ats evs"
    "ks_clock s' = ks_clock s1"
    using Cons.IH [OF r(2) jobs'] by blast
  let ?evs = "\<lambda>b. (if b = jr_agent_name job then [ev] else []) @ evs b"
  have "submitted mid (job # jobs) (at' # ats) ?evs"
    using h(8) by (simp add: submitted_def at'_def new_attempt_def ev_def new_request_def)
  moreover have "record_request mid t job s = (Inr (), s1)" using r(1) by (simp add: record_request_def)
  ultimately show ?case
    using r h by (intro exI [of _ s'] exI [of _ "at' # ats"] exI [of _ ?evs]) simp
qed

section \<open>Submitting\<close>

definition request_ok :: "message_envelope \<Rightarrow> bool" where
  "request_ok r \<longleftrightarrow> normalize_actor_name (Some (me_from_actor r)) = Inr (me_from_actor r) \<and> me_message_type r \<noteq> []"

lemma resolve_origin_run: "\<exists>x. resolve_origin_message_id k s = (Inr x, s)"
  by (auto simp: resolve_origin_message_id_def Let_def bureau_run split: option.splits)

lemma scope_value_ne [simp]: "delivery_scope_value x \<noteq> []"
  by (cases x) simp_all

lemma record_submission_run:
  assumes ok: "bureau_ok s" and jobs: "jobs \<noteq> []" "list_all job_ok jobs" and req: "request_ok request" and nb: "nonblank t"
  shows "\<exists>s' m ats evs. record_submission request jobs sub t origin s = (Inr (Some (msg_message_id m)), s') \<and>
    bureau_ok s' \<and> bs_messages s' = bs_messages s @ [m] \<and> msg_message_id m \<notin> msg_message_id ` set (bs_messages s) \<and>
    msg_message_state m = MSG_QUEUED \<and> msg_target_agents m = map jr_agent_name jobs \<and> msg_from_actor m = me_from_actor request \<and>
    bs_attempts s' = bs_attempts s @ ats \<and> bs_replies s' = bs_replies s \<and>
    (\<forall>b. pend s' b = pend s b @ evs b \<and> ks_inboxes s' b = ks_inboxes s b @ evs b) \<and>
    submitted (msg_message_id m) jobs ats evs \<and> bs_known_mailboxes s' = bs_known_mailboxes s \<and> ks_clock s' = ks_clock s"
proof -
  let ?mid = "idn ''msg'' s (bs_next_id s)" and ?s1 = "s\<lparr>bs_next_id := Suc (bs_next_id s)\<rparr>"
  obtain org where org: "(if opt_truthy origin then py_return origin
      else resolve_origin_message_id (me_reply_to request)) ?s1 = (Inr org, ?s1)"
    using resolve_origin_run [of "me_reply_to request" ?s1] by (cases "opt_truthy origin") auto
  define m where "m = \<lparr>msg_message_id = ?mid, msg_origin_message_id = org, msg_from_actor = me_from_actor request,
    msg_target_scope = delivery_scope_value (me_delivery_scope request), msg_target_agents = map jr_agent_name jobs,
    msg_message_class = me_message_type request, msg_reply_policy = reply_policy_for request jobs,
    msg_retry_policy = retry_policy_default, msg_priority = 100, msg_payload_ref = None, msg_submission_id = sub,
    msg_created_at = t, msg_updated_at = t, msg_message_state = MSG_QUEUED\<rparr>"
  have mid: "msg_message_id m = ?mid" "msg_message_id m \<noteq> []" by (simp_all add: m_def)
  have "rmap normalize_agent_name (map jr_agent_name jobs) = Inr (map jr_agent_name jobs)"
    using jobs(2) by (induction jobs) (auto simp: job_ok_def owner_name_okD)
  then have vm: "valid_message m"
    using req jobs(1) normalize_actor_ne [of "Some (me_from_actor request)" "me_from_actor request"]
    by (simp add: valid_message_iff m_def request_ok_def)
  let ?s2 = "?s1\<lparr>bs_messages := bs_messages s @ [m]\<rparr>"
  have ok2: "bureau_ok ?s2"
    using bureau_ok_message [of ?s1 m] ok vm by (simp add: drawn_def mid(1)) blast
  obtain s' ats evs where h: "py_for jobs (record_request ?mid t) ?s2 = (Inr (), s')"
    "bureau_ok s'" "bs_attempts s' = bs_attempts s @ ats" "bs_messages s' = bs_messages s @ [m]"
    "bs_replies s' = bs_replies s" "\<forall>b. pend s' b = pend s b @ evs b \<and> ks_inboxes s' b = ks_inboxes s b @ evs b"
    "submitted ?mid jobs ats evs" "bs_known_mailboxes s' = bs_known_mailboxes s" "ks_clock s' = ks_clock s"
    using record_attempts_run [OF ok2 jobs(2) idn_ne nb, of "''msg''" s "bs_next_id s"] by auto
  have "record_submission request jobs sub t origin s = (Inr (Some ?mid), s')"
    using jobs(1) org h(1) vm
    by (simp add: record_submission_def bureau_run m_def [symmetric] normalize_message_fixed)
  moreover have "?mid \<notin> msg_message_id ` set (bs_messages s)" using ok by (simp add: bureau_ok_def ids_ok_def)
  ultimately show ?thesis
    using h mid(1) by (intro exI [of _ s'] exI [of _ m] exI [of _ ats] exI [of _ evs]) (simp add: m_def)
qed

section \<open>The course of an attempt\<close>

abbreviation attempt_event :: "'z kernel_state_scheme \<Rightarrow> string \<Rightarrow> string \<Rightarrow> inbound_event option" where
  "attempt_event s a i \<equiv> find_last_in (\<lambda>e. str_or_empty (ev_attempt_id e) = i) (ks_inboxes s a)"

lemma attempt_event_run: "owner_name_ok a \<Longrightarrow> inbound_get_latest_for_attempt a i s = (Inr (attempt_event s a i), s)"
  by (simp add: inbound_get_latest_for_attempt_def store_key_def)

lemma with_attempt_ok:
  assumes "bureau_ok s" "attempt_of_job s j = Some a" "att_attempt_id a' = att_attempt_id a" "valid_attempt a'"
  shows "bureau_ok (s\<lparr>bs_attempts := bs_attempts s @ [a']\<rparr>)"
  using assms attempt_of_job_valid [OF assms(1,2)] by (intro bureau_ok_attempt) (auto simp: drawn_def)

lemma step_fields:
  assumes "kernel_step s a s'"
  shows "bs_messages s' = bs_messages s" "bs_attempts s' = bs_attempts s" "bs_replies s' = bs_replies s"
    "bs_known_mailboxes s' = bs_known_mailboxes s" "b \<noteq> a \<Longrightarrow> pend s' b = pend s b"
  using assms more_fields [of s' s] by (auto simp: kernel_step_def elsewhere_def pend_def)

lemma derived_state_cong:
  "bs_attempts s' = bs_attempts s \<Longrightarrow> bs_replies s' = bs_replies s \<Longrightarrow> derived_state s' i = derived_state s i"
  by (simp add: derived_state_def)

text \<open>The request of a finished attempt leaves its mailbox, if it still waits there.\<close>
definition without_attempt :: "'z kernel_state_scheme \<Rightarrow> string \<Rightarrow> string \<Rightarrow> inbound_event list" where
  "without_attempt s a i = (case attempt_event s a i of
     Some e \<Rightarrow> if event_terminal e then pend s a else q_remove (eid e) (pend s a) | None \<Rightarrow> pend s a)"

lemma without_attempt_rows [simp]: "without_attempt (s\<lparr>bs_attempts := x\<rparr>) a i = without_attempt s a i"
  by (cases "attempt_event s a i") (simp_all add: without_attempt_def)

definition settled_attempt :: "attempt_record \<Rightarrow> job_status \<Rightarrow> string \<Rightarrow> attempt_record" where
  "settled_attempt a st t = a\<lparr>att_updated_at := t, att_attempt_state := attempt_state_for_status st\<rparr>"

text \<open>The branch that settles or refreshes the mailbox\<close>
lemma settle_mailbox_run:
  assumes ok: "bureau_ok s" and a: "owner_name_ok a" and nb: "nonblank t"
    and m: "m = (case attempt_event s a i of
               Some e \<Rightarrow>
                 if \<not> event_terminal e
                 then if ev_status e \<in> {IE_CREATED, IE_QUEUED} \<and> st = JS_CANCELLED
                      then py_then (kernel_abandon a (eid e) (Some t)) (py_return ())
                      else py_then (kernel_consume a (eid e) (Some t)) (py_return ())
                 else py_then (rebuild_mailbox_summary a (Some t)) (py_return ())
             | None \<Rightarrow> py_then (rebuild_mailbox_summary a (Some t)) (py_return ()))"
  obtains s' where "m s = (Inr (), s')" "kernel_step s a s'" "pend s' a = without_attempt s a i"
proof -
  have inv: "mailbox_inv s a" by (rule bureau_okD(1) [OF ok a])
  obtain x s1 where reb: "rebuild_mailbox_summary a (Some t) s = (Inr x, s1)" "kernel_step s a s1" "pend s1 a = pend s a"
    by (rule rebuild_step [OF inv nb])
  show thesis
  proof (cases "attempt_event s a i")
    case None
    then show thesis using that [of s1] reb by (simp add: m without_attempt_def)
  next
    case (Some e)
    show thesis
    proof (cases "event_terminal e")
      case True
      then show thesis using that [of s1] reb Some by (simp add: m without_attempt_def)
    next
      case False
      obtain r2 s2 where s2: "mark_terminal a (eid e) IE_ABANDONED (Some t) s = (Inr r2, s2)" "kernel_step s a s2"
        "pend s2 a = q_remove (eid e) (pend s a)" by (rule finish_step [OF inv nb, of IE_ABANDONED "eid e"]) simp_all
      obtain r3 s3 where s3: "mark_terminal a (eid e) IE_CONSUMED (Some t) s = (Inr r3, s3)" "kernel_step s a s3"
        "pend s3 a = q_remove (eid e) (pend s a)" by (rule finish_step [OF inv nb, of IE_CONSUMED "eid e"]) simp_all
      show thesis
      proof (cases "ev_status e \<in> {IE_CREATED, IE_QUEUED} \<and> st = JS_CANCELLED")
        case True
        then have "m s = (Inr (), s2)" using Some False s2(1) by (simp add: m kernel_abandon_def)
        with that s2 Some False show thesis by (simp add: without_attempt_def)
      next
        case cond: False
        then have "m s = (Inr (), s3)" using Some False s3(1) by (auto simp: m kernel_consume_def)
        with that s3 Some False show thesis by (simp add: without_attempt_def)
      qed
    qed
  qed
qed

lemma record_attempt_terminal_run:
  assumes ok: "bureau_ok s" and a: "owner_name_ok (jr_agent_name job)" and nb: "nonblank t"
    and at: "attempt_of_job s (jr_job_id job) = Some attempt"
  obtains s' where "record_attempt_terminal job t s = (Inr (), s')" "bureau_ok s'"
    "bs_attempts s' = bs_attempts s @ [settled_attempt attempt (jr_status job) t]" "bs_replies s' = bs_replies s"
    "bs_known_mailboxes s' = bs_known_mailboxes s"
    "pend s' (jr_agent_name job) = without_attempt s (jr_agent_name job) (att_attempt_id attempt)"
    "\<And>b. b \<noteq> jr_agent_name job \<Longrightarrow> pend s' b = pend s b"
    "\<And>i. map_option msg_message_state (latest_message s' i) = (if i = att_message_id attempt
       then map_option (\<lambda>_. derived_state s' i) (latest_message s i) else map_option msg_message_state (latest_message s i))"
proof -
  let ?a = "jr_agent_name job" and ?at = "settled_attempt attempt (jr_status job) t"
  let ?s1 = "s\<lparr>bs_attempts := bs_attempts s @ [?at]\<rparr>"
  have va: "valid_attempt ?at" using attempt_of_job_valid [OF ok at] by (auto simp: valid_attempt_def settled_attempt_def)
  have ok1: "bureau_ok ?s1" using va by (intro with_attempt_ok [OF ok at]) (simp add: settled_attempt_def)
  obtain s2 where s2: "(case attempt_event ?s1 ?a (att_attempt_id attempt) of
               Some e \<Rightarrow>
                 if \<not> event_terminal e
                 then if ev_status e \<in> {IE_CREATED, IE_QUEUED} \<and> jr_status job = JS_CANCELLED
                      then py_then (kernel_abandon ?a (eid e) (Some t)) (py_return ())
                      else py_then (kernel_consume ?a (eid e) (Some t)) (py_return ())
                 else py_then (rebuild_mailbox_summary ?a (Some t)) (py_return ())
             | None \<Rightarrow> py_then (rebuild_mailbox_summary ?a (Some t)) (py_return ())) ?s1 = (Inr (), s2)"
    "kernel_step ?s1 ?a s2" "pend s2 ?a = without_attempt ?s1 ?a (att_attempt_id attempt)"
    by (rule settle_mailbox_run [OF ok1 a nb refl])
  have ok2: "bureau_ok s2" by (rule bureau_ok_step [OF ok1 s2(2)])
  note f = step_fields [OF s2(2)]
  let ?s3 = "with_derived_state s2 (att_message_id attempt) t"
  have "record_attempt_terminal job t s = refresh_message_state (att_message_id attempt) t s2"
    using at va s2(1)
    by (simp add: record_attempt_terminal_def bureau_run attempt_event_run [OF a] settled_attempt_def [symmetric])
  then have run: "record_attempt_terminal job t s = (Inr (), ?s3)" by (simp add: bureau_run ok2)
  have mem: "att_message_id attempt \<in> att_message_id ` set (bs_attempts s2)"
    using f(2) by (auto simp: settled_attempt_def)
  have d: "derived_state ?s3 i = derived_state s2 i" for i by (rule derived_state_cong) simp_all
  show thesis
  proof (rule that [OF run])
    show "map_option msg_message_state (latest_message ?s3 i) = (if i = att_message_id attempt
       then map_option (\<lambda>_. derived_state ?s3 i) (latest_message s i) else map_option msg_message_state (latest_message s i))" for i
      using f(1) by (auto simp: with_derived_state_latest [OF mem] d)
    show "pend ?s3 ?a = without_attempt s ?a (att_attempt_id attempt)"
      using s2(3) by simp
  qed (use ok2 f in simp_all)
qed

section \<open>Replies\<close>

lemma plain_idn: "bureau_ok s \<Longrightarrow> plain_id (idn ''rep'' s n)"
  by (simp add: bureau_ok_def ids_ok_def idn_def plain_id_def no_space_def py_isspace_def)

lemma compose_new_reply: "bureau_ok s \<Longrightarrow>
    compose_reply_payload (idn ''rep'' s n) None = Inr (''reply:'' @ idn ''rep'' s n)"
  using plain_idn [of s n] by (simp add: compose_reply_payload_def str_or_empty_def REPLY_PREFIX_def)

definition new_reply_event :: "string \<Rightarrow> string \<Rightarrow> string \<Rightarrow> string \<Rightarrow> string \<Rightarrow> string \<Rightarrow> inbound_event" where
  "new_reply_event e a mid i rid t = \<lparr>ev_inbound_event_id = e, ev_agent_name = a, ev_event_type = TASK_REPLY,
     ev_message_id = mid, ev_attempt_id = Some i, ev_payload_ref = Some (''reply:'' @ rid), ev_priority = 10,
     ev_status = IE_QUEUED, ev_created_at = t, ev_started_at = None, ev_finished_at = None\<rparr>"

lemma queue_reply_run:
  assumes ok: "bureau_ok s" and a: "owner_name_ok a" and nb: "nonblank t" and mid: "mid \<noteq> []"
    and rid: "compose_reply_payload rid None = Inr (''reply:'' @ rid)"
    and ev: "ev = new_reply_event (idn ''iev'' s (bs_next_id s)) a mid i rid t"
  obtains s' where "queue_reply_delivery a mid i rid t s = (Inr (), s')" "bureau_ok s'"
    "bs_messages s' = bs_messages s" "bs_attempts s' = bs_attempts s" "bs_replies s' = bs_replies s"
    "bs_known_mailboxes s' = bs_known_mailboxes s" "pend s' a = pend s a @ [ev]"
    "\<And>b. b \<noteq> a \<Longrightarrow> pend s' b = pend s b"
proof -
  let ?s1 = "s\<lparr>bs_next_id := Suc (bs_next_id s)\<rparr>"
  have ok1: "bureau_ok ?s1" using ok by simp
  have ve: "valid_event ev" using a mid by (simp add: ev new_reply_event_def valid_event_def)
  have fr: "eid ev \<notin> eid ` set (ks_inboxes ?s1 a)" using idn_not_in_inbox [OF ok] by (simp add: ev new_reply_event_def)
  have ex: "\<exists>k < bs_next_id ?s1. eid ev = idn ''iev'' ?s1 k"
    by (rule exI [of _ "bs_next_id s"]) (simp add: ev new_reply_event_def)
  obtain s2 m s' where r: "inbound_append ev ?s1 = (Inr (), s2)"
    "apply_incremental_summary_update a 1 1 Ellipsis None None (Some t) s2 = (Inr m, s')"
    "bureau_ok s'" "elsewhere ?s1 a s'" "pend s' a = pend ?s1 a @ [ev]"
    by (rule enqueue_step [OF ok1 a nb ve _ _ _ _ ex fr, where d = 1]) (auto simp: ev new_reply_event_def)
  have run: "queue_reply_delivery a mid i rid t s = (Inr (), s')"
    using rid ve r(1,2)
    by (simp add: queue_reply_delivery_def bureau_run ev [unfolded new_reply_event_def, simplified, symmetric])
  have more: "kernel_state.more s' = kernel_state.more ?s1" using r(4) by (simp add: elsewhere_def)
  have "pend s' b = pend s b" if "b \<noteq> a" for b
    using r(4) that by (simp add: elsewhere_def pend_def)
  with that [OF run r(3)] r(5) more_fields [OF more] show thesis by simp
qed

definition new_reply :: "string \<Rightarrow> attempt_record \<Rightarrow> job_record \<Rightarrow> completion_decision \<Rightarrow> string \<Rightarrow> reply_record" where
  "new_reply i attempt job decision t = \<lparr>rep_reply_id = i,
     rep_message_id = att_message_id attempt, rep_attempt_id = att_attempt_id attempt,
     rep_agent_name = jr_agent_name job, rep_terminal_status = reply_status_for_job (jr_status job),
     rep_reply = delivered_reply_text job decision,
     rep_reply_artifact = reply_artifact_from_decision decision,
     rep_diagnostics = reply_diagnostics job decision, rep_finished_at = t\<rparr>"

text \<open>The mailbox that a reply is delivered to, if any\<close>
definition reply_target :: "'z bureau_state_scheme \<Rightarrow> job_record \<Rightarrow> bool \<Rightarrow> string option" where
  "reply_target s job deliver = (if deliver
     then normalize_mailbox_target (Some (me_from_actor (jr_request job))) (bs_known_mailboxes s) else None)"

lemma deliver_reply_run:
  assumes ok: "bureau_ok s" and nb: "nonblank t" and mid: "mid \<noteq> []"
    and rid: "compose_reply_payload rid None = Inr (''reply:'' @ rid)"
    and tg: "\<And>b. target = Some b \<Longrightarrow> owner_name_ok b"
    and ev: "ev = (\<lambda>b. new_reply_event (idn ''iev'' s (bs_next_id s)) b mid i rid t)"
  obtains s' where "(case target of None \<Rightarrow> py_return () | Some b \<Rightarrow> queue_reply_delivery b mid i rid t) s = (Inr (), s')"
    "bureau_ok s'" "bs_messages s' = bs_messages s" "bs_attempts s' = bs_attempts s" "bs_replies s' = bs_replies s"
    "bs_known_mailboxes s' = bs_known_mailboxes s"
    "\<And>b. pend s' b = pend s b @ (if target = Some b then [ev b] else [])"
proof (cases target)
  case None
  then show thesis using that [of s] ok by simp
next
  case (Some a)
  obtain s' where s': "queue_reply_delivery a mid i rid t s = (Inr (), s')" "bureau_ok s'"
    "bs_messages s' = bs_messages s" "bs_attempts s' = bs_attempts s" "bs_replies s' = bs_replies s"
    "bs_known_mailboxes s' = bs_known_mailboxes s" "pend s' a = pend s a @ [ev a]"
    "\<And>b. b \<noteq> a \<Longrightarrow> pend s' b = pend s b"
    by (rule queue_reply_run [OF ok tg [OF Some] nb mid rid, of "ev a"]) (simp add: ev, blast)
  have "pend s' b = pend s b @ (if target = Some b then [ev b] else [])" for b
    using s'(7,8) Some by (cases "b = a") auto
  with s' Some that [of s'] show thesis by simp
qed

lemma file_reply_run:
  assumes ok: "bureau_ok s" and a: "agent_name_ok (jr_agent_name job)" and nb: "nonblank t"
    and at: "attempt_of_job s (jr_job_id job) = Some attempt"
    and r: "r = new_reply (idn ''rep'' s (bs_next_id s)) attempt job decision t"
    and ev: "ev = (\<lambda>b. new_reply_event (idn ''iev'' s (Suc (bs_next_id s))) b (att_message_id attempt)
              (att_attempt_id attempt) (rep_reply_id r) t)"
  obtains s' where "record_reply job decision t deliver s = (Inr (Some (rep_reply_id r)), s')" "bureau_ok s'"
    "bs_attempts s' = bs_attempts s" "bs_replies s' = bs_replies s @ [r]" "bs_known_mailboxes s' = bs_known_mailboxes s"
    "\<And>b. pend s' b = pend s b @ (if reply_target s job deliver = Some b then [ev b] else [])"
    "\<And>i. map_option msg_message_state (latest_message s' i) = (if i = att_message_id attempt
       then map_option (\<lambda>_. derived_state s' i) (latest_message s i) else map_option msg_message_state (latest_message s i))"
proof -
  let ?rid = "idn ''rep'' s (bs_next_id s)" and ?mid = "att_message_id attempt" and ?aid = "att_attempt_id attempt"
  let ?s1 = "s\<lparr>bs_next_id := Suc (bs_next_id s), bs_replies := bs_replies s @ [r]\<rparr>"
  have rid: "rep_reply_id r = ?rid" by (simp add: r new_reply_def)
  have vat: "valid_attempt attempt" "attempt \<in> set (bs_attempts s)" using attempt_of_job_valid [OF ok at] by simp_all
  then have mid: "?mid \<noteq> []" by (simp add: valid_attempt_def)
  have vr: "valid_reply r" using vat a by (simp add: r new_reply_def valid_reply_def valid_attempt_def)
  have ok1: "bureau_ok ?s1"
    using bureau_ok_reply [of "s\<lparr>bs_next_id := Suc (bs_next_id s)\<rparr>" r] ok vr by (simp add: drawn_def rid) blast
  have tg: "owner_name_ok b" if "reply_target s job deliver = Some b" for b
    using that normalize_target_ok by (auto simp: reply_target_def split: if_splits)
  have ev': "ev = (\<lambda>b. new_reply_event (idn ''iev'' ?s1 (bs_next_id ?s1)) b ?mid ?aid ?rid t)" by (simp add: ev rid)
  obtain s2 where s2: "(case reply_target s job deliver of None \<Rightarrow> py_return ()
      | Some b \<Rightarrow> queue_reply_delivery b ?mid ?aid ?rid t) ?s1 = (Inr (), s2)" "bureau_ok s2"
    "bs_messages s2 = bs_messages ?s1" "bs_attempts s2 = bs_attempts ?s1" "bs_replies s2 = bs_replies ?s1"
    "bs_known_mailboxes s2 = bs_known_mailboxes ?s1"
    "\<And>b. pend s2 b = pend ?s1 b @ (if reply_target s job deliver = Some b then [ev b] else [])"
    by (rule deliver_reply_run [OF ok1 nb mid compose_new_reply [OF ok] tg ev']) (assumption, blast)
  have tgt: "(if deliver then mailbox_actor (me_from_actor (jr_request job)) else py_return None) ?s1 =
      (Inr (reply_target s job deliver), ?s1)"
    by (simp add: reply_target_def bureau_run)
  let ?s3 = "with_derived_state s2 ?mid t"
  have run: "record_reply job decision t deliver s = (Inr (Some (rep_reply_id r)), ?s3)"
    using at vr tgt s2(1,2) rid
    by (simp add: record_reply_def bureau_run r [unfolded new_reply_def, symmetric])
  have mem: "?mid \<in> att_message_id ` set (bs_attempts s2)" using s2(4) vat(2) by auto
  have d: "derived_state ?s3 i = derived_state s2 i" for i by (rule derived_state_cong) simp_all
  show thesis
  proof (rule that [OF run])
    show "map_option msg_message_state (latest_message ?s3 i) = (if i = ?mid
       then map_option (\<lambda>_. derived_state ?s3 i) (latest_message s i) else map_option msg_message_state (latest_message s i))" for i
      using s2(3) by (auto simp: with_derived_state_latest [OF mem] d)
  qed (use s2 in simp_all)
qed

end
