(* ===== verification/Bureau_Properties.thy ===== *)
theory Bureau_Properties
  imports Bureau_Invariants
begin

text \<open>
  The message bureau as a transition system: submitting, retrying, starting and finishing the attempts of a
  message. Every step keeps the bureau's invariant, a message is reported finished only when none of its
  attempts is active, and the operations have the effect on the mailboxes that the dispatcher relies on.
\<close>

section \<open>Starting an attempt\<close>

text \<open>The event that \<open>resolve_inbound_for_attempt_start\<close> finds\<close>
definition start_event :: "'z kernel_state_scheme \<Rightarrow> job_record \<Rightarrow> string \<Rightarrow> inbound_event option" where
  "start_event s job i = (let j = py_strip (str_or (jget (jr_provider_options job) ''reply_delivery_inbound_event_id'') '''') in
     if (py_lower (py_strip (me_message_type (jr_request job))) = ''reply_delivery'' \<or>
         py_truthy (jget (jr_provider_options job) ''reply_delivery'')) \<and> j \<noteq> [] \<and>
        find_last_in (\<lambda>e. eid e = j) (ks_inboxes s (jr_agent_name job)) \<noteq> None
     then find_last_in (\<lambda>e. eid e = j) (ks_inboxes s (jr_agent_name job))
     else attempt_event s (jr_agent_name job) i)"

lemma start_event_run:
  "owner_name_ok (jr_agent_name job) \<Longrightarrow> resolve_inbound_for_attempt_start job i s = (Inr (start_event s job i), s)"
  by (auto simp: resolve_inbound_for_attempt_start_def start_event_def Let_def attempt_event_run
      inbound_get_latest_def store_key_def)

definition started_attempt :: "attempt_record \<Rightarrow> string \<Rightarrow> attempt_record" where
  "started_attempt a t = a\<lparr>att_started_at := (if att_started_at a = [] then t else att_started_at a),
     att_updated_at := t, att_attempt_state := ATT_RUNNING\<rparr>"

text \<open>The mailbox of the agent, with the request under delivery if it is at the head and claimable\<close>
definition started_queue :: "'z kernel_state_scheme \<Rightarrow> job_record \<Rightarrow> string \<Rightarrow> string \<Rightarrow> inbound_event list" where
  "started_queue s job i t = (case start_event s job i of
     Some e \<Rightarrow> if event_terminal e \<or> ev_status e = IE_DELIVERING then pend s (jr_agent_name job)
               else q_claim (\<lambda>x. eid x = eid e) t (pend s (jr_agent_name job))
   | None \<Rightarrow> pend s (jr_agent_name job))"

lemma start_event_rows [simp]: "start_event (s\<lparr>bs_attempts := x\<rparr>) job i = start_event s job i"
  by (simp add: start_event_def Let_def)

lemma started_queue_rows [simp]: "started_queue (s\<lparr>bs_attempts := x\<rparr>) job i t = started_queue s job i t"
  by (cases "start_event s job i") (simp_all add: started_queue_def)

lemma kernel_step_refl: "mailbox_inv s a \<Longrightarrow> kernel_step s a s"
  by (simp add: kernel_step_def elsewhere_def same_ids_def)

text \<open>What the states of the messages become when one of them is set\<close>
definition message_set :: "'z bureau_state_scheme \<Rightarrow> string \<Rightarrow> message_state \<Rightarrow> 'z bureau_state_scheme \<Rightarrow> bool" where
  "message_set s i st s' \<longleftrightarrow> (\<forall>j. map_option msg_message_state (latest_message s' j) =
     (if j = i then map_option (\<lambda>_. st) (latest_message s j) else map_option msg_message_state (latest_message s j)))"

lemma message_set_with_state: "message_set s i st (with_message_state s i st t)"
  by (auto simp: message_set_def)

lemma message_set_cong:
  "message_set s i st s' \<Longrightarrow> bs_messages s0 = bs_messages s \<Longrightarrow> bs_messages s1 = bs_messages s' \<Longrightarrow> message_set s0 i st s1"
  by (simp add: message_set_def)

lemma claim_for_start_step:
  assumes inv: "mailbox_inv s a" and nb: "nonblank t"
  obtains s' where "(if ev_status e = IE_DELIVERING then py_return () else py_then (claim a (eid e) (Some t)) (py_return ())) s
      = (Inr (), s')" "kernel_step s a s'"
    "pend s' a = (if ev_status e = IE_DELIVERING then pend s a else q_claim (\<lambda>x. eid x = eid e) t (pend s a))"
    "opt_hd (pend s a) = Some e \<Longrightarrow> claimable e \<Longrightarrow> ks_inboxes s' a = ks_inboxes s a @ [delivered e t]"
proof (cases "ev_status e = IE_DELIVERING")
  case True
  then show thesis
    using that [of s] kernel_step_refl [OF inv] by (simp add: claimable_def CLAIMABLE_EVENT_STATES_def)
next
  case False
  obtain r s' where "claim a (eid e) (Some t) s = (Inr r, s')" "kernel_step s a s'"
    "pend s' a = q_claim (\<lambda>x. eid x = eid e) t (pend s a)" by (rule claim_step [OF inv nb])
  moreover have "ks_inboxes s' a = ks_inboxes s a @ [delivered e t]" if "opt_hd (pend s a) = Some e" "claimable e"
  proof -
    have "pend s a = e # tl (pend s a)" using that(1) by (cases "pend s a") simp_all
    from claim_head [OF inv this _ nb] that(2) calculation(1) show ?thesis
      by (auto simp: claimable_def committed_fields(2))
  qed
  ultimately show thesis using False that [of s'] by simp
qed

lemma mark_attempt_started_run:
  assumes ok: "bureau_ok s" and a: "owner_name_ok (jr_agent_name job)" and nb: "nonblank t"
    and at: "attempt_of_job s (jr_job_id job) = Some attempt"
  obtains s' where "mark_attempt_started job t s = (Inr (), s')" "bureau_ok s'"
    "bs_attempts s' = bs_attempts s @ [started_attempt attempt t]" "bs_replies s' = bs_replies s"
    "pend s' (jr_agent_name job) = started_queue s job (att_attempt_id attempt) t"
    "\<And>b. b \<noteq> jr_agent_name job \<Longrightarrow> pend s' b = pend s b" "message_set s (att_message_id attempt) MSG_RUNNING s'"
    "\<And>e. start_event s job (att_attempt_id attempt) = Some e \<Longrightarrow> opt_hd (pend s (jr_agent_name job)) = Some e \<Longrightarrow> claimable e \<Longrightarrow>
       ks_inboxes s' (jr_agent_name job) = ks_inboxes s (jr_agent_name job) @ [delivered e t]"
    "bs_known_mailboxes s' = bs_known_mailboxes s"
proof -
  let ?a = "jr_agent_name job" and ?at = "started_attempt attempt t" and ?i = "att_message_id attempt"
  let ?s1 = "s\<lparr>bs_attempts := bs_attempts s @ [?at]\<rparr>" and ?e = "start_event s job (att_attempt_id attempt)"
  have va: "valid_attempt ?at" using attempt_of_job_valid [OF ok at] by (auto simp: valid_attempt_def started_attempt_def)
  have ok1: "bureau_ok ?s1" using va by (intro with_attempt_ok [OF ok at]) (simp add: started_attempt_def)
  have inv: "mailbox_inv ?s1 ?a" by (rule bureau_okD(1) [OF ok1 a])
  note run = mark_attempt_started_def bureau_run Let_def start_event_run [OF a] started_attempt_def [symmetric]
  consider (request) e where "?e = Some e" "\<not> event_terminal e"
    | (refresh) "started_queue s job (att_attempt_id attempt) t = pend s ?a" "?e = None \<or> event_terminal (the ?e)"
    by (cases ?e) (auto simp: started_queue_def)
  then show thesis
  proof cases
    case request
    obtain s2 where s2: "(if ev_status e = IE_DELIVERING then py_return ()
        else py_then (claim ?a (eid e) (Some t)) (py_return ())) ?s1 = (Inr (), s2)" "kernel_step ?s1 ?a s2"
      "pend s2 ?a = (if ev_status e = IE_DELIVERING then pend ?s1 ?a else q_claim (\<lambda>x. eid x = eid e) t (pend ?s1 ?a))"
      "opt_hd (pend ?s1 ?a) = Some e \<Longrightarrow> claimable e \<Longrightarrow> ks_inboxes s2 ?a = ks_inboxes ?s1 ?a @ [delivered e t]"
      by (rule claim_for_start_step [OF inv nb, of e]) blast
    note f = step_fields [OF s2(2)]
    have ok2: "bureau_ok s2" by (rule bureau_ok_step [OF ok1 s2(2)])
    have "mark_attempt_started job t s = (Inr (), with_message_state s2 ?i MSG_RUNNING t)"
      using at va request s2(1) ok2 by (simp add: run)
    moreover have "message_set s ?i MSG_RUNNING (with_message_state s2 ?i MSG_RUNNING t)"
      by (rule message_set_cong [OF message_set_with_state]) (use f in simp_all)
    moreover have "pend s2 ?a = started_queue s job (att_attempt_id attempt) t"
      using s2(3) request by (simp add: started_queue_def)
    ultimately show thesis using ok2 f s2(4) request
      by (intro that [of "with_message_state s2 ?i MSG_RUNNING t"]) simp_all
  next
    case refresh
    let ?s2 = "with_message_state ?s1 ?i MSG_RUNNING t"
    have ok2: "bureau_ok ?s2" using ok1 by simp
    obtain m s3 where s3: "rebuild_mailbox_summary ?a (Some t) ?s2 = (Inr m, s3)" "kernel_step ?s2 ?a s3" "pend s3 ?a = pend ?s2 ?a"
      by (rule rebuild_step [OF bureau_okD(1) [OF ok2 a] nb])
    note f = step_fields [OF s3(2)]
    have "mark_attempt_started job t s = (Inr (), s3)"
      using at va refresh(2) s3(1) ok1 by (cases ?e) (simp_all add: run)
    moreover have "message_set s ?i MSG_RUNNING s3"
      by (rule message_set_cong [OF message_set_with_state]) (use f in simp_all)
    moreover have "opt_hd (pend s ?a) \<noteq> ?e \<or> ?e = None"
      using refresh(2) pend_mem_latest [of "the ?e" s ?a] by (cases "pend s ?a"; cases ?e) auto
    ultimately show thesis
      using bureau_ok_step [OF ok2 s3(2)] f s3(3) refresh(1) by (intro that [of s3]) simp_all
  qed
qed

section \<open>Retrying\<close>

definition retry_index_of :: "'z bureau_state_scheme \<Rightarrow> string \<Rightarrow> string \<Rightarrow> int" where
  "retry_index_of s i a = foldl (\<lambda>latest r. if att_agent_name r \<noteq> a then latest else max latest (att_retry_index r)) (- 1)
     (filter (\<lambda>r. att_message_id r = i) (bs_attempts s)) + 1"

lemma foldl_max_bounds:
  "x \<le> foldl (\<lambda>l r. if att_agent_name r \<noteq> a then l else max l (att_retry_index r)) x rs"
  "r \<in> set rs \<Longrightarrow> att_agent_name r = a \<Longrightarrow>
     att_retry_index r \<le> foldl (\<lambda>l r. if att_agent_name r \<noteq> a then l else max l (att_retry_index r)) x rs"
  by (induction rs rule: rev_induct) auto

lemma retry_index_bounds:
  "0 \<le> retry_index_of s i a"
  "r \<in> set (bs_attempts s) \<Longrightarrow> att_message_id r = i \<Longrightarrow> att_agent_name r = a \<Longrightarrow> att_retry_index r < retry_index_of s i a"
proof -
  let ?rs = "filter (\<lambda>r. att_message_id r = i) (bs_attempts s)"
  show "0 \<le> retry_index_of s i a" using foldl_max_bounds(1) [of "- 1" a ?rs] by (simp add: retry_index_of_def)
  assume "r \<in> set (bs_attempts s)" "att_message_id r = i" "att_agent_name r = a"
  then show "att_retry_index r < retry_index_of s i a"
    using foldl_max_bounds(2) [of r ?rs a "- 1"] by (simp add: retry_index_of_def)
qed

lemma next_retry_index_run:
  "agent_name_ok a \<Longrightarrow> next_retry_index i a s = (Inr (retry_index_of s i a), s)"
  by (simp add: next_retry_index_def bureau_run retry_index_of_def)

lemma record_retry_attempt_run:
  assumes ok: "bureau_ok s" and job: "job_ok job" and nb: "nonblank t" and m: "latest_message s i = Some m"
  obtains s' at' ev where "record_retry_attempt i job t s = (Inr (att_attempt_id at'), s')" "bureau_ok s'"
    "bs_attempts s' = bs_attempts s @ [at']" "bs_replies s' = bs_replies s" "message_set s i MSG_QUEUED s'"
    "at' = new_attempt (att_attempt_id at') i job (retry_index_of s i (jr_agent_name job)) t"
    "ev = new_request (eid ev) (att_attempt_id at') i job t"
    "att_attempt_id at' \<notin> att_attempt_id ` set (bs_attempts s)"
    "\<And>b. pend s' b = pend s b @ (if b = jr_agent_name job then [ev] else [])"
proof -
  let ?n = "retry_index_of s i (jr_agent_name job)"
  have i: "i \<noteq> []" using latest_message_valid [OF ok m] by (auto simp: valid_message_iff)
  have a: "agent_name_ok (jr_agent_name job)" using job by (simp add: job_ok_def owner_name_okD)
  define at' where "at' = new_attempt (idn ''att'' s (bs_next_id s)) i job ?n t"
  define ev where "ev = new_request (idn ''iev'' s (Suc (bs_next_id s))) (att_attempt_id at') i job t"
  obtain s1 where r: "record_job_attempt i job ?n t s = (Inr (att_attempt_id at'), s1)" "bureau_ok s1"
    "bs_attempts s1 = bs_attempts s @ [at']" "bs_messages s1 = bs_messages s" "bs_replies s1 = bs_replies s"
    "\<And>b. pend s1 b = pend s b @ (if b = jr_agent_name job then [ev] else [])"
    by (rule record_job_attempt_run [OF ok job i retry_index_bounds(1) nb at'_def ev_def]) blast
  have "record_retry_attempt i job t s = (Inr (att_attempt_id at'), with_message_state s1 i MSG_QUEUED t)"
    using m r(1,2) by (simp add: record_retry_attempt_def bureau_run next_retry_index_run [OF a])
  moreover have "message_set s i MSG_QUEUED (with_message_state s1 i MSG_QUEUED t)"
    by (rule message_set_cong [OF message_set_with_state]) (use r(4) in simp_all)
  moreover have "att_attempt_id at' \<notin> att_attempt_id ` set (bs_attempts s)"
    using ok by (simp add: at'_def new_attempt_def bureau_ok_def ids_ok_def)
  ultimately show thesis
    using r by (intro that [of at' "with_message_state s1 i MSG_QUEUED t" ev])
      (simp_all add: at'_def ev_def new_attempt_def new_request_def)
qed

section \<open>Finishing\<close>

lemma message_set_then:
  "message_set s i st s' \<Longrightarrow> message_set s' i st' s'' \<Longrightarrow> message_set s i st' s''"
proof -
  assume m: "message_set s i st s'" "message_set s' i st' s''"
  from m(1) have "map_option msg_message_state (latest_message s' i) = map_option (\<lambda>_. st) (latest_message s i)"
    by (simp add: message_set_def)
  then have "map_option (\<lambda>_. st') (latest_message s' i) = map_option (\<lambda>_. st') (latest_message s i)"
    by (cases "latest_message s i"; cases "latest_message s' i") simp_all
  with m show ?thesis by (simp add: message_set_def)
qed

lemma record_terminal_run:
  assumes ok: "bureau_ok s" and a: "owner_name_ok (jr_agent_name job)"
    and nb: "nonblank t" and at: "attempt_of_job s (jr_job_id job) = Some attempt"
  obtains s' i e where "record_terminal job decision t deliver reply s = (Inr (if reply then Some i else None), s')" "bureau_ok s'"
    "bs_attempts s' = bs_attempts s @ [settled_attempt attempt (jr_status job) t]"
    "bs_replies s' = bs_replies s @ (if reply then [new_reply i attempt job decision t] else [])"
    "message_set s (att_message_id attempt) (derived_state s' (att_message_id attempt)) s'"
    "\<And>b. pend s' b = (if b = jr_agent_name job then without_attempt s b (att_attempt_id attempt) else pend s b) @
       (if reply \<and> reply_target s job deliver = Some b then
          [new_reply_event e b (att_message_id attempt) (att_attempt_id attempt) i t] else [])"
    "reply \<Longrightarrow> plain_id i"
proof -
  let ?at = "settled_attempt attempt (jr_status job) t"
  have ids: "att_message_id ?at = att_message_id attempt" "att_attempt_id ?at = att_attempt_id attempt"
    "att_job_id ?at = att_job_id attempt" by (simp_all add: settled_attempt_def)
  obtain s1 where r: "record_attempt_terminal job t s = (Inr (), s1)" "bureau_ok s1"
    "bs_attempts s1 = bs_attempts s @ [?at]" "bs_replies s1 = bs_replies s" "bs_known_mailboxes s1 = bs_known_mailboxes s"
    "\<And>b. pend s1 b = (if b = jr_agent_name job then without_attempt s b (att_attempt_id attempt) else pend s b)"
    "message_set s (att_message_id attempt) (derived_state s1 (att_message_id attempt)) s1"
    by (rule record_attempt_terminal_run [OF ok a nb at]) (simp add: message_set_def if_distrib cong: if_cong)
  show thesis
  proof (cases reply)
    case False
    then show thesis using that [of undefined s1 undefined] r by (simp add: record_terminal_def)
  next
    case True
    have at1: "attempt_of_job s1 (jr_job_id job) = Some ?at"
      using r(3) attempt_of_job_valid [OF ok at] by (simp add: ids)
    define i where "i = idn ''rep'' s1 (bs_next_id s1)"
    obtain s2 where q: "record_reply job decision t deliver s1 = (Inr (Some i), s2)" "bureau_ok s2"
      "bs_attempts s2 = bs_attempts s1" "bs_replies s2 = bs_replies s1 @ [new_reply i attempt job decision t]"
      "\<And>b. pend s2 b = pend s1 b @ (if reply_target s1 job deliver = Some b then
         [new_reply_event (idn ''iev'' s1 (Suc (bs_next_id s1))) b (att_message_id attempt) (att_attempt_id attempt) i t] else [])"
      "message_set s1 (att_message_id attempt) (derived_state s2 (att_message_id attempt)) s2"
      by (rule file_reply_run [OF r(2) _ nb at1 refl refl, of decision deliver])
        (use a in \<open>auto simp: owner_name_okD i_def new_reply_def ids message_set_def\<close>)
    have "reply_target s1 job deliver = reply_target s job deliver" by (simp add: reply_target_def r(5))
    then show thesis
      using True r q message_set_then [OF r(7) q(6)] plain_idn [OF r(2)] i_def
      by (intro that [of i s2 "idn ''iev'' s1 (Suc (bs_next_id s1))"]) (simp_all add: record_terminal_def)
  qed
qed

section \<open>The bureau as a transition system\<close>

datatype bureau_op =
    Submit message_envelope "job_record list" "string option" string "string option"
  | Retry string job_record string
  | Start job_record string
  | Finish job_record completion_decision string bool bool

fun bureau_exec :: "bureau_op \<Rightarrow> ('z bureau_state_scheme, string option) py" where
  "bureau_exec (Submit request jobs sub t origin) = record_submission request jobs sub t origin"
| "bureau_exec (Retry i job t) = py_bind (record_retry_attempt i job t) (\<lambda>a. py_return (Some a))"
| "bureau_exec (Start job t) = py_then (mark_attempt_started job t) (py_return None)"
| "bureau_exec (Finish job decision t deliver reply) = record_terminal job decision t deliver reply"

text \<open>What the dispatcher hands over: jobs for agents, an actor that asks, and a time stamp\<close>
fun bureau_op_ok :: "bureau_op \<Rightarrow> bool" where
  "bureau_op_ok (Submit request jobs sub t origin) \<longleftrightarrow> list_all job_ok jobs \<and> request_ok request \<and> nonblank t"
| "bureau_op_ok (Retry i job t) \<longleftrightarrow> job_ok job \<and> nonblank t"
| "bureau_op_ok (Start job t) \<longleftrightarrow> owner_name_ok (jr_agent_name job) \<and> nonblank t"
| "bureau_op_ok (Finish job decision t deliver reply) \<longleftrightarrow> owner_name_ok (jr_agent_name job) \<and> nonblank t"

definition FINISHED_MESSAGE_STATES :: "message_state list" where
  "FINISHED_MESSAGE_STATES = [MSG_COMPLETED, MSG_INCOMPLETE, MSG_FAILED, MSG_CANCELLED]"

abbreviation current_attempts :: "'z bureau_state_scheme \<Rightarrow> string \<Rightarrow> attempt_record list" where
  "current_attempts s i \<equiv> latest_by att_attempt_id (filter (\<lambda>r. att_message_id r = i) (bs_attempts s))"

text \<open>No message is reported finished while an attempt of it is active\<close>
definition settled_messages :: "'z bureau_state_scheme \<Rightarrow> bool" where
  "settled_messages s \<longleftrightarrow> (\<forall>i m. latest_message s i = Some m \<longrightarrow> msg_message_state m \<in> set FINISHED_MESSAGE_STATES \<longrightarrow>
     active_attempts (current_attempts s i) = [])"

lemma settled_messages_iff:
  "settled_messages s \<longleftrightarrow> (\<forall>i st. map_option msg_message_state (latest_message s i) = Some st \<longrightarrow>
     st \<in> set FINISHED_MESSAGE_STATES \<longrightarrow> active_attempts (current_attempts s i) = [])"
  by (auto simp: settled_messages_def)

lemma derived_finished:
  "derived_state s i \<in> set FINISHED_MESSAGE_STATES \<Longrightarrow> active_attempts (current_attempts s i) = []"
  by (auto simp: derived_state_def next_message_state_def FINISHED_MESSAGE_STATES_def Let_def split: if_splits)

lemma settled_by_set:
  assumes "settled_messages s" "message_set s i st s'"
    and "bs_attempts s' = bs_attempts s @ rs" "\<forall>a \<in> set rs. att_message_id a = i"
    and "st \<in> set FINISHED_MESSAGE_STATES \<Longrightarrow> active_attempts (current_attempts s' i) = []"
  shows "settled_messages s'"
  unfolding settled_messages_iff
proof (intro allI impI)
  fix j q
  assume q: "map_option msg_message_state (latest_message s' j) = Some q" "q \<in> set FINISHED_MESSAGE_STATES"
  show "active_attempts (current_attempts s' j) = []"
  proof (cases "j = i")
    case True
    then have "map_option (\<lambda>_. st) (latest_message s i) = Some q"
      using q(1) spec [OF assms(2) [unfolded message_set_def], of i] by simp
    then have "q = st" by auto
    with True q(2) assms(5) show ?thesis by simp
  next
    case False
    then have "filter (\<lambda>r. att_message_id r = j) rs = []" using assms(4) by (auto simp: filter_empty_conv)
    then have "current_attempts s' j = current_attempts s j" by (simp add: assms(3))
    moreover have "map_option msg_message_state (latest_message s j) = Some q"
      using False q(1) spec [OF assms(2) [unfolded message_set_def], of j] by simp
    ultimately show ?thesis using assms(1) q(2) by (simp add: settled_messages_iff)
  qed
qed

lemma settled_by_submission:
  assumes "settled_messages s" "bs_messages s' = bs_messages s @ [m]" "msg_message_state m = MSG_QUEUED"
    and "bs_attempts s' = bs_attempts s @ rs" "\<forall>a \<in> set rs. att_message_id a = msg_message_id m"
  shows "settled_messages s'"
  unfolding settled_messages_iff
proof (intro allI impI)
  fix j q
  assume q: "map_option msg_message_state (latest_message s' j) = Some q" "q \<in> set FINISHED_MESSAGE_STATES"
  then have j: "j \<noteq> msg_message_id m" using assms(2,3) by (auto simp: FINISHED_MESSAGE_STATES_def)
  then have "filter (\<lambda>r. att_message_id r = j) rs = []" using assms(5) by (auto simp: filter_empty_conv)
  moreover have "map_option msg_message_state (latest_message s j) = Some q" using q(1) j assms(2) by simp
  ultimately show "active_attempts (current_attempts s' j) = []"
    using assms(1,4) q(2) by (simp add: settled_messages_iff)
qed

text \<open>Every attempt and every reply belongs to a message on record\<close>
definition rows_linked :: "'z bureau_state_scheme \<Rightarrow> bool" where
  "rows_linked s \<longleftrightarrow> att_message_id ` set (bs_attempts s) \<union> rep_message_id ` set (bs_replies s) \<subseteq>
     msg_message_id ` set (bs_messages s)"

lemma message_set_ids:
  assumes "message_set s i st s'"
  shows "msg_message_id ` set (bs_messages s') = msg_message_id ` set (bs_messages s)"
proof -
  have e: "latest_message s' j = None \<longleftrightarrow> latest_message s j = None" for j
    using spec [OF assms [unfolded message_set_def], of j]
    by (cases "latest_message s j"; cases "latest_message s' j") (auto split: if_splits)
  have n: "latest_message q j = None \<longleftrightarrow> j \<notin> msg_message_id ` set (bs_messages q)" for j and q :: "'a bureau_state_scheme"
    by (auto simp: find_last_in_None)
  have "j \<in> msg_message_id ` set (bs_messages s') \<longleftrightarrow> j \<in> msg_message_id ` set (bs_messages s)" for j
    using e [of j] unfolding n by argo
  then show ?thesis by (rule set_eqI)
qed

lemma linked_by_set:
  assumes "rows_linked s" "message_set s i st s'" "bs_attempts s' = bs_attempts s @ rs" "bs_replies s' = bs_replies s @ qs"
    "att_message_id ` set rs \<union> rep_message_id ` set qs \<subseteq> msg_message_id ` set (bs_messages s)"
  shows "rows_linked s'"
  using assms(1,3-5) by (auto simp: rows_linked_def message_set_ids [OF assms(2)])

lemma attempt_message_linked:
  "rows_linked s \<Longrightarrow> bureau_ok s \<Longrightarrow> attempt_of_job s j = Some a \<Longrightarrow> att_message_id a \<in> msg_message_id ` set (bs_messages s)"
  using attempt_of_job_valid [of s j a] by (auto simp: rows_linked_def)

text \<open>A state on which an operation has run, or on which it has changed nothing\<close>
definition keeps :: "'z bureau_state_scheme \<Rightarrow> string option result \<Rightarrow> 'z bureau_state_scheme \<Rightarrow> bool" where
  "keeps s r s' \<longleftrightarrow> bureau_ok s' \<and> (settled_messages s \<longrightarrow> settled_messages s') \<and>
     (rows_linked s \<longrightarrow> rows_linked s') \<and> (isl r \<longrightarrow> s' = s)"

lemma submit_keeps:
  assumes "bureau_ok s" "bureau_op_ok (Submit request jobs sub t origin)"
  shows "case_prod (keeps s) (bureau_exec (Submit request jobs sub t origin) s)"
proof (cases "jobs = []")
  case True
  then show ?thesis using assms(1) by (simp add: record_submission_def keeps_def)
next
  case False
  from assms(2) have job: "list_all job_ok jobs" "request_ok request" "nonblank t" by simp_all
  obtain s' m ats evs where r: "record_submission request jobs sub t origin s = (Inr (Some (msg_message_id m)), s')"
    "bureau_ok s'" "bs_messages s' = bs_messages s @ [m]" "msg_message_state m = MSG_QUEUED"
    "bs_attempts s' = bs_attempts s @ ats" "submitted (msg_message_id m) jobs ats evs" "bs_replies s' = bs_replies s"
    using record_submission_run [OF assms(1) False job, of sub origin] by blast
  have "settled_messages s \<longrightarrow> settled_messages s'"
    using settled_by_submission [OF _ r(3,4,5)] r(6) by (auto simp: submitted_def list_all_iff)
  moreover have "rows_linked s \<longrightarrow> rows_linked s'"
    using r(3,5-7) by (auto simp: rows_linked_def submitted_def list_all_iff)
  ultimately show ?thesis using r(1,2) by (simp add: keeps_def)
qed

lemma retry_keeps:
  assumes "bureau_ok s" "bureau_op_ok (Retry i job t)"
  shows "case_prod (keeps s) (bureau_exec (Retry i job t) s)"
proof (cases "latest_message s i")
  case None
  then show ?thesis using assms(1) by (simp add: record_retry_attempt_def bureau_run keeps_def)
next
  case (Some m)
  from assms(2) have job: "job_ok job" "nonblank t" by simp_all
  obtain s' at' where r: "record_retry_attempt i job t s = (Inr (att_attempt_id at'), s')" "bureau_ok s'"
    "bs_attempts s' = bs_attempts s @ [at']" "message_set s i MSG_QUEUED s'" "att_message_id at' = i"
    "bs_replies s' = bs_replies s @ []"
    by (rule record_retry_attempt_run [OF assms(1) job Some]) (metis append_Nil2 new_attempt_def attempt_record.select_convs(2))
  have "settled_messages s \<longrightarrow> settled_messages s'"
    using settled_by_set [OF _ r(4,3)] r(5) by (simp add: FINISHED_MESSAGE_STATES_def)
  moreover have "rows_linked s \<longrightarrow> rows_linked s'"
    using linked_by_set [OF _ r(4,3,6)] r(5) find_last_in_Some [OF Some] imageI [of m "set (bs_messages s)" msg_message_id]
    by simp
  ultimately show ?thesis using r(1,2) by (simp add: keeps_def)
qed

lemma start_keeps:
  assumes "bureau_ok s" "bureau_op_ok (Start job t)"
  shows "case_prod (keeps s) (bureau_exec (Start job t) s)"
proof (cases "attempt_of_job s (jr_job_id job)")
  case None
  then show ?thesis using assms(1) by (simp add: mark_attempt_started_def bureau_run keeps_def)
next
  case (Some attempt)
  from assms(2) have job: "owner_name_ok (jr_agent_name job)" "nonblank t" by simp_all
  obtain s' where r: "mark_attempt_started job t s = (Inr (), s')" "bureau_ok s'"
    "bs_attempts s' = bs_attempts s @ [started_attempt attempt t]" "message_set s (att_message_id attempt) MSG_RUNNING s'"
    "bs_replies s' = bs_replies s @ []"
    by (rule mark_attempt_started_run [OF assms(1) job Some]) simp
  have "settled_messages s \<longrightarrow> settled_messages s'"
    using settled_by_set [OF _ r(4,3)] by (simp add: FINISHED_MESSAGE_STATES_def started_attempt_def)
  moreover have "rows_linked s \<longrightarrow> rows_linked s'"
    using linked_by_set [OF _ r(4,3,5)] attempt_message_linked [OF _ assms(1) Some] by (simp add: started_attempt_def)
  ultimately show ?thesis using r(1,2) by (simp add: keeps_def)
qed

lemma finish_keeps:
  assumes "bureau_ok s" "bureau_op_ok (Finish job decision t deliver reply)"
  shows "case_prod (keeps s) (bureau_exec (Finish job decision t deliver reply) s)"
proof (cases "attempt_of_job s (jr_job_id job)")
  case None
  then show ?thesis
    using assms(1) by (simp add: record_terminal_def record_attempt_terminal_def record_reply_def bureau_run keeps_def)
next
  case (Some attempt)
  from assms(2) have job: "owner_name_ok (jr_agent_name job)" "nonblank t" by simp_all
  obtain s' i where r: "record_terminal job decision t deliver reply s = (Inr (if reply then Some i else None), s')" "bureau_ok s'"
    "bs_attempts s' = bs_attempts s @ [settled_attempt attempt (jr_status job) t]"
    "message_set s (att_message_id attempt) (derived_state s' (att_message_id attempt)) s'"
    "bs_replies s' = bs_replies s @ (if reply then [new_reply i attempt job decision t] else [])"
    by (rule record_terminal_run [OF assms(1) job Some]) blast
  have "settled_messages s \<longrightarrow> settled_messages s'"
    using settled_by_set [OF _ r(4,3)] derived_finished [of s' "att_message_id attempt"] by (simp add: settled_attempt_def)
  moreover have "rows_linked s \<longrightarrow> rows_linked s'"
    using linked_by_set [OF _ r(4,3,5)] attempt_message_linked [OF _ assms(1) Some]
    by (cases reply) (simp_all add: settled_attempt_def new_reply_def)
  ultimately show ?thesis using r(1,2) by (simp add: keeps_def)
qed

lemma bureau_exec_keeps:
  assumes "bureau_ok s" "bureau_op_ok x"
  shows "case_prod (keeps s) (bureau_exec x s)"
  using assms submit_keeps retry_keeps start_keeps finish_keeps by (cases x) (simp_all only:)

definition empty_bureau :: "(nat \<Rightarrow> string) \<Rightarrow> string list \<Rightarrow> (nat \<Rightarrow> string) \<Rightarrow> bureau_state" where
  "empty_bureau clk known ids = \<lparr>ks_mailboxes = (\<lambda>_. None), ks_inboxes = (\<lambda>_. []), ks_leases = (\<lambda>_. None),
     ks_clock = clk, ks_tick = 0, bs_messages = [], bs_attempts = [], bs_replies = [], bs_edges = [],
     bs_known_mailboxes = known, bs_ids = ids, bs_next_id = 0\<rparr>"

inductive bureau_reachable :: "bureau_state \<Rightarrow> bool" where
  bureau_init: "inj ids \<Longrightarrow> (\<And>n. plain_id (ids n)) \<Longrightarrow> bureau_reachable (empty_bureau clk known ids)"
| bureau_step: "bureau_reachable s \<Longrightarrow> bureau_op_ok x \<Longrightarrow> bureau_reachable (snd (bureau_exec x s))"

lemma empty_bureau_ok: "inj ids \<Longrightarrow> (\<And>n. plain_id (ids n)) \<Longrightarrow> bureau_ok (empty_bureau clk known ids)"
  by (simp add: bureau_ok_def rows_ok_def ids_ok_def empty_bureau_def mailbox_inv_def mailbox_wf_def lease_inv_def
      summary_inv_def pend_eq lease_active_event_id_def)

lemma bureau_reachable_ok: "bureau_reachable s \<Longrightarrow> bureau_ok s \<and> settled_messages s \<and> rows_linked s"
proof (induction rule: bureau_reachable.induct)
  case (bureau_init ids clk known)
  then show ?case using empty_bureau_ok [of ids clk known] by (simp add: settled_messages_def rows_linked_def empty_bureau_def)
next
  case (bureau_step s x)
  then show ?case using bureau_exec_keeps [of s x] by (auto simp: keeps_def split: prod.splits)
qed

section \<open>A question and its answer\<close>

text \<open>A job that does not itself deliver a reply\<close>
definition ordinary_job :: "job_record \<Rightarrow> bool" where
  "ordinary_job job \<longleftrightarrow> py_lower (py_strip (me_message_type (jr_request job))) \<noteq> ''reply_delivery'' \<and>
     \<not> py_truthy (jget (jr_provider_options job) ''reply_delivery'')"

lemma ordinary_start_event: "ordinary_job job \<Longrightarrow> start_event s job i = attempt_event s (jr_agent_name job) i"
  by (simp add: start_event_def ordinary_job_def Let_def)

lemma submit_one_run:
  assumes ok: "bureau_ok s" and job: "job_ok job" and req: "request_ok request" and nb: "nonblank t"
  obtains s' m at' ev where "record_submission request [job] sub t origin s = (Inr (Some (msg_message_id m)), s')" "bureau_ok s'"
    "msg_message_id m \<notin> msg_message_id ` set (bs_messages s)" "bs_messages s' = bs_messages s @ [m]" "msg_message_state m = MSG_QUEUED"
    "bs_attempts s' = bs_attempts s @ [at']" "bs_replies s' = bs_replies s" "bs_known_mailboxes s' = bs_known_mailboxes s"
    "att_job_id at' = jr_job_id job" "att_message_id at' = msg_message_id m" "att_agent_name at' = jr_agent_name job"
    "att_attempt_state at' = ATT_PENDING" "\<And>b. pend s' b = pend s b @ (if b = jr_agent_name job then [ev] else [])"
    "ks_inboxes s' (jr_agent_name job) = ks_inboxes s (jr_agent_name job) @ [ev]"
    "ev_payload_ref ev = Some (''job:'' @ jr_job_id job)" "ev_attempt_id ev = Some (att_attempt_id at')"
    "ev_event_type ev = TASK_REQUEST" "ev_status ev = IE_QUEUED" "ks_clock s' = ks_clock s" "ev_message_id ev = msg_message_id m"
proof -
  obtain s' m ats evs where r: "record_submission request [job] sub t origin s = (Inr (Some (msg_message_id m)), s')"
    "bureau_ok s'" "bs_messages s' = bs_messages s @ [m]" "msg_message_id m \<notin> msg_message_id ` set (bs_messages s)"
    "msg_message_state m = MSG_QUEUED" "bs_attempts s' = bs_attempts s @ ats" "bs_replies s' = bs_replies s"
    "\<forall>b. pend s' b = pend s b @ evs b \<and> ks_inboxes s' b = ks_inboxes s b @ evs b"
    "submitted (msg_message_id m) [job] ats evs" "bs_known_mailboxes s' = bs_known_mailboxes s" "ks_clock s' = ks_clock s"
    using record_submission_run [OF ok _ _ req nb, of "[job]" sub origin] job by auto
  from r(9) obtain at' where at': "ats = [at']" "att_job_id at' = jr_job_id job" "att_agent_name at' = jr_agent_name job"
    "att_message_id at' = msg_message_id m" "att_attempt_state at' = ATT_PENDING"
    by (auto simp: submitted_def)
  have at_box: "map ev_payload_ref (evs b) = map (\<lambda>j. Some (''job:'' @ jr_job_id j)) (filter (\<lambda>j. jr_agent_name j = b) [job])"
    "map ev_attempt_id (evs b) = map (Some \<circ> att_attempt_id) (filter (\<lambda>a. att_agent_name a = b) ats)"
    "list_all (\<lambda>e. ev_event_type e = TASK_REQUEST \<and> ev_message_id e = msg_message_id m \<and> ev_status e = IE_QUEUED) (evs b)" for b
    using r(9) unfolding submitted_def by blast+
  obtain ev where ev: "evs (jr_agent_name job) = [ev]" "ev_payload_ref ev = Some (''job:'' @ jr_job_id job)"
    "ev_attempt_id ev = Some (att_attempt_id at')" "ev_event_type ev = TASK_REQUEST" "ev_status ev = IE_QUEUED"
    "ev_message_id ev = msg_message_id m"
    using at_box [of "jr_agent_name job"] at'(1,3) by auto
  have "evs b = (if b = jr_agent_name job then [ev] else [])" for b
    using at_box(1) [of b] ev(1) by (cases "b = jr_agent_name job") auto
  with r at' ev show thesis by (intro that [of m s' at' ev]) simp_all
qed

lemma latest_by_one_key: "\<forall>x \<in> set xs. key x = k \<Longrightarrow> latest_by key xs = (if xs = [] then [] else [last xs])"
  by (induction xs rule: rev_induct) (auto simp: latest_by_snoc)

lemma answered_state:
  assumes "filter (\<lambda>r. att_message_id r = i) (bs_attempts s) = [a, started_attempt a t1, settled_attempt (started_attempt a t1) st t2]"
    and "filter (\<lambda>r. rep_message_id r = i) (bs_replies s) = [new_reply j a' (job\<lparr>jr_status := st\<rparr>) decision t2]"
    and "st \<in> {JS_COMPLETED, JS_FAILED, JS_INCOMPLETE, JS_CANCELLED}"
  shows "message_state_value (derived_state s i) = job_status_value st"
proof -
  have "att_attempt_id (started_attempt a t1) = att_attempt_id a"
    "att_attempt_id (settled_attempt (started_attempt a t1) st t2) = att_attempt_id a"
    by (simp_all add: started_attempt_def settled_attempt_def)
  then have "latest_by att_attempt_id [a, started_attempt a t1, settled_attempt (started_attempt a t1) st t2] =
      [settled_attempt (started_attempt a t1) st t2]"
    by (simp add: latest_by_one_key [of _ _ "att_attempt_id a"])
  with assms show ?thesis
    by (auto simp: derived_state_def next_message_state_def active_attempts_def settled_attempt_def attempt_state_for_status_def
        TERMINAL_ATTEMPT_STATES_def terminal_replies_def new_reply_def reply_status_for_job_def reply_terminal_state_def
        reply_diagnostics_def)
qed

lemma fresh_message_rows:
  assumes "rows_linked s" "i \<notin> msg_message_id ` set (bs_messages s)"
  shows "filter (\<lambda>r. att_message_id r = i) (bs_attempts s) = []" "filter (\<lambda>r. rep_message_id r = i) (bs_replies s) = []"
  using assms by (auto simp: rows_linked_def filter_empty_conv)

text \<open>Submitting to an idle agent and starting the attempt\<close>
lemma ask_started_run:
  assumes ok: "bureau_ok s" and job: "job_ok job" "ordinary_job job" "request_ok (jr_request job)"
    and nb: "nonblank t0" "nonblank t1" and idle: "pend s (jr_agent_name job) = []"
  obtains s1 m at' ev s2 where
    "record_submission (jr_request job) [job] sub t0 None s = (Inr (Some (msg_message_id (m :: message_record))), s1)"
    "claimable_request_job_ids (jr_agent_name job) s1 = (Inr [jr_job_id job], s1)"
    "mark_attempt_started job t1 s1 = (Inr (), s2)" "bureau_ok s2"
    "msg_message_id m \<notin> msg_message_id ` set (bs_messages s)" "att_message_id at' = msg_message_id m" "att_job_id at' = jr_job_id job"
    "bs_attempts s2 = bs_attempts s @ [at', started_attempt at' t1]" "bs_replies s2 = bs_replies s"
    "bs_known_mailboxes s2 = bs_known_mailboxes s" "pend s2 (jr_agent_name job) = [delivered ev t1]"
    "\<And>b. b \<noteq> jr_agent_name job \<Longrightarrow> pend s2 b = pend s b" "ev_attempt_id ev = Some (att_attempt_id at')"
    "attempt_event s2 (jr_agent_name job) (att_attempt_id at') = Some (delivered ev t1)"
    "map_option msg_message_state (latest_message s2 (msg_message_id m)) = Some MSG_RUNNING"
proof -
  let ?a = "jr_agent_name job"
  have a: "owner_name_ok ?a" and jid: "stripped (jr_job_id job)" "jr_job_id job \<noteq> []" using job(1) by (simp_all add: job_ok_def)
  obtain s1 m at' ev where p1: "record_submission (jr_request job) [job] sub t0 None s = (Inr (Some (msg_message_id m)), s1)"
    "bureau_ok s1" "msg_message_id m \<notin> msg_message_id ` set (bs_messages s)" "bs_messages s1 = bs_messages s @ [m]"
    "msg_message_state m = MSG_QUEUED" "bs_attempts s1 = bs_attempts s @ [at']" "bs_replies s1 = bs_replies s"
    "bs_known_mailboxes s1 = bs_known_mailboxes s" "att_job_id at' = jr_job_id job" "att_message_id at' = msg_message_id m"
    "\<And>b. pend s1 b = pend s b @ (if b = ?a then [ev] else [])" "ks_inboxes s1 ?a = ks_inboxes s ?a @ [ev]"
    "ev_payload_ref ev = Some (''job:'' @ jr_job_id job)" "ev_attempt_id ev = Some (att_attempt_id at')"
    "ev_event_type ev = TASK_REQUEST" "ev_status ev = IE_QUEUED"
    by (rule submit_one_run [OF ok job(1,3) nb(1)]) blast
  have q1: "pend s1 ?a = [ev]" "claimable ev" "\<not> event_terminal ev"
    using p1(11) [of ?a] idle p1(16) by (simp_all add: claimable_def CLAIMABLE_EVENT_STATES_def TERMINAL_EVENT_STATES_def)
  have claimable: "claimable_request_job_ids ?a s1 = (Inr [jr_job_id job], s1)"
    using q1 p1(13,15) job_ref_roundtrip [OF jid] by (simp add: claimable_request_job_ids_def peek_next_run [OF a])
  have at1: "attempt_of_job s1 (jr_job_id job) = Some at'" using p1(6,9) by simp
  have e1: "start_event s1 job (att_attempt_id at') = Some ev"
    using p1(12,14) by (simp add: ordinary_start_event [OF job(2)] str_or_empty_def)
  obtain s2 where p2: "mark_attempt_started job t1 s1 = (Inr (), s2)" "bureau_ok s2"
    "bs_attempts s2 = bs_attempts s1 @ [started_attempt at' t1]" "bs_replies s2 = bs_replies s1"
    "pend s2 ?a = started_queue s1 job (att_attempt_id at') t1"
    "\<And>b. b \<noteq> ?a \<Longrightarrow> pend s2 b = pend s1 b" "message_set s1 (att_message_id at') MSG_RUNNING s2"
    "ks_inboxes s2 ?a = ks_inboxes s1 ?a @ [delivered ev t1]" "bs_known_mailboxes s2 = bs_known_mailboxes s1"
    by (rule mark_attempt_started_run [OF p1(2) a nb(2) at1]) (use e1 q1 in simp)
  have q2: "pend s2 ?a = [delivered ev t1]"
    using p2(5) e1 q1 p1(16) by (simp add: started_queue_def q_claim_def)
  have m1: "latest_message s1 (msg_message_id m) = Some m" using p1(4) by simp
  have m2: "map_option msg_message_state (latest_message s2 (msg_message_id m)) = Some MSG_RUNNING"
    using spec [OF p2(7) [unfolded message_set_def], of "msg_message_id m"] m1 p1(10) by simp
  have "attempt_event s2 ?a (att_attempt_id at') = Some (delivered ev t1)"
    using p2(8) p1(14) by (simp add: delivered_def str_or_empty_def)
  with p1 claimable p2 q2 m2 show thesis by (intro that [of m s1 s2 at' ev]) simp_all
qed

section \<open>A bureau to evaluate on\<close>

definition demo_ids :: "nat \<Rightarrow> string" where
  "demo_ids n = replicate (Suc n) CHR ''a''"

definition ask_request :: message_envelope where
  "ask_request = \<lparr>me_project_id = ''p1'', me_to_agent = ''agent1'', me_from_actor = ''agent2'', me_body = ''hello'',
     me_task_id = None, me_reply_to = None, me_message_type = ''ask'', me_delivery_scope = DS_SINGLE,
     me_silence_on_success = False, me_route_options = [], me_body_artifact = None\<rparr>"

definition ask_job :: "string \<Rightarrow> string \<Rightarrow> job_record" where
  "ask_job i a = \<lparr>jr_job_id = i, jr_submission_id = None, jr_agent_name = a, jr_provider = ''codex'',
     jr_request = ask_request, jr_status = JS_QUEUED, jr_terminal_decision = None, jr_cancel_requested_at = None,
     jr_created_at = ''t0'', jr_updated_at = ''t0'', jr_workspace_path = None, jr_target_kind = TK_AGENT,
     jr_target_name = a, jr_provider_instance = None, jr_provider_options = []\<rparr>"

definition bureau0 :: bureau_state where
  "bureau0 = empty_bureau demo_clock [''agent1'', ''agent2''] demo_ids"

definition demo_decision :: completion_decision where
  "demo_decision = \<lparr>de_terminal = True, de_status = CS_COMPLETED, de_reason = Some ''task_complete'', de_confidence = Some CC_EXACT,
     de_reply = ''done'', de_anchor_seen = True, de_reply_started = True, de_reply_stable = True, de_provider_turn_ref = None,
     de_source_cursor = None, de_finished_at = Some ''t2'', de_diagnostics = []\<rparr>"

lemma demo_ids_ok: "inj demo_ids" "plain_id (demo_ids n)"
  by (simp_all add: inj_def demo_ids_def replicate_eq_replicate plain_id_def no_space_def py_isspace_def list_all_iff del: replicate_Suc)

lemma bureau0_reachable: "bureau_reachable bureau0"
  unfolding bureau0_def by (intro bureau_init demo_ids_ok)

lemma ask_job_ok: "job_ok (ask_job ''job_1'' ''agent1'')" "ordinary_job (ask_job ''job_1'' ''agent1'')" "request_ok ask_request"
  by (code_simp, code_simp, code_simp)

section \<open>Properties of the message bureau\<close>

text \<open>
  C9. A question is answered. An agent whose mailbox is empty is asked by an actor that owns a mailbox: the
  request is queued and is the one job its agent may claim; starting the attempt puts it under delivery and
  the message in progress; finishing it, with whatever terminal status, empties the agent's mailbox, files the
  reply, appends to the caller's mailbox one reply event that refers to it, and leaves the message with
  the state of that name. None of the steps raises.
\<close>
theorem ask_is_answered:
  assumes "bureau_reachable s" "job_ok job" "ordinary_job job" "request_ok (jr_request job)"
    and "nonblank t0" "nonblank t1" "nonblank t2" "pend s (jr_agent_name job) = []"
    and "normalize_mailbox_target (Some (me_from_actor (jr_request job))) (bs_known_mailboxes s) = Some c"
    and "c \<noteq> jr_agent_name job" "st \<in> {JS_COMPLETED, JS_FAILED, JS_INCOMPLETE, JS_CANCELLED}"
  shows "\<exists>mid rid e reply s1 s2 s3.
    record_submission (jr_request job) [job] sub t0 None s = (Inr (Some mid), s1) \<and>
    claimable_request_job_ids (jr_agent_name job) s1 = (Inr [jr_job_id job], s1) \<and>
    mark_attempt_started job t1 s1 = (Inr (), s2) \<and> map ev_status (pend s2 (jr_agent_name job)) = [IE_DELIVERING] \<and>
    map_option msg_message_state (latest_message s2 mid) = Some MSG_RUNNING \<and>
    record_terminal (job\<lparr>jr_status := st\<rparr>) decision t2 True True s2 = (Inr (Some rid), s3) \<and>
    pend s3 (jr_agent_name job) = [] \<and> pend s3 c = pend s c @ [e] \<and> ev_event_type e = TASK_REPLY \<and>
    reply_id_from_payload (ev_payload_ref e) = Some rid \<and> bs_replies s3 = bs_replies s @ [reply] \<and>
    rep_reply_id reply = rid \<and> rep_message_id reply = mid \<and>
    rep_reply reply = delivered_reply_text (job\<lparr>jr_status := st\<rparr>) decision \<and>
    map_option (message_state_value \<circ> msg_message_state) (latest_message s3 mid) = Some (job_status_value st)"
proof -
  let ?a = "jr_agent_name job" and ?job = "job\<lparr>jr_status := st\<rparr>"
  have ok: "bureau_ok s" and linked: "rows_linked s" using bureau_reachable_ok [OF assms(1)] by simp_all
  have a: "owner_name_ok ?a" using assms(2) by (simp add: job_ok_def)
  obtain s1 s2 at' ev and m :: message_record
    where p: "record_submission (jr_request job) [job] sub t0 None s = (Inr (Some (msg_message_id m)), s1)"
    "claimable_request_job_ids ?a s1 = (Inr [jr_job_id job], s1)" "mark_attempt_started job t1 s1 = (Inr (), s2)" "bureau_ok s2"
    "msg_message_id m \<notin> msg_message_id ` set (bs_messages s)" "att_message_id at' = msg_message_id m" "att_job_id at' = jr_job_id job"
    "bs_attempts s2 = bs_attempts s @ [at', started_attempt at' t1]" "bs_replies s2 = bs_replies s"
    "bs_known_mailboxes s2 = bs_known_mailboxes s" "pend s2 ?a = [delivered ev t1]"
    "\<And>b. b \<noteq> ?a \<Longrightarrow> pend s2 b = pend s b" "ev_attempt_id ev = Some (att_attempt_id at')"
    "attempt_event s2 ?a (att_attempt_id at') = Some (delivered ev t1)"
    "map_option msg_message_state (latest_message s2 (msg_message_id m)) = Some MSG_RUNNING"
    by (rule ask_started_run [OF ok assms(2-6,8)]) blast
  have ids: "att_message_id (started_attempt at' t1) = msg_message_id m" "att_attempt_id (started_attempt at' t1) = att_attempt_id at'"
    "att_job_id (started_attempt at' t1) = jr_job_id job" by (simp_all add: started_attempt_def p(6,7))
  have at2: "attempt_of_job s2 (jr_job_id ?job) = Some (started_attempt at' t1)"
    using p(7,8) find_last_in_snoc [of _ "bs_attempts s @ [at']" "started_attempt at' t1"] by (simp add: ids)
  obtain s3 i e where p3: "record_terminal ?job decision t2 True True s2 = (Inr (Some i), s3)" "bureau_ok s3"
    "bs_attempts s3 = bs_attempts s2 @ [settled_attempt (started_attempt at' t1) st t2]"
    "bs_replies s3 = bs_replies s2 @ [new_reply i (started_attempt at' t1) ?job decision t2]"
    "message_set s2 (msg_message_id m) (derived_state s3 (msg_message_id m)) s3"
    "\<And>b. pend s3 b = (if b = ?a then without_attempt s2 b (att_attempt_id at') else pend s2 b) @
       (if reply_target s2 ?job True = Some b then [new_reply_event e b (msg_message_id m) (att_attempt_id at') i t2] else [])"
    "plain_id i"
    by (rule record_terminal_run [OF p(4) _ assms(7) at2, of decision True True]) (use a in \<open>auto simp: ids cong: if_cong\<close>)
  have target: "reply_target s2 ?job True = Some c" using assms(9) p(10) by (simp add: reply_target_def)
  have "without_attempt s2 ?a (att_attempt_id at') = []"
    using p(11,14) by (simp add: without_attempt_def delivered_def TERMINAL_EVENT_STATES_def q_remove_def)
  then have q3: "pend s3 ?a = []" "pend s3 c = pend s c @ [new_reply_event e c (msg_message_id m) (att_attempt_id at') i t2]"
    using p3(6) target assms(10) p(12) by simp_all
  have d: "message_state_value (derived_state s3 (msg_message_id m)) = job_status_value st"
    using fresh_message_rows [OF linked p(5)] assms(11) p(6,8,9) p3(3,4)
    by (intro answered_state [of _ s3 at' t1 st t2 i "started_attempt at' t1" job decision])
      (auto simp: settled_attempt_def started_attempt_def new_reply_def)
  have m3: "map_option msg_message_state (latest_message s3 (msg_message_id m)) = Some (derived_state s3 (msg_message_id m))"
    using spec [OF p3(5) [unfolded message_set_def], of "msg_message_id m"] p(15) by auto
  show ?thesis
  proof (intro exI conjI)
    show "reply_id_from_payload (ev_payload_ref (new_reply_event e c (msg_message_id m) (att_attempt_id at') i t2)) = Some i"
      using reply_ref_roundtrip(1) [OF p3(7)] by (simp add: new_reply_event_def)
    show "map_option (message_state_value \<circ> msg_message_state) (latest_message s3 (msg_message_id m)) = Some (job_status_value st)"
      using m3 d by (auto simp: option.map_comp [symmetric] simp del: option.map_comp)
    show "bs_replies s3 = bs_replies s @ [new_reply i (started_attempt at' t1) ?job decision t2]"
      using p3(4) p(9) by simp
    show "map ev_status (pend s2 ?a) = [IE_DELIVERING]" using p(11) by (simp add: delivered_def)
  qed (use p(1,2,3,15) p3(1) q3 in \<open>simp_all add: new_reply_event_def new_reply_def started_attempt_def p(6)\<close>)
qed

theorem ask_is_answered_witness:
  "\<exists>mid rid e reply s1 s2 s3.
    record_submission ask_request [ask_job ''job_1'' ''agent1''] None ''t0'' None bureau0 = (Inr (Some mid), s1) \<and>
    mark_attempt_started (ask_job ''job_1'' ''agent1'') ''t1'' s1 = (Inr (), s2) \<and>
    record_terminal ((ask_job ''job_1'' ''agent1'')\<lparr>jr_status := JS_COMPLETED\<rparr>) demo_decision ''t2'' True True s2 = (Inr (Some rid), s3) \<and>
    pend s3 ''agent2'' = [e] \<and> reply_id_from_payload (ev_payload_ref e) = Some rid \<and> bs_replies s3 = [reply] \<and>
    rep_reply reply = ''done'' \<and>
    map_option (message_state_value \<circ> msg_message_state) (latest_message s3 mid) = Some ''completed''"
proof -
  have job: "jr_request (ask_job ''job_1'' ''agent1'') = ask_request" "jr_agent_name (ask_job ''job_1'' ''agent1'') = ''agent1''"
    by (simp_all add: ask_job_def)
  have rows: "pend bureau0 b = []" "bs_replies bureau0 = []" for b by (simp_all add: bureau0_def empty_bureau_def pend_eq)
  have "nonblank ''t0''" "nonblank ''t1''" "nonblank ''t2''" by (code_simp, code_simp, code_simp)
  moreover have "normalize_mailbox_target (Some (me_from_actor (jr_request (ask_job ''job_1'' ''agent1''))))
      (bs_known_mailboxes bureau0) = Some ''agent2''" by code_simp
  moreover have "delivered_reply_text ((ask_job ''job_1'' ''agent1'')\<lparr>jr_status := JS_COMPLETED\<rparr>) demo_decision = ''done''"
    by code_simp
  ultimately show ?thesis
    using ask_is_answered [OF bureau0_reachable ask_job_ok(1,2), of "''t0''" "''t1''" "''t2''" "''agent2''" JS_COMPLETED None demo_decision]
      ask_job_ok(3) rows by (auto simp: job)
qed

text \<open>
  C11. The invariant of the bureau. In every state reachable from the empty stores by submissions, retries,
  starts and terminal records, every mailbox satisfies the kernel's invariant (its log, lease and summary
  agree), every stored row passes the checks of its constructor, and every attempt and reply belongs to a
  message on record.
\<close>
theorem bureau_invariant:
  assumes "bureau_reachable s"
  shows "(owner_name_ok a \<longrightarrow> mailbox_inv s a) \<and> rows_ok s \<and>
    att_message_id ` set (bs_attempts s) \<union> rep_message_id ` set (bs_replies s) \<subseteq> msg_message_id ` set (bs_messages s)"
  using bureau_reachable_ok [OF assms] by (simp add: bureau_ok_def rows_linked_def)

definition bureau1 :: bureau_state where
  "bureau1 = snd (bureau_exec (Submit ask_request [ask_job ''job_1'' ''agent1''] None ''t0'' None) bureau0)"

lemma bureau1_reachable: "bureau_reachable bureau1"
  unfolding bureau1_def by (intro bureau_step bureau0_reachable) code_simp

lemma bureau1_rows: obtains a m e where "bs_attempts bureau1 = [a]" "bs_messages bureau1 = [m]" "bs_replies bureau1 = []"
  "att_message_id a = msg_message_id m" "att_job_id a = ''job_1''" "att_agent_name a = ''agent1''"
  "ks_inboxes bureau1 ''agent1'' = [e]" "ev_payload_ref e = Some ''job:job_1''" "ev_event_type e = TASK_REQUEST"
  "ev_attempt_id e = Some (att_attempt_id a)" "pend bureau1 ''agent1'' = [e]" "pend bureau1 ''agent2'' = []"
  "ev_message_id e = msg_message_id m" "att_attempt_state a = ATT_PENDING" "ks_clock bureau1 = demo_clock"
  "bs_known_mailboxes bureau1 = [''agent1'', ''agent2'']"
proof -
  have nb: "nonblank ''t0''" by code_simp
  have e: "bs_attempts bureau0 = []" "bs_messages bureau0 = []" "bs_replies bureau0 = []" "ks_inboxes bureau0 b = []"
    "pend bureau0 b = []" "ks_clock bureau0 = demo_clock" "bs_known_mailboxes bureau0 = [''agent1'', ''agent2'']" for b
    by (simp_all add: bureau0_def empty_bureau_def pend_eq)
  have j: "jr_job_id (ask_job ''job_1'' ''agent1'') = ''job_1''" "jr_agent_name (ask_job ''job_1'' ''agent1'') = ''agent1''"
    by (simp_all add: ask_job_def)
  show thesis
    by (rule submit_one_run [OF conjunct1 [OF bureau_reachable_ok [OF bureau0_reachable]] ask_job_ok(1,3) nb, of None None])
      (rule that, auto simp: bureau1_def e j)
qed

theorem bureau_invariant_witness:
  "mailbox_inv bureau1 ''agent1'' \<and> map ev_payload_ref (ks_inboxes bureau1 ''agent1'') = [Some ''job:job_1'']"
proof
  show "mailbox_inv bureau1 ''agent1''"
    using bureau_invariant [OF bureau1_reachable, of "''agent1''"] demo_owner by simp
  show "map ev_payload_ref (ks_inboxes bureau1 ''agent1'') = [Some ''job:job_1'']" by (rule bureau1_rows) simp
qed


definition bureau2 :: bureau_state where
  "bureau2 = snd (bureau_exec (Finish ((ask_job ''job_1'' ''agent1'')\<lparr>jr_status := JS_FAILED\<rparr>) demo_decision ''t2'' False False) bureau1)"

lemma bureau2_reachable: "bureau_reachable bureau2"
  unfolding bureau2_def by (intro bureau_step bureau1_reachable) code_simp

lemma bureau2_rows: obtains a m i where "bs_attempts bureau2 = [a, settled_attempt a JS_FAILED ''t2'']" "att_message_id a = i"
  "att_agent_name a = ''agent1''" "latest_message bureau2 i = Some m" "msg_message_state m = MSG_FAILED"
proof -
  let ?job = "(ask_job ''job_1'' ''agent1'')\<lparr>jr_status := JS_FAILED\<rparr>"
  obtain a m where a: "bs_attempts bureau1 = [a]" "bs_messages bureau1 = [m]" "bs_replies bureau1 = []"
    "att_message_id a = msg_message_id m" "att_job_id a = ''job_1''" "att_agent_name a = ''agent1''" by (rule bureau1_rows)
  let ?i = "msg_message_id m"
  have at: "attempt_of_job bureau1 (jr_job_id ?job) = Some a" using a(1,5) by (simp add: find_last_in_def ask_job_def)
  have nb: "nonblank ''t2''" "owner_name_ok (jr_agent_name ?job)" by (code_simp, code_simp)
  obtain s' where s': "record_terminal ?job demo_decision ''t2'' False False bureau1 = (Inr None, s')"
    "bs_attempts s' = [a, settled_attempt a JS_FAILED ''t2'']" "bs_replies s' = []"
    "message_set bureau1 ?i (derived_state s' ?i) s'"
    using record_terminal_run [OF conjunct1 [OF bureau_reachable_ok [OF bureau1_reachable]] nb(2,1) at, of demo_decision False False]
    by (auto simp: a(1,3,4))
  have "derived_state s' ?i = MSG_FAILED"
    using s'(2,3) a(4) latest_by_one_key [of "[a, settled_attempt a JS_FAILED ''t2'']" att_attempt_id "att_attempt_id a"]
    by (simp add: derived_state_def next_message_state_def active_attempts_def settled_attempt_def attempt_state_for_status_def
        TERMINAL_ATTEMPT_STATES_def terminal_replies_def attempt_terminal_state_def)
  then have "map_option msg_message_state (latest_message s' ?i) = Some MSG_FAILED"
    using spec [OF s'(4) [unfolded message_set_def], of ?i] a(2) by (simp add: find_last_in_def)
  moreover have "bureau2 = s'" by (simp add: bureau2_def s'(1))
  ultimately show thesis using that s'(2) a(4,6) by auto
qed

lemma bureau2_current:
  "bs_attempts bureau2 = [a, settled_attempt a JS_FAILED ''t2''] \<Longrightarrow>
   latest_by att_attempt_id (filter (\<lambda>r. att_message_id r = att_message_id a) (bs_attempts bureau2)) = [settled_attempt a JS_FAILED ''t2'']"
  using latest_by_one_key [of "[a, settled_attempt a JS_FAILED ''t2'']" att_attempt_id "att_attempt_id a"]
  by (simp add: settled_attempt_def)


text \<open>
  C13. A submission reaches every target once. Recording a non-empty list of jobs never raises; it adds one queued
  message that lists the targets, one pending attempt per job, and to the end of each mailbox the requests of
  that agent's jobs, in the order of the list; mailboxes that are not addressed stay as they were.
\<close>
theorem submission_fans_out:
  assumes "bureau_reachable s" "jobs \<noteq> []" "list_all job_ok jobs" "request_ok request" "nonblank t"
  shows "\<exists>m ats evs s'. record_submission request jobs sub t origin s = (Inr (Some (msg_message_id m)), s') \<and>
    bs_messages s' = bs_messages s @ [m] \<and> msg_message_id m \<notin> msg_message_id ` set (bs_messages s) \<and>
    msg_message_state m = MSG_QUEUED \<and> msg_target_agents m = map jr_agent_name jobs \<and>
    bs_attempts s' = bs_attempts s @ ats \<and> map att_job_id ats = map jr_job_id jobs \<and>
    list_all (\<lambda>a. att_message_id a = msg_message_id m \<and> att_attempt_state a = ATT_PENDING) ats \<and>
    (\<forall>b. pend s' b = pend s b @ evs b \<and>
       map ev_payload_ref (evs b) = map (\<lambda>j. Some (''job:'' @ jr_job_id j)) (filter (\<lambda>j. jr_agent_name j = b) jobs))"
  using record_submission_run [OF conjunct1 [OF bureau_reachable_ok [OF assms(1)]] assms(2-5), of sub origin]
  unfolding submitted_def by blast

theorem submission_fans_out_witness:
  "\<exists>(m :: message_record) evs s'. record_submission ask_request [ask_job ''job_2'' ''agent1'', ask_job ''job_3'' ''agent3''] None ''t3'' None bureau1 =
      (Inr (Some (msg_message_id m)), s') \<and> msg_target_agents m = [''agent1'', ''agent3''] \<and>
    pend s' ''agent1'' = pend bureau1 ''agent1'' @ evs \<and> map ev_payload_ref evs = [Some ''job:job_2'']"
proof -
  let ?jobs = "[ask_job ''job_2'' ''agent1'', ask_job ''job_3'' ''agent3'']"
  have "list_all job_ok ?jobs" by code_simp
  moreover have "nonblank ''t3''" by code_simp
  moreover have "filter (\<lambda>j. jr_agent_name j = ''agent1'') ?jobs = [ask_job ''job_2'' ''agent1'']" "map jr_agent_name ?jobs = [''agent1'', ''agent3'']"
    "jr_job_id (ask_job ''job_2'' ''agent1'') = ''job_2''"
    by (simp_all add: ask_job_def)
  moreover obtain s' evs and m :: message_record
    where "record_submission ask_request ?jobs None ''t3'' None bureau1 = (Inr (Some (msg_message_id m)), s')"
    "msg_target_agents m = map jr_agent_name ?jobs" "pend s' ''agent1'' = pend bureau1 ''agent1'' @ evs ''agent1''"
    "map ev_payload_ref (evs ''agent1'') = map (\<lambda>j. Some (''job:'' @ jr_job_id j)) (filter (\<lambda>j. jr_agent_name j = ''agent1'') ?jobs)"
    using submission_fans_out [OF bureau1_reachable list.discI [OF refl] calculation(1) ask_job_ok(3) calculation(2), of None None] by blast
  ultimately show ?thesis
    by (intro exI [of _ m] exI [of _ "evs ''agent1''"] exI [of _ s']) (simp del: filter.simps)
qed

text \<open>
  C14. Retries are numbered upwards. A retry of a message on record queues the new job at the end of its agent's
  mailbox and reopens the message; its attempt is new and its retry index is above that of every attempt the
  agent has made at this message. For a message that is not on record the operation raises and changes nothing.
\<close>
theorem retry_index_grows:
  assumes "bureau_reachable s" "job_ok job" "nonblank t"
  shows "case latest_message s i of
      None \<Rightarrow> record_retry_attempt i job t s = (Inl (ValueError (''message not found: '' @ i)), s)
    | Some m \<Rightarrow> \<exists>attempt ev s'. record_retry_attempt i job t s = (Inr (att_attempt_id attempt), s') \<and>
        bs_attempts s' = bs_attempts s @ [attempt] \<and> att_attempt_id attempt \<notin> att_attempt_id ` set (bs_attempts s) \<and>
        (\<forall>r \<in> set (bs_attempts s). att_message_id r = i \<and> att_agent_name r = jr_agent_name job \<longrightarrow>
           att_retry_index r < att_retry_index attempt) \<and>
        pend s' (jr_agent_name job) = pend s (jr_agent_name job) @ [ev] \<and>
        ev_payload_ref ev = Some (''job:'' @ jr_job_id job) \<and>
        map_option msg_message_state (latest_message s' i) = Some MSG_QUEUED"
proof (cases "latest_message s i")
  case None
  then show ?thesis by (simp add: record_retry_attempt_def bureau_run)
next
  case (Some m)
  have ok: "bureau_ok s" using bureau_reachable_ok [OF assms(1)] by simp
  obtain s' at' ev where r: "record_retry_attempt i job t s = (Inr (att_attempt_id at'), s')"
    "bs_attempts s' = bs_attempts s @ [at']" "message_set s i MSG_QUEUED s'"
    "at' = new_attempt (att_attempt_id at') i job (retry_index_of s i (jr_agent_name job)) t"
    "ev = new_request (eid ev) (att_attempt_id at') i job t" "att_attempt_id at' \<notin> att_attempt_id ` set (bs_attempts s)"
    "pend s' (jr_agent_name job) = pend s (jr_agent_name job) @ [ev]"
    by (rule record_retry_attempt_run [OF ok assms(2,3) Some]) simp
  have "att_retry_index at' = retry_index_of s i (jr_agent_name job)"
    by (subst r(4)) (simp add: new_attempt_def)
  then have "\<forall>x \<in> set (bs_attempts s). att_message_id x = i \<and> att_agent_name x = jr_agent_name job \<longrightarrow> att_retry_index x < att_retry_index at'"
    by (auto intro: retry_index_bounds(2))
  moreover have "ev_payload_ref ev = Some (''job:'' @ jr_job_id job)" by (subst r(5)) (simp add: new_request_def)
  moreover have "map_option msg_message_state (latest_message s' i) = Some MSG_QUEUED"
    using spec [OF r(3) [unfolded message_set_def], of i] Some by simp
  ultimately show ?thesis using r(1,2,6,7) Some by (simp only: option.case) blast
qed

theorem retry_index_grows_witness:
  "\<exists>i attempt s'. record_retry_attempt i (ask_job ''job_2'' ''agent1'') ''t3'' bureau2 = (Inr (att_attempt_id attempt), s') \<and>
    bs_attempts s' = bs_attempts bureau2 @ [attempt] \<and> att_retry_index (hd (bs_attempts bureau2)) < att_retry_index attempt"
proof -
  have j: "job_ok (ask_job ''job_2'' ''agent1'')" "nonblank ''t3''" by (code_simp, code_simp)
  obtain a m i where r: "bs_attempts bureau2 = [a, settled_attempt a JS_FAILED ''t2'']" "att_message_id a = i"
    "att_agent_name a = ''agent1''" "latest_message bureau2 i = Some m" by (rule bureau2_rows)
  have "jr_agent_name (ask_job ''job_2'' ''agent1'') = ''agent1''" by (simp add: ask_job_def)
  then show ?thesis
    using retry_index_grows [OF bureau2_reachable j, of i] r by auto
qed

end
