(* ===== verification/Bureau_Control.thy ===== *)
theory Bureau_Control
  imports Bureau_Properties
begin

text \<open>
  The control service of the message bureau (\<open>message_bureau/control.py\<close>, \<open>control_queue_runtime\<close>): the pending
  events of a mailbox, with the stale heads abandoned on the way, the acknowledgement of the head, and the
  queue, inbox and head views. The service shares the stores, the kernel and the clock with the facade, so
  that it runs on the same state.

  \<open>float_of\<close> stands for Python's \<open>float(raw)\<close> on a JSON value, \<open>None\<close> where it raises; it only reaches a display
  field. The loop that abandons stale heads takes fuel; it is called with one more than the rows of the
  mailbox, and \<open>stale_heads_are_discarded\<close> shows that this is always enough.
\<close>

section \<open>Common helpers\<close>

definition control_mailbox_state :: "bool \<Rightarrow> int \<Rightarrow> string" where
  "control_mailbox_state has_active queue_depth =
     (if has_active then mailbox_state_value MS_DELIVERING
      else if queue_depth > 0 then mailbox_state_value MS_BLOCKED else mailbox_state_value MS_IDLE)"

definition require_mailbox_target :: "string \<Rightarrow> ('z bureau_state_scheme, string) py" where
  "require_mailbox_target agent_name =
     py_bind (mailbox_actor agent_name) (\<lambda>normalized. case normalized of
         None \<Rightarrow> py_raise (ValueError (''unknown mailbox target: '' @ py_lower (py_strip agent_name)))
       | Some n \<Rightarrow> py_return n)"

text \<open>\<open>len(text) <= limit\<close>, else the first \<open>limit\<close> characters and an ellipsis\<close>
definition control_preview_text :: "string \<Rightarrow> nat \<Rightarrow> string" where
  "control_preview_text v limit =
     (let text = py_strip (concat (map (\<lambda>c. if c = CHR 10 then [CHR 92, CHR ''n''] else [c]) (filter (\<lambda>c. c \<noteq> CHR 13) v)))
      in if length text \<le> limit then text else py_rstrip (take limit text) @ ''...'')"

definition mailbox_has_activity :: "string \<Rightarrow> mailbox_record option \<Rightarrow> ('z bureau_state_scheme, bool) py" where
  "mailbox_has_activity agent_name mailbox =
     py_bind (case mailbox of Some m \<Rightarrow> py_return (Some m) | None \<Rightarrow> mailbox_load agent_name) (\<lambda>record.
       py_return (case record of None \<Rightarrow> False
         | Some m \<Rightarrow> opt_truthy (mb_active_inbound_event_id m) \<or> mb_queue_depth m > 0 \<or> mb_pending_reply_count m > 0))"

section \<open>Pending events\<close>

definition reply_for_event :: "inbound_event \<Rightarrow> ('z bureau_state_scheme, reply_record option) py" where
  "reply_for_event event =
     (if ev_event_type event \<noteq> TASK_REPLY then py_return None
      else case reply_id_from_payload (ev_payload_ref event) of
          None \<Rightarrow> py_return None
        | Some reply_id \<Rightarrow> if reply_id = [] then py_return None else reply_get_latest reply_id)"

definition attempt_for_event :: "inbound_event \<Rightarrow> ('z bureau_state_scheme, attempt_record option) py" where
  "attempt_for_event event = (if opt_truthy (ev_attempt_id event) then attempt_get_latest (str_or_empty (ev_attempt_id event))
     else py_return None)"

definition event_is_live :: "inbound_event \<Rightarrow> ('z bureau_state_scheme, bool) py" where
  "event_is_live event =
     py_bind (message_get_latest (ev_message_id event)) (\<lambda>message.
     if message = None then py_return False
     else py_bind (attempt_for_event event) (\<lambda>attempt.
     if opt_truthy (ev_attempt_id event) \<and> attempt = None then py_return False
     else case (ev_event_type event, attempt) of
         (TASK_REQUEST, Some a) \<Rightarrow> py_return (att_attempt_state a \<notin> set TERMINAL_ATTEMPT_STATES)
       | (TASK_REPLY, _) \<Rightarrow> py_bind (reply_for_event event) (\<lambda>reply. py_return (reply \<noteq> None))
       | _ \<Rightarrow> py_return True))"

fun discard_stale_head_events :: "nat \<Rightarrow> string \<Rightarrow> ('z bureau_state_scheme, unit) py" where
  "discard_stale_head_events 0 agent_name = py_raise (RuntimeError ''out of fuel'')"
| "discard_stale_head_events (Suc fuel) agent_name =
     py_bind (head_pending_event agent_name) (\<lambda>head. case head of
         None \<Rightarrow> py_return ()
       | Some h \<Rightarrow> py_bind (event_is_live h) (\<lambda>live.
           if live then py_return ()
           else py_bind read_clock (\<lambda>t.
             py_then (kernel_abandon agent_name (ev_inbound_event_id h) (Some t))
               (discard_stale_head_events fuel agent_name))))"

text \<open>The rows that are live, one after the other\<close>
fun keep_live :: "inbound_event list \<Rightarrow> ('z bureau_state_scheme, inbound_event list) py" where
  "keep_live [] = py_return []"
| "keep_live (e # es) = py_bind (event_is_live e) (\<lambda>live. py_bind (keep_live es) (\<lambda>rest.
     py_return (if live then e # rest else rest)))"

definition discard_stale_heads :: "string \<Rightarrow> ('z bureau_state_scheme, unit) py" where
  "discard_stale_heads agent_name =
     py_bind (inbound_list_agent agent_name) (\<lambda>rows. discard_stale_head_events (Suc (length rows)) agent_name)"

definition pending_event_records :: "string \<Rightarrow> ('z bureau_state_scheme, inbound_event list) py" where
  "pending_event_records agent_name =
     py_then (discard_stale_heads agent_name) (
     py_bind (inbound_list_agent agent_name) (\<lambda>rows.
       keep_live (filter (\<lambda>e. \<not> event_terminal e) (latest_by ev_inbound_event_id rows))))"

section \<open>Views\<close>

text \<open>\<open>message.message_state.value if message is not None else None\<close> and the like\<close>
definition message_state_field :: "message_record option \<Rightarrow> json" where
  "message_state_field m = jopt (map_option (\<lambda>m. message_state_value (msg_message_state m)) m)"

definition attempt_state_field :: "attempt_record option \<Rightarrow> json" where
  "attempt_state_field a = jopt (map_option (\<lambda>a. attempt_state_value (att_attempt_state a)) a)"

definition job_id_field :: "attempt_record option \<Rightarrow> json" where
  "job_id_field a = jopt (map_option att_job_id a)"

definition event_entry :: "nat \<Rightarrow> inbound_event \<Rightarrow> ('z bureau_state_scheme, payload) py" where
  "event_entry position record =
     py_bind (attempt_for_event record) (\<lambda>attempt.
     py_bind (message_get_latest (ev_message_id record)) (\<lambda>message.
     py_bind (reply_list_message (ev_message_id record)) (\<lambda>replies.
     py_return
       [(''position'', JInt (int position)), (''inbound_event_id'', JStr (ev_inbound_event_id record)),
        (''event_type'', JStr (event_type_value (ev_event_type record))),
        (''status'', JStr (event_status_value (ev_status record))), (''priority'', JInt (ev_priority record)),
        (''message_id'', JStr (ev_message_id record)), (''message_state'', message_state_field message),
        (''attempt_id'', jopt (ev_attempt_id record)), (''attempt_state'', attempt_state_field attempt),
        (''job_id'', job_id_field attempt), (''reply_count'', JInt (int (length replies))),
        (''created_at'', JStr (ev_created_at record)), (''started_at'', jopt (ev_started_at record)),
        (''finished_at'', jopt (ev_finished_at record))])))"

text \<open>The body of a comprehension over \<open>enumerate(records, start=position)\<close>\<close>
fun enumerate_entries :: "(nat \<Rightarrow> inbound_event \<Rightarrow> ('s, payload) py) \<Rightarrow> nat \<Rightarrow> inbound_event list \<Rightarrow>
    ('s, payload list) py" where
  "enumerate_entries entry position [] = py_return []"
| "enumerate_entries entry position (e # es) = py_bind (entry position e) (\<lambda>item.
     py_bind (enumerate_entries entry (Suc position) es) (\<lambda>rest. py_return (item # rest)))"

definition control_pending_events :: "string \<Rightarrow> ('z bureau_state_scheme, payload list) py" where
  "control_pending_events agent_name =
     py_bind (pending_event_records agent_name) (enumerate_entries event_entry 1)"

definition reply_heartbeat_silence_seconds :: "(json \<Rightarrow> json option) \<Rightarrow> reply_record \<Rightarrow> json" where
  "reply_heartbeat_silence_seconds float_of reply =
     (let raw = jget (rep_diagnostics reply) ''heartbeat_silence_seconds'' in
      if raw = JNull then JNull else case float_of raw of None \<Rightarrow> JNull | Some v \<Rightarrow> v)"

definition inbox_item_summary :: "(json \<Rightarrow> json option) \<Rightarrow> nat \<Rightarrow> inbound_event \<Rightarrow> ('z bureau_state_scheme, payload) py" where
  "inbox_item_summary float_of position event =
     py_bind (attempt_for_event event) (\<lambda>attempt.
     py_bind (message_get_latest (ev_message_id event)) (\<lambda>message.
     py_bind (reply_for_event event) (\<lambda>found.
     let item =
       [(''position'', JInt (int position)), (''inbound_event_id'', JStr (ev_inbound_event_id event)),
        (''event_type'', JStr (event_type_value (ev_event_type event))),
        (''status'', JStr (event_status_value (ev_status event))), (''priority'', JInt (ev_priority event)),
        (''message_id'', JStr (ev_message_id event)), (''message_state'', message_state_field message),
        (''attempt_id'', jopt (ev_attempt_id event)), (''attempt_state'', attempt_state_field attempt),
        (''job_id'', job_id_field attempt),
        (''source_actor'', case found of Some r \<Rightarrow> JStr (rep_agent_name r)
           | None \<Rightarrow> jopt (map_option msg_from_actor message)),
        (''created_at'', JStr (ev_created_at event)), (''started_at'', jopt (ev_started_at event)),
        (''finished_at'', jopt (ev_finished_at event))]
     in py_return (case found of None \<Rightarrow> item
       | Some reply \<Rightarrow> item @
          [(''reply_id'', JStr (rep_reply_id reply)),
           (''reply_terminal_status'', JStr (reply_status_value (rep_terminal_status reply))),
           (''reply_finished_at'', JStr (rep_finished_at reply)),
           (''reply_preview'', JStr (control_preview_text (rep_reply reply) 120)),
           (''reply_notice'', JBool (reply_notice reply)), (''reply_notice_kind'', jopt (reply_notice_kind reply)),
           (''reply_last_progress_at'', jopt (reply_last_progress_at reply)),
           (''reply_heartbeat_silence_seconds'', reply_heartbeat_silence_seconds float_of reply)] @
          (if position = 1 then (''reply'', JStr (rep_reply reply)) #
             (case rep_reply_artifact reply of None \<Rightarrow> []
              | Some art \<Rightarrow> if art = [] then [] else [(''reply_artifact'', JObj art)]) else [])))))"

text \<open>\<open>str(exc).strip() or type(exc).__name__\<close>\<close>
fun error_text :: "py_error \<Rightarrow> string \<times> string" where
  "error_text (ValueError t) = (t, ''ValueError'')"
| "error_text (KeyError t) = (repr_str t, ''KeyError'')"
| "error_text (TypeError t) = (t, ''TypeError'')"
| "error_text (RuntimeError t) = (t, ''RuntimeError'')"
| "error_text (IndexError t) = (t, ''IndexError'')"
| "error_text (AttributeError t) = (t, ''AttributeError'')"
| "error_text (AgentValidationError t) = (t, ''AgentValidationError'')"
| "error_text (CompletionValidationError t) = (t, ''CompletionValidationError'')"
| "error_text (LayoutParseError t) = (t, ''LayoutParseError'')"
| "error_text (OverflowError t) = (t, ''OverflowError'')"
| "error_text (DispatchError t) = (t, ''DispatchError'')"
| "error_text (DispatchRejectedError t) = (t, ''DispatchRejectedError'')"

definition error_detail :: "py_error \<Rightarrow> string" where
  "error_detail e = (let t = py_strip (fst (error_text e)) in if t = [] then snd (error_text e) else t)"

record mailbox_summary_read =
  sr_mailbox :: "mailbox_record option"
  sr_status :: string
  sr_error :: "string option"

definition read_mailbox_summary :: "string \<Rightarrow> ('z bureau_state_scheme, mailbox_summary_read) py" where
  "read_mailbox_summary agent_name s = (case mailbox_load agent_name s of
       (Inl e, s') \<Rightarrow> (Inr \<lparr>sr_mailbox = None, sr_status = ''error'', sr_error = Some (error_detail e)\<rparr>, s')
     | (Inr None, s') \<Rightarrow> (Inr \<lparr>sr_mailbox = None, sr_status = ''missing'', sr_error = None\<rparr>, s')
     | (Inr (Some m), s') \<Rightarrow> (Inr \<lparr>sr_mailbox = Some m, sr_status = ''ok'', sr_error = None\<rparr>, s'))"

definition agent_queue_summary :: "string \<Rightarrow> ('z bureau_state_scheme, payload) py" where
  "agent_queue_summary agent_name =
     py_bind (require_mailbox_target agent_name) (\<lambda>normalized.
     py_bind (read_mailbox_summary normalized) (\<lambda>summary_read.
     py_return (case sr_mailbox summary_read of
         None \<Rightarrow>
           [(''agent_name'', JStr normalized), (''mailbox_id'', JStr (''mbx_'' @ normalized)), (''mailbox_state'', JNull),
            (''lease_version'', JInt 0), (''queue_depth'', JInt 0), (''pending_reply_count'', JInt 0),
            (''active_inbound_event_id'', JNull), (''last_inbound_started_at'', JNull), (''last_inbound_finished_at'', JNull),
            (''summary_status'', JStr (sr_status summary_read)), (''summary_error'', jopt (sr_error summary_read))]
       | Some mailbox \<Rightarrow>
           [(''agent_name'', JStr normalized), (''mailbox_id'', JStr (mb_mailbox_id mailbox)),
            (''mailbox_state'', JStr (mailbox_state_value (mb_mailbox_state mailbox))),
            (''lease_version'', JInt (mb_lease_version mailbox)), (''queue_depth'', JInt (mb_queue_depth mailbox)),
            (''pending_reply_count'', JInt (mb_pending_reply_count mailbox)),
            (''active_inbound_event_id'', jopt (mb_active_inbound_event_id mailbox)),
            (''last_inbound_started_at'', jopt (mb_last_inbound_started_at mailbox)),
            (''last_inbound_finished_at'', jopt (mb_last_inbound_finished_at mailbox)),
            (''summary_status'', JStr (sr_status summary_read)), (''summary_error'', jopt (sr_error summary_read))])))"

definition event_payload :: "(json \<Rightarrow> json option) \<Rightarrow> inbound_event \<Rightarrow> ('z bureau_state_scheme, payload) py" where
  "event_payload float_of record =
     py_bind (attempt_for_event record) (\<lambda>attempt.
     py_bind (message_get_latest (ev_message_id record)) (\<lambda>message.
     py_bind (reply_for_event record) (\<lambda>found.
     let item =
       [(''position'', JInt 1), (''inbound_event_id'', JStr (ev_inbound_event_id record)),
        (''event_type'', JStr (event_type_value (ev_event_type record))),
        (''status'', JStr (event_status_value (ev_status record))), (''priority'', JInt (ev_priority record)),
        (''message_id'', JStr (ev_message_id record)), (''message_state'', message_state_field message),
        (''attempt_id'', jopt (ev_attempt_id record)), (''attempt_state'', attempt_state_field attempt),
        (''job_id'', job_id_field attempt), (''created_at'', JStr (ev_created_at record)),
        (''started_at'', jopt (ev_started_at record)), (''finished_at'', jopt (ev_finished_at record))]
     in py_return (case found of None \<Rightarrow> item
       | Some reply \<Rightarrow> item @
          [(''reply_id'', JStr (rep_reply_id reply)), (''source_actor'', JStr (rep_agent_name reply)),
           (''reply_terminal_status'', JStr (reply_status_value (rep_terminal_status reply))),
           (''reply_notice'', JBool (reply_notice reply)), (''reply_notice_kind'', jopt (reply_notice_kind reply)),
           (''reply_finished_at'', JStr (rep_finished_at reply)),
           (''reply_last_progress_at'', jopt (reply_last_progress_at reply)),
           (''reply_heartbeat_silence_seconds'', reply_heartbeat_silence_seconds float_of reply)]))))"

text \<open>The text of a field, if it is one\<close>
fun field_text :: "json \<Rightarrow> string option" where
  "field_text (JStr t) = Some t"
| "field_text _ = None"

definition active_event_from_events :: "payload list \<Rightarrow> payload option" where
  "active_event_from_events events =
     (case find (\<lambda>e. jget e ''status'' = JStr ''delivering'')
        (latest_by (\<lambda>e. str_or_empty (field_text (jget e ''inbound_event_id''))) events) of
        Some e \<Rightarrow> Some e
      | None \<Rightarrow> (case events of [] \<Rightarrow> None | e # _ \<Rightarrow> Some e))"

definition active_event :: "(json \<Rightarrow> json option) \<Rightarrow> string \<Rightarrow> mailbox_record option \<Rightarrow> payload list \<Rightarrow>
    ('z bureau_state_scheme, payload option) py" where
  "active_event float_of agent_name mailbox events = (case mailbox of
       None \<Rightarrow> py_return (active_event_from_events events)
     | Some m \<Rightarrow>
         if \<not> opt_truthy (mb_active_inbound_event_id m) then py_return (active_event_from_events events)
         else py_bind (inbound_get_latest agent_name (str_or_empty (mb_active_inbound_event_id m))) (\<lambda>record. case record of
             None \<Rightarrow> py_return (active_event_from_events events)
           | Some e \<Rightarrow> py_bind (event_payload float_of e) (\<lambda>p. py_return (Some p))))"

fun last_event_timestamps :: "string option \<Rightarrow> string option \<Rightarrow> payload list \<Rightarrow> string option \<times> string option" where
  "last_event_timestamps last_started last_finished [] = (last_started, last_finished)"
| "last_event_timestamps last_started last_finished (e # es) =
     last_event_timestamps (latest_timestamp last_started (field_text (jget e ''started_at'')))
       (latest_timestamp last_finished (field_text (jget e ''finished_at''))) es"

definition agent_queue_detail :: "(json \<Rightarrow> json option) \<Rightarrow> string \<Rightarrow> ('z bureau_state_scheme, payload) py" where
  "agent_queue_detail float_of agent_name =
     py_bind (require_mailbox_target agent_name) (\<lambda>normalized.
     py_bind (read_mailbox_summary normalized) (\<lambda>summary_read.
     py_bind (control_pending_events normalized) (\<lambda>events.
     py_bind (agent_queue_summary normalized) (\<lambda>summary.
     py_bind (active_event float_of normalized (sr_mailbox summary_read) events) (\<lambda>active.
     let active_json = (case active of None \<Rightarrow> JNull | Some p \<Rightarrow> JObj p);
         (started, finished) = last_event_timestamps None None events;
         from_events = sr_mailbox summary_read = None;
         pick = (\<lambda>v k. if from_events then v else jget summary k)
     in py_return
       [(''agent_name'', JStr normalized), (''mailbox_id'', jget summary ''mailbox_id''),
        (''mailbox_state'', pick (JStr (control_mailbox_state (active \<noteq> None) (int (length events)))) ''mailbox_state''),
        (''lease_version'', jget summary ''lease_version''),
        (''queue_depth'', pick (JInt (int (length events))) ''queue_depth''),
        (''pending_reply_count'', pick (JInt (int (length (filter (\<lambda>e. jget e ''event_type'' = JStr ''task_reply'') events))))
           ''pending_reply_count''),
        (''active_inbound_event_id'', pick (case active of None \<Rightarrow> JNull | Some p \<Rightarrow> jget p ''inbound_event_id'')
           ''active_inbound_event_id''),
        (''active'', active_json), (''last_inbound_started_at'', pick (jopt started) ''last_inbound_started_at''),
        (''last_inbound_finished_at'', pick (jopt finished) ''last_inbound_finished_at''),
        (''summary_status'', jget summary ''summary_status''), (''summary_error'', jget summary ''summary_error''),
        (''queued_events'', JList (map JObj events))])))))"

definition control_agent_queue :: "(json \<Rightarrow> json option) \<Rightarrow> string \<Rightarrow> ('z bureau_state_scheme, payload) py" where
  "control_agent_queue float_of agent_name = agent_queue_detail float_of agent_name"

definition enrich_mailbox_head :: "(json \<Rightarrow> json option) \<Rightarrow> string \<Rightarrow> payload option \<Rightarrow>
    ('z bureau_state_scheme, payload option) py" where
  "enrich_mailbox_head float_of agent_name head_arg = (case head_arg of
       None \<Rightarrow> py_return None
     | Some head \<Rightarrow>
         if py_lower (py_strip (str_or (jget head ''event_type'') '''')) \<noteq> event_type_value TASK_REPLY then py_return (Some head)
         else
         py_bind (if py_truthy (jget head ''attempt_id'') then attempt_get_latest (py_str (jget head ''attempt_id''))
                  else py_return None) (\<lambda>attempt.
         py_bind (let direct = reply_id_from_payload (field_text (jget head ''payload_ref'')) in
             if \<not> opt_truthy direct \<and> py_truthy (jget head ''inbound_event_id'')
             then py_bind (inbound_get_latest agent_name (py_str (jget head ''inbound_event_id''))) (\<lambda>record.
               py_return (case record of None \<Rightarrow> None | Some e \<Rightarrow> reply_id_from_payload (ev_payload_ref e)))
             else py_return direct) (\<lambda>reply_id.
         if \<not> opt_truthy reply_id then py_return (Some head)
         else py_bind (reply_get_latest (str_or_empty reply_id)) (\<lambda>found. case found of
             None \<Rightarrow> py_return (Some head)
           | Some reply \<Rightarrow> py_return (Some (head @
               [(''reply_id'', JStr (rep_reply_id reply)), (''source_actor'', JStr (rep_agent_name reply)),
                (''reply_terminal_status'', JStr (reply_status_value (rep_terminal_status reply))),
                (''reply_notice'', JBool (reply_notice reply)), (''reply_notice_kind'', jopt (reply_notice_kind reply)),
                (''job_id'', job_id_field attempt), (''reply_finished_at'', JStr (rep_finished_at reply)),
                (''reply_last_progress_at'', jopt (reply_last_progress_at reply)),
                (''reply_heartbeat_silence_seconds'', reply_heartbeat_silence_seconds float_of reply),
                (''reply'', JStr (rep_reply reply))]))))))"

definition opt_obj :: "payload option \<Rightarrow> json" where
  "opt_obj p = (case p of None \<Rightarrow> JNull | Some o' \<Rightarrow> JObj o')"

definition control_inbox :: "(json \<Rightarrow> json option) \<Rightarrow> string \<Rightarrow> bool option \<Rightarrow> ('z bureau_state_scheme, payload) py" where
  "control_inbox float_of agent_name detail =
     py_bind (require_mailbox_target agent_name) (\<lambda>normalized.
     py_bind (agent_queue_summary normalized) (\<lambda>mailbox_payload.
     py_bind (read_mailbox_summary normalized) (\<lambda>summary_read.
     if detail \<noteq> Some True then
       py_bind (enrich_mailbox_head float_of normalized (mailbox_head_payload (sr_mailbox summary_read))) (\<lambda>head.
       py_return
         [(''target'', JStr normalized), (''summary_status'', JStr (sr_status summary_read)),
          (''summary_error'', jopt (sr_error summary_read)), (''agent'', JObj mailbox_payload),
          (''item_count'', jget mailbox_payload ''queue_depth''), (''head'', opt_obj head), (''items'', JList [])])
     else
       py_bind (pending_event_records normalized) (\<lambda>records.
       py_bind (enumerate_entries (inbox_item_summary float_of) 1 records) (\<lambda>items.
       py_bind (enrich_mailbox_head float_of normalized (mailbox_head_payload (sr_mailbox summary_read))) (\<lambda>enriched.
       let head = (case enriched of Some (h # hs) \<Rightarrow> Some (h # hs)
                   | _ \<Rightarrow> (case items of [] \<Rightarrow> None | i # _ \<Rightarrow> Some i))
       in py_return
         [(''target'', JStr normalized), (''summary_status'', JStr (sr_status summary_read)),
          (''summary_error'', jopt (sr_error summary_read)), (''agent'', JObj mailbox_payload),
          (''item_count'', JInt (int (length items))), (''head'', opt_obj head),
          (''items'', JList (map JObj items))]))))))"

definition control_mailbox_head :: "(json \<Rightarrow> json option) \<Rightarrow> string \<Rightarrow> ('z bureau_state_scheme, payload) py" where
  "control_mailbox_head float_of agent_name =
     py_bind (require_mailbox_target agent_name) (\<lambda>normalized.
     py_bind (read_mailbox_summary normalized) (\<lambda>summary_read.
     py_bind (enrich_mailbox_head float_of normalized (mailbox_head_payload (sr_mailbox summary_read))) (\<lambda>head.
     py_return
       [(''target'', JStr normalized), (''summary_status'', JStr (sr_status summary_read)),
        (''summary_error'', jopt (sr_error summary_read)), (''head'', opt_obj head)])))"

definition summary_targets :: "string list \<Rightarrow> string list" where
  "summary_targets agents = sort (remdups agents)"

text \<open>\<open>[agent_queue_summary(service, name) for name in agent_names]\<close>\<close>
fun agent_summaries :: "string list \<Rightarrow> ('z bureau_state_scheme, payload list) py" where
  "agent_summaries [] = py_return []"
| "agent_summaries (n # ns) = py_bind (agent_queue_summary n) (\<lambda>x. py_bind (agent_summaries ns) (\<lambda>xs. py_return (x # xs)))"

fun int_field :: "json \<Rightarrow> int" where
  "int_field (JInt i) = i"
| "int_field _ = 0"

definition control_queue_summary :: "(json \<Rightarrow> json option) \<Rightarrow> string list \<Rightarrow> string \<Rightarrow> bool option \<Rightarrow>
    ('z bureau_state_scheme, payload) py" where
  "control_queue_summary float_of config_agents target detail =
     (let normalized = (let t = py_lower (py_strip target) in if t = [] then ''all'' else t) in
      if normalized \<noteq> ''all'' then
        (if detail = Some True
         then py_bind (agent_queue_detail float_of normalized) (\<lambda>p.
                py_return [(''target'', JStr normalized), (''agent'', JObj p)])
         else py_bind (agent_queue_summary normalized) (\<lambda>p.
                py_return [(''target'', JStr normalized), (''agent'', JObj p)]))
      else py_bind (agent_summaries (summary_targets config_agents)) (\<lambda>items.
        py_return
          [(''target'', JStr ''all''), (''agent_count'', JInt (int (length items))),
           (''queued_agent_count'', JInt (int (length (filter (\<lambda>i. int_field (jget i ''queue_depth'') > 0) items)))),
           (''active_agent_count'', JInt (int (length (filter (\<lambda>i. jget i ''active_inbound_event_id'' \<noteq> JNull) items)))),
           (''total_queue_depth'', JInt (sum_list (map (\<lambda>i. int_field (jget i ''queue_depth'')) items))),
           (''total_pending_reply_count'', JInt (sum_list (map (\<lambda>i. int_field (jget i ''pending_reply_count'')) items))),
           (''agents'', JList (map JObj items))]))"

section \<open>Acknowledging\<close>

definition validate_reply_head :: "inbound_event \<Rightarrow> inbound_event result" where
  "validate_reply_head head =
     (if ev_event_type head \<noteq> TASK_REPLY
      then Inl (ValueError (''ack only supports task_reply or terminal task_request head events; found: '' @
             event_type_value (ev_event_type head)))
      else case delivery_job_id_from_payload (ev_payload_ref head) of
          None \<Rightarrow> Inr head
        | Some delivery_job_id \<Rightarrow> if delivery_job_id = [] then Inr head
            else Inl (ValueError (''ack is not allowed after automatic reply delivery has been scheduled: '' @ delivery_job_id)))"

definition head_event :: "string \<Rightarrow> string option \<Rightarrow> ('z bureau_state_scheme, inbound_event) py" where
  "head_event agent_name inbound_event_id =
     py_bind (head_pending_event agent_name) (\<lambda>direct_head.
     let given = py_strip (str_or_empty inbound_event_id);
         requested = (if given \<noteq> [] then given
           else case direct_head of None \<Rightarrow> '''' | Some h \<Rightarrow> ev_inbound_event_id h);
         from_records = py_bind (pending_event_records agent_name) (\<lambda>records. case records of
             [] \<Rightarrow> py_raise (ValueError (''inbox is empty for agent: '' @ agent_name))
           | head # _ \<Rightarrow>
               let wanted = (if requested \<noteq> [] then requested else ev_inbound_event_id head) in
               if ev_inbound_event_id head \<noteq> wanted
               then py_raise (ValueError (''ack requires head event: '' @ ev_inbound_event_id head))
               else py_lift (validate_reply_head head))
     in case direct_head of
          Some h \<Rightarrow>
            if ev_inbound_event_id h = requested \<and> ev_event_type h = TASK_REPLY then py_lift (validate_reply_head h)
            else if ev_inbound_event_id h = requested \<and> ev_event_type h = TASK_REQUEST then py_return h
            else from_records
        | None \<Rightarrow> from_records)"

text \<open>The head that an acknowledgement reports as the next one\<close>
definition next_head_event :: "string \<Rightarrow> ('z bureau_state_scheme, inbound_event option) py" where
  "next_head_event agent_name =
     py_bind (pending_event_records agent_name) (\<lambda>next_records.
     py_bind (head_pending_event agent_name) (\<lambda>next_head.
     py_return (if next_head = None \<or> (next_records \<noteq> [] \<and>
            list_all (\<lambda>r. Some (ev_inbound_event_id r) \<noteq> map_option ev_inbound_event_id next_head) next_records)
       then (case next_records of [] \<Rightarrow> None | r # _ \<Rightarrow> Some r) else next_head)))"

text \<open>\<open>_ack_terminal_task_request\<close> after its guard\<close>
definition ack_request_payload :: "string \<Rightarrow> inbound_event \<Rightarrow> attempt_record option \<Rightarrow> inbound_event option \<Rightarrow> payload \<Rightarrow>
    payload" where
  "ack_request_payload agent_name consumed attempt next_head mailbox_payload =
     [(''target'', JStr agent_name), (''agent_name'', JStr agent_name),
      (''acknowledged_inbound_event_id'', JStr (ev_inbound_event_id consumed)),
      (''acknowledged_event_type'', JStr (event_type_value (ev_event_type consumed))),
      (''message_id'', JStr (ev_message_id consumed)), (''attempt_id'', jopt (ev_attempt_id consumed)),
      (''job_id'', job_id_field attempt), (''attempt_state'', attempt_state_field attempt),
      (''next_inbound_event_id'', jopt (map_option ev_inbound_event_id next_head)),
      (''next_event_type'', jopt (map_option (event_type_value \<circ> ev_event_type) next_head)),
      (''mailbox'', JObj mailbox_payload), (''reply'', JStr [])]"

definition ack_request_head :: "(json \<Rightarrow> json option) \<Rightarrow> string \<Rightarrow> inbound_event \<Rightarrow> attempt_record option \<Rightarrow>
    ('z bureau_state_scheme, payload) py" where
  "ack_request_head float_of agent_name head attempt =
     py_bind read_clock (\<lambda>timestamp.
     py_bind (if map_option att_attempt_state attempt = Some ATT_CANCELLED \<and> ev_status head \<in> {IE_CREATED, IE_QUEUED}
              then kernel_abandon agent_name (ev_inbound_event_id head) (Some timestamp)
              else kernel_consume agent_name (ev_inbound_event_id head) (Some timestamp)) (\<lambda>result.
     case result of
       None \<Rightarrow> py_raise (RuntimeError (''failed to ack task_request event: '' @ ev_inbound_event_id head))
     | Some consumed \<Rightarrow>
         py_bind (control_agent_queue float_of agent_name) (\<lambda>mailbox_payload.
         py_bind (next_head_event agent_name) (\<lambda>next_head.
         py_return (ack_request_payload agent_name consumed attempt next_head mailbox_payload)))))"

definition ack_terminal_task_request :: "(json \<Rightarrow> json option) \<Rightarrow> string \<Rightarrow> inbound_event \<Rightarrow>
    ('z bureau_state_scheme, payload) py" where
  "ack_terminal_task_request float_of agent_name head =
     py_bind (attempt_for_event head) (\<lambda>attempt. case attempt of
         Some a \<Rightarrow>
           if att_attempt_state a \<notin> set TERMINAL_ATTEMPT_STATES
           then py_raise (ValueError (''ack only supports terminal task_request head events; found attempt_state='' @
                  attempt_state_value (att_attempt_state a)))
           else ack_request_head float_of agent_name head (Some a)
       | None \<Rightarrow> ack_request_head float_of agent_name head None)"

definition ack_payload :: "(json \<Rightarrow> json option) \<Rightarrow> string \<Rightarrow> inbound_event \<Rightarrow> attempt_record option \<Rightarrow> reply_record \<Rightarrow>
    inbound_event option \<Rightarrow> payload \<Rightarrow> payload" where
  "ack_payload float_of agent_name consumed attempt reply next_head mailbox_payload =
     [(''target'', JStr agent_name), (''agent_name'', JStr agent_name),
      (''acknowledged_inbound_event_id'', JStr (ev_inbound_event_id consumed)),
      (''message_id'', JStr (ev_message_id consumed)), (''attempt_id'', jopt (ev_attempt_id consumed)),
      (''job_id'', job_id_field attempt), (''reply_id'', JStr (rep_reply_id reply)),
      (''reply_from_agent'', JStr (rep_agent_name reply)),
      (''reply_terminal_status'', JStr (reply_status_value (rep_terminal_status reply))),
      (''reply_finished_at'', JStr (rep_finished_at reply)), (''reply_notice'', JBool (reply_notice reply)),
      (''reply_notice_kind'', jopt (reply_notice_kind reply)),
      (''reply_last_progress_at'', jopt (reply_last_progress_at reply)),
      (''reply_heartbeat_silence_seconds'', reply_heartbeat_silence_seconds float_of reply),
      (''next_inbound_event_id'', jopt (map_option ev_inbound_event_id next_head)),
      (''next_event_type'', jopt (map_option (event_type_value \<circ> ev_event_type) next_head)),
      (''mailbox'', JObj mailbox_payload), (''reply'', JStr (rep_reply reply))]"

definition control_ack_reply :: "(json \<Rightarrow> json option) \<Rightarrow> string \<Rightarrow> string option \<Rightarrow> ('z bureau_state_scheme, payload) py" where
  "control_ack_reply float_of agent_name inbound_event_id =
     py_bind (require_mailbox_target agent_name) (\<lambda>normalized.
     py_bind (head_event normalized inbound_event_id) (\<lambda>head.
     if ev_event_type head = TASK_REQUEST then ack_terminal_task_request float_of normalized head
     else
     py_bind (reply_for_event head) (\<lambda>found. case found of
         None \<Rightarrow> py_raise (ValueError (''reply record missing for inbound event: '' @ ev_inbound_event_id head))
       | Some reply \<Rightarrow>
           py_bind (attempt_for_event head) (\<lambda>attempt.
           py_bind read_clock (\<lambda>timestamp.
           py_bind (ack_reply normalized (ev_inbound_event_id head) (Some timestamp) (Some timestamp)) (\<lambda>result. case result of
               None \<Rightarrow> py_raise (RuntimeError (''failed to ack reply event: '' @ ev_inbound_event_id head))
             | Some consumed \<Rightarrow>
                 py_bind (control_agent_queue float_of normalized) (\<lambda>mailbox_payload.
                 py_bind (next_head_event normalized) (\<lambda>next_head.
                 py_return (ack_payload float_of normalized consumed attempt reply next_head mailbox_payload)))))))))"

end
