(* ===== verification/Control_Properties.thy ===== *)
theory Control_Properties
  imports Bureau_Control
begin

text \<open>
  What the control service does to the mailboxes: the loop that abandons stale heads ends and drops exactly the
  stale prefix, the views list the live events and raise nothing, and an acknowledgement consumes the head or
  leaves the live events alone.
\<close>

section \<open>Live events\<close>

definition event_reply :: "'z bureau_state_scheme \<Rightarrow> inbound_event \<Rightarrow> reply_record option" where
  "event_reply s e = (if ev_event_type e \<noteq> TASK_REPLY then None
     else case reply_id_from_payload (ev_payload_ref e) of None \<Rightarrow> None
       | Some i \<Rightarrow> if i = [] then None else find_last_in (\<lambda>r. rep_reply_id r = i) (bs_replies s))"

definition event_attempt :: "'z bureau_state_scheme \<Rightarrow> inbound_event \<Rightarrow> attempt_record option" where
  "event_attempt s e = (if opt_truthy (ev_attempt_id e) then latest_attempt s (str_or_empty (ev_attempt_id e)) else None)"

text \<open>An event is live if its message and its attempt are on record, the attempt of a request is active and the
  reply of a reply event is on file.\<close>
definition live :: "'z bureau_state_scheme \<Rightarrow> inbound_event \<Rightarrow> bool" where
  "live s e \<longleftrightarrow> latest_message s (ev_message_id e) \<noteq> None \<and> (opt_truthy (ev_attempt_id e) \<longrightarrow> event_attempt s e \<noteq> None) \<and>
     (case (ev_event_type e, event_attempt s e) of
        (TASK_REQUEST, Some a) \<Rightarrow> att_attempt_state a \<notin> set TERMINAL_ATTEMPT_STATES
      | (TASK_REPLY, _) \<Rightarrow> event_reply s e \<noteq> None
      | _ \<Rightarrow> True)"

lemma event_store_runs [bureau_run]:
  "reply_for_event e s = (Inr (event_reply s e), s)"
  "attempt_for_event e s = (Inr (event_attempt s e), s)"
  by (simp_all add: reply_for_event_def event_reply_def attempt_for_event_def event_attempt_def bureau_run split: option.split)

lemma event_is_live_run [bureau_run]: "event_is_live e s = (Inr (live s e), s)"
  by (simp add: event_is_live_def bureau_run live_def split: inbound_event_type.split option.split)

lemma keep_live_run [bureau_run]: "keep_live es s = (Inr (filter (live s) es), s)"
  by (induction es) (simp_all add: bureau_run)

section \<open>Steps of the service\<close>

definition clock_ok :: "'z kernel_state_scheme \<Rightarrow> bool" where
  "clock_ok s \<longleftrightarrow> (\<forall>n. nonblank (ks_clock s n))"

text \<open>A step that touches mailbox \<open>a\<close> only, leaves every row alone and ends in an orderly state\<close>
definition control_step :: "'z bureau_state_scheme \<Rightarrow> string \<Rightarrow> 'z bureau_state_scheme \<Rightarrow> bool" where
  "control_step s a s' \<longleftrightarrow> bureau_ok s' \<and> clock_ok s' \<and> bs_messages s' = bs_messages s \<and> bs_attempts s' = bs_attempts s \<and>
     bs_replies s' = bs_replies s \<and> bs_known_mailboxes s' = bs_known_mailboxes s \<and> (\<forall>b. b \<noteq> a \<longrightarrow> pend s' b = pend s b)"

lemma control_step_refl: "bureau_ok s \<Longrightarrow> clock_ok s \<Longrightarrow> control_step s a s"
  by (simp add: control_step_def)

lemma control_step_trans: "control_step s a s1 \<Longrightarrow> control_step s1 a s2 \<Longrightarrow> control_step s a s2"
  by (simp add: control_step_def)

lemma control_step_rows:
  assumes "control_step s a s'"
  shows "live s' = live s" "event_reply s' = event_reply s" "event_attempt s' = event_attempt s"
proof -
  have rows: "bs_messages s' = bs_messages s" "bs_attempts s' = bs_attempts s" "bs_replies s' = bs_replies s"
    using assms by (simp_all add: control_step_def)
  show r: "event_reply s' = event_reply s" "event_attempt s' = event_attempt s"
    unfolding event_reply_def event_attempt_def rows by (rule refl)+
  show "live s' = live s" unfolding live_def rows r by (rule refl)
qed

lemma control_stepD: "control_step s a s' \<Longrightarrow> bureau_ok s'" "control_step s a s' \<Longrightarrow> clock_ok s'"
  by (simp_all add: control_step_def)

definition tick :: "'z kernel_state_scheme \<Rightarrow> 'z kernel_state_scheme" where
  "tick s = s\<lparr>ks_tick := Suc (ks_tick s)\<rparr>"

lemma read_clock_run: "read_clock s = (Inr (ks_clock s (ks_tick s)), tick s)"
  by (simp add: read_clock_def tick_def)

lemma pend_tick [simp]: "pend (tick s) a = pend s a"
  by (simp add: tick_def pend_eq)

lemma tick_step: "bureau_ok s \<Longrightarrow> clock_ok s \<Longrightarrow> control_step s a (tick s)"
proof -
  assume ok: "bureau_ok s" and c: "clock_ok s"
  have "mailbox_inv (tick s) b = mailbox_inv s b" for b by (rule mailbox_inv_cong) (simp_all add: tick_def)
  with ok c show ?thesis
    by (simp add: control_step_def bureau_ok_def rows_ok_def ids_ok_def clock_ok_def) (simp add: tick_def idn_def)
qed

lemma kernel_control_step: "kernel_step s a s' \<Longrightarrow> bureau_ok s \<Longrightarrow> clock_ok s \<Longrightarrow> control_step s a s'"
  using step_fields [of s a s'] bureau_ok_step [of s a s']
  by (auto simp: control_step_def clock_ok_def kernel_step_def elsewhere_def)

text \<open>Taking the time and finishing an event\<close>
lemma finish_now_run:
  assumes ok: "bureau_ok s" "clock_ok s" and a: "owner_name_ok a" and st: "st \<in> set TERMINAL_EVENT_STATES"
  obtains r s' where "mark_terminal a i st (Some (ks_clock s (ks_tick s))) (tick s) = (Inr r, s')" "control_step s a s'"
    "pend s' a = q_remove i (pend s a)" "i \<in> eid ` set (pend s a) \<Longrightarrow> r \<noteq> None"
proof -
  have t: "control_step s a (tick s)" by (rule tick_step [OF ok])
  have nb: "nonblank (ks_clock s (ks_tick s))" using ok(2) by (simp add: clock_ok_def)
  obtain r s' where r: "mark_terminal a i st (Some (ks_clock s (ks_tick s))) (tick s) = (Inr r, s')" "kernel_step (tick s) a s'"
    "pend s' a = q_remove i (pend (tick s) a)" "i \<in> eid ` set (pend (tick s) a) \<Longrightarrow> r \<noteq> None"
    by (rule finish_step [OF bureau_okD(1) [OF control_stepD(1) [OF t] a] nb st, of i]) blast
  have "control_step s a s'"
    by (rule control_step_trans [OF t kernel_control_step [OF r(2) control_stepD [OF t]]])
  with r that show thesis by simp
qed

section \<open>Stale heads\<close>

lemma q_remove_head: "pend s a = e # es \<Longrightarrow> q_remove (eid e) (pend s a) = es"
  using distinct_pending_log [of "ks_inboxes s a"]
  by (auto simp: q_remove_def pend_eq filter_id_conv image_iff)

lemma discard_run:
  assumes "bureau_ok s" "clock_ok s" "owner_name_ok a"
  shows "\<exists>s'. (\<forall>fuel. length (pend s a) < fuel \<longrightarrow> discard_stale_head_events fuel a s = (Inr (), s')) \<and> control_step s a s' \<and>
    pend s' a = dropWhile (\<lambda>e. \<not> live s e) (pend s a)"
  using assms(1,2)
proof (induction "length (pend s a)" arbitrary: s)
  case 0
  have "discard_stale_head_events fuel a s = (Inr (), s)" if "0 < fuel" for fuel
    using that 0(1) assms(3) by (cases fuel) (simp_all add: query_runs)
  then show ?case using 0 control_step_refl [OF 0(2,3)] by auto
next
  case (Suc n)
  then obtain e es where p: "pend s a = e # es" by (cases "pend s a") auto
  have hd: "head_pending_event a s = (Inr (Some e), s)" using assms(3) p by (simp add: query_runs)
  show ?case
  proof (cases "live s e")
    case True
    have "discard_stale_head_events fuel a s = (Inr (), s)" if "0 < fuel" for fuel
      using that True hd by (cases fuel) (simp_all add: bureau_run)
    then show ?thesis using p True control_step_refl [OF Suc.prems] by auto
  next
    case False
    obtain r s1 where s1: "mark_terminal a (eid e) IE_ABANDONED (Some (ks_clock s (ks_tick s))) (tick s) = (Inr r, s1)"
      "control_step s a s1" "pend s1 a = q_remove (eid e) (pend s a)"
      by (rule finish_now_run [OF Suc.prems assms(3), of IE_ABANDONED "eid e"]) (simp_all add: TERMINAL_EVENT_STATES_def)
    then have p1: "pend s1 a = es" using q_remove_head [OF p] by simp
    obtain s' where s': "\<And>fuel. length es < fuel \<Longrightarrow> discard_stale_head_events fuel a s1 = (Inr (), s')" "control_step s1 a s'"
      "pend s' a = dropWhile (\<lambda>e. \<not> live s1 e) es"
      using Suc.hyps(1) [OF _ control_stepD [OF s1(2)]] Suc.hyps(2) p p1 by auto
    have "discard_stale_head_events fuel a s = (Inr (), s')" if "length (pend s a) < fuel" for fuel
      using that hd p False s1(1) s'(1) by (cases fuel) (simp_all add: bureau_run read_clock_run kernel_abandon_def)
    then show ?thesis
      using s'(2,3) p False control_step_trans [OF s1(2) s'(2)] control_step_rows(1) [OF s1(2)]
      by (intro exI [of _ s']) simp
  qed
qed

lemma length_latest_by: "length (latest_by key rows) \<le> length rows"
  by (induction rows rule: rev_induct) (auto simp: latest_by_snoc)

lemma length_pend: "length (pend s a) \<le> length (ks_inboxes s a)"
  using length_filter_le length_latest_by le_trans unfolding pend_eq pending_log_def by blast

lemma discard_stale_heads_run:
  assumes "bureau_ok s" "clock_ok s" "owner_name_ok a"
  obtains s' where "discard_stale_heads a s = (Inr (), s')" "control_step s a s'"
    "pend s' a = dropWhile (\<lambda>e. \<not> live s e) (pend s a)"
    "\<And>fuel. length (pend s a) < fuel \<Longrightarrow> discard_stale_head_events fuel a s = (Inr (), s')"
proof -
  obtain s' where s': "\<And>fuel. length (pend s a) < fuel \<Longrightarrow> discard_stale_head_events fuel a s = (Inr (), s')"
    "control_step s a s'" "pend s' a = dropWhile (\<lambda>e. \<not> live s e) (pend s a)" using discard_run [OF assms] by blast
  have "discard_stale_heads a s = (Inr (), s')"
    using s'(1) [of "Suc (length (ks_inboxes s a))"] length_pend [of s a] assms(3)
    by (simp add: discard_stale_heads_def store_runs le_imp_less_Suc del: discard_stale_head_events.simps)
  with s' that show thesis by blast
qed

lemma filter_dropWhile: "filter P (dropWhile (\<lambda>x. \<not> P x) xs) = filter P xs"
  by (induction xs) auto

lemma pending_event_records_run:
  assumes "bureau_ok s" "clock_ok s" "owner_name_ok a"
  obtains s' where "pending_event_records a s = (Inr (filter (live s) (pend s a)), s')" "control_step s a s'"
    "pend s' a = dropWhile (\<lambda>e. \<not> live s e) (pend s a)"
proof -
  obtain s' where s': "discard_stale_heads a s = (Inr (), s')" "control_step s a s'"
    "pend s' a = dropWhile (\<lambda>e. \<not> live s e) (pend s a)" by (rule discard_stale_heads_run [OF assms])
  have "filter (\<lambda>e. \<not> event_terminal e) (latest_by eid (ks_inboxes s' a)) = pend s' a"
    by (simp add: pend_eq pending_log_def)
  then have "pending_event_records a s = (Inr (filter (live s) (pend s a)), s')"
    using s'(1,3) assms(3)
    by (simp add: pending_event_records_def store_runs bureau_run control_step_rows(1) [OF s'(2)] filter_dropWhile)
  with s' that show thesis by blast
qed

section \<open>The views run\<close>

lemma enumerate_entries_run:
  assumes "\<And>p e. \<exists>x. entry p e s = (Inr x, s) \<and> jget x k = f e"
  shows "\<exists>xs. enumerate_entries entry p es s = (Inr xs, s) \<and> map (\<lambda>x. jget x k) xs = map f es"
proof (induction es arbitrary: p)
  case (Cons e es)
  obtain x where "entry p e s = (Inr x, s)" "jget x k = f e" using assms by blast
  moreover obtain xs where "enumerate_entries entry (Suc p) es s = (Inr xs, s)" "map (\<lambda>x. jget x k) xs = map f es"
    using Cons by blast
  ultimately show ?case by simp
qed simp

lemma event_entry_run: "\<exists>x. event_entry p e s = (Inr x, s) \<and> jget x ''inbound_event_id'' = JStr (eid e)"
  by (simp add: event_entry_def bureau_run jget_def)

lemma control_pending_events_run:
  assumes "bureau_ok s" "clock_ok s" "owner_name_ok a"
  obtains s' xs where "control_pending_events a s = (Inr xs, s')" "control_step s a s'"
    "pend s' a = dropWhile (\<lambda>e. \<not> live s e) (pend s a)"
    "map (\<lambda>x. jget x ''inbound_event_id'') xs = map (JStr \<circ> eid) (filter (live s) (pend s a))"
proof -
  obtain s' where s': "pending_event_records a s = (Inr (filter (live s) (pend s a)), s')" "control_step s a s'"
    "pend s' a = dropWhile (\<lambda>e. \<not> live s e) (pend s a)" by (rule pending_event_records_run [OF assms])
  obtain xs where "enumerate_entries event_entry 1 (filter (live s) (pend s a)) s' = (Inr xs, s')"
    "map (\<lambda>x. jget x ''inbound_event_id'') xs = map (JStr \<circ> eid) (filter (live s) (pend s a))"
    using enumerate_entries_run [of event_entry s' "''inbound_event_id''" "JStr \<circ> eid"] event_entry_run by fastforce
  with s' that show thesis by (simp add: control_pending_events_def)
qed

text \<open>A name that the service accepts: a known mailbox under its normal name\<close>
definition known_mailbox :: "'z bureau_state_scheme \<Rightarrow> string \<Rightarrow> bool" where
  "known_mailbox s a \<longleftrightarrow> normalize_mailbox_target (Some a) (bs_known_mailboxes s) = Some a"

lemma known_mailbox_owner: "known_mailbox s a \<Longrightarrow> owner_name_ok a"
  using normalize_target_ok by (simp add: known_mailbox_def)

lemma normalize_target_fixed: "owner_name_ok a \<Longrightarrow> a \<in> set known \<Longrightarrow> normalize_mailbox_target (Some a) known = Some a"
  using agent_name_ok_length [of a] pattern_stripped [of a]
  by (simp add: normalize_mailbox_target_def owner_name_ok_def [of a] agent_name_ok_def str_or_empty_def)

lemma target_is_known:
  assumes "normalize_mailbox_target (Some name) (bs_known_mailboxes s) = Some a"
  shows "known_mailbox s a"
proof -
  have a: "owner_name_ok a" "a \<in> set (bs_known_mailboxes s)" using normalize_target_ok [OF assms] by simp_all
  then show ?thesis by (simp add: known_mailbox_def normalize_target_fixed)
qed

lemma known_step: "control_step s a s' \<Longrightarrow> known_mailbox s' b = known_mailbox s b"
  by (simp add: control_step_def known_mailbox_def)

lemma require_target_run: "known_mailbox s a \<Longrightarrow> require_mailbox_target a s = (Inr a, s)"
  by (simp add: require_mailbox_target_def bureau_run known_mailbox_def)

lemma read_summary_run: "owner_name_ok a \<Longrightarrow> \<exists>r. read_mailbox_summary a s = (Inr r, s)"
  by (simp add: read_mailbox_summary_def store_runs split: option.split)

lemma agent_queue_summary_run: "known_mailbox s a \<Longrightarrow> \<exists>p. agent_queue_summary a s = (Inr p, s)"
  using read_summary_run [OF known_mailbox_owner, of s a s] require_target_run [of s a] by (auto simp: agent_queue_summary_def)

lemma active_event_run: "owner_name_ok a \<Longrightarrow> \<exists>p. active_event f a m events s = (Inr p, s)"
  by (auto simp: active_event_def event_payload_def bureau_run store_runs Let_def split: option.splits)

lemma agent_queue_run:
  assumes ok: "bureau_ok s" "clock_ok s" and a: "known_mailbox s a"
  obtains s' p xs where "control_agent_queue f a s = (Inr p, s')" "control_step s a s'"
    "pend s' a = dropWhile (\<lambda>e. \<not> live s e) (pend s a)" "jget p ''queued_events'' = JList (map JObj xs)"
    "map (\<lambda>x. jget x ''inbound_event_id'') xs = map (JStr \<circ> eid) (filter (live s) (pend s a))"
proof -
  have o: "owner_name_ok a" by (rule known_mailbox_owner [OF a])
  obtain r where r: "read_mailbox_summary a s = (Inr r, s)" using read_summary_run [OF o] by blast
  obtain s' xs where s': "control_pending_events a s = (Inr xs, s')" "control_step s a s'"
    "pend s' a = dropWhile (\<lambda>e. \<not> live s e) (pend s a)"
    "map (\<lambda>x. jget x ''inbound_event_id'') xs = map (JStr \<circ> eid) (filter (live s) (pend s a))"
    by (rule control_pending_events_run [OF ok o])
  obtain q where q: "agent_queue_summary a s' = (Inr q, s')"
    using agent_queue_summary_run [of s' a] a known_step [OF s'(2)] by auto
  obtain act where act: "active_event f a (sr_mailbox r) xs s' = (Inr act, s')" using active_event_run [OF o] by blast
  show thesis
    by (rule that [OF _ s'(2,3) _ s'(4)])
      (simp_all add: control_agent_queue_def agent_queue_detail_def require_target_run [OF a] r s'(1) q act Let_def
        case_prod_beta, simp add: jget_def)
qed

lemma opt_hd_filter: "(case dropWhile (\<lambda>e. \<not> P e) xs of [] \<Rightarrow> None | e # _ \<Rightarrow> Some e) = opt_hd (filter P xs)"
  by (induction xs) auto

lemma next_head_run:
  assumes ok: "bureau_ok s" "clock_ok s" and a: "owner_name_ok a"
  obtains s' where "next_head_event a s = (Inr (opt_hd (filter (live s) (pend s a))), s')" "control_step s a s'"
    "pend s' a = dropWhile (\<lambda>e. \<not> live s e) (pend s a)"
proof -
  obtain s' where s': "pending_event_records a s = (Inr (filter (live s) (pend s a)), s')" "control_step s a s'"
    "pend s' a = dropWhile (\<lambda>e. \<not> live s e) (pend s a)" by (rule pending_event_records_run [OF assms])
  have "head_pending_event a s' = (Inr (opt_hd (filter (live s) (pend s a))), s')"
    using a s'(3) opt_hd_filter [of "live s" "pend s a"] by (simp add: query_runs opt_hd_def)
  then have "next_head_event a s = (Inr (opt_hd (filter (live s) (pend s a))), s')"
    using s'(1) by (cases "filter (live s) (pend s a)") (simp_all add: next_head_event_def)
  with s' that show thesis by blast
qed

section \<open>Acknowledging\<close>

lemma kernel_step_trans: "kernel_step s a s1 \<Longrightarrow> kernel_step s1 a s2 \<Longrightarrow> kernel_step s a s2"
  by (simp add: kernel_step_def elsewhere_def same_ids_def)

lemma ack_step:
  assumes inv: "mailbox_inv s a" and nb: "nonblank t" and p: "pend s a = c # bs" and ty: "ev_event_type c = TASK_REPLY"
  obtains r s' where "ack_reply a (eid c) (Some t) (Some t) s = (Inr (Some r), s')" "kernel_step s a s'" "pend s' a = bs"
    "eid r = eid c" "ev_message_id r = ev_message_id c"
proof -
  obtain r s1 s' where r: "ack_reply a (eid c) (Some t) (Some t) s = (Inr (Some r), s')"
    "s1 = s \<or> committed s a (delivered c t) (Some (claim_lease s a (eid c) t)) s1"
    "pend s1 a = (if ev_status c = IE_DELIVERING then c else delivered c t) # bs"
    "r = finished (hd (pend s1 a)) IE_CONSUMED t"
    "committed s1 a r (released (ks_leases s1 a) (eid c)) s'"
    using ack_accepted [OF inv nb nb p ty] by blast
  have fields: "eid (delivered c t) = eid c" "ev_message_id (delivered c t) = ev_message_id c"
    by (simp_all add: delivered_def)
  define c' where "c' = (if ev_status c = IE_DELIVERING then c else delivered c t)"
  have c': "pend s1 a = [] @ c' # bs" "eid c' = eid c" "ev_message_id c' = ev_message_id c" "r = finished c' IE_CONSUMED t"
    using r(3,4) fields by (simp_all add: c'_def)
  have s1: "kernel_step s a s1"
    using r(2) kernel_step_refl [OF inv] step_committed [of s a "delivered c t" _ s1] p fields by auto
  have inv1: "mailbox_inv s1 a" using s1 by (simp add: kernel_step_def)
  have er: "eid r = eid c" "ev_message_id r = ev_message_id c" using c' by (simp_all add: finished_def)
  have s2: "kernel_step s1 a s'" using r(5) by (rule step_committed) (simp add: er c'(1,2))
  have "pend s' a = bs"
    using committed_fields(1) [OF r(5)] terminal_put(1) [OF inv1 c'(1), of IE_CONSUMED r t "released (ks_leases s1 a) (eid c)"] c' by simp
  with that [OF r(1) kernel_step_trans [OF s1 s2]] er show thesis by simp
qed

text \<open>The caller asks for the head, by its id or by none\<close>
definition asks_for :: "string option \<Rightarrow> inbound_event \<Rightarrow> bool" where
  "asks_for i e \<longleftrightarrow> py_strip (str_or_empty i) \<in> {[], eid e}"

lemma head_event_direct:
  assumes "owner_name_ok a" "pend s a = e # es" "asks_for i e" "ev_event_type e \<in> {TASK_REQUEST, TASK_REPLY}"
  shows "head_event a i s = (if ev_event_type e = TASK_REQUEST then Inr e else validate_reply_head e, s)"
  using assms by (auto simp: head_event_def query_runs asks_for_def Let_def)

lemma after_ack_run:
  assumes ok: "bureau_ok s" "clock_ok s" and a: "known_mailbox s a"
  obtains s' mailbox where "control_step s a s'" "pend s' a = dropWhile (\<lambda>e. \<not> live s e) (pend s a)"
    "\<And>g :: payload \<Rightarrow> inbound_event option \<Rightarrow> payload.
       py_bind (control_agent_queue f a) (\<lambda>m. py_bind (next_head_event a) (\<lambda>n. py_return (g m n))) s =
       (Inr (g mailbox (opt_hd (filter (live s) (pend s a)))), s')"
proof -
  obtain s1 m where s1: "control_agent_queue f a s = (Inr m, s1)" "control_step s a s1"
    "pend s1 a = dropWhile (\<lambda>e. \<not> live s e) (pend s a)" by (rule agent_queue_run [OF ok a, of f])
  obtain s2 where s2: "next_head_event a s1 = (Inr (opt_hd (filter (live s1) (pend s1 a))), s2)" "control_step s1 a s2"
    "pend s2 a = dropWhile (\<lambda>e. \<not> live s1 e) (pend s1 a)"
    by (rule next_head_run [OF control_stepD [OF s1(2)] known_mailbox_owner [OF a]])
  have "dropWhile (\<lambda>e. \<not> live s e) (dropWhile (\<lambda>e. \<not> live s e) xs) = dropWhile (\<lambda>e. \<not> live s e) xs" for xs
    by (rule dropWhile_idem)
  then have "pend s2 a = dropWhile (\<lambda>e. \<not> live s e) (pend s a)"
    using s2(3) s1(3) control_step_rows(1) [OF s1(2)] by simp
  moreover have "filter (live s1) (pend s1 a) = filter (live s) (pend s a)"
    using s1(3) control_step_rows(1) [OF s1(2)] by (simp add: filter_dropWhile)
  ultimately show thesis
    using that [OF control_step_trans [OF s1(2) s2(2)], of m] s1(1) s2(1) by simp
qed

text \<open>A reply at the head that no automatic delivery has taken over\<close>
definition ackable_reply :: "'z bureau_state_scheme \<Rightarrow> inbound_event \<Rightarrow> reply_record \<Rightarrow> bool" where
  "ackable_reply s e r \<longleftrightarrow> ev_event_type e = TASK_REPLY \<and> event_reply s e = Some r \<and>
     \<not> opt_truthy (delivery_job_id_from_payload (ev_payload_ref e))"

lemma ack_reply_run:
  assumes ok: "bureau_ok s" "clock_ok s" and a: "normalize_mailbox_target (Some name) (bs_known_mailboxes s) = Some a"
    and p: "pend s a = e # es" and i: "asks_for i e" and r: "ackable_reply s e r"
  obtains s' c m where "control_ack_reply f name i s =
      (Inr (ack_payload f a c (event_attempt s e) r (opt_hd (filter (live s) es)) m), s')" "control_step s a s'"
    "pend s' a = dropWhile (\<lambda>e. \<not> live s e) es" "eid c = eid e" "ev_message_id c = ev_message_id e"
proof -
  have k: "known_mailbox s a" and o: "owner_name_ok a" using target_is_known [OF a] known_mailbox_owner by blast+
  have tg: "require_mailbox_target name s = (Inr a, s)" by (simp add: require_mailbox_target_def bureau_run a)
  have v: "validate_reply_head e = Inr e" "ev_event_type e = TASK_REPLY"
    using r by (auto simp: ackable_reply_def validate_reply_head_def opt_truthy_def split: option.splits)
  then have h: "head_event a i s = (Inr e, s)" using head_event_direct [OF o p i] by simp
  have t: "control_step s a (tick s)" by (rule tick_step [OF ok])
  have nb: "nonblank (ks_clock s (ks_tick s))" using ok(2) by (simp add: clock_ok_def)
  obtain c s1 where s1: "ack_reply a (eid e) (Some (ks_clock s (ks_tick s))) (Some (ks_clock s (ks_tick s))) (tick s) = (Inr (Some c), s1)"
    "kernel_step (tick s) a s1" "pend s1 a = es" "eid c = eid e" "ev_message_id c = ev_message_id e"
    by (rule ack_step [OF bureau_okD(1) [OF control_stepD(1) [OF t] o] nb, of e es]) (use p v in simp_all)
  have c1: "control_step s a s1"
    by (rule control_step_trans [OF t kernel_control_step [OF s1(2) control_stepD [OF t]]])
  have k1: "known_mailbox s1 a" using k known_step [OF c1] by simp
  obtain s2 m where s2: "control_step s1 a s2" "pend s2 a = dropWhile (\<lambda>e. \<not> live s1 e) (pend s1 a)"
    "\<And>g :: payload \<Rightarrow> inbound_event option \<Rightarrow> payload.
       py_bind (control_agent_queue f a) (\<lambda>m. py_bind (next_head_event a) (\<lambda>n. py_return (g m n))) s1 =
       (Inr (g m (opt_hd (filter (live s1) (pend s1 a)))), s2)"
    by (rule after_ack_run [OF control_stepD [OF c1] k1, of f]) blast
  note l = control_step_rows(1) [OF c1]
  have "control_ack_reply f name i s =
      (Inr (ack_payload f a c (event_attempt s e) r (opt_hd (filter (live s) es)) m), s2)"
    using r v(2) s2(3) [of "\<lambda>m n. ack_payload f a c (event_attempt s e) r n m"] s1(3)
    by (simp add: control_ack_reply_def tg h bureau_run ackable_reply_def read_clock_run s1(1) l)
  then show thesis using that control_step_trans [OF c1 s2(1)] s2(2) s1(3-5) l by simp
qed

text \<open>A request whose attempt is over, or lost\<close>
definition ackable_request :: "'z bureau_state_scheme \<Rightarrow> inbound_event \<Rightarrow> bool" where
  "ackable_request s e \<longleftrightarrow> ev_event_type e = TASK_REQUEST \<and>
     (\<forall>x. event_attempt s e = Some x \<longrightarrow> att_attempt_state x \<in> set TERMINAL_ATTEMPT_STATES)"

lemma finish_head_run:
  assumes ok: "bureau_ok s" "clock_ok s" and o: "owner_name_ok a" and p: "pend s a = e # es"
    and st: "st \<in> set TERMINAL_EVENT_STATES"
  obtains s' where "mark_terminal a (eid e) st (Some (ks_clock s (ks_tick s))) (tick s) =
      (Inr (Some (finished e st (ks_clock s (ks_tick s)))), s')" "control_step s a s'" "pend s' a = es"
proof -
  have t: "control_step s a (tick s)" by (rule tick_step [OF ok])
  have nb: "nonblank (ks_clock s (ks_tick s))" using ok(2) by (simp add: clock_ok_def)
  have inv: "mailbox_inv (tick s) a" by (rule bureau_okD(1) [OF control_stepD(1) [OF t] o])
  obtain r s' where r: "mark_terminal a (eid e) st (Some (ks_clock s (ks_tick s))) (tick s) = (Inr r, s')" "control_step s a s'"
    "pend s' a = q_remove (eid e) (pend s a)" by (rule finish_now_run [OF ok o st, of "eid e"]) blast
  have "r = Some (finished e st (ks_clock s (ks_tick s)))"
    using mark_terminal_pending [OF inv, of "[]" e es st "ks_clock s (ks_tick s)"] p st nb r(1) by auto
  with r q_remove_head [OF p] that show thesis by simp
qed

lemma ack_request_run:
  assumes ok: "bureau_ok s" "clock_ok s" and a: "normalize_mailbox_target (Some name) (bs_known_mailboxes s) = Some a"
    and p: "pend s a = e # es" and i: "asks_for i e" and r: "ackable_request s e"
  obtains s' q where "control_ack_reply f name i s = (Inr q, s')" "control_step s a s'"
    "pend s' a = dropWhile (\<lambda>e. \<not> live s e) es" "jget q ''acknowledged_inbound_event_id'' = JStr (eid e)" "jget q ''reply'' = JStr []"
    "jget q ''next_inbound_event_id'' = jopt (map_option eid (opt_hd (filter (live s) es)))"
proof -
  have k: "known_mailbox s a" and o: "owner_name_ok a" using target_is_known [OF a] known_mailbox_owner by blast+
  have tg: "require_mailbox_target name s = (Inr a, s)" by (simp add: require_mailbox_target_def bureau_run a)
  have ty: "ev_event_type e = TASK_REQUEST" using r by (simp add: ackable_request_def)
  then have h: "head_event a i s = (Inr e, s)" using head_event_direct [OF o p i] by simp
  define st where "st = (if map_option att_attempt_state (event_attempt s e) = Some ATT_CANCELLED \<and> ev_status e \<in> {IE_CREATED, IE_QUEUED}
    then IE_ABANDONED else IE_CONSUMED)"
  define c where "c = finished e st (ks_clock s (ks_tick s))"
  obtain s1 where s1: "mark_terminal a (eid e) st (Some (ks_clock s (ks_tick s))) (tick s) = (Inr (Some c), s1)"
    "control_step s a s1" "pend s1 a = es"
    unfolding c_def by (rule finish_head_run [OF ok o p, of st]) (auto simp: st_def TERMINAL_EVENT_STATES_def)
  have k1: "known_mailbox s1 a" using k known_step [OF s1(2)] by simp
  obtain s2 m where s2: "control_step s1 a s2" "pend s2 a = dropWhile (\<lambda>e. \<not> live s1 e) (pend s1 a)"
    "\<And>g :: payload \<Rightarrow> inbound_event option \<Rightarrow> payload.
       py_bind (control_agent_queue f a) (\<lambda>m. py_bind (next_head_event a) (\<lambda>n. py_return (g m n))) s1 =
       (Inr (g m (opt_hd (filter (live s1) (pend s1 a)))), s2)"
    by (rule after_ack_run [OF control_stepD [OF s1(2)] k1, of f]) blast
  note l = control_step_rows(1) [OF s1(2)]
  have fin: "(if map_option att_attempt_state (event_attempt s e) = Some ATT_CANCELLED \<and> ev_status e \<in> {IE_CREATED, IE_QUEUED}
      then kernel_abandon a (eid e) (Some (ks_clock s (ks_tick s)))
      else kernel_consume a (eid e) (Some (ks_clock s (ks_tick s)))) (tick s) = (Inr (Some c), s1)"
    using s1(1) by (auto simp: st_def kernel_abandon_def kernel_consume_def split: if_splits)
  have "control_ack_reply f name i s = ack_request_head f a e (event_attempt s e) s"
    using r by (cases "event_attempt s e")
      (simp_all add: control_ack_reply_def tg h ty ack_terminal_task_request_def bureau_run ackable_request_def)
  also have "\<dots> = (Inr (ack_request_payload a c (event_attempt s e) (opt_hd (filter (live s) es)) m), s2)"
    using fin s2(3) [of "\<lambda>m n. ack_request_payload a c (event_attempt s e) n m"] s1(3) l
    by (simp add: ack_request_head_def read_clock_run)
  finally show thesis
    using that control_step_trans [OF s1(2) s2(1)] s2(2) s1(3) l by (simp add: ack_request_payload_def c_def)
qed

section \<open>Bureaus to evaluate on\<close>

text \<open>The bureau with one request, and the same after the rows of a failed attempt were written but not the rest\<close>
definition bureau1_crashed :: bureau_state where
  "bureau1_crashed = bureau1\<lparr>bs_attempts := bs_attempts bureau1 @ map (\<lambda>a. settled_attempt a JS_FAILED ''t2'') (bs_attempts bureau1)\<rparr>"

lemma demo_clock_nonblank: "nonblank (demo_clock n)"
proof -
  have "stripped (demo_clock n)" by (simp add: stripped_def demo_clock_def py_isspace_def)
  then show ?thesis by (simp add: nonblank_def) (simp add: demo_clock_def)
qed

lemma bureau1_event:
  obtains a e where "bureau_ok bureau1" "\<forall>n. nonblank (ks_clock bureau1 n)" "bs_attempts bureau1 = [a]" "pend bureau1 ''agent1'' = [e]"
    "ev_event_type e = TASK_REQUEST" "event_attempt bureau1 e = Some a" "att_attempt_state a = ATT_PENDING" "live bureau1 e"
    "bs_known_mailboxes bureau1 = [''agent1'', ''agent2'']" "bureau_ok bureau1_crashed"
    "event_attempt bureau1_crashed e = Some (settled_attempt a JS_FAILED ''t2'')"
proof -
  have ok: "bureau_ok bureau1" using bureau_reachable_ok [OF bureau1_reachable] by simp
  obtain a m e where r: "bs_attempts bureau1 = [a]" "bs_messages bureau1 = [m]" "att_message_id a = msg_message_id m"
    "att_job_id a = ''job_1''" "ev_event_type e = TASK_REQUEST" "ev_attempt_id e = Some (att_attempt_id a)"
    "pend bureau1 ''agent1'' = [e]" "ev_message_id e = msg_message_id m" "att_attempt_state a = ATT_PENDING"
    "ks_clock bureau1 = demo_clock" "bs_known_mailboxes bureau1 = [''agent1'', ''agent2'']"
    by (rule bureau1_rows)
  have va: "valid_attempt a" using ok r(1) by (auto simp: bureau_ok_def rows_ok_def)
  then have ne: "att_attempt_id a \<noteq> []" by (simp add: valid_attempt_def)
  have ea: "event_attempt bureau1 e = Some a"
    using r(1,6) ne by (simp add: event_attempt_def opt_truthy_def str_or_empty_def find_last_in_def)
  have "attempt_of_job bureau1 ''job_1'' = Some a" using r(1,4) by (simp add: find_last_in_def)
  then have "bureau_ok (bureau1\<lparr>bs_attempts := bs_attempts bureau1 @ [settled_attempt a JS_FAILED ''t2'']\<rparr>)"
    by (rule with_attempt_ok [OF ok]) (use va in \<open>auto simp: settled_attempt_def valid_attempt_def\<close>)
  then have okc: "bureau_ok bureau1_crashed" by (simp add: bureau1_crashed_def r(1))
  have "event_attempt bureau1_crashed e = Some (settled_attempt a JS_FAILED ''t2'')"
    using r(1,6) ne by (simp add: event_attempt_def opt_truthy_def str_or_empty_def find_last_in_def bureau1_crashed_def settled_attempt_def)
  moreover have "live bureau1 e"
    using r(2,5,8,9) ea by (simp add: live_def find_last_in_def TERMINAL_ATTEMPT_STATES_def)
  ultimately show thesis
    using that [OF ok _ r(1) r(7) r(5) ea r(9)] r(10,11) okc demo_clock_nonblank by simp
qed

lemma demo_target: "normalize_mailbox_target (Some ''agent1'') [''agent1'', ''agent2''] = Some ''agent1''"
  by code_simp

lemma crashed_event:
  assumes "pend bureau1 ''agent1'' = [e]" "ev_event_type e = TASK_REQUEST" "event_attempt bureau1_crashed e = Some (settled_attempt a JS_FAILED ''t2'')"
  shows "pend bureau1_crashed ''agent1'' = [e]" "ackable_request bureau1_crashed e" "\<not> live bureau1_crashed e"
    "ks_clock bureau1_crashed = ks_clock bureau1" "bs_known_mailboxes bureau1_crashed = bs_known_mailboxes bureau1"
  using assms by (simp_all add: ackable_request_def live_def settled_attempt_def attempt_state_for_status_def TERMINAL_ATTEMPT_STATES_def)
    (simp_all add: bureau1_crashed_def)

section \<open>Properties of the control service\<close>

text \<open>
  C15. The loop over stale heads ends. Run on a mailbox of an orderly bureau, whatever its rows, it returns
  after at most one round per pending event: it has abandoned exactly the events before the first live one, and
  touched no other mailbox and no message, attempt or reply. The fuel it is given is always enough.
\<close>
theorem stale_heads_are_discarded:
  assumes "bureau_ok s" "\<forall>n. nonblank (ks_clock s n)" "owner_name_ok a" "length (pend s a) < fuel"
  shows "\<exists>s'. discard_stale_head_events fuel a s = (Inr (), s') \<and> discard_stale_heads a s = (Inr (), s') \<and>
    pend s' a = dropWhile (\<lambda>e. \<not> live s e) (pend s a) \<and> (\<forall>b. b \<noteq> a \<longrightarrow> pend s' b = pend s b) \<and>
    bs_messages s' = bs_messages s \<and> bs_attempts s' = bs_attempts s \<and> bs_replies s' = bs_replies s"
proof -
  have ok: "clock_ok s" using assms(2) by (simp add: clock_ok_def)
  obtain s' where "discard_stale_heads a s = (Inr (), s')" "control_step s a s'"
    "pend s' a = dropWhile (\<lambda>e. \<not> live s e) (pend s a)" "discard_stale_head_events fuel a s = (Inr (), s')"
    using discard_stale_heads_run [OF assms(1) ok assms(3)] assms(4) by metis
  then show ?thesis by (intro exI [of _ s']) (simp add: control_step_def)
qed

theorem stale_heads_are_discarded_witness:
  "\<exists>e s'. pend bureau1_crashed ''agent1'' = [e] \<and> discard_stale_head_events 2 ''agent1'' bureau1_crashed = (Inr (), s') \<and> pend s' ''agent1'' = []"
proof -
  obtain a e where b: "\<forall>n. nonblank (ks_clock bureau1 n)" "pend bureau1 ''agent1'' = [e]" "ev_event_type e = TASK_REQUEST"
    "bureau_ok bureau1_crashed" "event_attempt bureau1_crashed e = Some (settled_attempt a JS_FAILED ''t2'')" by (rule bureau1_event)
  note c = crashed_event [OF b(2,3,5)]
  show ?thesis
    using stale_heads_are_discarded [OF b(4) _ demo_owner, of 2] b(1) c by auto
qed

text \<open>
  C16. An acknowledgement takes the head. For a known mailbox whose oldest pending event is a reply on file that no
  automatic delivery has taken over, or a request whose attempt is over or lost, asking for it by its id or
  by none succeeds: the event leaves the mailbox together with the stale events behind it, the payload names
  it, carries the text of the reply and points to the next live event, and nothing else changes.
\<close>
theorem ack_takes_the_head:
  assumes "bureau_ok s" "\<forall>n. nonblank (ks_clock s n)" "normalize_mailbox_target (Some name) (bs_known_mailboxes s) = Some a"
    and "pend s a = e # es" "asks_for i e" "ackable_request s e \<or> (\<exists>r. ackable_reply s e r)"
  shows "\<exists>p s'. control_ack_reply float_of name i s = (Inr p, s') \<and>
    pend s' a = dropWhile (\<lambda>e. \<not> live s e) es \<and> (\<forall>b. b \<noteq> a \<longrightarrow> pend s' b = pend s b) \<and>
    jget p ''acknowledged_inbound_event_id'' = JStr (eid e) \<and>
    jget p ''next_inbound_event_id'' = jopt (map_option eid (opt_hd (filter (live s) es))) \<and>
    jget p ''reply'' = JStr (case event_reply s e of Some r \<Rightarrow> rep_reply r | None \<Rightarrow> []) \<and>
    bs_messages s' = bs_messages s \<and> bs_attempts s' = bs_attempts s \<and> bs_replies s' = bs_replies s"
proof -
  have ok: "clock_ok s" using assms(2) by (simp add: clock_ok_def)
  show ?thesis
  proof (cases "ackable_request s e")
    case True
    then have "event_reply s e = None" by (simp add: ackable_request_def event_reply_def)
    moreover obtain s' q where "control_ack_reply float_of name i s = (Inr q, s')" "control_step s a s'"
      "pend s' a = dropWhile (\<lambda>e. \<not> live s e) es" "jget q ''acknowledged_inbound_event_id'' = JStr (eid e)" "jget q ''reply'' = JStr []"
      "jget q ''next_inbound_event_id'' = jopt (map_option eid (opt_hd (filter (live s) es)))"
      by (rule ack_request_run [OF assms(1) ok assms(3-5) True, of float_of])
    ultimately show ?thesis by (intro exI [of _ q] exI [of _ s']) (simp add: control_step_def)
  next
    case False
    then obtain r where r: "ackable_reply s e r" using assms(6) by blast
    obtain s' c m where "control_ack_reply float_of name i s =
        (Inr (ack_payload float_of a c (event_attempt s e) r (opt_hd (filter (live s) es)) m), s')" "control_step s a s'"
      "pend s' a = dropWhile (\<lambda>e. \<not> live s e) es" "eid c = eid e"
      by (rule ack_reply_run [OF assms(1) ok assms(3-5) r, of float_of])
    then show ?thesis
      using r by (intro exI [of _ "ack_payload float_of a c (event_attempt s e) r (opt_hd (filter (live s) es)) m"] exI [of _ s'])
        (simp add: control_step_def ack_payload_def ackable_reply_def)
  qed
qed

theorem ack_takes_the_head_witness:
  "\<exists>e p s'. pend bureau1_crashed ''agent1'' = [e] \<and> control_ack_reply Some ''agent1'' None bureau1_crashed = (Inr p, s') \<and>
    pend s' ''agent1'' = [] \<and> jget p ''acknowledged_inbound_event_id'' = JStr (eid e)"
proof -
  obtain a e where b: "\<forall>n. nonblank (ks_clock bureau1 n)" "pend bureau1 ''agent1'' = [e]" "ev_event_type e = TASK_REQUEST"
    "bs_known_mailboxes bureau1 = [''agent1'', ''agent2'']" "bureau_ok bureau1_crashed"
    "event_attempt bureau1_crashed e = Some (settled_attempt a JS_FAILED ''t2'')" by (rule bureau1_event)
  note c = crashed_event [OF b(2,3,6)]
  have "asks_for None e" by (simp add: asks_for_def str_or_empty_def)
  then show ?thesis
    using ack_takes_the_head [OF b(5) _ _ c(1), of "''agent1''" None Some] b(1,4) c(2,4,5) demo_target c(1) by auto
qed

text \<open>
  C17. What is not acknowledged. A request whose attempt is active, a reply that automatic delivery has taken over
  and a reply event without its reply are refused with a \<open>ValueError\<close>, and the state is as it was.
\<close>
theorem ack_refuses:
  assumes "normalize_mailbox_target (Some name) (bs_known_mailboxes s) = Some a" "pend s a = e # es" "asks_for i e"
    and "(ev_event_type e = TASK_REQUEST \<and> event_attempt s e = Some x \<and> att_attempt_state x \<notin> set TERMINAL_ATTEMPT_STATES) \<or>
      (ev_event_type e = TASK_REPLY \<and> (opt_truthy (delivery_job_id_from_payload (ev_payload_ref e)) \<or> event_reply s e = None))"
  shows "\<exists>t. control_ack_reply float_of name i s = (Inl (ValueError t), s)"
proof -
  have o: "owner_name_ok a" using normalize_target_ok [OF assms(1)] by simp
  have tg: "require_mailbox_target name s = (Inr a, s)" by (simp add: require_mailbox_target_def bureau_run assms(1))
  have h: "head_event a i s = (if ev_event_type e = TASK_REQUEST then Inr e else validate_reply_head e, s)"
    using head_event_direct [OF o assms(2,3)] assms(4) by blast
  consider (active) "ev_event_type e = TASK_REQUEST" "event_attempt s e = Some x" "att_attempt_state x \<notin> set TERMINAL_ATTEMPT_STATES"
    | (taken) d where "ev_event_type e = TASK_REPLY" "delivery_job_id_from_payload (ev_payload_ref e) = Some d" "d \<noteq> []"
    | (lost) "ev_event_type e = TASK_REPLY" "delivery_job_id_from_payload (ev_payload_ref e) \<in> {None, Some []}" "event_reply s e = None"
    using assms(4) by (cases "delivery_job_id_from_payload (ev_payload_ref e)")
      (auto simp: opt_truthy_def)
  then show ?thesis
    by cases (auto simp: control_ack_reply_def tg h bureau_run ack_terminal_task_request_def validate_reply_head_def)
qed

theorem ack_refuses_witness:
  "\<exists>t. control_ack_reply Some ''agent1'' None bureau1 = (Inl (ValueError t), bureau1)"
proof -
  obtain a e where b: "pend bureau1 ''agent1'' = [e]" "ev_event_type e = TASK_REQUEST" "event_attempt bureau1 e = Some a"
    "att_attempt_state a = ATT_PENDING" "bs_known_mailboxes bureau1 = [''agent1'', ''agent2'']" by (rule bureau1_event)
  have "asks_for None e" by (simp add: asks_for_def str_or_empty_def)
  then show ?thesis
    using ack_refuses [of "''agent1''" bureau1 "''agent1''" e "[]" None a Some] b demo_target
    by (simp add: TERMINAL_ATTEMPT_STATES_def)
qed

text \<open>
  C18. The queue view lists the live events. Reading the queue of a known mailbox never raises; it lists the live
  pending events in the order of the mailbox, and a second reading lists the same.
\<close>
theorem queue_view_lists_live_events:
  assumes "bureau_ok s" "\<forall>n. nonblank (ks_clock s n)" "known_mailbox s a"
  shows "\<exists>p p' events events' s' s''. control_agent_queue float_of a s = (Inr p, s') \<and> control_agent_queue float_of a s' = (Inr p', s'') \<and>
    jget p ''queued_events'' = JList (map JObj events) \<and> jget p' ''queued_events'' = JList (map JObj events') \<and>
    map (\<lambda>x. jget x ''inbound_event_id'') events = map (\<lambda>e. JStr (eid e)) (filter (live s) (pend s a)) \<and>
    map (\<lambda>x. jget x ''inbound_event_id'') events' = map (\<lambda>x. jget x ''inbound_event_id'') events"
proof -
  have ok: "clock_ok s" using assms(2) by (simp add: clock_ok_def)
  obtain s' p xs where r: "control_agent_queue float_of a s = (Inr p, s')" "control_step s a s'"
    "pend s' a = dropWhile (\<lambda>e. \<not> live s e) (pend s a)" "jget p ''queued_events'' = JList (map JObj xs)"
    "map (\<lambda>x. jget x ''inbound_event_id'') xs = map (JStr \<circ> eid) (filter (live s) (pend s a))"
    by (rule agent_queue_run [OF assms(1) ok assms(3), of float_of])
  have k: "known_mailbox s' a" using assms(3) known_step [OF r(2)] by simp
  obtain s'' p' ys where q: "control_agent_queue float_of a s' = (Inr p', s'')" "jget p' ''queued_events'' = JList (map JObj ys)"
    "map (\<lambda>x. jget x ''inbound_event_id'') ys = map (JStr \<circ> eid) (filter (live s') (pend s' a))"
    by (rule agent_queue_run [OF control_stepD [OF r(2)] k, of float_of])
  have "filter (live s') (pend s' a) = filter (live s) (pend s a)"
    using r(3) control_step_rows(1) [OF r(2)] by (simp add: filter_dropWhile)
  with r q show ?thesis
    by (intro exI [of _ p] exI [of _ p'] exI [of _ xs] exI [of _ ys] exI [of _ s'] exI [of _ s'']) (simp add: comp_def)
qed

theorem queue_view_lists_live_events_witness:
  "\<exists>e p events s'. pend bureau1 ''agent1'' = [e] \<and> control_agent_queue Some ''agent1'' bureau1 = (Inr p, s') \<and>
    jget p ''queued_events'' = JList (map JObj events) \<and> map (\<lambda>x. jget x ''inbound_event_id'') events = [JStr (eid e)]"
proof -
  obtain a e where b: "bureau_ok bureau1" "\<forall>n. nonblank (ks_clock bureau1 n)" "pend bureau1 ''agent1'' = [e]" "live bureau1 e"
    "bs_known_mailboxes bureau1 = [''agent1'', ''agent2'']" by (rule bureau1_event)
  have "known_mailbox bureau1 ''agent1''" using b(5) demo_target by (simp add: known_mailbox_def)
  note view = queue_view_lists_live_events [OF b(1,2) this, of Some]
  have "map (\<lambda>e. JStr (eid e)) (filter (live bureau1) (pend bureau1 ''agent1'')) = [JStr (eid e)]" using b(3,4) by simp
  with view b(3) show ?thesis by metis
qed

end
