(* ===== verification/Completion_Detectors.thy ===== *)
theory Completion_Detectors
  imports Completion_Models
begin

text \<open>
  The five completion detectors (\<open>lib/completion/detectors\<close>). A detector is an object with the
  class it was built from, its settle window (used by one class), the request it is bound to, its
  \<open>_state\<close> and its \<open>_decision\<close>; its methods are computations on that record.
\<close>

record request_context =
  rq_req_id :: string
  rq_agent_name :: string
  rq_provider :: string
  rq_timeout_s :: rat
  rq_anchor_text :: "string option"
  rq_poll_interval_s :: rat

definition CompletionRequestContext :: "request_context \<Rightarrow> request_context result" where
  "CompletionRequestContext r =
     rbind (rcheck (py_strip (rq_req_id r) = []) (CompletionValidationError ''req_id cannot be empty'')) (\<lambda>_.
     rbind (normalize_agent_name (rq_agent_name r)) (\<lambda>agent_name.
     rbind (provider_name (rq_provider r)) (\<lambda>provider.
     rbind (rcheck (rq_timeout_s r \<le> 0) (CompletionValidationError ''timeout_s must be positive'')) (\<lambda>_.
     rbind (rcheck (rq_poll_interval_s r \<le> 0) (CompletionValidationError ''poll_interval_s must be positive'')) (\<lambda>_.
     Inr (r\<lparr>rq_agent_name := agent_name, rq_provider := provider\<rparr>))))))"

record detector =
  dt_family :: completion_family
  dt_settle_window_s :: rat
  dt_request_ctx :: "request_context option"
  dt_state :: completion_state
  dt_decision :: completion_decision

type_synonym 'a det = "(detector, 'a) py"

section \<open>The base class\<close>

definition new_detector :: "completion_family \<Rightarrow> rat \<Rightarrow> detector result" where
  "new_detector family window = rbind (pending_decision None) (\<lambda>d.
     Inr \<lparr>dt_family = family, dt_settle_window_s = window, dt_request_ctx = None,
       dt_state = CompletionState None, dt_decision = d\<rparr>)"

definition det_bind :: "request_context \<Rightarrow> completion_cursor \<Rightarrow> unit det" where
  "det_bind request_ctx baseline =
     py_then (py_modify (\<lambda>d. d\<lparr>dt_request_ctx := Some request_ctx, dt_state := CompletionState (Some baseline)\<rparr>))
     (py_bind (py_lift (pending_decision (Some baseline))) (\<lambda>dec.
      py_modify (\<lambda>d. d\<lparr>dt_decision := dec\<rparr>)))"

definition update_state :: "(completion_state \<Rightarrow> completion_state) \<Rightarrow> unit det" where
  "update_state f = py_modify (\<lambda>d. d\<lparr>dt_state := f (dt_state d)\<rparr>)"

definition require_bound :: "unit det" where
  "require_bound = py_bind (py_gets dt_request_ctx) (\<lambda>r. case r of
       None \<Rightarrow> py_raise (CompletionValidationError ''detector must be bound before use'')
     | Some _ \<Rightarrow> py_return ())"

definition sync_cursor :: "completion_cursor option \<Rightarrow> unit det" where
  "sync_cursor cursor = (case cursor of None \<Rightarrow> py_return ()
     | Some c \<Rightarrow> update_state (\<lambda>s. s\<lparr>st_latest_cursor := Some c\<rparr>))"

definition common_kind_state :: "completion_item_kind \<Rightarrow> completion_state \<Rightarrow> completion_state" where
  "common_kind_state k s = (case k of
       ANCHOR_SEEN \<Rightarrow> s\<lparr>st_anchor_seen := True\<rparr>
     | TOOL_CALL \<Rightarrow> s\<lparr>st_tool_active := True\<rparr>
     | TOOL_RESULT \<Rightarrow> s\<lparr>st_tool_active := False\<rparr>
     | SESSION_ROTATE \<Rightarrow> s\<lparr>st_anchor_seen := False, st_reply_started := False, st_reply_stable := False,
         st_tool_active := False, st_last_reply_hash := None, st_last_reply_at := None,
         st_stable_since := None\<rparr>
     | _ \<Rightarrow> s)"

definition consume_common_item :: "completion_item \<Rightarrow> unit det" where
  "consume_common_item item =
     py_then (sync_cursor (Some (it_cursor item)))
     (update_state (\<lambda>s.
        let s1 = common_kind_state (it_kind item) s;
            s2 = (if first_non_empty (it_payload item) [''subagent_id'', ''subagent_name''] \<noteq> None
                  then s1\<lparr>st_subagent_activity_seen := True\<rparr> else s1)
        in case first_non_empty (it_payload item)
             [''turn_id'', ''provider_turn_ref'', ''message_id'', ''provider_session_id'', ''session_id''] of
             None \<Rightarrow> s2
           | Some r \<Rightarrow> s2\<lparr>st_provider_turn_ref := Some r\<rparr>))"

definition record_reply :: "completion_item \<Rightarrow> string \<Rightarrow> bool \<Rightarrow> string option \<Rightarrow> unit det" where
  "record_reply item t is_stable fingerprint =
     (let message = py_strip t in
      if message = [] then py_return ()
      else update_state (\<lambda>s. s\<lparr>st_reply_started := True,
         st_last_reply_hash := Some (opt_str_or fingerprint (fingerprint_text [JStr message])),
         st_last_reply_at := Some (it_timestamp item), st_reply_stable := is_stable\<rparr>))"

definition terminal_diagnostics_from_item :: "completion_item \<Rightarrow> payload" where
  "terminal_diagnostics_from_item item =
     foldl (\<lambda>p k. dict_pop k p) (it_payload item)
       [''reply'', ''content'', ''final_answer'', ''result_text'', ''last_agent_message'']"

definition set_terminal ::
  "completion_status \<Rightarrow> string \<Rightarrow> completion_confidence \<Rightarrow> string \<Rightarrow> string \<Rightarrow> payload \<Rightarrow> unit det" where
  "set_terminal status reason confidence finished_at reply diagnostics =
     py_then (update_state (\<lambda>s. s\<lparr>st_terminal := True\<rparr>))
     (py_bind (py_gets dt_state) (\<lambda>s.
      py_bind (py_lift (CompletionDecision \<lparr>de_terminal = True, de_status = status,
        de_reason = Some reason, de_confidence = Some confidence, de_reply = reply,
        de_anchor_seen = st_anchor_seen s, de_reply_started = st_reply_started s,
        de_reply_stable = st_reply_stable s, de_provider_turn_ref = st_provider_turn_ref s,
        de_source_cursor = st_latest_cursor s, de_finished_at = Some finished_at,
        de_diagnostics = diagnostics\<rparr>)) (\<lambda>dec.
      py_modify (\<lambda>d. d\<lparr>dt_decision := dec\<rparr>))))"

definition set_pending :: "unit det" where
  "set_pending =
     py_bind (py_gets dt_state) (\<lambda>s.
     py_bind (py_lift (CompletionDecision \<lparr>de_terminal = False, de_status = CS_INCOMPLETE,
        de_reason = None, de_confidence = None, de_reply = '''',
        de_anchor_seen = st_anchor_seen s, de_reply_started = st_reply_started s,
        de_reply_stable = st_reply_stable s, de_provider_turn_ref = st_provider_turn_ref s,
        de_source_cursor = st_latest_cursor s, de_finished_at = None, de_diagnostics = []\<rparr>)) (\<lambda>dec.
     py_modify (\<lambda>d. d\<lparr>dt_decision := dec\<rparr>)))"

definition terminal_status_from_abort :: "completion_item \<Rightarrow> completion_status result" where
  "terminal_status_from_abort item =
     (let raw_status = py_lower (py_strip (str_or (jget (it_payload item) ''status'') ''''));
          reason = py_lower (py_strip (str_or (jget (it_payload item) ''reason'') '''')) in
      if raw_status \<in> {''completed'', ''cancelled'', ''failed'', ''incomplete''}
      then enum_of_value ''CompletionStatus'' completion_statuses completion_status_value raw_status
      else if py_contains ''cancel'' reason \<or> py_contains ''abort'' reason then Inr CS_CANCELLED
      else Inr CS_FAILED)"

definition base_finalize_timeout :: "string \<Rightarrow> completion_cursor option \<Rightarrow> unit det" where
  "base_finalize_timeout now cursor =
     py_bind (py_gets dt_decision) (\<lambda>dec.
     if de_terminal dec then py_return ()
     else py_then (sync_cursor cursor)
       (set_terminal CS_INCOMPLETE ''timeout'' CC_DEGRADED now '''' []))"

text \<open>\<open>first_non_empty(payload, ...) or default\<close>\<close>
definition field_or :: "completion_item \<Rightarrow> string list \<Rightarrow> string \<Rightarrow> string" where
  "field_or item keys d = opt_str_or (first_non_empty (it_payload item) keys) d"

text \<open>\<open>if reply: self._record_reply(...)\<close>\<close>
definition record_if :: "completion_item \<Rightarrow> string option \<Rightarrow> bool \<Rightarrow> unit det" where
  "record_if item reply is_stable = (case reply of None \<Rightarrow> py_return ()
     | Some t \<Rightarrow> if t = [] then py_return () else record_reply item t is_stable None)"

section \<open>\<open>protocol_turn.py\<close>\<close>

definition pt_complete_from_boundary :: "completion_item \<Rightarrow> unit det" where
  "pt_complete_from_boundary item =
     (let reply = first_non_empty (it_payload item) [''last_agent_message'', ''final_answer'', ''reply'', ''text''] in
      py_then (record_if item reply True)
        (set_terminal CS_COMPLETED (field_or item [''reason'', ''completion_reason''] ''task_complete'')
           CC_EXACT (it_timestamp item) (opt_str_or reply '''') []))"

definition pt_complete_from_abort :: "completion_item \<Rightarrow> unit det" where
  "pt_complete_from_abort item =
     (let reply = first_non_empty (it_payload item) [''last_agent_message'', ''reply'', ''text''] in
      py_then (record_if item reply True)
        (py_bind (py_lift (terminal_status_from_abort item)) (\<lambda>status.
         set_terminal status (field_or item [''reason''] ''turn_aborted'')
           CC_EXACT (it_timestamp item) (opt_str_or reply '''') (terminal_diagnostics_from_item item))))"

definition pt_fail_terminal :: "completion_item \<Rightarrow> string \<Rightarrow> unit det" where
  "pt_fail_terminal item reason =
     set_terminal CS_FAILED reason CC_DEGRADED (it_timestamp item) '''' (terminal_diagnostics_from_item item)"

definition protocol_turn_ingest :: "completion_item \<Rightarrow> unit det" where
  "protocol_turn_ingest item =
     py_then require_bound (py_then (consume_common_item item)
     (if it_kind item \<in> {ASSISTANT_CHUNK, ASSISTANT_FINAL, RESULT}
      then py_then (record_if item (first_non_empty (it_payload item)
             [''last_agent_message'', ''final_answer'', ''reply'', ''result_text'', ''text'']) False) set_pending
      else if it_kind item = TURN_BOUNDARY then pt_complete_from_boundary item
      else if it_kind item = TURN_ABORTED then pt_complete_from_abort item
      else if it_kind item = ERROR then pt_fail_terminal item (field_or item [''reason'', ''error''] ''transport_error'')
      else if it_kind item = PANE_DEAD then pt_fail_terminal item (field_or item [''reason''] ''pane_dead'')
      else set_pending))"

section \<open>\<open>structured_result.py\<close>\<close>

definition sr_terminal_from_item ::
  "completion_item \<Rightarrow> completion_status \<Rightarrow> string \<Rightarrow> completion_confidence \<Rightarrow> unit det" where
  "sr_terminal_from_item item status reason confidence =
     set_terminal status reason confidence (it_timestamp item) '''' (terminal_diagnostics_from_item item)"

definition sr_complete_from_result :: "completion_item \<Rightarrow> unit det" where
  "sr_complete_from_result item =
     (let reply = first_non_empty (it_payload item) [''reply'', ''result_text'', ''final_answer'', ''text''] in
      py_then (record_if item reply True)
        (set_terminal CS_COMPLETED (field_or item [''reason'', ''completion_reason''] ''stream_result'')
           CC_EXACT (it_timestamp item) (opt_str_or reply '''') []))"

definition structured_result_ingest :: "completion_item \<Rightarrow> unit det" where
  "structured_result_ingest item =
     py_then require_bound (py_then (consume_common_item item)
     (if it_kind item \<in> {ASSISTANT_CHUNK, ASSISTANT_FINAL}
      then py_then (record_if item (first_non_empty (it_payload item) [''reply'', ''final_answer'', ''text'']) False)
             set_pending
      else if it_kind item = RESULT then sr_complete_from_result item
      else if it_kind item = CANCEL_INFO
      then sr_terminal_from_item item CS_CANCELLED (field_or item [''reason''] ''cancel_info'') CC_EXACT
      else if it_kind item = TURN_ABORTED
      then py_bind (py_lift (terminal_status_from_abort item)) (\<lambda>status.
             sr_terminal_from_item item status (field_or item [''reason''] ''turn_aborted'') CC_EXACT)
      else if it_kind item = ERROR
      then sr_terminal_from_item item CS_FAILED (field_or item [''reason'', ''error''] ''transport_error'') CC_EXACT
      else if it_kind item = PANE_DEAD
      then sr_terminal_from_item item CS_FAILED (field_or item [''reason''] ''pane_dead'') CC_DEGRADED
      else set_pending))"

section \<open>\<open>session_boundary.py\<close>\<close>

definition session_boundary_ingest :: "completion_item \<Rightarrow> unit det" where
  "session_boundary_ingest item =
     py_then require_bound (py_then (consume_common_item item)
     (if it_kind item \<in> {ASSISTANT_CHUNK, ASSISTANT_FINAL}
      then py_then (record_if item (first_non_empty (it_payload item) [''text'', ''reply'', ''last_agent_message'']) False)
             set_pending
      else if it_kind item = TURN_BOUNDARY
      then (let reply = first_non_empty (it_payload item) [''last_agent_message'', ''reply'', ''text''] in
            py_then (record_if item reply True)
              (set_terminal CS_COMPLETED (field_or item [''reason'', ''completion_reason''] ''turn_duration'')
                 CC_OBSERVED (it_timestamp item) (opt_str_or reply '''') []))
      else if it_kind item = ERROR
      then set_terminal CS_FAILED (field_or item [''reason'', ''error''] ''api_error'') CC_OBSERVED
             (it_timestamp item) '''' (terminal_diagnostics_from_item item)
      else if it_kind item = PANE_DEAD
      then set_terminal CS_FAILED (field_or item [''reason''] ''pane_dead'') CC_DEGRADED
             (it_timestamp item) '''' (terminal_diagnostics_from_item item)
      else set_pending))"

section \<open>\<open>anchored_session_stability.py\<close>\<close>

definition as_tool_calls :: "completion_item \<Rightarrow> unit det" where
  "as_tool_calls item = (let raw = jget (it_payload item) ''tool_call_count'' in
     if raw = JNull then py_return ()
     else update_state (\<lambda>s. s\<lparr>st_tool_active := (case py_int raw of Inr n \<Rightarrow> n > 0 | Inl _ \<Rightarrow> py_truthy raw)\<rparr>))"

definition as_fingerprint :: "completion_item \<Rightarrow> string \<Rightarrow> string" where
  "as_fingerprint item reply = fingerprint_text
     [JStr (field_or item [''message_id''] ''''), JStr reply,
      jget (it_payload item) ''message_count'', jget (it_payload item) ''last_updated'']"

definition as_session_reply :: "completion_item \<Rightarrow> string \<Rightarrow> unit det" where
  "as_session_reply item reply =
     (let fingerprint = as_fingerprint item reply in
      py_bind (py_gets dt_state) (\<lambda>s.
      py_then (if Some fingerprint \<noteq> st_last_reply_hash s
               then py_then (record_reply item reply False (Some fingerprint))
                      (update_state (\<lambda>s. s\<lparr>st_stable_since := Some (it_timestamp item)\<rparr>))
               else py_return ())
        set_pending))"

definition anchored_ingest :: "completion_item \<Rightarrow> unit det" where
  "anchored_ingest item =
     py_then require_bound (py_then (consume_common_item item)
     (if it_kind item = CANCEL_INFO
      then set_terminal CS_CANCELLED (field_or item [''reason''] ''cancel_info'') CC_OBSERVED
             (it_timestamp item) '''' []
      else if it_kind item \<in> {SESSION_SNAPSHOT, SESSION_MUTATION}
      then py_then (as_tool_calls item)
             (case first_non_empty (it_payload item) [''reply'', ''content'', ''text''] of
                None \<Rightarrow> set_pending
              | Some reply \<Rightarrow> as_session_reply item reply)
      else if it_kind item = ERROR
      then set_terminal CS_FAILED (field_or item [''reason'', ''error''] ''session_corrupt'') CC_OBSERVED
             (it_timestamp item) '''' []
      else if it_kind item = PANE_DEAD
      then set_terminal CS_FAILED (field_or item [''reason''] ''pane_dead'') CC_DEGRADED
             (it_timestamp item) '''' []
      else set_pending))"

definition anchored_tick :: "string \<Rightarrow> completion_cursor option \<Rightarrow> unit det" where
  "anchored_tick now cursor =
     py_then (sync_cursor cursor)
     (py_bind (py_gets dt_decision) (\<lambda>dec.
      if de_terminal dec then py_return ()
      else py_bind (py_gets dt_state) (\<lambda>s.
      case (st_reply_started s, st_stable_since s) of
        (True, Some since) \<Rightarrow>
          if st_tool_active s then set_pending
          else py_bind (py_lift (seconds_between since now)) (\<lambda>elapsed.
               py_bind (py_gets dt_settle_window_s) (\<lambda>window.
               if elapsed \<ge> window
               then py_then (update_state (\<lambda>s. s\<lparr>st_reply_stable := True\<rparr>))
                      (set_terminal CS_COMPLETED ''session_reply_stable'' CC_OBSERVED now '''' [])
               else set_pending))
      | _ \<Rightarrow> py_return ())))"

definition anchored_finalize_timeout :: "string \<Rightarrow> completion_cursor option \<Rightarrow> unit det" where
  "anchored_finalize_timeout now cursor =
     py_then require_bound
     (py_bind (py_gets dt_decision) (\<lambda>dec.
      if de_terminal dec then py_return ()
      else py_then (sync_cursor cursor) (base_finalize_timeout now cursor)))"

section \<open>\<open>terminal_text_quiet.py\<close>\<close>

definition terminal_text_ingest :: "completion_item \<Rightarrow> unit det" where
  "terminal_text_ingest item =
     py_then require_bound (py_then (consume_common_item item)
     (if it_kind item \<in> {ASSISTANT_CHUNK, ASSISTANT_FINAL, RESULT}
      then (let reply = first_non_empty (it_payload item) [''reply'', ''result_text'', ''final_answer'', ''text''] in
            py_then (record_if item reply False)
              (if py_truthy (jget (it_payload item) ''done_marker'') \<or> py_truthy (jget (it_payload item) ''ccb_done'')
               then set_terminal CS_COMPLETED ''terminal_done_marker'' CC_DEGRADED (it_timestamp item)
                      (opt_str_or reply '''') []
               else set_pending))
      else if it_kind item = CANCEL_INFO
      then set_terminal CS_CANCELLED (field_or item [''reason''] ''cancel_info'') CC_DEGRADED
             (it_timestamp item) '''' []
      else if it_kind item = ERROR
      then set_terminal CS_FAILED (field_or item [''reason'', ''error''] ''transport_error'') CC_DEGRADED
             (it_timestamp item) '''' []
      else if it_kind item = PANE_DEAD
      then set_terminal CS_FAILED (field_or item [''reason''] ''pane_dead'') CC_DEGRADED
             (it_timestamp item) '''' []
      else set_pending))"

definition terminal_text_finalize_timeout :: "string \<Rightarrow> completion_cursor option \<Rightarrow> unit det" where
  "terminal_text_finalize_timeout now cursor =
     py_then require_bound
     (py_bind (py_gets dt_decision) (\<lambda>dec.
      if de_terminal dec then py_return ()
      else py_then (sync_cursor cursor)
      (py_bind (py_gets dt_state) (\<lambda>s.
       if st_reply_started s
       then set_terminal CS_COMPLETED ''terminal_quiet'' CC_DEGRADED now '''' []
       else base_finalize_timeout now cursor))))"

section \<open>Dispatch on the class\<close>

definition det_ingest :: "completion_item \<Rightarrow> unit det" where
  "det_ingest item = py_bind (py_gets dt_family) (\<lambda>f. case f of
       PROTOCOL_TURN \<Rightarrow> protocol_turn_ingest item
     | STRUCTURED_RESULT \<Rightarrow> structured_result_ingest item
     | SESSION_BOUNDARY \<Rightarrow> session_boundary_ingest item
     | ANCHORED_SESSION_STABILITY \<Rightarrow> anchored_ingest item
     | TERMINAL_TEXT_QUIET \<Rightarrow> terminal_text_ingest item)"

definition det_tick :: "string \<Rightarrow> completion_cursor option \<Rightarrow> unit det" where
  "det_tick now cursor = py_bind (py_gets dt_family) (\<lambda>f.
     if f = ANCHORED_SESSION_STABILITY then anchored_tick now cursor else sync_cursor cursor)"

definition det_finalize_timeout :: "string \<Rightarrow> completion_cursor option \<Rightarrow> unit det" where
  "det_finalize_timeout now cursor = py_bind (py_gets dt_family) (\<lambda>f. case f of
       ANCHORED_SESSION_STABILITY \<Rightarrow> anchored_finalize_timeout now cursor
     | TERMINAL_TEXT_QUIET \<Rightarrow> terminal_text_finalize_timeout now cursor
     | _ \<Rightarrow> base_finalize_timeout now cursor)"

section \<open>How the methods run\<close>

text \<open>No method raises but \<open>require_bound\<close> and the elapsed time of \<open>anchored_tick\<close>.\<close>

named_theorems det_run \<open>the detector's methods as state updates\<close>

definition decided :: "completion_state \<Rightarrow> completion_status \<Rightarrow> string \<Rightarrow> completion_confidence \<Rightarrow> string \<Rightarrow>
    string \<Rightarrow> payload \<Rightarrow> completion_decision" where
  "decided s status reason confidence finished_at reply diagnostics =
     \<lparr>de_terminal = True, de_status = status,
      de_reason = Some reason, de_confidence = Some confidence, de_reply = reply,
      de_anchor_seen = st_anchor_seen s, de_reply_started = st_reply_started s,
      de_reply_stable = st_reply_stable s, de_provider_turn_ref = st_provider_turn_ref s,
      de_source_cursor = st_latest_cursor s, de_finished_at = Some finished_at,
      de_diagnostics = diagnostics\<rparr>"

definition undecided :: "completion_state \<Rightarrow> completion_decision" where
  "undecided s = \<lparr>de_terminal = False, de_status = CS_INCOMPLETE,
      de_reason = None, de_confidence = None, de_reply = '''',
      de_anchor_seen = st_anchor_seen s, de_reply_started = st_reply_started s,
      de_reply_stable = st_reply_stable s, de_provider_turn_ref = st_provider_turn_ref s,
      de_source_cursor = st_latest_cursor s, de_finished_at = None, de_diagnostics = []\<rparr>"

lemma valid_decided [simp]: "valid_decision (decided s a b c d e f)" "valid_decision (undecided s)"
  by (simp_all add: valid_decision_def decided_def undecided_def)

lemma decided_fields [simp]:
  "de_terminal (decided s a b c d e f)" "de_status (decided s a b c d e f) = a"
  "de_reason (decided s a b c d e f) = Some b" "de_confidence (decided s a b c d e f) = Some c"
  "de_finished_at (decided s a b c d e f) = Some d" "de_reply (decided s a b c d e f) = e"
  "de_source_cursor (decided s a b c d e f) = st_latest_cursor s"
  "\<not> de_terminal (undecided s)" "de_source_cursor (undecided s) = st_latest_cursor s"
  by (simp_all add: decided_def undecided_def)

lemma set_terminal_run [det_run]:
  "set_terminal a b c f r g d = (Inr (), d\<lparr>dt_state := (dt_state d)\<lparr>st_terminal := True\<rparr>,
     dt_decision := decided (dt_state d) a b c f r g\<rparr>)"
proof -
  let ?s = "(dt_state d)\<lparr>st_terminal := True\<rparr>"
  have e: "decided (dt_state d) a b c f r g = decided ?s a b c f r g" by (simp add: decided_def)
  show ?thesis
    unfolding e by (simp add: set_terminal_def update_state_def flip: decided_def)
qed

lemma set_pending_run [det_run]:
  "set_pending d = (Inr (), d\<lparr>dt_decision := undecided (dt_state d)\<rparr>)"
  by (simp add: set_pending_def flip: undecided_def)

lemma update_state_run [det_run]: "update_state f d = (Inr (), d\<lparr>dt_state := f (dt_state d)\<rparr>)"
  by (simp add: update_state_def)

lemma sync_cursor_run [det_run]:
  "sync_cursor c d = (Inr (), d\<lparr>dt_state := (case c of None \<Rightarrow> dt_state d
     | Some x \<Rightarrow> (dt_state d)\<lparr>st_latest_cursor := Some x\<rparr>)\<rparr>)"
  by (cases c) (simp_all add: sync_cursor_def det_run)

definition common_state :: "completion_item \<Rightarrow> completion_state \<Rightarrow> completion_state" where
  "common_state item s = dt_state (snd (consume_common_item item \<lparr>dt_family = PROTOCOL_TURN,
     dt_settle_window_s = 0, dt_request_ctx = None, dt_state = s, dt_decision = undecided s\<rparr>))"

lemma consume_run [det_run]:
  "consume_common_item item d = (Inr (), d\<lparr>dt_state := common_state item (dt_state d)\<rparr>)"
  by (simp add: consume_common_item_def common_state_def det_run)

definition reply_state :: "completion_item \<Rightarrow> string option \<Rightarrow> bool \<Rightarrow> completion_state \<Rightarrow> completion_state" where
  "reply_state item r b s = dt_state (snd (record_if item r b \<lparr>dt_family = PROTOCOL_TURN,
     dt_settle_window_s = 0, dt_request_ctx = None, dt_state = s, dt_decision = undecided s\<rparr>))"

lemma record_reply_run:
  "record_reply item t b f d = (Inr (), d\<lparr>dt_state := (if py_strip t = [] then dt_state d
     else (dt_state d)\<lparr>st_reply_started := True,
         st_last_reply_hash := Some (opt_str_or f (fingerprint_text [JStr (py_strip t)])),
         st_last_reply_at := Some (it_timestamp item), st_reply_stable := b\<rparr>)\<rparr>)"
  by (simp add: record_reply_def det_run Let_def)

lemma record_if_run [det_run]:
  "record_if item r b d = (Inr (), d\<lparr>dt_state := reply_state item r b (dt_state d)\<rparr>)"
  by (cases r) (simp_all add: record_if_def reply_state_def record_reply_run)

lemma require_bound_run [det_run]:
  "dt_request_ctx d \<noteq> None \<Longrightarrow> require_bound d = (Inr (), d)"
  by (auto simp: require_bound_def)

lemma require_unbound:
  "dt_request_ctx d = None \<Longrightarrow>
   require_bound d = (Inl (CompletionValidationError ''detector must be bound before use''), d)"
  by (simp add: require_bound_def)

lemma as_tool_calls_run [det_run]:
  "as_tool_calls item d = (Inr (), d\<lparr>dt_state := (dt_state d)\<lparr>st_tool_active :=
     (let raw = jget (it_payload item) ''tool_call_count'' in
      if raw = JNull then st_tool_active (dt_state d)
      else (case py_int raw of Inr n \<Rightarrow> n > 0 | Inl _ \<Rightarrow> py_truthy raw))\<rparr>\<rparr>)"
  by (simp add: as_tool_calls_def Let_def det_run)

lemma status_from_abort_total: "\<exists>st. terminal_status_from_abort item = Inr st"
  by (auto simp: terminal_status_from_abort_def Let_def enum_of_value_def completion_statuses_def)

text \<open>A new snapshot of the same reply does not restart the settle window; a changed one does.\<close>
lemma as_session_reply_run [det_run]:
  "as_session_reply item reply d = (let s = dt_state d;
      s' = (if Some (as_fingerprint item reply) \<noteq> st_last_reply_hash s
            then (if py_strip reply = [] then s
                  else s\<lparr>st_reply_started := True, st_last_reply_hash := Some (as_fingerprint item reply),
                    st_last_reply_at := Some (it_timestamp item), st_reply_stable := False\<rparr>)
                 \<lparr>st_stable_since := Some (it_timestamp item)\<rparr>
            else s)
    in (Inr (), d\<lparr>dt_state := s', dt_decision := undecided s'\<rparr>))"
proof -
  have "opt_str_or (Some (as_fingerprint item reply)) x = as_fingerprint item reply" for x
    by (simp add: as_fingerprint_def opt_str_or_def)
  then show ?thesis
    by (simp add: as_session_reply_def Let_def det_run record_reply_run)
qed

section \<open>What a detector decides\<close>

datatype outcome = Keep_Waiting | Finished completion_status completion_confidence

definition abort_status :: "completion_item \<Rightarrow> completion_status" where
  "abort_status item = (case terminal_status_from_abort item of Inr st \<Rightarrow> st | Inl _ \<Rightarrow> CS_FAILED)"

lemma abort_status_run: "terminal_status_from_abort item = Inr (abort_status item)"
  using status_from_abort_total [of item] by (auto simp: abort_status_def)

text \<open>The table the five classes implement\<close>
fun verdict :: "completion_family \<Rightarrow> completion_item \<Rightarrow> outcome" where
  "verdict PROTOCOL_TURN item = (case it_kind item of
       TURN_BOUNDARY \<Rightarrow> Finished CS_COMPLETED CC_EXACT
     | TURN_ABORTED \<Rightarrow> Finished (abort_status item) CC_EXACT
     | ERROR \<Rightarrow> Finished CS_FAILED CC_DEGRADED
     | PANE_DEAD \<Rightarrow> Finished CS_FAILED CC_DEGRADED
     | _ \<Rightarrow> Keep_Waiting)"
| "verdict STRUCTURED_RESULT item = (case it_kind item of
       RESULT \<Rightarrow> Finished CS_COMPLETED CC_EXACT
     | CANCEL_INFO \<Rightarrow> Finished CS_CANCELLED CC_EXACT
     | TURN_ABORTED \<Rightarrow> Finished (abort_status item) CC_EXACT
     | ERROR \<Rightarrow> Finished CS_FAILED CC_EXACT
     | PANE_DEAD \<Rightarrow> Finished CS_FAILED CC_DEGRADED
     | _ \<Rightarrow> Keep_Waiting)"
| "verdict SESSION_BOUNDARY item = (case it_kind item of
       TURN_BOUNDARY \<Rightarrow> Finished CS_COMPLETED CC_OBSERVED
     | ERROR \<Rightarrow> Finished CS_FAILED CC_OBSERVED
     | PANE_DEAD \<Rightarrow> Finished CS_FAILED CC_DEGRADED
     | _ \<Rightarrow> Keep_Waiting)"
| "verdict ANCHORED_SESSION_STABILITY item = (case it_kind item of
       CANCEL_INFO \<Rightarrow> Finished CS_CANCELLED CC_OBSERVED
     | ERROR \<Rightarrow> Finished CS_FAILED CC_OBSERVED
     | PANE_DEAD \<Rightarrow> Finished CS_FAILED CC_DEGRADED
     | _ \<Rightarrow> Keep_Waiting)"
| "verdict TERMINAL_TEXT_QUIET item =
     (if it_kind item \<in> {ASSISTANT_CHUNK, ASSISTANT_FINAL, RESULT}
      then if py_truthy (jget (it_payload item) ''done_marker'') \<or> py_truthy (jget (it_payload item) ''ccb_done'')
           then Finished CS_COMPLETED CC_DEGRADED else Keep_Waiting
      else case it_kind item of
       CANCEL_INFO \<Rightarrow> Finished CS_CANCELLED CC_DEGRADED
     | ERROR \<Rightarrow> Finished CS_FAILED CC_DEGRADED
     | PANE_DEAD \<Rightarrow> Finished CS_FAILED CC_DEGRADED
     | _ \<Rightarrow> Keep_Waiting)"

definition same_binding :: "detector \<Rightarrow> detector \<Rightarrow> bool" where
  "same_binding d d' \<longleftrightarrow> dt_family d' = dt_family d \<and> dt_request_ctx d' = dt_request_ctx d \<and>
     dt_settle_window_s d' = dt_settle_window_s d"

definition decides :: "detector \<Rightarrow> completion_item \<Rightarrow> outcome \<Rightarrow> unit result \<times> detector \<Rightarrow> bool" where
  "decides d item v r \<longleftrightarrow> (\<exists>d'. r = (Inr (), d') \<and> same_binding d d' \<and> valid_decision (dt_decision d') \<and>
     st_latest_cursor (dt_state d') = Some (it_cursor item) \<and>
     de_source_cursor (dt_decision d') = Some (it_cursor item) \<and>
     (case v of
        Keep_Waiting \<Rightarrow> \<not> de_terminal (dt_decision d')
      | Finished st conf \<Rightarrow> de_terminal (dt_decision d') \<and> de_status (dt_decision d') = st \<and>
          de_confidence (dt_decision d') = Some conf \<and>
          de_finished_at (dt_decision d') = Some (it_timestamp item) \<and> st_terminal (dt_state d')))"

lemma state_cursor [simp]:
  "st_latest_cursor (common_state item s) = Some (it_cursor item)"
  "st_latest_cursor (reply_state item r b s) = st_latest_cursor s"
  by (simp_all add: common_state_def consume_common_item_def det_run common_kind_state_def Let_def
      reply_state_def record_if_def record_reply_run split: completion_item_kind.splits option.splits)

lemmas decides_defs = decides_def same_binding_def

lemma protocol_turn_decides:
  "dt_request_ctx d \<noteq> None \<Longrightarrow> decides d item (verdict PROTOCOL_TURN item) (protocol_turn_ingest item d)"
  by (cases "it_kind item")
    (simp_all add: protocol_turn_ingest_def decides_defs pt_complete_from_boundary_def
      pt_complete_from_abort_def pt_fail_terminal_def det_run Let_def abort_status_run)

lemma structured_result_decides:
  "dt_request_ctx d \<noteq> None \<Longrightarrow> decides d item (verdict STRUCTURED_RESULT item) (structured_result_ingest item d)"
  by (cases "it_kind item")
    (simp_all add: structured_result_ingest_def decides_defs sr_complete_from_result_def
      sr_terminal_from_item_def det_run Let_def abort_status_run)

lemma session_boundary_decides:
  "dt_request_ctx d \<noteq> None \<Longrightarrow> decides d item (verdict SESSION_BOUNDARY item) (session_boundary_ingest item d)"
  by (cases "it_kind item")
    (simp_all add: session_boundary_ingest_def decides_defs det_run Let_def)

lemma anchored_decides:
  "dt_request_ctx d \<noteq> None \<Longrightarrow> decides d item (verdict ANCHORED_SESSION_STABILITY item) (anchored_ingest item d)"
  by (cases "it_kind item"; cases "first_non_empty (it_payload item) [''reply'', ''content'', ''text'']")
    (simp_all add: anchored_ingest_def decides_defs det_run Let_def)

lemma terminal_text_decides:
  "dt_request_ctx d \<noteq> None \<Longrightarrow> decides d item (verdict TERMINAL_TEXT_QUIET item) (terminal_text_ingest item d)"
  by (cases "it_kind item")
    (simp_all add: terminal_text_ingest_def decides_defs det_run Let_def)

lemma det_ingest_decides:
  assumes "dt_request_ctx d \<noteq> None"
  shows "decides d item (verdict (dt_family d) item) (det_ingest item d)"
  using protocol_turn_decides [OF assms] structured_result_decides [OF assms]
    session_boundary_decides [OF assms] anchored_decides [OF assms] terminal_text_decides [OF assms]
  by (cases "dt_family d") (simp_all add: det_ingest_def del: verdict.simps)

section \<open>Timeouts and the settle window\<close>

text \<open>Running out of time always ends the wait.\<close>
lemma det_finalize_ends:
  assumes "dt_request_ctx d \<noteq> None"
  shows "\<exists>d'. det_finalize_timeout now cursor d = (Inr (), d') \<and> same_binding d d' \<and>
    de_terminal (dt_decision d') \<and>
    (if de_terminal (dt_decision d) then d' = d
     else valid_decision (dt_decision d') \<and> de_finished_at (dt_decision d') = Some now \<and>
       de_confidence (dt_decision d') = Some CC_DEGRADED \<and>
       de_status (dt_decision d') = (if dt_family d = TERMINAL_TEXT_QUIET \<and> st_reply_started (dt_state d)
         then CS_COMPLETED else CS_INCOMPLETE))"
  using assms
  by (cases "dt_family d"; cases cursor; cases "de_terminal (dt_decision d)")
    (simp_all add: det_finalize_timeout_def base_finalize_timeout_def anchored_finalize_timeout_def
      terminal_text_finalize_timeout_def det_run same_binding_def)

text \<open>A tick of the classes without a settle window only moves the cursor.\<close>
lemma det_tick_other:
  "dt_family d \<noteq> ANCHORED_SESSION_STABILITY \<Longrightarrow> \<exists>d'. det_tick now cursor d = (Inr (), d') \<and>
     same_binding d d' \<and> dt_decision d' = dt_decision d"
  by (simp add: det_tick_def det_run same_binding_def)

definition settled_reply :: "detector \<Rightarrow> string \<Rightarrow> rat \<Rightarrow> bool" where
  "settled_reply d now elapsed \<longleftrightarrow> st_reply_started (dt_state d) \<and> \<not> st_tool_active (dt_state d) \<and>
     (\<exists>since. st_stable_since (dt_state d) = Some since \<and> seconds_between since now = Inr elapsed)"

lemma anchored_tick_settles:
  assumes "dt_family d = ANCHORED_SESSION_STABILITY" "\<not> de_terminal (dt_decision d)"
    "settled_reply d now elapsed"
  shows "\<exists>d'. det_tick now cursor d = (Inr (), d') \<and> same_binding d d' \<and>
    (de_terminal (dt_decision d') \<longleftrightarrow> elapsed \<ge> dt_settle_window_s d) \<and>
    (de_terminal (dt_decision d') \<longrightarrow> de_status (dt_decision d') = CS_COMPLETED \<and>
       de_confidence (dt_decision d') = Some CC_OBSERVED \<and> de_finished_at (dt_decision d') = Some now)"
proof -
  obtain since where s: "st_stable_since (dt_state d) = Some since" "seconds_between since now = Inr elapsed"
    "st_reply_started (dt_state d)" "\<not> st_tool_active (dt_state d)"
    using assms(3) by (auto simp: settled_reply_def)
  with assms(1,2) show ?thesis
    by (cases cursor)
      (simp_all add: det_tick_def anchored_tick_def det_run same_binding_def)
qed

lemma anchored_tick_waits:
  assumes f: "dt_family d = ANCHORED_SESSION_STABILITY" and n: "\<not> de_terminal (dt_decision d)"
    and w: "\<not> st_reply_started (dt_state d) \<or> st_tool_active (dt_state d) \<or> st_stable_since (dt_state d) = None"
  shows "\<exists>d'. det_tick now cursor d = (Inr (), d') \<and> same_binding d d' \<and> \<not> de_terminal (dt_decision d')"
proof -
  let ?d = "snd (sync_cursor cursor d)"
  have d: "sync_cursor cursor d = (Inr (), ?d)" "same_binding d ?d" "dt_decision ?d = dt_decision d"
    "st_reply_started (dt_state ?d) = st_reply_started (dt_state d)"
    "st_tool_active (dt_state ?d) = st_tool_active (dt_state d)"
    "st_stable_since (dt_state ?d) = st_stable_since (dt_state d)"
    by (cases cursor; simp add: det_run same_binding_def)+
  show ?thesis
  proof (cases "st_reply_started (dt_state d) \<and> st_stable_since (dt_state d) \<noteq> None")
    case True
    then obtain since where "st_reply_started (dt_state d)" "st_stable_since (dt_state d) = Some since"
      "st_tool_active (dt_state d)" using w by auto
    then have "det_tick now cursor d = set_pending ?d"
      using f n d by (simp add: det_tick_def anchored_tick_def)
    with d(2) show ?thesis by (simp add: set_pending_run same_binding_def)
  next
    case False
    then have "det_tick now cursor d = (Inr (), ?d)"
      using f n d by (cases "st_stable_since (dt_state d)"; cases "st_reply_started (dt_state d)")
        (simp_all add: det_tick_def anchored_tick_def)
    with d(2,3) n show ?thesis by (intro exI [of _ ?d]) simp
  qed
qed

text \<open>A time stamp that does not parse makes the tick raise.\<close>
lemma anchored_tick_raises:
  assumes "dt_family d = ANCHORED_SESSION_STABILITY" "\<not> de_terminal (dt_decision d)"
    "st_reply_started (dt_state d)" "\<not> st_tool_active (dt_state d)"
    "st_stable_since (dt_state d) = Some since" "seconds_between since now = Inl e"
  shows "fst (det_tick now cursor d) = Inl e"
  using assms
  by (cases cursor) (simp_all add: det_tick_def anchored_tick_def det_run)

lemma det_tick_terminal:
  assumes "de_terminal (dt_decision d)"
  shows "\<exists>d'. det_tick now cursor d = (Inr (), d') \<and> same_binding d d' \<and> dt_decision d' = dt_decision d"
  using assms by (simp add: det_tick_def anchored_tick_def det_run same_binding_def)

section \<open>Properties of the detectors\<close>

definition demo_cursor :: completion_cursor where
  "demo_cursor = \<lparr>cu_source_kind = SK_SESSION_SNAPSHOT, cu_opaque_cursor = None, cu_session_path = None,
     cu_offset = None, cu_line_no = Some 3, cu_event_seq = Some 7, cu_updated_at = None\<rparr>"

definition demo_item :: "completion_item_kind \<Rightarrow> payload \<Rightarrow> completion_item" where
  "demo_item k p = \<lparr>it_kind = k, it_timestamp = ''2026-01-01T00:00:05Z'', it_cursor = demo_cursor,
     it_provider = ''codex'', it_agent_name = ''agent1'', it_req_id = ''job_1'', it_payload = p\<rparr>"

definition demo_detector :: "completion_family \<Rightarrow> detector" where
  "demo_detector f = \<lparr>dt_family = f, dt_settle_window_s = 2,
     dt_request_ctx = Some \<lparr>rq_req_id = ''job_1'', rq_agent_name = ''agent1'', rq_provider = ''codex'',
       rq_timeout_s = 3600, rq_anchor_text = None, rq_poll_interval_s = 1 / 2\<rparr>,
     dt_state = CompletionState (Some demo_cursor), dt_decision = undecided (CompletionState (Some demo_cursor))\<rparr>"

text \<open>
  C27. What a detector decides. On a bound detector of any of the five classes, \<open>ingest\<close> returns and
  leaves a well-formed decision: terminal exactly for the item kinds of the table \<open>verdict\<close>, with
  the status and confidence the table gives, finished at the item's time and taken at the item's
  cursor; for every other item the decision is pending.
\<close>
theorem detector_decides:
  assumes "dt_request_ctx d \<noteq> None"
  shows "\<exists>d'. det_ingest item d = (Inr (), d') \<and> same_binding d d' \<and> valid_decision (dt_decision d') \<and>
    de_source_cursor (dt_decision d') = Some (it_cursor item) \<and>
    (case verdict (dt_family d) item of
       Keep_Waiting \<Rightarrow> \<not> de_terminal (dt_decision d')
     | Finished st conf \<Rightarrow> de_terminal (dt_decision d') \<and> de_status (dt_decision d') = st \<and>
         de_confidence (dt_decision d') = Some conf \<and>
         de_finished_at (dt_decision d') = Some (it_timestamp item))"
  using det_ingest_decides [OF assms, of item]
  by (cases "verdict (dt_family d) item") (auto simp: decides_def)

theorem detector_decides_witness:
  "\<exists>d'. det_ingest (demo_item TURN_ABORTED [(''reason'', JStr ''user Cancelled'')]) (demo_detector PROTOCOL_TURN) =
     (Inr (), d') \<and> de_terminal (dt_decision d') \<and> de_status (dt_decision d') = CS_CANCELLED \<and>
     de_confidence (dt_decision d') = Some CC_EXACT"
proof -
  let ?i = "demo_item TURN_ABORTED [(''reason'', JStr ''user Cancelled'')]"
  have "verdict PROTOCOL_TURN ?i = Finished CS_CANCELLED CC_EXACT" by code_simp
  moreover have "dt_request_ctx (demo_detector PROTOCOL_TURN) \<noteq> None" "dt_family (demo_detector PROTOCOL_TURN) = PROTOCOL_TURN"
    by (simp_all add: demo_detector_def)
  ultimately show ?thesis using detector_decides [of "demo_detector PROTOCOL_TURN" ?i] by auto
qed

text \<open>
  C28. Running out of time always ends the wait. \<open>finalize_timeout\<close> on a bound detector returns with
  a terminal decision: the one it already had, unchanged, or a degraded one finished now, which is
  incomplete except for a terminal text detector that has seen a reply, whose silence counts as
  completion.
\<close>
theorem timeout_ends_wait:
  assumes "dt_request_ctx d \<noteq> None"
  shows "\<exists>d'. det_finalize_timeout now cursor d = (Inr (), d') \<and> de_terminal (dt_decision d') \<and>
    (if de_terminal (dt_decision d) then d' = d
     else valid_decision (dt_decision d') \<and> de_finished_at (dt_decision d') = Some now \<and>
       de_confidence (dt_decision d') = Some CC_DEGRADED \<and>
       de_status (dt_decision d') = (if dt_family d = TERMINAL_TEXT_QUIET \<and> st_reply_started (dt_state d)
         then CS_COMPLETED else CS_INCOMPLETE))"
  using det_finalize_ends [OF assms, of now cursor] by blast

theorem timeout_ends_wait_witness:
  "\<exists>d'. det_finalize_timeout ''2026-01-01T01:00:00Z'' None (demo_detector SESSION_BOUNDARY) = (Inr (), d') \<and>
    de_terminal (dt_decision d') \<and> de_status (dt_decision d') = CS_INCOMPLETE"
proof -
  have "dt_request_ctx (demo_detector SESSION_BOUNDARY) \<noteq> None" by (simp add: demo_detector_def)
  moreover have "dt_family (demo_detector SESSION_BOUNDARY) = SESSION_BOUNDARY"
    "\<not> de_terminal (dt_decision (demo_detector SESSION_BOUNDARY))" by (simp_all add: demo_detector_def)
  ultimately show ?thesis
    using timeout_ends_wait [of "demo_detector SESSION_BOUNDARY" "''2026-01-01T01:00:00Z''" None] by auto
qed

text \<open>
  C29. The settle window. An undecided session detector that has a reply and no running tool
  completes on a tick exactly when the time since the reply last changed has reached the settle
  window; before that it keeps waiting.
\<close>
theorem settle_window_exact:
  assumes "dt_family d = ANCHORED_SESSION_STABILITY" "\<not> de_terminal (dt_decision d)"
    "st_reply_started (dt_state d)" "\<not> st_tool_active (dt_state d)"
    "st_stable_since (dt_state d) = Some since" "seconds_between since now = Inr elapsed"
  shows "\<exists>d'. det_tick now cursor d = (Inr (), d') \<and>
    (de_terminal (dt_decision d') \<longleftrightarrow> elapsed \<ge> dt_settle_window_s d) \<and>
    (de_terminal (dt_decision d') \<longrightarrow> de_status (dt_decision d') = CS_COMPLETED \<and>
       de_confidence (dt_decision d') = Some CC_OBSERVED \<and> de_finished_at (dt_decision d') = Some now)"
  using anchored_tick_settles [of d now elapsed cursor] assms by (auto simp: settled_reply_def)

definition demo_settling :: detector where
  "demo_settling = (demo_detector ANCHORED_SESSION_STABILITY)
     \<lparr>dt_state := (CompletionState (Some demo_cursor))\<lparr>st_reply_started := True,
        st_stable_since := Some ''2026-01-01T00:00:05Z''\<rparr>\<rparr>"

theorem settle_window_exact_witness:
  "\<exists>d'. det_tick ''2026-01-01T00:00:07Z'' None demo_settling = (Inr (), d') \<and>
     de_terminal (dt_decision d') \<and> de_status (dt_decision d') = CS_COMPLETED"
proof -
  have "seconds_between ''2026-01-01T00:00:05Z'' ''2026-01-01T00:00:07Z'' = Inr 2" by code_simp
  moreover have "dt_family demo_settling = ANCHORED_SESSION_STABILITY" "\<not> de_terminal (dt_decision demo_settling)"
    "st_reply_started (dt_state demo_settling)" "\<not> st_tool_active (dt_state demo_settling)"
    "st_stable_since (dt_state demo_settling) = Some ''2026-01-01T00:00:05Z''" "dt_settle_window_s demo_settling = 2"
    by (simp_all add: demo_settling_def demo_detector_def CompletionState_def)
  ultimately show ?thesis
    using settle_window_exact [of demo_settling "''2026-01-01T00:00:05Z''" "''2026-01-01T00:00:07Z''" 2 None] by auto
qed

end
