(* ===== verification/Completion_Tracker.thy ===== *)
theory Completion_Tracker
  imports Completion_Detectors Jobs "HOL-Library.Product_Lexorder"
begin

text \<open>
  Reply selection (\<open>lib/completion/selectors\<close>), the completion profile and registry
  (\<open>profiles.py\<close>, \<open>registry.py\<close>) and the tracker of running jobs (\<open>tracker.py\<close>).
\<close>

section \<open>Reply selectors\<close>

text \<open>The three selector classes share the base class unchanged.\<close>

record selector =
  se_candidates :: "(int \<times> reply_candidate) list"
  se_sequence :: int

definition new_selector :: selector where
  "new_selector = \<lparr>se_candidates = [], se_sequence = 0\<rparr>"

definition ingest_candidate :: "reply_candidate \<Rightarrow> selector \<Rightarrow> selector" where
  "ingest_candidate c s = s\<lparr>se_candidates := se_candidates s @ [(se_sequence s, c)],
     se_sequence := se_sequence s + 1\<rparr>"

definition reset_selector :: "selector \<Rightarrow> selector" where
  "reset_selector s = s\<lparr>se_candidates := []\<rparr>"

text \<open>\<open>priority or 999\<close>\<close>
definition rank :: "reply_candidate \<Rightarrow> int" where
  "rank c = (case rc_priority c of None \<Rightarrow> 999 | Some p \<Rightarrow> if p = 0 then 999 else p)"

definition candidate_key :: "int \<times> reply_candidate \<Rightarrow> int \<times> int" where
  "candidate_key entry = (rank (snd entry), - fst entry)"

definition best_candidate :: "selector \<Rightarrow> reply_candidate option" where
  "best_candidate s = (if se_candidates s = [] then None
     else Some (snd (hd (sort_key candidate_key (se_candidates s)))))"

definition preview :: "selector \<Rightarrow> string" where
  "preview s = (case best_candidate s of None \<Rightarrow> '''' | Some c \<Rightarrow> rc_text c)"

definition select :: "completion_decision \<Rightarrow> selector \<Rightarrow> string result" where
  "select decision s =
     (if \<not> de_terminal decision then Inl (ValueError ''cannot select reply before terminal decision'')
      else if de_reply decision \<noteq> [] then Inr (de_reply decision)
      else Inr (preview s))"

section \<open>Profiles and registry\<close>

datatype runtime_mode = PANE_BACKED | PTY_BACKED | HEADLESS

fun runtime_mode_value :: "runtime_mode \<Rightarrow> string" where
  "runtime_mode_value PANE_BACKED = ''pane-backed''"
| "runtime_mode_value PTY_BACKED = ''pty-backed''"
| "runtime_mode_value HEADLESS = ''headless''"

record completion_manifest =
  cm_provider :: string
  cm_runtime_mode :: string
  cm_completion_family :: completion_family
  cm_completion_source_kind :: completion_source_kind
  cm_supports_exact_completion :: bool
  cm_supports_observed_completion :: bool
  cm_supports_anchor_binding :: bool
  cm_supports_reply_stability :: bool
  cm_supports_terminal_reason :: bool
  cm_selector_family :: selector_family

record completion_profile =
  cp_provider :: string
  cp_runtime_mode :: runtime_mode
  cp_completion_family :: completion_family
  cp_completion_source_kind :: completion_source_kind
  cp_supports_exact_completion :: bool
  cp_supports_observed_completion :: bool
  cp_supports_anchor_binding :: bool
  cp_supports_reply_stability :: bool
  cp_supports_terminal_reason :: bool
  cp_selector_family :: selector_family

definition CompletionProfile :: "completion_profile \<Rightarrow> completion_profile result" where
  "CompletionProfile p = rbind (provider_name (cp_provider p)) (\<lambda>n. Inr (p\<lparr>cp_provider := n\<rparr>))"

text \<open>An agent specification as far as a profile needs it: provider and runtime mode\<close>
definition build_completion_profile ::
  "string \<Rightarrow> runtime_mode \<Rightarrow> completion_manifest \<Rightarrow> completion_profile result" where
  "build_completion_profile spec_provider spec_mode m =
     rbind (rcheck (spec_provider \<noteq> cm_provider m) (CompletionValidationError
       (''agent provider '' @ repr_str spec_provider @ '' does not match manifest provider '' @ repr_str (cm_provider m)))) (\<lambda>_.
     rbind (rcheck (runtime_mode_value spec_mode \<noteq> cm_runtime_mode m) (CompletionValidationError
       (''agent runtime_mode '' @ repr_str (runtime_mode_value spec_mode) @
        '' does not match manifest runtime_mode '' @ repr_str (cm_runtime_mode m)))) (\<lambda>_.
     CompletionProfile \<lparr>cp_provider = cm_provider m, cp_runtime_mode = spec_mode,
       cp_completion_family = cm_completion_family m,
       cp_completion_source_kind = cm_completion_source_kind m,
       cp_supports_exact_completion = cm_supports_exact_completion m,
       cp_supports_observed_completion = cm_supports_observed_completion m,
       cp_supports_anchor_binding = cm_supports_anchor_binding m,
       cp_supports_reply_stability = cm_supports_reply_stability m,
       cp_supports_terminal_reason = cm_supports_terminal_reason m,
       cp_selector_family = cm_selector_family m\<rparr>))"

text \<open>The registry builds the class of the family, the session detector with its default window.\<close>
definition build_detector :: "completion_profile \<Rightarrow> detector result" where
  "build_detector p = new_detector (cp_completion_family p) 2"

definition build_selector :: "completion_profile \<Rightarrow> selector" where
  "build_selector p = (case cp_selector_family p of
       SF_FINAL_MESSAGE \<Rightarrow> new_selector
     | SF_STRUCTURED_RESULT \<Rightarrow> new_selector
     | SF_SESSION_REPLY \<Rightarrow> new_selector)"

section \<open>The tracker service\<close>

record active_tracker =
  at_agent_name :: string
  at_detector :: detector
  at_selector :: selector
  at_started_at :: string
  at_timeout_s :: rat

record tracker_view =
  tv_job_id :: string
  tv_agent_name :: string
  tv_state :: completion_state
  tv_decision :: completion_decision

text \<open>
  The service holds the project's agents (provider and runtime mode by name), the provider
  catalog's \<open>resolve_completion_manifest\<close> and the request timeout it was constructed with, and
  the trackers by job id in the order they were started.
\<close>

record tracker_service =
  ts_agents :: "(string \<times> (string \<times> runtime_mode)) list"
  ts_resolve :: "string \<Rightarrow> runtime_mode \<Rightarrow> completion_manifest result"
  ts_request_timeout_s :: rat
  ts_trackers :: "active_tracker dict"

type_synonym 'a tracking = "(tracker_service, 'a) py"

definition DISABLED_REQUEST_BINDING_TIMEOUT_S :: rat where
  "DISABLED_REQUEST_BINDING_TIMEOUT_S = 315360000"

definition view_of :: "string \<Rightarrow> active_tracker \<Rightarrow> tracker_view result" where
  "view_of job_id t =
     (let decision = dt_decision (at_detector t) in
      rbind (if de_terminal decision then select decision (at_selector t) else Inr (preview (at_selector t))) (\<lambda>reply.
      rbind (if reply \<noteq> [] \<and> de_reply decision = [] then with_reply decision reply else Inr decision) (\<lambda>dec.
      Inr \<lparr>tv_job_id = job_id, tv_agent_name = at_agent_name t, tv_state = dt_state (at_detector t),
        tv_decision = dec\<rparr>)))"

definition tracker_current :: "string \<Rightarrow> tracker_view option tracking" where
  "tracker_current job_id = py_bind (py_gets (\<lambda>s. map_of (ts_trackers s) job_id)) (\<lambda>t. case t of
       None \<Rightarrow> py_return None
     | Some a \<Rightarrow> py_bind (py_lift (view_of job_id a)) (\<lambda>v. py_return (Some v)))"

definition put_tracker :: "string \<Rightarrow> active_tracker \<Rightarrow> unit tracking" where
  "put_tracker job_id t = py_modify (\<lambda>s. s\<lparr>ts_trackers := dict_set job_id t (ts_trackers s)\<rparr>)"

definition tracker_require :: "string \<Rightarrow> active_tracker tracking" where
  "tracker_require job_id = py_bind (py_gets (\<lambda>s. map_of (ts_trackers s) job_id)) (\<lambda>t. case t of
       None \<Rightarrow> py_raise (KeyError (''unknown completion tracker: '' @ job_id))
     | Some a \<Rightarrow> py_return a)"

definition tracker_start :: "job_record \<Rightarrow> string \<Rightarrow> tracker_view option tracking" where
  "tracker_start job started_at =
     py_bind (py_gets (\<lambda>s. s)) (\<lambda>s.
     py_bind (py_lift (case map_of (ts_agents s) (jr_agent_name job) of
         None \<Rightarrow> Inl (KeyError (jr_agent_name job)) | Some spec \<Rightarrow> Inr spec)) (\<lambda>spec.
     py_bind (py_lift (ts_resolve s (fst spec) (snd spec))) (\<lambda>manifest.
     py_bind (py_lift (build_completion_profile (fst spec) (snd spec) manifest)) (\<lambda>profile.
     py_bind (py_lift (build_detector profile)) (\<lambda>detector.
     py_bind (py_lift (CompletionRequestContext \<lparr>rq_req_id = jr_job_id job,
         rq_agent_name = jr_agent_name job, rq_provider = jr_provider job,
         rq_timeout_s = (if ts_request_timeout_s s > 0 then ts_request_timeout_s s
           else DISABLED_REQUEST_BINDING_TIMEOUT_S),
         rq_anchor_text = None, rq_poll_interval_s = 1 / 2\<rparr>)) (\<lambda>ctx.
     py_bind (py_lift (CompletionCursor \<lparr>cu_source_kind = cp_completion_source_kind profile,
         cu_opaque_cursor = None, cu_session_path = None, cu_offset = None, cu_line_no = None,
         cu_event_seq = Some 0, cu_updated_at = Some started_at\<rparr>)) (\<lambda>cursor.
     (case det_bind ctx cursor detector of
        (Inl e, _) \<Rightarrow> py_raise e
      | (Inr _, bound) \<Rightarrow>
          py_then (put_tracker (jr_job_id job) \<lparr>at_agent_name = jr_agent_name job, at_detector = bound,
            at_selector = build_selector profile, at_started_at = started_at,
            at_timeout_s = ts_request_timeout_s s\<rparr>)
          (tracker_current (jr_job_id job))))))))))"

text \<open>Run a method of a tracker's detector; its effects stay when it raises.\<close>
definition with_detector :: "string \<Rightarrow> active_tracker \<Rightarrow> unit det \<Rightarrow> active_tracker tracking" where
  "with_detector job_id t m = (case m (at_detector t) of (r, d) \<Rightarrow>
     let t' = t\<lparr>at_detector := d\<rparr> in
     py_then (put_tracker job_id t') (case r of Inl e \<Rightarrow> py_raise e | Inr _ \<Rightarrow> py_return t'))"

definition require_current :: "string \<Rightarrow> tracker_view tracking" where
  "require_current job_id = py_bind (tracker_current job_id) (\<lambda>v. case v of
       None \<Rightarrow> py_raise (RuntimeError ''assert current is not None'')
     | Some x \<Rightarrow> py_return x)"

definition tracker_ingest :: "string \<Rightarrow> completion_item \<Rightarrow> tracker_view tracking" where
  "tracker_ingest job_id item =
     py_bind (tracker_require job_id) (\<lambda>t.
     (let t1 = (if it_kind item = SESSION_ROTATE then t\<lparr>at_selector := reset_selector (at_selector t)\<rparr> else t) in
      py_then (put_tracker job_id t1)
      (py_bind (py_lift (reply_candidates_from_item item)) (\<lambda>cs.
       let t2 = t1\<lparr>at_selector := foldl (\<lambda>s c. ingest_candidate c s) (at_selector t1) cs\<rparr> in
       py_then (put_tracker job_id t2)
       (py_then (with_detector job_id t2 (det_ingest item)) (require_current job_id))))))"

definition maybe_finalize_timeout :: "string \<Rightarrow> active_tracker \<Rightarrow> string \<Rightarrow> unit tracking" where
  "maybe_finalize_timeout job_id t now =
     (if at_timeout_s t \<le> 0 then py_return ()
      else if de_terminal (dt_decision (at_detector t)) then py_return ()
      else case seconds_between (at_started_at t) now of
          Inl _ \<Rightarrow> py_return ()
        | Inr elapsed \<Rightarrow>
            if elapsed < at_timeout_s t then py_return ()
            else py_then (with_detector job_id t
                   (det_finalize_timeout now (st_latest_cursor (dt_state (at_detector t)))))
                 (py_return ()))"

definition tracker_tick :: "string \<Rightarrow> string \<Rightarrow> tracker_view tracking" where
  "tracker_tick job_id now =
     py_bind (tracker_require job_id) (\<lambda>t.
     py_bind (with_detector job_id t (det_tick now (st_latest_cursor (dt_state (at_detector t))))) (\<lambda>t1.
     py_then (maybe_finalize_timeout job_id t1 now) (require_current job_id)))"

fun tick_each :: "string list \<Rightarrow> string \<Rightarrow> tracker_view list tracking" where
  "tick_each [] now = py_return []"
| "tick_each (j # js) now = py_bind (tracker_tick j now) (\<lambda>v.
     py_bind (tick_each js now) (\<lambda>vs. py_return (v # vs)))"

definition tracker_tick_all :: "string \<Rightarrow> tracker_view list tracking" where
  "tracker_tick_all now = py_bind (py_gets (\<lambda>s. map fst (ts_trackers s))) (\<lambda>js. tick_each js now)"

definition tracker_finish :: "string \<Rightarrow> unit tracking" where
  "tracker_finish job_id = py_modify (\<lambda>s. s\<lparr>ts_trackers := dict_pop job_id (ts_trackers s)\<rparr>)"

section \<open>The best candidate\<close>

definition selector_ok :: "selector \<Rightarrow> bool" where
  "selector_ok s \<longleftrightarrow> distinct (map fst (se_candidates s)) \<and> (\<forall>e \<in> set (se_candidates s). fst e < se_sequence s)"

lemma selector_ok_new [simp]: "selector_ok new_selector"
  by (simp add: selector_ok_def new_selector_def)

lemma selector_ok_ingest: "selector_ok s \<Longrightarrow> selector_ok (ingest_candidate c s)"
  by (auto simp: selector_ok_def ingest_candidate_def)

lemma selector_ok_ingests: "selector_ok s \<Longrightarrow> selector_ok (foldl (\<lambda>s c. ingest_candidate c s) s cs)"
  by (induction cs arbitrary: s) (simp_all add: selector_ok_ingest)

lemma selector_ok_reset [simp]: "selector_ok (reset_selector s)"
  by (simp add: selector_ok_def reset_selector_def)

lemma hd_sort_key_least:
  assumes "xs \<noteq> []"
  shows "hd (sort_key f xs) \<in> set xs \<and> (\<forall>y \<in> set xs. f (hd (sort_key f xs)) \<le> f y)"
proof -
  let ?ys = "sort_key f xs"
  have ne: "?ys \<noteq> []" using assms by (metis set_empty set_sort)
  then have "hd ?ys \<in> set xs" using hd_in_set by fastforce
  moreover have "\<forall>y \<in> set ?ys. f (hd ?ys) \<le> f y"
    using sorted_sort_key [of f xs] ne by (cases ?ys) auto
  ultimately show ?thesis by simp
qed

lemma best_candidate_least:
  assumes "se_candidates s \<noteq> []"
  obtains i c where "best_candidate s = Some c" "(i, c) \<in> set (se_candidates s)"
    "\<And>j d. (j, d) \<in> set (se_candidates s) \<Longrightarrow> rank c < rank d \<or> (rank c = rank d \<and> j \<le> i)"
proof -
  let ?h = "hd (sort_key candidate_key (se_candidates s))"
  have h: "?h \<in> set (se_candidates s)" "\<forall>y \<in> set (se_candidates s). candidate_key ?h \<le> candidate_key y"
    using hd_sort_key_least [OF assms, of candidate_key] by simp_all
  obtain i c where ic: "?h = (i, c)" by (cases ?h)
  show ?thesis
  proof (rule that [of c i])
    show "best_candidate s = Some c" using assms ic by (simp add: best_candidate_def)
    show "(i, c) \<in> set (se_candidates s)" using h(1) ic by simp
    fix j d assume "(j, d) \<in> set (se_candidates s)"
    then have "candidate_key (i, c) \<le> candidate_key (j, d)" using h(2) ic by auto
    then show "rank c < rank d \<or> (rank c = rank d \<and> j \<le> i)" by (auto simp: candidate_key_def)
  qed
qed

section \<open>The tracker's runs\<close>

definition tracker_ok :: "active_tracker \<Rightarrow> bool" where
  "tracker_ok t \<longleftrightarrow> dt_request_ctx (at_detector t) \<noteq> None \<and> valid_decision (dt_decision (at_detector t)) \<and>
     selector_ok (at_selector t)"

definition service_ok :: "tracker_service \<Rightarrow> bool" where
  "service_ok s \<longleftrightarrow> distinct (map fst (ts_trackers s)) \<and> (\<forall>(j, t) \<in> set (ts_trackers s). tracker_ok t)"

lemma service_ok_lookup: "service_ok s \<Longrightarrow> map_of (ts_trackers s) j = Some t \<Longrightarrow> tracker_ok t"
  by (auto simp: service_ok_def dest: map_of_SomeD)

lemma service_ok_put: "service_ok s \<Longrightarrow> tracker_ok t \<Longrightarrow> service_ok (s\<lparr>ts_trackers := dict_set j t (ts_trackers s)\<rparr>)"
  by (auto simp: service_ok_def distinct_dict_set dest!: in_dict_set)

text \<open>A view of a well-formed tracker always exists; it shows the detector's decision with a reply.\<close>
lemma view_of_ok:
  assumes "tracker_ok t"
  shows "\<exists>v. view_of j t = Inr v \<and> tv_job_id v = j \<and> tv_state v = dt_state (at_detector t) \<and>
    tv_decision v = (dt_decision (at_detector t))\<lparr>de_reply :=
      (if de_reply (dt_decision (at_detector t)) = [] then preview (at_selector t)
       else de_reply (dt_decision (at_detector t)))\<rparr>"
proof -
  let ?d = "dt_decision (at_detector t)"
  have v: "valid_decision ?d" using assms by (simp add: tracker_ok_def)
  then have "valid_decision (?d\<lparr>de_reply := r\<rparr>)" for r by (simp add: valid_decision_def)
  then have w: "with_reply ?d r = Inr (?d\<lparr>de_reply := r\<rparr>)" if "r \<noteq> []" for r
    using that by (simp add: with_reply_def)
  show ?thesis
    using w by (cases "de_terminal ?d"; cases "de_reply ?d = []"; cases "preview (at_selector t) = []")
      (simp_all add: view_of_def select_def Let_def)
qed

lemma with_detector_run:
  "m (at_detector t) = (Inr (), d) \<Longrightarrow>
   with_detector j t m s = (Inr (t\<lparr>at_detector := d\<rparr>),
     s\<lparr>ts_trackers := dict_set j (t\<lparr>at_detector := d\<rparr>) (ts_trackers s)\<rparr>)"
  by (simp add: with_detector_def put_tracker_def Let_def)

lemma with_detector_raises:
  "m (at_detector t) = (Inl e, d) \<Longrightarrow> fst (with_detector j t m s) = Inl e"
  by (simp add: with_detector_def put_tracker_def Let_def)

lemma dict_set_twice [simp]: "dict_set k v (dict_set k w d) = dict_set k v d"
  by (induction k w d rule: dict_set.induct) auto

lemma require_current_run:
  assumes "map_of (ts_trackers s) j = Some t" "tracker_ok t"
  obtains v where "require_current j s = (Inr v, s)" "view_of j t = Inr v"
proof -
  obtain v where v: "view_of j t = Inr v" using view_of_ok [OF assms(2)] by blast
  with assms(1) have "require_current j s = (Inr v, s)"
    by (simp add: require_current_def tracker_current_def)
  with v that show ?thesis by blast
qed

lemma require_run: "map_of (ts_trackers s) j = Some t \<Longrightarrow> tracker_require j s = (Inr t, s)"
  by (simp add: tracker_require_def)

text \<open>The tracker after an item: selector fed, detector advanced\<close>

lemma tracker_ingest_run:
  assumes s: "service_ok s" "map_of (ts_trackers s) j = Some t" and ts: "it_timestamp item \<noteq> []"
  obtains cs d' v where "reply_candidates_from_item item = Inr cs"
    "decides (at_detector t) item (verdict (dt_family (at_detector t)) item) (Inr (), d')"
    "tracker_ok (t\<lparr>at_detector := d', at_selector := foldl (\<lambda>s c. ingest_candidate c s)
       (if it_kind item = SESSION_ROTATE then reset_selector (at_selector t) else at_selector t) cs\<rparr>)"
    "tracker_ingest j item s = (Inr v, s\<lparr>ts_trackers := dict_set j (t\<lparr>at_detector := d',
       at_selector := foldl (\<lambda>s c. ingest_candidate c s)
         (if it_kind item = SESSION_ROTATE then reset_selector (at_selector t) else at_selector t) cs\<rparr>)
       (ts_trackers s)\<rparr>)"
    "view_of j (t\<lparr>at_detector := d', at_selector := foldl (\<lambda>s c. ingest_candidate c s)
       (if it_kind item = SESSION_ROTATE then reset_selector (at_selector t) else at_selector t) cs\<rparr>) = Inr v"
proof -
  let ?sel = "if it_kind item = SESSION_ROTATE then reset_selector (at_selector t) else at_selector t"
  have ok: "tracker_ok t" using service_ok_lookup [OF s] .
  then have bound: "dt_request_ctx (at_detector t) \<noteq> None" by (simp add: tracker_ok_def)
  obtain cs where cs: "reply_candidates_from_item item = Inr cs" using reply_candidates_valid [OF ts] by blast
  obtain d' where d': "det_ingest item (at_detector t) = (Inr (), d')"
    "decides (at_detector t) item (verdict (dt_family (at_detector t)) item) (Inr (), d')"
    using det_ingest_decides [OF bound, of item] by (auto simp: decides_def)
  let ?t = "t\<lparr>at_detector := d', at_selector := foldl (\<lambda>s c. ingest_candidate c s) ?sel cs\<rparr>"
  have "selector_ok ?sel" using ok by (simp add: tracker_ok_def)
  then have ok': "tracker_ok ?t"
    using d'(2) bound selector_ok_ingests by (auto simp: tracker_ok_def decides_def same_binding_def)
  let ?s = "s\<lparr>ts_trackers := dict_set j ?t (ts_trackers s)\<rparr>"
  obtain v where v: "require_current j ?s = (Inr v, ?s)" "view_of j ?t = Inr v"
    using require_current_run [of ?s j ?t] ok' by auto
  define t1 where "t1 = (if it_kind item = SESSION_ROTATE
    then t\<lparr>at_selector := reset_selector (at_selector t)\<rparr> else t)"
  have t1: "at_selector t1 = ?sel" "at_detector t1 = at_detector t"
    "t1\<lparr>at_selector := x, at_detector := y\<rparr> = t\<lparr>at_detector := y, at_selector := x\<rparr>" for x y
    by (simp_all add: t1_def)
  have wd: "with_detector j (t1\<lparr>at_selector := foldl (\<lambda>s c. ingest_candidate c s) ?sel cs\<rparr>) (det_ingest item) u =
      (Inr ?t, u\<lparr>ts_trackers := dict_set j ?t (ts_trackers u)\<rparr>)" for u
    using with_detector_run [of "det_ingest item" "t1\<lparr>at_selector := foldl (\<lambda>s c. ingest_candidate c s) ?sel cs\<rparr>" d' j u]
      d'(1) t1 by simp
  have "tracker_ingest j item s = (Inr v, ?s)"
    using v(1) by (simp add: tracker_ingest_def require_run [OF s(2)] cs Let_def put_tracker_def wd t1(1)
        flip: t1_def)
  from that [OF cs d'(2) ok' this v(2)] show ?thesis .
qed

section \<open>Ticks and timeouts\<close>

text \<open>The elapsed time of the settle window can be computed: the reply's time stamp parses.\<close>
definition tick_safe :: "detector \<Rightarrow> string \<Rightarrow> bool" where
  "tick_safe d now \<longleftrightarrow> dt_family d \<noteq> ANCHORED_SESSION_STABILITY \<or>
     (\<forall>since. st_stable_since (dt_state d) = Some since \<longrightarrow> (\<exists>x. seconds_between since now = Inr x))"

lemma det_tick_valid:
  assumes "valid_decision (dt_decision d)" "det_tick now cursor d = (Inr (), d')"
  shows "valid_decision (dt_decision d')"
proof (cases "dt_family d = ANCHORED_SESSION_STABILITY")
  case False
  with det_tick_other [OF False, of now cursor] assms show ?thesis by auto
next
  case True
  show ?thesis
  proof (cases "de_terminal (dt_decision d)")
    case False
    then show ?thesis
      using assms(2) True assms(1)
      by (auto simp: det_tick_def anchored_tick_def det_run py_iffs split: option.splits if_splits bool.splits)
  next
    case t: True
    with det_tick_terminal [OF t, of now cursor] assms show ?thesis by auto
  qed
qed

lemma det_tick_returns:
  assumes "tick_safe d now"
  shows "\<exists>d'. det_tick now cursor d = (Inr (), d') \<and> same_binding d d'"
proof (cases "dt_family d = ANCHORED_SESSION_STABILITY \<and> \<not> de_terminal (dt_decision d)")
  case True
  show ?thesis
  proof (cases "\<not> st_reply_started (dt_state d) \<or> st_tool_active (dt_state d) \<or> st_stable_since (dt_state d) = None")
    case w: True
    with True anchored_tick_waits [of d now cursor] show ?thesis by blast
  next
    case False
    then obtain since x where "st_stable_since (dt_state d) = Some since" "seconds_between since now = Inr x"
      using assms True by (auto simp: tick_safe_def)
    with False True anchored_tick_settles [of d now x cursor] show ?thesis
      by (auto simp: settled_reply_def)
  qed
next
  case False
  with det_tick_other [of d now cursor] det_tick_terminal [of d now cursor] show ?thesis by blast
qed

definition timed_out :: "active_tracker \<Rightarrow> string \<Rightarrow> bool" where
  "timed_out t now \<longleftrightarrow> at_timeout_s t > 0 \<and>
     (case seconds_between (at_started_at t) now of Inl _ \<Rightarrow> False | Inr x \<Rightarrow> x \<ge> at_timeout_s t)"

lemma tracker_tick_run:
  assumes s: "service_ok s" "map_of (ts_trackers s) j = Some t" and safe: "tick_safe (at_detector t) now"
  obtains d' v where "tracker_ok (t\<lparr>at_detector := d'\<rparr>)" "view_of j (t\<lparr>at_detector := d'\<rparr>) = Inr v"
    "tracker_tick j now s = (Inr v, s\<lparr>ts_trackers := dict_set j (t\<lparr>at_detector := d'\<rparr>) (ts_trackers s)\<rparr>)"
    "timed_out t now \<Longrightarrow> de_terminal (dt_decision d')"
    "same_binding (at_detector t) d'"
proof -
  have ok: "tracker_ok t" using service_ok_lookup [OF s] .
  let ?cur = "st_latest_cursor (dt_state (at_detector t))"
  obtain d1 where d1: "det_tick now ?cur (at_detector t) = (Inr (), d1)" "same_binding (at_detector t) d1"
    using det_tick_returns [OF safe] by blast
  have v1: "valid_decision (dt_decision d1)" using det_tick_valid [OF _ d1(1)] ok by (simp add: tracker_ok_def)
  let ?t1 = "t\<lparr>at_detector := d1\<rparr>" and ?s1 = "s\<lparr>ts_trackers := dict_set j (t\<lparr>at_detector := d1\<rparr>) (ts_trackers s)\<rparr>"
  have ok1: "tracker_ok ?t1" using ok d1(2) v1 by (simp add: tracker_ok_def same_binding_def)
  have tick1: "with_detector j t (det_tick now ?cur) s = (Inr ?t1, ?s1)" by (rule with_detector_run) (rule d1(1))
  obtain d2 where d2: "maybe_finalize_timeout j ?t1 now ?s1 =
        (Inr (), s\<lparr>ts_trackers := dict_set j (t\<lparr>at_detector := d2\<rparr>) (ts_trackers s)\<rparr>)"
    "tracker_ok (t\<lparr>at_detector := d2\<rparr>)" "timed_out t now \<Longrightarrow> de_terminal (dt_decision d2)" "same_binding d1 d2"
  proof (cases "timed_out t now \<and> \<not> de_terminal (dt_decision d1)")
    case False
    then have "maybe_finalize_timeout j ?t1 now ?s1 = (Inr (), ?s1)"
      by (auto simp: maybe_finalize_timeout_def timed_out_def split: sum.splits)
    with ok1 False that [of d1] show ?thesis by (auto simp: same_binding_def)
  next
    case True
    obtain d2 where d2: "det_finalize_timeout now (st_latest_cursor (dt_state d1)) d1 = (Inr (), d2)"
      "same_binding d1 d2" "de_terminal (dt_decision d2)" "valid_decision (dt_decision d2)"
      using det_finalize_ends [of d1 now "st_latest_cursor (dt_state d1)"] ok1 True
      by (auto simp: tracker_ok_def)
    have "with_detector j ?t1 (det_finalize_timeout now (st_latest_cursor (dt_state d1))) ?s1 =
        (Inr (?t1\<lparr>at_detector := d2\<rparr>), ?s1\<lparr>ts_trackers := dict_set j (?t1\<lparr>at_detector := d2\<rparr>) (ts_trackers ?s1)\<rparr>)"
      by (rule with_detector_run) (use d2 in simp)
    then have "maybe_finalize_timeout j ?t1 now ?s1 =
        (Inr (), s\<lparr>ts_trackers := dict_set j (t\<lparr>at_detector := d2\<rparr>) (ts_trackers s)\<rparr>)"
      using True by (auto simp: maybe_finalize_timeout_def timed_out_def split: sum.splits)
    moreover have "tracker_ok (t\<lparr>at_detector := d2\<rparr>)"
      using ok1 d2 by (simp add: tracker_ok_def same_binding_def)
    ultimately show ?thesis using that [of d2] d2 by simp
  qed
  let ?t2 = "t\<lparr>at_detector := d2\<rparr>" and ?s2 = "s\<lparr>ts_trackers := dict_set j (t\<lparr>at_detector := d2\<rparr>) (ts_trackers s)\<rparr>"
  obtain v where v: "require_current j ?s2 = (Inr v, ?s2)" "view_of j ?t2 = Inr v"
    using require_current_run [of ?s2 j ?t2] d2(2) by auto
  have "tracker_tick j now s = (Inr v, ?s2)"
    by (simp add: tracker_tick_def require_run [OF s(2)] tick1 d2(1) v(1))
  moreover have "same_binding (at_detector t) d2" using d1(2) d2(4) by (simp add: same_binding_def)
  ultimately show ?thesis using that [of d2 v] d2(2,3) v(2) by blast
qed

section \<open>Properties of reply selection and tracking\<close>

text \<open>
  C33. The reply selected. For a terminal decision without a reply of its own the selector returns
  the text of a candidate that no other beats: every other candidate has a higher priority number,
  or the same one and was ingested earlier. A decision's own reply takes precedence.
\<close>
theorem selected_reply_is_best:
  assumes "de_terminal d" "se_candidates s \<noteq> []"
  shows "if de_reply d \<noteq> [] then select d s = Inr (de_reply d)
    else \<exists>i c. (i, c) \<in> set (se_candidates s) \<and> select d s = Inr (rc_text c) \<and>
      (\<forall>(j, e) \<in> set (se_candidates s). rank c < rank e \<or> (rank c = rank e \<and> j \<le> i))"
proof (cases "de_reply d = []")
  case True
  obtain i c where c: "best_candidate s = Some c" "(i, c) \<in> set (se_candidates s)"
    "\<And>j e. (j, e) \<in> set (se_candidates s) \<Longrightarrow> rank c < rank e \<or> (rank c = rank e \<and> j \<le> i)"
    using best_candidate_least [OF assms(2)] by metis
  have "select d s = Inr (rc_text c)" using assms(1) True c(1) by (simp add: select_def preview_def)
  moreover have "\<forall>(j, e) \<in> set (se_candidates s). rank c < rank e \<or> (rank c = rank e \<and> j \<le> i)"
    using c(3) by auto
  ultimately show ?thesis using True c(2) by auto
qed (use assms in \<open>simp add: select_def\<close>)

definition demo_candidate :: "reply_candidate_kind \<Rightarrow> string \<Rightarrow> reply_candidate" where
  "demo_candidate k t = \<lparr>rc_kind = k, rc_text = t, rc_timestamp = ''t1'', rc_provider_turn_ref = None,
     rc_priority = Some (REPLY_PRIORITY k), rc_cursor = None\<rparr>"

definition demo_selector :: selector where
  "demo_selector = foldl (\<lambda>s c. ingest_candidate c s) new_selector
     [demo_candidate RC_FINAL_ANSWER ''old'', demo_candidate RC_FINAL_ANSWER ''new'',
      demo_candidate RC_FALLBACK_TEXT ''last'']"

theorem selected_reply_is_best_witness:
  "select (decided (CompletionState None) CS_COMPLETED ''done'' CC_EXACT ''t2'' [] []) demo_selector = Inr ''new''"
proof -
  let ?d = "decided (CompletionState None) CS_COMPLETED ''done'' CC_EXACT ''t2'' [] []"
  have "de_terminal ?d" "de_reply ?d = []" "se_candidates demo_selector \<noteq> []"
    by (simp_all add: demo_selector_def ingest_candidate_def)
  from selected_reply_is_best [OF this(1,3)] this(2) obtain i c where
    c: "(i, c) \<in> set (se_candidates demo_selector)" "select ?d demo_selector = Inr (rc_text c)"
    "\<forall>(j, e) \<in> set (se_candidates demo_selector). rank c < rank e \<or> (rank c = rank e \<and> j \<le> i)" by auto
  have "se_candidates demo_selector = [(0, demo_candidate RC_FINAL_ANSWER ''old''),
     (1, demo_candidate RC_FINAL_ANSWER ''new''), (2, demo_candidate RC_FALLBACK_TEXT ''last'')]"
    by (simp add: demo_selector_def ingest_candidate_def new_selector_def)
  with c show ?thesis by (auto simp: rank_def demo_candidate_def)
qed


definition demo_tracker :: "completion_family \<Rightarrow> active_tracker" where
  "demo_tracker f = \<lparr>at_agent_name = ''agent1'', at_detector = demo_detector f, at_selector = new_selector,
     at_started_at = ''2026-01-01T00:00:00Z'', at_timeout_s = 3600\<rparr>"

definition demo_service :: "active_tracker \<Rightarrow> tracker_service" where
  "demo_service t = \<lparr>ts_agents = [(''agent1'', (''codex'', PANE_BACKED))],
     ts_resolve = (\<lambda>_ _. Inl (KeyError ''codex'')), ts_request_timeout_s = 3600, ts_trackers = [(''j1'', t)]\<rparr>"

lemma demo_service_ok: "service_ok (demo_service (demo_tracker f))"
  by (simp add: demo_service_def demo_tracker_def service_ok_def tracker_ok_def demo_detector_def)


text \<open>
  C32. A bad reply time stamp disables the timeout. If the item that last changed the reply of a
  session-tracked job carried a time stamp that does not parse, every tick of that job raises that
  error, however much time has passed: the elapsed time of the settle window is computed outside
  the guard that protects the timeout, so the timeout behind it is never reached.
\<close>
theorem bad_timestamp_blocks_timeout:
  assumes "map_of (ts_trackers s) j = Some t" "dt_family (at_detector t) = ANCHORED_SESSION_STABILITY"
    "\<not> de_terminal (dt_decision (at_detector t))" "st_reply_started (dt_state (at_detector t))"
    "\<not> st_tool_active (dt_state (at_detector t))" "st_stable_since (dt_state (at_detector t)) = Some since"
    "parse_timestamp since = Inl e" "parse_timestamp now = Inr n"
  shows "fst (tracker_tick j now s) = Inl e"
proof -
  let ?m = "det_tick now (st_latest_cursor (dt_state (at_detector t)))"
  have "seconds_between since now = Inl e" using assms(7,8) by (simp add: seconds_between_def)
  then have "fst (?m (at_detector t)) = Inl e" using assms by (intro anchored_tick_raises)
  then obtain d where "?m (at_detector t) = (Inl e, d)" by (cases "?m (at_detector t)") auto
  then have "fst (with_detector j t ?m s) = Inl e" by (rule with_detector_raises)
  then obtain s' where "with_detector j t ?m s = (Inl e, s')" by (cases "with_detector j t ?m s") auto
  then show ?thesis by (simp add: tracker_tick_def require_run [OF assms(1)])
qed

definition demo_stuck :: active_tracker where
  "demo_stuck = (demo_tracker ANCHORED_SESSION_STABILITY)\<lparr>at_detector :=
     (demo_detector ANCHORED_SESSION_STABILITY)\<lparr>dt_state := (CompletionState (Some demo_cursor))
       \<lparr>st_reply_started := True, st_stable_since := Some ''yesterday''\<rparr>\<rparr>\<rparr>"

theorem bad_timestamp_blocks_timeout_witness:
  "\<exists>e. fst (tracker_tick ''j1'' ''2099-01-01T00:00:00Z'' (demo_service demo_stuck)) = Inl e"
proof -
  obtain e where e: "parse_timestamp ''yesterday'' = Inl e"
    by (simp add: parse_timestamp_def fromisoformat_def replace_z_def parse_date_def)
  have "\<exists>n. parse_timestamp ''2099-01-01T00:00:00Z'' = Inr n" by (intro exI) code_simp
  then obtain n where n: "parse_timestamp ''2099-01-01T00:00:00Z'' = Inr n" by blast
  have "fst (tracker_tick ''j1'' ''2099-01-01T00:00:00Z'' (demo_service demo_stuck)) = Inl e"
    by (rule bad_timestamp_blocks_timeout [where t = demo_stuck and since = "''yesterday''" and n = n])
      (simp_all add: demo_service_def demo_stuck_def demo_tracker_def demo_detector_def CompletionState_def e n)
  then show ?thesis ..
qed

text \<open>
  C30. Ingesting an item. For a tracked job, \<open>ingest\<close> returns a view whose decision is terminal
  exactly when the detector's table says so, with that status, and whose reply is the decision's
  own or the best candidate known; the service stays well formed and no other job is touched.
\<close>
theorem tracker_ingest_view:
  assumes "service_ok s" "map_of (ts_trackers s) j = Some t" "it_timestamp item \<noteq> []"
  shows "\<exists>v s' t'. tracker_ingest j item s = (Inr v, s') \<and> service_ok s' \<and>
    map_of (ts_trackers s') j = Some t' \<and> (\<forall>k. k \<noteq> j \<longrightarrow> map_of (ts_trackers s') k = map_of (ts_trackers s) k) \<and>
    (de_terminal (tv_decision v) \<longleftrightarrow> verdict (dt_family (at_detector t)) item \<noteq> Keep_Waiting) \<and>
    (\<forall>st conf. verdict (dt_family (at_detector t)) item = Finished st conf \<longrightarrow> de_status (tv_decision v) = st) \<and>
    de_reply (tv_decision v) = (if de_reply (dt_decision (at_detector t')) = [] then preview (at_selector t')
      else de_reply (dt_decision (at_detector t')))"
proof -
  let ?sel = "\<lambda>cs. foldl (\<lambda>s c. ingest_candidate c s)
      (if it_kind item = SESSION_ROTATE then reset_selector (at_selector t) else at_selector t) cs"
  obtain cs d' v where r: "decides (at_detector t) item (verdict (dt_family (at_detector t)) item) (Inr (), d')"
    "tracker_ok (t\<lparr>at_detector := d', at_selector := ?sel cs\<rparr>)"
    "tracker_ingest j item s = (Inr v, s\<lparr>ts_trackers := dict_set j (t\<lparr>at_detector := d', at_selector := ?sel cs\<rparr>)
       (ts_trackers s)\<rparr>)"
    "view_of j (t\<lparr>at_detector := d', at_selector := ?sel cs\<rparr>) = Inr v"
    by (rule tracker_ingest_run [OF assms])
  let ?t = "t\<lparr>at_detector := d', at_selector := ?sel cs\<rparr>"
  obtain w where w: "view_of j ?t = Inr w" "tv_decision w = (dt_decision (at_detector ?t))\<lparr>de_reply :=
      (if de_reply (dt_decision (at_detector ?t)) = [] then preview (at_selector ?t)
       else de_reply (dt_decision (at_detector ?t)))\<rparr>"
    using view_of_ok [OF r(2), of j] by blast
  have "v = w" using w(1) r(4) by simp
  with w(2) have v: "de_terminal (tv_decision v) = de_terminal (dt_decision d')"
    "de_status (tv_decision v) = de_status (dt_decision d')"
    "de_reply (tv_decision v) = (if de_reply (dt_decision (at_detector ?t)) = [] then preview (at_selector ?t)
       else de_reply (dt_decision (at_detector ?t)))" by simp_all
  have "de_terminal (dt_decision d') \<longleftrightarrow> verdict (dt_family (at_detector t)) item \<noteq> Keep_Waiting"
    "\<forall>st conf. verdict (dt_family (at_detector t)) item = Finished st conf \<longrightarrow> de_status (dt_decision d') = st"
    using r(1) by (cases "verdict (dt_family (at_detector t)) item"; simp add: decides_def)+
  with v r(3) service_ok_put [OF assms(1) r(2), of j] show ?thesis
    by (intro exI [of _ v] exI [of _ "s\<lparr>ts_trackers := dict_set j ?t (ts_trackers s)\<rparr>"] exI [of _ ?t]) simp
qed

theorem tracker_ingest_view_witness:
  "\<exists>v s'. tracker_ingest ''j1'' (demo_item TURN_BOUNDARY [(''reply'', JStr ''done'')])
     (demo_service (demo_tracker SESSION_BOUNDARY)) = (Inr v, s') \<and>
   de_terminal (tv_decision v) \<and> de_status (tv_decision v) = CS_COMPLETED"
proof -
  let ?t = "demo_tracker SESSION_BOUNDARY" and ?i = "demo_item TURN_BOUNDARY [(''reply'', JStr ''done'')]"
  have "verdict (dt_family (at_detector ?t)) ?i = Finished CS_COMPLETED CC_OBSERVED"
    by (simp add: demo_tracker_def demo_detector_def demo_item_def)
  moreover have "map_of (ts_trackers (demo_service ?t)) ''j1'' = Some ?t" "it_timestamp ?i \<noteq> []"
    by (simp_all add: demo_service_def demo_item_def)
  ultimately show ?thesis
    using tracker_ingest_view [OF demo_service_ok [of SESSION_BOUNDARY], of "''j1''" ?t ?i] by auto
qed

end
