(* ===== verification/Dispatcher_State.thy ===== *)
theory Dispatcher_State
  imports Jobs "HOL-Library.AList"
begin

text \<open>
  The dispatcher's in-memory state (\<open>dispatcher_runtime/state*.py\<close>): one queue of job ids per target, the
  target of every known job and the running job of every target, and how a restart rebuilds the three
  from the job log. A \<open>dict\<close> keyed by a target slot is an association list in insertion order;
  \<^const>\<open>AList.update\<close> overwrites in place or appends, as assignment to a key does.
\<close>

section \<open>Target queues\<close>

definition PENDING_STATES :: "job_status list" where
  "PENDING_STATES = [JS_ACCEPTED, JS_QUEUED]"

type_synonym target_slot = "target_kind \<times> string"
type_synonym target_queue = "string list"

definition queue_clear :: "target_queue \<Rightarrow> target_queue" where
  "queue_clear items = []"

definition queue_push :: "string \<Rightarrow> target_queue \<Rightarrow> target_queue" where
  "queue_push job_id items = items @ [job_id]"

fun queue_pop :: "target_queue \<Rightarrow> string option \<times> target_queue" where
  "queue_pop [] = (None, [])"
| "queue_pop (x # xs) = (Some x, xs)"

text \<open>\<open>list.remove\<close> takes the first occurrence and raises where there is none\<close>
definition queue_remove :: "string \<Rightarrow> target_queue \<Rightarrow> bool \<times> target_queue" where
  "queue_remove job_id items =
     (if job_id \<in> set items then (True, remove1 job_id items) else (False, items))"

section \<open>The state and its operations\<close>

record dispatcher_state =
  ds_queues :: "(target_slot \<times> target_queue) list"
  ds_job_index :: "target_slot dict"
  ds_active_jobs :: "(target_slot \<times> string) list"

definition queue_at :: "dispatcher_state \<Rightarrow> target_slot \<Rightarrow> target_queue" where
  "queue_at st slot = (case map_of (ds_queues st) slot of None \<Rightarrow> [] | Some q \<Rightarrow> q)"

definition ensure_queue :: "target_slot \<Rightarrow> dispatcher_state \<Rightarrow> dispatcher_state" where
  "ensure_queue slot st = (case map_of (ds_queues st) slot of
     None \<Rightarrow> st\<lparr>ds_queues := AList.update slot [] (ds_queues st)\<rparr> | Some _ \<Rightarrow> st)"

text \<open>A call of a queue's method: the queue object of a slot is changed in place\<close>
definition put_queue :: "target_slot \<Rightarrow> target_queue \<Rightarrow> dispatcher_state \<Rightarrow> dispatcher_state" where
  "put_queue slot q st = st\<lparr>ds_queues := AList.update slot q (ds_queues st)\<rparr>"

definition new_dispatcher_state :: "string list \<Rightarrow> dispatcher_state" where
  "new_dispatcher_state agent_names = fold (\<lambda>name. ensure_queue (TK_AGENT, name)) agent_names
     \<lparr>ds_queues = [], ds_job_index = [], ds_active_jobs = []\<rparr>"

definition active_job_for :: "target_kind \<Rightarrow> string \<Rightarrow> dispatcher_state \<Rightarrow> string option" where
  "active_job_for kind name st = map_of (ds_active_jobs st) (kind, name)"

definition mark_active_for :: "target_kind \<Rightarrow> string \<Rightarrow> string \<Rightarrow> dispatcher_state \<Rightarrow> dispatcher_state" where
  "mark_active_for kind name job_id st =
     (let st = ensure_queue (kind, name) st
      in st\<lparr>ds_active_jobs := AList.update (kind, name) job_id (ds_active_jobs st)\<rparr>)"

definition clear_active_for ::
  "target_kind \<Rightarrow> string \<Rightarrow> string option \<Rightarrow> dispatcher_state \<Rightarrow> dispatcher_state" where
  "clear_active_for kind name job_id st =
     (if job_id \<noteq> None \<and> map_of (ds_active_jobs st) (kind, name) \<noteq> job_id then st
      else st\<lparr>ds_active_jobs := AList.delete (kind, name) (ds_active_jobs st)\<rparr>)"

definition active_items :: "dispatcher_state \<Rightarrow> (target_kind \<times> string \<times> string) list" where
  "active_items st = map (\<lambda>(slot, job_id). (fst slot, snd slot, job_id)) (ds_active_jobs st)"

definition slots :: "dispatcher_state \<Rightarrow> target_slot list" where
  "slots st = map fst (ds_queues st)"

definition target_for_job :: "string \<Rightarrow> dispatcher_state \<Rightarrow> target_slot option" where
  "target_for_job job_id st = map_of (ds_job_index st) job_id"

definition agent_for_job :: "string \<Rightarrow> dispatcher_state \<Rightarrow> string option" where
  "agent_for_job job_id st = (case target_for_job job_id st of None \<Rightarrow> None
     | Some slot \<Rightarrow> if fst slot \<noteq> TK_AGENT then None else Some (snd slot))"

definition remember_job :: "string \<Rightarrow> target_kind \<Rightarrow> string \<Rightarrow> dispatcher_state \<Rightarrow> dispatcher_state" where
  "remember_job job_id kind name st =
     ensure_queue (kind, name) (st\<lparr>ds_job_index := dict_set job_id (kind, name) (ds_job_index st)\<rparr>)"

definition record_job :: "job_record \<Rightarrow> dispatcher_state \<Rightarrow> dispatcher_state" where
  "record_job r = remember_job (jr_job_id r) (jr_target_kind r) (jr_target_name r)"

text \<open>The reads create a missing queue as well; they return the state with it\<close>
definition queue_depth_for :: "target_kind \<Rightarrow> string \<Rightarrow> dispatcher_state \<Rightarrow> int \<times> dispatcher_state" where
  "queue_depth_for kind name st = (let st = ensure_queue (kind, name) st in
     (int (length (queue_at st (kind, name))) +
        (if map_of (ds_active_jobs st) (kind, name) \<noteq> None then 1 else 0), st))"

definition has_outstanding_for :: "target_kind \<Rightarrow> string \<Rightarrow> dispatcher_state \<Rightarrow> bool \<times> dispatcher_state" where
  "has_outstanding_for kind name st = (let st = ensure_queue (kind, name) st in
     (active_job_for kind name st \<noteq> None \<or> length (queue_at st (kind, name)) > 0, st))"

definition enqueue_for :: "target_kind \<Rightarrow> string \<Rightarrow> string \<Rightarrow> dispatcher_state \<Rightarrow> dispatcher_state" where
  "enqueue_for kind name job_id st = (let st = ensure_queue (kind, name) st in
     put_queue (kind, name) (queue_push job_id (queue_at st (kind, name))) st)"

definition pop_next_for :: "target_kind \<Rightarrow> string \<Rightarrow> dispatcher_state \<Rightarrow> string option \<times> dispatcher_state" where
  "pop_next_for kind name st = (let st = ensure_queue (kind, name) st;
       (x, q) = queue_pop (queue_at st (kind, name)) in (x, put_queue (kind, name) q st))"

definition queued_items_for :: "target_kind \<Rightarrow> string \<Rightarrow> dispatcher_state \<Rightarrow> string list \<times> dispatcher_state" where
  "queued_items_for kind name st = (let st = ensure_queue (kind, name) st in (queue_at st (kind, name), st))"

definition remove_queued_for ::
  "target_kind \<Rightarrow> string \<Rightarrow> string \<Rightarrow> dispatcher_state \<Rightarrow> bool \<times> dispatcher_state" where
  "remove_queued_for kind name job_id st = (let st = ensure_queue (kind, name) st;
       (found, q) = queue_remove job_id (queue_at st (kind, name)) in (found, put_queue (kind, name) q st))"

section \<open>Rebuilding the state from the job log\<close>

text \<open>The first loop over an agent's rows: the newest row per job, the order of the jobs, the index\<close>
definition scan_record :: "job_record \<Rightarrow> job_record dict \<times> string list \<times> dispatcher_state \<Rightarrow>
    job_record dict \<times> string list \<times> dispatcher_state" where
  "scan_record r = (\<lambda>(latest_by_job, order, st).
     (dict_set (jr_job_id r) r latest_by_job,
      (if jr_job_id r \<in> fst ` set latest_by_job then order else order @ [jr_job_id r]),
      ensure_queue (jr_target_kind r, jr_target_name r)
        (st\<lparr>ds_job_index := dict_set (jr_job_id r) (jr_target_kind r, jr_target_name r) (ds_job_index st)\<rparr>)))"

text \<open>The second loop: a running job becomes active, a pending one is queued\<close>
definition restore_job :: "job_record \<Rightarrow> dispatcher_state \<Rightarrow> dispatcher_state" where
  "restore_job latest st = (let slot = (jr_target_kind latest, jr_target_name latest) in
     if jr_status latest = JS_RUNNING
     then st\<lparr>ds_active_jobs := AList.update slot (jr_job_id latest) (ds_active_jobs st)\<rparr>
     else if jr_status latest \<in> set PENDING_STATES
     then (let st = ensure_queue slot st in put_queue slot (queue_push (jr_job_id latest) (queue_at st slot)) st)
     else st)"

definition rebuild_agent :: "job_record list \<Rightarrow> dispatcher_state \<Rightarrow> dispatcher_state" where
  "rebuild_agent rows st = (let (latest_by_job, order, st) = fold scan_record rows ([], [], st) in
     fold (\<lambda>job_id st. case map_of latest_by_job job_id of Some latest \<Rightarrow> restore_job latest st | None \<Rightarrow> st)
       order st)"

fun rebuild_agents :: "string list \<Rightarrow> dispatcher_state \<Rightarrow> dispatcher_state jobs" where
  "rebuild_agents [] st = py_return st"
| "rebuild_agents (agent_name # rest) st =
     py_bind (job_list_target agent_name) (\<lambda>rows. rebuild_agents rest (rebuild_agent rows st))"

definition rebuild :: "string list \<Rightarrow> dispatcher_state \<Rightarrow> dispatcher_state jobs" where
  "rebuild agent_names st = rebuild_agents agent_names
     (st\<lparr>ds_job_index := [], ds_active_jobs := [],
         ds_queues := map (\<lambda>(slot, q). (slot, queue_clear q)) (ds_queues st)\<rparr>)"

section \<open>What the operations change\<close>

text \<open>
  A state is seen through three functions: the queue of a slot, the target of a job and the running job
  of a slot. \<open>disp_view\<close> collects how every operation changes them.
\<close>

named_theorems disp_view \<open>queues, index and active jobs after an operation\<close>

lemma ensure_queue_view [simp, disp_view]:
  "queue_at (ensure_queue s st) x = queue_at st x"
  "ds_job_index (ensure_queue s st) = ds_job_index st"
  "ds_active_jobs (ensure_queue s st) = ds_active_jobs st"
  by (auto simp: ensure_queue_def queue_at_def AList.update_conv' split: option.splits)

lemma put_queue_view [simp, disp_view]:
  "queue_at (put_queue s q st) x = (if x = s then q else queue_at st x)"
  "ds_job_index (put_queue s q st) = ds_job_index st"
  "ds_active_jobs (put_queue s q st) = ds_active_jobs st"
  by (auto simp: put_queue_def queue_at_def AList.update_conv')

lemma queue_at_more [simp, disp_view]:
  "queue_at (st\<lparr>ds_job_index := i\<rparr>) x = queue_at st x"
  "queue_at (st\<lparr>ds_active_jobs := a\<rparr>) x = queue_at st x"
  by (simp_all add: queue_at_def)

lemma mark_active_view [disp_view]:
  "queue_at (mark_active_for k n j st) x = queue_at st x"
  "ds_job_index (mark_active_for k n j st) = ds_job_index st"
  "active_job_for k' n' (mark_active_for k n j st) = (if (k', n') = (k, n) then Some j else active_job_for k' n' st)"
  by (simp_all add: mark_active_for_def active_job_for_def AList.update_conv')

lemma clear_active_view [disp_view]:
  "queue_at (clear_active_for k n j st) x = queue_at st x"
  "ds_job_index (clear_active_for k n j st) = ds_job_index st"
  "active_job_for k' n' (clear_active_for k n j st) =
     (if (k', n') = (k, n) \<and> (j = None \<or> active_job_for k n st = j) then None else active_job_for k' n' st)"
  by (auto simp: clear_active_for_def active_job_for_def AList.delete_conv')

lemma record_job_view [disp_view]:
  "queue_at (record_job r st) x = queue_at st x"
  "active_job_for k n (record_job r st) = active_job_for k n st"
  "target_for_job j (record_job r st) =
     (if j = jr_job_id r then Some (jr_target_kind r, jr_target_name r) else target_for_job j st)"
  by (simp_all add: record_job_def remember_job_def active_job_for_def target_for_job_def)

lemma queue_remove_snd: "snd (queue_remove j q) = remove1 j q"
  by (simp add: queue_remove_def remove1_idem)

lemma enqueue_view [disp_view]:
  "queue_at (enqueue_for k n j st) x = (if x = (k, n) then queue_at st x @ [j] else queue_at st x)"
  "active_job_for k' n' (enqueue_for k n j st) = active_job_for k' n' st"
  "target_for_job i (enqueue_for k n j st) = target_for_job i st"
  by (simp_all add: enqueue_for_def queue_push_def active_job_for_def target_for_job_def)

lemma remove_queued_view [disp_view]:
  "queue_at (snd (remove_queued_for k n j st)) x = (if x = (k, n) then remove1 j (queue_at st x) else queue_at st x)"
  "active_job_for k' n' (snd (remove_queued_for k n j st)) = active_job_for k' n' st"
  "target_for_job i (snd (remove_queued_for k n j st)) = target_for_job i st"
  by (simp_all add: remove_queued_for_def active_job_for_def target_for_job_def case_prod_beta queue_remove_snd)

lemma pop_next_view [disp_view]:
  "fst (pop_next_for k n st) = (case queue_at st (k, n) of [] \<Rightarrow> None | j # _ \<Rightarrow> Some j)"
  "queue_at (snd (pop_next_for k n st)) x = (if x = (k, n) then tl (queue_at st x) else queue_at st x)"
  "active_job_for k' n' (snd (pop_next_for k n st)) = active_job_for k' n' st"
  "target_for_job i (snd (pop_next_for k n st)) = target_for_job i st"
  by (cases "queue_at st (k, n)"; simp add: pop_next_for_def active_job_for_def target_for_job_def)+

text \<open>There is one kind of target.\<close>

lemma target_kind_all [simp]: "k = TK_AGENT \<longleftrightarrow> True" "TK_AGENT = k \<longleftrightarrow> True" for k :: target_kind
  by (cases k; simp)+

lemma jr_target_kind_agent [simp]: "jr_target_kind r = TK_AGENT"
  by (cases "jr_target_kind r")

section \<open>What a rebuild computes\<close>

text \<open>What the log of a target says: its pending jobs in order of arrival and its last running job.\<close>

definition pending_ids :: "job_record list \<Rightarrow> string list" where
  "pending_ids rows = map jr_job_id (filter (\<lambda>r. jr_status r \<in> set PENDING_STATES) (latest_by jr_job_id rows))"

definition running_id :: "job_record list \<Rightarrow> string option" where
  "running_id rows = map_option jr_job_id (find_last_in (\<lambda>r. jr_status r = JS_RUNNING) (latest_by jr_job_id rows))"

definition scan_index :: "job_record list \<Rightarrow> target_slot dict \<Rightarrow> target_slot dict" where
  "scan_index rows = fold (\<lambda>r. dict_set (jr_job_id r) (jr_target_kind r, jr_target_name r)) rows"

lemma scan_rows:
  "\<exists>st'. fold scan_record rows ([], [], st) = (latest_dict jr_job_id rows, map jr_job_id (latest_by jr_job_id rows), st') \<and>
     (\<forall>x. queue_at st' x = queue_at st x) \<and> ds_active_jobs st' = ds_active_jobs st \<and>
     ds_job_index st' = scan_index rows (ds_job_index st)"
proof (induction rows rule: rev_induct)
  case Nil
  show ?case by (simp add: latest_dict_def scan_index_def)
next
  case (snoc r rows)
  have keys: "fst ` set (latest_dict jr_job_id rows) = jr_job_id ` set (latest_by jr_job_id rows)"
    using arg_cong [OF latest_dict_keys [of jr_job_id rows], of set] by simp
  have "map jr_job_id (latest_by jr_job_id (rows @ [r])) =
      (if jr_job_id r \<in> jr_job_id ` set (latest_by jr_job_id rows) then map jr_job_id (latest_by jr_job_id rows)
       else map jr_job_id (latest_by jr_job_id rows) @ [jr_job_id r])"
    by (simp add: latest_by_snoc map_key_replace del: map_map)
  with snoc keys show ?case
    by (auto simp: scan_record_def scan_index_def)
qed

lemma latest_dict_lookup: "r \<in> set (latest_by key rows) \<Longrightarrow> map_of (latest_dict key rows) (key r) = Some r"
proof -
  assume "r \<in> set (latest_by key rows)"
  then obtain k where k: "(k, r) \<in> set (latest_dict key rows)" by (auto simp: latest_by_def)
  with latest_dict_fst [OF k] show ?thesis by (auto simp: distinct_latest_dict intro!: map_of_is_SomeI)
qed

lemma fold_lookup:
  "\<forall>r \<in> set rs. map_of d (key r) = Some r \<Longrightarrow>
   fold (\<lambda>k st. case map_of d k of Some r \<Rightarrow> f r st | None \<Rightarrow> st) (map key rs) st = fold f rs st"
  by (induction rs arbitrary: st) auto

lemma restore_jobs_view:
  assumes "\<forall>r \<in> set rs. jr_target_name r = a"
  shows "queue_at (fold restore_job rs st) x =
      queue_at st x @ (if x = (TK_AGENT, a) then map jr_job_id (filter (\<lambda>r. jr_status r \<in> set PENDING_STATES) rs) else [])"
    and "active_job_for k n (fold restore_job rs st) =
      (if n = a then (case find_last_in (\<lambda>r. jr_status r = JS_RUNNING) rs of Some r \<Rightarrow> Some (jr_job_id r)
         | None \<Rightarrow> active_job_for k n st) else active_job_for k n st)"
    and "ds_job_index (fold restore_job rs st) = ds_job_index st"
proof -
  have kind: "k = TK_AGENT" by simp
  show "queue_at (fold restore_job rs st) x =
      queue_at st x @ (if x = (TK_AGENT, a) then map jr_job_id (filter (\<lambda>r. jr_status r \<in> set PENDING_STATES) rs) else [])"
    using assms by (induction rs rule: rev_induct)
      (auto simp: restore_job_def Let_def queue_push_def PENDING_STATES_def)
  show "active_job_for k n (fold restore_job rs st) =
      (if n = a then (case find_last_in (\<lambda>r. jr_status r = JS_RUNNING) rs of Some r \<Rightarrow> Some (jr_job_id r)
         | None \<Rightarrow> active_job_for k n st) else active_job_for k n st)"
    unfolding kind using assms by (induction rs rule: rev_induct)
      (auto simp: restore_job_def Let_def active_job_for_def AList.update_conv')
  show "ds_job_index (fold restore_job rs st) = ds_job_index st"
    by (induction rs arbitrary: st) (auto simp: restore_job_def Let_def)
qed

lemma rebuild_agent_view:
  assumes "\<forall>r \<in> set rows. jr_target_name r = a"
  shows "queue_at (rebuild_agent rows st) x = queue_at st x @ (if x = (TK_AGENT, a) then pending_ids rows else [])"
    and "active_job_for k n (rebuild_agent rows st) =
      (if n = a then (case running_id rows of Some j \<Rightarrow> Some j | None \<Rightarrow> active_job_for k n st)
       else active_job_for k n st)"
    and "ds_job_index (rebuild_agent rows st) = scan_index rows (ds_job_index st)"
proof -
  obtain st' where st': "fold scan_record rows ([], [], st) =
        (latest_dict jr_job_id rows, map jr_job_id (latest_by jr_job_id rows), st')"
      "\<forall>x. queue_at st' x = queue_at st x" "ds_active_jobs st' = ds_active_jobs st"
      "ds_job_index st' = scan_index rows (ds_job_index st)"
    using scan_rows by blast
  have eq: "rebuild_agent rows st = fold restore_job (latest_by jr_job_id rows) st'"
    unfolding rebuild_agent_def st'(1) Let_def prod.case
    by (rule fold_lookup) (simp add: latest_dict_lookup)
  have "\<forall>r \<in> set (latest_by jr_job_id rows). jr_target_name r = a" using assms set_latest_by by fast
  note view = restore_jobs_view [OF this]
  show "queue_at (rebuild_agent rows st) x = queue_at st x @ (if x = (TK_AGENT, a) then pending_ids rows else [])"
    unfolding eq view pending_ids_def using st' by (cases x) simp
  show "active_job_for k n (rebuild_agent rows st) =
      (if n = a then (case running_id rows of Some j \<Rightarrow> Some j | None \<Rightarrow> active_job_for k n st)
       else active_job_for k n st)"
    unfolding eq view running_id_def using st' by (simp add: active_job_for_def split: option.splits)
  show "ds_job_index (rebuild_agent rows st) = scan_index rows (ds_job_index st)"
    unfolding eq view using st' by simp
qed

text \<open>The log of a target holds rows of that target only: \<^const>\<open>job_append\<close> files a row under its target.\<close>

definition logs_partitioned :: "job_logs \<Rightarrow> bool" where
  "logs_partitioned l \<longleftrightarrow> (\<forall>a. \<forall>r \<in> set (jl_jobs l a). jr_target_name r = a)"

lemma job_list_target_run [simp]:
  "agent_name_ok a \<Longrightarrow> job_list_target a l = (Inr (jl_jobs l a), l)"
  by (simp add: job_list_target_def)

lemma rebuild_agents_view:
  assumes "logs_partitioned l" "\<forall>a \<in> set as. agent_name_ok a" "distinct as"
  shows "\<exists>st'. rebuild_agents as st l = (Inr st', l) \<and>
      (\<forall>a. queue_at st' (TK_AGENT, a) = queue_at st (TK_AGENT, a) @ (if a \<in> set as then pending_ids (jl_jobs l a) else [])) \<and>
      (\<forall>a. active_job_for TK_AGENT a st' = (case if a \<in> set as then running_id (jl_jobs l a) else None of
         Some j \<Rightarrow> Some j | None \<Rightarrow> active_job_for TK_AGENT a st)) \<and>
      ds_job_index st' = fold scan_index (map (jl_jobs l) as) (ds_job_index st)"
  using assms
proof (induction as arbitrary: st)
  case (Cons a as)
  have rows: "\<forall>r \<in> set (jl_jobs l a). jr_target_name r = a" using Cons.prems by (simp add: logs_partitioned_def)
  note view = rebuild_agent_view [OF rows]
  from Cons.prems obtain st' where st': "rebuild_agents as (rebuild_agent (jl_jobs l a) st) l = (Inr st', l)"
      "\<forall>b. queue_at st' (TK_AGENT, b) = queue_at (rebuild_agent (jl_jobs l a) st) (TK_AGENT, b) @
         (if b \<in> set as then pending_ids (jl_jobs l b) else [])"
      "\<forall>b. active_job_for TK_AGENT b st' = (case if b \<in> set as then running_id (jl_jobs l b) else None of
         Some j \<Rightarrow> Some j | None \<Rightarrow> active_job_for TK_AGENT b (rebuild_agent (jl_jobs l a) st))"
      "ds_job_index st' = fold scan_index (map (jl_jobs l) as) (ds_job_index (rebuild_agent (jl_jobs l a) st))"
    using Cons.IH [of "rebuild_agent (jl_jobs l a) st"] by auto
  have "rebuild_agents (a # as) st l = (Inr st', l)" using st'(1) Cons.prems by simp
  moreover have "a \<notin> set as" using Cons.prems by simp
  ultimately show ?case using st'(2-) by (auto simp: view split: option.splits)
qed simp

lemma scan_index_lookup:
  "map_of (scan_index rows d) j = (case find_last_in (\<lambda>r. jr_job_id r = j) rows of
     Some r \<Rightarrow> Some (jr_target_kind r, jr_target_name r) | None \<Rightarrow> map_of d j)"
  by (induction rows rule: rev_induct) (simp_all add: scan_index_def)

text \<open>No job id is used for two targets: ids are drawn from one supply.\<close>

definition job_ids_unique :: "job_logs \<Rightarrow> bool" where
  "job_ids_unique l \<longleftrightarrow> (\<forall>a b. \<forall>r \<in> set (jl_jobs l a). \<forall>q \<in> set (jl_jobs l b). jr_job_id r = jr_job_id q \<longrightarrow> a = b)"

definition logged_job :: "job_logs \<Rightarrow> string \<Rightarrow> string \<Rightarrow> bool" where
  "logged_job l a j \<longleftrightarrow> j \<in> jr_job_id ` set (jl_jobs l a)"

lemma fold_scan_index_lookup:
  assumes "logs_partitioned l" "job_ids_unique l"
  shows "map_of (fold scan_index (map (jl_jobs l) as) d) j =
    (if \<exists>a \<in> set as. logged_job l a j then Some (TK_AGENT, THE a. logged_job l a j) else map_of d j)"
proof (induction as arbitrary: d)
  case (Cons a as)
  show ?case
  proof (cases "logged_job l a j")
    case True
    then obtain r where r: "find_last_in (\<lambda>r. jr_job_id r = j) (jl_jobs l a) = Some r"
      by (cases "find_last_in (\<lambda>r. jr_job_id r = j) (jl_jobs l a)") (auto simp: find_last_in_None logged_job_def)
    then have "jr_target_name r = a" using find_last_in_Some [OF r] assms by (auto simp: logs_partitioned_def)
    moreover have "(THE b. logged_job l b j) = a"
      using True assms(2) unfolding logged_job_def job_ids_unique_def image_iff by (intro the_equality) metis+
    ultimately show ?thesis using True Cons [of "scan_index (jl_jobs l a) d"] r by (simp add: scan_index_lookup)
  next
    case False
    then have "find_last_in (\<lambda>r. jr_job_id r = j) (jl_jobs l a) = None"
      by (auto simp: find_last_in_None logged_job_def)
    with False Cons [of "scan_index (jl_jobs l a) d"] show ?thesis by (simp add: scan_index_lookup)
  qed
qed simp

text \<open>
  The state agrees with the log: for every configured agent the queue lists the pending jobs of the log
  in order of arrival and the running job of the log is the active one, and exactly the logged jobs are
  known, each under its target.
\<close>

definition state_of_log :: "string list \<Rightarrow> job_logs \<Rightarrow> dispatcher_state \<Rightarrow> bool" where
  "state_of_log as l st \<longleftrightarrow>
     (\<forall>a \<in> set as. queue_at st (TK_AGENT, a) = pending_ids (jl_jobs l a) \<and>
        active_job_for TK_AGENT a st = running_id (jl_jobs l a)) \<and>
     (\<forall>a \<in> set as. \<forall>j. target_for_job j st = Some (TK_AGENT, a) \<longleftrightarrow> logged_job l a j)"

lemma logged_job_unique: "job_ids_unique l \<Longrightarrow> logged_job l a j \<Longrightarrow> logged_job l b j \<Longrightarrow> a = b"
  by (fastforce simp: logged_job_def job_ids_unique_def)

lemma rebuild_state_of_log:
  assumes "logs_partitioned l" "job_ids_unique l" "\<forall>a \<in> set as. agent_name_ok a" "distinct as"
  shows "\<exists>st'. rebuild as st l = (Inr st', l) \<and> state_of_log as l st'"
proof -
  let ?st = "st\<lparr>ds_job_index := [], ds_active_jobs := [], ds_queues := map (\<lambda>(slot, q). (slot, queue_clear q)) (ds_queues st)\<rparr>"
  have clear: "map_of (map (\<lambda>(slot, q). (slot, queue_clear q)) qs) x =
      (case map_of qs x of None \<Rightarrow> None | Some _ \<Rightarrow> Some [])" for qs x
    by (induction qs) (auto simp: queue_clear_def)
  have empty: "queue_at ?st x = []" for x by (simp add: queue_at_def clear split: option.splits)
  obtain st' where st': "rebuild as st l = (Inr st', l)"
      "\<forall>a. queue_at st' (TK_AGENT, a) = queue_at ?st (TK_AGENT, a) @ (if a \<in> set as then pending_ids (jl_jobs l a) else [])"
      "\<forall>a. active_job_for TK_AGENT a st' = (case if a \<in> set as then running_id (jl_jobs l a) else None of
         Some j \<Rightarrow> Some j | None \<Rightarrow> active_job_for TK_AGENT a ?st)"
      "ds_job_index st' = fold scan_index (map (jl_jobs l) as) (ds_job_index ?st)"
    using rebuild_agents_view [OF assms(1) assms(3,4), of ?st] unfolding rebuild_def by blast
  have index: "target_for_job j st' = Some (TK_AGENT, a) \<longleftrightarrow> logged_job l a j" if "a \<in> set as" for a j
  proof -
    have "(THE b. logged_job l b j) = b" if "logged_job l b j" for b
      using that logged_job_unique [OF assms(2)] by blast
    then show ?thesis
      unfolding target_for_job_def st'(4) fold_scan_index_lookup [OF assms(1,2)]
      using that by (auto simp: split: if_splits)
  qed
  have "active_job_for TK_AGENT a ?st = None" for a by (simp add: active_job_for_def)
  with st' empty index show ?thesis
    by (intro exI [of _ st']) (auto simp: state_of_log_def split: option.splits)
qed

end
