(* ===== verification/Agent_Runtimes.thy ===== *)
theory Agent_Runtimes
  imports Codecs Agent_Names Completion_Tracker
begin

text \<open>
  The runtimes of agents: the record of a mounted agent (\<open>lib/agents/models_runtime/runtime_runtime\<close>) and the
  registry that keeps one per configured agent (\<open>lib/ccbd/services/registry.py\<close>), with the rule that only an
  authority write may change the fields that bind an agent to its process. The helper processes and
  their manifest files are outside the model.
\<close>

section \<open>Enums\<close>

datatype agent_state = AS_STARTING | AS_IDLE | AS_BUSY | AS_STOPPING | AS_STOPPED | AS_DEGRADED | AS_FAILED

fun agent_state_value :: "agent_state \<Rightarrow> string" where
  "agent_state_value AS_STARTING = ''starting''"
| "agent_state_value AS_IDLE = ''idle''"
| "agent_state_value AS_BUSY = ''busy''"
| "agent_state_value AS_STOPPING = ''stopping''"
| "agent_state_value AS_STOPPED = ''stopped''"
| "agent_state_value AS_DEGRADED = ''degraded''"
| "agent_state_value AS_FAILED = ''failed''"

definition agent_states :: "agent_state list" where
  "agent_states = [AS_STARTING, AS_IDLE, AS_BUSY, AS_STOPPING, AS_STOPPED, AS_DEGRADED, AS_FAILED]"

interpretation astate: enum_codec agent_states agent_state_value
proof
  show "x \<in> set agent_states" for x by (cases x) (simp_all add: agent_states_def)
  show "agent_state_value x = agent_state_value y \<Longrightarrow> x = y" for x y by (cases x; cases y) simp_all
qed

datatype binding_source = PROVIDER_SESSION | EXTERNAL_ATTACH

fun binding_source_value :: "binding_source \<Rightarrow> string" where
  "binding_source_value PROVIDER_SESSION = ''provider-session''"
| "binding_source_value EXTERNAL_ATTACH = ''external-attach''"

definition binding_sources :: "binding_source list" where
  "binding_sources = [PROVIDER_SESSION, EXTERNAL_ATTACH]"

interpretation bsource: enum_codec binding_sources binding_source_value
proof
  show "x \<in> set binding_sources" for x by (cases x) (simp_all add: binding_sources_def)
  show "binding_source_value x = binding_source_value y \<Longrightarrow> x = y" for x y by (cases x; cases y) simp_all
qed

lemmas runtime_enum_inj [simp] =
  inj_eq [OF injI [OF astate.value_inj]] inj_eq [OF injI [OF bsource.value_inj]]

datatype queue_policy = SERIAL_PER_AGENT | REJECT_WHEN_BUSY

section \<open>The runtime record\<close>

record agent_runtime =
  rt_agent_name :: string
  rt_state :: agent_state
  rt_pid :: "int option"
  rt_started_at :: "string option"
  rt_last_seen_at :: "string option"
  rt_runtime_ref :: "string option"
  rt_session_ref :: "string option"
  rt_workspace_path :: "string option"
  rt_project_id :: string
  rt_backend_type :: string
  rt_queue_depth :: int
  rt_socket_path :: "string option"
  rt_health :: string
  rt_provider :: "string option"
  rt_runtime_root :: "string option"
  rt_runtime_pid :: "int option"
  rt_terminal_backend :: "string option"
  rt_pane_id :: "string option"
  rt_active_pane_id :: "string option"
  rt_pane_title_marker :: "string option"
  rt_pane_state :: "string option"
  rt_tmux_socket_name :: "string option"
  rt_tmux_socket_path :: "string option"
  rt_tmux_window_name :: "string option"
  rt_tmux_window_id :: "string option"
  rt_session_file :: "string option"
  rt_session_id :: "string option"
  rt_slot_key :: "string option"
  rt_window_id :: "string option"
  rt_workspace_epoch :: "int option"
  rt_lifecycle_state :: "string option"
  rt_binding_generation :: int
  rt_managed_by :: string
  rt_binding_source :: binding_source
  rt_daemon_generation :: "int option"
  rt_runtime_generation :: "int option"
  rt_desired_state :: "string option"
  rt_reconcile_state :: "string option"
  rt_restart_count :: int
  rt_last_reconcile_at :: "string option"
  rt_last_failure_reason :: "string option"
  rt_mount_attempt_id :: "string option"

definition normalized_text :: "string option \<Rightarrow> string option" where
  "normalized_text v = str_or_none (py_strip (str_or_empty v))"

definition default_desired_state :: "agent_state \<Rightarrow> string" where
  "default_desired_state s = (if s = AS_STOPPED then ''stopped'' else ''mounted'')"

definition default_reconcile_state :: "agent_state \<Rightarrow> string" where
  "default_reconcile_state s = (if s = AS_DEGRADED then ''degraded'' else if s = AS_STOPPED then ''stopped''
     else if s = AS_FAILED then ''failed'' else ''steady'')"

definition opt_or :: "string option \<Rightarrow> string \<Rightarrow> string option" where
  "opt_or v d = (case v of Some t \<Rightarrow> Some t | None \<Rightarrow> Some d)"

definition lifecycle_or :: "string option \<Rightarrow> agent_state \<Rightarrow> string option" where
  "lifecycle_or v s = (if py_strip (str_or_empty v) = [] then Some (agent_state_value s) else v)"

definition normalize_runtime_defaults :: "agent_runtime \<Rightarrow> agent_runtime" where
  "normalize_runtime_defaults r =
     r\<lparr>rt_slot_key := opt_or (normalized_text (rt_slot_key r)) (rt_agent_name r),
       rt_window_id := normalized_text (rt_window_id r),
       rt_lifecycle_state := lifecycle_or (rt_lifecycle_state r) (rt_state r),
       rt_desired_state := opt_or (normalized_text (rt_desired_state r)) (default_desired_state (rt_state r)),
       rt_reconcile_state := opt_or (normalized_text (rt_reconcile_state r)) (default_reconcile_state (rt_state r)),
       rt_tmux_window_name := normalized_text (rt_tmux_window_name r),
       rt_tmux_window_id := normalized_text (rt_tmux_window_id r),
       rt_last_reconcile_at := normalized_text (rt_last_reconcile_at r),
       rt_last_failure_reason := normalized_text (rt_last_failure_reason r),
       rt_mount_attempt_id := normalized_text (rt_mount_attempt_id r)\<rparr>"

definition validate_runtime_fields :: "agent_runtime \<Rightarrow> unit result" where
  "validate_runtime_fields r =
     rbind (rcheck (rt_project_id r = []) (AgentValidationError ''project_id cannot be empty'')) (\<lambda>_.
     rbind (rcheck (rt_queue_depth r < 0) (AgentValidationError ''queue_depth cannot be negative'')) (\<lambda>_.
     rbind (rcheck (rt_state r \<in> {AS_IDLE, AS_BUSY, AS_DEGRADED} \<and> \<not> opt_truthy (rt_workspace_path r))
              (AgentValidationError ''workspace_path is required for active runtime states'')) (\<lambda>_.
     rbind (rcheck (rt_binding_generation r \<le> 0) (AgentValidationError ''binding_generation must be positive'')) (\<lambda>_.
     rbind (rcheck (\<exists>g \<in> set_option (rt_daemon_generation r). g \<le> 0)
              (AgentValidationError ''daemon_generation must be positive when set'')) (\<lambda>_.
     rbind (rcheck (\<exists>e \<in> set_option (rt_workspace_epoch r). e \<le> 0)
              (AgentValidationError ''workspace_epoch must be positive when set'')) (\<lambda>_.
     rbind (rcheck (rt_restart_count r < 0) (AgentValidationError ''restart_count cannot be negative'')) (\<lambda>_.
     rcheck (py_strip (rt_managed_by r) = []) (AgentValidationError ''managed_by cannot be empty''))))))))"

definition AgentRuntime :: "agent_runtime \<Rightarrow> agent_runtime result" where
  "AgentRuntime r = rbind (normalize_agent_name (rt_agent_name r)) (\<lambda>n.
     rbind (validate_runtime_fields (r\<lparr>rt_agent_name := n\<rparr>)) (\<lambda>_.
     Inr (normalize_runtime_defaults (r\<lparr>rt_agent_name := n\<rparr>))))"

text \<open>\<open>getattr\<close> over the fields of the dataclass, in their order\<close>
definition runtime_values :: "agent_runtime \<Rightarrow> payload" where
  "runtime_values r =
     [(''agent_name'', JStr (rt_agent_name r)), (''state'', JStr (agent_state_value (rt_state r))),
      (''pid'', jopt_int (rt_pid r)), (''started_at'', jopt (rt_started_at r)),
      (''last_seen_at'', jopt (rt_last_seen_at r)), (''runtime_ref'', jopt (rt_runtime_ref r)),
      (''session_ref'', jopt (rt_session_ref r)), (''workspace_path'', jopt (rt_workspace_path r)),
      (''project_id'', JStr (rt_project_id r)), (''backend_type'', JStr (rt_backend_type r)),
      (''queue_depth'', JInt (rt_queue_depth r)), (''socket_path'', jopt (rt_socket_path r)),
      (''health'', JStr (rt_health r)), (''provider'', jopt (rt_provider r)),
      (''runtime_root'', jopt (rt_runtime_root r)), (''runtime_pid'', jopt_int (rt_runtime_pid r)),
      (''terminal_backend'', jopt (rt_terminal_backend r)), (''pane_id'', jopt (rt_pane_id r)),
      (''active_pane_id'', jopt (rt_active_pane_id r)), (''pane_title_marker'', jopt (rt_pane_title_marker r)),
      (''pane_state'', jopt (rt_pane_state r)), (''tmux_socket_name'', jopt (rt_tmux_socket_name r)),
      (''tmux_socket_path'', jopt (rt_tmux_socket_path r)), (''tmux_window_name'', jopt (rt_tmux_window_name r)),
      (''tmux_window_id'', jopt (rt_tmux_window_id r)), (''session_file'', jopt (rt_session_file r)),
      (''session_id'', jopt (rt_session_id r)), (''slot_key'', jopt (rt_slot_key r)),
      (''window_id'', jopt (rt_window_id r)), (''workspace_epoch'', jopt_int (rt_workspace_epoch r)),
      (''lifecycle_state'', jopt (rt_lifecycle_state r)), (''binding_generation'', JInt (rt_binding_generation r)),
      (''managed_by'', JStr (rt_managed_by r)),
      (''binding_source'', JStr (binding_source_value (rt_binding_source r))),
      (''daemon_generation'', jopt_int (rt_daemon_generation r)),
      (''runtime_generation'', jopt_int (rt_runtime_generation r)),
      (''desired_state'', jopt (rt_desired_state r)), (''reconcile_state'', jopt (rt_reconcile_state r)),
      (''restart_count'', JInt (rt_restart_count r)), (''last_reconcile_at'', jopt (rt_last_reconcile_at r)),
      (''last_failure_reason'', jopt (rt_last_failure_reason r)),
      (''mount_attempt_id'', jopt (rt_mount_attempt_id r))]"

definition runtime_to_record :: "agent_runtime \<Rightarrow> payload" where
  "runtime_to_record r = [(''schema_version'', JInt 2), (''record_type'', JStr ''agent_runtime'')] @ runtime_values r"

section \<open>The registry\<close>

text \<open>Of an agent's configuration the registry's clients read the provider, the runtime mode and the queue policy\<close>
record agent_spec =
  spec_name :: string
  spec_provider :: string
  spec_runtime_mode :: runtime_mode
  spec_queue_policy :: queue_policy

record registry =
  rg_agents :: "agent_spec dict"
  rg_store :: "agent_runtime dict"
  rg_cache :: "agent_runtime dict"

definition ACTIVE_STATES :: "agent_state list" where
  "ACTIVE_STATES = [AS_STARTING, AS_IDLE, AS_BUSY, AS_DEGRADED]"

definition STATE_MUTATION_FIELDS :: "string list" where
  "STATE_MUTATION_FIELDS = [''state'', ''health'', ''queue_depth'', ''active_pane_id'', ''pane_state'',
     ''desired_state'', ''reconcile_state'', ''restart_count'', ''last_seen_at'', ''last_reconcile_at'',
     ''last_failure_reason'', ''lifecycle_state'', ''pid'']"

definition spec_for :: "string \<Rightarrow> (registry, agent_spec) py" where
  "spec_for agent_name = py_bind (py_lift (normalize_agent_name agent_name)) (\<lambda>normalized.
     py_bind (py_gets (\<lambda>s. map_of (rg_agents s) normalized)) (\<lambda>spec. case spec of
       Some sp \<Rightarrow> py_return sp
     | None \<Rightarrow> py_raise (KeyError (''unknown agent: '' @ normalized))))"

definition get_locked :: "string \<Rightarrow> (registry, agent_runtime option) py" where
  "get_locked agent_name = py_bind (py_lift (normalize_agent_name agent_name)) (\<lambda>normalized.
     py_bind (py_gets (\<lambda>s. map_of (rg_cache s) normalized)) (\<lambda>cached. case cached of
       Some r \<Rightarrow> py_return (Some r)
     | None \<Rightarrow> py_bind (py_gets (\<lambda>s. map_of (rg_store s) normalized)) (\<lambda>runtime. case runtime of
           Some r \<Rightarrow> py_then (py_modify (\<lambda>s. s\<lparr>rg_cache := dict_set normalized r (rg_cache s)\<rparr>)) (py_return (Some r))
         | None \<Rightarrow> py_return None)))"

definition registry_get :: "string \<Rightarrow> (registry, agent_runtime option) py" where
  "registry_get agent_name = py_bind (py_lift (normalize_agent_name agent_name)) get_locked"

definition changed_runtime_fields :: "agent_runtime option \<Rightarrow> agent_runtime \<Rightarrow> string list" where
  "changed_runtime_fields existing runtime = (case existing of None \<Rightarrow> []
     | Some e \<Rightarrow> map (fst \<circ> fst) (filter (\<lambda>(x, y). snd x \<noteq> snd y) (zip (runtime_values e) (runtime_values runtime))))"

definition save_locked :: "agent_runtime \<Rightarrow> bool \<Rightarrow> agent_runtime option \<Rightarrow> (registry, agent_runtime) py" where
  "save_locked runtime authority_write existing =
     py_bind (spec_for (rt_agent_name runtime)) (\<lambda>_.
     py_bind (if existing \<noteq> None then py_return existing else get_locked (rt_agent_name runtime)) (\<lambda>current.
       let changed = changed_runtime_fields current runtime;
           authority_fields = sort (filter (\<lambda>f. f \<notin> set STATE_MUTATION_FIELDS) changed)
       in if changed \<noteq> [] \<and> \<not> authority_write \<and> authority_fields \<noteq> []
          then py_raise (ValueError (''authority write required for runtime fields: '' @ join '', '' authority_fields))
          else py_then (py_modify (\<lambda>s. s\<lparr>rg_store := dict_set (rt_agent_name runtime) runtime (rg_store s),
                                          rg_cache := dict_set (rt_agent_name runtime) runtime (rg_cache s)\<rparr>))
                 (py_return runtime)))"

definition registry_upsert :: "agent_runtime \<Rightarrow> bool \<Rightarrow> (registry, agent_runtime) py" where
  "registry_upsert runtime authority_write = save_locked runtime authority_write None"

definition positive_generation :: "int option \<Rightarrow> int" where
  "positive_generation v = (case v of None \<Rightarrow> 0 | Some g \<Rightarrow> if g > 0 then g else 0)"

text \<open>The candidate's state fields on the existing runtime's authority fields\<close>
definition with_state_fields :: "agent_runtime \<Rightarrow> agent_runtime \<Rightarrow> agent_runtime" where
  "with_state_fields existing candidate =
     existing\<lparr>rt_state := rt_state candidate, rt_health := rt_health candidate,
       rt_queue_depth := rt_queue_depth candidate, rt_active_pane_id := rt_active_pane_id candidate,
       rt_pane_state := rt_pane_state candidate, rt_desired_state := rt_desired_state candidate,
       rt_reconcile_state := rt_reconcile_state candidate, rt_restart_count := rt_restart_count candidate,
       rt_last_seen_at := rt_last_seen_at candidate, rt_last_reconcile_at := rt_last_reconcile_at candidate,
       rt_last_failure_reason := rt_last_failure_reason candidate,
       rt_lifecycle_state := rt_lifecycle_state candidate, rt_pid := rt_pid candidate\<rparr>"

definition merge_stale_authority_candidate :: "agent_runtime \<Rightarrow> agent_runtime \<Rightarrow> agent_runtime result" where
  "merge_stale_authority_candidate existing candidate =
     (let existing_generation = positive_generation (rt_runtime_generation existing);
          candidate_generation = positive_generation (rt_runtime_generation candidate)
      in if candidate_generation \<ge> existing_generation \<or> existing_generation \<le> 0 then Inr candidate
         else AgentRuntime (with_state_fields existing candidate))"

definition upsert_authority :: "agent_runtime \<Rightarrow> (registry, agent_runtime) py" where
  "upsert_authority runtime = py_bind (get_locked (rt_agent_name runtime)) (\<lambda>existing.
     py_bind (case existing of None \<Rightarrow> py_return runtime
              | Some e \<Rightarrow> py_lift (merge_stale_authority_candidate e runtime)) (\<lambda>merged.
     save_locked merged True existing))"

definition registry_update :: "string \<Rightarrow> (agent_runtime option \<Rightarrow> agent_runtime option) \<Rightarrow> bool \<Rightarrow>
    (registry, agent_runtime option) py" where
  "registry_update agent_name update_fn authority_write =
     py_bind (py_lift (normalize_agent_name agent_name)) (\<lambda>normalized.
     py_bind (get_locked normalized) (\<lambda>current.
       case update_fn current of None \<Rightarrow> py_return current
       | Some updated \<Rightarrow>
           if current = Some updated then py_return current
           else py_bind (case current of Some c \<Rightarrow> if authority_write
                           then py_lift (merge_stale_authority_candidate c updated) else py_return updated
                         | None \<Rightarrow> py_return updated) (\<lambda>u.
                py_bind (save_locked u authority_write current) (\<lambda>saved. py_return (Some saved)))))"

definition stopped_runtime :: "agent_runtime \<Rightarrow> agent_runtime" where
  "stopped_runtime r = r\<lparr>rt_state := AS_STOPPED, rt_pid := None, rt_runtime_ref := None, rt_session_ref := None,
     rt_socket_path := None, rt_queue_depth := 0, rt_health := ''stopped'', rt_runtime_pid := None,
     rt_pane_id := None, rt_active_pane_id := None, rt_pane_state := None, rt_desired_state := Some ''stopped'',
     rt_reconcile_state := Some ''stopped'', rt_last_failure_reason := None\<rparr>"

definition registry_remove :: "string \<Rightarrow> (registry, agent_runtime option) py" where
  "registry_remove agent_name = py_bind (get_locked agent_name) (\<lambda>runtime. case runtime of
     None \<Rightarrow> py_return None
   | Some r \<Rightarrow> py_bind (py_lift (AgentRuntime (stopped_runtime r))) (\<lambda>stopped.
       py_bind (upsert_authority stopped) (\<lambda>saved. py_return (Some saved))))"

fun list_runtimes :: "string list \<Rightarrow> (registry, agent_runtime list) py" where
  "list_runtimes [] = py_return []"
| "list_runtimes (n # ns) = py_bind (get_locked n) (\<lambda>runtime. py_bind (list_runtimes ns) (\<lambda>rest.
     py_return (case runtime of Some r \<Rightarrow> r # rest | None \<Rightarrow> rest)))"

definition list_known_agents :: "(registry, string list) py" where
  "list_known_agents = py_gets (\<lambda>s. sort (map fst (rg_agents s)))"

definition list_all_runtimes :: "(registry, agent_runtime list) py" where
  "list_all_runtimes = py_bind list_known_agents list_runtimes"

definition list_alive :: "(registry, agent_runtime list) py" where
  "list_alive = py_bind list_all_runtimes (\<lambda>rs. py_return (filter (\<lambda>r. rt_state r \<in> set ACTIVE_STATES) rs))"

fun load_existing :: "string list \<Rightarrow> (registry, unit) py" where
  "load_existing [] = py_return ()"
| "load_existing (n # ns) = py_bind (py_gets (\<lambda>s. map_of (rg_store s) n)) (\<lambda>runtime.
     py_then (case runtime of None \<Rightarrow> py_return ()
              | Some r \<Rightarrow> py_modify (\<lambda>s. s\<lparr>rg_cache := dict_set n r (rg_cache s)\<rparr>)) (load_existing ns))"

section \<open>What the registry keeps\<close>

text \<open>Records as their constructor leaves them\<close>
definition valid_runtime :: "agent_runtime \<Rightarrow> bool" where
  "valid_runtime r \<longleftrightarrow> AgentRuntime r = Inr r"

definition registry_ok :: "registry \<Rightarrow> bool" where
  "registry_ok s \<longleftrightarrow> (\<forall>n r. map_of (rg_cache s) n = Some r \<longrightarrow> map_of (rg_store s) n = Some r) \<and>
     (\<forall>n r. map_of (rg_store s) n = Some r \<longrightarrow> rt_agent_name r = n \<and> valid_runtime r)"

lemma normalized_text_idem [simp]: "normalized_text (normalized_text v) = normalized_text v"
  by (cases v) (simp_all add: normalized_text_def str_or_none_def str_or_empty_def)

lemma opt_or_Some [simp]: "opt_or (Some x) d = Some x"
  by (simp add: opt_or_def)

lemma state_defaults_stripped [simp]:
  "normalized_text (Some (default_desired_state st)) = Some (default_desired_state st)"
  "normalized_text (Some (default_reconcile_state st)) = Some (default_reconcile_state st)"
  "py_strip (agent_state_value st) = agent_state_value st"
  by (cases st; simp add: default_desired_state_def default_reconcile_state_def normalized_text_def
      str_or_none_def str_or_empty_def; code_simp)+

lemma lifecycle_or_fixed [simp]: "lifecycle_or v s = v \<longleftrightarrow> py_strip (str_or_empty v) \<noteq> []"
  "py_strip (str_or_empty (lifecycle_or v s)) \<noteq> []"
proof -
  have "agent_state_value s \<noteq> []" by (cases s) simp_all
  then show "lifecycle_or v s = v \<longleftrightarrow> py_strip (str_or_empty v) \<noteq> []"
      "py_strip (str_or_empty (lifecycle_or v s)) \<noteq> []"
    by (auto simp: lifecycle_or_def str_or_empty_def)
qed

lemma defaults_name [simp]: "rt_agent_name (normalize_runtime_defaults r) = rt_agent_name r"
  by (simp add: normalize_runtime_defaults_def)

lemma defaults_fixed_iff:
  "normalize_runtime_defaults r = r \<longleftrightarrow>
     normalized_text (rt_tmux_window_name r) = rt_tmux_window_name r \<and>
     normalized_text (rt_tmux_window_id r) = rt_tmux_window_id r \<and>
     opt_or (normalized_text (rt_slot_key r)) (rt_agent_name r) = rt_slot_key r \<and>
     normalized_text (rt_window_id r) = rt_window_id r \<and>
     lifecycle_or (rt_lifecycle_state r) (rt_state r) = rt_lifecycle_state r \<and>
     opt_or (normalized_text (rt_desired_state r)) (default_desired_state (rt_state r)) = rt_desired_state r \<and>
     opt_or (normalized_text (rt_reconcile_state r)) (default_reconcile_state (rt_state r)) = rt_reconcile_state r \<and>
     normalized_text (rt_last_reconcile_at r) = rt_last_reconcile_at r \<and>
     normalized_text (rt_last_failure_reason r) = rt_last_failure_reason r \<and>
     normalized_text (rt_mount_attempt_id r) = rt_mount_attempt_id r"
  by (cases r) (simp add: normalize_runtime_defaults_def)

lemma opt_or_idem:
  "normalized_text (Some d) = Some d \<Longrightarrow>
   opt_or (normalized_text (opt_or (normalized_text v) d)) d = opt_or (normalized_text v) d"
proof (cases "normalized_text v")
  case (Some t)
  then have "normalized_text (Some t) = Some t" using normalized_text_idem [of v] by simp
  with Some show ?thesis by simp
qed (simp add: opt_or_def)

lemma agent_name_text: "agent_name_ok n \<Longrightarrow> normalized_text (Some n) = Some n"
  using agent_name_ok_length [of n] normalize_agent_name_fixed [of n]
  by (auto simp: normalized_text_def str_or_empty_def str_or_none_def agent_name_ok_def pattern_stripped)

lemma defaults_idem:
  "agent_name_ok (rt_agent_name r) \<Longrightarrow>
   normalize_runtime_defaults (normalize_runtime_defaults r) = normalize_runtime_defaults r"
  unfolding defaults_fixed_iff
  by (simp add: normalize_runtime_defaults_def opt_or_idem agent_name_text)

lemma validate_defaults [simp]:
  "validate_runtime_fields (normalize_runtime_defaults r) = validate_runtime_fields r"
  by (simp add: validate_runtime_fields_def normalize_runtime_defaults_def)

lemma valid_runtime_iff:
  "valid_runtime r \<longleftrightarrow> agent_name_ok (rt_agent_name r) \<and> validate_runtime_fields r = Inr () \<and>
     normalize_runtime_defaults r = r"
proof
  assume "valid_runtime r"
  then obtain n where n: "normalize_agent_name (rt_agent_name r) = Inr n"
      "validate_runtime_fields (r\<lparr>rt_agent_name := n\<rparr>) = Inr ()" "normalize_runtime_defaults (r\<lparr>rt_agent_name := n\<rparr>) = r"
    by (auto simp: valid_runtime_def AgentRuntime_def rbind_Inr_iff)
  from arg_cong [OF n(3), of rt_agent_name] have name: "rt_agent_name r = n" by simp
  then have eq: "r\<lparr>rt_agent_name := n\<rparr> = r" by auto
  from n(1) have "agent_name_ok n" by (rule normalize_agent_name_ok)
  then show "agent_name_ok (rt_agent_name r) \<and> validate_runtime_fields r = Inr () \<and> normalize_runtime_defaults r = r"
    using n(2,3) name unfolding eq by simp
next
  assume "agent_name_ok (rt_agent_name r) \<and> validate_runtime_fields r = Inr () \<and> normalize_runtime_defaults r = r"
  then show "valid_runtime r" by (simp add: valid_runtime_def AgentRuntime_def)
qed

lemma AgentRuntime_valid:
  assumes "AgentRuntime r = Inr r'"
  shows "valid_runtime r'" and "agent_name_ok (rt_agent_name r) \<Longrightarrow> rt_agent_name r' = rt_agent_name r"
  using assms
  by (auto simp: AgentRuntime_def rbind_Inr_iff valid_runtime_iff normalize_agent_name_ok defaults_idem)

text \<open>Two runtimes that differ in state fields only\<close>

definition same_authority :: "agent_runtime \<Rightarrow> agent_runtime \<Rightarrow> bool" where
  "same_authority r r' \<longleftrightarrow> with_state_fields r r' = r'"

lemma same_authority_refl [simp]: "same_authority r r"
  by (simp add: same_authority_def with_state_fields_def)

lemma same_authority_trans: "same_authority a b \<Longrightarrow> same_authority b c \<Longrightarrow> same_authority a c"
  unfolding same_authority_def by (cases a; cases b; cases c) (simp add: with_state_fields_def)

lemma same_authority_generation: "same_authority r r' \<Longrightarrow> rt_runtime_generation r' = rt_runtime_generation r"
  unfolding same_authority_def by (cases r; cases r') (simp add: with_state_fields_def)

lemma same_authority_merge [simp]: "same_authority e (with_state_fields e c)"
  by (simp add: same_authority_def with_state_fields_def)

lemma merge_fixed:
  assumes "valid_runtime e" "valid_runtime c"
  shows "normalize_runtime_defaults (with_state_fields e c) = with_state_fields e c"
  using assms unfolding valid_runtime_iff defaults_fixed_iff
  by (simp add: with_state_fields_def)

lemma merge_result:
  assumes "valid_runtime e" "valid_runtime c" "merge_stale_authority_candidate e c = Inr r" "rt_agent_name e = n"
    "rt_agent_name c = n"
  shows "valid_runtime r \<and> rt_agent_name r = n \<and>
    positive_generation (rt_runtime_generation e) \<le> positive_generation (rt_runtime_generation r) \<and>
    (positive_generation (rt_runtime_generation c) < positive_generation (rt_runtime_generation e) \<longrightarrow> same_authority e r)"
proof (cases "positive_generation (rt_runtime_generation c) < positive_generation (rt_runtime_generation e)")
  case False
  then have "r = c" using assms(3) by (simp add: merge_stale_authority_candidate_def)
  with False assms show ?thesis by simp
next
  case True
  moreover from True have "0 < positive_generation (rt_runtime_generation e)"
    by (cases "rt_runtime_generation c") (auto simp: positive_generation_def split: option.splits if_splits)
  ultimately have r: "AgentRuntime (with_state_fields e c) = Inr r"
    using assms(3) by (simp add: merge_stale_authority_candidate_def)
  have name: "rt_agent_name (with_state_fields e c) = n" using assms(4) by (simp add: with_state_fields_def)
  moreover have "agent_name_ok n" using assms(1,4) by (simp add: valid_runtime_iff)
  ultimately have "r = with_state_fields e c"
    using r merge_fixed [OF assms(1,2)] by (auto simp: AgentRuntime_def rbind_Inr_iff)
  moreover have "valid_runtime r" using AgentRuntime_valid [OF r] by blast
  ultimately show ?thesis using name same_authority_generation [OF same_authority_merge [of e c]] by simp
qed

lemma unauthorized_save:
  assumes "filter (\<lambda>f. f \<notin> set STATE_MUTATION_FIELDS) (changed_runtime_fields (Some e) r) = []"
  shows "same_authority e r"
proof -
  have inj: "jopt a = jopt b \<longleftrightarrow> a = b" "jopt_int x = jopt_int y \<longleftrightarrow> x = y" for a b x y
    by (cases a; cases b; simp add: jopt_def) (cases x; cases y; simp add: jopt_int_def)
  have "\<forall>p \<in> set (zip (runtime_values e) (runtime_values r)).
      fst (fst p) \<in> set STATE_MUTATION_FIELDS \<or> snd (fst p) = snd (snd p)"
    using assms by (auto simp: changed_runtime_fields_def filter_empty_conv) blast
  then show ?thesis
    unfolding same_authority_def
    by (simp add: runtime_values_def STATE_MUTATION_FIELDS_def inj with_state_fields_def)
qed

section \<open>Operations on a consistent registry\<close>

text \<open>What an operation may do to the stored runtime of an agent: it stays, its generation does not go back\<close>
definition keeps_generations :: "registry \<Rightarrow> registry \<Rightarrow> bool" where
  "keeps_generations s t \<longleftrightarrow> (\<forall>n r. map_of (rg_store s) n = Some r \<longrightarrow> (\<exists>r'. map_of (rg_store t) n = Some r' \<and>
     positive_generation (rt_runtime_generation r) \<le> positive_generation (rt_runtime_generation r')))"

definition keeps_authority :: "registry \<Rightarrow> registry \<Rightarrow> bool" where
  "keeps_authority s t \<longleftrightarrow> (\<forall>n r. map_of (rg_store s) n = Some r \<longrightarrow>
     (\<exists>r'. map_of (rg_store t) n = Some r' \<and> same_authority r r'))"

lemma keeps_authority_generations: "keeps_authority s t \<Longrightarrow> keeps_generations s t"
  unfolding keeps_authority_def keeps_generations_def using same_authority_generation by (metis order_refl)

lemma keeps_refl [simp]: "keeps_generations s s" "keeps_authority s s"
  by (simp_all add: keeps_generations_def keeps_authority_def)

lemma keeps_store [simp]:
  "keeps_authority s (t\<lparr>rg_cache := c\<rparr>) = keeps_authority s t"
  "keeps_generations s (t\<lparr>rg_cache := c\<rparr>) = keeps_generations s t"
  by (simp_all add: keeps_generations_def keeps_authority_def)

lemma keeps_trans:
  "keeps_generations s t \<Longrightarrow> keeps_generations t u \<Longrightarrow> keeps_generations s u"
  "keeps_authority s t \<Longrightarrow> keeps_authority t u \<Longrightarrow> keeps_authority s u"
  unfolding keeps_generations_def keeps_authority_def
  by (meson order_trans) (meson same_authority_trans)

lemma get_locked_run:
  assumes "registry_ok s" "agent_name_ok n"
  shows "\<exists>c. get_locked n s = (Inr (map_of (rg_store s) n), s\<lparr>rg_cache := c\<rparr>) \<and> registry_ok (s\<lparr>rg_cache := c\<rparr>)"
proof (cases "map_of (rg_cache s) n")
  case (Some r)
  then have "map_of (rg_store s) n = Some r" using assms by (simp add: registry_ok_def)
  with Some assms show ?thesis by (intro exI [of _ "rg_cache s"]) (simp add: get_locked_def)
next
  case None
  show ?thesis
  proof (cases "map_of (rg_store s) n")
    case None
    with \<open>map_of (rg_cache s) n = None\<close> assms show ?thesis
      by (intro exI [of _ "rg_cache s"]) (simp add: get_locked_def)
  next
    case (Some r)
    with None assms show ?thesis
      by (intro exI [of _ "dict_set n r (rg_cache s)"]) (auto simp: get_locked_def registry_ok_def)
  qed
qed

text \<open>A save that goes through stores the record; one without authority changes state fields only\<close>
lemma save_locked_run:
  assumes "registry_ok s" "valid_runtime r" "existing = None \<or> existing = map_of (rg_store s) (rt_agent_name r)"
    "save_locked r auth existing s = (res, t)"
  shows "registry_ok t \<and> (rg_store t = rg_store s \<or>
    rg_store t = dict_set (rt_agent_name r) r (rg_store s) \<and>
    (auth \<or> (\<forall>e. map_of (rg_store s) (rt_agent_name r) = Some e \<longrightarrow> same_authority e r)))"
proof -
  let ?n = "rt_agent_name r" and ?e = "map_of (rg_store s) (rt_agent_name r)"
  have n: "agent_name_ok ?n" using assms(2) by (simp add: valid_runtime_iff)
  show ?thesis
  proof (cases "map_of (rg_agents s) ?n")
    case None
    with assms(1,4) n show ?thesis by (auto simp: save_locked_def spec_for_def)
  next
    case (Some sp)
    obtain c where c: "(if existing \<noteq> None then py_return existing else get_locked ?n) s = (Inr ?e, s\<lparr>rg_cache := c\<rparr>)"
        "registry_ok (s\<lparr>rg_cache := c\<rparr>)"
    proof (cases "existing = None")
      case True
      with that get_locked_run [OF assms(1) n] show ?thesis by auto
    next
      case False
      with assms(1,3) have "(if existing \<noteq> None then py_return existing else get_locked ?n) s =
          (Inr ?e, s\<lparr>rg_cache := rg_cache s\<rparr>)" "registry_ok (s\<lparr>rg_cache := rg_cache s\<rparr>)" by simp_all
      with that show ?thesis by blast
    qed
    let ?bad = "changed_runtime_fields ?e r \<noteq> [] \<and> \<not> auth \<and>
      sort (filter (\<lambda>f. f \<notin> set STATE_MUTATION_FIELDS) (changed_runtime_fields ?e r)) \<noteq> []"
    have "spec_for ?n s = (Inr sp, s)" using Some n by (simp add: spec_for_def)
    then have save: "save_locked r auth existing s =
        (if ?bad then py_raise (ValueError (''authority write required for runtime fields: '' @ join '', ''
            (sort (filter (\<lambda>f. f \<notin> set STATE_MUTATION_FIELDS) (changed_runtime_fields ?e r)))))
         else py_then (py_modify (\<lambda>s. s\<lparr>rg_store := dict_set ?n r (rg_store s), rg_cache := dict_set ?n r (rg_cache s)\<rparr>))
           (py_return r)) (s\<lparr>rg_cache := c\<rparr>)"
      using c(1) by (simp add: save_locked_def Let_def)
    show ?thesis
    proof (cases ?bad)
      case True
      with save assms(4) c(2) show ?thesis by auto
    next
      case False
      with save assms(4) have t: "t = s\<lparr>rg_store := dict_set ?n r (rg_store s), rg_cache := dict_set ?n r c\<rparr>"
        by simp
      moreover have "registry_ok t" using c(2) assms(2) unfolding t by (auto simp: registry_ok_def)
      moreover have "same_authority e r" if "\<not> auth" "?e = Some e" for e
      proof (rule unauthorized_save)
        have "set (filter (\<lambda>f. f \<notin> set STATE_MUTATION_FIELDS) (changed_runtime_fields ?e r)) = {}"
          using False that by (metis filter.simps(1) list.set(1) set_sort)
        then show "filter (\<lambda>f. f \<notin> set STATE_MUTATION_FIELDS) (changed_runtime_fields (Some e) r) = []"
          using that by simp
      qed
      ultimately show ?thesis by auto
    qed
  qed
qed

lemma saved_keeps_authority:
  assumes "rg_store t = rg_store s \<or> rg_store t = dict_set (rt_agent_name r) r (rg_store s) \<and>
    (\<forall>e. map_of (rg_store s) (rt_agent_name r) = Some e \<longrightarrow> same_authority e r)"
  shows "keeps_authority s t"
  using assms by (auto simp: keeps_authority_def)

lemma saved_keeps_generations:
  assumes "rg_store t = rg_store s \<or> rg_store t = dict_set (rt_agent_name r) r (rg_store s)"
    and "\<forall>e. map_of (rg_store s) (rt_agent_name r) = Some e \<longrightarrow>
      positive_generation (rt_runtime_generation e) \<le> positive_generation (rt_runtime_generation r)"
  shows "keeps_generations s t"
  using assms by (auto simp: keeps_generations_def)

lemma registry_ok_name: "registry_ok s \<Longrightarrow> map_of (rg_store s) n = Some e \<Longrightarrow> rt_agent_name e = n \<and> valid_runtime e"
  by (simp add: registry_ok_def)

lemma upsert_keeps:
  assumes "registry_ok s" "valid_runtime r"
  shows "registry_ok (py_exec (registry_upsert r False) s) \<and> keeps_authority s (py_exec (registry_upsert r False) s)"
  using save_locked_run [OF assms, of None False] saved_keeps_authority [of _ s r]
  by (cases "save_locked r False None s") (auto simp: registry_upsert_def)

text \<open>An authority write on behalf of \<open>e\<close>, the runtime on file: merged when stale, then saved\<close>
lemma authority_save_keeps:
  assumes "registry_ok s" "valid_runtime c" "map_of (rg_store s) (rt_agent_name c) = Some e"
    "(py_bind (py_lift (merge_stale_authority_candidate e c)) (\<lambda>m. save_locked m True (Some e))) s = (res, t)"
  shows "registry_ok t \<and> keeps_generations s t \<and>
    (positive_generation (rt_runtime_generation c) < positive_generation (rt_runtime_generation e) \<longrightarrow> keeps_authority s t)"
proof (cases "merge_stale_authority_candidate e c")
  case (Inl x)
  with assms show ?thesis by simp
next
  case (Inr m)
  have e: "rt_agent_name e = rt_agent_name c" "valid_runtime e" using registry_ok_name [OF assms(1,3)] by simp_all
  note m = merge_result [OF e(2) assms(2) Inr e(1) refl]
  have "save_locked m True (Some e) s = (res, t)" using Inr assms(4) by simp
  with save_locked_run [OF assms(1), of m "Some e" True] m assms(3)
  have t: "registry_ok t" "rg_store t = rg_store s \<or> rg_store t = dict_set (rt_agent_name m) m (rg_store s)"
    by auto
  then show ?thesis
    using saved_keeps_generations [OF t(2)] saved_keeps_authority [of t s m] m assms(3) by auto
qed

lemma authority_keeps:
  assumes "registry_ok s" "valid_runtime c"
  defines "t \<equiv> py_exec (upsert_authority c) s"
  shows "registry_ok t \<and> keeps_generations s t \<and>
    (\<forall>e. map_of (rg_store s) (rt_agent_name c) = Some e \<longrightarrow>
       positive_generation (rt_runtime_generation c) < positive_generation (rt_runtime_generation e) \<longrightarrow> keeps_authority s t)"
proof -
  have n: "agent_name_ok (rt_agent_name c)" using assms(2) by (simp add: valid_runtime_iff)
  obtain k where k: "get_locked (rt_agent_name c) s = (Inr (map_of (rg_store s) (rt_agent_name c)), s\<lparr>rg_cache := k\<rparr>)"
      "registry_ok (s\<lparr>rg_cache := k\<rparr>)" using get_locked_run [OF assms(1) n] by blast
  obtain res u where run: "upsert_authority c s = (res, u)" by fastforce
  then have t: "t = u" unfolding t_def by simp
  show ?thesis
  proof (cases "map_of (rg_store s) (rt_agent_name c)")
    case None
    have "save_locked c True None (s\<lparr>rg_cache := k\<rparr>) = (res, u)" using run k(1) None by (simp add: upsert_authority_def)
    with save_locked_run [OF k(2) assms(2), of None True]
    have "registry_ok u" "rg_store u = rg_store s \<or> rg_store u = dict_set (rt_agent_name c) c (rg_store s)" by auto
    with saved_keeps_generations None show ?thesis unfolding t by auto
  next
    case (Some e)
    have "(py_bind (py_lift (merge_stale_authority_candidate e c)) (\<lambda>m. save_locked m True (Some e))) (s\<lparr>rg_cache := k\<rparr>) = (res, u)"
      using run k(1) Some by (simp add: upsert_authority_def)
    with authority_save_keeps [OF k(2) assms(2), of e res u] Some show ?thesis
      unfolding t keeps_generations_def keeps_authority_def by simp
  qed
qed

lemma update_keeps:
  fixes auth :: bool
  assumes "registry_ok s" "\<forall>c u. f c = Some u \<longrightarrow> valid_runtime u \<and> normalize_agent_name n = Inr (rt_agent_name u)"
  defines "t \<equiv> py_exec (registry_update n f auth) s"
  shows "registry_ok t \<and> keeps_generations s t \<and> (\<not> auth \<longrightarrow> keeps_authority s t)"
proof -
  obtain res u where run: "registry_update n f auth s = (res, u)" by fastforce
  then have t: "t = u" unfolding t_def by simp
  show ?thesis
  proof (cases "normalize_agent_name n")
    case (Inl x)
    with run assms(1) show ?thesis unfolding t by (auto simp: registry_update_def)
  next
    case (Inr m)
    have m: "agent_name_ok m" using Inr by (rule normalize_agent_name_ok)
    obtain k where k: "get_locked m s = (Inr (map_of (rg_store s) m), s\<lparr>rg_cache := k\<rparr>)" "registry_ok (s\<lparr>rg_cache := k\<rparr>)"
      using get_locked_run [OF assms(1) m] by blast
    let ?cur = "map_of (rg_store s) m"
    show ?thesis
    proof (cases "f ?cur = None \<or> f ?cur = ?cur")
      case True
      then have "u = s\<lparr>rg_cache := k\<rparr>"
        using run Inr k(1) by (cases ?cur; cases "f ?cur") (auto simp: registry_update_def)
      with k(2) show ?thesis unfolding t by simp
    next
      case False
      then obtain v where v: "f ?cur = Some v" "?cur \<noteq> Some v" by (cases "f ?cur") auto
      then have valid: "valid_runtime v" "rt_agent_name v = m" using assms(2) Inr by auto
      show ?thesis
      proof (cases "auth \<and> ?cur \<noteq> None")
        case True
        then obtain e where e: "?cur = Some e" by auto
        obtain r' where r': "(py_bind (py_lift (merge_stale_authority_candidate e v)) (\<lambda>m. save_locked m True (Some e)))
            (s\<lparr>rg_cache := k\<rparr>) = (r', u)"
          using run Inr k(1) v e True
          by (cases "merge_stale_authority_candidate e v";
              cases "save_locked (projr (merge_stale_authority_candidate e v)) True (Some e) (s\<lparr>rg_cache := k\<rparr>)")
            (auto simp: registry_update_def py_bind_def split: sum.splits)
        with authority_save_keeps [OF k(2) valid(1), of e r' u] valid e True show ?thesis
          unfolding t keeps_generations_def keeps_authority_def by simp
      next
        case False
        obtain r' where r': "save_locked v auth ?cur (s\<lparr>rg_cache := k\<rparr>) = (r', u)"
          using run Inr k(1) v False
          by (cases "save_locked v auth ?cur (s\<lparr>rg_cache := k\<rparr>)"; cases ?cur)
            (auto simp: registry_update_def py_bind_def split: sum.splits)
        with save_locked_run [OF k(2) valid(1), of ?cur auth r' u] valid
        have u: "registry_ok u" "rg_store u = rg_store s \<or> rg_store u = dict_set m v (rg_store s) \<and>
            (auth \<or> (\<forall>e. ?cur = Some e \<longrightarrow> same_authority e v))" by auto
        have "keeps_authority s u" if "\<not> auth \<or> ?cur = None"
          using saved_keeps_authority [of u s v] u(2) that valid by auto
        with u(1) False show ?thesis unfolding t by (auto intro: keeps_authority_generations)
      qed
    qed
  qed
qed

lemma remove_keeps:
  fixes n :: string
  assumes "registry_ok s"
  defines "t \<equiv> py_exec (registry_remove n) s"
  shows "registry_ok t \<and> keeps_generations s t"
proof -
  obtain res u where run: "registry_remove n s = (res, u)" by fastforce
  then have t: "t = u" unfolding t_def by simp
  show ?thesis
  proof (cases "normalize_agent_name n")
    case (Inl x)
    with run assms(1) show ?thesis unfolding t by (auto simp: registry_remove_def get_locked_def)
  next
    case (Inr m)
    have m: "agent_name_ok m" using Inr by (rule normalize_agent_name_ok)
    then have "get_locked n s = get_locked m s" using Inr by (simp add: get_locked_def)
    with get_locked_run [OF assms(1) m] obtain k where
      k: "get_locked n s = (Inr (map_of (rg_store s) m), s\<lparr>rg_cache := k\<rparr>)" "registry_ok (s\<lparr>rg_cache := k\<rparr>)" by auto
    show ?thesis
    proof (cases "\<exists>r v. map_of (rg_store s) m = Some r \<and> AgentRuntime (stopped_runtime r) = Inr v")
      case False
      then have "u = s\<lparr>rg_cache := k\<rparr>" using run k(1)
        by (cases "map_of (rg_store s) m"; cases "AgentRuntime (stopped_runtime (the (map_of (rg_store s) m)))")
          (auto simp: registry_remove_def)
      with k(2) show ?thesis unfolding t by simp
    next
      case True
      then obtain r v where r: "map_of (rg_store s) m = Some r" and v: "AgentRuntime (stopped_runtime r) = Inr v" by blast
      have "u = py_exec (upsert_authority v) (s\<lparr>rg_cache := k\<rparr>)" using run k(1) r v
        by (cases "upsert_authority v (s\<lparr>rg_cache := k\<rparr>)")
          (auto simp: registry_remove_def py_bind_def split: sum.splits)
      with authority_keeps [OF k(2) AgentRuntime_valid(1) [OF v]] show ?thesis
        unfolding t keeps_generations_def by simp
    qed
  qed
qed

section \<open>Sequences of operations\<close>

datatype registry_op =
    RegGet string
  | RegUpsert agent_runtime
  | RegAuthority agent_runtime
  | RegUpdate string "agent_runtime option \<Rightarrow> agent_runtime option" bool
  | RegRemove string

fun registry_run :: "registry_op \<Rightarrow> registry \<Rightarrow> registry" where
  "registry_run (RegGet n) = py_exec (registry_get n)"
| "registry_run (RegUpsert r) = py_exec (registry_upsert r False)"
| "registry_run (RegAuthority r) = py_exec (upsert_authority r)"
| "registry_run (RegUpdate n f auth) = py_exec (registry_update n f auth)"
| "registry_run (RegRemove n) = py_exec (registry_remove n)"

text \<open>The runtimes an operation brings are built by their constructor; an update keeps the agent's name\<close>
fun registry_op_ok :: "registry_op \<Rightarrow> bool" where
  "registry_op_ok (RegUpsert r) = valid_runtime r"
| "registry_op_ok (RegAuthority r) = valid_runtime r"
| "registry_op_ok (RegUpdate n f auth) =
     (\<forall>c u. f c = Some u \<longrightarrow> valid_runtime u \<and> normalize_agent_name n = Inr (rt_agent_name u))"
| "registry_op_ok _ = True"

text \<open>An operation with no claim to the binding fields in \<open>s\<close>: none at all, or an older generation's\<close>
fun registry_op_stale :: "registry \<Rightarrow> registry_op \<Rightarrow> bool" where
  "registry_op_stale s (RegAuthority r) = (case map_of (rg_store s) (rt_agent_name r) of None \<Rightarrow> False
     | Some e \<Rightarrow> positive_generation (rt_runtime_generation r) < positive_generation (rt_runtime_generation e))"
| "registry_op_stale s (RegUpdate n f auth) = (\<not> auth)"
| "registry_op_stale s (RegRemove n) = False"
| "registry_op_stale s _ = True"

lemma registry_get_keeps:
  assumes "registry_ok s"
  shows "registry_ok (py_exec (registry_get n) s) \<and> keeps_authority s (py_exec (registry_get n) s)"
proof (cases "normalize_agent_name n")
  case (Inl x)
  with assms show ?thesis by (simp add: registry_get_def)
next
  case (Inr m)
  with get_locked_run [OF assms normalize_agent_name_ok [OF Inr]] show ?thesis
    by (auto simp: registry_get_def)
qed

lemma registry_run_keeps:
  assumes "registry_ok s" "registry_op_ok op"
  shows "registry_ok (registry_run op s) \<and> keeps_generations s (registry_run op s) \<and>
    (registry_op_stale s op \<longrightarrow> keeps_authority s (registry_run op s))"
proof (cases op)
  case (RegGet n)
  with registry_get_keeps [OF assms(1)] show ?thesis by (auto intro: keeps_authority_generations)
next
  case (RegUpsert r)
  with upsert_keeps assms show ?thesis by (auto intro: keeps_authority_generations)
next
  case (RegAuthority r)
  with authority_keeps assms show ?thesis by (auto split: option.splits)
next
  case (RegUpdate n f auth)
  with update_keeps [of s f n auth] assms show ?thesis by simp
next
  case (RegRemove n)
  with remove_keeps assms show ?thesis by simp
qed

lemma stale_stays_stale: "keeps_generations s t \<Longrightarrow> registry_op_stale s op \<Longrightarrow> registry_op_stale t op"
  by (cases op) (fastforce simp: keeps_generations_def split: option.splits)+


definition demo_runtime :: "agent_state \<Rightarrow> int \<Rightarrow> string \<Rightarrow> agent_runtime" where
  "demo_runtime st generation pane = \<lparr>rt_agent_name = ''agent1'', rt_state = st, rt_pid = Some 41,
     rt_started_at = Some ''t0'', rt_last_seen_at = Some ''t1'', rt_runtime_ref = Some ''tmux:%1'',
     rt_session_ref = None, rt_workspace_path = Some ''/w'', rt_project_id = ''p1'', rt_backend_type = ''pane-backed'',
     rt_queue_depth = 0, rt_socket_path = None, rt_health = ''healthy'', rt_provider = Some ''codex'',
     rt_runtime_root = None, rt_runtime_pid = Some 41, rt_terminal_backend = Some ''tmux'', rt_pane_id = Some pane,
     rt_active_pane_id = Some pane, rt_pane_title_marker = None, rt_pane_state = Some ''alive'',
     rt_tmux_socket_name = None, rt_tmux_socket_path = None, rt_tmux_window_name = None, rt_tmux_window_id = None,
     rt_session_file = None, rt_session_id = None, rt_slot_key = Some ''agent1'', rt_window_id = None,
     rt_workspace_epoch = Some 1, rt_lifecycle_state = Some ''idle'', rt_binding_generation = 1,
     rt_managed_by = ''ccbd'', rt_binding_source = PROVIDER_SESSION, rt_daemon_generation = Some 2,
     rt_runtime_generation = Some generation, rt_desired_state = Some ''mounted'',
     rt_reconcile_state = Some ''steady'', rt_restart_count = 0, rt_last_reconcile_at = None,
     rt_last_failure_reason = None, rt_mount_attempt_id = None\<rparr>"

definition demo_registry :: registry where
  "demo_registry = \<lparr>rg_agents = [(''agent1'', \<lparr>spec_name = ''agent1'', spec_provider = ''codex'',
       spec_runtime_mode = PANE_BACKED, spec_queue_policy = SERIAL_PER_AGENT\<rparr>)],
     rg_store = [(''agent1'', demo_runtime AS_IDLE 3 ''%1'')], rg_cache = []\<rparr>"


end
