(* ===== verification/Text_Artifacts.thy ===== *)
theory Text_Artifacts
  imports Bureau_State Sha256 Timestamps
begin

text \<open>
  Text artifacts (\<open>lib/storage/text_artifacts.py\<close>): a text above the size limit is written to a file below
  the artifact directory and replaced by a stub with its path, size and digest; a reference is
  accepted only when the file is below that directory and has that size and digest. With them the one
  operation of the message bureau that spills, the recording of a notice.

  Files are byte lists by path. Finding the canonical form of a path is the file system's: \<open>ar_resolve\<close>
  is what \<open>Path(p).expanduser().resolve(strict=True)\<close> returns on the files at hand, none when it does not
  exist. The current time is read from the kernel's clock.
\<close>

section \<open>Printing time stamps\<close>

definition EPOCH_MICROS :: int where
  "EPOCH_MICROS = ymd2ord 1970 1 1 * 86400000000"

text \<open>The calendar date of a day number, as \<open>date.fromordinal\<close> computes it\<close>
definition ord2ymd :: "int \<Rightarrow> int \<times> int \<times> int" where
  "ord2ymd ordinal =
     (let n = ordinal - 1; n400 = n div 146097; n = n mod 146097;
          n100 = n div 36524; n = n mod 36524; n4 = n div 1461; n = n mod 1461;
          n1 = n div 365; n = n mod 365;
          year = n400 * 400 + 1 + n100 * 100 + n4 * 4 + n1
      in if n1 = 4 \<or> n100 = 4 then (year - 1, 12, 31)
         else let month = (n + 50) div 32;
                  month = (if days_before_month year month > n then month - 1 else month)
              in (year, month, n - days_before_month year month + 1))"

definition zero_pad :: "nat \<Rightarrow> int \<Rightarrow> string" where
  "zero_pad w n = (let t = show_int n in replicate (w - length t) CHR ''0'' @ t)"

text \<open>\<open>isoformat()\<close> of a time in UTC, with \<open>+00:00\<close> replaced by \<open>Z\<close>\<close>
definition isoformat_z :: "int \<Rightarrow> string" where
  "isoformat_z micros =
     (let (y, m, d) = ord2ymd (micros div 86400000000);
          us = micros mod 86400000000; s = us div 1000000
      in zero_pad 4 y @ ''-'' @ zero_pad 2 m @ ''-'' @ zero_pad 2 d @ ''T'' @ zero_pad 2 (s div 3600) @ '':'' @
         zero_pad 2 (s div 60 mod 60) @ '':'' @ zero_pad 2 (s mod 60) @
         (if us mod 1000000 = 0 then [] else ''.'' @ zero_pad 6 (us mod 1000000)) @ ''Z'')"

text \<open>The range of \<open>datetime\<close>: years 1 to 9999\<close>
definition in_datetime_range :: "int \<Rightarrow> bool" where
  "in_datetime_range micros \<longleftrightarrow> 86400000000 \<le> micros \<and> micros < ymd2ord 10000 1 1 * 86400000000"

definition parse_utc :: "string \<Rightarrow> int result" where
  "parse_utc v = (let text = py_strip v;
       text = (if text \<noteq> [] \<and> last text = CHR ''Z'' then butlast text @ ''+00:00'' else text)
     in rbind (fromisoformat text) (\<lambda>parsed.
        let utc = (case dt_offset parsed of None \<Rightarrow> dt_micros parsed | Some z \<Rightarrow> dt_micros parsed - z)
        in rbind (rcheck (\<not> in_datetime_range utc) (OverflowError ''date value out of range'')) (\<lambda>_. Inr utc)))"

definition expires_at :: "string \<Rightarrow> int \<Rightarrow> string result" where
  "expires_at created_at ttl_seconds = rbind (parse_utc created_at) (\<lambda>utc.
     let later = utc + max 0 ttl_seconds * 1000000 in
     rbind (rcheck (\<not> in_datetime_range later) (OverflowError ''date value out of range'')) (\<lambda>_.
     Inr (isoformat_z later)))"

section \<open>Artifacts\<close>

record artifact_state = bureau_state +
  ar_root :: string
  ar_files :: "int list dict"
  ar_resolve :: "int list dict \<Rightarrow> string \<Rightarrow> string option"

definition TEXT_ARTIFACT_SPILL_BYTES :: int where
  "TEXT_ARTIFACT_SPILL_BYTES = 4 * 1024"

definition TEXT_ARTIFACT_PREVIEW_CHARS :: nat where
  "TEXT_ARTIFACT_PREVIEW_CHARS = 1200"

definition TEXT_ARTIFACT_TTL_S :: int where
  "TEXT_ARTIFACT_TTL_S = 24 * 60 * 60"

definition utf8_size :: "string \<Rightarrow> int" where
  "utf8_size t = int (length (utf8 t))"

definition should_spill_text :: "string \<Rightarrow> int \<Rightarrow> bool" where
  "should_spill_text t threshold_bytes \<longleftrightarrow> utf8_size t > threshold_bytes"

definition preview_text :: "string \<Rightarrow> nat \<Rightarrow> string" where
  "preview_text t max_chars = (let body = py_strip t in
     if length body \<le> max_chars then body
     else py_rstrip (take max_chars body) @ ''\<newline>...[truncated]'')"

text \<open>\<open>str.isalnum\<close> of one character\<close>
definition py_isalnum :: "char \<Rightarrow> bool" where
  "py_isalnum c = (let n = (of_char c :: nat) in
     (48 \<le> n \<and> n \<le> 57) \<or> (65 \<le> n \<and> n \<le> 90) \<or> (97 \<le> n \<and> n \<le> 122) \<or>
     n \<in> {170, 178, 179, 181, 185, 186, 188, 189, 190} \<or> (192 \<le> n \<and> n \<noteq> 215 \<and> n \<noteq> 247))"

definition is_edge :: "char \<Rightarrow> bool" where
  "is_edge c \<longleftrightarrow> c = CHR ''-'' \<or> c = CHR ''_''"

definition safe_segment :: "string \<Rightarrow> string \<Rightarrow> string" where
  "safe_segment value fallback =
     (let t = map (\<lambda>ch. if py_isalnum ch \<or> is_edge ch then ch else CHR ''-'') (py_strip value);
          t = py_lower (rev (dropWhile is_edge (rev (dropWhile is_edge t))))
      in if t = [] then fallback else t)"

definition artifact_stub :: "string \<Rightarrow> payload \<Rightarrow> string" where
  "artifact_stub title artifact =
     (let preview = py_rstrip (str_or (jget artifact ''preview'') '''');
          first = (if py_rstrip title = [] then ''CCB large text artifact.'' else py_rstrip title)
      in py_rstrip (join ''\<newline>''
           ([first, ''Full text: '' @ py_str (jget artifact ''path''),
             ''Bytes: '' @ py_str (jget artifact ''bytes''), ''SHA256: '' @ py_str (jget artifact ''sha256'')] @
            (if preview = [] then [] else [[], ''Preview:'', preview]) @
            [[], ''Instruction: read the full text file above before acting when the preview is insufficient.''])))"

definition write_text_artifact :: "string \<Rightarrow> string \<Rightarrow> string \<Rightarrow> int \<Rightarrow> string option \<Rightarrow>
    ('z artifact_state_scheme, payload) py" where
  "write_text_artifact body kind owner_id ttl_seconds now =
     py_bind (if opt_truthy now then py_return (str_or_empty now) else read_clock) (\<lambda>timestamp.
     py_bind (new_id ''art'') (\<lambda>artifact_id.
     py_bind (py_gets ar_root) (\<lambda>base.
       let data = utf8 body; safe_kind = safe_segment kind ''text'';
           path = base @ ''/'' @ safe_kind @ ''/'' @ safe_segment owner_id ''unknown'' @ ''-'' @ artifact_id @ ''.txt''
       in py_then (py_modify (\<lambda>s. s\<lparr>ar_files := dict_set path data (ar_files s)\<rparr>)) (
          py_bind (py_lift (expires_at timestamp ttl_seconds)) (\<lambda>expiry.
          py_return
            [(''schema_version'', JInt 1), (''kind'', JStr safe_kind), (''artifact_id'', JStr artifact_id),
             (''path'', JStr path), (''bytes'', JInt (int (length data))), (''sha256'', JStr (sha256_hex data)),
             (''encoding'', JStr ''utf-8''), (''preview'', JStr (preview_text body TEXT_ARTIFACT_PREVIEW_CHARS)),
             (''created_at'', JStr timestamp), (''expires_at'', JStr expiry)])))))"

definition maybe_spill_text :: "string \<Rightarrow> string \<Rightarrow> string \<Rightarrow> string \<Rightarrow> string option \<Rightarrow>
    ('z artifact_state_scheme, string \<times> payload option) py" where
  "maybe_spill_text body kind owner_id title now =
     (if \<not> should_spill_text body TEXT_ARTIFACT_SPILL_BYTES then py_return (body, None)
      else py_bind (write_text_artifact body kind owner_id TEXT_ARTIFACT_TTL_S now) (\<lambda>artifact.
        py_return (artifact_stub title artifact, Some artifact)))"

text \<open>\<open>resolved.relative_to(root)\<close> succeeds\<close>
definition below_root :: "string \<Rightarrow> string \<Rightarrow> bool" where
  "below_root base path \<longleftrightarrow> path = base \<or> py_startswith path (if base = ''/'' then base else base @ ''/'')"

definition validated_artifact_path :: "json \<Rightarrow> ('z artifact_state_scheme, string) py" where
  "validated_artifact_path value = py_bind (py_gets (\<lambda>s. (ar_resolve s (ar_files s) (ar_root s),
        ar_resolve s (ar_files s) (str_or value ''''), ar_root s))) (\<lambda>(base, path, given). case path of
       None \<Rightarrow> py_raise (ValueError ''text artifact path does not exist'')
     | Some resolved \<Rightarrow> if below_root (case base of Some r \<Rightarrow> r | None \<Rightarrow> given) resolved then py_return resolved
         else py_raise (ValueError ''text artifact path escapes CCB artifact directory''))"

text \<open>\<open>path.read_bytes()\<close>: a path that names no file is a directory here\<close>
definition read_bytes :: "string \<Rightarrow> ('z artifact_state_scheme, int list) py" where
  "read_bytes path = py_bind (py_gets (\<lambda>s. map_of (ar_files s) path)) (\<lambda>found. case found of
     Some data \<Rightarrow> py_return data | None \<Rightarrow> py_raise (RuntimeError ''Is a directory''))"

definition set_default :: "string \<Rightarrow> json \<Rightarrow> payload \<Rightarrow> payload" where
  "set_default k v d = (if k \<in> fst ` set d then d else dict_set k v d)"

text \<open>\<open>decode\<close> is \<open>bytes.decode('utf-8', errors='replace')\<close>\<close>
definition validate_text_artifact_ref :: "(int list \<Rightarrow> string) \<Rightarrow> payload option \<Rightarrow>
    ('z artifact_state_scheme, payload option) py" where
  "validate_text_artifact_ref decode artifact = (case artifact of None \<Rightarrow> py_return None
     | Some ref \<Rightarrow> if ref = [] then py_return None else
         py_bind (validated_artifact_path (jget ref ''path'')) (\<lambda>path.
         py_bind (read_bytes path) (\<lambda>data.
         py_bind (py_lift (if jget ref ''bytes'' = JNull then Inr (int (length data)) else py_int (jget ref ''bytes''))) (\<lambda>size.
         if size \<noteq> int (length data) then py_raise (ValueError ''text artifact byte size mismatch'')
         else let expected_sha = py_strip (str_or (jget ref ''sha256'') ''''); actual_sha = sha256_hex data in
           if expected_sha \<noteq> [] \<and> expected_sha \<noteq> actual_sha
           then py_raise (ValueError ''text artifact sha256 mismatch'')
           else py_return (Some
             (set_default ''preview'' (JStr (preview_text (decode data) TEXT_ARTIFACT_PREVIEW_CHARS))
             (set_default ''encoding'' (JStr ''utf-8'')
             (dict_set ''sha256'' (JStr actual_sha) (dict_set ''bytes'' (JInt (int (length data)))
             (dict_set ''path'' (JStr path) ref))))))))))"

text \<open>\<open>mtime\<close> is \<open>path.stat().st_mtime\<close>, none when it raises\<close>
definition artifact_expired :: "(string \<Rightarrow> rat option) \<Rightarrow> int \<Rightarrow> string \<Rightarrow> bool" where
  "artifact_expired mtime current path = (case mtime path of None \<Rightarrow> False
     | Some t \<Rightarrow> max 0 (of_int (current - EPOCH_MICROS) / 1000000 - t) \<ge> of_int TEXT_ARTIFACT_TTL_S)"

definition is_artifact_file :: "string \<Rightarrow> string \<Rightarrow> bool" where
  "is_artifact_file base path \<longleftrightarrow> py_startswith path (base @ ''/'') \<and> py_startswith (rev path) (rev ''.txt'')"

definition sweep_expired_text_artifacts :: "(string \<Rightarrow> rat option) \<Rightarrow> string option \<Rightarrow>
    ('z artifact_state_scheme, string list) py" where
  "sweep_expired_text_artifacts mtime now =
     py_bind (if opt_truthy now then py_return (str_or_empty now) else read_clock) (\<lambda>timestamp.
     py_bind (py_lift (parse_utc timestamp)) (\<lambda>current.
     py_bind (py_gets (\<lambda>s. filter (\<lambda>p. is_artifact_file (ar_root s) p \<and> artifact_expired mtime current p)
       (map fst (ar_files s)))) (\<lambda>removed.
     py_then (py_modify (\<lambda>s. s\<lparr>ar_files := fold dict_pop removed (ar_files s)\<rparr>)) (py_return removed))))"

section \<open>Notices of the message bureau\<close>

definition spill_notice_reply_if_needed :: "job_record \<Rightarrow> string \<Rightarrow> string \<Rightarrow> string \<Rightarrow>
    ('z artifact_state_scheme, string \<times> payload option) py" where
  "spill_notice_reply_if_needed job reply reply_id finished_at =
     maybe_spill_text reply ''notice-reply'' (jr_job_id job @ ''-'' @ reply_id)
       (''CCB notice reply for job '' @ jr_job_id job @ '' is larger than 4 KiB and was stored as an artifact.'')
       (Some finished_at)"

definition record_notice :: "job_record \<Rightarrow> string \<Rightarrow> payload option \<Rightarrow> string \<Rightarrow> reply_status \<Rightarrow>
    string option \<Rightarrow> ('z artifact_state_scheme, string option) py" where
  "record_notice job reply diagnostics finished_at terminal_status deliver_to_actor =
     py_bind (attempt_get_latest_by_job_id (jr_job_id job)) (\<lambda>found. case found of
         None \<Rightarrow> py_return None
       | Some attempt \<Rightarrow>
           py_bind (new_id ''rep'') (\<lambda>reply_id.
           let details = set_default ''notice'' (JBool True)
                 (set_default ''status'' (JStr (job_status_value (jr_status job)))
                   (case diagnostics of Some d \<Rightarrow> d | None \<Rightarrow> [])) in
           py_bind (spill_notice_reply_if_needed job reply reply_id finished_at) (\<lambda>(reply_text, reply_artifact).
           py_bind (py_lift (normalize_reply_record \<lparr>rep_reply_id = reply_id,
               rep_message_id = att_message_id attempt, rep_attempt_id = att_attempt_id attempt,
               rep_agent_name = jr_agent_name job, rep_terminal_status = terminal_status,
               rep_reply = reply_text, rep_reply_artifact = reply_artifact,
               rep_diagnostics = details, rep_finished_at = finished_at\<rparr>)) (\<lambda>record.
           py_then (reply_append record) (
           py_bind (mailbox_actor (case deliver_to_actor of Some a \<Rightarrow> a | None \<Rightarrow> me_from_actor (jr_request job))) (\<lambda>caller.
           py_then (case caller of None \<Rightarrow> py_return ()
               | Some m \<Rightarrow> queue_reply_delivery m (att_message_id attempt) (att_attempt_id attempt) reply_id finished_at) (
           py_then (refresh_message_state (att_message_id attempt) finished_at) (
           py_return (Some reply_id)))))))))"

section \<open>Digests and paths\<close>

lemma length_sha256_hex [simp]: "length (sha256_hex m) = 64"
  by (simp add: sha256_hex_def Let_def length_hex length_foldl_compress initial_hash_def eight_initial_words)

lemma sha256_hex_not_space: "c \<in> set (sha256_hex m) \<Longrightarrow> \<not> py_isspace c"
proof -
  have digit: "\<not> py_isspace (hex_digit n)" if "n < 16" for n :: nat
  proof -
    have "of_char (hex_digit n) = (if n < 10 then 48 + n else 87 + n)" using that by (simp add: hex_digit_def)
    then show ?thesis using that by (auto simp: py_isspace_def Let_def split: if_splits)
  qed
  have hex: "\<not> py_isspace c" if "c \<in> set (concat (map hex8 ws))" for ws
  proof -
    from that obtain w where "c \<in> set (hex8 w)" by auto
    then obtain i where "c = hex_digit (nat (uint w div 16 ^ i mod 16))" unfolding hex8_def by auto
    then show ?thesis by (simp add: digit nat_less_iff)
  qed
  assume "c \<in> set (sha256_hex m)"
  then show ?thesis unfolding sha256_hex_def Let_def by (rule hex)
qed

lemma strip_sha256 [simp]: "py_strip (sha256_hex m) = sha256_hex m"
proof -
  have "stripped (sha256_hex m)"
    using sha256_hex_not_space [of "hd (sha256_hex m)" m] sha256_hex_not_space [of "last (sha256_hex m)" m]
    by (cases "sha256_hex m") (auto simp: stripped_def)
  then show ?thesis by simp
qed

lemma sha256_hex_ne [simp]: "sha256_hex m \<noteq> []"
  using length_sha256_hex [of m] by (metis list.size(3) zero_neq_numeral)

lemma below_root_child [simp]: "below_root base (base @ CHR ''/'' # p)"
  by (cases "base = ''/''") (simp_all add: below_root_def py_startswith_def)

text \<open>The artifact directory is in canonical form and holds files, no links\<close>
definition canonical_artifacts :: "'z artifact_state_scheme \<Rightarrow> bool" where
  "canonical_artifacts s \<longleftrightarrow> (\<forall>files. ar_resolve s files (ar_root s) = Some (ar_root s)) \<and>
     (\<forall>files p. p \<in> fst ` set files \<and> below_root (ar_root s) p \<longrightarrow> ar_resolve s files p = Some p)"

text \<open>The path and the reference of the next artifact\<close>
definition next_artifact_path :: "string \<Rightarrow> string \<Rightarrow> 'z artifact_state_scheme \<Rightarrow> string" where
  "next_artifact_path kind owner_id s = ar_root s @ ''/'' @ safe_segment kind ''text'' @ ''/'' @
     safe_segment owner_id ''unknown'' @ ''-'' @ (''art_'' @ bs_ids s (bs_next_id s)) @ ''.txt''"

definition artifact_ref :: "string \<Rightarrow> string \<Rightarrow> string \<Rightarrow> string \<Rightarrow> string \<Rightarrow> 'z artifact_state_scheme \<Rightarrow> payload" where
  "artifact_ref body kind owner_id now expiry s =
     [(''schema_version'', JInt 1), (''kind'', JStr (safe_segment kind ''text'')),
      (''artifact_id'', JStr (''art_'' @ bs_ids s (bs_next_id s))),
      (''path'', JStr (next_artifact_path kind owner_id s)), (''bytes'', JInt (utf8_size body)),
      (''sha256'', JStr (sha256_hex (utf8 body))), (''encoding'', JStr ''utf-8''),
      (''preview'', JStr (preview_text body TEXT_ARTIFACT_PREVIEW_CHARS)),
      (''created_at'', JStr now), (''expires_at'', JStr expiry)]"

definition with_artifact :: "string \<Rightarrow> string \<Rightarrow> string \<Rightarrow> 'z artifact_state_scheme \<Rightarrow> 'z artifact_state_scheme" where
  "with_artifact body kind owner_id s = s\<lparr>bs_next_id := Suc (bs_next_id s),
     ar_files := dict_set (next_artifact_path kind owner_id s) (utf8 body) (ar_files s)\<rparr>"

lemma maybe_spill_run:
  assumes "now \<noteq> []" "expires_at now TEXT_ARTIFACT_TTL_S = Inr expiry" "should_spill_text body TEXT_ARTIFACT_SPILL_BYTES"
  shows "maybe_spill_text body kind owner_id title (Some now) s =
    (Inr (artifact_stub title (artifact_ref body kind owner_id now expiry s), Some (artifact_ref body kind owner_id now expiry s)),
     with_artifact body kind owner_id s)"
  using assms
  by (simp add: maybe_spill_text_def write_text_artifact_def new_id_def artifact_ref_def with_artifact_def
      next_artifact_path_def utf8_size_def Let_def str_or_empty_def py_bind_def py_then_def py_gets_def
      py_modify_def py_return_def py_lift_def)

lemma maybe_spill_small:
  "\<not> should_spill_text body TEXT_ARTIFACT_SPILL_BYTES \<Longrightarrow>
   maybe_spill_text body kind owner_id title now s = (Inr (body, None), s)"
  by (simp add: maybe_spill_text_def)

lemma validated_path_run:
  assumes "canonical_artifacts s" "p \<in> fst ` set (ar_files s)" "below_root (ar_root s) p" "p \<noteq> []"
  shows "validated_artifact_path (JStr p) s = (Inr p, s)"
  using assms by (simp add: validated_artifact_path_def canonical_artifacts_def str_or_def)

text \<open>What a reference with path, size and digest accepts: the file's bytes decide\<close>
lemma validate_ref_run:
  assumes "canonical_artifacts s" "map_of (ar_files s) p = Some data" "below_root (ar_root s) p" "p \<noteq> []"
    and "jget ref ''path'' = JStr p" "jget ref ''bytes'' = JInt n" "jget ref ''sha256'' = JStr d" "d \<noteq> []" "py_strip d = d"
  shows "validate_text_artifact_ref decode (Some ref) s =
    (if n \<noteq> int (length data) then (Inl (ValueError ''text artifact byte size mismatch''), s)
     else if d \<noteq> sha256_hex data then (Inl (ValueError ''text artifact sha256 mismatch''), s)
     else (Inr (Some (set_default ''preview'' (JStr (preview_text (decode data) TEXT_ARTIFACT_PREVIEW_CHARS))
             (set_default ''encoding'' (JStr ''utf-8'')
             (dict_set ''sha256'' (JStr (sha256_hex data)) (dict_set ''bytes'' (JInt (int (length data)))
             (dict_set ''path'' (JStr p) ref)))))), s))"
proof -
  have "ref \<noteq> []" using assms(5) by (auto simp: jget_def)
  moreover have "p \<in> fst ` set (ar_files s)" using assms(2) by (metis map_of_eq_None_iff option.distinct(1))
  ultimately show ?thesis
    using assms validated_path_run [OF assms(1) _ assms(3,4)]
    by (simp add: validate_text_artifact_ref_def read_bytes_def str_or_def Let_def)
qed

text \<open>
  C21. A spilled text is sealed. A text of at most 4 KiB in UTF-8 is passed on as it is and no file is
  written. A longer one, with a time stamp in range and an artifact directory in canonical form, is
  written to one new file below that directory, which holds exactly its bytes; no other file changes.
  The reference that replaces it is accepted unchanged afterwards, and is refused with a
  \<open>ValueError\<close> as soon as the file has another length or digest.
\<close>
theorem spilled_text_is_sealed:
  fixes s :: "'z artifact_state_scheme"
  assumes "canonical_artifacts s" "now \<noteq> []" "expires_at now TEXT_ARTIFACT_TTL_S = Inr expiry"
  shows "(utf8_size body \<le> 4096 \<longrightarrow> maybe_spill_text body kind owner_id title (Some now) s = (Inr (body, None), s)) \<and>
    (utf8_size body > 4096 \<longrightarrow> (\<exists>ref p t. maybe_spill_text body kind owner_id title (Some now) s =
         (Inr (artifact_stub title ref, Some ref), t) \<and>
       jget ref ''path'' = JStr p \<and> below_root (ar_root s) p \<and> map_of (ar_files t) p = Some (utf8 body) \<and>
       (\<forall>q. q \<noteq> p \<longrightarrow> map_of (ar_files t) q = map_of (ar_files s) q) \<and>
       validate_text_artifact_ref decode (Some ref) t = (Inr (Some ref), t) \<and>
       (\<forall>data. length data \<noteq> length (utf8 body) \<or> sha256_hex data \<noteq> sha256_hex (utf8 body) \<longrightarrow>
         (let u = t\<lparr>ar_files := dict_set p data (ar_files t)\<rparr> in
          \<exists>e. validate_text_artifact_ref decode (Some ref) u = (Inl (ValueError e), u)))))"
proof (intro conjI impI)
  assume "utf8_size body \<le> 4096"
  then show "maybe_spill_text body kind owner_id title (Some now) s = (Inr (body, None), s)"
    by (simp add: maybe_spill_small should_spill_text_def TEXT_ARTIFACT_SPILL_BYTES_def)
next
  assume "utf8_size body > 4096"
  then have "should_spill_text body TEXT_ARTIFACT_SPILL_BYTES"
    by (simp add: should_spill_text_def TEXT_ARTIFACT_SPILL_BYTES_def)
  note run = maybe_spill_run [OF assms(2,3) this, of kind owner_id title s]
  let ?ref = "artifact_ref body kind owner_id now expiry s" and ?p = "next_artifact_path kind owner_id s"
    and ?t = "with_artifact body kind owner_id s"
  have p: "below_root (ar_root s) ?p" "?p \<noteq> []" by (simp_all add: next_artifact_path_def)
  have canon: "canonical_artifacts (?t\<lparr>ar_files := fs\<rparr>)" for fs
    using assms(1) by (simp add: canonical_artifacts_def with_artifact_def)
  have at: "validate_text_artifact_ref decode (Some ?ref) (?t\<lparr>ar_files := dict_set ?p data (ar_files ?t)\<rparr>) =
      (if int (length (utf8 body)) \<noteq> int (length data)
       then (Inl (ValueError ''text artifact byte size mismatch''), ?t\<lparr>ar_files := dict_set ?p data (ar_files ?t)\<rparr>)
       else if sha256_hex (utf8 body) \<noteq> sha256_hex data
       then (Inl (ValueError ''text artifact sha256 mismatch''), ?t\<lparr>ar_files := dict_set ?p data (ar_files ?t)\<rparr>)
       else (Inr (Some ?ref), ?t\<lparr>ar_files := dict_set ?p data (ar_files ?t)\<rparr>))" for data
    by (subst validate_ref_run [OF canon, of _ ?p data _ "utf8_size body" "sha256_hex (utf8 body)"])
      (simp_all add: p with_artifact_def artifact_ref_def jget_def utf8_size_def set_default_def)
  have same: "?t\<lparr>ar_files := dict_set ?p (utf8 body) (ar_files ?t)\<rparr> = ?t"
  proof -
    have "dict_set k v (dict_set k v d) = dict_set k v d" for k and v :: "int list" and d
      by (induction k v d rule: dict_set.induct) auto
    then show ?thesis by (simp add: with_artifact_def)
  qed
  show "\<exists>ref p t. maybe_spill_text body kind owner_id title (Some now) s = (Inr (artifact_stub title ref, Some ref), t) \<and>
       jget ref ''path'' = JStr p \<and> below_root (ar_root s) p \<and> map_of (ar_files t) p = Some (utf8 body) \<and>
       (\<forall>q. q \<noteq> p \<longrightarrow> map_of (ar_files t) q = map_of (ar_files s) q) \<and>
       validate_text_artifact_ref decode (Some ref) t = (Inr (Some ref), t) \<and>
       (\<forall>data. length data \<noteq> length (utf8 body) \<or> sha256_hex data \<noteq> sha256_hex (utf8 body) \<longrightarrow>
         (let u = t\<lparr>ar_files := dict_set p data (ar_files t)\<rparr> in
          \<exists>e. validate_text_artifact_ref decode (Some ref) u = (Inl (ValueError e), u)))"
  proof (intro exI [of _ ?ref] exI [of _ ?p] exI [of _ ?t] conjI allI impI)
    show "jget ?ref ''path'' = JStr ?p" by (simp add: artifact_ref_def jget_def)
    show "map_of (ar_files ?t) ?p = Some (utf8 body)" by (simp add: with_artifact_def)
    show "map_of (ar_files ?t) q = map_of (ar_files s) q" if "q \<noteq> ?p" for q using that by (simp add: with_artifact_def)
    show "validate_text_artifact_ref decode (Some ?ref) ?t = (Inr (Some ?ref), ?t)" using at [of "utf8 body"] by (simp add: same)
    show "let u = ?t\<lparr>ar_files := dict_set ?p data (ar_files ?t)\<rparr> in
        \<exists>e. validate_text_artifact_ref decode (Some ?ref) u = (Inl (ValueError e), u)"
      if "length data \<noteq> length (utf8 body) \<or> sha256_hex data \<noteq> sha256_hex (utf8 body)" for data
      unfolding Let_def at using that by auto
  qed (fact run p(1))+
qed

definition demo_artifacts :: artifact_state where
  "demo_artifacts = \<lparr>ks_mailboxes = (\<lambda>_. None), ks_inboxes = (\<lambda>_. []), ks_leases = (\<lambda>_. None),
     ks_clock = (\<lambda>_. ''2026-01-01T00:00:00Z''), ks_tick = 0, bs_messages = [], bs_attempts = [], bs_replies = [],
     bs_edges = [], bs_known_mailboxes = [], bs_ids = show_nat, bs_next_id = 0, ar_root = ''/p/.ccb/text'',
     ar_files = [], ar_resolve = (\<lambda>_. Some)\<rparr>"

lemma demo_expiry: "expires_at ''2026-02-28T10:00:00Z'' TEXT_ARTIFACT_TTL_S = Inr ''2026-03-01T10:00:00Z''"
  by code_simp

theorem spilled_text_is_sealed_witness:
  "\<exists>ref p t. maybe_spill_text (replicate 5000 CHR ''x'') ''Ask request'' ''user-to-agent1'' ''Large.'' (Some ''2026-02-28T10:00:00Z'')
       demo_artifacts = (Inr (artifact_stub ''Large.'' ref, Some ref), t) \<and>
     map_of (ar_files t) p = Some (utf8 (replicate 5000 CHR ''x'')) \<and>
     validate_text_artifact_ref (\<lambda>_. []) (Some ref) t = (Inr (Some ref), t) \<and>
     (\<exists>e. validate_text_artifact_ref (\<lambda>_. []) (Some ref) (t\<lparr>ar_files := dict_set p [] (ar_files t)\<rparr>) =
       (Inl (ValueError e), t\<lparr>ar_files := dict_set p [] (ar_files t)\<rparr>))"
proof -
  let ?b = "replicate 5000 CHR ''x''"
  have canon: "canonical_artifacts demo_artifacts" by (simp add: canonical_artifacts_def demo_artifacts_def)
  have len: "length (utf8 (replicate n CHR ''x'')) = n" for n by (induction n) (simp_all add: utf8_def Let_def)
  then have big: "utf8_size ?b > 4096" by (simp add: utf8_size_def)
  have ne: "''2026-02-28T10:00:00Z'' \<noteq> []" by simp
  from spilled_text_is_sealed [OF canon ne demo_expiry, of ?b "''Ask request''" "''user-to-agent1''" "''Large.''" "\<lambda>_. []"] big
  obtain ref p t where sealed: "maybe_spill_text ?b ''Ask request'' ''user-to-agent1'' ''Large.'' (Some ''2026-02-28T10:00:00Z'')
        demo_artifacts = (Inr (artifact_stub ''Large.'' ref, Some ref), t)"
      "map_of (ar_files t) p = Some (utf8 ?b)" "validate_text_artifact_ref (\<lambda>_. []) (Some ref) t = (Inr (Some ref), t)"
      "\<forall>data. length data \<noteq> length (utf8 ?b) \<or> sha256_hex data \<noteq> sha256_hex (utf8 ?b) \<longrightarrow>
         (let u = t\<lparr>ar_files := dict_set p data (ar_files t)\<rparr> in
          \<exists>e. validate_text_artifact_ref (\<lambda>_. []) (Some ref) u = (Inl (ValueError e), u))" by blast
  have "length ([] :: int list) \<noteq> length (utf8 ?b)" unfolding len by simp
  with sealed(4) have "\<exists>e. validate_text_artifact_ref (\<lambda>_. []) (Some ref) (t\<lparr>ar_files := dict_set p [] (ar_files t)\<rparr>) =
      (Inl (ValueError e), t\<lparr>ar_files := dict_set p [] (ar_files t)\<rparr>)" by (simp only: Let_def) blast
  with sealed(1-3) show ?thesis by blast
qed

end
