(* ===== verification/Dispatcher_Base.thy ===== *)
theory Dispatcher_Base
  imports Dispatcher_State Agent_Runtimes Text_Artifacts
begin

text \<open>
  The job dispatcher's record access, runtime views and routing (\<open>dispatcher_runtime/records.py\<close>,
  \<open>runtime_state.py\<close>, \<open>routing.py\<close>). The dispatcher's state extends the message bureau's, whose operations it
  calls unchanged, with the job logs, the in-memory state and the registry; an operation of one of
  these runs on the dispatcher through \<open>on_logs\<close>, \<open>on_state\<close> and \<open>on_registry\<close>. \<open>_clock\<close> and \<open>_new_id\<close> are
  the bureau's clock and supply of ids, and \<open>_config.agents\<close> the registry's configuration.
\<close>

section \<open>State\<close>

record dispatcher = artifact_state +
  dp_logs :: job_logs
  dp_state :: dispatcher_state
  dp_registry :: registry
  dp_has_runtime_service :: bool
  dp_callback_timeout_s :: "int option"
  dp_max_callback_depth :: "int option"

type_synonym ('z, 'a) disp = "('z dispatcher_scheme, 'a) py"

definition on_logs :: "'a jobs \<Rightarrow> ('z, 'a) disp" where
  "on_logs m s = (case m (dp_logs s) of (r, l) \<Rightarrow> (r, s\<lparr>dp_logs := l\<rparr>))"

definition on_registry :: "(registry, 'a) py \<Rightarrow> ('z, 'a) disp" where
  "on_registry m s = (case m (dp_registry s) of (r, g) \<Rightarrow> (r, s\<lparr>dp_registry := g\<rparr>))"

definition on_state :: "(dispatcher_state \<Rightarrow> 'a \<times> dispatcher_state) \<Rightarrow> ('z, 'a) disp" where
  "on_state f s = (case f (dp_state s) of (x, st) \<Rightarrow> (Inr x, s\<lparr>dp_state := st\<rparr>))"

definition change_state :: "(dispatcher_state \<Rightarrow> dispatcher_state) \<Rightarrow> ('z, unit) disp" where
  "change_state f = py_modify (\<lambda>s. s\<lparr>dp_state := f (dp_state s)\<rparr>)"

definition config_agents :: "('z, string list) disp" where
  "config_agents = py_gets (\<lambda>s. map fst (rg_agents (dp_registry s)))"

section \<open>Records\<close>

fun find_job_in :: "string list \<Rightarrow> string \<Rightarrow> ('z, job_record option) disp" where
  "find_job_in [] job_id = py_return None"
| "find_job_in (candidate # rest) job_id = py_bind (on_logs (job_get_latest candidate job_id)) (\<lambda>record. case record of
       Some r \<Rightarrow> py_then (change_state (remember_job job_id TK_AGENT candidate)) (py_return (Some r))
     | None \<Rightarrow> find_job_in rest job_id)"

definition get_job :: "string \<Rightarrow> ('z, job_record option) disp" where
  "get_job job_id = py_bind (py_gets (\<lambda>s. target_for_job job_id (dp_state s))) (\<lambda>target. case target of
       Some slot \<Rightarrow> on_logs (job_get_latest (snd slot) job_id)
     | None \<Rightarrow> py_bind config_agents (\<lambda>agents. find_job_in agents job_id))"

definition latest_for_agent :: "string \<Rightarrow> ('z, job_record option) disp" where
  "latest_for_agent agent_name = py_bind (on_logs (job_list_target agent_name)) (\<lambda>records.
     py_return (if records = [] then None else Some (last records)))"

definition append_job :: "job_record \<Rightarrow> ('z, unit) disp" where
  "append_job record = py_then (on_logs (job_append record)) (change_state (record_job record))"

definition append_event :: "job_record \<Rightarrow> string \<Rightarrow> payload \<Rightarrow> string \<Rightarrow> ('z, unit) disp" where
  "append_event record event_type pl timestamp = py_bind (new_id ''evt'') (\<lambda>event_id.
     py_bind (py_lift (JobEvent \<lparr>je_event_id = event_id, je_job_id = jr_job_id record,
        je_agent_name = jr_agent_name record, je_type = event_type, je_payload = pl, je_timestamp = timestamp,
        je_target_kind = jr_target_kind record, je_target_name = jr_target_name record\<rparr>)) (\<lambda>event.
     on_logs (job_event_append event)))"

definition rebuild_dispatcher_state :: "('z, unit) disp" where
  "rebuild_dispatcher_state = py_bind config_agents (\<lambda>agents.
     py_bind (py_gets dp_state) (\<lambda>st. py_bind (on_logs (rebuild agents st)) (\<lambda>st'. change_state (\<lambda>_. st'))))"

section \<open>Runtime views\<close>

definition next_runtime_state :: "agent_state option \<Rightarrow> bool \<Rightarrow> agent_state \<Rightarrow> agent_state" where
  "next_runtime_state wanted active current =
     (let next = (case wanted of Some w \<Rightarrow> w
        | None \<Rightarrow> if active then AS_BUSY else if current = AS_BUSY then AS_IDLE else current)
      in if next = AS_BUSY \<and> current = AS_STOPPED then AS_IDLE else next)"

definition patch_runtime_state :: "agent_runtime \<Rightarrow> (agent_runtime \<Rightarrow> agent_runtime) \<Rightarrow> (registry, agent_runtime) py" where
  "patch_runtime_state runtime updates = py_bind (registry_get (rt_agent_name runtime)) (\<lambda>found.
     let current = (case found of Some r \<Rightarrow> r | None \<Rightarrow> runtime) in
     py_bind (py_lift (AgentRuntime (updates current))) (\<lambda>candidate.
       if candidate = current then py_return current else registry_upsert candidate False))"

definition sync_runtime :: "string \<Rightarrow> agent_state option \<Rightarrow> ('z, unit) disp" where
  "sync_runtime agent_name state = py_bind (on_registry (registry_get agent_name)) (\<lambda>found. case found of
       None \<Rightarrow> py_return ()
     | Some runtime \<Rightarrow>
         py_bind (py_gets (\<lambda>s. active_job_for TK_AGENT agent_name (dp_state s))) (\<lambda>active.
         py_bind (on_state (queue_depth_for TK_AGENT agent_name)) (\<lambda>depth.
         py_bind read_clock (\<lambda>now.
         py_bind (py_gets dp_has_runtime_service) (\<lambda>service.
           let updates = (\<lambda>r. r\<lparr>rt_state := next_runtime_state state (active \<noteq> None) (rt_state runtime),
                 rt_queue_depth := depth, rt_last_seen_at := Some now\<rparr>) in
           if service then py_then (on_registry (patch_runtime_state runtime updates)) (py_return ())
           else py_bind (py_lift (AgentRuntime (updates runtime))) (\<lambda>updated.
             py_then (on_registry (registry_upsert updated False)) (py_return ())))))))"

section \<open>Routing\<close>

definition validate_sender :: "string \<Rightarrow> ('z, unit) disp" where
  "validate_sender sender = (let normalized = py_lower (py_strip sender) in
     if normalized = [] then py_raise (DispatchError ''sender cannot be empty'')
     else if normalized \<in> set NON_AGENT_ACTORS
     then if normalized = ''cmd'' then py_raise (DispatchError (''unknown sender agent: '' @ normalized)) else py_return ()
     else py_bind (py_lift (normalize_agent_name normalized)) (\<lambda>agent_name.
       py_bind config_agents (\<lambda>agents. if agent_name \<notin> set agents
         then py_raise (DispatchError (''unknown sender agent: '' @ agent_name)) else py_return ())))"

definition resolve_targets :: "message_envelope \<Rightarrow> ('z, string list) disp" where
  "resolve_targets request =
     (if me_delivery_scope request = DS_SINGLE
      then py_then (on_registry (spec_for (me_to_agent request))) (py_return [me_to_agent request])
      else py_bind (on_registry list_alive) (\<lambda>runtimes.
        let alive = map rt_agent_name runtimes in
        py_return (sort (if me_from_actor request \<notin> set NON_AGENT_ACTORS
          then filter (\<lambda>name. name \<noteq> me_from_actor request) alive else alive))))"

definition has_outstanding_work :: "string \<Rightarrow> ('z, bool) disp" where
  "has_outstanding_work agent_name = on_state (has_outstanding_for TK_AGENT agent_name)"

fun validate_targets_available :: "string list \<Rightarrow> ('z, unit) disp" where
  "validate_targets_available [] = py_return ()"
| "validate_targets_available (agent_name # rest) = py_bind (on_registry (spec_for agent_name)) (\<lambda>spec.
     py_bind (if spec_queue_policy spec = REJECT_WHEN_BUSY then has_outstanding_work agent_name else py_return False) (\<lambda>busy.
       if busy then py_raise (DispatchRejectedError (''agent '' @ agent_name @ '' rejects new work while busy''))
       else validate_targets_available rest))"

definition resolve_watch_target :: "string \<Rightarrow> ('z, string \<times> string) disp" where
  "resolve_watch_target target = (let normalized = py_lower (py_strip target) in
     if normalized = [] then py_raise (DispatchError ''watch target cannot be empty'')
     else if py_startswith normalized ''job_''
     then py_bind (get_job normalized) (\<lambda>record. case record of
         None \<Rightarrow> py_raise (DispatchError (''unknown job: '' @ normalized))
       | Some r \<Rightarrow> py_return (jr_target_name r, jr_job_id r))
     else py_then (on_registry (spec_for normalized)) (
       py_bind (py_gets (\<lambda>s. active_job_for TK_AGENT normalized (dp_state s))) (\<lambda>active. case active of
         Some job_id \<Rightarrow> py_return (normalized, job_id)
       | None \<Rightarrow> py_bind (latest_for_agent normalized) (\<lambda>latest. case latest of
             None \<Rightarrow> py_raise (DispatchError (''agent '' @ normalized @ '' has no jobs to watch''))
           | Some r \<Rightarrow> py_return (normalized, jr_job_id r)))))"

end
