(* ===== verification/Dispatcher_Callbacks.thy ===== *)
theory Dispatcher_Callbacks
  imports Dispatcher_Base
begin

text \<open>
  Callback requests (\<open>dispatcher_runtime/callbacks.py\<close>): an agent that runs a job may delegate a part of it to
  another agent and be called back with the result. Here are the checks of such a request, the walk up
  the chain of callbacks it would extend and the record of the new edge.
\<close>

section \<open>Constants and texts\<close>

definition CALLBACK_ROUTE_MODE :: string where "CALLBACK_ROUTE_MODE = ''callback''"
definition DEFAULT_CALLBACK_TIMEOUT_S :: int where "DEFAULT_CALLBACK_TIMEOUT_S = 30 * 60"
definition DEFAULT_MAX_CALLBACK_DEPTH :: int where "DEFAULT_MAX_CALLBACK_DEPTH = 5"

definition request_callback_route :: "message_envelope \<Rightarrow> bool" where
  "request_callback_route request \<longleftrightarrow>
     py_lower (py_strip (str_or (jget (me_route_options request) ''mode'') '''')) = CALLBACK_ROUTE_MODE"

definition is_plain_ask :: "message_envelope \<Rightarrow> bool" where
  "is_plain_ask request \<longleftrightarrow> py_lower (py_strip (me_message_type request)) = ''ask'' \<and> \<not> request_callback_route request"

text \<open>\<open>body.split(marker, 1)[0]\<close>\<close>
fun before_marker :: "string \<Rightarrow> string \<Rightarrow> string" where
  "before_marker marker [] = []"
| "before_marker marker (c # cs) = (if py_startswith (c # cs) marker then [] else c # before_marker marker cs)"

definition strip_ccb_guidance :: "string \<Rightarrow> string" where
  "strip_ccb_guidance body = (let marker = ''\<newline>\<newline>CCB reply guidance:'' in
     if \<not> py_contains marker body then body else py_rstrip (before_marker marker body))"

definition artifact_field :: "payload \<Rightarrow> string \<Rightarrow> string" where
  "artifact_field artifact key = py_strip (str_or (jget artifact key) '''')"

definition callback_body_summary :: "message_envelope \<Rightarrow> string" where
  "callback_body_summary request =
     (let body = strip_ccb_guidance (me_body request) in
      case me_body_artifact request of None \<Rightarrow> body
      | Some artifact \<Rightarrow> if artifact = [] then body else
          (let size = artifact_field artifact ''bytes''; digest = artifact_field artifact ''sha256'' in
           py_rstrip (join ''\<newline>''
             ([preview_text body 800, [], ''Full original request artifact:'', ''path: '' @ artifact_field artifact ''path''] @
              (if size = [] then [] else [''bytes: '' @ size]) @ (if digest = [] then [] else [''sha256: '' @ digest])))))"

text \<open>\<open>text.replace(old, new)\<close> for a non-empty \<open>old\<close>\<close>
function py_replace :: "string \<Rightarrow> string \<Rightarrow> string \<Rightarrow> string" where
  "py_replace old new t = (if t = [] then [] else if old \<noteq> [] \<and> py_startswith t old
     then new @ py_replace old new (drop (length old) t) else hd t # py_replace old new (tl t))"
  by pat_completeness auto
termination by (relation "measure (\<lambda>(old, new, t). length t)") auto

declare py_replace.simps [simp del]

text \<open>\<open>isoformat()\<close> of a date time: the local time and, with an offset, \<open>+HH:MM[:SS[.ffffff]]\<close>\<close>
definition isoformat :: "datetime \<Rightarrow> string" where
  "isoformat dt = butlast (isoformat_z (dt_micros dt)) @
     (case dt_offset dt of None \<Rightarrow> []
      | Some z \<Rightarrow> let a = \<bar>z\<bar>; s = a div 1000000 in
          (if z < 0 then ''-'' else ''+'') @ zero_pad 2 (s div 3600) @ '':'' @ zero_pad 2 (s div 60 mod 60) @
          (if a mod 60000000 = 0 then [] else '':'' @ zero_pad 2 (s mod 60)) @
          (if a mod 1000000 = 0 then [] else ''.'' @ zero_pad 6 (a mod 1000000)))"

definition parse_utc_timestamp :: "string \<Rightarrow> datetime result" where
  "parse_utc_timestamp v = (let t = py_strip v in
     fromisoformat (if t \<noteq> [] \<and> last t = CHR ''Z'' then butlast t @ ''+00:00'' else t))"

definition callback_timeout_s :: "('z, int) disp" where
  "callback_timeout_s = py_gets (\<lambda>s. max 0 (case dp_callback_timeout_s s of Some v \<Rightarrow> v | None \<Rightarrow> DEFAULT_CALLBACK_TIMEOUT_S))"

definition callback_timeout_at :: "string \<Rightarrow> ('z, string) disp" where
  "callback_timeout_at accepted_at = py_bind callback_timeout_s (\<lambda>timeout_s.
     py_return (case parse_utc_timestamp accepted_at of Inl _ \<Rightarrow> accepted_at
       | Inr dt \<Rightarrow> let later = dt_micros dt + max 0 timeout_s * 1000000 in
           if in_datetime_range later then py_replace ''+00:00'' ''Z'' (isoformat (dt\<lparr>dt_micros := later\<rparr>))
           else accepted_at))"

definition max_callback_depth :: "('z, int) disp" where
  "max_callback_depth = py_gets (\<lambda>s. case dp_max_callback_depth s of Some v \<Rightarrow> max 1 v | None \<Rightarrow> DEFAULT_MAX_CALLBACK_DEPTH)"

section \<open>The parent of a request\<close>

definition active_parent_job :: "string \<Rightarrow> ('z, job_record option) disp" where
  "active_parent_job actor = (let normalized = py_lower (py_strip actor) in
     if normalized = [] \<or> normalized \<in> set NON_AGENT_ACTORS then py_return None
     else py_bind config_agents (\<lambda>agents. if normalized \<notin> set agents then py_return None
       else py_bind (py_gets (\<lambda>s. active_job_for TK_AGENT normalized (dp_state s))) (\<lambda>parent.
         if opt_truthy parent then get_job (str_or_empty parent) else py_return None)))"

definition message_for_job :: "job_record \<Rightarrow> ('z, message_record option) disp" where
  "message_for_job job = py_bind (attempt_get_latest_by_job_id (jr_job_id job)) (\<lambda>attempt. case attempt of
       None \<Rightarrow> py_return None
     | Some a \<Rightarrow> message_get_latest (att_message_id a))"

section \<open>The chain of callbacks\<close>

text \<open>
  The walk from a message to the message of its parent, over the newest edge for each. A message
  already seen ends it, so that it visits no more messages than there are edges.
\<close>

function chain_from :: "callback_edge list \<Rightarrow> string list \<Rightarrow> string \<Rightarrow> callback_edge list" where
  "chain_from edges seen message_id =
     (if message_id = [] \<or> message_id \<in> set seen then []
      else case find_last_in (\<lambda>e. ce_child_message_id e = message_id) edges of
          None \<Rightarrow> []
        | Some edge \<Rightarrow> edge # chain_from edges (message_id # seen) (ce_parent_message_id edge))"
  by pat_completeness auto
termination
proof (relation "measure (\<lambda>(edges, seen, _). card (ce_child_message_id ` set edges - set seen))")
  fix edges :: "callback_edge list" and seen m edge
  assume m: "\<not> (m = [] \<or> m \<in> set seen)" "find_last_in (\<lambda>e. ce_child_message_id e = m) edges = Some edge"
  then have "m \<in> ce_child_message_id ` set edges - set seen" using find_last_in_Some by fastforce
  then have "card (ce_child_message_id ` set edges - set (m # seen)) < card (ce_child_message_id ` set edges - set seen)"
    by (intro psubset_card_mono) auto
  then show "((edges, m # seen, ce_parent_message_id edge), edges, seen, m)
      \<in> measure (\<lambda>(edges, seen, _). card (ce_child_message_id ` set edges - set seen))" by simp
qed simp

declare chain_from.simps [simp del]

definition callback_chain_for_parent :: "string \<Rightarrow> ('z, callback_edge list) disp" where
  "callback_chain_for_parent parent_message_id = py_gets (\<lambda>s. chain_from (bs_edges s) [] parent_message_id)"

definition callback_child_agent :: "callback_edge \<Rightarrow> string" where
  "callback_child_agent edge = py_lower (py_strip (str_or (jget (ce_diagnostics edge) ''child_agent'') ''''))"

definition validate_callback_chain :: "job_record \<Rightarrow> string \<Rightarrow> ('z, unit) disp" where
  "validate_callback_chain parent child_agent = py_bind (message_for_job parent) (\<lambda>found. case found of
       None \<Rightarrow> py_raise (DispatchError ''ask --callback could not resolve parent message'')
     | Some parent_message \<Rightarrow>
         py_bind (callback_chain_for_parent (msg_message_id parent_message)) (\<lambda>chain.
         py_bind max_callback_depth (\<lambda>max_depth.
         if int (length chain) + 1 > max_depth
         then py_raise (DispatchError (''ask --callback exceeds max callback depth '' @ show_int max_depth))
         else let actors = map (\<lambda>e. py_lower (py_strip (ce_parent_agent e))) chain @
                    map callback_child_agent chain @ [jr_agent_name parent] in
           if py_lower (py_strip child_agent) \<in> set actors
           then py_raise (DispatchError ''ask --callback cycle detected'') else py_return ())))"

section \<open>Checking and recording a request\<close>

definition validate_nested_ask_request :: "message_envelope \<Rightarrow> ('z, unit) disp" where
  "validate_nested_ask_request request =
     (if \<not> is_plain_ask request \<or> me_silence_on_success request then py_return ()
      else py_bind (active_parent_job (me_from_actor request)) (\<lambda>parent. case parent of
          None \<Rightarrow> py_return ()
        | Some _ \<Rightarrow> py_raise (DispatchError (''plain ask from an active CCB task requires --callback when the child result is needed, ''
            @ ''or --silence for independent fire-and-forget work''))))"

definition validate_callback_request :: "message_envelope \<Rightarrow> ('z, unit) disp" where
  "validate_callback_request request =
     (if \<not> request_callback_route request then validate_nested_ask_request request
      else if me_delivery_scope request \<noteq> DS_SINGLE
      then py_raise (DispatchError ''ask --callback supports exactly one target agent'')
      else py_bind (active_parent_job (me_from_actor request)) (\<lambda>found. case found of
          None \<Rightarrow> py_raise (DispatchError ''ask --callback requires an active parent job for the sender'')
        | Some parent \<Rightarrow> py_bind (message_for_job parent) (\<lambda>message.
            if message = None then py_raise (DispatchError ''ask --callback could not resolve parent message'')
            else py_bind (edge_for_parent_job (jr_job_id parent)) (\<lambda>edge.
              if edge \<noteq> None
              then py_raise (DispatchError ''ask --callback allows one outstanding callback per parent job'')
              else validate_callback_chain parent (me_to_agent request)))))"

definition opt_artifact :: "payload option \<Rightarrow> json" where
  "opt_artifact a = (case a of None \<Rightarrow> JNull | Some d \<Rightarrow> if d = [] then JNull else JObj d)"

definition callback_edge_diagnostics :: "job_record \<Rightarrow> job_record \<Rightarrow> payload" where
  "callback_edge_diagnostics parent child =
     [(''route_mode'', JStr CALLBACK_ROUTE_MODE), (''child_agent'', JStr (jr_agent_name child)),
      (''parent_body'', JStr (callback_body_summary (jr_request parent))),
      (''child_body'', JStr (callback_body_summary (jr_request child))),
      (''parent_body_artifact'', opt_artifact (me_body_artifact (jr_request parent))),
      (''child_body_artifact'', opt_artifact (me_body_artifact (jr_request child)))]"

text \<open>The parent and its message exist: \<^const>\<open>validate_callback_request\<close> has just found them\<close>
definition register_callback_edge :: "message_envelope \<Rightarrow> job_record list \<Rightarrow> string \<Rightarrow> string \<Rightarrow> ('z, unit) disp" where
  "register_callback_edge request jobs message_id accepted_at =
     py_then (validate_callback_request request)
     (if \<not> request_callback_route request then py_return ()
      else if length jobs \<noteq> 1 then py_raise (DispatchError ''ask --callback supports exactly one target agent'')
      else py_bind (active_parent_job (me_from_actor request)) (\<lambda>found. case found of
          None \<Rightarrow> py_raise (AttributeError ''job_id'')
        | Some parent \<Rightarrow> py_bind (message_for_job parent) (\<lambda>found_message.
            py_bind (new_id ''cb'') (\<lambda>edge_id. case found_message of
              None \<Rightarrow> py_raise (AttributeError ''message_id'')
            | Some parent_message \<Rightarrow>
                let child = hd jobs in
                py_bind (callback_timeout_at accepted_at) (\<lambda>timeout_at.
                py_bind (py_lift (CallbackEdgeRecord \<lparr>ce_edge_id = edge_id, ce_parent_job_id = jr_job_id parent,
                   ce_parent_message_id = msg_message_id parent_message, ce_parent_agent = jr_agent_name parent,
                   ce_child_job_id = jr_job_id child, ce_child_message_id = message_id,
                   ce_callback_target_agent = jr_agent_name parent,
                   ce_original_caller = me_from_actor (jr_request parent),
                   ce_original_task_id = (if opt_truthy (me_task_id (jr_request parent))
                      then me_task_id (jr_request parent) else Some (msg_message_id parent_message)),
                   ce_state = CB_PENDING, ce_child_reply_id = None, ce_child_status = None,
                   ce_continuation_job_id = None, ce_continuation_message_id = None, ce_timeout_at = Some timeout_at,
                   ce_created_at = accepted_at, ce_updated_at = accepted_at,
                   ce_diagnostics = callback_edge_diagnostics parent child\<rparr>)) (\<lambda>edge.
                py_then (edge_append edge)
                  (append_event child ''callback_edge_created''
                    [(''edge_id'', JStr (ce_edge_id edge)), (''parent_job_id'', JStr (ce_parent_job_id edge)),
                     (''parent_message_id'', JStr (ce_parent_message_id edge)),
                     (''callback_target_agent'', JStr (ce_callback_target_agent edge)),
                     (''original_caller'', JStr (ce_original_caller edge))] accepted_at)))))))"

end
