(* ===== verification/Dispatcher_Submission.thy ===== *)
theory Dispatcher_Submission
  imports Dispatcher_Callbacks Bureau_Control
begin

text \<open>
  Submitting, resubmitting and retrying (\<open>dispatcher_runtime/submission_*.py\<close>, \<open>lifecycle.py\<close>): a request is
  checked, turned into a plan with one draft per target and recorded, which writes a job row and a job
  event and enqueues the job per draft, then the submission, the message with its attempts and mailbox
  events, and the callback edge. The dispatcher always has a message bureau: its constructor builds one
  when none is given.
\<close>

section \<open>Receipts\<close>

record accepted_job_receipt =
  ac_job_id :: string
  ac_agent_name :: string
  ac_status :: job_status
  ac_accepted_at :: string
  ac_target_kind :: target_kind
  ac_target_name :: string
  ac_provider_instance :: "string option"

definition AcceptedJobReceipt :: "accepted_job_receipt \<Rightarrow> accepted_job_receipt result" where
  "AcceptedJobReceipt r =
     rbind (rcheck (ac_job_id r = []) (ValueError ''job_id cannot be empty'')) (\<lambda>_.
     rbind (normalize_agent_name (if ac_target_name r = [] then ac_agent_name r else ac_target_name r)) (\<lambda>n.
     rbind (rcheck (ac_status r \<notin> {JS_ACCEPTED, JS_QUEUED, JS_RUNNING})
       (ValueError ''accepted receipt status must be accepted, queued, or running'')) (\<lambda>_.
     rbind (rcheck (ac_accepted_at r = []) (ValueError ''accepted_at cannot be empty'')) (\<lambda>_.
     Inr (r\<lparr>ac_agent_name := n, ac_target_name := n, ac_provider_instance := None\<rparr>)))))"

definition accepted_to_record :: "accepted_job_receipt \<Rightarrow> payload" where
  "accepted_to_record r =
     [(''job_id'', JStr (ac_job_id r)), (''agent_name'', JStr (ac_agent_name r)),
      (''target_kind'', JStr (target_kind_value (ac_target_kind r))), (''target_name'', JStr (ac_target_name r)),
      (''provider_instance'', jopt (ac_provider_instance r)), (''status'', JStr (job_status_value (ac_status r))),
      (''accepted_at'', JStr (ac_accepted_at r))]"

record submit_receipt =
  sm_accepted_at :: string
  sm_jobs :: "accepted_job_receipt list"
  sm_submission_id :: "string option"

definition SubmitReceipt :: "submit_receipt \<Rightarrow> submit_receipt result" where
  "SubmitReceipt r =
     rbind (rcheck (sm_accepted_at r = []) (ValueError ''accepted_at cannot be empty'')) (\<lambda>_.
     rbind (rcheck (sm_jobs r = []) (ValueError ''jobs cannot be empty'')) (\<lambda>_.
     rbind (rcheck (sm_submission_id r = None \<and> length (sm_jobs r) \<noteq> 1)
       (ValueError ''single submit receipt requires exactly one job'')) (\<lambda>_. Inr r)))"

section \<open>Drafts and plans\<close>

record job_draft =
  dr_agent_name :: string
  dr_provider :: string
  dr_request :: message_envelope
  dr_target_kind :: target_kind
  dr_target_name :: string
  dr_provider_instance :: "string option"
  dr_provider_options :: "payload option"
  dr_workspace_path :: "string option"

record submission_plan =
  pl_project_id :: string
  pl_from_actor :: string
  pl_request :: message_envelope
  pl_task_id :: "string option"
  pl_drafts :: "job_draft list"
  pl_submission_id :: "string option"
  pl_target_scope :: "string option"
  pl_origin_message_id :: "string option"

definition artifact_or_none :: "payload option \<Rightarrow> payload option" where
  "artifact_or_none a = (case a of None \<Rightarrow> None | Some d \<Rightarrow> if d = [] then None else Some d)"

definition message_for_agent :: "message_envelope \<Rightarrow> string \<Rightarrow> message_envelope result" where
  "message_for_agent request agent_name = MessageEnvelope (request\<lparr>me_to_agent := agent_name,
     me_delivery_scope := DS_SINGLE, me_body_artifact := artifact_or_none (me_body_artifact request)\<rparr>)"

section \<open>Recording\<close>

definition pending_status :: "target_kind \<Rightarrow> string \<Rightarrow> ('z, job_status) disp" where
  "pending_status kind name = py_bind (on_state (has_outstanding_for kind name)) (\<lambda>busy.
     py_return (if busy then JS_QUEUED else JS_ACCEPTED))"

definition receipt_for_job :: "job_record \<Rightarrow> job_status \<Rightarrow> string \<Rightarrow> accepted_job_receipt result" where
  "receipt_for_job job status accepted_at = AcceptedJobReceipt \<lparr>ac_job_id = jr_job_id job,
     ac_agent_name = jr_agent_name job, ac_status = status, ac_accepted_at = accepted_at,
     ac_target_kind = jr_target_kind job, ac_target_name = jr_target_name job,
     ac_provider_instance = jr_provider_instance job\<rparr>"

definition enqueue_submitted_job :: "job_record \<Rightarrow> job_status \<Rightarrow> string \<Rightarrow> ('z, accepted_job_receipt) disp" where
  "enqueue_submitted_job job status accepted_at =
     py_then (append_job job) (
     py_then (append_event job (if status = JS_ACCEPTED then ''job_accepted'' else ''job_queued'')
       [(''status'', JStr (job_status_value status))] accepted_at) (
     py_then (change_state (enqueue_for (jr_target_kind job) (jr_target_name job) (jr_job_id job))) (
     py_then (if jr_target_kind job = TK_AGENT then sync_runtime (jr_agent_name job) None else py_return ()) (
     py_lift (receipt_for_job job status accepted_at)))))"

definition build_job_record :: "job_draft \<Rightarrow> string \<Rightarrow> string option \<Rightarrow> string \<Rightarrow> ('z, job_record \<times> job_status) disp" where
  "build_job_record draft job_id submission_id accepted_at =
     py_bind (pending_status (dr_target_kind draft) (dr_target_name draft)) (\<lambda>status.
     py_bind (py_lift (JobRecord \<lparr>jr_job_id = job_id, jr_submission_id = submission_id,
        jr_agent_name = dr_agent_name draft, jr_provider = dr_provider draft, jr_request = dr_request draft,
        jr_status = status, jr_terminal_decision = None, jr_cancel_requested_at = None,
        jr_created_at = accepted_at, jr_updated_at = accepted_at, jr_workspace_path = dr_workspace_path draft,
        jr_target_kind = dr_target_kind draft, jr_target_name = dr_target_name draft,
        jr_provider_instance = dr_provider_instance draft,
        jr_provider_options = (case dr_provider_options draft of Some d \<Rightarrow> d | None \<Rightarrow> [])\<rparr>)) (\<lambda>job.
     py_return (job, status)))"

fun submit_drafts :: "job_draft list \<Rightarrow> string option \<Rightarrow> string \<Rightarrow> ('z, (accepted_job_receipt \<times> job_record) list) disp" where
  "submit_drafts [] submission_id accepted_at = py_return []"
| "submit_drafts (draft # rest) submission_id accepted_at =
     py_bind (new_id ''job'') (\<lambda>job_id.
     py_bind (build_job_record draft job_id submission_id accepted_at) (\<lambda>(job, status).
     py_bind (enqueue_submitted_job job status accepted_at) (\<lambda>receipt.
     py_bind (submit_drafts rest submission_id accepted_at) (\<lambda>others. py_return ((receipt, job) # others)))))"

definition submit_plan :: "submission_plan \<Rightarrow> string \<Rightarrow> ('z, submit_receipt \<times> string option) disp" where
  "submit_plan plan accepted_at =
     py_bind (submit_drafts (pl_drafts plan) (pl_submission_id plan) accepted_at) (\<lambda>submitted.
       let jobs = map snd submitted in
       py_then (case pl_submission_id plan of None \<Rightarrow> py_return ()
         | Some submission_id \<Rightarrow>
             py_bind (py_lift (SubmissionRecord \<lparr>sr_submission_id = submission_id, sr_project_id = pl_project_id plan,
                sr_from_actor = pl_from_actor plan,
                sr_target_scope = (if opt_truthy (pl_target_scope plan) then str_or_empty (pl_target_scope plan) else ''all''),
                sr_task_id = pl_task_id plan, sr_job_ids = map jr_job_id jobs, sr_created_at = accepted_at,
                sr_updated_at = accepted_at\<rparr>)) (\<lambda>record. on_logs (submission_append record))) (
       py_bind (record_submission (pl_request plan) jobs (pl_submission_id plan) accepted_at (pl_origin_message_id plan)) (\<lambda>message_id.
       py_then (case message_id of None \<Rightarrow> py_return ()
         | Some m \<Rightarrow> register_callback_edge (pl_request plan) jobs m accepted_at) (
       py_bind (py_lift (SubmitReceipt \<lparr>sm_accepted_at = accepted_at, sm_jobs = map fst submitted,
          sm_submission_id = pl_submission_id plan\<rparr>)) (\<lambda>receipt. py_return (receipt, message_id))))))"

definition append_submission_job :: "string option \<Rightarrow> string \<Rightarrow> string \<Rightarrow> ('z, unit) disp" where
  "append_submission_job submission_id job_id updated_at =
     (if \<not> opt_truthy submission_id then py_return ()
      else py_bind (on_logs (submission_get_latest (str_or_empty submission_id))) (\<lambda>found. case found of
          None \<Rightarrow> py_return ()
        | Some current \<Rightarrow>
            py_bind (py_lift (SubmissionRecord (current\<lparr>sr_job_ids := (if job_id \<in> set (sr_job_ids current)
                then sr_job_ids current else sr_job_ids current @ [job_id]), sr_updated_at := updated_at\<rparr>))) (\<lambda>record.
            on_logs (submission_append record))))"

section \<open>Planning\<close>

text \<open>\<open>try ... except Exception\<close>: what the body did before it raised stays done\<close>
definition py_try :: "('s, 'a) py \<Rightarrow> (py_error \<Rightarrow> ('s, 'a) py) \<Rightarrow> ('s, 'a) py" where
  "py_try m handler s = (case m s of (Inl e, t) \<Rightarrow> handler e t | r \<Rightarrow> r)"

text \<open>The reference that the validation returns, with its preview, is dropped\<close>
definition validate_request_body_artifact :: "message_envelope \<Rightarrow> ('z, unit) disp" where
  "validate_request_body_artifact request =
     (if artifact_or_none (me_body_artifact request) \<noteq> None
      then if should_spill_text (me_body request) TEXT_ARTIFACT_SPILL_BYTES
           then py_raise (DispatchError ''ask body stub exceeds 4 KiB even though a body artifact is present'')
           else py_then (py_try (validate_text_artifact_ref (\<lambda>_. []) (me_body_artifact request))
             (\<lambda>exc. py_raise (DispatchError (''invalid ask body artifact: '' @ fst (error_text exc))))) (py_return ())
      else if should_spill_text (me_body request) TEXT_ARTIFACT_SPILL_BYTES
      then py_raise (DispatchError ''ask body exceeds 4 KiB and must be submitted with a CCB body artifact'')
      else py_return ())"

fun drafts_for_agents :: "message_envelope \<Rightarrow> string list \<Rightarrow> ('z, job_draft list) disp" where
  "drafts_for_agents request [] = py_return []"
| "drafts_for_agents request (agent_name # rest) = py_bind (on_registry (spec_for agent_name)) (\<lambda>spec.
     py_bind (py_lift (message_for_agent request agent_name)) (\<lambda>message.
     py_bind (drafts_for_agents request rest) (\<lambda>drafts.
     py_return (\<lparr>dr_agent_name = agent_name, dr_provider = spec_provider spec, dr_request = message,
       dr_target_kind = TK_AGENT, dr_target_name = agent_name, dr_provider_instance = None,
       dr_provider_options = None, dr_workspace_path = None\<rparr> # drafts))))"

definition plan_for :: "message_envelope \<Rightarrow> string list \<Rightarrow> string option \<Rightarrow> ('z, submission_plan) disp" where
  "plan_for request targets origin_message_id =
     py_bind (if me_delivery_scope request = DS_BROADCAST then py_bind (new_id ''sub'') (\<lambda>i. py_return (Some i))
              else py_return None) (\<lambda>submission_id.
     py_bind (drafts_for_agents request targets) (\<lambda>drafts.
     py_return \<lparr>pl_project_id = me_project_id request, pl_from_actor = me_from_actor request, pl_request = request,
       pl_task_id = me_task_id request, pl_drafts = drafts, pl_submission_id = submission_id,
       pl_target_scope = (if submission_id \<noteq> None then Some ''all'' else None),
       pl_origin_message_id = origin_message_id\<rparr>))"

definition plan_agent_submission :: "message_envelope \<Rightarrow> ('z, submission_plan) disp" where
  "plan_agent_submission request =
     py_then (validate_sender (me_from_actor request)) (
     py_then (validate_request_body_artifact request) (
     py_then (validate_callback_request request) (
     py_bind (resolve_targets request) (\<lambda>targets.
       if targets = [] then py_raise (DispatchError ''no eligible target agents are alive for this request'')
       else py_then (validate_targets_available targets) (plan_for request targets None)))))"

definition submit_jobs :: "message_envelope \<Rightarrow> ('z, submit_receipt) disp" where
  "submit_jobs request = py_bind read_clock (\<lambda>accepted_at.
     py_bind (plan_agent_submission request) (\<lambda>plan.
     py_bind (submit_plan plan accepted_at) (\<lambda>(receipt, _). py_return receipt)))"

section \<open>Resubmitting a message\<close>

text \<open>\<open>_attempt_sort_key(record) > _attempt_sort_key(current)\<close>\<close>
definition attempt_newer :: "attempt_record \<Rightarrow> attempt_record \<Rightarrow> bool" where
  "attempt_newer r c \<longleftrightarrow> att_retry_index c < att_retry_index r \<or> (att_retry_index c = att_retry_index r \<and>
     (att_updated_at c < att_updated_at r \<or> (att_updated_at c = att_updated_at r \<and> att_attempt_id c < att_attempt_id r)))"

definition keep_newest_attempt :: "attempt_record \<Rightarrow> attempt_record dict \<Rightarrow> attempt_record dict" where
  "keep_newest_attempt r d = (case map_of d (att_agent_name r) of None \<Rightarrow> dict_set (att_agent_name r) r d
     | Some c \<Rightarrow> if attempt_newer r c then dict_set (att_agent_name r) r d else d)"

definition latest_attempts_by_agent :: "string \<Rightarrow> ('z, attempt_record dict) disp" where
  "latest_attempts_by_agent message_id = py_bind (attempt_list_message message_id) (\<lambda>records.
     py_return (fold keep_newest_attempt (latest_by att_attempt_id records) []))"

definition require_original_message :: "string \<Rightarrow> ('z, message_record) disp" where
  "require_original_message message_id = py_bind (message_get_latest message_id) (\<lambda>found. case found of
       None \<Rightarrow> py_raise (DispatchError (''message not found: '' @ message_id)) | Some m \<Rightarrow> py_return m)"

definition require_attempt_lineage :: "string \<Rightarrow> string list \<Rightarrow> ('z, attempt_record dict) disp" where
  "require_attempt_lineage message_id target_agents = py_bind (latest_attempts_by_agent message_id) (\<lambda>latest.
     if latest = [] then py_raise (DispatchError (''message has no attempts to resubmit: '' @ message_id))
     else let missing = filter (\<lambda>a. a \<notin> fst ` set latest) target_agents in
       if missing \<noteq> [] then py_raise (DispatchError (''message is missing attempt lineage for agents: '' @ join '', '' missing))
       else py_return latest)"

definition ensure_no_active_attempts :: "attempt_record dict \<Rightarrow> ('z, unit) disp" where
  "ensure_no_active_attempts latest =
     (let active = sort (map fst (filter (\<lambda>(_, a). att_attempt_state a \<notin> set TERMINAL_ATTEMPT_STATES) latest)) in
      if active \<noteq> [] then py_raise (DispatchError (''message still has active attempts: '' @ join '', '' active))
      else py_return ())"

fun jobs_for_resubmission :: "string list \<Rightarrow> attempt_record dict \<Rightarrow> ('z, job_record list) disp" where
  "jobs_for_resubmission [] latest = py_return []"
| "jobs_for_resubmission (agent_name # rest) latest = py_then (on_registry (spec_for agent_name)) (
     case map_of latest agent_name of None \<Rightarrow> py_raise (KeyError agent_name)
     | Some attempt \<Rightarrow> py_bind (on_logs (job_get_latest agent_name (att_job_id attempt))) (\<lambda>found. case found of
           None \<Rightarrow> py_raise (DispatchError (''job not found for attempt: '' @ att_attempt_id attempt))
         | Some job \<Rightarrow> py_bind (jobs_for_resubmission rest latest) (\<lambda>jobs. py_return (job # jobs))))"

definition resubmission_request :: "message_record \<Rightarrow> job_record list \<Rightarrow> message_envelope result" where
  "resubmission_request original jobs = (case (jobs, msg_target_agents original) of
       (job # _, target # others) \<Rightarrow>
         let source = jr_request job; scope = (if others \<noteq> [] then DS_BROADCAST else DS_SINGLE) in
         MessageEnvelope (source\<lparr>me_to_agent := (if scope = DS_BROADCAST then ''all'' else target),
           me_from_actor := msg_from_actor original, me_delivery_scope := scope,
           me_body_artifact := artifact_or_none (me_body_artifact source)\<rparr>)
     | _ \<Rightarrow> Inl (IndexError ''list index out of range''))"

definition plan_message_resubmission :: "string \<Rightarrow> ('z, submission_plan) disp" where
  "plan_message_resubmission message_id =
     py_bind (require_original_message message_id) (\<lambda>original.
     py_bind (require_attempt_lineage message_id (msg_target_agents original)) (\<lambda>latest.
     py_then (ensure_no_active_attempts latest) (
     py_bind (jobs_for_resubmission (msg_target_agents original) latest) (\<lambda>jobs.
     py_bind (py_lift (resubmission_request original jobs)) (\<lambda>request.
     py_then (validate_sender (me_from_actor request)) (
     py_then (validate_request_body_artifact request) (
     py_then (validate_targets_available (msg_target_agents original))
       (plan_for request (msg_target_agents original) (Some message_id)))))))))"

definition resubmit_message :: "string \<Rightarrow> ('z, payload) disp" where
  "resubmit_message message_id = py_bind read_clock (\<lambda>accepted_at.
     py_bind (plan_message_resubmission message_id) (\<lambda>plan.
     py_bind (submit_plan plan accepted_at) (\<lambda>(receipt, new_message_id).
     py_return [(''accepted_at'', JStr accepted_at), (''original_message_id'', JStr message_id),
       (''message_id'', jopt new_message_id), (''submission_id'', jopt (sm_submission_id receipt)),
       (''jobs'', JList (map (JObj \<circ> accepted_to_record) (sm_jobs receipt)))])))"

section \<open>Retrying an attempt\<close>

definition should_retry_with_continue :: "job_record \<Rightarrow> bool" where
  "should_retry_with_continue job \<longleftrightarrow>
     py_lower (py_strip (me_message_type (jr_request job))) = ''ask'' \<and>
     (py_lower (py_strip (str_or (jget (jr_provider_options job) ''retry_delivery_mode'') '''')) = ''continue'' \<or>
      (let terminal = (case jr_terminal_decision job of Some d \<Rightarrow> d | None \<Rightarrow> []) in
       py_truthy (jget terminal ''anchor_seen'') \<or> py_truthy (jget terminal ''reply_started'')))"

definition retry_request_for_job :: "job_record \<Rightarrow> message_envelope result" where
  "retry_request_for_job job = (if \<not> should_retry_with_continue job then Inr (jr_request job)
     else MessageEnvelope ((jr_request job)\<lparr>me_body := ''continue'',
       me_body_artifact := artifact_or_none (me_body_artifact (jr_request job))\<rparr>))"

definition retry_provider_options_for_job :: "job_record \<Rightarrow> payload" where
  "retry_provider_options_for_job job =
     dict_set ''retry_source_job_id'' (JStr (jr_job_id job))
       (if should_retry_with_continue job then dict_set ''retry_delivery_mode'' (JStr ''continue'') (jr_provider_options job)
        else dict_pop ''retry_delivery_mode'' (jr_provider_options job))"

definition resolve_retry_attempt :: "string \<Rightarrow> ('z, attempt_record) disp" where
  "resolve_retry_attempt target = py_bind (attempt_get_latest target) (\<lambda>found. case found of
       Some a \<Rightarrow> py_return a
     | None \<Rightarrow> py_bind (attempt_get_latest_by_job_id target) (\<lambda>by_job. case by_job of
           Some a \<Rightarrow> py_return a
         | None \<Rightarrow> py_raise (DispatchError (''retry target not found: '' @ target))))"

text \<open>The checks before a retry: the attempt, its message and its job\<close>
definition check_retry :: "string \<Rightarrow> ('z, attempt_record \<times> message_record \<times> job_record) disp" where
  "check_retry target = py_bind (resolve_retry_attempt target) (\<lambda>original.
     if att_attempt_state original \<notin> set TERMINAL_ATTEMPT_STATES
     then py_raise (DispatchError (''attempt is still active: '' @ att_attempt_id original))
     else if att_attempt_state original = ATT_COMPLETED
     then py_raise (DispatchError (''retry is not allowed for completed attempts: '' @ att_attempt_id original))
     else py_bind (latest_attempts_by_agent (att_message_id original)) (\<lambda>latest.
       case map_of latest (att_agent_name original) of
         None \<Rightarrow> py_raise (DispatchError (''message is missing attempt lineage for agent: '' @ att_agent_name original))
       | Some newest \<Rightarrow> if att_attempt_id newest \<noteq> att_attempt_id original
           then py_raise (DispatchError (''retry requires latest attempt for agent: '' @ att_agent_name original))
           else py_bind (message_get_latest (att_message_id original)) (\<lambda>found. case found of
               None \<Rightarrow> py_raise (DispatchError (''message not found for attempt: '' @ att_attempt_id original))
             | Some message \<Rightarrow>
                 py_then (on_registry (spec_for (att_agent_name original))) (
                 py_then (validate_targets_available [att_agent_name original]) (
                 py_bind (on_logs (job_get_latest (att_agent_name original) (att_job_id original))) (\<lambda>job. case job of
                     None \<Rightarrow> py_raise (DispatchError (''job not found for attempt: '' @ att_attempt_id original))
                   | Some current \<Rightarrow> py_return (original, message, current)))))))"

definition retry_draft :: "job_record \<Rightarrow> message_envelope \<Rightarrow> job_draft" where
  "retry_draft current request = \<lparr>dr_agent_name = jr_agent_name current, dr_provider = jr_provider current,
     dr_request = request, dr_target_kind = jr_target_kind current, dr_target_name = jr_target_name current,
     dr_provider_instance = jr_provider_instance current,
     dr_provider_options = Some (retry_provider_options_for_job current), dr_workspace_path = jr_workspace_path current\<rparr>"

definition retry_attempt :: "string \<Rightarrow> ('z, payload) disp" where
  "retry_attempt target = py_bind read_clock (\<lambda>accepted_at.
     py_bind (check_retry target) (\<lambda>(original, message, current).
     py_bind (py_lift (retry_request_for_job current)) (\<lambda>request.
     py_bind (new_id ''job'') (\<lambda>job_id.
     py_bind (build_job_record (retry_draft current request) job_id (msg_submission_id message) accepted_at) (\<lambda>(job, status).
     py_bind (enqueue_submitted_job job status accepted_at) (\<lambda>receipt.
     py_bind (record_retry_attempt (att_message_id original) job accepted_at) (\<lambda>attempt_id.
     py_then (append_submission_job (msg_submission_id message) (jr_job_id job) accepted_at) (
     py_return [(''accepted_at'', JStr accepted_at), (''target'', JStr target),
       (''message_id'', JStr (att_message_id original)), (''original_attempt_id'', JStr (att_attempt_id original)),
       (''attempt_id'', JStr attempt_id), (''job_id'', JStr (ac_job_id receipt)),
       (''agent_name'', JStr (ac_agent_name receipt)), (''status'', JStr (job_status_value (ac_status receipt)))]))))))))"

end
