(* ===== verification/Frame_Rules.thy ===== *)
theory Frame_Rules
  imports Dispatcher_Submission
begin

text \<open>
  Two logics for stateful computations. A computation is framed when it leaves its final state,
  returned or raised, in a given relation to the initial one; a triple says, beside that, what holds when
  it returns. Both have one rule for each way in which the program composes computations, so that
  the proof for an operation applies the rules along its text.
\<close>

named_theorems frame \<open>operations that leave the state in the relation of their frame\<close>

section \<open>Frames\<close>

definition framed :: "('s \<Rightarrow> bool) \<Rightarrow> ('s \<Rightarrow> 's \<Rightarrow> bool) \<Rightarrow> ('s, 'a) py \<Rightarrow> bool" where
  "framed pre R m \<longleftrightarrow> (\<forall>s. pre s \<longrightarrow> R s (snd (m s)))"

lemma framedD: "framed pre R m \<Longrightarrow> pre s \<Longrightarrow> m s = (x, t) \<Longrightarrow> R s t"
  unfolding framed_def by (metis snd_conv)

lemma framed_weaken: "framed pre R m \<Longrightarrow> (\<And>s. pre' s \<Longrightarrow> pre s) \<Longrightarrow> framed pre' R m"
  by (simp add: framed_def)

locale framing =
  fixes pre :: "'s \<Rightarrow> bool" and R :: "'s \<Rightarrow> 's \<Rightarrow> bool"
  assumes refl: "R s s"
    and trans: "R s t \<Longrightarrow> R t u \<Longrightarrow> R s u"
    and stable: "pre s \<Longrightarrow> R s t \<Longrightarrow> pre t"
begin

lemma framed_pure: "framed pre R (py_return x)" "framed pre R (py_raise e)" "framed pre R (py_lift r)" "framed pre R (py_gets f)"
  using refl by (simp_all add: framed_def)

lemma framed_modify: "(\<And>s. pre s \<Longrightarrow> R s (f s)) \<Longrightarrow> framed pre R (py_modify f)"
  by (simp add: framed_def)

lemma framed_bind: "framed pre R m \<Longrightarrow> (\<And>x. framed pre R (f x)) \<Longrightarrow> framed pre R (py_bind m f)"
  unfolding framed_def py_bind_def using trans stable by (auto split: prod.split sum.split; metis snd_conv)

lemma framed_then: "framed pre R m \<Longrightarrow> framed pre R n \<Longrightarrow> framed pre R (py_then m n)"
  unfolding py_then_def by (rule framed_bind)

lemma framed_try: "framed pre R m \<Longrightarrow> (\<And>e. framed pre R (h e)) \<Longrightarrow> framed pre R (py_try m h)"
  unfolding framed_def py_try_def using trans stable by (auto split: prod.split sum.split; metis snd_conv)

lemma framed_if: "framed pre R m \<Longrightarrow> framed pre R n \<Longrightarrow> framed pre R (if b then m else n)"
  by simp

lemma framed_let: "framed pre R (f x) \<Longrightarrow> framed pre R (Let x f)"
  by simp

lemma framed_option: "framed pre R m \<Longrightarrow> (\<And>y. framed pre R (f y)) \<Longrightarrow> framed pre R (case x of None \<Rightarrow> m | Some y \<Rightarrow> f y)"
  by (simp split: option.split)

lemma framed_prod: "(\<And>a b. framed pre R (f a b)) \<Longrightarrow> framed pre R (case x of (a, b) \<Rightarrow> f a b)"
  by (simp split: prod.split)

lemma framed_sum: "(\<And>e. framed pre R (f e)) \<Longrightarrow> (\<And>y. framed pre R (g y)) \<Longrightarrow> framed pre R (case x of Inl e \<Rightarrow> f e | Inr y \<Rightarrow> g y)"
  by (simp split: sum.split)

lemma framed_list: "framed pre R m \<Longrightarrow> (\<And>y ys. framed pre R (f y ys)) \<Longrightarrow> framed pre R (case x of [] \<Rightarrow> m | y # ys \<Rightarrow> f y ys)"
  by (simp split: list.split)

lemma framed_bool: "framed pre R m \<Longrightarrow> framed pre R n \<Longrightarrow> framed pre R (case b of True \<Rightarrow> m | False \<Rightarrow> n)"
  by (simp split: bool.split)

lemma framed_for: "(\<And>x. framed pre R (f x)) \<Longrightarrow> framed pre R (py_for xs f)"
  by (induction xs) (simp_all add: framed_pure framed_then)

lemmas framed_rules = framed_pure framed_bind framed_then framed_try framed_if framed_let framed_option framed_prod framed_sum
  framed_list framed_bool framed_for

end

section \<open>Triples\<close>

text \<open>
  \<open>I\<close> holds between the operations of a component and \<open>R\<close> says how the state may evolve. A computation
  that starts with \<open>I\<close> and \<open>P\<close> and returns leads to \<open>I\<close> and \<open>Q\<close> in a state that has evolved; with \<open>b\<close> it
  keeps \<open>I\<close> also when it raises.
\<close>

definition triple :: "('s \<Rightarrow> bool) \<Rightarrow> ('s \<Rightarrow> 's \<Rightarrow> bool) \<Rightarrow> bool \<Rightarrow> ('s \<Rightarrow> bool) \<Rightarrow> ('s, 'a) py \<Rightarrow> ('a \<Rightarrow> 's \<Rightarrow> bool) \<Rightarrow> bool" where
  "triple I R b P m Q \<longleftrightarrow>
     (\<forall>s y t. I s \<longrightarrow> P s \<longrightarrow> m s = (Inr y, t) \<longrightarrow> I t \<and> R s t \<and> Q y t) \<and>
     (b \<longrightarrow> (\<forall>s e t. I s \<longrightarrow> P s \<longrightarrow> m s = (Inl e, t) \<longrightarrow> I t \<and> R s t))"

lemma tripleI:
  assumes "\<And>s y t. I s \<Longrightarrow> P s \<Longrightarrow> m s = (Inr y, t) \<Longrightarrow> I t \<and> R s t \<and> Q y t"
    and "\<And>s e t. b \<Longrightarrow> I s \<Longrightarrow> P s \<Longrightarrow> m s = (Inl e, t) \<Longrightarrow> I t \<and> R s t"
  shows "triple I R b P m Q"
  using assms unfolding triple_def by blast

lemma tripleD:
  "triple I R b P m Q \<Longrightarrow> I s \<Longrightarrow> P s \<Longrightarrow> m s = (Inr y, t) \<Longrightarrow> I t \<and> R s t \<and> Q y t"
  "triple I R b P m Q \<Longrightarrow> b \<Longrightarrow> I s \<Longrightarrow> P s \<Longrightarrow> m s = (Inl e, t) \<Longrightarrow> I t \<and> R s t"
  unfolding triple_def by blast+

locale evolution =
  fixes I :: "'s \<Rightarrow> bool" and R :: "'s \<Rightarrow> 's \<Rightarrow> bool"
  assumes refl: "R s s"
    and trans: "R s t \<Longrightarrow> R t u \<Longrightarrow> R s u"
begin

lemma triple_conseq:
  assumes "triple I R b P m Q" "\<And>s. I s \<Longrightarrow> P' s \<Longrightarrow> P s" "\<And>y t. I t \<Longrightarrow> Q y t \<Longrightarrow> Q' y t" "b' \<Longrightarrow> b"
  shows "triple I R b' P' m Q'"
  using assms unfolding triple_def by blast

lemma triple_bind:
  assumes "triple I R b P m Q" "\<And>x. triple I R b (Q x) (f x) Q'"
  shows "triple I R b P (py_bind m f) Q'"
proof (rule tripleI)
  fix s y t assume s: "I s" "P s" and "py_bind m f s = (Inr y, t)"
  then obtain x u where m: "m s = (Inr x, u)" "f x u = (Inr y, t)" by (auto simp: py_bind_Inr_iff)
  from tripleD(1) [OF assms(1) s m(1)] tripleD(1) [OF assms(2) _ _ m(2)] trans
  show "I t \<and> R s t \<and> Q' y t" by blast
next
  fix s e t assume s: "I s" "P s" "b" and run: "py_bind m f s = (Inl e, t)"
  show "I t \<and> R s t"
  proof (cases "fst (m s)")
    case (Inl e')
    with run have "m s = (Inl e, t)" by (cases "m s") (simp add: py_bind_def)
    then show ?thesis by (rule tripleD(2) [OF assms(1) s(3,1,2)])
  next
    case (Inr x)
    then obtain u where m: "m s = (Inr x, u)" by (cases "m s") simp
    with run have "f x u = (Inl e, t)" by simp
    with tripleD(1) [OF assms(1) s(1,2) m] tripleD(2) [OF assms(2) s(3)] trans show ?thesis by blast
  qed
qed

lemma triple_then: "triple I R b P m (\<lambda>_. P') \<Longrightarrow> triple I R b P' n Q \<Longrightarrow> triple I R b P (py_then m n) Q"
  unfolding py_then_def by (rule triple_bind)

lemma triple_return: "(\<And>s. I s \<Longrightarrow> P s \<Longrightarrow> Q x s) \<Longrightarrow> triple I R b P (py_return x) Q"
  by (rule tripleI) (auto simp: refl)

lemma triple_raise: "triple I R b P (py_raise e) Q"
  by (rule tripleI) (auto simp: refl)

lemma triple_lift: "(\<And>s x. r = Inr x \<Longrightarrow> I s \<Longrightarrow> P s \<Longrightarrow> Q x s) \<Longrightarrow> triple I R b P (py_lift r) Q"
  by (rule tripleI) (auto simp: refl)

lemma triple_gets: "(\<And>s. I s \<Longrightarrow> P s \<Longrightarrow> Q (f s) s) \<Longrightarrow> triple I R b P (py_gets f) Q"
  by (rule tripleI) (auto simp: refl)

lemma triple_if: "(c \<Longrightarrow> triple I R b P m Q) \<Longrightarrow> (\<not> c \<Longrightarrow> triple I R b P n Q) \<Longrightarrow> triple I R b P (if c then m else n) Q"
  by simp

lemma triple_option:
  "(x = None \<Longrightarrow> triple I R b P m Q) \<Longrightarrow> (\<And>y. x = Some y \<Longrightarrow> triple I R b P (f y) Q) \<Longrightarrow>
   triple I R b P (case x of None \<Rightarrow> m | Some y \<Rightarrow> f y) Q"
  by (cases x) simp_all

lemma triple_prod: "(\<And>c d. x = (c, d) \<Longrightarrow> triple I R b P (f c d) Q) \<Longrightarrow> triple I R b P (case x of (c, d) \<Rightarrow> f c d) Q"
  by (cases x) simp

text \<open>The handler of an exception needs the invariant, which the body has to keep when it raises\<close>
lemma triple_try:
  assumes "triple I R True P m Q" "\<And>e. triple I R b (\<lambda>_. True) (h e) Q"
  shows "triple I R b P (py_try m h) Q"
proof (rule tripleI)
  fix s y t assume s: "I s" "P s" and run: "py_try m h s = (Inr y, t)"
  show "I t \<and> R s t \<and> Q y t"
  proof (cases "fst (m s)")
    case (Inl e)
    then obtain u where m: "m s = (Inl e, u)" by (cases "m s") simp
    with run have "h e u = (Inr y, t)" by (simp add: py_try_def)
    with tripleD(2) [OF assms(1) TrueI s m] tripleD(1) [OF assms(2)] trans show ?thesis by blast
  next
    case (Inr x)
    with run have "m s = (Inr y, t)" by (cases "m s") (simp add: py_try_def)
    then show ?thesis by (rule tripleD(1) [OF assms(1) s])
  qed
next
  fix s e t assume s: "I s" "P s" "b" and run: "py_try m h s = (Inl e, t)"
  then obtain e' u where m: "m s = (Inl e', u)" "h e' u = (Inl e, t)"
    by (cases "m s"; cases "fst (m s)") (auto simp: py_try_def)
  with tripleD(2) [OF assms(1) TrueI s(1,2) m(1)] tripleD(2) [OF assms(2) s(3)] trans show "I t \<and> R s t" by blast
qed

text \<open>What the evolution of the state does not change still holds afterwards\<close>
lemma triple_keep:
  assumes "triple I R b P m Q" "\<And>s t. S s \<Longrightarrow> R s t \<Longrightarrow> S t"
  shows "triple I R b (\<lambda>s. P s \<and> S s) m (\<lambda>x s. Q x s \<and> S s)"
  using assms unfolding triple_def by blast

end

end
