(* ===== verification/Dispatcher_Recovery.thy ===== *)
theory Dispatcher_Recovery
  imports Dispatcher_Submission
begin

text \<open>
  Restart recovery: the dispatcher's queues, active jobs and job index are never stored, they are rebuilt
  from the job log when the daemon starts. The life of a job, as a relation on the log and the in-memory
  state: each rule makes the changes of one handler in the order of its code. Every reachable state is
  the one that a rebuild computes from the log.
\<close>

section \<open>Jobs of a log by status\<close>

definition ids_with :: "(job_status \<Rightarrow> bool) \<Rightarrow> job_record list \<Rightarrow> string list" where
  "ids_with P rows = map jr_job_id (filter (\<lambda>r. P (jr_status r)) (latest_by jr_job_id rows))"

lemma pending_ids_with: "pending_ids rows = ids_with (\<lambda>st. st \<in> set PENDING_STATES) rows"
  by (simp add: pending_ids_def ids_with_def)

lemma running_id_with:
  "running_id rows = (let ids = ids_with (\<lambda>st. st = JS_RUNNING) rows in if ids = [] then None else Some (last ids))"
proof -
  have "find_last_in P xs = (if filter P xs = [] then None else Some (last (filter P xs)))"
    for P :: "job_record \<Rightarrow> bool" and xs
    by (induction xs rule: rev_induct) auto
  then show ?thesis by (simp add: running_id_def ids_with_def Let_def last_map)
qed

lemma ids_with_fresh:
  assumes "jr_job_id r \<notin> jr_job_id ` set rows"
  shows "ids_with P (rows @ [r]) = ids_with P rows @ (if P (jr_status r) then [jr_job_id r] else [])"
  using assms by (simp add: ids_with_def latest_by_snoc key_latest_by)

lemma distinct_ids_with [simp]: "distinct (ids_with P rows)"
  unfolding ids_with_def using distinct_latest_by [of jr_job_id rows]
  by (induction "latest_by jr_job_id rows") (auto simp: distinct_map intro: inj_on_subset)

lemma latest_unique:
  "find_last_in (\<lambda>r. key r = k) rows = Some q \<Longrightarrow> x \<in> set (latest_by key rows) \<Longrightarrow> key x = k \<Longrightarrow> x = q"
  by (metis latest_by_Some_iff option.inject)

lemma filter_key_singleton: "distinct (map key xs) \<Longrightarrow> q \<in> set xs \<Longrightarrow> filter (\<lambda>x. key x = key q) xs = [q]"
  by (induction xs) (auto simp: filter_empty_conv image_iff)

lemma ids_with_subset: "set (ids_with P rows) \<subseteq> jr_job_id ` set rows"
  using set_latest_by [of jr_job_id rows] by (auto simp: ids_with_def)

text \<open>The newest row of a job decides\<close>
lemma ids_with_newest:
  assumes "find_last_in (\<lambda>r. jr_job_id r = j) rows = Some q"
  shows "j \<in> set (ids_with P rows) \<longleftrightarrow> P (jr_status q)"
proof -
  have q: "q \<in> set (latest_by jr_job_id rows)" "jr_job_id q = j"
    using assms by (simp_all add: latest_by_Some_iff)
  with latest_unique [OF assms] show ?thesis by (force simp: ids_with_def)
qed

lemma ids_with_update:
  assumes "find_last_in (\<lambda>q. jr_job_id q = jr_job_id r) rows = Some q"
  shows "P (jr_status q) \<Longrightarrow> P (jr_status r) \<Longrightarrow> ids_with P (rows @ [r]) = ids_with P rows"
    and "\<not> P (jr_status r) \<Longrightarrow> ids_with P (rows @ [r]) = remove1 (jr_job_id r) (ids_with P rows)"
    and "ids_with P rows = [] \<Longrightarrow> P (jr_status r) \<Longrightarrow> ids_with P (rows @ [r]) = [jr_job_id r]"
proof -
  let ?xs = "latest_by jr_job_id rows" and ?new = "\<lambda>x. if jr_job_id x = jr_job_id r then r else x"
  have mem: "q \<in> set ?xs" "jr_job_id q = jr_job_id r" using assms by (simp_all add: latest_by_Some_iff)
  note uniq = latest_unique [OF assms]
  have "jr_job_id r \<in> jr_job_id ` set ?xs" using mem by (metis imageI)
  then have latest: "latest_by jr_job_id (rows @ [r]) = map ?new ?xs" by (simp add: latest_by_snoc)
  show "ids_with P (rows @ [r]) = ids_with P rows" if "P (jr_status q)" "P (jr_status r)"
    unfolding ids_with_def latest using that uniq
    by (subst filter_map_replace) (auto simp: map_key_replace simp del: map_map)
  show "ids_with P (rows @ [r]) = remove1 (jr_job_id r) (ids_with P rows)" if "\<not> P (jr_status r)"
  proof -
    have "map jr_job_id (filter (\<lambda>x. P (jr_status x)) (map ?new ys)) =
        removeAll (jr_job_id r) (map jr_job_id (filter (\<lambda>x. P (jr_status x)) ys))" for ys
      using that by (induction ys) auto
    then have "ids_with P (rows @ [r]) = removeAll (jr_job_id r) (ids_with P rows)" unfolding ids_with_def latest .
    then show ?thesis by (simp add: distinct_remove1_removeAll)
  qed
  show "ids_with P (rows @ [r]) = [jr_job_id r]" if "ids_with P rows = []" "P (jr_status r)"
  proof -
    have "\<forall>x \<in> set ?xs. \<not> P (jr_status x)" using that(1) by (simp add: ids_with_def filter_empty_conv)
    then have "filter (\<lambda>x. P (jr_status x)) (map ?new ys) = map (\<lambda>_. r) (filter (\<lambda>x. jr_job_id x = jr_job_id q) ys)"
      if "set ys \<subseteq> set ?xs" for ys
      using that \<open>P (jr_status r)\<close> mem(2) by (induction ys) auto
    from this [of ?xs] show ?thesis
      unfolding ids_with_def latest filter_key_singleton [OF distinct_latest_by mem(1)] by simp
  qed
qed

section \<open>The log and the in-memory state\<close>

definition append_row :: "job_record \<Rightarrow> job_logs \<Rightarrow> job_logs" where
  "append_row r l = l\<lparr>jl_jobs := (jl_jobs l)(jr_target_name r := jl_jobs l (jr_target_name r) @ [r])\<rparr>"

definition newest :: "job_logs \<Rightarrow> string \<Rightarrow> string \<Rightarrow> job_record option" where
  "newest l a j = find_last_in (\<lambda>r. jr_job_id r = j) (jl_jobs l a)"

lemma append_job_run [bureau_run]:
  "agent_name_ok (jr_target_name r) \<Longrightarrow> append_job r s =
     (Inr (), s\<lparr>dp_logs := append_row r (dp_logs s), dp_state := record_job r (dp_state s)\<rparr>)"
  by (simp add: append_job_def on_logs_def job_append_def change_state_def append_row_def)

lemma rows_append_row: "jl_jobs (append_row r l) a = (if a = jr_target_name r then jl_jobs l a @ [r] else jl_jobs l a)"
  by (simp add: append_row_def)

lemma logged_append: "logged_job (append_row r l) b k \<longleftrightarrow> logged_job l b k \<or> (b = jr_target_name r \<and> k = jr_job_id r)"
  by (auto simp: logged_job_def rows_append_row)

lemma newest_append: "newest (append_row r l) a j =
    (if a = jr_target_name r \<and> j = jr_job_id r then Some r else newest l a j)"
  by (auto simp: newest_def rows_append_row)

lemma newest_logged: "logged_job l a j \<longleftrightarrow> newest l a j \<noteq> None"
  by (auto simp: newest_def logged_job_def find_last_in_None)

lemma newest_SomeD: "newest l a j = Some r \<Longrightarrow> r \<in> set (jl_jobs l a) \<and> jr_job_id r = j"
  unfolding newest_def using find_last_in_Some by fastforce

definition logs_ok :: "string list \<Rightarrow> job_logs \<Rightarrow> bool" where
  "logs_ok as l \<longleftrightarrow> logs_partitioned l \<and> job_ids_unique l \<and> (\<forall>a. a \<notin> set as \<longrightarrow> jl_jobs l a = []) \<and>
     (\<forall>a. length (ids_with (\<lambda>st. st = JS_RUNNING) (jl_jobs l a)) \<le> 1)"

definition index_ok :: "string list \<Rightarrow> job_logs \<Rightarrow> dispatcher_state \<Rightarrow> bool" where
  "index_ok as l st \<longleftrightarrow> (\<forall>a \<in> set as. \<forall>j. target_for_job j st = Some (TK_AGENT, a) \<longleftrightarrow> logged_job l a j)"

lemma job_ids_unique_iff: "job_ids_unique l \<longleftrightarrow> (\<forall>a b j. logged_job l a j \<longrightarrow> logged_job l b j \<longrightarrow> a = b)"
proof
  show "job_ids_unique l \<Longrightarrow> \<forall>a b j. logged_job l a j \<longrightarrow> logged_job l b j \<longrightarrow> a = b"
    using logged_job_unique by blast
  assume unique: "\<forall>a b j. logged_job l a j \<longrightarrow> logged_job l b j \<longrightarrow> a = b"
  show "job_ids_unique l"
    unfolding job_ids_unique_def
  proof (intro allI ballI impI)
    fix a b r q assume "r \<in> set (jl_jobs l a)" "q \<in> set (jl_jobs l b)" "jr_job_id r = jr_job_id q"
    then have "logged_job l a (jr_job_id r)" "logged_job l b (jr_job_id r)" unfolding logged_job_def by (metis imageI)+
    with unique show "a = b" by blast
  qed
qed

lemma append_row_index:
  assumes "job_ids_unique (append_row r l)" "index_ok as l st"
  shows "index_ok as (append_row r l) (record_job r st)"
proof -
  have "logged_job (append_row r l) (jr_target_name r) (jr_job_id r)" by (simp add: logged_append)
  with assms show ?thesis
    unfolding index_ok_def job_ids_unique_iff by (auto simp: record_job_view logged_append)
qed

lemma index_ok_same:
  "(\<And>j. target_for_job j st' = target_for_job j st) \<Longrightarrow> index_ok as l st' = index_ok as l st"
  by (simp add: index_ok_def)

lemma append_row_unique:
  assumes "job_ids_unique l" "\<forall>b. logged_job l b (jr_job_id r) \<longrightarrow> b = jr_target_name r"
  shows "job_ids_unique (append_row r l)"
  using assms by (auto simp: job_ids_unique_iff logged_append)

lemma append_row_partitioned [simp]: "logs_partitioned l \<Longrightarrow> logs_partitioned (append_row r l)"
  by (auto simp: logs_partitioned_def rows_append_row)

text \<open>One more row: the log stays in order as long as the target has at most one running job\<close>
lemma append_row_ok:
  assumes "logs_ok as l" "jr_target_name r \<in> set as" "\<forall>b. logged_job l b (jr_job_id r) \<longrightarrow> b = jr_target_name r"
    and "jr_status r = JS_RUNNING \<longrightarrow> running_id (jl_jobs l (jr_target_name r)) = None \<or>
      running_id (jl_jobs l (jr_target_name r)) = Some (jr_job_id r)"
  shows "logs_ok as (append_row r l)"
proof -
  let ?a = "jr_target_name r" and ?run = "\<lambda>rows. ids_with (\<lambda>st. st = JS_RUNNING) rows"
  have one: "length (?run (jl_jobs l ?a)) \<le> 1" using assms(1) by (simp add: logs_ok_def)
  have "length (?run (jl_jobs l ?a @ [r])) \<le> 1"
  proof (cases "newest l ?a (jr_job_id r)")
    case None
    then have fresh: "jr_job_id r \<notin> jr_job_id ` set (jl_jobs l ?a)" using newest_logged by (simp add: logged_job_def)
    have "?run (jl_jobs l ?a) = []" if "jr_status r = JS_RUNNING"
    proof (rule ccontr)
      assume ne: "?run (jl_jobs l ?a) \<noteq> []"
      then have "last (?run (jl_jobs l ?a)) = jr_job_id r" using assms(4) that by (simp add: running_id_with Let_def)
      with last_in_set [OF ne] ids_with_subset fresh show False by auto
    qed
    then show ?thesis using one by (simp add: ids_with_fresh [OF fresh])
  next
    case (Some q)
    then have q: "find_last_in (\<lambda>q. jr_job_id q = jr_job_id r) (jl_jobs l ?a) = Some q" by (simp add: newest_def)
    note upd = ids_with_update [OF q, of "\<lambda>st. st = JS_RUNNING"]
    show ?thesis
    proof (cases "jr_status r = JS_RUNNING")
      case False
      with upd(2) one show ?thesis by (auto simp: length_remove1)
    next
      case True
      show ?thesis
      proof (cases "jr_status q = JS_RUNNING")
        case True
        with upd(1) \<open>jr_status r = JS_RUNNING\<close> one show ?thesis by simp
      next
        case False
        then have "jr_job_id r \<notin> set (?run (jl_jobs l ?a))" using ids_with_newest [OF q, of "\<lambda>st. st = JS_RUNNING"] by simp
        then have "?run (jl_jobs l ?a) = []" using assms(4) True one
          by (cases "?run (jl_jobs l ?a)") (auto simp: running_id_with Let_def split: if_splits)
        with upd(3) True show ?thesis by simp
      qed
    qed
  qed
  then have "\<forall>a. length (?run (jl_jobs (append_row r l) a)) \<le> 1"
    using assms(1) by (simp add: rows_append_row logs_ok_def)
  moreover have "job_ids_unique (append_row r l)" using append_row_unique assms(1,3) by (simp add: logs_ok_def)
  ultimately show ?thesis using assms(1,2) by (auto simp: logs_ok_def rows_append_row)
qed

section \<open>The life of a job\<close>

text \<open>
  The rules follow \<open>_enqueue_submitted_job\<close>, \<open>_start_agent_mailbox_job\<close> with \<open>start_running_job\<close>,
  \<open>persist_terminal_completion\<close>, \<open>cancel_job\<close>, \<open>_terminate_job_for_shutdown\<close>, the rewriting of a terminal row
  (\<open>persist_reply_decision\<close>, \<open>persist_delegated_terminal_job\<close>) and \<open>rebuild_dispatcher_state\<close>: which rows
  they append and what they do to the in-memory state, in their order. A new job has an id of its own
  and a start takes a queued job of a target with no running one (\<open>_iter_queued_runtimes\<close>).
\<close>

inductive job_step :: "string list \<Rightarrow> job_logs \<times> dispatcher_state \<Rightarrow> job_logs \<times> dispatcher_state \<Rightarrow> bool" for as where
  submitted: "\<lbrakk>jr_target_name r \<in> set as; \<forall>b. \<not> logged_job l b (jr_job_id r); jr_status r \<in> set PENDING_STATES\<rbrakk> \<Longrightarrow>
    job_step as (l, st) (append_row r l, enqueue_for TK_AGENT (jr_target_name r) (jr_job_id r) (record_job r st))"
| started: "\<lbrakk>a \<in> set as; newest l a j = Some r; j \<in> set (queue_at st (TK_AGENT, a)); active_job_for TK_AGENT a st = None;
     r' = r\<lparr>jr_status := JS_RUNNING, jr_updated_at := t\<rparr>\<rbrakk> \<Longrightarrow>
    job_step as (l, st) (append_row r' l,
      mark_active_for TK_AGENT a j (record_job r' (snd (remove_queued_for TK_AGENT a j st))))"
| finished: "\<lbrakk>a \<in> set as; newest l a j = Some r; jr_status r = JS_RUNNING; status \<in> set TERMINAL_JOB_STATES;
     r' = r\<lparr>jr_status := status, jr_terminal_decision := Some d, jr_updated_at := t\<rparr>\<rbrakk> \<Longrightarrow>
    job_step as (l, st) (append_row r' l, clear_active_for TK_AGENT a (Some j) (record_job r' st))"
| cancelled: "\<lbrakk>a \<in> set as; newest l a j = Some r; jr_status r \<notin> set TERMINAL_JOB_STATES;
     m = r\<lparr>jr_cancel_requested_at := Some t, jr_updated_at := t\<rparr>;
     r' = m\<lparr>jr_status := JS_CANCELLED, jr_terminal_decision := Some d\<rparr>\<rbrakk> \<Longrightarrow>
    job_step as (l, st) (append_row r' (append_row m l),
      record_job r' (clear_active_for TK_AGENT a (Some j) (snd (remove_queued_for TK_AGENT a j (record_job m st)))))"
| terminated: "\<lbrakk>a \<in> set as; newest l a j = Some r; jr_status r \<notin> set TERMINAL_JOB_STATES;
     r' = r\<lparr>jr_status := JS_INCOMPLETE, jr_terminal_decision := Some d, jr_updated_at := t\<rparr>\<rbrakk> \<Longrightarrow>
    job_step as (l, st) (append_row r' l,
      clear_active_for TK_AGENT a (Some j) (record_job r'
        (clear_active_for TK_AGENT a (Some j) (snd (remove_queued_for TK_AGENT a j st)))))"
| amended: "\<lbrakk>a \<in> set as; newest l a j = Some r; jr_status r \<in> set TERMINAL_JOB_STATES;
     r' = r\<lparr>jr_terminal_decision := Some d\<rparr>\<rbrakk> \<Longrightarrow>
    job_step as (l, st) (append_row r' l, record_job r' st)"
| restarted: "rebuild as st l = (Inr st', l) \<Longrightarrow> job_step as (l, st) (l, st')"

inductive_simps job_step_simps: "job_step as (l, st) q"

definition table_ok :: "string list \<Rightarrow> job_logs \<times> dispatcher_state \<Rightarrow> bool" where
  "table_ok as q \<longleftrightarrow> logs_ok as (fst q) \<and> state_of_log as (fst q) (snd q)"

lemma state_of_log_iff:
  "state_of_log as l st \<longleftrightarrow> index_ok as l st \<and>
     (\<forall>a \<in> set as. queue_at st (TK_AGENT, a) = pending_ids (jl_jobs l a) \<and>
        active_job_for TK_AGENT a st = running_id (jl_jobs l a))"
  unfolding state_of_log_def index_ok_def by blast

text \<open>What a new row of a known job does to the views of its target's log\<close>
lemma pending_append:
  assumes "newest l (jr_target_name r) (jr_job_id r) = Some q"
  shows "jr_status r \<notin> set PENDING_STATES \<Longrightarrow> pending_ids (jl_jobs l (jr_target_name r) @ [r]) =
      remove1 (jr_job_id r) (pending_ids (jl_jobs l (jr_target_name r)))"
    and "jr_status r = jr_status q \<Longrightarrow> pending_ids (jl_jobs l (jr_target_name r) @ [r]) = pending_ids (jl_jobs l (jr_target_name r))"
proof -
  have q: "find_last_in (\<lambda>q. jr_job_id q = jr_job_id r) (jl_jobs l (jr_target_name r)) = Some q"
    using assms by (simp add: newest_def)
  note upd = ids_with_update [OF q, of "\<lambda>st. st \<in> set PENDING_STATES"]
  show "jr_status r \<notin> set PENDING_STATES \<Longrightarrow> pending_ids (jl_jobs l (jr_target_name r) @ [r]) =
      remove1 (jr_job_id r) (pending_ids (jl_jobs l (jr_target_name r)))"
    using upd(2) by (simp add: pending_ids_with)
  assume "jr_status r = jr_status q"
  with upd(1,2) ids_with_newest [OF q, of "\<lambda>st. st \<in> set PENDING_STATES"]
  show "pending_ids (jl_jobs l (jr_target_name r) @ [r]) = pending_ids (jl_jobs l (jr_target_name r))"
    by (cases "jr_status r \<in> set PENDING_STATES") (auto simp: pending_ids_with remove1_idem)
qed

lemma running_append:
  assumes "newest l (jr_target_name r) (jr_job_id r) = Some q" "length (ids_with (\<lambda>st. st = JS_RUNNING) (jl_jobs l (jr_target_name r))) \<le> 1"
  shows "jr_status r \<noteq> JS_RUNNING \<Longrightarrow> running_id (jl_jobs l (jr_target_name r) @ [r]) =
      (if running_id (jl_jobs l (jr_target_name r)) = Some (jr_job_id r) then None else running_id (jl_jobs l (jr_target_name r)))"
    and "jr_status r = JS_RUNNING \<Longrightarrow> running_id (jl_jobs l (jr_target_name r)) = None \<Longrightarrow>
      running_id (jl_jobs l (jr_target_name r) @ [r]) = Some (jr_job_id r)"
    and "jr_status r = jr_status q \<Longrightarrow> running_id (jl_jobs l (jr_target_name r) @ [r]) = running_id (jl_jobs l (jr_target_name r))"
proof -
  let ?run = "ids_with (\<lambda>st. st = JS_RUNNING)"
  have q: "find_last_in (\<lambda>q. jr_job_id q = jr_job_id r) (jl_jobs l (jr_target_name r)) = Some q"
    using assms by (simp add: newest_def)
  note upd = ids_with_update [OF q, of "\<lambda>st. st = JS_RUNNING"]
  obtain i where "?run (jl_jobs l (jr_target_name r)) = [] \<or> ?run (jl_jobs l (jr_target_name r)) = [i]"
    using assms(2) by (cases "?run (jl_jobs l (jr_target_name r))") auto
  then show "jr_status r \<noteq> JS_RUNNING \<Longrightarrow> running_id (jl_jobs l (jr_target_name r) @ [r]) =
      (if running_id (jl_jobs l (jr_target_name r)) = Some (jr_job_id r) then None else running_id (jl_jobs l (jr_target_name r)))"
    using upd(2) by (auto simp: running_id_with)
  show "jr_status r = JS_RUNNING \<Longrightarrow> running_id (jl_jobs l (jr_target_name r)) = None \<Longrightarrow>
      running_id (jl_jobs l (jr_target_name r) @ [r]) = Some (jr_job_id r)"
    using upd(3) by (auto simp: running_id_with Let_def split: if_splits)
  assume "jr_status r = jr_status q"
  with upd(1,2) ids_with_newest [OF q, of "\<lambda>st. st = JS_RUNNING"]
  show "running_id (jl_jobs l (jr_target_name r) @ [r]) = running_id (jl_jobs l (jr_target_name r))"
    by (cases "jr_status r = JS_RUNNING") (auto simp: running_id_with remove1_idem)
qed

section \<open>Every step keeps the state in agreement with the log\<close>

lemma newest_target: "logs_ok as l \<Longrightarrow> newest l a j = Some r \<Longrightarrow> jr_target_name r = a \<and> jr_job_id r = j"
  using newest_SomeD [of l a j r] by (auto simp: logs_ok_def logs_partitioned_def)

lemma active_target_view [disp_view]:
  "target_for_job i (mark_active_for k n j st) = target_for_job i st"
  "target_for_job i (clear_active_for k n x st) = target_for_job i st"
  by (simp_all add: target_for_job_def disp_view)

lemma known_job: "logs_ok as l \<Longrightarrow> newest l a j = Some r \<Longrightarrow> logged_job l b j \<longrightarrow> b = a"
  unfolding logs_ok_def using newest_logged [of l a j] logged_job_unique by fastforce

text \<open>A new row of a known job: the log stays in order, the index too\<close>
lemma known_row_ok:
  assumes "logs_ok as l" "a \<in> set as" "newest l a j = Some r" "jr_target_name r' = a" "jr_job_id r' = j"
    and "jr_status r' = JS_RUNNING \<longrightarrow> running_id (jl_jobs l a) = None \<or> running_id (jl_jobs l a) = Some j"
  shows "logs_ok as (append_row r' l)"
  using append_row_ok [OF assms(1), of r'] known_job [OF assms(1,3)] assms by simp

text \<open>The state agrees with the log for the target of the row, and is unchanged elsewhere\<close>
lemma agrees_after_row:
  assumes "logs_ok as (append_row r l)" "state_of_log as l st"
    and "\<And>j. target_for_job j st' = target_for_job j (record_job r st)"
    and "\<And>b. b \<noteq> jr_target_name r \<Longrightarrow> queue_at st' (TK_AGENT, b) = queue_at st (TK_AGENT, b) \<and>
      active_job_for TK_AGENT b st' = active_job_for TK_AGENT b st"
    and "jr_target_name r \<in> set as \<Longrightarrow> queue_at st' (TK_AGENT, jr_target_name r) = pending_ids (jl_jobs l (jr_target_name r) @ [r]) \<and>
      active_job_for TK_AGENT (jr_target_name r) st' = running_id (jl_jobs l (jr_target_name r) @ [r])"
  shows "table_ok as (append_row r l, st')"
proof -
  have "index_ok as (append_row r l) (record_job r st)"
    using assms(1,2) append_row_index by (simp add: logs_ok_def state_of_log_iff)
  then have "index_ok as (append_row r l) st'" using index_ok_same [of st' "record_job r st"] assms(3) by blast
  with assms(1,2,4,5) show ?thesis by (auto simp: table_ok_def state_of_log_iff rows_append_row)
qed

lemma running_one: "logs_ok as l \<Longrightarrow> length (ids_with (\<lambda>st. st = JS_RUNNING) (jl_jobs l a)) \<le> 1"
  by (simp add: logs_ok_def)

lemma submitted_ok:
  assumes "table_ok as (l, st)" "jr_target_name r \<in> set as" "\<forall>b. \<not> logged_job l b (jr_job_id r)" "jr_status r \<in> set PENDING_STATES"
  shows "table_ok as (append_row r l, enqueue_for TK_AGENT (jr_target_name r) (jr_job_id r) (record_job r st))"
proof (rule agrees_after_row)
  have ok: "logs_ok as l" "state_of_log as l st" using assms(1) by (simp_all add: table_ok_def)
  have pending: "jr_status r \<noteq> JS_RUNNING" using assms(4) by (auto simp: PENDING_STATES_def)
  have fresh: "jr_job_id r \<notin> jr_job_id ` set (jl_jobs l (jr_target_name r))" using assms(3) by (simp add: logged_job_def)
  show "logs_ok as (append_row r l)" using append_row_ok [OF ok(1) assms(2)] assms(3) pending by simp
  show "state_of_log as l st" by (rule ok(2))
  show "queue_at (enqueue_for TK_AGENT (jr_target_name r) (jr_job_id r) (record_job r st)) (TK_AGENT, jr_target_name r) =
        pending_ids (jl_jobs l (jr_target_name r) @ [r]) \<and>
      active_job_for TK_AGENT (jr_target_name r) (enqueue_for TK_AGENT (jr_target_name r) (jr_job_id r) (record_job r st)) =
        running_id (jl_jobs l (jr_target_name r) @ [r])"
    using ok(2) assms(2,4) pending
    by (simp add: disp_view pending_ids_with running_id_with ids_with_fresh [OF fresh] state_of_log_iff)
qed (simp_all add: disp_view)

text \<open>A row that starts a queued job of an idle target\<close>
lemma started_ok:
  assumes "table_ok as (l, st)" "a \<in> set as" "newest l a j = Some r" "active_job_for TK_AGENT a st = None"
    and row: "jr_target_name r' = a" "jr_job_id r' = j" "jr_status r' = JS_RUNNING"
  shows "table_ok as (append_row r' l, mark_active_for TK_AGENT a j (record_job r' (snd (remove_queued_for TK_AGENT a j st))))"
proof (rule agrees_after_row)
  have ok: "logs_ok as l" "state_of_log as l st" using assms(1) by (simp_all add: table_ok_def)
  have idle: "running_id (jl_jobs l a) = None" using ok(2) assms(2,4) by (simp add: state_of_log_iff)
  show "logs_ok as (append_row r' l)" using known_row_ok [OF ok(1) assms(2,3) row(1,2)] idle by simp
  show "state_of_log as l st" by (rule ok(2))
  have new: "newest l (jr_target_name r') (jr_job_id r') = Some r" using assms(3) row by simp
  show "queue_at (mark_active_for TK_AGENT a j (record_job r' (snd (remove_queued_for TK_AGENT a j st)))) (TK_AGENT, jr_target_name r') =
        pending_ids (jl_jobs l (jr_target_name r') @ [r']) \<and>
      active_job_for TK_AGENT (jr_target_name r') (mark_active_for TK_AGENT a j (record_job r' (snd (remove_queued_for TK_AGENT a j st)))) =
        running_id (jl_jobs l (jr_target_name r') @ [r'])"
    using pending_append(1) [OF new] running_append(2) [OF new running_one [OF ok(1)]] ok(2) assms(2) row idle
    by (simp add: disp_view state_of_log_iff PENDING_STATES_def)
  show "queue_at (mark_active_for TK_AGENT a j (record_job r' (snd (remove_queued_for TK_AGENT a j st)))) (TK_AGENT, b) =
        queue_at st (TK_AGENT, b) \<and>
      active_job_for TK_AGENT b (mark_active_for TK_AGENT a j (record_job r' (snd (remove_queued_for TK_AGENT a j st)))) =
        active_job_for TK_AGENT b st" if "b \<noteq> jr_target_name r'" for b
    using that row by (simp add: disp_view)
qed (simp add: disp_view)

text \<open>A row that ends a job: it leaves the queue and is no longer the running job\<close>
lemma ended_ok:
  assumes "table_ok as (l, st)" "a \<in> set as" "newest l a j = Some r"
    and row: "jr_target_name r' = a" "jr_job_id r' = j" "jr_status r' \<notin> set PENDING_STATES" "jr_status r' \<noteq> JS_RUNNING"
    and st': "\<And>i. target_for_job i st' = target_for_job i (record_job r' st)"
      "\<And>b. queue_at st' (TK_AGENT, b) = (if b = a then remove1 j (queue_at st (TK_AGENT, a)) else queue_at st (TK_AGENT, b))"
      "\<And>b. active_job_for TK_AGENT b st' =
        (if b = a \<and> active_job_for TK_AGENT a st = Some j then None else active_job_for TK_AGENT b st)"
  shows "table_ok as (append_row r' l, st')"
proof (rule agrees_after_row)
  have ok: "logs_ok as l" "state_of_log as l st" using assms(1) by (simp_all add: table_ok_def)
  show "logs_ok as (append_row r' l)" using known_row_ok [OF ok(1) assms(2,3) row(1,2)] row(4) by simp
  show "state_of_log as l st" by (rule ok(2))
  have new: "newest l (jr_target_name r') (jr_job_id r') = Some r" using assms(3) row by simp
  show "queue_at st' (TK_AGENT, jr_target_name r') = pending_ids (jl_jobs l (jr_target_name r') @ [r']) \<and>
      active_job_for TK_AGENT (jr_target_name r') st' = running_id (jl_jobs l (jr_target_name r') @ [r'])"
    using pending_append(1) [OF new row(3)] running_append(1) [OF new running_one [OF ok(1)] row(4)] ok(2) assms(2) row
    by (simp add: st' state_of_log_iff)
qed (use row in \<open>simp_all add: st'\<close>)

text \<open>A row that leaves the status of a job as it is\<close>
lemma unchanged_ok:
  assumes "table_ok as (l, st)" "a \<in> set as" "newest l a j = Some r"
    and row: "jr_target_name r' = a" "jr_job_id r' = j" "jr_status r' = jr_status r"
  shows "table_ok as (append_row r' l, record_job r' st)"
proof (rule agrees_after_row)
  have ok: "logs_ok as l" "state_of_log as l st" using assms(1) by (simp_all add: table_ok_def)
  have new: "newest l (jr_target_name r') (jr_job_id r') = Some r" using assms(3) row by simp
  note run = running_append(3) [OF new running_one [OF ok(1)] row(3)]
  have "jr_status r' = JS_RUNNING \<longrightarrow> running_id (jl_jobs l a) = None \<or> running_id (jl_jobs l a) = Some j"
  proof
    assume "jr_status r' = JS_RUNNING"
    then have "j \<in> set (ids_with (\<lambda>st. st = JS_RUNNING) (jl_jobs l a))"
      using ids_with_newest assms(3) row(3) by (simp add: newest_def)
    then have "ids_with (\<lambda>st. st = JS_RUNNING) (jl_jobs l a) = [j]"
      using running_one [OF ok(1), of a] by (cases "ids_with (\<lambda>st. st = JS_RUNNING) (jl_jobs l a)") auto
    then show "running_id (jl_jobs l a) = None \<or> running_id (jl_jobs l a) = Some j" by (simp add: running_id_with)
  qed
  then show "logs_ok as (append_row r' l)" by (rule known_row_ok [OF ok(1) assms(2,3) row(1,2)])
  show "state_of_log as l st" by (rule ok(2))
  show "queue_at (record_job r' st) (TK_AGENT, jr_target_name r') = pending_ids (jl_jobs l (jr_target_name r') @ [r']) \<and>
      active_job_for TK_AGENT (jr_target_name r') (record_job r' st) = running_id (jl_jobs l (jr_target_name r') @ [r'])"
    using pending_append(2) [OF new row(3)] run ok(2) assms(2) row by (simp add: disp_view state_of_log_iff)
qed (simp_all add: disp_view)

text \<open>A target has a running job or a queued one with that id, never both\<close>
lemma not_queued_twice:
  assumes "table_ok as (l, st)" "a \<in> set as"
  shows "distinct (queue_at st (TK_AGENT, a))"
  using assms by (simp add: table_ok_def state_of_log_iff pending_ids_with)

lemma running_not_queued:
  assumes "table_ok as (l, st)" "a \<in> set as" "newest l a j = Some r" "jr_status r \<notin> set PENDING_STATES"
  shows "remove1 j (queue_at st (TK_AGENT, a)) = queue_at st (TK_AGENT, a)"
  using assms ids_with_newest [of j "jl_jobs l a" r "\<lambda>st. st \<in> set PENDING_STATES"]
  by (simp add: table_ok_def state_of_log_iff pending_ids_with remove1_idem newest_def)

lemma terminal_state: "s \<in> set TERMINAL_JOB_STATES \<Longrightarrow> s \<notin> set PENDING_STATES \<and> s \<noteq> JS_RUNNING"
  by (auto simp: TERMINAL_JOB_STATES_def PENDING_STATES_def)

lemma job_step_ok:
  assumes "job_step as p q" "table_ok as p" "distinct as" "\<forall>a \<in> set as. agent_name_ok a"
  shows "table_ok as q"
  using assms
proof (induction rule: job_step.induct)
  case (submitted r l st)
  then show ?case by (intro submitted_ok)
next
  case (started a l j r st r' t)
  then show ?case using newest_target [of as l a j r] by (intro started_ok [of as l st a j r]) (simp_all add: table_ok_def)
next
  case (finished a l j r status r' d t st)
  have row: "jr_target_name r' = a" "jr_job_id r' = j"
    using newest_target [of as l a j r] finished by (simp_all add: table_ok_def)
  have "jr_status r \<notin> set PENDING_STATES" using finished by (simp add: PENDING_STATES_def)
  then show ?case using finished row terminal_state [of status] running_not_queued [of as l st a j r]
    by (intro ended_ok [of as l st a j r]) (simp_all add: disp_view)
next
  case (cancelled a l j r m t r' d st)
  have row: "jr_target_name r = a" "jr_job_id r = j"
    using newest_target [of as l a j r] cancelled by (simp_all add: table_ok_def)
  have mid: "table_ok as (append_row m l, record_job m st)"
    using cancelled row by (intro unchanged_ok [of as l st a j r]) simp_all
  then show ?case using cancelled row
    by (intro ended_ok [OF mid, of a j m]) (simp_all add: disp_view newest_append PENDING_STATES_def)
next
  case (terminated a l j r r' d t st)
  have row: "jr_target_name r = a" "jr_job_id r = j"
    using newest_target [of as l a j r] terminated by (simp_all add: table_ok_def)
  then show ?case using terminated
    by (intro ended_ok [of as l st a j r]) (simp_all add: disp_view PENDING_STATES_def)
next
  case (amended a l j r r' d st)
  then show ?case using newest_target [of as l a j r] by (intro unchanged_ok [of as l st a j r]) (simp_all add: table_ok_def)
next
  case (restarted st l st')
  then have "\<exists>st''. rebuild as st l = (Inr st'', l) \<and> state_of_log as l st''"
    by (intro rebuild_state_of_log) (simp_all add: table_ok_def logs_ok_def)
  with restarted show ?case by (simp add: table_ok_def)
qed

section \<open>A restart recovers the state\<close>

definition empty_logs :: job_logs where
  "empty_logs = \<lparr>jl_jobs = \<lambda>_. [], jl_events = \<lambda>_. [], jl_submissions = []\<rparr>"

lemma new_state_view: "queue_at (new_dispatcher_state as) x = []" "active_job_for k n (new_dispatcher_state as) = None"
    "target_for_job j (new_dispatcher_state as) = None"
proof -
  have "queue_at (fold (\<lambda>name. ensure_queue (TK_AGENT, name)) as st) x = queue_at st x \<and>
      active_job_for k n (fold (\<lambda>name. ensure_queue (TK_AGENT, name)) as st) = active_job_for k n st \<and>
      target_for_job j (fold (\<lambda>name. ensure_queue (TK_AGENT, name)) as st) = target_for_job j st" for st
    by (induction as arbitrary: st) (simp_all add: active_job_for_def target_for_job_def)
  from this [of "\<lparr>ds_queues = [], ds_job_index = [], ds_active_jobs = []\<rparr>"]
  show "queue_at (new_dispatcher_state as) x = []" "active_job_for k n (new_dispatcher_state as) = None"
      "target_for_job j (new_dispatcher_state as) = None"
    by (simp_all add: new_dispatcher_state_def queue_at_def active_job_for_def target_for_job_def)
qed

lemma empty_table_ok: "table_ok as (empty_logs, new_dispatcher_state as)"
  by (simp add: table_ok_def logs_ok_def state_of_log_iff index_ok_def new_state_view empty_logs_def ids_with_def
      logs_partitioned_def job_ids_unique_def logged_job_def pending_ids_def running_id_def latest_by_def latest_dict_def)

lemma job_steps_ok:
  assumes "(job_step as)\<^sup>*\<^sup>* p q" "table_ok as p" "distinct as" "\<forall>a \<in> set as. agent_name_ok a"
  shows "table_ok as q"
  using assms by (induction rule: rtranclp_induct) (auto intro: job_step_ok)


definition w_row :: "string \<Rightarrow> job_status \<Rightarrow> job_record" where
  "w_row j status = \<lparr>jr_job_id = j, jr_submission_id = None, jr_agent_name = ''a1'', jr_provider = ''codex'',
     jr_request = \<lparr>me_project_id = ''p'', me_to_agent = ''a1'', me_from_actor = ''user'', me_body = ''hi'', me_task_id = None,
       me_reply_to = None, me_message_type = ''ask'', me_delivery_scope = DS_SINGLE, me_silence_on_success = False,
       me_route_options = [], me_body_artifact = None\<rparr>,
     jr_status = status, jr_terminal_decision = None, jr_cancel_requested_at = None, jr_created_at = ''t0'',
     jr_updated_at = ''t0'', jr_workspace_path = None, jr_target_kind = TK_AGENT, jr_target_name = ''a1'',
     jr_provider_instance = None, jr_provider_options = []\<rparr>"


end
