(* ===== verification/Retry_Policy.thy ===== *)
theory Retry_Policy
  imports Dispatcher_Recovery
begin

text \<open>
  What the dispatcher does with a failed job: the provider catalog (\<open>provider_core/catalog.py\<close>,
  \<open>manifests.py\<close>), the classification of failures (\<open>dispatcher_runtime/failure_policy.py\<close>), the decision whether
  to retry (\<open>finalization_retry_runtime/policy.py\<close>, \<open>plans.py\<close>) and the reply that the caller gets when there
  is no further attempt (\<open>details.py\<close>, \<open>replies.py\<close>). The state adds to the dispatcher's what its
  completion path uses: the provider catalog, the stored snapshots and the completion tracker.
\<close>

section \<open>The provider catalog\<close>

record provider_manifest =
  pm_provider :: string
  pm_supports_resume :: bool
  pm_supports_permission_auto :: bool
  pm_supports_stream_watch :: bool
  pm_supports_subagents :: bool
  pm_supports_workspace_attach :: bool
  pm_runtime_profiles :: "(runtime_mode \<times> completion_manifest) list"

fun check_runtime_profiles :: "string \<Rightarrow> (runtime_mode \<times> completion_manifest) list \<Rightarrow> unit result" where
  "check_runtime_profiles provider [] = Inr ()"
| "check_runtime_profiles provider ((mode, profile) # rest) =
     rbind (rcheck (cm_provider profile \<noteq> provider) (ValueError (''runtime profile provider '' @ repr_str (cm_provider profile)
       @ '' does not match manifest provider '' @ repr_str provider))) (\<lambda>_.
     rbind (rcheck (cm_runtime_mode profile \<noteq> runtime_mode_value mode) (ValueError (''runtime profile mode '' @
       repr_str (cm_runtime_mode profile) @ '' does not match runtime key '' @ repr_str (runtime_mode_value mode)))) (\<lambda>_.
     check_runtime_profiles provider rest))"

definition ProviderManifest :: "provider_manifest \<Rightarrow> provider_manifest result" where
  "ProviderManifest m = (let provider = py_lower (py_strip (pm_provider m)) in
     rbind (rcheck (provider = []) (ValueError ''provider cannot be empty'')) (\<lambda>_.
     rbind (rcheck (pm_runtime_profiles m = []) (ValueError ''runtime_profiles cannot be empty'')) (\<lambda>_.
     rbind (check_runtime_profiles provider (pm_runtime_profiles m)) (\<lambda>_.
     Inr (m\<lparr>pm_provider := provider\<rparr>)))))"

type_synonym catalog = "provider_manifest dict"

definition catalog_register :: "provider_manifest \<Rightarrow> catalog \<Rightarrow> catalog result" where
  "catalog_register m c = (if pm_provider m \<in> fst ` set c
     then Inl (ValueError (''duplicate provider manifest: '' @ pm_provider m))
     else Inr (dict_set (pm_provider m) m c))"

definition catalog_get :: "string \<Rightarrow> catalog \<Rightarrow> provider_manifest result" where
  "catalog_get provider c = (case map_of c (py_lower (py_strip provider)) of Some m \<Rightarrow> Inr m
     | None \<Rightarrow> Inl (KeyError (''unknown provider: '' @ provider)))"

definition supports_runtime_mode :: "runtime_mode \<Rightarrow> provider_manifest \<Rightarrow> bool" where
  "supports_runtime_mode mode m \<longleftrightarrow> mode \<in> fst ` set (pm_runtime_profiles m)"

definition completion_manifest_for :: "runtime_mode \<Rightarrow> provider_manifest \<Rightarrow> completion_manifest result" where
  "completion_manifest_for mode m = (case map_of (pm_runtime_profiles m) mode of Some p \<Rightarrow> Inr p
     | None \<Rightarrow> Inl (KeyError (runtime_mode_value mode)))"

definition resolve_completion_manifest :: "catalog \<Rightarrow> string \<Rightarrow> runtime_mode \<Rightarrow> completion_manifest result" where
  "resolve_completion_manifest c provider mode = rbind (catalog_get provider c) (\<lambda>m.
     if \<not> supports_runtime_mode mode m
     then Inl (ValueError (''provider '' @ repr_str (pm_provider m) @ '' does not support runtime_mode '' @
       repr_str (runtime_mode_value mode)))
     else completion_manifest_for mode m)"

definition catalog_providers :: "catalog \<Rightarrow> string list" where
  "catalog_providers c = sort (map fst c)"

section \<open>The state of the completion path\<close>

record completing = dispatcher +
  cd_catalog :: catalog
  cd_snapshots :: "completion_snapshot dict"
  cd_tracker :: "tracker_service option"

type_synonym ('z, 'a) cpl = "('z completing_scheme, 'a) py"

section \<open>Failures that a retry cannot mend\<close>

definition NON_RETRYABLE_API_AUTH_CODES :: "string list" where
  "NON_RETRYABLE_API_AUTH_CODES = [''unauthorized'', ''authenticationerror'', ''authenticationfailed'', ''invalidapikey'',
     ''invalidauthtoken'', ''invalidtoken'', ''notauthenticated'', ''notloggedin'', ''loginrequired'', ''missingapikey'']"

definition NON_RETRYABLE_API_PERMISSION_CODES :: "string list" where
  "NON_RETRYABLE_API_PERMISSION_CODES = [''permissiondenied'', ''accessdenied'', ''forbidden'', ''notauthorized'']"

definition NON_RETRYABLE_API_BILLING_CODES :: "string list" where
  "NON_RETRYABLE_API_BILLING_CODES = [''insufficientquota'', ''quotaexceeded'', ''paymentrequired'',
     ''billinghardlimitreached'', ''billingnotactive'', ''insufficientbalance'', ''balanceexhausted'', ''creditbalancetoolow'']"

definition NON_RETRYABLE_API_AUTH_MESSAGE_MARKERS :: "string list" where
  "NON_RETRYABLE_API_AUTH_MESSAGE_MARKERS = [''unauthorized'', ''not logged in'', ''login required'', ''authentication failed'',
     ''invalid api key'', ''invalid auth'', ''invalid token'', ''run codex login'', ''run login'']"

definition NON_RETRYABLE_API_PERMISSION_MESSAGE_MARKERS :: "string list" where
  "NON_RETRYABLE_API_PERMISSION_MESSAGE_MARKERS = [''permission denied'', ''access denied'', ''forbidden'', ''not authorized'']"

definition NON_RETRYABLE_API_BILLING_MESSAGE_MARKERS :: "string list" where
  "NON_RETRYABLE_API_BILLING_MESSAGE_MARKERS = [''insufficient quota'', ''quota exceeded'', ''payment required'',
     ''insufficient balance'', ''billing'', ''credit balance too low'']"

definition normalized_error_token :: "string \<Rightarrow> string" where
  "normalized_error_token v = filter py_isalnum (py_lower (py_strip v))"

definition failure_message_text :: "completion_decision \<Rightarrow> string" where
  "failure_message_text decision = join '' '' (filter (\<lambda>t. t \<noteq> [])
     (map (\<lambda>k. py_lower (py_strip (str_or (jget (de_diagnostics decision) k) '''')))
       [''error_message'', ''fault_message'', ''error'', ''message'', ''text'']))"

definition nonretryable_api_failure_kind :: "completion_decision \<Rightarrow> string option" where
  "nonretryable_api_failure_kind decision =
     (if de_status decision \<noteq> CS_FAILED then None
      else let tokens = filter (\<lambda>t. t \<noteq> []) [normalized_error_token (str_or_empty (de_reason decision)),
             normalized_error_token (str_or (jget (de_diagnostics decision) ''error_type'') ''''),
             normalized_error_token (str_or (jget (de_diagnostics decision) ''error_code'') '''')];
           coded = (\<lambda>codes. list_ex (\<lambda>t. t \<in> set codes) tokens);
           marked = (\<lambda>markers. list_ex (\<lambda>m. py_contains m (failure_message_text decision)) markers)
        in if coded NON_RETRYABLE_API_AUTH_CODES then Some ''authentication''
           else if coded NON_RETRYABLE_API_PERMISSION_CODES then Some ''permission''
           else if coded NON_RETRYABLE_API_BILLING_CODES then Some ''billing''
           else if marked NON_RETRYABLE_API_AUTH_MESSAGE_MARKERS then Some ''authentication''
           else if marked NON_RETRYABLE_API_PERMISSION_MESSAGE_MARKERS then Some ''permission''
           else if marked NON_RETRYABLE_API_BILLING_MESSAGE_MARKERS then Some ''billing''
           else None)"

definition is_nonretryable_api_failure :: "completion_decision \<Rightarrow> bool" where
  "is_nonretryable_api_failure decision \<longleftrightarrow> nonretryable_api_failure_kind decision \<noteq> None"

section \<open>The retry policy of a message\<close>

definition DEFAULT_RETRYABLE_REASONS :: "string list" where
  "DEFAULT_RETRYABLE_REASONS = [''api_error'', ''transport_error'']"
definition DEFAULT_RETRYABLE_ERROR_TYPES :: "string list" where
  "DEFAULT_RETRYABLE_ERROR_TYPES = [''api_error'', ''transport_error'', ''provider_api_error'']"
definition DEFAULT_RETRYABLE_RUNTIME_REASONS :: "string list" where
  "DEFAULT_RETRYABLE_RUNTIME_REASONS = [''pane_dead'', ''pane_unavailable'', ''runtime_unavailable'', ''backend_unavailable'']"
definition TIMEOUT_INSPECTION_REASONS :: "string list" where
  "TIMEOUT_INSPECTION_REASONS = [''timeout'']"

definition safe_int :: "json \<Rightarrow> int \<Rightarrow> int" where
  "safe_int v d = (case py_int v of Inr i \<Rightarrow> i | Inl _ \<Rightarrow> d)"

text \<open>\<open>for item in (value or ())\<close>\<close>
fun py_iter :: "json \<Rightarrow> json list result" where
  "py_iter (JList xs) = Inr xs"
| "py_iter (JStr s) = Inr (map (\<lambda>c. JStr [c]) s)"
| "py_iter (JObj kvs) = Inr (map (JStr \<circ> fst) kvs)"
| "py_iter v = (if py_truthy v then Inl (TypeError ''object is not iterable'') else Inr [])"

definition configured_reasons :: "json \<Rightarrow> string list \<Rightarrow> string list result" where
  "configured_reasons v fallback = rbind (py_iter v) (\<lambda>items.
     let configured = filter (\<lambda>t. t \<noteq> []) (map (\<lambda>i. py_lower (py_strip (str_or i ''''))) items)
     in Inr (if configured = [] then fallback else configured))"

definition retryable_reasons :: "payload \<Rightarrow> string list result" where
  "retryable_reasons policy = configured_reasons (jget policy ''retryable_reasons'') DEFAULT_RETRYABLE_REASONS"

definition retryable_runtime_reasons :: "payload \<Rightarrow> string list result" where
  "retryable_runtime_reasons policy =
     configured_reasons (jget policy ''retryable_runtime_reasons'') DEFAULT_RETRYABLE_RUNTIME_REASONS"

fun policy_bool :: "json \<Rightarrow> bool \<Rightarrow> bool" where
  "policy_bool JNull d = d"
| "policy_bool (JBool b) d = b"
| "policy_bool v d = (let lowered = py_lower (py_strip (py_str v)) in
     if lowered \<in> set [''1'', ''true'', ''yes'', ''on''] then True
     else if lowered \<in> set [''0'', ''false'', ''no'', ''off''] then False else d)"

definition provider_supports_resume :: "catalog \<Rightarrow> string \<Rightarrow> bool" where
  "provider_supports_resume c provider = (case catalog_get provider c of Inl _ \<Rightarrow> False | Inr m \<Rightarrow> pm_supports_resume m)"

definition decision_reason :: "completion_decision \<Rightarrow> string" where
  "decision_reason decision = py_lower (py_strip (str_or_empty (de_reason decision)))"

definition is_retryable_failure :: "completion_decision \<Rightarrow> payload \<Rightarrow> bool \<Rightarrow> bool result" where
  "is_retryable_failure decision policy resume =
     (if de_status decision \<noteq> CS_FAILED then Inr False
      else if is_nonretryable_api_failure decision then Inr False
      else rbind (retryable_reasons policy) (\<lambda>reasons.
        if decision_reason decision \<in> set reasons then Inr True
        else rbind (if resume \<and> policy_bool (jget policy ''retry_runtime_when_resume_supported'') True
              then rbind (retryable_runtime_reasons policy) (\<lambda>rs. Inr (decision_reason decision \<in> set rs))
              else Inr False) (\<lambda>runtime.
          Inr (runtime \<or> py_lower (py_strip (str_or (jget (de_diagnostics decision) ''error_type'') ''''))
            \<in> set DEFAULT_RETRYABLE_ERROR_TYPES))))"

section \<open>Plans\<close>

text \<open>\<open>AutomaticRetryPlan\<close> and \<open>RetryableFailureContext\<close> have the same fields\<close>
record retry_context =
  rc_message_id :: string
  rc_attempt_id :: string
  rc_attempt_number :: int
  rc_max_attempts :: int
  rc_reason :: string

definition retryable_failure_context :: "job_record \<Rightarrow> completion_decision \<Rightarrow> ('z, retry_context option) cpl" where
  "retryable_failure_context job decision = py_bind (attempt_get_latest_by_job_id (jr_job_id job)) (\<lambda>found. case found of
       None \<Rightarrow> py_return None
     | Some attempt \<Rightarrow> py_bind (message_get_latest (att_message_id attempt)) (\<lambda>found. case found of
           None \<Rightarrow> py_return None
         | Some message \<Rightarrow>
             let policy = msg_retry_policy message in
             if py_lower (py_strip (str_or (jget policy ''mode'') '''')) \<noteq> ''auto'' then py_return None
             else py_bind (py_gets cd_catalog) (\<lambda>catalog.
               py_bind (py_lift (is_retryable_failure decision policy (provider_supports_resume catalog (jr_provider job)))) (\<lambda>retryable.
               if \<not> retryable then py_return None
               else py_return (Some \<lparr>rc_message_id = att_message_id attempt, rc_attempt_id = att_attempt_id attempt,
                 rc_attempt_number = att_retry_index attempt + 1,
                 rc_max_attempts = max (safe_int (jget policy ''max_attempts'') 1) 1,
                 rc_reason = (let r = decision_reason decision in if r = [] then ''api_error'' else r)\<rparr>)))))"

definition automatic_retry_plan :: "job_record \<Rightarrow> completion_decision \<Rightarrow> ('z, retry_context option) cpl" where
  "automatic_retry_plan job decision = py_bind (retryable_failure_context job decision) (\<lambda>context. case context of
       None \<Rightarrow> py_return None
     | Some c \<Rightarrow> py_return (if rc_attempt_number c \<ge> rc_max_attempts c then None else Some c))"

section \<open>The reply of a failed job\<close>

definition detail_part :: "string \<Rightarrow> string \<Rightarrow> string list" where
  "detail_part key v = (let t = py_strip v in if t = [] then [] else [key @ ''='' @ t])"

definition diag_error_message :: "payload \<Rightarrow> string" where
  "diag_error_message d = py_strip (str_or (jget d ''error_message'') (str_or (jget d ''fault_message'') (str_or (jget d ''error'') '''')))"

definition detail_parts :: "completion_decision \<Rightarrow> string list" where
  "detail_parts decision = (let d = de_diagnostics decision in
     detail_part ''reason'' (str_or_empty (de_reason decision)) @
     detail_part ''error_type'' (str_or (jget d ''error_type'') '''') @
     detail_part ''error_code'' (str_or (jget d ''error_code'') '''') @
     detail_part ''error_message'' (diag_error_message d) @
     detail_part ''fault_rule_id'' (str_or (jget d ''fault_rule_id'') ''''))"

definition retry_failure_detail :: "completion_decision \<Rightarrow> string" where
  "retry_failure_detail decision = (let t = join '', '' (detail_parts decision) in if t = [] then ''reason=api_error'' else t)"

definition retry_failure_text :: "completion_decision \<Rightarrow> job_record \<Rightarrow> int \<Rightarrow> int \<Rightarrow> string option \<Rightarrow> string" where
  "retry_failure_text decision job attempt_number max_attempts scheduling_error =
     (let detail = retry_failure_detail decision; agent = jr_agent_name job; n = show_int attempt_number;
          drill = (py_lower (py_strip (str_or (jget (de_diagnostics decision) ''error_type'') '''')) = ''fault_injection'');
          runtime = (decision_reason decision \<in> set DEFAULT_RETRYABLE_RUNTIME_REASONS);
          lead = (if drill then ''Fault injection drill forced agent '' @ [CHR 0x27] @ agent @ [CHR 0x27] @ '' to fail ''
            else ''Delivery to agent '' @ [CHR 0x27] @ agent @ [CHR 0x27] @ '' '');
          advice = ''Execute this task locally or resend it to another healthy registered agent.''
      in if opt_truthy scheduling_error
         then lead @ (if drill then '''' else if runtime then ''hit a retryable runtime/pane failure '' else ''hit a retryable provider/API error '') @
           ''on attempt '' @ n @ ''/'' @ show_int max_attempts @ '' ('' @ detail @ ''), but automatic retry could not be scheduled ('' @
           str_or_empty scheduling_error @ ''). '' @ advice
         else if drill then lead @ ''after '' @ n @ '' attempts ('' @ detail @ ''). '' @ advice
         else lead @ ''failed after '' @ n @ '' attempts because '' @
           (if runtime then ''its runtime/pane could not be recovered '' else ''the provider/API connection kept failing '') @
           ''('' @ detail @ ''). '' @ advice)"

definition with_retry_failure_reply :: "completion_decision \<Rightarrow> job_record \<Rightarrow> int \<Rightarrow> int \<Rightarrow> string option \<Rightarrow>
    completion_decision result" where
  "with_retry_failure_reply decision job attempt_number max_attempts scheduling_error =
     CompletionDecision (decision\<lparr>de_reply := retry_failure_text decision job attempt_number max_attempts scheduling_error,
       de_diagnostics := dict_set ''auto_retry'' (JObj [(''attempt_number'', JInt attempt_number),
         (''max_attempts'', JInt max_attempts), (''scheduling_error'', jopt scheduling_error)]) (de_diagnostics decision)\<rparr>)"

definition nonretryable_failure_text :: "completion_decision \<Rightarrow> job_record \<Rightarrow> string" where
  "nonretryable_failure_text decision job =
     (let kind = nonretryable_api_failure_kind decision;
          category = (if kind = Some ''authentication'' then ''a non-retryable authentication/login error''
            else if kind = Some ''permission'' then ''a non-retryable permission/access error''
            else ''a non-retryable quota/billing error'');
          remediation = (if kind = Some ''authentication''
            then ''Fix the provider login/session before retrying locally or resending it.''
            else if kind = Some ''permission''
            then ''Fix the provider account permissions before retrying locally or resending it.''
            else ''Fix the provider billing/quota before retrying locally or resending it.'')
      in ''Delivery to agent '' @ [CHR 0x27] @ jr_agent_name job @ [CHR 0x27] @
         '' failed because the provider/API reported '' @ category @ '' ('' @ retry_failure_detail decision @ ''). '' @
         remediation @ '' You can also execute this task locally or resend it to another healthy registered agent.'')"

definition with_nonretryable_api_failure_reply :: "completion_decision \<Rightarrow> job_record \<Rightarrow> completion_decision result" where
  "with_nonretryable_api_failure_reply decision job =
     CompletionDecision (decision\<lparr>de_reply := nonretryable_failure_text decision job,
       de_diagnostics := dict_set ''auto_retry'' (JObj [(''nonretryable_api_failure'', JBool True),
         (''classification'', jopt (nonretryable_api_failure_kind decision))]) (de_diagnostics decision)\<rparr>)"

definition should_render_timeout_inspection_reply :: "completion_decision \<Rightarrow> bool" where
  "should_render_timeout_inspection_reply decision \<longleftrightarrow>
     de_status decision = CS_INCOMPLETE \<and> decision_reason decision \<in> set TIMEOUT_INSPECTION_REASONS"

definition with_timeout_inspection_reply :: "completion_decision \<Rightarrow> job_record \<Rightarrow> completion_decision result" where
  "with_timeout_inspection_reply decision job =
     CompletionDecision (decision\<lparr>de_reply :=
       ''Delivery to agent '' @ [CHR 0x27] @ jr_agent_name job @ [CHR 0x27] @ '' timed out before a confirmed terminal reply. '' @
       ''The task may still be running in that agent session. Inspect job '' @ [CHR 0x27] @ jr_job_id job @ [CHR 0x27] @ '' in the '' @
       ''agent pane or queue/trace views before deciding whether to continue or retry.'',
       de_diagnostics := dict_set ''timeout_notice'' (JObj [(''job_id'', JStr (jr_job_id job)),
         (''agent_name'', JStr (jr_agent_name job)), (''action'', JStr ''inspect_running_attempt'')]) (de_diagnostics decision)\<rparr>)"

end
