(* ===== verification/Fault_Injection.thy ===== *)
theory Fault_Injection
  imports Retry_Policy
begin

text \<open>
  Fault injection drills (\<open>lib/fault_injection\<close>): armed rules make the next jobs of an agent for one task
  fail, each rule a given number of times. The rules are kept in one JSON file, read and checked on
  every access; the file is the state of the service, and is removed with the last rule.
\<close>

section \<open>Rules\<close>

definition FAULT_SCHEMA_VERSION :: int where "FAULT_SCHEMA_VERSION = 1"

definition VALID_FAILURE_REASONS :: "string list" where
  "VALID_FAILURE_REASONS = [''api_error'', ''transport_error'']"

definition DEFAULT_ERROR_MESSAGE :: string where "DEFAULT_ERROR_MESSAGE = ''fault injection drill''"

record fault_rule =
  fr_rule_id :: string
  fr_agent_name :: string
  fr_task_id :: string
  fr_reason :: string
  fr_remaining_count :: int
  fr_error_message :: string
  fr_created_at :: string
  fr_updated_at :: string

definition FaultRule :: "fault_rule \<Rightarrow> fault_rule result" where
  "FaultRule r =
     rbind (rcheck (py_strip (fr_rule_id r) = []) (ValueError ''rule_id cannot be empty'')) (\<lambda>_.
     rbind (rcheck (py_strip (fr_task_id r) = []) (ValueError ''task_id cannot be empty'')) (\<lambda>_.
     rbind (rcheck (fr_remaining_count r \<le> 0) (ValueError ''remaining_count must be positive'')) (\<lambda>_.
     rbind (normalize_agent_name (fr_agent_name r)) (\<lambda>agent_name.
     let reason = py_lower (py_strip (fr_reason r)) in
     rbind (rcheck (reason \<notin> set VALID_FAILURE_REASONS) (ValueError (''unsupported fault reason: '' @ fr_reason r))) (\<lambda>_.
     Inr (r\<lparr>fr_agent_name := agent_name, fr_task_id := py_strip (fr_task_id r), fr_reason := reason,
       fr_error_message := py_strip (fr_error_message r)\<rparr>))))))"

definition fault_to_record :: "fault_rule \<Rightarrow> payload" where
  "fault_to_record r =
     [(''rule_id'', JStr (fr_rule_id r)), (''agent_name'', JStr (fr_agent_name r)), (''task_id'', JStr (fr_task_id r)),
      (''reason'', JStr (fr_reason r)), (''remaining_count'', JInt (fr_remaining_count r)),
      (''error_message'', JStr (fr_error_message r)), (''created_at'', JStr (fr_created_at r)),
      (''updated_at'', JStr (fr_updated_at r))]"

definition fault_from_record :: "payload \<Rightarrow> fault_rule result" where
  "fault_from_record p =
     rbind (if py_truthy (jget p ''remaining_count'') then py_int (jget p ''remaining_count'') else Inr 0) (\<lambda>count.
     FaultRule \<lparr>fr_rule_id = str_or (jget p ''rule_id'') '''', fr_agent_name = str_or (jget p ''agent_name'') '''',
       fr_task_id = str_or (jget p ''task_id'') '''', fr_reason = str_or (jget p ''reason'') '''',
       fr_remaining_count = count, fr_error_message = str_or (jget p ''error_message'') '''',
       fr_created_at = str_or (jget p ''created_at'') '''', fr_updated_at = str_or (jget p ''updated_at'') ''''\<rparr>)"

section \<open>The file\<close>

record faulting = completing +
  fi_path :: string
  fi_file :: "payload option"

type_synonym ('z, 'a) flt = "('z faulting_scheme, 'a) py"

fun rules_of :: "json list \<Rightarrow> fault_rule list result" where
  "rules_of [] = Inr []"
| "rules_of (JObj p # rest) = rbind (fault_from_record p) (\<lambda>r. rbind (rules_of rest) (\<lambda>rs. Inr (r # rs)))"
| "rules_of (_ # rest) = rules_of rest"

definition load_rules :: "('z, fault_rule list) flt" where
  "load_rules = py_bind (py_gets fi_file) (\<lambda>file. case file of
       None \<Rightarrow> py_return []
     | Some p \<Rightarrow>
         py_bind (py_lift (if py_truthy (jget p ''schema_version'') then py_int (jget p ''schema_version'') else Inr 0)) (\<lambda>version.
         py_bind (py_gets fi_path) (\<lambda>path.
         if version \<noteq> FAULT_SCHEMA_VERSION then py_raise (ValueError (path @ '': unsupported schema_version''))
         else py_lift (rbind (py_iter (jget p ''rules'')) rules_of))))"

definition save_rules :: "fault_rule list \<Rightarrow> ('z, unit) flt" where
  "save_rules rules = py_modify (\<lambda>s. s\<lparr>fi_file := (if rules = [] then None
     else Some [(''schema_version'', JInt FAULT_SCHEMA_VERSION), (''record_type'', JStr ''fault_rule_set''),
       (''rules'', JList (map (JObj \<circ> fault_to_record) rules))])\<rparr>)"

section \<open>The service\<close>

record consumed_fault =
  cf_rule_id :: string
  cf_agent_name :: string
  cf_task_id :: string
  cf_reason :: string
  cf_error_message :: string
  cf_remaining_count :: int
  cf_injected_at :: string

definition list_rules :: "('z, fault_rule list) flt" where
  "list_rules = py_bind load_rules (\<lambda>rules.
     py_return (sort_key fr_created_at (sort_key fr_rule_id rules)))"

definition arm_rule :: "string \<Rightarrow> string \<Rightarrow> string \<Rightarrow> int \<Rightarrow> string option \<Rightarrow> ('z, fault_rule) flt" where
  "arm_rule agent_name task_id reason count error_message =
     py_bind read_clock (\<lambda>now.
     py_bind (new_id ''flt'') (\<lambda>rule_id.
     py_bind (py_lift (FaultRule \<lparr>fr_rule_id = rule_id, fr_agent_name = agent_name, fr_task_id = task_id,
        fr_reason = reason, fr_remaining_count = count,
        fr_error_message = py_strip (if opt_truthy error_message then str_or_empty error_message else DEFAULT_ERROR_MESSAGE),
        fr_created_at = now, fr_updated_at = now\<rparr>)) (\<lambda>rule.
     py_bind load_rules (\<lambda>rules. py_then (save_rules (rules @ [rule])) (py_return rule)))))"

definition clear_rule :: "string \<Rightarrow> ('z, fault_rule list) flt" where
  "clear_rule target = (let key = py_strip target in
     if key = [] then py_raise (ValueError ''fault clear requires <rule_id|all>'')
     else py_bind load_rules (\<lambda>rules.
       if key = ''all'' then py_then (save_rules []) (py_return rules)
       else let cleared = filter (\<lambda>r. fr_rule_id r = key) rules in
         if cleared = [] then py_raise (ValueError (''fault rule not found: '' @ key))
         else py_then (save_rules (filter (\<lambda>r. fr_rule_id r \<noteq> key) rules)) (py_return cleared)))"

text \<open>
  The loop over the rules: the first one for the agent and the task, and the rules with its count one
  lower. The new rule is \<open>replace(rule, ...)\<close>, which checks its fields again.
\<close>
fun consume_first :: "string \<Rightarrow> string \<Rightarrow> string \<Rightarrow> fault_rule list \<Rightarrow> (fault_rule \<times> fault_rule list) option result" where
  "consume_first agent_name task_id timestamp [] = Inr None"
| "consume_first agent_name task_id timestamp (rule # rest) =
     (if fr_agent_name rule = agent_name \<and> fr_task_id rule = task_id
      then if fr_remaining_count rule - 1 > 0
        then rbind (FaultRule (rule\<lparr>fr_remaining_count := fr_remaining_count rule - 1, fr_updated_at := timestamp\<rparr>)) (\<lambda>r.
          Inr (Some (rule, r # rest)))
        else Inr (Some (rule, rest))
      else rbind (consume_first agent_name task_id timestamp rest) (\<lambda>found. Inr (case found of
          None \<Rightarrow> None | Some (r, rs) \<Rightarrow> Some (r, rule # rs))))"

definition consume_for_job :: "job_record \<Rightarrow> string option \<Rightarrow> ('z, consumed_fault option) flt" where
  "consume_for_job job now = (let task_id = py_strip (str_or_empty (me_task_id (jr_request job))) in
     if task_id = [] then py_return None
     else py_bind (given_or_clock now) (\<lambda>timestamp.
       py_bind load_rules (\<lambda>rules.
       py_bind (py_lift (consume_first (jr_agent_name job) task_id timestamp rules)) (\<lambda>found. case found of
           None \<Rightarrow> py_return None
         | Some (rule, rules') \<Rightarrow> py_then (save_rules rules') (
             py_return (Some \<lparr>cf_rule_id = fr_rule_id rule, cf_agent_name = fr_agent_name rule,
               cf_task_id = fr_task_id rule, cf_reason = fr_reason rule,
               cf_error_message = (if fr_error_message rule = [] then DEFAULT_ERROR_MESSAGE else fr_error_message rule),
               cf_remaining_count = max (fr_remaining_count rule - 1) 0, cf_injected_at = timestamp\<rparr>))))))"

definition fault_payload :: "consumed_fault \<Rightarrow> payload" where
  "fault_payload fault =
     [(''reason'', JStr (cf_reason fault)),
      (''error'', JStr (if cf_error_message fault = [] then DEFAULT_ERROR_MESSAGE else cf_error_message fault)),
      (''error_type'', JStr ''fault_injection''), (''fault_rule_id'', JStr (cf_rule_id fault)),
      (''fault_task_id'', JStr (cf_task_id fault)), (''fault_remaining_count'', JInt (cf_remaining_count fault)),
      (''fault_injected'', JBool True)]"

definition build_terminal_replay :: "job_record \<Rightarrow> consumed_fault \<Rightarrow> (completion_item list \<times> completion_decision) result" where
  "build_terminal_replay job fault =
     rbind (CompletionCursor \<lparr>cu_source_kind = SK_STRUCTURED_RESULT_STREAM, cu_opaque_cursor = None, cu_session_path = None,
        cu_offset = None, cu_line_no = None, cu_event_seq = Some 1, cu_updated_at = Some (cf_injected_at fault)\<rparr>) (\<lambda>cursor.
     rbind (CompletionItem \<lparr>it_kind = ERROR, it_timestamp = cf_injected_at fault, it_cursor = cursor,
        it_provider = jr_provider job, it_agent_name = jr_agent_name job, it_req_id = jr_job_id job,
        it_payload = fault_payload fault\<rparr>) (\<lambda>item.
     rbind (CompletionDecision \<lparr>de_terminal = True, de_status = CS_FAILED, de_reason = Some (cf_reason fault),
        de_confidence = Some CC_EXACT, de_reply = '''', de_anchor_seen = False, de_reply_started = False,
        de_reply_stable = False, de_provider_turn_ref = Some (cf_rule_id fault), de_source_cursor = Some cursor,
        de_finished_at = Some (cf_injected_at fault), de_diagnostics = fault_payload fault\<rparr>) (\<lambda>decision.
     Inr ([item], decision))))"

end
