(* ===== verification/Provider_Execution.thy ===== *)
theory Provider_Execution
  imports Fault_Injection
begin

text \<open>
  The execution service (\<open>lib/provider_execution\<close>): it hands running jobs to the adapter of their provider,
  polls the adapters for completion items, persists what it was told before the dispatcher has applied
  it, and restores executions after a restart of the daemon. An adapter drives a terminal program. It is
  a parameter, a record of the operations of \<open>ProviderExecutionAdapter\<close>, which read and change an outer
  world of any type; a live object in a runtime state (a reader, a terminal backend) belongs to that world,
  and the state itself holds the JSON values that are persisted.
\<close>

section \<open>Contexts, submissions and persisted states\<close>

record provider_runtime_context =
  rx_agent_name :: string
  rx_workspace_path :: "string option"
  rx_backend_type :: "string option"
  rx_runtime_ref :: "string option"
  rx_session_ref :: "string option"
  rx_runtime_pid :: "int option"
  rx_runtime_health :: "string option"
  rx_runtime_binding_source :: "string option"

record provider_submission =
  sb_job_id :: string
  sb_agent_name :: string
  sb_provider :: string
  sb_accepted_at :: string
  sb_ready_at :: string
  sb_source_kind :: completion_source_kind
  sb_reply :: string
  sb_status :: completion_status
  sb_reason :: string
  sb_confidence :: completion_confidence
  sb_diagnostics :: "payload option"
  sb_runtime_state :: payload

record poll_result =
  po_submission :: provider_submission
  po_items :: "completion_item list"
  po_decision :: "completion_decision option"

definition ProviderPollResult :: "poll_result \<Rightarrow> poll_result result" where
  "ProviderPollResult r = (case po_decision r of
       Some d \<Rightarrow> if \<not> de_terminal d then Inl (ValueError ''provider poll decisions must be terminal'') else Inr r
     | None \<Rightarrow> Inr r)"

record persisted_execution =
  pe_submission :: provider_submission
  pe_runtime_context :: "provider_runtime_context option"
  pe_resume_capable :: bool
  pe_persisted_at :: string
  pe_pending_decision :: "completion_decision option"
  pe_pending_items :: "completion_item list"
  pe_applied_event_seqs :: "int list"

section \<open>Adapters\<close>

text \<open>The timeout read from the environment is a parameter: the value of the variable, when it is a number\<close>
record reliability_policy =
  rl_provider :: string
  rl_no_terminal_timeout_s :: rat
  rl_primary_authority :: string
  rl_backend_type :: "string option"
  rl_timeout_status :: completion_status
  rl_timeout_reason :: string
  rl_timeout_confidence :: completion_confidence

definition CompletionReliabilityPolicy :: "reliability_policy \<Rightarrow> reliability_policy result" where
  "CompletionReliabilityPolicy p = (let provider = py_lower (py_strip (rl_provider p)) in
     rbind (rcheck (provider = []) (ValueError ''provider cannot be empty'')) (\<lambda>_.
     Inr (p\<lparr>rl_provider := provider, rl_no_terminal_timeout_s := max 0 (rl_no_terminal_timeout_s p),
       rl_backend_type := str_or_none (py_lower (py_strip (str_or_empty (rl_backend_type p))))\<rparr>)))"

text \<open>The upper case of a letter that has one in Latin-1; provider names are ASCII\<close>
definition py_upper_char :: "char \<Rightarrow> char" where
  "py_upper_char c = (let n = (of_char c :: nat) in if (97 \<le> n \<and> n \<le> 122) \<or> (224 \<le> n \<and> n \<le> 254 \<and> n \<noteq> 247) then char_of (n - 32) else c)"

definition timeout_env_name :: "reliability_policy \<Rightarrow> string" where
  "timeout_env_name p = ''CCB_'' @ map (\<lambda>c. if c = CHR ''-'' then CHR ''_'' else c) (map py_upper_char (rl_provider p))
     @ ''_NO_TERMINAL_TIMEOUT_S''"

definition effective_no_terminal_timeout_s :: "(string \<Rightarrow> rat option) \<Rightarrow> reliability_policy \<Rightarrow> rat" where
  "effective_no_terminal_timeout_s env p = (case env (timeout_env_name p) of
       None \<Rightarrow> rl_no_terminal_timeout_s p | Some v \<Rightarrow> max 0 v)"

record 'w adapter =
  ad_start :: "job_record \<Rightarrow> provider_runtime_context option \<Rightarrow> string \<Rightarrow> ('w, provider_submission) py"
  ad_poll :: "provider_submission \<Rightarrow> string \<Rightarrow> ('w, poll_result option) py"
  ad_resume :: "(job_record \<Rightarrow> provider_submission \<Rightarrow> provider_runtime_context option \<Rightarrow> persisted_execution \<Rightarrow> string \<Rightarrow>
    ('w, provider_submission option) py) option"
  ad_export_runtime_state :: "(provider_submission \<Rightarrow> payload option) option"
  ad_restore_diagnostics :: "payload option"
  ad_reliability_policy :: "reliability_policy option"

definition registry_register :: "string \<Rightarrow> 'w adapter \<Rightarrow> 'w adapter dict \<Rightarrow> 'w adapter dict result" where
  "registry_register provider adapter reg = (let key = py_lower (py_strip provider) in
     if key \<in> fst ` set reg then Inl (ValueError (''duplicate execution adapter: '' @ key))
     else Inr (dict_set key adapter reg))"

definition adapter_for :: "string \<Rightarrow> 'w adapter dict \<Rightarrow> 'w adapter option" where
  "adapter_for provider reg = map_of reg (py_lower (py_strip provider))"

definition execution_restore_capability :: "'w adapter option \<Rightarrow> string \<Rightarrow> payload" where
  "execution_restore_capability adapter provider = (case adapter of
       None \<Rightarrow> [(''resume_supported'', JBool False), (''restore_mode'', JStr ''resubmit_required''),
         (''restore_reason'', JStr ''adapter_missing''),
         (''restore_detail'', JStr (''provider '' @ provider @ '' has no registered execution adapter''))]
     | Some a \<Rightarrow>
         let diagnostics = (case ad_restore_diagnostics a of Some d \<Rightarrow> d | None \<Rightarrow> []);
             supported = py_truthy (jget_default diagnostics ''resume_supported''
               (JBool (ad_export_runtime_state a \<noteq> None \<and> ad_resume a \<noteq> None)))
         in [(''resume_supported'', JBool supported),
           (''restore_mode'', JStr (py_str (jget_default diagnostics ''restore_mode''
             (JStr (if supported then ''provider_resume'' else ''resubmit_required''))))),
           (''restore_reason'', jget_default diagnostics ''restore_reason''
             (if supported then JNull else JStr ''provider_resume_unsupported'')),
           (''restore_detail'', jget_default diagnostics ''restore_detail''
             (JStr (if supported then ''provider execution can be resumed after ccbd restart''
                else ''provider execution cannot be resumed after ccbd restart and requires resubmission'')))])"

section \<open>The state of the service\<close>

text \<open>
  \<open>ex_replays\<close> holds the items and the decision that the next poll has to deliver again. The state
  store is a directory with one file per job, \<open>None\<close> where the service has none; its files hold what
  the codec of \<open>PersistedExecutionState\<close> writes. \<open>ex_show_float\<close> is the text that Python prints for a float, \<open>ex_interrupt\<close> the terminal's reaction to the
  cancellation of the job in a pane.
\<close>
record 'w executing = faulting +
  ex_registry :: "'w adapter dict"
  ex_fault_injection :: bool
  ex_env :: "string \<Rightarrow> rat option"
  ex_show_float :: "rat \<Rightarrow> string"
  ex_interrupt :: "string \<Rightarrow> 'w \<Rightarrow> 'w"
  ex_active :: "provider_submission dict"
  ex_runtime_contexts :: "provider_runtime_context option dict"
  ex_replays :: "(completion_item list \<times> completion_decision option) dict"
  ex_store :: "persisted_execution dict option"
  ex_world :: 'w

type_synonym ('w, 'z, 'a) exe = "(('w, 'z) executing_scheme, 'a) py"

definition on_world :: "('w, 'a) py \<Rightarrow> ('w, 'z, 'a) exe" where
  "on_world m s = (case m (ex_world s) of (r, w) \<Rightarrow> (r, s\<lparr>ex_world := w\<rparr>))"

definition state_load :: "string \<Rightarrow> ('w, 'z, persisted_execution option) exe" where
  "state_load job_id = py_gets (\<lambda>s. Option.bind (ex_store s) (\<lambda>d. map_of d job_id))"

definition state_save :: "persisted_execution \<Rightarrow> ('w, 'z, unit) exe" where
  "state_save p = py_modify (\<lambda>s. s\<lparr>ex_store := map_option (dict_set (sb_job_id (pe_submission p)) p) (ex_store s)\<rparr>)"

definition state_remove :: "string \<Rightarrow> ('w, 'z, unit) exe" where
  "state_remove job_id = py_modify (\<lambda>s. s\<lparr>ex_store := map_option (dict_pop job_id) (ex_store s)\<rparr>)"

section \<open>Persistence\<close>

definition is_reliability_key :: "string \<Rightarrow> bool" where
  "is_reliability_key k \<longleftrightarrow> py_startswith k ''reliability_''"

text \<open>\<open>{**a, **b}\<close>\<close>
definition dict_merge :: "'v dict \<Rightarrow> 'v dict \<Rightarrow> 'v dict" where
  "dict_merge a b = fold (\<lambda>(k, v). dict_set k v) b a"

definition with_reliability_state :: "payload \<Rightarrow> payload \<Rightarrow> payload" where
  "with_reliability_state runtime_state source_state =
     dict_merge runtime_state (filter (\<lambda>(k, _). is_reliability_key k) source_state)"

definition persist_submission :: "string \<Rightarrow> completion_decision option \<Rightarrow> completion_item list \<Rightarrow> int list \<Rightarrow>
    ('w, 'z, unit) exe" where
  "persist_submission job_id decision pending_items applied =
     py_bind (py_gets ex_store) (\<lambda>store. if store = None then py_return ()
       else py_bind (py_gets (\<lambda>s. map_of (ex_active s) job_id)) (\<lambda>found. case found of
           None \<Rightarrow> py_return ()
         | Some submission \<Rightarrow>
             py_bind (py_gets (\<lambda>s. adapter_for (sb_provider submission) (ex_registry s))) (\<lambda>adapter.
             let exported = Option.bind (Option.bind adapter ad_export_runtime_state) (\<lambda>f. f submission);
                 resume_capable = (exported \<noteq> None \<and> Option.bind adapter ad_resume \<noteq> None);
                 runtime_state = with_reliability_state (case exported of Some d \<Rightarrow> d | None \<Rightarrow> []) (sb_runtime_state submission)
             in py_bind (py_gets (\<lambda>s. map_of (ex_runtime_contexts s) job_id)) (\<lambda>context.
                py_bind read_clock (\<lambda>now.
                state_save \<lparr>pe_submission = submission\<lparr>sb_diagnostics := Some (dict_merge
                      (case sb_diagnostics submission of Some d \<Rightarrow> d | None \<Rightarrow> [])
                      (execution_restore_capability adapter (sb_provider submission))),
                    sb_runtime_state := runtime_state\<rparr>,
                  pe_runtime_context = (case context of Some c \<Rightarrow> c | None \<Rightarrow> None), pe_resume_capable = resume_capable,
                  pe_persisted_at = now, pe_pending_decision = decision, pe_pending_items = pending_items,
                  pe_applied_event_seqs = sort (remdups applied)\<rparr>)))))"

definition acknowledge :: "string \<Rightarrow> ('w, 'z, unit) exe" where
  "acknowledge job_id =
     py_then (py_modify (\<lambda>s. s\<lparr>ex_replays := dict_pop job_id (ex_replays s)\<rparr>)) (
     py_bind (state_load job_id) (\<lambda>found. case found of
         None \<Rightarrow> py_return ()
       | Some p \<Rightarrow> py_bind read_clock (\<lambda>now.
           state_save (p\<lparr>pe_persisted_at := now, pe_pending_items := [], pe_applied_event_seqs := []\<rparr>))))"

definition acknowledge_item :: "string \<Rightarrow> int option \<Rightarrow> ('w, 'z, unit) exe" where
  "acknowledge_item job_id event_seq = (case event_seq of None \<Rightarrow> py_return ()
     | Some seq \<Rightarrow> py_bind (state_load job_id) (\<lambda>found. case found of
           None \<Rightarrow> py_return ()
         | Some p \<Rightarrow> if pe_pending_items p = [] then py_return ()
             else py_bind read_clock (\<lambda>now. state_save (p\<lparr>pe_persisted_at := now,
               pe_applied_event_seqs := sort (remdups (pe_applied_event_seqs p @ [seq]))\<rparr>))))"

text \<open>\<open>item.cursor.event_seq or -1\<close>: an item without a number, and one with the number 0, counts as -1\<close>
definition seq_key :: "completion_item \<Rightarrow> int" where
  "seq_key item = (case cu_event_seq (it_cursor item) of None \<Rightarrow> -1 | Some i \<Rightarrow> if i = 0 then -1 else i)"

definition filter_pending_items :: "persisted_execution \<Rightarrow> completion_item list" where
  "filter_pending_items p =
     (if pe_pending_items p = [] \<or> pe_applied_event_seqs p = [] then pe_pending_items p
      else filter (\<lambda>item. seq_key item \<notin> set (pe_applied_event_seqs p)) (pe_pending_items p))"

section \<open>Reliability: progress and timeouts\<close>

definition SEMANTIC_PROGRESS_ITEM_KINDS :: "completion_item_kind list" where
  "SEMANTIC_PROGRESS_ITEM_KINDS = [ANCHOR_SEEN, ASSISTANT_CHUNK, ASSISTANT_FINAL, TOOL_CALL, TOOL_RESULT, RESULT,
     TURN_BOUNDARY, TURN_ABORTED, CANCEL_INFO, ERROR, PANE_DEAD]"

definition has_semantic_progress_item :: "poll_result \<Rightarrow> bool" where
  "has_semantic_progress_item r \<longleftrightarrow> list_ex (\<lambda>i. it_kind i \<in> set SEMANTIC_PROGRESS_ITEM_KINDS) (po_items r)"

definition state_anchor_seen :: "payload \<Rightarrow> bool" where
  "state_anchor_seen rs \<longleftrightarrow> py_truthy (jget rs ''anchor_seen'') \<or> py_truthy (jget rs ''anchor_emitted'')"

definition semantic_progress_marker :: "provider_submission \<Rightarrow>
    (string \<times> completion_status \<times> string \<times> completion_confidence) \<times> bool \<times> string list" where
  "semantic_progress_marker s =
     ((sb_reply s, sb_status s, sb_reason s, sb_confidence s), state_anchor_seen (sb_runtime_state s),
      map (\<lambda>k. str_or (jget (sb_runtime_state s) k) '''')
        [''bound_turn_id'', ''bound_task_id'', ''reply_buffer'', ''last_agent_message'', ''last_final_answer'',
         ''last_assistant_message'', ''last_assistant_signature'', ''session_path''])"

definition has_reliability_progress :: "poll_result \<Rightarrow> provider_submission \<Rightarrow> bool" where
  "has_reliability_progress r previous \<longleftrightarrow> has_semantic_progress_item r \<or> po_decision r \<noteq> None \<or>
     semantic_progress_marker (po_submission r) \<noteq> semantic_progress_marker previous"

definition with_last_progress_at :: "provider_submission \<Rightarrow> string \<Rightarrow> provider_submission" where
  "with_last_progress_at s time =
     (if py_strip (str_or (jget (sb_runtime_state s) ''reliability_last_progress_at'') '''') = time then s
      else s\<lparr>sb_runtime_state := dict_set ''reliability_last_progress_at'' (JStr time) (sb_runtime_state s)\<rparr>)"

definition apply_reliability_progress :: "poll_result \<Rightarrow> provider_submission \<Rightarrow> string \<Rightarrow> poll_result result" where
  "apply_reliability_progress r previous now =
     (if \<not> has_reliability_progress r previous then Inr r
      else let updated = with_last_progress_at (po_submission r) now in
        if updated = po_submission r then Inr r else ProviderPollResult (r\<lparr>po_submission := updated\<rparr>))"

definition timeout_policy_for :: "string \<Rightarrow> 'w adapter \<Rightarrow> ('w, 'z, reliability_policy option) exe" where
  "timeout_policy_for job_id adapter = (case ad_reliability_policy adapter of None \<Rightarrow> py_return None
     | Some policy \<Rightarrow> py_bind (py_gets (\<lambda>s. map_of (ex_runtime_contexts s) job_id)) (\<lambda>context.
         let backend_type = str_or_none (py_lower (py_strip (case context of Some (Some c) \<Rightarrow> str_or_empty (rx_backend_type c)
               | _ \<Rightarrow> '''')))
         in py_return (if opt_truthy (rl_backend_type policy) \<and> backend_type \<noteq> rl_backend_type policy then None else Some policy)))"

definition last_progress_timestamp :: "provider_submission \<Rightarrow> string" where
  "last_progress_timestamp s = (let v = py_strip (str_or (jget (sb_runtime_state s) ''reliability_last_progress_at'') '''') in
     if v \<noteq> [] then v else py_strip (if sb_ready_at s \<noteq> [] then sb_ready_at s else sb_accepted_at s))"

definition timeout_elapsed :: "string \<Rightarrow> string \<Rightarrow> rat \<Rightarrow> bool" where
  "timeout_elapsed started_at now timeout_s =
     (if started_at = [] then False
      else case rbind (parse_utc_timestamp now) (\<lambda>e. rbind (parse_utc_timestamp started_at) (\<lambda>b. datetime_diff e b)) of
          Inl _ \<Rightarrow> False
        | Inr us \<Rightarrow> of_int us / 1000000 \<ge> max 0 timeout_s)"

text \<open>\<open>timedelta(seconds=x)\<close> in microseconds, rounded half to even\<close>
definition timedelta_micros :: "rat \<Rightarrow> int" where
  "timedelta_micros x = (let y = x * 1000000; f = \<lfloor>y\<rfloor>; d = y - of_int f in
     if d < 1 / 2 then f else if d > 1 / 2 then f + 1 else if even f then f else f + 1)"

definition deadline_at :: "string \<Rightarrow> rat \<Rightarrow> string option" where
  "deadline_at started_at timeout_s =
     (if started_at = [] then None
      else case parse_utc_timestamp started_at of Inl _ \<Rightarrow> None
        | Inr dt \<Rightarrow> let later = dt_micros dt + timedelta_micros (max 0 timeout_s) in
            if in_datetime_range later then Some (py_replace ''+00:00'' ''Z'' (isoformat (dt\<lparr>dt_micros := later\<rparr>))) else None)"

definition request_anchor_from_runtime_state :: "payload \<Rightarrow> string \<Rightarrow> string" where
  "request_anchor_from_runtime_state rs fallback =
     py_strip (str_or (jget rs ''request_anchor'') (str_or (jget rs ''req_id'') fallback))"

definition build_timeout_result :: "(rat \<Rightarrow> string) \<Rightarrow> provider_submission \<Rightarrow> string \<Rightarrow> rat \<Rightarrow> string \<Rightarrow> reliability_policy \<Rightarrow>
    poll_result result" where
  "build_timeout_result show_float s now timeout_s last_progress_at policy =
     (let reply = sb_reply s;
          deadline = deadline_at last_progress_at timeout_s;
          anchor = request_anchor_from_runtime_state (sb_runtime_state s) (sb_job_id s);
          diagnostics = dict_merge (case sb_diagnostics s of Some d \<Rightarrow> d | None \<Rightarrow> [])
            [(''completion_primary_authority'', JStr (rl_primary_authority policy)),
             (''completion_last_progress_at'', JStr last_progress_at),
             (''completion_timeout_s'', JFloat timeout_s (show_float timeout_s)),
             (''completion_timeout_deadline_at'', jopt deadline),
             (''completion_reliability_reason'', JStr (rl_timeout_reason policy)),
             (''completion_fallback_source'', JStr ''execution_reliability_monitor'')];
          runtime_state = dict_merge (sb_runtime_state s)
            [(''reliability_last_progress_at'', JStr last_progress_at),
             (''reliability_timeout_s'', JFloat timeout_s (show_float timeout_s)),
             (''reliability_timeout_deadline_at'', JStr (str_or_empty deadline)),
             (''reliability_terminalized_at'', JStr now)]
      in rbind (CompletionDecision \<lparr>de_terminal = True, de_status = rl_timeout_status policy,
           de_reason = Some (rl_timeout_reason policy), de_confidence = Some (rl_timeout_confidence policy),
           de_reply = reply, de_anchor_seen = state_anchor_seen (sb_runtime_state s), de_reply_started = (reply \<noteq> []),
           de_reply_stable = (reply \<noteq> []), de_provider_turn_ref = Some (if anchor \<noteq> [] then anchor else sb_job_id s),
           de_source_cursor = None, de_finished_at = Some now, de_diagnostics = diagnostics\<rparr>) (\<lambda>decision.
         ProviderPollResult \<lparr>po_submission = s\<lparr>sb_reply := reply, sb_status := rl_timeout_status policy,
             sb_reason := rl_timeout_reason policy, sb_confidence := rl_timeout_confidence policy,
             sb_diagnostics := Some diagnostics, sb_runtime_state := runtime_state\<rparr>,
           po_items = [], po_decision = Some decision\<rparr>))"

definition timeout_poll_result :: "string \<Rightarrow> provider_submission \<Rightarrow> 'w adapter \<Rightarrow> string \<Rightarrow>
    ('w, 'z, poll_result option) exe" where
  "timeout_poll_result job_id submission adapter now =
     py_bind (timeout_policy_for job_id adapter) (\<lambda>found. case found of None \<Rightarrow> py_return None
       | Some policy \<Rightarrow> py_bind (py_gets (\<lambda>s. (ex_env s, ex_show_float s))) (\<lambda>(env, show_float).
           let timeout_s = effective_no_terminal_timeout_s env policy; last = last_progress_timestamp submission in
           if timeout_s \<le> 0 then py_return None
           else if \<not> timeout_elapsed last now timeout_s then py_return None
           else py_bind (py_lift (build_timeout_result show_float submission now timeout_s last policy)) (\<lambda>r. py_return (Some r))))"

section \<open>Starting, cancelling and finishing\<close>

definition pop_context :: "string \<Rightarrow> ('w, 'z, unit) exe" where
  "pop_context job_id = py_modify (\<lambda>s. s\<lparr>ex_runtime_contexts := dict_pop job_id (ex_runtime_contexts s)\<rparr>)"

definition pop_active :: "string \<Rightarrow> ('w, 'z, unit) exe" where
  "pop_active job_id = py_modify (\<lambda>s. s\<lparr>ex_active := dict_pop job_id (ex_active s)\<rparr>)"

definition execution_start :: "job_record \<Rightarrow> provider_runtime_context option \<Rightarrow> ('w, 'z, provider_submission option) exe" where
  "execution_start job context = py_bind read_clock (\<lambda>now.
     py_bind (py_gets ex_fault_injection) (\<lambda>drills.
     py_bind (if drills then consume_for_job job (Some now) else py_return None) (\<lambda>injected. case injected of
         Some fault \<Rightarrow> py_bind (py_lift (build_terminal_replay job fault)) (\<lambda>(items, decision).
           py_then (py_modify (\<lambda>s. s\<lparr>ex_runtime_contexts := dict_set (jr_job_id job) context (ex_runtime_contexts s),
             ex_replays := dict_set (jr_job_id job) (items, Some decision) (ex_replays s)\<rparr>)) (py_return None))
       | None \<Rightarrow> py_bind (py_gets (\<lambda>s. adapter_for (jr_provider job) (ex_registry s))) (\<lambda>adapter. case adapter of
             None \<Rightarrow> py_return None
           | Some a \<Rightarrow> py_bind (on_world (ad_start a job context now)) (\<lambda>submission.
               py_then (py_modify (\<lambda>s. s\<lparr>ex_active := dict_set (jr_job_id job) submission (ex_active s),
                 ex_runtime_contexts := dict_set (jr_job_id job) context (ex_runtime_contexts s)\<rparr>)) (
               py_then (persist_submission (jr_job_id job) None [] []) (py_return (Some submission))))))))"

definition interrupt_active_submission :: "provider_submission \<Rightarrow> ('w, 'z, unit) exe" where
  "interrupt_active_submission submission =
     (let pane_id = py_strip (str_or (jget (sb_runtime_state submission) ''pane_id'') '''') in
      if jget (sb_runtime_state submission) ''backend'' = JNull \<or> pane_id = [] then py_return ()
      else py_modify (\<lambda>s. s\<lparr>ex_world := ex_interrupt s pane_id (ex_world s)\<rparr>))"

definition execution_finish :: "string \<Rightarrow> ('w, 'z, unit) exe" where
  "execution_finish job_id = py_then (pop_active job_id) (py_then (pop_context job_id) (
     py_then (py_modify (\<lambda>s. s\<lparr>ex_replays := dict_pop job_id (ex_replays s)\<rparr>)) (state_remove job_id)))"

definition execution_cancel :: "string \<Rightarrow> ('w, 'z, unit) exe" where
  "execution_cancel job_id = py_bind (py_gets (\<lambda>s. map_of (ex_active s) job_id)) (\<lambda>submission.
     py_then (pop_active job_id) (
     py_then (case submission of None \<Rightarrow> py_return () | Some s \<Rightarrow> interrupt_active_submission s) (
     py_then (pop_context job_id) (
     py_then (py_modify (\<lambda>s. s\<lparr>ex_replays := dict_pop job_id (ex_replays s)\<rparr>)) (state_remove job_id)))))"

section \<open>Polling\<close>

record execution_update =
  eu_job_id :: string
  eu_items :: "completion_item list"
  eu_decision :: "completion_decision option"

definition terminal_pending_decision :: "completion_decision option \<Rightarrow> completion_decision option" where
  "terminal_pending_decision d = (case d of None \<Rightarrow> None | Some x \<Rightarrow> if \<not> de_terminal x then None else Some x)"

definition should_emit_update :: "poll_result \<Rightarrow> bool" where
  "should_emit_update r \<longleftrightarrow> po_items r \<noteq> [] \<or> po_decision r \<noteq> None"

definition should_keep_pending_replay :: "string \<Rightarrow> completion_decision option \<Rightarrow> provider_submission dict \<Rightarrow> bool" where
  "should_keep_pending_replay job_id decision active \<longleftrightarrow>
     (case decision of None \<Rightarrow> False | Some d \<Rightarrow> de_terminal d \<and> job_id \<notin> fst ` set active)"

definition drain_pending_replays :: "('w, 'z, execution_update list) exe" where
  "drain_pending_replays = py_bind (py_gets (\<lambda>s. (ex_replays s, ex_active s))) (\<lambda>(replays, active).
     py_then (py_modify (\<lambda>s. s\<lparr>ex_replays := filter (\<lambda>(j, _, d). should_keep_pending_replay j d active) replays\<rparr>)) (
     py_return (map (\<lambda>(j, items, d). \<lparr>eu_job_id = j, eu_items = items, eu_decision = d\<rparr>) replays)))"

text \<open>What one poll of a job's adapter gives: its result or, in its place, that of the timeout\<close>
definition polled_result :: "string \<Rightarrow> provider_submission \<Rightarrow> 'w adapter \<Rightarrow> string \<Rightarrow> ('w, 'z, poll_result option) exe" where
  "polled_result job_id submission adapter now =
     py_bind (on_world (ad_poll adapter submission now)) (\<lambda>polled. case polled of
         None \<Rightarrow> timeout_poll_result job_id submission adapter now
       | Some r \<Rightarrow> py_bind (py_lift (apply_reliability_progress r submission now)) (\<lambda>r'.
           if po_decision r' \<noteq> None then py_return (Some r')
           else py_bind (timeout_poll_result job_id (po_submission r') adapter now) (\<lambda>timeout.
             py_return (case timeout of Some t \<Rightarrow> Some t | None \<Rightarrow> Some r'))))"

definition process_active_job :: "string \<Rightarrow> provider_submission \<Rightarrow> string \<Rightarrow> ('w, 'z, execution_update list) exe" where
  "process_active_job job_id submission now =
     py_bind (py_gets (\<lambda>s. adapter_for (sb_provider submission) (ex_registry s))) (\<lambda>adapter. case adapter of
         None \<Rightarrow> py_then (pop_active job_id) (py_return [])
       | Some a \<Rightarrow> py_bind (polled_result job_id submission a now) (\<lambda>polled. case polled of
             None \<Rightarrow> py_return []
           | Some r \<Rightarrow>
               py_then (py_modify (\<lambda>s. s\<lparr>ex_active := dict_set job_id (po_submission r) (ex_active s)\<rparr>)) (
               py_then (persist_submission job_id (terminal_pending_decision (po_decision r)) (po_items r) []) (
               if \<not> should_emit_update r then py_return []
               else py_then (if terminal_pending_decision (po_decision r) \<noteq> None
                   then py_then (pop_active job_id) (pop_context job_id) else py_return ()) (
                 py_return [\<lparr>eu_job_id = job_id, eu_items = po_items r, eu_decision = po_decision r\<rparr>])))))"

fun process_active_jobs :: "(string \<times> provider_submission) list \<Rightarrow> string list \<Rightarrow> string \<Rightarrow> ('w, 'z, execution_update list) exe" where
  "process_active_jobs [] replayed now = py_return []"
| "process_active_jobs ((job_id, submission) # rest) replayed now =
     py_bind (if job_id \<in> set replayed then py_return [] else process_active_job job_id submission now) (\<lambda>updates.
     py_bind (process_active_jobs rest replayed now) (\<lambda>others. py_return (updates @ others)))"

definition poll_updates :: "('w, 'z, execution_update list) exe" where
  "poll_updates = py_bind read_clock (\<lambda>now.
     py_bind drain_pending_replays (\<lambda>updates.
     py_bind (py_gets ex_active) (\<lambda>active.
     py_bind (process_active_jobs active (map eu_job_id updates) now) (\<lambda>others. py_return (updates @ others)))))"

section \<open>Restoring\<close>

record restore_result =
  rr_job_id :: string
  rr_agent_name :: string
  rr_provider :: string
  rr_status :: string
  rr_reason :: string
  rr_resume_capable :: bool
  rr_pending_items_count :: int
  rr_decision :: "completion_decision option"

definition rr_restored :: "restore_result \<Rightarrow> bool" where
  "rr_restored r \<longleftrightarrow> rr_status r \<in> {''restored'', ''terminal_pending'', ''replay_pending''}"

definition restore_outcome :: "job_record \<Rightarrow> string \<Rightarrow> string \<Rightarrow> bool \<Rightarrow> nat \<Rightarrow> completion_decision option \<Rightarrow> restore_result" where
  "restore_outcome job status reason resume_capable n decision = \<lparr>rr_job_id = jr_job_id job, rr_agent_name = jr_agent_name job,
     rr_provider = jr_provider job, rr_status = status, rr_reason = reason, rr_resume_capable = resume_capable,
     rr_pending_items_count = int n, rr_decision = decision\<rparr>"

definition abandon_restore :: "job_record \<Rightarrow> string \<Rightarrow> bool \<Rightarrow> nat \<Rightarrow> ('w, 'z, restore_result) exe" where
  "abandon_restore job reason resume_capable n = py_then (state_remove (jr_job_id job)) (
     py_return (restore_outcome job ''abandoned'' reason resume_capable n None))"

definition recover_pending_items :: "string \<Rightarrow> persisted_execution \<Rightarrow> ('w, 'z, completion_item list) exe" where
  "recover_pending_items job_id p = (let items = filter_pending_items p in
     py_then (if items = [] then py_return ()
       else py_modify (\<lambda>s. s\<lparr>ex_replays := dict_set job_id (items, pe_pending_decision p) (ex_replays s)\<rparr>)) (py_return items))"

text \<open>\<open>runtime_context or persisted.runtime_context\<close>, then the adapter's \<open>resume\<close>\<close>
definition resume_execution :: "'w adapter \<Rightarrow> job_record \<Rightarrow> persisted_execution \<Rightarrow> completion_item list \<Rightarrow>
    provider_runtime_context option \<Rightarrow> ('w, 'z, restore_result) exe" where
  "resume_execution adapter job p items context =
     (if \<not> pe_resume_capable p \<or> ad_resume adapter = None
      then abandon_restore job ''provider_resume_unsupported'' (pe_resume_capable p) (length items)
      else case ad_resume adapter of None \<Rightarrow> abandon_restore job ''provider_resume_unsupported'' (pe_resume_capable p) (length items)
        | Some resume \<Rightarrow> py_bind read_clock (\<lambda>now.
            py_bind (on_world (resume job (pe_submission p) context p now)) (\<lambda>resumed. case resumed of
                None \<Rightarrow> abandon_restore job ''provider_resume_rejected'' (pe_resume_capable p) (length items)
              | Some submission \<Rightarrow>
                  py_then (py_modify (\<lambda>s. s\<lparr>ex_active := dict_set (jr_job_id job) submission (ex_active s),
                    ex_runtime_contexts := dict_set (jr_job_id job) context (ex_runtime_contexts s)\<rparr>)) (
                  py_then (persist_submission (jr_job_id job) (pe_pending_decision p) items (pe_applied_event_seqs p)) (
                  py_return (if items \<noteq> [] then restore_outcome job ''replay_pending'' ''pending_items_recovered'' True (length items) None
                    else restore_outcome job ''restored'' ''provider_resumed'' True 0 None))))))"

definition restore_submission :: "job_record \<Rightarrow> provider_runtime_context option \<Rightarrow> ('w, 'z, restore_result) exe" where
  "restore_submission job context =
     py_bind (py_gets (\<lambda>s. (jr_job_id job \<in> fst ` set (ex_active s), ex_store s))) (\<lambda>(active, store).
     if active then py_return (restore_outcome job ''restored'' ''already_active'' True 0 None)
     else if store = None then py_return (restore_outcome job ''missing'' ''state_store_disabled'' False 0 None)
     else py_bind (py_gets (\<lambda>s. adapter_for (jr_provider job) (ex_registry s))) (\<lambda>adapter. case adapter of
         None \<Rightarrow> abandon_restore job ''adapter_missing'' False 0
       | Some a \<Rightarrow> py_bind (state_load (jr_job_id job)) (\<lambda>found. case found of
             None \<Rightarrow> py_return (restore_outcome job ''missing'' ''state_missing'' False 0 None)
           | Some p \<Rightarrow> if sb_provider (pe_submission p) \<noteq> jr_provider job
               then abandon_restore job ''provider_mismatch'' (pe_resume_capable p) (length (pe_pending_items p))
               else py_bind (recover_pending_items (jr_job_id job) p) (\<lambda>items.
                 if pe_pending_decision p \<noteq> None \<and> items = []
                 then py_return (restore_outcome job ''terminal_pending'' ''terminal_decision_recovered'' (pe_resume_capable p) 0
                   (pe_pending_decision p))
                 else resume_execution a job p items (if context \<noteq> None then context else pe_runtime_context p)))))"

definition execution_summary :: "('w, 'z, payload) exe" where
  "execution_summary = py_gets (\<lambda>s. let states = (case ex_store s of Some d \<Rightarrow> map snd d | None \<Rightarrow> []);
       good = filter pe_resume_capable states; bad = filter (\<lambda>p. \<not> pe_resume_capable p) states;
       providers = (\<lambda>ps. JList (map JStr (sort (remdups (map (sb_provider \<circ> pe_submission) ps))))) in
     [(''active_execution_count'', JInt (int (length states))), (''recoverable_execution_count'', JInt (int (length good))),
      (''nonrecoverable_execution_count'', JInt (int (length bad))),
      (''pending_items_count'', JInt (int (length (filter (\<lambda>p. pe_pending_items p \<noteq> []) states)))),
      (''terminal_pending_count'', JInt (int (length (filter (\<lambda>p. pe_pending_decision p \<noteq> None) states)))),
      (''recoverable_execution_providers'', providers good), (''nonrecoverable_execution_providers'', providers bad)])"

end
