(* ===== verification/Dispatcher_Completion.thy ===== *)
theory Dispatcher_Completion
  imports Provider_Execution
begin

text \<open>
  Ending a job, the part without the message bureau: the snapshot writer (\<open>services/snapshot_writer.py\<close>), how
  a terminal decision is merged with what the tracker and the stored snapshot know
  (\<open>dispatcher_runtime/completion_runtime\<close>), and the terminal row, events and views
  (\<open>finalization_runtime/persistence.py\<close>, \<open>artifacts.py\<close>). The state is that of the whole daemon: the
  execution service may be absent, two options come from the dispatcher's constructor, the workspace of an
  agent from the path layout. The runtime service's \<open>ensure_ready\<close> and \<open>refresh_provider_binding\<close>, which
  start and probe terminal panes, are parameters that may change the registry and the outer world.
\<close>

record 'w daemon = "'w executing" +
  dm_has_execution :: bool
  dm_auto_reply_delivery :: bool
  dm_require_actionable :: bool
  dm_last_sweep_at :: "rat option"
  dm_workspace_path :: "string \<Rightarrow> string"
  dm_ensure_ready :: "string \<Rightarrow> (registry \<times> 'w, agent_runtime option) py"
  dm_refresh_provider_binding :: "string \<Rightarrow> (registry \<times> 'w, agent_runtime option) py"

type_synonym ('w, 'z, 'a) dmn = "(('w, 'z) daemon_scheme, 'a) py"

section \<open>Snapshots\<close>

definition PREVIEW_LIMIT :: nat where "PREVIEW_LIMIT = 240"

definition snapshot_preview :: "string \<Rightarrow> string" where
  "snapshot_preview reply = (let t = py_strip reply in
     if length t \<le> PREVIEW_LIMIT then t else py_rstrip (take PREVIEW_LIMIT t) @ ''...'')"

definition snapshot_load :: "string \<Rightarrow> ('z, completion_snapshot option) cpl" where
  "snapshot_load job_id = py_gets (\<lambda>s. map_of (cd_snapshots s) job_id)"

definition write_completion :: "string \<Rightarrow> string \<Rightarrow> completion_family \<Rightarrow> completion_state \<Rightarrow> completion_decision \<Rightarrow>
    string option \<Rightarrow> ('z, completion_snapshot) cpl" where
  "write_completion job_id agent_name family state decision updated_at =
     py_bind (given_or_clock updated_at) (\<lambda>timestamp.
     py_bind (py_lift (CompletionSnapshot \<lparr>sn_job_id = job_id, sn_agent_name = agent_name, sn_profile_family = family,
        sn_state = state, sn_latest_decision = decision, sn_latest_reply_preview = snapshot_preview (de_reply decision),
        sn_updated_at = timestamp\<rparr>)) (\<lambda>snapshot.
     py_then (py_modify (\<lambda>s. s\<lparr>cd_snapshots := dict_set job_id snapshot (cd_snapshots s)\<rparr>)) (py_return snapshot)))"

definition write_pending :: "string \<Rightarrow> string \<Rightarrow> completion_family \<Rightarrow> ('z, completion_snapshot) cpl" where
  "write_pending job_id agent_name family = py_bind (py_lift (pending_decision None)) (\<lambda>decision.
     write_completion job_id agent_name family (CompletionState None) decision None)"

definition profile_family :: "string \<Rightarrow> ('z, completion_family) cpl" where
  "profile_family agent_name = py_bind (on_registry (spec_for agent_name)) (\<lambda>spec.
     py_bind (py_gets cd_catalog) (\<lambda>catalog.
     py_bind (py_lift (resolve_completion_manifest catalog (spec_provider spec) (spec_runtime_mode spec))) (\<lambda>manifest.
     py_return (cm_completion_family manifest))))"

section \<open>Merging decisions and states\<close>

definition on_tracker :: "'a tracking \<Rightarrow> tracker_service \<Rightarrow> ('z, 'a) cpl" where
  "on_tracker m t s = (case m t of (r, t') \<Rightarrow> (r, s\<lparr>cd_tracker := Some t'\<rparr>))"

definition with_tracker :: "(tracker_service \<Rightarrow> ('z, 'a) cpl) \<Rightarrow> 'a \<Rightarrow> ('z, 'a) cpl" where
  "with_tracker f absent = py_bind (py_gets cd_tracker) (\<lambda>t. case t of None \<Rightarrow> py_return absent | Some x \<Rightarrow> f x)"

definition tracked_view :: "string \<Rightarrow> ('z, tracker_view option) cpl" where
  "tracked_view job_id = with_tracker (on_tracker (tracker_current job_id)) None"

text \<open>\<open>a or b\<close> of optional texts and of optional cursors\<close>
definition text_or :: "string option \<Rightarrow> string option \<Rightarrow> string option" where
  "text_or a b = (if opt_truthy a then a else b)"

definition cursor_or :: "completion_cursor option \<Rightarrow> completion_cursor option \<Rightarrow> completion_cursor option" where
  "cursor_or a b = (case a of None \<Rightarrow> b | Some c \<Rightarrow> Some c)"

definition state_flag :: "(completion_state \<Rightarrow> bool) \<Rightarrow> completion_state option \<Rightarrow> bool" where
  "state_flag f st = (case st of None \<Rightarrow> False | Some x \<Rightarrow> f x)"

definition state_value :: "(completion_state \<Rightarrow> 'v option) \<Rightarrow> completion_state option \<Rightarrow> 'v option" where
  "state_value f st = (case st of None \<Rightarrow> None | Some x \<Rightarrow> f x)"

text \<open>
  The reply falls back to the tracker's and then to the snapshot's. With neither, the expression is
  \<open>None\<close>, which every reader of the reply treats as the empty text; the model has the empty text.
\<close>
definition merged_reply :: "completion_decision \<Rightarrow> tracker_view option \<Rightarrow> completion_snapshot option \<Rightarrow> string" where
  "merged_reply decision tracked prior =
     (if de_reply decision \<noteq> [] then de_reply decision
      else case tracked of
          Some v \<Rightarrow> if de_reply (tv_decision v) \<noteq> [] then de_reply (tv_decision v)
            else (case prior of Some p \<Rightarrow> de_reply (sn_latest_decision p) | None \<Rightarrow> [])
        | None \<Rightarrow> (case prior of Some p \<Rightarrow> de_reply (sn_latest_decision p) | None \<Rightarrow> []))"

definition merge_decision :: "completion_decision \<Rightarrow> tracker_view option \<Rightarrow> completion_snapshot option \<Rightarrow> completion_decision result" where
  "merge_decision decision tracked prior =
     (let ts = map_option tv_state tracked; ps = map_option sn_state prior in
      CompletionDecision (decision\<lparr>de_reply := merged_reply decision tracked prior,
        de_anchor_seen := de_anchor_seen decision \<or> state_flag st_anchor_seen ts \<or> state_flag st_anchor_seen ps,
        de_reply_started := de_reply_started decision \<or> state_flag st_reply_started ts \<or> state_flag st_reply_started ps,
        de_reply_stable := de_reply_stable decision \<or> state_flag st_reply_stable ts \<or> state_flag st_reply_stable ps,
        de_provider_turn_ref := text_or (de_provider_turn_ref decision)
          (text_or (state_value st_provider_turn_ref ts) (state_value st_provider_turn_ref ps)),
        de_source_cursor := cursor_or (de_source_cursor decision)
          (cursor_or (state_value st_latest_cursor ts) (state_value st_latest_cursor ps))\<rparr>))"

definition merge_terminal_decision :: "string \<Rightarrow> completion_decision \<Rightarrow> completion_snapshot option \<Rightarrow> ('z, completion_decision) cpl" where
  "merge_terminal_decision job_id decision prior = py_bind (tracked_view job_id) (\<lambda>tracked.
     py_lift (merge_decision decision tracked prior))"

definition build_terminal_state :: "completion_decision \<Rightarrow> completion_state option \<Rightarrow> completion_state" where
  "build_terminal_state decision prior =
     \<lparr>st_anchor_seen = (de_anchor_seen decision \<or> state_flag st_anchor_seen prior),
      st_reply_started = (de_reply_started decision \<or> state_flag st_reply_started prior),
      st_reply_stable = (de_reply_stable decision \<or> state_flag st_reply_stable prior), st_tool_active = False,
      st_subagent_activity_seen = state_flag st_subagent_activity_seen prior,
      st_last_reply_hash = state_value st_last_reply_hash prior,
      st_last_reply_at = text_or (de_finished_at decision) (state_value st_last_reply_at prior),
      st_stable_since = state_value st_stable_since prior,
      st_provider_turn_ref = text_or (de_provider_turn_ref decision) (state_value st_provider_turn_ref prior),
      st_latest_cursor = cursor_or (de_source_cursor decision) (state_value st_latest_cursor prior), st_terminal = True\<rparr>"

text \<open>A cursor's time stamp may be absent\<close>
definition resolve_tracker_timestamp :: "tracker_view \<Rightarrow> string option \<Rightarrow> ('z, string option) cpl" where
  "resolve_tracker_timestamp tracked updated_at = (case updated_at of Some t \<Rightarrow> py_return (Some t)
     | None \<Rightarrow> (case de_source_cursor (tv_decision tracked) of
           Some c \<Rightarrow> py_return (cu_updated_at c)
         | None \<Rightarrow> py_bind read_clock (\<lambda>now. py_return (Some now))))"

text \<open>
  The answer is the time of the write. It is \<open>None\<close> when nothing was written, and also when the
  decision's cursor has no time stamp: the snapshot is then written with the time of the clock, but no
  event follows.
\<close>
definition apply_tracker_view_to :: "job_record \<Rightarrow> tracker_view \<Rightarrow> completion_family \<Rightarrow> string option \<Rightarrow> ('z, string option) cpl" where
  "apply_tracker_view_to current tracked family updated_at =
     py_bind (snapshot_load (jr_job_id current)) (\<lambda>prior.
     if (case prior of None \<Rightarrow> False
         | Some p \<Rightarrow> (st_terminal (sn_state p) \<and> \<not> de_terminal (tv_decision tracked)) \<or>
             (sn_state p = tv_state tracked \<and> sn_latest_decision p = tv_decision tracked))
     then py_return None
     else py_bind (resolve_tracker_timestamp tracked updated_at) (\<lambda>timestamp.
       py_then (write_completion (jr_job_id current) (jr_agent_name current) family (tv_state tracked) (tv_decision tracked) timestamp)
       (py_return timestamp)))"

definition apply_tracker_view :: "job_record \<Rightarrow> tracker_view \<Rightarrow> string option \<Rightarrow> ('z, bool) cpl" where
  "apply_tracker_view current tracked updated_at = py_bind (profile_family (jr_agent_name current)) (\<lambda>family.
     py_bind (apply_tracker_view_to current tracked family updated_at) (\<lambda>timestamp. case timestamp of
         None \<Rightarrow> py_return False
       | Some t \<Rightarrow> py_then (append_event current ''completion_state_updated'' (state_to_record (tv_state tracked)) t)
           (py_return True)))"

section \<open>The terminal row\<close>

definition spill_terminal_reply_if_needed :: "job_record \<Rightarrow> completion_decision \<Rightarrow> string \<Rightarrow> ('z, completion_decision) cpl" where
  "spill_terminal_reply_if_needed current decision finished_at =
     (case jget (de_diagnostics decision) ''reply_artifact'' of JObj _ \<Rightarrow> py_return decision
      | _ \<Rightarrow> py_bind (maybe_spill_text (de_reply decision) ''completion-reply'' (jr_job_id current)
           (''CCB completion reply for job '' @ jr_job_id current @ '' is larger than 4 KiB and was stored as an artifact.'')
           (Some finished_at)) (\<lambda>(reply, artifact). case artifact of
             None \<Rightarrow> py_return decision
           | Some a \<Rightarrow> py_lift (CompletionDecision (decision\<lparr>de_reply := reply,
               de_diagnostics := dict_set ''reply_artifact'' (JObj a) (de_diagnostics decision)\<rparr>))))"

fun job_status_of :: "completion_status \<Rightarrow> job_status" where
  "job_status_of CS_COMPLETED = JS_COMPLETED"
| "job_status_of CS_CANCELLED = JS_CANCELLED"
| "job_status_of CS_FAILED = JS_FAILED"
| "job_status_of CS_INCOMPLETE = JS_INCOMPLETE"

fun terminal_event_by_status :: "job_status \<Rightarrow> string option" where
  "terminal_event_by_status JS_COMPLETED = Some ''job_completed''"
| "terminal_event_by_status JS_CANCELLED = Some ''job_cancelled''"
| "terminal_event_by_status JS_FAILED = Some ''job_failed''"
| "terminal_event_by_status JS_INCOMPLETE = Some ''job_incomplete''"
| "terminal_event_by_status _ = None"

definition finish_tracker :: "string \<Rightarrow> ('z, unit) cpl" where
  "finish_tracker job_id = with_tracker (on_tracker (tracker_finish job_id)) ()"

definition when_execution :: "('w, 'z, unit) dmn \<Rightarrow> ('w, 'z, unit) dmn" where
  "when_execution m = py_bind (py_gets dm_has_execution) (\<lambda>enabled. if enabled then m else py_return ())"

definition persist_terminal_completion :: "job_record \<Rightarrow> completion_decision \<Rightarrow> string \<Rightarrow>
    ('w, 'z, job_record \<times> completion_decision \<times> completion_snapshot option) dmn" where
  "persist_terminal_completion current decision finished_at =
     py_bind (snapshot_load (jr_job_id current)) (\<lambda>prior.
     py_bind (merge_terminal_decision (jr_job_id current) decision prior) (\<lambda>merged.
     py_bind (spill_terminal_reply_if_needed current merged finished_at) (\<lambda>final.
     py_then (finish_tracker (jr_job_id current)) (
     py_bind (profile_family (jr_agent_name current)) (\<lambda>family.
     py_then (write_completion (jr_job_id current) (jr_agent_name current) family
       (build_terminal_state final (map_option sn_state prior)) final (Some finished_at)) (
     py_then (append_event current ''completion_terminal'' (decision_to_record final) finished_at) (
     py_bind (py_lift (JobRecord (current\<lparr>jr_status := job_status_of (de_status final),
        jr_terminal_decision := Some (decision_to_record final), jr_updated_at := finished_at\<rparr>))) (\<lambda>terminal.
     py_then (append_job terminal) (
     py_then (append_event terminal (str_or_empty (terminal_event_by_status (jr_status terminal)))
       [(''status'', JStr (job_status_value (jr_status terminal)))] finished_at) (
     py_then (change_state (clear_active_for (jr_target_kind current) (jr_target_name current) (Some (jr_job_id current)))) (
     py_then (when_execution (execution_finish (jr_job_id current))) (
     py_then (if jr_target_kind current = TK_AGENT then sync_runtime (jr_agent_name current) (Some AS_IDLE) else py_return ()) (
     py_return (terminal, final, prior))))))))))))))"

definition persist_reply_decision :: "job_record \<Rightarrow> job_record \<Rightarrow> completion_decision \<Rightarrow> completion_snapshot option \<Rightarrow> string \<Rightarrow>
    ('w, 'z, job_record) dmn" where
  "persist_reply_decision current terminal decision prior finished_at =
     py_bind (py_lift (JobRecord (terminal\<lparr>jr_terminal_decision := Some (decision_to_record decision)\<rparr>))) (\<lambda>terminal'.
     py_then (append_job terminal') (
     py_bind (profile_family (jr_agent_name current)) (\<lambda>family.
     py_then (write_completion (jr_job_id current) (jr_agent_name current) family
       (build_terminal_state decision (map_option sn_state prior)) decision (Some finished_at)) (
     py_return terminal'))))"

end
