(* ===== verification/Callback_Continuations.thy ===== *)
theory Callback_Continuations
  imports Dispatcher_Submission
begin

text \<open>
  The life of a callback edge after it was recorded (\<open>dispatcher_runtime/callbacks.py\<close>, second half): the child's
  result becomes a continuation job of the parent's agent, a delegated parent job is rewritten, a
  failed or expired edge is closed with a notice to the original caller, and edges whose child has
  ended while the daemon was down are repaired.
\<close>

definition CALLBACK_CONTINUATION_MESSAGE_TYPE :: string where
  "CALLBACK_CONTINUATION_MESSAGE_TYPE = ''callback_continuation''"

definition TERMINAL_CALLBACK_STATES :: "callback_edge_state list" where
  "TERMINAL_CALLBACK_STATES = [CB_CONTINUATION_SUBMITTED, CB_DONE, CB_FAILED, CB_TIMED_OUT]"

section \<open>Looking edges, replies and jobs up\<close>

definition delegated_parent_edge :: "job_record \<Rightarrow> ('z, callback_edge option) disp" where
  "delegated_parent_edge job = edge_for_parent_job (jr_job_id job)"

definition callback_child_edge :: "job_record \<Rightarrow> ('z, callback_edge option) disp" where
  "callback_child_edge job = py_bind (edge_for_child_job (jr_job_id job)) (\<lambda>edge. case edge of
       Some e \<Rightarrow> py_return (Some e)
     | None \<Rightarrow> py_bind (message_for_job job) (\<lambda>message. case message of
           None \<Rightarrow> py_return None
         | Some m \<Rightarrow> edge_for_child_message (msg_message_id m)))"

definition route_edge_id :: "job_record \<Rightarrow> string" where
  "route_edge_id job = py_strip (str_or (jget (me_route_options (jr_request job)) ''callback_edge_id'') '''')"

definition existing_continuation_job :: "callback_edge \<Rightarrow> ('z, job_record option) disp" where
  "existing_continuation_job edge = py_bind (on_logs (job_list_target (ce_callback_target_agent edge))) (\<lambda>jobs.
     py_return (find_last_in (\<lambda>job. route_edge_id job = ce_edge_id edge) jobs))"

definition latest_child_reply :: "callback_edge \<Rightarrow> ('z, reply_record option) disp" where
  "latest_child_reply edge =
     py_bind (if opt_truthy (ce_child_reply_id edge) then reply_get_latest (str_or_empty (ce_child_reply_id edge))
              else py_return None) (\<lambda>known. case known of
       Some r \<Rightarrow> py_return (Some r)
     | None \<Rightarrow> py_bind (reply_list_message (ce_child_message_id edge)) (\<lambda>replies.
         py_return (find_last_in (\<lambda>r. \<not> py_truthy (jget (rep_diagnostics r) ''notice'')) replies)))"

definition job_for_reply :: "reply_record option \<Rightarrow> ('z, job_record option) disp" where
  "job_for_reply reply = (case reply of None \<Rightarrow> py_return None
     | Some r \<Rightarrow> py_bind (attempt_get_latest (rep_attempt_id r)) (\<lambda>attempt. case attempt of
           None \<Rightarrow> py_return None
         | Some a \<Rightarrow> get_job (att_job_id a)))"

text \<open>\<open>dispatcher._message_bureau.callback_edge(edge.edge_id) or edge\<close>\<close>
definition latest_edge :: "callback_edge \<Rightarrow> ('z, callback_edge) disp" where
  "latest_edge edge = py_bind (edge_get_latest (ce_edge_id edge)) (\<lambda>found.
     py_return (case found of Some e \<Rightarrow> e | None \<Rightarrow> edge))"

definition callback_edge_expired :: "callback_edge \<Rightarrow> string \<Rightarrow> bool" where
  "callback_edge_expired edge now = (if \<not> opt_truthy (ce_timeout_at edge) then False
     else case rbind (parse_utc_timestamp now) (\<lambda>a. rbind (parse_utc_timestamp (str_or_empty (ce_timeout_at edge))) (\<lambda>b.
         datetime_diff a b)) of Inl _ \<Rightarrow> False | Inr us \<Rightarrow> us \<ge> 0)"

section \<open>The continuation request\<close>

definition artifact_lines :: "payload \<Rightarrow> string list" where
  "artifact_lines artifact = (let size = artifact_field artifact ''bytes''; digest = artifact_field artifact ''sha256'' in
     (''path: '' @ artifact_field artifact ''path'') #
     (if size = [] then [] else [''bytes: '' @ size]) @ (if digest = [] then [] else [''sha256: '' @ digest]))"

definition reply_summary :: "completion_decision \<Rightarrow> string" where
  "reply_summary decision = (case jget (de_diagnostics decision) ''reply_artifact'' of
       JObj artifact \<Rightarrow> py_rstrip (join ''\<newline>''
         ([if de_reply decision \<noteq> [] then de_reply decision else ''(reply body stored as artifact)'', [],
           ''Full child reply artifact:''] @ artifact_lines artifact))
     | _ \<Rightarrow> de_reply decision)"

definition continuation_body :: "callback_edge \<Rightarrow> job_record \<Rightarrow> completion_decision \<Rightarrow> string" where
  "continuation_body edge child_job decision =
     (let original = py_rstrip (str_or (jget (ce_diagnostics edge) ''parent_body'') '''');
          child_task = py_rstrip (str_or (jget (ce_diagnostics edge) ''child_body'') '''');
          child_reply = reply_summary decision
      in join ''\<newline>''
        ([''CCB callback continuation.'', [], ''Original caller: '' @ ce_original_caller edge,
          ''Parent job: '' @ ce_parent_job_id edge, ''Child job: '' @ jr_job_id child_job,
          ''Child agent: '' @ jr_agent_name child_job, ''Child status: '' @ job_status_value (jr_status child_job)] @
         (if original = [] then [] else [[], ''Original task context:'', original]) @
         (if child_task = [] then [] else [[], ''Delegated child task:'', child_task]) @
         [[], ''Child result:'', if child_reply = [] then ''(no reply body)'' else child_reply, [],
          ''Continue the original task using the child result. Reply to the original caller with the final result.'']))"

definition continuation_request :: "callback_edge \<Rightarrow> job_record \<Rightarrow> completion_decision \<Rightarrow> ('z, message_envelope) disp" where
  "continuation_request edge child_job decision =
     py_bind (maybe_spill_text (continuation_body edge child_job decision) ''callback-continuation'' (ce_edge_id edge)
       (''CCB callback continuation '' @ ce_edge_id edge @ '' is larger than 4 KiB and was stored as an artifact.'') None) (\<lambda>(body, artifact).
     py_lift (MessageEnvelope \<lparr>me_project_id = me_project_id (jr_request child_job), me_to_agent = ce_callback_target_agent edge,
       me_from_actor = ce_original_caller edge, me_body = body, me_task_id = ce_original_task_id edge,
       me_reply_to = Some (ce_parent_message_id edge), me_message_type = CALLBACK_CONTINUATION_MESSAGE_TYPE,
       me_delivery_scope = DS_SINGLE, me_silence_on_success = False,
       me_route_options = [(''mode'', JStr ''callback_continuation''), (''callback_edge_id'', JStr (ce_edge_id edge)),
         (''callback_parent_job_id'', JStr (ce_parent_job_id edge)), (''callback_child_job_id'', JStr (ce_child_job_id edge)),
         (''callback_child_message_id'', JStr (ce_child_message_id edge))],
       me_body_artifact = artifact\<rparr>))"

definition submit_continuation_job :: "message_envelope \<Rightarrow> string \<Rightarrow> string \<Rightarrow> ('z, string \<times> string) disp" where
  "submit_continuation_job request parent_message_id accepted_at =
     py_then (on_registry (spec_for (me_to_agent request))) (
     py_then (validate_targets_available [me_to_agent request]) (
     py_bind (on_registry (spec_for (me_to_agent request))) (\<lambda>spec.
     py_bind (new_id ''job'') (\<lambda>job_id.
     py_bind (pending_status TK_AGENT (me_to_agent request)) (\<lambda>status.
     py_bind (py_lift (JobRecord \<lparr>jr_job_id = job_id, jr_submission_id = None, jr_agent_name = me_to_agent request,
        jr_provider = spec_provider spec, jr_request = request, jr_status = status, jr_terminal_decision = None,
        jr_cancel_requested_at = None, jr_created_at = accepted_at, jr_updated_at = accepted_at, jr_workspace_path = None,
        jr_target_kind = TK_AGENT, jr_target_name = me_to_agent request, jr_provider_instance = None,
        jr_provider_options = []\<rparr>)) (\<lambda>job.
     py_then (append_job job) (
     py_then (append_event job (if status = JS_ACCEPTED then ''job_accepted'' else ''job_queued'')
       [(''status'', JStr (job_status_value status)), (''callback_continuation'', JBool True)] accepted_at) (
     py_then (change_state (enqueue_for (jr_target_kind job) (jr_target_name job) (jr_job_id job))) (
     py_then (sync_runtime (jr_agent_name job) None) (
     py_then (record_retry_attempt parent_message_id job accepted_at) (
     py_bind (message_get_latest parent_message_id) (\<lambda>parent.
     py_then (case parent of None \<Rightarrow> py_return ()
       | Some m \<Rightarrow> append_submission_job (msg_submission_id m) (jr_job_id job) accepted_at) (
     py_return (jr_job_id job, parent_message_id))))))))))))))"

section \<open>Failing an edge\<close>

definition callback_failure_reply :: "callback_edge \<Rightarrow> string \<Rightarrow> string \<Rightarrow> string" where
  "callback_failure_reply edge reason detail =
     ''CCB callback failed for delegated task '' @ ce_child_job_id edge @ '' while continuing parent job '' @
     ce_parent_job_id edge @ ''. Reason: '' @ reason @ (if detail = [] then [] else '': '' @ detail)"

definition record_callback_failure_notice :: "callback_edge \<Rightarrow> string \<Rightarrow> string \<Rightarrow> string \<Rightarrow> ('z, unit) disp" where
  "record_callback_failure_notice edge reason detail updated_at =
     py_bind (get_job (ce_parent_job_id edge)) (\<lambda>parent. case parent of
         None \<Rightarrow> set_message_state (ce_parent_message_id edge) MSG_FAILED updated_at
       | Some job \<Rightarrow> py_then (record_notice job (callback_failure_reply edge reason detail)
           (Some [(''notice'', JBool True), (''callback_edge_id'', JStr (ce_edge_id edge)), (''callback_failure'', JBool True),
             (''reason'', JStr reason), (''detail'', JStr detail)]) updated_at REP_FAILED (Some (ce_original_caller edge)))
           (py_return ()))"

definition fail_callback_edge :: "callback_edge \<Rightarrow> string \<Rightarrow> string \<Rightarrow> string \<Rightarrow> callback_edge_state \<Rightarrow> ('z, callback_edge) disp" where
  "fail_callback_edge edge reason detail updated_at state = py_bind (latest_edge edge) (\<lambda>latest.
     if ce_state latest \<in> set TERMINAL_CALLBACK_STATES then py_return latest
     else py_bind (edge_update latest (\<lambda>e. e\<lparr>ce_state := state,
         ce_child_status := (if opt_truthy (ce_child_status e) then ce_child_status e else Some (edge_state_value state)),
         ce_updated_at := updated_at,
         ce_diagnostics := dict_set ''failure_detail'' (JStr detail) (dict_set ''failure_reason'' (JStr reason) (ce_diagnostics e))\<rparr>)) (\<lambda>failed.
       py_then (record_callback_failure_notice failed reason detail updated_at) (py_return failed)))"

section \<open>Submitting the continuation\<close>

definition submit_callback_continuation :: "callback_edge \<Rightarrow> job_record \<Rightarrow> string option \<Rightarrow> completion_decision \<Rightarrow> string \<Rightarrow>
    ('z, callback_edge) disp" where
  "submit_callback_continuation edge child_job child_reply_id decision finished_at =
     py_bind (edge_for_child_job (jr_job_id child_job)) (\<lambda>found.
     let latest = (case found of Some e \<Rightarrow> e | None \<Rightarrow> edge); child_status = Some (job_status_value (jr_status child_job)) in
     if ce_state latest \<in> set TERMINAL_CALLBACK_STATES then py_return latest
     else py_bind (existing_continuation_job latest) (\<lambda>existing. case existing of
         Some continuation \<Rightarrow> py_bind (latest_child_reply latest) (\<lambda>persisted.
           edge_update latest (\<lambda>e. e\<lparr>
             ce_state := (if jr_status continuation \<in> set TERMINAL_JOB_STATES then CB_DONE else CB_CONTINUATION_SUBMITTED),
             ce_child_reply_id := (if opt_truthy child_reply_id then child_reply_id
               else if opt_truthy (ce_child_reply_id e) then ce_child_reply_id e else map_option rep_reply_id persisted),
             ce_child_status := child_status, ce_continuation_job_id := Some (jr_job_id continuation),
             ce_continuation_message_id := Some (ce_parent_message_id e), ce_updated_at := finished_at\<rparr>))
       | None \<Rightarrow>
           py_bind (edge_update latest (\<lambda>e. e\<lparr>ce_state := CB_CHILD_COMPLETED, ce_child_reply_id := child_reply_id,
             ce_child_status := child_status, ce_updated_at := finished_at\<rparr>)) (\<lambda>updated.
           py_bind (py_try
             (py_bind (continuation_request updated child_job decision) (\<lambda>request.
              py_bind (submit_continuation_job request (ce_parent_message_id updated) finished_at) (\<lambda>ids. py_return (Inr ids))))
             (\<lambda>exc. py_return (Inl (fst (error_text exc))))) (\<lambda>outcome. case outcome of
               Inl detail \<Rightarrow> fail_callback_edge updated ''callback_continuation_submit_failed'' detail finished_at CB_FAILED
             | Inr (job_id, message_id) \<Rightarrow>
                 py_bind (edge_update updated (\<lambda>e. e\<lparr>ce_state := CB_CONTINUATION_SUBMITTED,
                   ce_continuation_job_id := Some job_id, ce_continuation_message_id := Some message_id,
                   ce_updated_at := finished_at\<rparr>)) (\<lambda>final.
                 py_then (append_event child_job ''callback_continuation_submitted''
                   [(''edge_id'', JStr (ce_edge_id final)), (''continuation_job_id'', JStr job_id),
                    (''continuation_message_id'', JStr message_id),
                    (''callback_target_agent'', JStr (ce_callback_target_agent final))] finished_at)
                 (py_return final))))))"

section \<open>Marking the ends\<close>

definition mark_callback_done :: "job_record \<Rightarrow> string \<Rightarrow> ('z, unit) disp" where
  "mark_callback_done job finished_at = (if route_edge_id job = [] then py_return ()
     else py_bind (edge_get_latest (route_edge_id job)) (\<lambda>edge. case edge of
         None \<Rightarrow> py_return ()
       | Some e \<Rightarrow> if ce_state e \<in> {CB_DONE, CB_FAILED, CB_TIMED_OUT} then py_return ()
           else py_then (edge_update e (\<lambda>x. x\<lparr>ce_state := CB_DONE, ce_updated_at := finished_at\<rparr>)) (py_return ())))"

definition mark_parent_message_waiting :: "callback_edge \<Rightarrow> string \<Rightarrow> ('z, unit) disp" where
  "mark_parent_message_waiting edge updated_at = (if ce_state edge \<in> {CB_FAILED, CB_TIMED_OUT, CB_DONE} then py_return ()
     else set_message_state (ce_parent_message_id edge) MSG_RUNNING updated_at)"

definition delegated_terminal_job :: "job_record \<Rightarrow> callback_edge \<Rightarrow> job_record result" where
  "delegated_terminal_job job edge = JobRecord (job\<lparr>jr_terminal_decision := Some (fold (\<lambda>(k, v). dict_set k v)
     [(''delegated'', JBool True), (''suppress_reply'', JBool True), (''callback_edge_id'', JStr (ce_edge_id edge)),
      (''callback_child_job_id'', JStr (ce_child_job_id edge))]
     (case jr_terminal_decision job of Some d \<Rightarrow> d | None \<Rightarrow> []))\<rparr>)"

definition persist_delegated_terminal_job :: "job_record \<Rightarrow> callback_edge \<Rightarrow> string \<Rightarrow> ('z, job_record) disp" where
  "persist_delegated_terminal_job job edge finished_at =
     py_bind (py_lift (delegated_terminal_job job edge)) (\<lambda>delegated.
     py_then (append_job delegated) (
     py_then (append_event delegated ''job_delegated_callback''
       [(''edge_id'', JStr (ce_edge_id edge)), (''callback_child_job_id'', JStr (ce_child_job_id edge)),
        (''callback_target_agent'', JStr (ce_callback_target_agent edge))] finished_at) (
     py_return delegated)))"

section \<open>Timeouts and repair\<close>

fun sweep_edges :: "callback_edge list \<Rightarrow> string \<Rightarrow> ('z, callback_edge list) disp" where
  "sweep_edges [] now = py_return []"
| "sweep_edges (edge # rest) now = py_bind (latest_edge edge) (\<lambda>latest.
     py_bind (if ce_state latest \<in> set TERMINAL_CALLBACK_STATES \<or> \<not> callback_edge_expired latest now then py_return []
       else py_bind (fail_callback_edge latest ''callback_timeout''
         ''callback child did not produce a continuation before timeout'' now CB_TIMED_OUT) (\<lambda>e. py_return [e])) (\<lambda>expired.
     py_bind (sweep_edges rest now) (\<lambda>others. py_return (expired @ others))))"

definition sweep_callback_timeouts :: "('z, callback_edge list) disp" where
  "sweep_callback_timeouts = py_bind pending_callback_edges (\<lambda>edges.
     if edges = [] then py_return [] else py_bind read_clock (\<lambda>now. sweep_edges edges now))"

definition decision_from_reply :: "reply_record option \<Rightarrow> job_record option \<Rightarrow> string \<Rightarrow> completion_decision option result" where
  "decision_from_reply reply child_job fallback_finished_at = (case (reply, child_job) of
       (Some r, Some j) \<Rightarrow> (case jr_terminal_decision j of None \<Rightarrow> Inr None
         | Some terminal \<Rightarrow>
             rbind (if py_truthy (jget terminal ''status'')
               then enum_of_json ''CompletionStatus'' completion_statuses completion_status_value (jget terminal ''status'')
               else enum_of_value ''CompletionStatus'' completion_statuses completion_status_value (job_status_value (jr_status j))) (\<lambda>status.
             rbind (if py_truthy (jget terminal ''confidence'')
               then enum_of_json ''CompletionConfidence'' completion_confidences completion_confidence_value (jget terminal ''confidence'')
               else Inr CC_DEGRADED) (\<lambda>confidence.
             rbind (to_dict_or_empty (jget terminal ''diagnostics'')) (\<lambda>diagnostics.
             rbind (if py_truthy (jget terminal ''reason'') then as_string (jget terminal ''reason'')
               else Inr (job_status_value (jr_status j))) (\<lambda>reason.
             rbind (opt_string (jget terminal ''provider_turn_ref'')) (\<lambda>turn_ref.
             rbind (if py_truthy (jget terminal ''finished_at'') then as_string (jget terminal ''finished_at'')
               else Inr (if rep_finished_at r \<noteq> [] then rep_finished_at r else fallback_finished_at)) (\<lambda>finished_at.
             rbind (CompletionDecision \<lparr>de_terminal = True, de_status = status, de_reason = Some reason,
               de_confidence = Some confidence, de_reply = rep_reply r, de_anchor_seen = py_truthy (jget terminal ''anchor_seen''),
               de_reply_started = py_truthy (jget terminal ''reply_started''),
               de_reply_stable = py_truthy (jget terminal ''reply_stable''), de_provider_turn_ref = turn_ref,
               de_source_cursor = None, de_finished_at = Some finished_at,
               de_diagnostics = (case artifact_or_none (rep_reply_artifact r) of None \<Rightarrow> diagnostics
                 | Some a \<Rightarrow> if ''reply_artifact'' \<in> fst ` set diagnostics then diagnostics
                     else dict_set ''reply_artifact'' (JObj a) diagnostics)\<rparr>) (\<lambda>d. Inr (Some d)))))))))
     | _ \<Rightarrow> Inr None)"

definition repair_callback_edge :: "callback_edge \<Rightarrow> ('z, callback_edge list) disp" where
  "repair_callback_edge edge = py_bind (latest_edge edge) (\<lambda>latest.
     if ce_state latest \<in> set TERMINAL_CALLBACK_STATES then py_return []
     else py_bind read_clock (\<lambda>now.
       if callback_edge_expired latest now \<or> opt_truthy (ce_continuation_job_id latest) then py_return []
       else py_bind (existing_continuation_job latest) (\<lambda>existing. case existing of
           Some continuation \<Rightarrow>
             py_bind (latest_child_reply latest) (\<lambda>reply.
             py_bind (job_for_reply reply) (\<lambda>reply_job.
             py_bind (edge_update latest (\<lambda>e. e\<lparr>ce_state := CB_CONTINUATION_SUBMITTED,
               ce_child_reply_id := (if opt_truthy (ce_child_reply_id e) then ce_child_reply_id e else map_option rep_reply_id reply),
               ce_child_status := (if opt_truthy (ce_child_status e) then ce_child_status e
                 else map_option (\<lambda>j. job_status_value (jr_status j)) reply_job),
               ce_continuation_job_id := Some (jr_job_id continuation),
               ce_continuation_message_id := Some (ce_parent_message_id e)\<rparr>)) (\<lambda>e. py_return [e])))
         | None \<Rightarrow>
             py_bind (latest_child_reply latest) (\<lambda>reply.
             py_bind (job_for_reply reply) (\<lambda>reply_job.
             py_bind (case reply_job of Some j \<Rightarrow> py_return (Some j) | None \<Rightarrow> get_job (ce_child_job_id latest)) (\<lambda>child_job.
             py_bind (py_lift (decision_from_reply reply child_job (ce_updated_at latest))) (\<lambda>decision.
             case (reply, child_job, decision) of
               (Some r, Some j, Some d) \<Rightarrow>
                 py_bind (submit_callback_continuation latest j (Some (rep_reply_id r)) d
                   (if ce_updated_at latest \<noteq> [] then ce_updated_at latest else rep_finished_at r)) (\<lambda>e. py_return [e])
             | _ \<Rightarrow> py_return [])))))))"

fun repair_each :: "callback_edge list \<Rightarrow> ('z, callback_edge list) disp" where
  "repair_each [] = py_return []"
| "repair_each (edge # rest) = py_bind (repair_callback_edge edge) (\<lambda>es.
     py_bind (repair_each rest) (\<lambda>others. py_return (es @ others)))"

definition repair_callback_edges :: "('z, callback_edge list) disp" where
  "repair_callback_edges = py_bind sweep_callback_timeouts (\<lambda>expired.
     py_bind pending_callback_edges (\<lambda>edges. py_bind (repair_each edges) (\<lambda>repaired. py_return (expired @ repaired))))"

end
