(* ===== verification/Reply_Delivery.thy ===== *)
theory Reply_Delivery
  imports Dispatcher_Completion Callback_Continuations
begin

text \<open>
  Delivering replies (\<open>dispatcher_runtime/reply_delivery_runtime\<close>): a reply at the head of an agent's mailbox
  becomes a job that types it into the agent's pane. The head's payload names the job; when the job ends
  the head is consumed or put back, and heads whose job is gone or dead are repaired. The operations that
  end a job take \<open>dispatcher.complete\<close> as an argument, which itself prepares deliveries.
\<close>

section \<open>Names\<close>

definition REPLY_DELIVERY_MESSAGE_TYPE :: string where "REPLY_DELIVERY_MESSAGE_TYPE = ''reply_delivery''"
definition REPLY_DELIVERY_PROVIDER_OPTION :: string where "REPLY_DELIVERY_PROVIDER_OPTION = ''reply_delivery''"
definition REPLY_DELIVERY_INBOUND_EVENT_OPTION :: string where
  "REPLY_DELIVERY_INBOUND_EVENT_OPTION = ''reply_delivery_inbound_event_id''"
definition REPLY_DELIVERY_REPLY_ID_OPTION :: string where "REPLY_DELIVERY_REPLY_ID_OPTION = ''reply_delivery_reply_id''"

definition is_reply_delivery_job :: "job_record \<Rightarrow> bool" where
  "is_reply_delivery_job job \<longleftrightarrow>
     py_lower (py_strip (me_message_type (jr_request job))) = REPLY_DELIVERY_MESSAGE_TYPE \<or>
     py_truthy (jget (jr_provider_options job) REPLY_DELIVERY_PROVIDER_OPTION)"

definition reply_delivery_inbound_event_id :: "job_record \<Rightarrow> string option" where
  "reply_delivery_inbound_event_id job =
     str_or_none (py_strip (str_or (jget (jr_provider_options job) REPLY_DELIVERY_INBOUND_EVENT_OPTION) ''''))"

definition reply_delivery_reply_id :: "job_record \<Rightarrow> string option" where
  "reply_delivery_reply_id job = str_or_none (py_strip (str_or (jget (jr_provider_options job) REPLY_DELIVERY_REPLY_ID_OPTION) ''''))"

definition head_reply_event :: "string \<Rightarrow> ('z, inbound_event option) disp" where
  "head_reply_event agent_name = py_bind (head_pending_event agent_name) (\<lambda>head.
     py_return (case head of Some h \<Rightarrow> if ev_event_type h = TASK_REPLY then Some h else None | None \<Rightarrow> None))"

definition head_reply_id :: "inbound_event option \<Rightarrow> string option" where
  "head_reply_id head = (case head of None \<Rightarrow> None | Some h \<Rightarrow> reply_id_from_payload (ev_payload_ref h))"

definition project_id_for_agent :: "string \<Rightarrow> ('z, string option) disp" where
  "project_id_for_agent agent_name = py_bind (on_registry (registry_get agent_name)) (\<lambda>runtime.
     case runtime of
       Some r \<Rightarrow> if rt_project_id r \<noteq> [] then py_return (Some (rt_project_id r)) else
         py_bind (latest_for_agent agent_name) (\<lambda>latest. py_return (case latest of None \<Rightarrow> None
           | Some j \<Rightarrow> str_or_none (me_project_id (jr_request j))))
     | None \<Rightarrow> py_bind (latest_for_agent agent_name) (\<lambda>latest. py_return (case latest of None \<Rightarrow> None
           | Some j \<Rightarrow> str_or_none (me_project_id (jr_request j)))))"

section \<open>Claims\<close>

definition claimable_reply_delivery_job_ids :: "string \<Rightarrow> ('z, string list) disp" where
  "claimable_reply_delivery_job_ids agent_name = py_bind (head_reply_event agent_name) (\<lambda>head. case head of
       None \<Rightarrow> py_return []
     | Some h \<Rightarrow> (case delivery_job_id_from_payload (ev_payload_ref h) of
           None \<Rightarrow> py_return []
         | Some job_id \<Rightarrow> if job_id = [] then py_return [] else py_bind (get_job job_id) (\<lambda>current. py_return (case current of
               None \<Rightarrow> [] | Some j \<Rightarrow> if jr_status j \<in> set PENDING_STATES then [job_id] else []))))"

definition claim_reply_delivery_start :: "job_record \<Rightarrow> string \<Rightarrow> ('z, bool) disp" where
  "claim_reply_delivery_start job started_at = (if \<not> is_reply_delivery_job job then py_return True
     else case reply_delivery_inbound_event_id job of None \<Rightarrow> py_return False
       | Some event_id \<Rightarrow> py_bind (head_reply_event (jr_agent_name job)) (\<lambda>head.
           if (case head of None \<Rightarrow> True | Some h \<Rightarrow> ev_inbound_event_id h \<noteq> event_id) then py_return False
           else py_bind (claim (jr_agent_name job) event_id (Some started_at)) (\<lambda>claimed. py_return (claimed \<noteq> None))))"

section \<open>Decisions\<close>

definition reply_delivery_completed_decision :: "job_record \<Rightarrow> string \<Rightarrow> string option \<Rightarrow> payload \<Rightarrow> completion_decision result" where
  "reply_delivery_completed_decision job finished_at turn_ref diagnostics =
     CompletionDecision \<lparr>de_terminal = True, de_status = CS_COMPLETED, de_reason = Some ''reply_delivery_sent'',
       de_confidence = Some CC_OBSERVED, de_reply = '''', de_anchor_seen = True, de_reply_started = False,
       de_reply_stable = True, de_provider_turn_ref = (if opt_truthy turn_ref then turn_ref else Some (jr_job_id job)),
       de_source_cursor = None, de_finished_at = Some finished_at,
       de_diagnostics = dict_merge [(''reply_delivery'', JBool True), (''delivery_status'', JStr ''sent'')] diagnostics\<rparr>"

definition reply_delivery_failed_decision :: "job_record \<Rightarrow> string \<Rightarrow> string \<Rightarrow> payload \<Rightarrow> completion_decision result" where
  "reply_delivery_failed_decision job finished_at reason diagnostics =
     CompletionDecision \<lparr>de_terminal = True, de_status = CS_INCOMPLETE, de_reason = Some reason,
       de_confidence = Some CC_DEGRADED, de_reply = '''', de_anchor_seen = False, de_reply_started = False,
       de_reply_stable = False, de_provider_turn_ref = Some (jr_job_id job), de_source_cursor = None,
       de_finished_at = Some finished_at, de_diagnostics = dict_merge [(''reply_delivery'', JBool True)] diagnostics\<rparr>"

section \<open>The text that is delivered\<close>

text \<open>\<open>float(text)\<close> of a decimal number, before it is rounded to a double\<close>
definition split_at :: "(char \<Rightarrow> bool) \<Rightarrow> string \<Rightarrow> string \<times> string option" where
  "split_at P t = (case dropWhile (\<lambda>c. \<not> P c) t of [] \<Rightarrow> (t, None) | _ # rest \<Rightarrow> (takeWhile (\<lambda>c. \<not> P c) t, Some rest))"

definition read_digits :: "string \<Rightarrow> (nat \<times> nat) option" where
  "read_digits t = (if t = [] then Some (0, 0) else case drop_underscores t of None \<Rightarrow> None
     | Some ds \<Rightarrow> map_option (\<lambda>n. (n, length ds)) (read_nat 0 ds))"

definition float_of_text :: "string \<Rightarrow> rat option" where
  "float_of_text s = (let t = py_strip s; neg = (t \<noteq> [] \<and> hd t = CHR ''-'');
       body = (if t \<noteq> [] \<and> (hd t = CHR ''-'' \<or> hd t = CHR ''+'') then tl t else t);
       (mantissa, ex) = split_at (\<lambda>c. c = CHR ''e'' \<or> c = CHR ''E'') body;
       (whole, fraction) = split_at (\<lambda>c. c = CHR ''.'') mantissa
     in if whole = [] \<and> (fraction = None \<or> fraction = Some []) then None
     else case (read_digits whole, read_digits (str_or_empty fraction), case ex of None \<Rightarrow> Some 0 | Some e \<Rightarrow> int_of_text e) of
         (Some (n, _), Some (f, k), Some e) \<Rightarrow>
           let v = (of_nat n + of_nat f / 10 ^ k) * (if e \<ge> 0 then 10 ^ nat e else 1 / 10 ^ nat (- e))
           in Some (if neg then - v else v)
       | _ \<Rightarrow> None)"

definition round_half_even :: "rat \<Rightarrow> int" where
  "round_half_even x = (let f = \<lfloor>x\<rfloor>; d = x - of_int f in
     if d < 1 / 2 then f else if d > 1 / 2 then f + 1 else if even f then f else f + 1)"

definition format_silence_seconds :: "json \<Rightarrow> string" where
  "format_silence_seconds v = (case v of
       JInt i \<Rightarrow> show_int i @ ''s''
     | JBool b \<Rightarrow> (if b then ''1s'' else ''0s'')
     | JFloat r _ \<Rightarrow> show_int (round_half_even r) @ ''s''
     | JStr t \<Rightarrow> (case float_of_text t of Some r \<Rightarrow> show_int (round_half_even r) @ ''s'' | None \<Rightarrow> t)
     | _ \<Rightarrow> py_str v)"

definition is_heartbeat_notice :: "reply_record \<Rightarrow> bool" where
  "is_heartbeat_notice reply \<longleftrightarrow> py_lower (py_strip (str_or (jget (rep_diagnostics reply) ''notice_kind'') '''')) = ''heartbeat''"

definition source_task_id :: "job_record option \<Rightarrow> string" where
  "source_task_id source_job = (case source_job of None \<Rightarrow> [] | Some j \<Rightarrow> py_strip (str_or_empty (me_task_id (jr_request j))))"

definition reply_header :: "reply_record \<Rightarrow> job_record option \<Rightarrow> string list" where
  "reply_header reply source_job =
     [''CCB_REPLY'', ''from='' @ rep_agent_name reply, ''reply='' @ rep_reply_id reply,
      ''status='' @ reply_status_value (rep_terminal_status reply)] @
     (case source_job of None \<Rightarrow> [] | Some j \<Rightarrow> [''job='' @ jr_job_id j]) @
     (if source_task_id source_job = [] then [] else [''task='' @ source_task_id source_job])"

definition heartbeat_header :: "reply_record \<Rightarrow> job_record option \<Rightarrow> string" where
  "heartbeat_header reply source_job =
     (let d = rep_diagnostics reply;
          named = py_strip (str_or (jget d ''job_id'') '''');
          job_id = (if named \<noteq> [] then named else case source_job of Some j \<Rightarrow> jr_job_id j | None \<Rightarrow> []);
          last_progress_at = py_strip (str_or (jget d ''last_progress_at'') '''');
          silence = jget d ''heartbeat_silence_seconds''
      in ''CCB_NOTICE kind=heartbeat from='' @ rep_agent_name reply @ '' reply='' @ rep_reply_id reply @
         (if job_id = [] then [] else '' job='' @ job_id) @
         (if source_task_id source_job = [] then [] else '' task='' @ source_task_id source_job) @
         (if last_progress_at = [] then [] else '' last_progress='' @ last_progress_at) @
         (if silence = JNull then [] else '' silent_for='' @ format_silence_seconds silence))"

definition format_heartbeat_delivery_body :: "reply_record \<Rightarrow> job_record option \<Rightarrow> string" where
  "format_heartbeat_delivery_body reply source_job = (let body = py_strip (rep_reply reply) in
     py_rstrip (join ''\<newline>'' [heartbeat_header reply source_job, [], if body = [] then ''(empty notice)'' else body]))"

definition source_job_for_reply :: "reply_record \<Rightarrow> ('z, job_record option) disp" where
  "source_job_for_reply reply = py_bind (attempt_get_latest (rep_attempt_id reply)) (\<lambda>attempt. case attempt of
       None \<Rightarrow> py_return None | Some a \<Rightarrow> get_job (att_job_id a))"

definition format_reply_delivery_body :: "reply_record \<Rightarrow> ('z, string) disp" where
  "format_reply_delivery_body reply = py_bind (source_job_for_reply reply) (\<lambda>source_job.
     py_return (if is_heartbeat_notice reply then format_heartbeat_delivery_body reply source_job
       else py_rstrip (join ''\<newline>'' [join '' '' (reply_header reply source_job), [],
         if rep_reply reply = [] then ''(empty reply)'' else rep_reply reply])))"

section \<open>The head of the mailbox\<close>

definition rewrite_reply_head :: "inbound_event \<Rightarrow> string \<Rightarrow> string option \<Rightarrow> inbound_event_status \<Rightarrow> string \<Rightarrow> bool \<Rightarrow> ('z, unit) disp" where
  "rewrite_reply_head current reply_id delivery_job_id status updated_at clear_progress =
     py_bind (py_lift (compose_reply_payload reply_id delivery_job_id)) (\<lambda>payload_ref.
     py_then (rewrite_head (ev_agent_name current) (ev_inbound_event_id current) (Some payload_ref) status (Some updated_at)
       clear_progress) (py_return ()))"

definition resolve_reply_delivery_terminal :: "job_record \<Rightarrow> string \<Rightarrow> ('z, unit) disp" where
  "resolve_reply_delivery_terminal job finished_at = (if \<not> is_reply_delivery_job job then py_return ()
     else case (reply_delivery_inbound_event_id job, reply_delivery_reply_id job) of
         (Some event_id, Some reply_id) \<Rightarrow>
           py_bind (inbound_get_latest (jr_agent_name job) event_id) (\<lambda>found. case found of
               None \<Rightarrow> py_return ()
             | Some current \<Rightarrow>
                 if jr_status job = JS_COMPLETED
                 then py_then (kernel_consume (jr_agent_name job) event_id (Some finished_at))
                   (append_event job ''reply_delivery_consumed''
                     [(''inbound_event_id'', JStr event_id), (''reply_id'', JStr reply_id)] finished_at)
                 else py_then (rewrite_reply_head current reply_id None IE_QUEUED finished_at True)
                   (append_event job ''reply_delivery_requeued''
                     [(''inbound_event_id'', JStr event_id), (''reply_id'', JStr reply_id),
                      (''terminal_status'', JStr (job_status_value (jr_status job)))] finished_at))
       | _ \<Rightarrow> py_return ())"

definition reset_stale_reply_head :: "inbound_event \<Rightarrow> string \<Rightarrow> string \<Rightarrow> ('z, inbound_event option) disp" where
  "reset_stale_reply_head head reply_id agent_name = py_bind read_clock (\<lambda>now.
     py_then (rewrite_reply_head head reply_id None IE_QUEUED now True) (head_reply_event agent_name))"

text \<open>\<open>None\<close> and \<open>False\<close>, which the caller does not tell apart, are \<open>None\<close>\<close>
definition resolve_existing_delivery_job :: "string \<Rightarrow> inbound_event \<Rightarrow> string \<Rightarrow> ('z, inbound_event option) disp" where
  "resolve_existing_delivery_job agent_name head reply_id =
     (let delivery_job_id = delivery_job_id_from_payload (ev_payload_ref head) in
      if \<not> opt_truthy delivery_job_id then py_return (Some head)
      else py_bind (get_job (str_or_empty delivery_job_id)) (\<lambda>found. case found of
          None \<Rightarrow> reset_stale_reply_head head reply_id agent_name
        | Some current \<Rightarrow>
            if jr_status current \<in> set PENDING_STATES \<or> jr_status current = JS_RUNNING then py_return None
            else if jr_status current = JS_COMPLETED
            then py_then (resolve_reply_delivery_terminal current (jr_updated_at current)) (py_return None)
            else if jr_status current \<in> set TERMINAL_JOB_STATES then reset_stale_reply_head head reply_id agent_name
            else py_return (Some head)))"

section \<open>The delivery job\<close>

definition build_reply_delivery_request :: "reply_record \<Rightarrow> string \<Rightarrow> string \<Rightarrow> ('z, message_envelope) disp" where
  "build_reply_delivery_request reply project_id agent_name = py_bind (format_reply_delivery_body reply) (\<lambda>body.
     py_lift (MessageEnvelope \<lparr>me_project_id = project_id, me_to_agent = agent_name, me_from_actor = ''system'', me_body = body,
       me_task_id = Some (''reply:'' @ rep_reply_id reply), me_reply_to = None, me_message_type = REPLY_DELIVERY_MESSAGE_TYPE,
       me_delivery_scope = DS_SINGLE, me_silence_on_success = False, me_route_options = [], me_body_artifact = None\<rparr>))"

definition append_reply_delivery_message :: "reply_record \<Rightarrow> string \<Rightarrow> string \<Rightarrow> string \<Rightarrow> string \<Rightarrow> ('z, unit) disp" where
  "append_reply_delivery_message reply agent_name accepted_at provider job_id =
     py_bind (new_id ''msg'') (\<lambda>message_id.
     py_bind (new_id ''att'') (\<lambda>attempt_id.
     py_bind (py_lift (normalize_message_record \<lparr>msg_message_id = message_id, msg_origin_message_id = Some (rep_message_id reply),
        msg_from_actor = ''system'', msg_target_scope = ''single'', msg_target_agents = [agent_name],
        msg_message_class = REPLY_DELIVERY_MESSAGE_TYPE,
        msg_reply_policy = [(''mode'', JStr ''none''), (''expected_reply_count'', JInt 0)],
        msg_retry_policy = [(''mode'', JStr ''manual'')], msg_priority = 10,
        msg_payload_ref = Some (''reply:'' @ rep_reply_id reply), msg_submission_id = None, msg_created_at = accepted_at,
        msg_updated_at = accepted_at, msg_message_state = MSG_QUEUED\<rparr>)) (\<lambda>message.
     py_then (message_append message) (
     py_bind (py_lift (normalize_attempt_record \<lparr>att_attempt_id = attempt_id, att_message_id = message_id,
        att_agent_name = agent_name, att_provider = provider, att_job_id = job_id, att_retry_index = 0,
        att_health_snapshot_ref = None, att_started_at = accepted_at, att_updated_at = accepted_at,
        att_attempt_state = ATT_PENDING\<rparr>)) attempt_append))))"

definition build_reply_delivery_job :: "string \<Rightarrow> inbound_event \<Rightarrow> reply_record \<Rightarrow> string \<Rightarrow> string \<Rightarrow> ('w, 'z, job_record) dmn" where
  "build_reply_delivery_job agent_name head reply accepted_at project_id =
     py_bind (on_registry (spec_for agent_name)) (\<lambda>spec.
     py_bind (on_registry (registry_get agent_name)) (\<lambda>runtime.
     py_bind (py_gets dm_workspace_path) (\<lambda>default_path.
     let workspace_path = (case runtime of Some r \<Rightarrow> if opt_truthy (rt_workspace_path r) then rt_workspace_path r
           else Some (default_path agent_name) | None \<Rightarrow> Some (default_path agent_name)) in
     py_bind (build_reply_delivery_request reply project_id agent_name) (\<lambda>request.
     py_bind (new_id ''job'') (\<lambda>job_id.
     py_bind (build_job_record \<lparr>dr_agent_name = agent_name, dr_provider = spec_provider spec, dr_request = request,
        dr_target_kind = TK_AGENT, dr_target_name = agent_name, dr_provider_instance = None,
        dr_provider_options = Some [(''no_wrap'', JBool True), (REPLY_DELIVERY_PROVIDER_OPTION, JBool True),
          (REPLY_DELIVERY_INBOUND_EVENT_OPTION, JStr (ev_inbound_event_id head)),
          (REPLY_DELIVERY_REPLY_ID_OPTION, JStr (rep_reply_id reply))],
        dr_workspace_path = workspace_path\<rparr> job_id None accepted_at) (\<lambda>(job, status).
     py_then (enqueue_submitted_job job status accepted_at) (
     py_then (append_reply_delivery_message reply agent_name accepted_at (spec_provider spec) job_id) (
     py_then (rewrite_reply_head head (rep_reply_id reply) (Some job_id) IE_QUEUED accepted_at True) (
     py_then (append_event job ''reply_delivery_scheduled''
       [(''inbound_event_id'', JStr (ev_inbound_event_id head)), (''reply_id'', JStr (rep_reply_id reply))] accepted_at) (
     py_return job))))))))))"

definition prepare_agent_reply_delivery :: "string \<Rightarrow> ('w, 'z, job_record option) dmn" where
  "prepare_agent_reply_delivery agent_name = py_bind (head_reply_event agent_name) (\<lambda>found. case found of
       None \<Rightarrow> py_return None
     | Some first \<Rightarrow> let reply_id = head_reply_id (Some first) in
         if \<not> opt_truthy reply_id then py_return None
         else py_bind (resolve_existing_delivery_job agent_name first (str_or_empty reply_id)) (\<lambda>resolved. case resolved of
             None \<Rightarrow> py_return None
           | Some head \<Rightarrow> py_bind (reply_get_latest (str_or_empty reply_id)) (\<lambda>reply. case reply of
                 None \<Rightarrow> py_return None
               | Some r \<Rightarrow> py_bind read_clock (\<lambda>accepted_at.
                   py_bind (project_id_for_agent agent_name) (\<lambda>project_id.
                   if \<not> opt_truthy project_id then py_return None
                   else py_bind (build_reply_delivery_job agent_name head r accepted_at (str_or_empty project_id)) (\<lambda>job.
                     py_return (Some job)))))))"

section \<open>Repair\<close>

definition load_persisted_execution_state :: "string \<Rightarrow> ('w, 'z, persisted_execution option) dmn" where
  "load_persisted_execution_state job_id = py_bind (py_gets dm_has_execution) (\<lambda>enabled.
     if enabled then state_load job_id else py_return None)"

definition execution_job_is_live :: "string \<Rightarrow> ('w, 'z, bool) dmn" where
  "execution_job_is_live job_id = py_gets (\<lambda>s. dm_has_execution s \<and>
     (job_id \<in> fst ` set (ex_active s) \<or> job_id \<in> fst ` set (ex_replays s)))"

definition repair_orphaned_lease :: "inbound_event \<Rightarrow> string \<Rightarrow> string \<Rightarrow> ('w, 'z, bool) dmn" where
  "repair_orphaned_lease head reply_id agent_name = py_bind (lease_load agent_name) (\<lambda>lease. case lease of
       None \<Rightarrow> py_return False
     | Some l \<Rightarrow> if dl_inbound_event_id l \<noteq> ev_inbound_event_id head then py_return False
         else py_bind (reset_stale_reply_head head reply_id agent_name) (\<lambda>h. py_return (h \<noteq> None)))"

type_synonym ('w, 'z) completer = "string \<Rightarrow> completion_decision \<Rightarrow> ('w, 'z, job_record) dmn"

text \<open>The answer says whether something was repaired; nothing uses what the source returns\<close>
definition repair_agent_reply_delivery_head :: "('w, 'z) completer \<Rightarrow> string \<Rightarrow> ('w, 'z, bool) dmn" where
  "repair_agent_reply_delivery_head ending agent_name = py_bind (head_reply_event agent_name) (\<lambda>found. case found of
       None \<Rightarrow> py_return False
     | Some head \<Rightarrow> let reply_id = str_or_empty (head_reply_id (Some head)); delivery = delivery_job_id_from_payload (ev_payload_ref head) in
         if reply_id = [] then py_return False
         else if \<not> opt_truthy delivery then repair_orphaned_lease head reply_id agent_name
         else py_bind (get_job (str_or_empty delivery)) (\<lambda>job. case job of
             None \<Rightarrow> py_bind (reset_stale_reply_head head reply_id agent_name) (\<lambda>h. py_return (h \<noteq> None))
           | Some current \<Rightarrow> if jr_status current \<noteq> JS_RUNNING then py_return False
               else py_bind (load_persisted_execution_state (jr_job_id current)) (\<lambda>persisted.
                 case Option.bind persisted (\<lambda>p. terminal_pending_decision (pe_pending_decision p)) of
                   Some decision \<Rightarrow> py_then (ending (jr_job_id current) decision) (py_return True)
                 | None \<Rightarrow> py_bind (execution_job_is_live (jr_job_id current)) (\<lambda>live.
                     if live then py_return False
                     else py_bind read_clock (\<lambda>now.
                       py_bind (py_lift (reply_delivery_failed_decision current now ''reply_delivery_stale_running_repaired''
                         [(''repair_kind'', JStr ''stale_running_delivery_job''),
                          (''head_inbound_event_id'', JStr (ev_inbound_event_id head)), (''reply_id'', JStr reply_id)])) (\<lambda>decision.
                       py_then (ending (jr_job_id current) decision) (py_return True)))))))"

fun repair_heads :: "('w, 'z) completer \<Rightarrow> string list \<Rightarrow> ('w, 'z, unit) dmn" where
  "repair_heads ending [] = py_return ()"
| "repair_heads ending (agent_name # rest) =
     py_then (repair_agent_reply_delivery_head ending agent_name) (repair_heads ending rest)"

fun prepare_each :: "string list \<Rightarrow> ('w, 'z, job_record list) dmn" where
  "prepare_each [] = py_return []"
| "prepare_each (agent_name # rest) = py_bind (prepare_agent_reply_delivery agent_name) (\<lambda>job.
     py_bind (prepare_each rest) (\<lambda>jobs. py_return (case job of None \<Rightarrow> jobs | Some j \<Rightarrow> j # jobs)))"

definition prepare_reply_deliveries :: "('w, 'z) completer \<Rightarrow> ('w, 'z, job_record list) dmn" where
  "prepare_reply_deliveries ending = py_bind config_agents (\<lambda>agents.
     py_then (repair_heads ending agents) (prepare_each agents))"

definition complete_reply_delivery_after_start :: "('w, 'z) completer \<Rightarrow> job_record \<Rightarrow> string \<Rightarrow> provider_submission option \<Rightarrow>
    ('w, 'z, job_record) dmn" where
  "complete_reply_delivery_after_start ending job started_at submission =
     (let mode = (case submission of None \<Rightarrow> []
        | Some s \<Rightarrow> py_lower (py_strip (str_or (jget (sb_runtime_state s) ''mode'') ''''))) in
      case submission of
        Some s \<Rightarrow> if mode \<in> {''error'', ''passive''}
          then py_bind (py_lift (reply_delivery_failed_decision job started_at ''reply_delivery_transport_unavailable''
            [(''submission_mode'', JStr mode),
             (''submission_reason'', JStr (str_or (jget (sb_runtime_state s) ''reason'') (sb_reason s))),
             (''submission_error'', JStr (str_or (jget (sb_runtime_state s) ''error'') ''''))])) (ending (jr_job_id job))
          else if py_truthy (jget (sb_runtime_state s) ''reply_delivery_complete_on_dispatch'') then py_return job
          else let turn_ref = py_strip (str_or (jget (sb_runtime_state s) ''request_anchor'')
                 (str_or (jget (sb_runtime_state s) ''pane_id'') (sb_job_id s)))
            in py_bind (py_lift (reply_delivery_completed_decision job started_at
              (Some (if turn_ref = [] then jr_job_id job else turn_ref))
              [(''submission_mode'', JStr (if mode = [] then ''active'' else mode)), (''provider'', JStr (sb_provider s))]))
              (ending (jr_job_id job))
      | None \<Rightarrow> py_bind (py_lift (reply_delivery_failed_decision job started_at ''reply_delivery_transport_unavailable''
            [(''submission_mode'', JStr ''missing'')])) (ending (jr_job_id job)))"

end
