(* ===== verification/Dispatcher_Finalization.thy ===== *)
theory Dispatcher_Finalization
  imports Reply_Delivery
begin

text \<open>
  Ending jobs (\<open>dispatcher_runtime/finalization_runtime\<close>, \<open>cancellation.py\<close>, \<open>shutdown.py\<close>): completion with automatic
  retries, replies and callback continuations, cancellation, and the end of the open jobs when the
  project stops. \<open>complete_job\<close> can call itself: with automatic reply delivery it prepares deliveries,
  which ends delivery jobs whose execution has died. The depth of that nesting is bounded by the
  interpreter's recursion limit, the first argument of the definition; beyond it \<open>RecursionError\<close>,
  a \<open>RuntimeError\<close>, is raised. Every nested call ends another running job, so that the number of
  running jobs bounds the depth.
\<close>

section \<open>Automatic retries\<close>

definition append_retry_failed_event :: "job_record \<Rightarrow> retry_context \<Rightarrow> string \<Rightarrow> string \<Rightarrow> ('z, unit) disp" where
  "append_retry_failed_event terminal plan error finished_at = append_event terminal ''job_retry_failed''
     [(''message_id'', JStr (rc_message_id plan)), (''attempt_id'', JStr (rc_attempt_id plan)),
      (''attempt_number'', JInt (rc_attempt_number plan)), (''max_attempts'', JInt (rc_max_attempts plan)),
      (''reason'', JStr (rc_reason plan)), (''error'', JStr error)] finished_at"

definition append_retry_scheduled_event :: "job_record \<Rightarrow> retry_context \<Rightarrow> payload \<Rightarrow> string \<Rightarrow> ('z, unit) disp" where
  "append_retry_scheduled_event terminal plan retry finished_at = append_event terminal ''job_retry_scheduled''
     [(''message_id'', jget retry ''message_id''), (''original_attempt_id'', jget retry ''original_attempt_id''),
      (''attempt_id'', jget retry ''attempt_id''), (''job_id'', jget retry ''job_id''), (''agent_name'', jget retry ''agent_name''),
      (''attempt_number'', JInt (rc_attempt_number plan + 1)), (''max_attempts'', JInt (rc_max_attempts plan)),
      (''reason'', JStr (rc_reason plan))] (str_or (jget retry ''accepted_at'') finished_at)"

definition append_retry_exhausted_event :: "job_record \<Rightarrow> retry_context \<Rightarrow> string \<Rightarrow> ('z, unit) disp" where
  "append_retry_exhausted_event terminal context finished_at = append_event terminal ''job_retry_exhausted''
     [(''message_id'', JStr (rc_message_id context)), (''attempt_id'', JStr (rc_attempt_id context)),
      (''attempt_number'', JInt (rc_attempt_number context)), (''max_attempts'', JInt (rc_max_attempts context)),
      (''reason'', JStr (rc_reason context))] finished_at"

definition append_nonretryable_failure_event :: "job_record \<Rightarrow> completion_decision \<Rightarrow> string \<Rightarrow> string \<Rightarrow> ('z, unit) disp" where
  "append_nonretryable_failure_event terminal decision kind finished_at = append_event terminal ''job_retry_skipped_nonretryable''
     [(''reason'', JStr (if decision_reason decision = [] then ''api_error'' else decision_reason decision)),
      (''classification'', JStr kind),
      (''error_code'', jopt (str_or_none (py_strip (str_or (jget (de_diagnostics decision) ''error_code'') ''''))))] finished_at"

text \<open>The new decision, where the reply changes, and whether a retry was scheduled\<close>
definition schedule_automatic_retry :: "job_record \<Rightarrow> job_record \<Rightarrow> completion_decision \<Rightarrow> string \<Rightarrow>
    ('w, 'z, completion_decision option \<times> bool) dmn" where
  "schedule_automatic_retry current terminal decision finished_at =
     py_bind (automatic_retry_plan current decision) (\<lambda>plan. case plan of
         None \<Rightarrow> py_return (None, False)
       | Some p \<Rightarrow>
           py_bind (py_try (py_bind (retry_attempt (jr_job_id current)) (\<lambda>retry. py_return (Inr retry)))
             (\<lambda>exc. py_return (Inl (fst (error_text exc))))) (\<lambda>outcome. case outcome of
               Inl error \<Rightarrow>
                 py_bind (py_lift (with_retry_failure_reply decision terminal (rc_attempt_number p) (rc_max_attempts p) (Some error))) (\<lambda>reply.
                 py_then (append_retry_failed_event terminal p error finished_at) (py_return (Some reply, False)))
             | Inr retry \<Rightarrow> py_then (append_retry_scheduled_event terminal p retry finished_at) (py_return (None, True))))"

definition reply_decision_without_automatic_retry :: "job_record \<Rightarrow> job_record \<Rightarrow> completion_decision \<Rightarrow> string \<Rightarrow>
    ('w, 'z, completion_decision option) dmn" where
  "reply_decision_without_automatic_retry current terminal decision finished_at =
     py_bind (retryable_failure_context current decision) (\<lambda>context. case context of
         Some c \<Rightarrow>
           py_bind (py_lift (with_retry_failure_reply decision terminal (rc_attempt_number c) (rc_max_attempts c) None)) (\<lambda>reply.
           py_then (append_retry_exhausted_event terminal c finished_at) (py_return (Some reply)))
       | None \<Rightarrow>
           if should_render_timeout_inspection_reply decision
           then py_bind (py_lift (with_timeout_inspection_reply decision terminal)) (\<lambda>reply. py_return (Some reply))
           else case nonretryable_api_failure_kind decision of
               None \<Rightarrow> py_return None
             | Some kind \<Rightarrow> py_bind (py_lift (with_nonretryable_api_failure_reply decision terminal)) (\<lambda>reply.
                 py_then (append_nonretryable_failure_event terminal decision kind finished_at) (py_return (Some reply))))"

section \<open>Completion\<close>

definition job_with_unsilenced_reply :: "job_record \<Rightarrow> job_record result" where
  "job_with_unsilenced_reply job = (if \<not> me_silence_on_success (jr_request job) then Inr job
     else rbind (MessageEnvelope ((jr_request job)\<lparr>me_silence_on_success := False\<rparr>)) (\<lambda>request.
       JobRecord (job\<lparr>jr_request := request\<rparr>)))"

text \<open>The reply goes to the caller, or to the parent job as a continuation\<close>
definition record_final_reply :: "job_record \<Rightarrow> completion_decision \<Rightarrow> string \<Rightarrow> ('w, 'z, unit) dmn" where
  "record_final_reply terminal decision finished_at = py_bind (callback_child_edge terminal) (\<lambda>edge. case edge of
       Some e \<Rightarrow>
         py_bind (py_lift (job_with_unsilenced_reply terminal)) (\<lambda>job.
         py_bind (record_reply job decision finished_at False) (\<lambda>reply_id.
         py_then (submit_callback_continuation e terminal reply_id decision finished_at) (
         mark_callback_done terminal finished_at)))
     | None \<Rightarrow> py_then (record_reply terminal decision finished_at True) (mark_callback_done terminal finished_at))"

definition finish_reply :: "job_record \<Rightarrow> job_record \<Rightarrow> completion_decision \<Rightarrow> string \<Rightarrow> completion_snapshot option \<Rightarrow>
    ('w, 'z, job_record \<times> bool) dmn" where
  "finish_reply current terminal decision finished_at prior =
     py_bind (schedule_automatic_retry current terminal decision finished_at) (\<lambda>(failed, scheduled).
     if scheduled then py_return (terminal, True)
     else py_bind (case failed of Some d \<Rightarrow> py_return (Some d)
         | None \<Rightarrow> reply_decision_without_automatic_retry current terminal decision finished_at) (\<lambda>changed. case changed of
           None \<Rightarrow> py_then (record_final_reply terminal decision finished_at) (py_return (terminal, False))
         | Some d \<Rightarrow>
             py_bind (spill_terminal_reply_if_needed current d finished_at) (\<lambda>reply.
             py_bind (persist_reply_decision current terminal reply prior finished_at) (\<lambda>rewritten.
             py_then (record_final_reply rewritten reply finished_at) (py_return (rewritten, False))))))"

definition record_message_bureau_completion :: "job_record \<Rightarrow> job_record \<Rightarrow> completion_decision \<Rightarrow> string \<Rightarrow>
    completion_snapshot option \<Rightarrow> ('w, 'z, job_record \<times> bool) dmn" where
  "record_message_bureau_completion current terminal decision finished_at prior =
     py_then (record_attempt_terminal terminal finished_at) (
     if is_reply_delivery_job current then py_return (terminal, False)
     else py_bind (delegated_parent_edge terminal) (\<lambda>parent_edge.
       case parent_edge of
         Some e \<Rightarrow> if ce_state e \<notin> {CB_FAILED, CB_TIMED_OUT, CB_DONE}
           then py_bind (persist_delegated_terminal_job terminal e finished_at) (\<lambda>delegated.
             py_then (mark_parent_message_waiting e finished_at) (py_return (delegated, False)))
           else finish_reply current terminal decision finished_at prior
       | None \<Rightarrow> finish_reply current terminal decision finished_at prior))"

fun complete_job :: "nat \<Rightarrow> ('w, 'z) completer" where
  "complete_job 0 job_id decision = py_raise (RuntimeError ''maximum recursion depth exceeded'')"
| "complete_job (Suc depth) job_id decision =
     (if \<not> de_terminal decision then py_raise (DispatchError ''complete requires a terminal completion decision'')
      else py_bind (get_job job_id) (\<lambda>found. case found of
          None \<Rightarrow> py_raise (DispatchError (''unknown job: '' @ job_id))
        | Some current \<Rightarrow>
            if terminal_event_by_status (jr_status current) \<noteq> None then py_return current
            else py_bind (given_or_clock (de_finished_at decision)) (\<lambda>finished_at.
              py_bind (persist_terminal_completion current decision finished_at) (\<lambda>(terminal, final, prior).
              py_bind (record_message_bureau_completion current terminal final finished_at prior) (\<lambda>(terminal', scheduled).
              py_then (resolve_reply_delivery_terminal terminal' finished_at) (
              py_bind (py_gets dm_auto_reply_delivery) (\<lambda>auto.
              py_then (if \<not> scheduled \<and> auto then py_then (prepare_reply_deliveries (complete_job depth)) (py_return ())
                else py_return ()) (py_return terminal'))))))))"

section \<open>Cancellation\<close>

record cancel_receipt =
  ca_job_id :: string
  ca_agent_name :: string
  ca_status :: job_status
  ca_cancelled_at :: string
  ca_target_kind :: target_kind
  ca_target_name :: string
  ca_provider_instance :: "string option"

definition CancelReceipt :: "cancel_receipt \<Rightarrow> cancel_receipt result" where
  "CancelReceipt r =
     rbind (rcheck (ca_job_id r = []) (ValueError ''job_id cannot be empty'')) (\<lambda>_.
     rbind (normalize_agent_name (if ca_target_name r = [] then ca_agent_name r else ca_target_name r)) (\<lambda>n.
     rbind (rcheck (ca_status r \<noteq> JS_CANCELLED) (ValueError ''cancel receipt status must be cancelled'')) (\<lambda>_.
     rbind (rcheck (ca_cancelled_at r = []) (ValueError ''cancelled_at cannot be empty'')) (\<lambda>_.
     Inr (r\<lparr>ca_agent_name := n, ca_target_name := n, ca_provider_instance := None\<rparr>)))))"

definition cancel_receipt_for :: "job_record \<Rightarrow> string \<Rightarrow> cancel_receipt result" where
  "cancel_receipt_for job cancelled_at = CancelReceipt \<lparr>ca_job_id = jr_job_id job, ca_agent_name = jr_agent_name job,
     ca_status = JS_CANCELLED, ca_cancelled_at = cancelled_at, ca_target_kind = jr_target_kind job,
     ca_target_name = jr_target_name job, ca_provider_instance = jr_provider_instance job\<rparr>"

definition cancel_decision :: "string \<Rightarrow> string \<Rightarrow> completion_snapshot option \<Rightarrow> completion_decision result" where
  "cancel_decision cancelled_at reply snapshot = (let st = map_option sn_state snapshot in
     CompletionDecision \<lparr>de_terminal = True, de_status = CS_CANCELLED, de_reason = Some ''cancel_info'',
       de_confidence = Some CC_DEGRADED, de_reply = reply, de_anchor_seen = state_flag st_anchor_seen st,
       de_reply_started = state_flag st_reply_started st, de_reply_stable = state_flag st_reply_stable st,
       de_provider_turn_ref = state_value st_provider_turn_ref st, de_source_cursor = state_value st_latest_cursor st,
       de_finished_at = Some cancelled_at, de_diagnostics = [(''cancel_requested'', JBool True)]\<rparr>)"

definition cancel_with_decision :: "job_record \<Rightarrow> string \<Rightarrow> string \<Rightarrow> completion_snapshot option \<Rightarrow> bool \<Rightarrow> ('w, 'z, cancel_receipt) dmn" where
  "cancel_with_decision current cancelled_at reply snapshot record_reply_enabled =
     py_bind (py_lift (cancel_decision cancelled_at reply snapshot)) (\<lambda>first.
     py_bind (spill_terminal_reply_if_needed current first cancelled_at) (\<lambda>decision.
     py_then (finish_tracker (jr_job_id current)) (
     py_bind (profile_family (jr_agent_name current)) (\<lambda>family.
     py_then (write_completion (jr_job_id current) (jr_agent_name current) family
       (build_terminal_state decision (map_option sn_state snapshot)) decision (Some cancelled_at)) (
     py_then (append_event current ''completion_terminal'' (decision_to_record decision) cancelled_at) (
     py_bind (py_lift (JobRecord (current\<lparr>jr_status := JS_CANCELLED, jr_terminal_decision := Some (decision_to_record decision),
        jr_updated_at := cancelled_at, jr_cancel_requested_at := Some cancelled_at\<rparr>))) (\<lambda>terminal.
     py_then (append_job terminal) (
     py_then (append_event terminal ''job_cancelled'' [(''status'', JStr (job_status_value JS_CANCELLED))] cancelled_at) (
     py_then (if jr_target_kind current = TK_AGENT then sync_runtime (jr_agent_name current) (Some AS_IDLE) else py_return ()) (
     py_then (record_terminal terminal decision cancelled_at True record_reply_enabled) (
     py_then (resolve_reply_delivery_terminal terminal cancelled_at) (
     py_lift (cancel_receipt_for terminal cancelled_at)))))))))))))"

definition cancel_job :: "string \<Rightarrow> bool \<Rightarrow> ('w, 'z, cancel_receipt) dmn" where
  "cancel_job job_id record_reply_enabled = py_bind (get_job job_id) (\<lambda>found. case found of
       None \<Rightarrow> py_raise (DispatchError (''unknown job: '' @ job_id))
     | Some current \<Rightarrow>
         if jr_status current = JS_CANCELLED then py_lift (cancel_receipt_for current (jr_updated_at current))
         else if jr_status current \<in> {JS_COMPLETED, JS_FAILED, JS_INCOMPLETE}
         then py_raise (DispatchError (''job is already terminal: '' @ job_status_value (jr_status current)))
         else py_bind read_clock (\<lambda>cancelled_at.
           py_bind (py_lift (JobRecord (current\<lparr>jr_cancel_requested_at := Some cancelled_at, jr_updated_at := cancelled_at\<rparr>))) (\<lambda>marked.
           py_then (append_job marked) (
           py_then (append_event marked ''job_cancel_requested'' [(''status'', JStr (job_status_value (jr_status current)))] cancelled_at) (
           py_then (change_state (\<lambda>st. snd (remove_queued_for (jr_target_kind current) (jr_target_name current) job_id st))) (
           py_then (change_state (clear_active_for (jr_target_kind current) (jr_target_name current) (Some job_id))) (
           py_then (when_execution (execution_cancel job_id)) (
           py_bind (snapshot_load job_id) (\<lambda>snapshot.
           cancel_with_decision marked cancelled_at (case snapshot of None \<Rightarrow> [] | Some s \<Rightarrow> de_reply (sn_latest_decision s))
             snapshot record_reply_enabled)))))))))"

section \<open>Shutdown\<close>

definition SHUTDOWN_REPLY :: string where "SHUTDOWN_REPLY = ''Project stopped before this request completed.''"

fun rows_of_agents :: "string list \<Rightarrow> ('z, job_record list) disp" where
  "rows_of_agents [] = py_return []"
| "rows_of_agents (agent_name # rest) = py_bind (on_logs (job_list_target agent_name)) (\<lambda>rows.
     py_bind (rows_of_agents rest) (\<lambda>others. py_return (rows @ others)))"

definition latest_nonterminal_job_ids :: "('z, string list) disp" where
  "latest_nonterminal_job_ids = py_bind config_agents (\<lambda>agents. py_bind (rows_of_agents agents) (\<lambda>rows.
     py_return (map jr_job_id (filter (\<lambda>r. jr_status r \<notin> set TERMINAL_JOB_STATES) (latest_by jr_job_id rows)))))"

definition shutdown_decision :: "string \<Rightarrow> string \<Rightarrow> bool \<Rightarrow> completion_snapshot option \<Rightarrow> completion_decision result" where
  "shutdown_decision finished_at shutdown_reason forced snapshot = (let st = map_option sn_state snapshot in
     CompletionDecision \<lparr>de_terminal = True, de_status = CS_INCOMPLETE, de_reason = Some ''project_shutdown'',
       de_confidence = Some CC_DEGRADED, de_reply = SHUTDOWN_REPLY, de_anchor_seen = state_flag st_anchor_seen st,
       de_reply_started = state_flag st_reply_started st, de_reply_stable = state_flag st_reply_stable st,
       de_provider_turn_ref = state_value st_provider_turn_ref st, de_source_cursor = state_value st_latest_cursor st,
       de_finished_at = Some finished_at, de_diagnostics = [(''shutdown'', JBool True),
         (''shutdown_reason'', JStr shutdown_reason), (''forced'', JBool forced)]\<rparr>)"

definition terminate_job_for_shutdown :: "nat \<Rightarrow> job_record \<Rightarrow> string \<Rightarrow> bool \<Rightarrow> ('w, 'z, job_record) dmn" where
  "terminate_job_for_shutdown depth current shutdown_reason forced = py_bind read_clock (\<lambda>finished_at.
     py_then (change_state (\<lambda>st. snd (remove_queued_for (jr_target_kind current) (jr_target_name current) (jr_job_id current) st))) (
     py_then (change_state (clear_active_for (jr_target_kind current) (jr_target_name current) (Some (jr_job_id current)))) (
     py_then (when_execution (execution_cancel (jr_job_id current))) (
     py_bind (snapshot_load (jr_job_id current)) (\<lambda>snapshot.
     py_bind (py_lift (shutdown_decision finished_at shutdown_reason forced snapshot)) (\<lambda>decision.
     complete_job depth (jr_job_id current) decision))))))"

fun terminate_each :: "nat \<Rightarrow> string list \<Rightarrow> string \<Rightarrow> bool \<Rightarrow> ('w, 'z, job_record list) dmn" where
  "terminate_each depth [] shutdown_reason forced = py_return []"
| "terminate_each depth (job_id # rest) shutdown_reason forced = py_bind (get_job job_id) (\<lambda>found.
     py_bind (case found of None \<Rightarrow> py_return []
       | Some current \<Rightarrow> if jr_status current \<in> set TERMINAL_JOB_STATES then py_return []
           else py_try (py_bind (terminate_job_for_shutdown depth current shutdown_reason forced) (\<lambda>job. py_return [job]))
             (\<lambda>_. py_return [])) (\<lambda>ended.
     py_bind (terminate_each depth rest shutdown_reason forced) (\<lambda>others. py_return (ended @ others))))"

definition terminate_nonterminal_jobs :: "nat \<Rightarrow> string \<Rightarrow> bool \<Rightarrow> ('w, 'z, job_record list) dmn" where
  "terminate_nonterminal_jobs depth shutdown_reason forced = py_bind latest_nonterminal_job_ids (\<lambda>ids.
     terminate_each depth ids shutdown_reason forced)"

end
