(* ===== verification/Dispatcher_Lifecycle.thy ===== *)
theory Dispatcher_Lifecycle
  imports Dispatcher_Finalization
begin

text \<open>
  Starting jobs, polling their executions and restoring them after a restart
  (\<open>dispatcher_runtime/lifecycle_start_runtime\<close>, \<open>polling_service.py\<close>, \<open>execution_cleanup.py\<close>, \<open>restore_runtime\<close>,
  \<open>context.py\<close>), and the tick that strings the parts together (\<open>services/dispatcher.py\<close>). \<open>depth\<close> is the bound on
  nested completions of \<^const>\<open>complete_job\<close>.
\<close>

section \<open>Slots\<close>

definition HARD_BLOCKED_RUNTIME_HEALTHS :: "string list" where "HARD_BLOCKED_RUNTIME_HEALTHS = [''session-missing'']"
definition RECOVERABLE_RUNTIME_HEALTHS :: "string list" where "RECOVERABLE_RUNTIME_HEALTHS = [''pane-dead'', ''pane-missing'']"
definition RUNNABLE_AGENT_STATES :: "agent_state list" where "RUNNABLE_AGENT_STATES = [AS_IDLE, AS_STARTING, AS_DEGRADED]"

definition normalized_runtime_health :: "agent_runtime \<Rightarrow> string" where
  "normalized_runtime_health r = py_lower (py_strip (rt_health r))"

record queued_slot =
  qs_target_kind :: target_kind
  qs_target_name :: string
  qs_runtime :: "agent_runtime option"

definition agent_supports_resume :: "string \<Rightarrow> ('w, 'z, bool) dmn" where
  "agent_supports_resume agent_name = py_try (py_bind (on_registry (spec_for agent_name)) (\<lambda>spec.
     py_bind (py_gets cd_catalog) (\<lambda>catalog. py_bind (py_lift (catalog_get (spec_provider spec) catalog)) (\<lambda>manifest.
       py_return (pm_supports_resume manifest))))) (\<lambda>_. py_return False)"

definition can_attempt_runtime_recovery :: "agent_runtime \<Rightarrow> ('w, 'z, bool) dmn" where
  "can_attempt_runtime_recovery runtime = py_bind (py_gets (\<lambda>s. dm_has_execution s \<and> dp_has_runtime_service s)) (\<lambda>able.
     if \<not> able \<or> normalized_runtime_health runtime \<notin> set RECOVERABLE_RUNTIME_HEALTHS then py_return False
     else agent_supports_resume (rt_agent_name runtime))"

datatype degraded_action = DA_BLOCKED | DA_KEEP | DA_DROP | DA_REFRESH

definition degraded_runtime_action :: "agent_runtime \<Rightarrow> ('w, 'z, degraded_action) dmn" where
  "degraded_runtime_action runtime = (let health = normalized_runtime_health runtime in
     if health \<in> set HARD_BLOCKED_RUNTIME_HEALTHS then py_return DA_BLOCKED
     else if health \<notin> set RECOVERABLE_RUNTIME_HEALTHS then py_return DA_KEEP
     else py_bind (can_attempt_runtime_recovery runtime) (\<lambda>able. py_return (if able then DA_REFRESH else DA_DROP)))"

definition on_runtime_service :: "(registry \<times> 'w, 'a) py \<Rightarrow> ('w, 'z, 'a) dmn" where
  "on_runtime_service m s = (case m (dp_registry s, ex_world s) of (r, g, w) \<Rightarrow> (r, s\<lparr>dp_registry := g, ex_world := w\<rparr>))"

definition refresh_runtime :: "string \<Rightarrow> ('w, 'z, agent_runtime option) dmn" where
  "refresh_runtime agent_name = py_bind (py_gets dm_refresh_provider_binding) (\<lambda>refresh.
     py_try (on_runtime_service (refresh agent_name)) (\<lambda>_. py_return None))"

definition refreshed_slot :: "queued_slot \<Rightarrow> agent_runtime option \<Rightarrow> queued_slot option" where
  "refreshed_slot slot probed = (case probed of None \<Rightarrow> None
     | Some r \<Rightarrow> if rt_state r \<notin> set RUNNABLE_AGENT_STATES then None
         else if normalized_runtime_health r \<in> set HARD_BLOCKED_RUNTIME_HEALTHS \<union> set RECOVERABLE_RUNTIME_HEALTHS then None
         else Some (slot\<lparr>qs_runtime := Some r\<rparr>))"

text \<open>Only an \<open>AgentValidationError\<close> of \<open>ensure_ready\<close> is caught\<close>
definition ensured_runtime :: "string \<Rightarrow> ('w, 'z, agent_runtime option) dmn" where
  "ensured_runtime agent_name = py_bind (py_gets dm_ensure_ready) (\<lambda>ensure_ready.
     py_try (on_runtime_service (ensure_ready agent_name))
       (\<lambda>exc. case exc of AgentValidationError _ \<Rightarrow> py_return None | e \<Rightarrow> py_raise e))"

definition refresh_slot_runtime_for_start :: "queued_slot \<Rightarrow> ('w, 'z, queued_slot option) dmn" where
  "refresh_slot_runtime_for_start slot =
     (if (case qs_runtime slot of None \<Rightarrow> True | Some r \<Rightarrow> rt_state r \<in> {AS_STOPPED, AS_FAILED})
      then py_bind (py_gets dp_has_runtime_service) (\<lambda>service. if \<not> service then py_return None
        else py_bind (ensured_runtime (qs_target_name slot)) (\<lambda>ensured. py_return (case ensured of None \<Rightarrow> None
          | Some r \<Rightarrow> if rt_state r \<notin> set RUNNABLE_AGENT_STATES then None else Some (slot\<lparr>qs_runtime := Some r\<rparr>))))
      else case qs_runtime slot of None \<Rightarrow> py_return (Some slot)
        | Some r \<Rightarrow> if rt_state r \<noteq> AS_DEGRADED then py_return (Some slot)
            else py_bind (degraded_runtime_action r) (\<lambda>action. case action of
                DA_BLOCKED \<Rightarrow> py_return None | DA_DROP \<Rightarrow> py_return None | DA_KEEP \<Rightarrow> py_return (Some slot)
              | DA_REFRESH \<Rightarrow> py_bind (refresh_runtime (rt_agent_name r)) (\<lambda>probed. py_return (refreshed_slot slot probed))))"

section \<open>Starting a job\<close>

definition build_runtime_context :: "agent_runtime option \<Rightarrow> provider_runtime_context option" where
  "build_runtime_context runtime = map_option (\<lambda>r. \<lparr>rx_agent_name = rt_agent_name r, rx_workspace_path = rt_workspace_path r,
     rx_backend_type = Some (rt_backend_type r), rx_runtime_ref = rt_runtime_ref r, rx_session_ref = rt_session_ref r,
     rx_runtime_pid = rt_pid r, rx_runtime_health = Some (rt_health r),
     rx_runtime_binding_source = Some (binding_source_value (rt_binding_source r))\<rparr>) runtime"

definition TEST_DOUBLE_PROVIDER_NAMES :: "string list" where
  "TEST_DOUBLE_PROVIDER_NAMES = [''fake'', ''fake-codex'', ''fake-claude'', ''fake-gemini'', ''fake-legacy'']"

text \<open>The target of a job is always an agent\<close>
definition should_start_execution :: "bool \<Rightarrow> job_record \<Rightarrow> provider_runtime_context option \<Rightarrow> bool" where
  "should_start_execution require_actionable current context = (case context of None \<Rightarrow> False
     | Some c \<Rightarrow> if \<not> require_actionable then True
         else if py_lower (py_strip (jr_provider current)) \<in> set TEST_DOUBLE_PROVIDER_NAMES then True
         else if jr_target_kind current \<noteq> TK_AGENT then True
         else if py_lower (py_strip (str_or_empty (rx_backend_type c))) \<in> {''headless'', ''pty-backed''} then True
         else CHR '':'' \<in> set (py_strip (str_or_empty (rx_runtime_ref c))))"

definition write_running_snapshot :: "job_record \<Rightarrow> string \<Rightarrow> ('w, 'z, unit) dmn" where
  "write_running_snapshot running started_at = py_bind (py_gets cd_tracker) (\<lambda>tracker. case tracker of
       Some t \<Rightarrow> py_bind (on_tracker (tracker_start running started_at) t) (\<lambda>view.
         py_bind (profile_family (jr_agent_name running)) (\<lambda>family. case view of
             None \<Rightarrow> py_raise (AttributeError ''state'')
           | Some v \<Rightarrow> py_then (write_completion (jr_job_id running) (jr_agent_name running) family (tv_state v) (tv_decision v)
               (Some started_at)) (py_return ())))
     | None \<Rightarrow> py_bind (profile_family (jr_agent_name running)) (\<lambda>family.
         py_then (write_pending (jr_job_id running) (jr_agent_name running) family) (py_return ())))"

definition start_running_job :: "nat \<Rightarrow> job_record \<Rightarrow> queued_slot \<Rightarrow> string option \<Rightarrow> ('w, 'z, job_record) dmn" where
  "start_running_job depth current slot started = py_bind (given_or_clock started) (\<lambda>started_at.
     py_bind (py_lift (JobRecord (current\<lparr>jr_status := JS_RUNNING, jr_updated_at := started_at\<rparr>))) (\<lambda>running.
     py_then (mark_attempt_started running started_at) (
     py_then (append_job running) (
     py_then (append_event running ''job_started'' [(''status'', JStr (job_status_value JS_RUNNING))] started_at) (
     py_then (write_running_snapshot running started_at) (
     let context = build_runtime_context (qs_runtime slot) in
     py_then (change_state (mark_active_for (jr_target_kind running) (jr_target_name running) (jr_job_id running))) (
     py_then (if qs_target_kind slot = TK_AGENT then sync_runtime (jr_agent_name running) (Some AS_BUSY) else py_return ()) (
     py_bind (py_gets (\<lambda>s. (dm_has_execution s, dm_require_actionable s))) (\<lambda>(enabled, actionable).
     py_bind (if enabled \<and> should_start_execution actionable running context then execution_start running context
              else py_return None) (\<lambda>submission.
     if is_reply_delivery_job running \<and> enabled
     then complete_reply_delivery_after_start (complete_job depth) running started_at submission
     else py_return running))))))))))"

text \<open>The set of queued ids is taken before the first claim\<close>
fun claim_reply_delivery :: "nat \<Rightarrow> queued_slot \<Rightarrow> string list \<Rightarrow> string list \<Rightarrow> ('w, 'z, job_record option) dmn" where
  "claim_reply_delivery depth slot queued_ids [] = py_return None"
| "claim_reply_delivery depth slot queued_ids (candidate # rest) =
     (if candidate \<notin> set queued_ids then claim_reply_delivery depth slot queued_ids rest
      else py_bind (get_job candidate) (\<lambda>found. case found of
          None \<Rightarrow> py_then (on_state (remove_queued_for (qs_target_kind slot) (qs_target_name slot) candidate))
            (claim_reply_delivery depth slot queued_ids rest)
        | Some current \<Rightarrow> py_bind read_clock (\<lambda>started_at.
            py_bind (claim_reply_delivery_start current started_at) (\<lambda>claimed.
            if \<not> claimed then claim_reply_delivery depth slot queued_ids rest
            else py_then (on_state (remove_queued_for (qs_target_kind slot) (qs_target_name slot) candidate)) (
              py_bind (start_running_job depth current slot (Some started_at)) (\<lambda>job. py_return (Some job)))))))"

fun claim_request_job_id :: "queued_slot \<Rightarrow> string list \<Rightarrow> string list \<Rightarrow> ('w, 'z, string option) dmn" where
  "claim_request_job_id slot queued_ids [] = py_return None"
| "claim_request_job_id slot queued_ids (candidate # rest) =
     (if candidate \<notin> set queued_ids then claim_request_job_id slot queued_ids rest
      else py_then (on_state (remove_queued_for (qs_target_kind slot) (qs_target_name slot) candidate)) (py_return (Some candidate)))"

definition start_agent_mailbox_job :: "nat \<Rightarrow> queued_slot \<Rightarrow> ('w, 'z, job_record option) dmn" where
  "start_agent_mailbox_job depth slot =
     py_bind (on_state (queued_items_for (qs_target_kind slot) (qs_target_name slot))) (\<lambda>queued_ids.
     py_bind (claimable_reply_delivery_job_ids (qs_target_name slot)) (\<lambda>replies.
     py_bind (claim_reply_delivery depth slot queued_ids replies) (\<lambda>delivery. case delivery of
         Some job \<Rightarrow> py_return (Some job)
       | None \<Rightarrow> py_bind (claimable_request_job_ids (qs_target_name slot)) (\<lambda>requests.
           py_bind (claim_request_job_id slot queued_ids requests) (\<lambda>claimed. case claimed of
               None \<Rightarrow> py_return None
             | Some job_id \<Rightarrow> py_bind (get_job job_id) (\<lambda>found. case found of
                   None \<Rightarrow> py_return None
                 | Some current \<Rightarrow> py_bind (start_running_job depth current slot None) (\<lambda>job. py_return (Some job))))))))"

definition start_next_queued_job :: "nat \<Rightarrow> queued_slot \<Rightarrow> ('w, 'z, job_record option) dmn" where
  "start_next_queued_job depth slot = py_bind (refresh_slot_runtime_for_start slot) (\<lambda>probed. case probed of
       None \<Rightarrow> py_return None | Some s \<Rightarrow> start_agent_mailbox_job depth s)"

text \<open>The next slot of \<open>iter_runnable_agent_slots\<close> for one agent: the generator looks at the state when it is asked\<close>
definition runnable_slot :: "string \<Rightarrow> ('w, 'z, queued_slot option) dmn" where
  "runnable_slot agent_name =
     py_bind (py_gets (\<lambda>s. active_job_for TK_AGENT agent_name (dp_state s))) (\<lambda>active.
     if active \<noteq> None then py_return None
     else py_bind (on_state (queue_depth_for TK_AGENT agent_name)) (\<lambda>depth.
       if depth = 0 then py_return None
       else py_bind (on_registry (registry_get agent_name)) (\<lambda>runtime.
         let slot = \<lparr>qs_target_kind = TK_AGENT, qs_target_name = agent_name, qs_runtime = runtime\<rparr> in
         case runtime of None \<Rightarrow> py_return (Some slot)
         | Some r \<Rightarrow> if rt_state r \<notin> set ([AS_STOPPED, AS_FAILED] @ RUNNABLE_AGENT_STATES) then py_return None
             else if rt_state r = AS_DEGRADED
             then py_bind (degraded_runtime_action r) (\<lambda>action.
               py_return (if action \<in> {DA_BLOCKED, DA_DROP} then None else Some slot))
             else py_return (Some slot))))"

fun tick_agents :: "nat \<Rightarrow> string list \<Rightarrow> ('w, 'z, job_record list) dmn" where
  "tick_agents depth [] = py_return []"
| "tick_agents depth (agent_name # rest) =
     py_bind (runnable_slot agent_name) (\<lambda>slot.
     py_bind (case slot of None \<Rightarrow> py_return None | Some s \<Rightarrow> start_next_queued_job depth s) (\<lambda>job.
     py_bind (tick_agents depth rest) (\<lambda>jobs. py_return (case job of None \<Rightarrow> jobs | Some j \<Rightarrow> j # jobs))))"

definition tick_jobs :: "nat \<Rightarrow> ('w, 'z, job_record list) dmn" where
  "tick_jobs depth = py_bind config_agents (tick_agents depth)"

section \<open>Polling\<close>

fun item_kind_value :: "completion_item_kind \<Rightarrow> string" where
  "item_kind_value ANCHOR_SEEN = ''anchor_seen''"
| "item_kind_value ASSISTANT_CHUNK = ''assistant_chunk''"
| "item_kind_value ASSISTANT_FINAL = ''assistant_final''"
| "item_kind_value TOOL_CALL = ''tool_call''"
| "item_kind_value TOOL_RESULT = ''tool_result''"
| "item_kind_value RESULT = ''result''"
| "item_kind_value TURN_BOUNDARY = ''turn_boundary''"
| "item_kind_value TURN_ABORTED = ''turn_aborted''"
| "item_kind_value CANCEL_INFO = ''cancel_info''"
| "item_kind_value ERROR = ''error''"
| "item_kind_value PANE_DEAD = ''pane_dead''"
| "item_kind_value SESSION_SNAPSHOT = ''session_snapshot''"
| "item_kind_value SESSION_MUTATION = ''session_mutation''"
| "item_kind_value SESSION_ROTATE = ''session_rotate''"

definition item_to_record :: "completion_item \<Rightarrow> payload" where
  "item_to_record i =
     [(''schema_version'', JInt COMPLETION_SCHEMA_VERSION), (''record_type'', JStr ''completion_item''),
      (''kind'', JStr (item_kind_value (it_kind i))), (''timestamp'', JStr (it_timestamp i)),
      (''cursor'', JObj (cursor_to_record (it_cursor i))), (''provider'', JStr (it_provider i)),
      (''agent_name'', JStr (it_agent_name i)), (''req_id'', JStr (it_req_id i)), (''payload'', JObj (it_payload i))]"

definition ensure_completion_tracker :: "job_record \<Rightarrow> ('w, 'z, unit) dmn" where
  "ensure_completion_tracker current = py_bind (py_gets cd_tracker) (\<lambda>tracker. case tracker of None \<Rightarrow> py_return ()
     | Some t \<Rightarrow> py_bind (on_tracker (tracker_current (jr_job_id current)) t) (\<lambda>view.
         if view \<noteq> None then py_return ()
         else py_then (with_tracker (on_tracker (tracker_start current (jr_updated_at current))) None) (py_return ())))"

fun ingest_items :: "job_record \<Rightarrow> completion_item list \<Rightarrow> tracker_view option \<Rightarrow> ('w, 'z, tracker_view option) dmn" where
  "ingest_items current [] tracked = py_return tracked"
| "ingest_items current (item # rest) tracked =
     py_then (append_event current ''completion_item'' (item_to_record item) (it_timestamp item)) (
     py_then (acknowledge_item (jr_job_id current) (cu_event_seq (it_cursor item))) (
     py_bind (py_gets cd_tracker) (\<lambda>tracker. case tracker of
         None \<Rightarrow> ingest_items current rest tracked
       | Some t \<Rightarrow> py_bind (on_tracker (tracker_ingest (jr_job_id current) item) t) (\<lambda>view.
           py_then (apply_tracker_view current view (Some (it_timestamp item))) (ingest_items current rest (Some view))))))"

definition ingest_update_items :: "job_record \<Rightarrow> execution_update \<Rightarrow> ('w, 'z, tracker_view option) dmn" where
  "ingest_update_items current update =
     py_then (ensure_completion_tracker current) (
     py_bind (ingest_items current (eu_items update) None) (\<lambda>tracked. case tracked of
         Some v \<Rightarrow> py_return (Some v) | None \<Rightarrow> tracked_view (eu_job_id update)))"

definition resolve_update_decision :: "execution_update \<Rightarrow> tracker_view option \<Rightarrow> completion_decision option" where
  "resolve_update_decision update tracked = (case eu_decision update of Some d \<Rightarrow> Some d
     | None \<Rightarrow> (case tracked of Some v \<Rightarrow> if de_terminal (tv_decision v) then Some (tv_decision v) else None | None \<Rightarrow> None))"

definition is_open_job :: "job_record option \<Rightarrow> bool" where
  "is_open_job job = (case job of None \<Rightarrow> False | Some j \<Rightarrow> terminal_event_by_status (jr_status j) = None)"

text \<open>One update: the ids of the jobs it completed\<close>
definition apply_update :: "nat \<Rightarrow> execution_update \<Rightarrow> ('w, 'z, job_record list) dmn" where
  "apply_update depth update = py_bind (get_job (eu_job_id update)) (\<lambda>found. case found of
       None \<Rightarrow> py_then (execution_finish (eu_job_id update)) (py_return [])
     | Some current \<Rightarrow>
         if \<not> is_open_job (Some current) then py_then (execution_finish (eu_job_id update)) (py_return [])
         else py_bind (ingest_update_items current update) (\<lambda>tracked. case resolve_update_decision update tracked of
             Some decision \<Rightarrow> py_bind (complete_job depth (eu_job_id update) decision) (\<lambda>job. py_return [job])
           | None \<Rightarrow> py_then (acknowledge (eu_job_id update)) (py_return [])))"

text \<open>The completed jobs with the ids under which they were completed\<close>
fun apply_updates :: "nat \<Rightarrow> execution_update list \<Rightarrow> ('w, 'z, (string \<times> job_record) list) dmn" where
  "apply_updates depth [] = py_return []"
| "apply_updates depth (update # rest) = py_bind (apply_update depth update) (\<lambda>done.
     py_bind (apply_updates depth rest) (\<lambda>others. py_return (map (\<lambda>j. (eu_job_id update, j)) done @ others)))"

fun apply_views :: "nat \<Rightarrow> tracker_view list \<Rightarrow> string list \<Rightarrow> ('w, 'z, job_record list) dmn" where
  "apply_views depth [] completed = py_return []"
| "apply_views depth (view # rest) completed = py_bind (get_job (tv_job_id view)) (\<lambda>found. case found of
       None \<Rightarrow> apply_views depth rest completed
     | Some current \<Rightarrow>
         if \<not> is_open_job (Some current) \<or> tv_job_id view \<in> set completed then apply_views depth rest completed
         else py_then (apply_tracker_view current view None) (
           if de_terminal (tv_decision view)
           then py_bind (complete_job depth (tv_job_id view) (tv_decision view)) (\<lambda>job.
             py_bind (apply_views depth rest (tv_job_id view # completed)) (\<lambda>jobs. py_return (job # jobs)))
           else apply_views depth rest completed))"

definition tick_tracker :: "nat \<Rightarrow> string list \<Rightarrow> ('w, 'z, job_record list) dmn" where
  "tick_tracker depth completed = py_bind (py_gets cd_tracker) (\<lambda>tracker. case tracker of None \<Rightarrow> py_return []
     | Some t \<Rightarrow> py_bind read_clock (\<lambda>now.
         py_bind (on_tracker (tracker_tick_all now) t) (\<lambda>views. apply_views depth views completed)))"

definition poll_completion_updates :: "nat \<Rightarrow> ('w, 'z, job_record list) dmn" where
  "poll_completion_updates depth = py_bind (py_gets dm_has_execution) (\<lambda>enabled.
     if \<not> enabled then py_return []
     else py_bind poll_updates (\<lambda>updates.
       py_bind (apply_updates depth updates) (\<lambda>completed.
       py_bind (tick_tracker depth (map fst completed)) (\<lambda>ticked. py_return (map snd completed @ ticked)))))"

section \<open>Restart\<close>

text \<open>The files of the state store in the order of their names, which are the job ids\<close>
fun cleanup_each :: "string list \<Rightarrow> ('w, 'z, string list) dmn" where
  "cleanup_each [] = py_return []"
| "cleanup_each (job_id # rest) = py_bind (get_job job_id) (\<lambda>current.
     if is_open_job current then cleanup_each rest
     else py_then (execution_finish job_id) (py_bind (cleanup_each rest) (\<lambda>removed. py_return (job_id # removed))))"

definition cleanup_stale_execution_states :: "('w, 'z, string list) dmn" where
  "cleanup_stale_execution_states = py_bind (py_gets (\<lambda>s. if dm_has_execution s then ex_store s else None)) (\<lambda>store.
     case store of None \<Rightarrow> py_return [] | Some states \<Rightarrow> cleanup_each (sort (map fst states)))"

definition failed_restore_diagnostics :: "restore_result \<Rightarrow> payload" where
  "failed_restore_diagnostics restored = [(''restore_status'', JStr (rr_status restored)),
     (''restore_reason'', JStr (rr_reason restored)), (''resume_capable'', JBool (rr_resume_capable restored))]"

definition failed_restore_decision :: "nat \<Rightarrow> job_record \<Rightarrow> restore_result \<Rightarrow> ('w, 'z, job_record) dmn" where
  "failed_restore_decision depth current restored = py_bind read_clock (\<lambda>failed_at.
     py_then (append_event current ''execution_restore_failed'' (failed_restore_diagnostics restored) failed_at) (
     py_bind (py_lift (CompletionDecision \<lparr>de_terminal = True, de_status = CS_INCOMPLETE,
        de_reason = Some ''ccbd_restart_requires_resubmit'', de_confidence = Some CC_DEGRADED, de_reply = '''',
        de_anchor_seen = False, de_reply_started = False, de_reply_stable = False, de_provider_turn_ref = None,
        de_source_cursor = None, de_finished_at = Some failed_at,
        de_diagnostics = failed_restore_diagnostics restored\<rparr>)) (\<lambda>decision.
     complete_job depth (jr_job_id current) decision)))"

definition restore_current_job :: "nat \<Rightarrow> string \<Rightarrow> ('w, 'z, job_record option) dmn" where
  "restore_current_job depth job_id = py_bind (get_job job_id) (\<lambda>found. case found of
       None \<Rightarrow> py_return None
     | Some current \<Rightarrow>
         if jr_status current \<noteq> JS_RUNNING then py_return None
         else if is_reply_delivery_job current
         then py_bind read_clock (\<lambda>now.
           py_bind (py_lift (reply_delivery_failed_decision current now ''reply_delivery_restart_requeued''
             [(''restore_status'', JStr ''abandoned''), (''restore_reason'', JStr ''reply_delivery_does_not_resume'')])) (\<lambda>decision.
           py_bind (complete_job depth (jr_job_id current) decision) (\<lambda>job. py_return (Some job))))
         else py_bind (on_registry (registry_get (jr_agent_name current))) (\<lambda>runtime.
           py_bind (restore_submission current (build_runtime_context runtime)) (\<lambda>restored.
           py_bind (case (rr_status restored = ''terminal_pending'', rr_decision restored) of
               (True, Some decision) \<Rightarrow> py_then (ensure_completion_tracker current) (complete_job depth (jr_job_id current) decision)
             | _ \<Rightarrow> if rr_restored restored
                 then py_then (ensure_completion_tracker current) (
                   py_then (sync_runtime (jr_agent_name current) (Some AS_BUSY)) (py_return current))
                 else failed_restore_decision depth current restored) (\<lambda>job. py_return (Some job)))))"

fun restore_each :: "nat \<Rightarrow> string list \<Rightarrow> ('w, 'z, job_record list) dmn" where
  "restore_each depth [] = py_return []"
| "restore_each depth (job_id # rest) = py_bind (restore_current_job depth job_id) (\<lambda>job.
     py_bind (restore_each depth rest) (\<lambda>jobs. py_return (case job of None \<Rightarrow> jobs | Some j \<Rightarrow> j # jobs)))"

definition restore_running_jobs :: "nat \<Rightarrow> ('w, 'z, job_record list) dmn" where
  "restore_running_jobs depth = py_bind (py_gets dm_has_execution) (\<lambda>enabled.
     if \<not> enabled then py_return []
     else py_bind read_clock (\<lambda>generated_at.
       py_bind (py_gets (\<lambda>s. map (snd \<circ> snd) (active_items (dp_state s)))) (restore_each depth)))"

section \<open>The dispatcher's entry points\<close>

definition TEXT_ARTIFACT_SWEEP_INTERVAL_S :: rat where "TEXT_ARTIFACT_SWEEP_INTERVAL_S = 5 * 60"

text \<open>The modification times of the files and the value of the monotonic clock are arguments\<close>
definition sweep_text_artifacts_if_due :: "(string \<Rightarrow> rat option) \<Rightarrow> rat \<Rightarrow> ('w, 'z, string list) dmn" where
  "sweep_text_artifacts_if_due mtime now = py_bind (py_gets dm_last_sweep_at) (\<lambda>last.
     if (case last of None \<Rightarrow> False | Some t \<Rightarrow> now - t < TEXT_ARTIFACT_SWEEP_INTERVAL_S) then py_return []
     else py_bind (sweep_expired_text_artifacts mtime None) (\<lambda>removed.
       py_then (py_modify (\<lambda>s. s\<lparr>dm_last_sweep_at := Some now\<rparr>)) (py_return removed)))"

definition dispatcher_tick :: "nat \<Rightarrow> (string \<Rightarrow> rat option) \<Rightarrow> rat \<Rightarrow> ('w, 'z, job_record list) dmn" where
  "dispatcher_tick depth mtime monotonic = py_then (sweep_text_artifacts_if_due mtime monotonic) (
     py_then repair_callback_edges (
     py_then (prepare_reply_deliveries (complete_job depth)) (tick_jobs depth)))"

definition reconcile_runtime_views :: "('z, unit) disp" where
  "reconcile_runtime_views = py_bind config_agents (\<lambda>agents. py_for agents (\<lambda>agent_name. sync_runtime agent_name None))"

definition start_dispatcher :: "('w, 'z, string list) dmn" where
  "start_dispatcher = py_then rebuild_dispatcher_state cleanup_stale_execution_states"

end
