(* ===== verification/Daemon_Frames.thy ===== *)
theory Daemon_Frames
  imports Frame_Rules Dispatcher_Lifecycle
begin

text \<open>
  What most operations of the daemon leave alone: the job rows, the queues, the running jobs and the
  job index, the configured agents, the ids already drawn. Executions and trackers are created for jobs
  that have been started only.
\<close>

section \<open>The frames of the parts\<close>

definition same_rows :: "job_logs \<Rightarrow> job_logs \<Rightarrow> bool" where
  "same_rows l l' \<longleftrightarrow> jl_jobs l' = jl_jobs l"

interpretation log_frame: framing "\<lambda>_. True" same_rows
  by unfold_locales (auto simp: same_rows_def)

lemma log_frames:
  "framed (\<lambda>_. True) same_rows (job_list_target n)"
  "framed (\<lambda>_. True) same_rows (job_get_latest n j)"
  "framed (\<lambda>_. True) same_rows (job_event_append e)"
  "framed (\<lambda>_. True) same_rows (submission_append r)"
  "framed (\<lambda>_. True) same_rows (submission_get_latest i)"
  unfolding job_list_target_def job_get_latest_def job_event_append_def submission_append_def submission_get_latest_def
  by (intro log_frame.framed_rules log_frame.framed_modify; simp add: same_rows_def)+

definition same_agents :: "registry \<Rightarrow> registry \<Rightarrow> bool" where
  "same_agents g h \<longleftrightarrow> rg_agents h = rg_agents g"

interpretation registry_frame: framing "\<lambda>_. True" same_agents
  by unfold_locales (auto simp: same_agents_def)

lemma registry_frames:
  "framed (\<lambda>_. True) same_agents (spec_for n)"
  "framed (\<lambda>_. True) same_agents (get_locked n)"
  "framed (\<lambda>_. True) same_agents (registry_get n)"
  "framed (\<lambda>_. True) same_agents (save_locked r w e)"
  "framed (\<lambda>_. True) same_agents (registry_upsert r w)"
  "framed (\<lambda>_. True) same_agents (patch_runtime_state r u)"
  unfolding spec_for_def get_locked_def registry_get_def save_locked_def registry_upsert_def patch_runtime_state_def
  by (intro registry_frame.framed_rules registry_frame.framed_modify; simp add: same_agents_def)+

lemma list_alive_frame: "framed (\<lambda>_. True) same_agents list_alive"
proof -
  have "framed (\<lambda>_. True) same_agents (list_runtimes ns)" for ns
    by (induction ns; simp only: list_runtimes.simps; intro registry_frame.framed_rules registry_frames; assumption)
  then show ?thesis
    unfolding list_alive_def list_all_runtimes_def list_known_agents_def by (intro registry_frame.framed_rules)
qed

definition tracked_ids :: "tracker_service \<Rightarrow> string set" where
  "tracked_ids t = fst ` set (ts_trackers t)"

definition no_new_tracker :: "tracker_service \<Rightarrow> tracker_service \<Rightarrow> bool" where
  "no_new_tracker t t' \<longleftrightarrow> tracked_ids t' \<subseteq> tracked_ids t"

interpretation tracker_frame: framing "\<lambda>_. True" no_new_tracker
  by unfold_locales (auto simp: no_new_tracker_def)

text \<open>A tracker that exists is replaced, inside the methods that have looked it up\<close>
interpretation known_tracker: framing "\<lambda>t. j \<in> tracked_ids t" "\<lambda>t t'. tracked_ids t' = tracked_ids t" for j
  by unfold_locales auto

lemma known_tracker_frames:
  "framed (\<lambda>t. j \<in> tracked_ids t) (\<lambda>t t'. tracked_ids t' = tracked_ids t) (put_tracker j x)"
  "framed (\<lambda>t. j \<in> tracked_ids t) (\<lambda>t t'. tracked_ids t' = tracked_ids t) (tracker_current i)"
  "framed (\<lambda>t. j \<in> tracked_ids t) (\<lambda>t t'. tracked_ids t' = tracked_ids t) (require_current i)"
  "framed (\<lambda>t. j \<in> tracked_ids t) (\<lambda>t t'. tracked_ids t' = tracked_ids t) (with_detector j x m)"
  "framed (\<lambda>t. j \<in> tracked_ids t) (\<lambda>t t'. tracked_ids t' = tracked_ids t) (maybe_finalize_timeout j x now)"
  unfolding put_tracker_def tracker_current_def require_current_def with_detector_def maybe_finalize_timeout_def
  by (intro known_tracker.framed_rules known_tracker.framed_modify; auto simp: tracked_ids_def fst_dict_set)+

lemma tracker_require_then:
  assumes "\<And>x. framed (\<lambda>t. j \<in> tracked_ids t) (\<lambda>t t'. tracked_ids t' = tracked_ids t) (f x)"
  shows "framed (\<lambda>_. True) no_new_tracker (py_bind (tracker_require j) f)"
  unfolding framed_def
proof (intro allI impI)
  fix t
  show "no_new_tracker t (snd (py_bind (tracker_require j) f t))"
  proof (cases "map_of (ts_trackers t) j")
    case None
    then show ?thesis by (simp add: tracker_require_def no_new_tracker_def py_bind_def)
  next
    case (Some x)
    then have "j \<in> tracked_ids t" by (auto simp: tracked_ids_def dest: map_of_SomeD intro: rev_image_eqI)
    with assms [of x] Some show ?thesis by (simp add: tracker_require_def no_new_tracker_def py_bind_def framed_def)
  qed
qed

lemma tracker_frames:
  "framed (\<lambda>_. True) no_new_tracker (tracker_current j)"
  "framed (\<lambda>_. True) no_new_tracker (tracker_finish j)"
  "framed (\<lambda>_. True) no_new_tracker (tracker_ingest j i)"
  "framed (\<lambda>_. True) no_new_tracker (tracker_tick j now)"
proof -
  show "framed (\<lambda>_. True) no_new_tracker (tracker_current j)" "framed (\<lambda>_. True) no_new_tracker (tracker_finish j)"
    unfolding tracker_current_def tracker_finish_def
    by (intro tracker_frame.framed_rules tracker_frame.framed_modify; auto simp: no_new_tracker_def tracked_ids_def dict_pop_def)+
  show "framed (\<lambda>_. True) no_new_tracker (tracker_ingest j i)" "framed (\<lambda>_. True) no_new_tracker (tracker_tick j now)"
    unfolding tracker_ingest_def tracker_tick_def
    by (intro tracker_require_then known_tracker.framed_rules known_tracker_frames)+
qed

lemma tick_all_frame: "framed (\<lambda>_. True) no_new_tracker (tracker_tick_all now)"
proof -
  have "framed (\<lambda>_. True) no_new_tracker (tick_each js now)" for js
    by (induction js; simp only: tick_each.simps; intro tracker_frame.framed_rules tracker_frames; assumption)
  then show ?thesis unfolding tracker_tick_all_def by (intro tracker_frame.framed_rules)
qed

section \<open>The frame of the daemon\<close>

definition agents_of :: "'z dispatcher_scheme \<Rightarrow> string list" where
  "agents_of s = map fst (rg_agents (dp_registry s))"

text \<open>A job that has left its queue for good: its newest row is not a pending one\<close>
definition started :: "job_logs \<Rightarrow> string \<Rightarrow> bool" where
  "started l j \<longleftrightarrow> (\<exists>a r. newest l a j = Some r \<and> jr_status r \<notin> set PENDING_STATES)"

text \<open>The jobs that the execution service or the tracker may report on\<close>
definition handled :: "('w, 'z) daemon_scheme \<Rightarrow> string set" where
  "handled s = fst ` set (ex_active s) \<union> fst ` set (ex_replays s) \<union>
     (case cd_tracker s of None \<Rightarrow> {} | Some t \<Rightarrow> tracked_ids t)"

text \<open>The runtime service works on the runtimes of the configured agents, not on the configuration\<close>
definition services_ok :: "('w, 'z) daemon_scheme \<Rightarrow> bool" where
  "services_ok s \<longleftrightarrow>
     (\<forall>n g w. rg_agents (fst (snd (dm_ensure_ready s n (g, w)))) = rg_agents g) \<and>
     (\<forall>n g w. rg_agents (fst (snd (dm_refresh_provider_binding s n (g, w)))) = rg_agents g)"

definition indexed :: "('w, 'z) daemon_scheme \<Rightarrow> bool" where
  "indexed s \<longleftrightarrow> distinct (agents_of s) \<and> (\<forall>a \<in> set (agents_of s). agent_name_ok a) \<and> services_ok s \<and>
     logs_ok (agents_of s) (dp_logs s) \<and> index_ok (agents_of s) (dp_logs s) (dp_state s)"

definition same_state :: "dispatcher_state \<Rightarrow> dispatcher_state \<Rightarrow> bool" where
  "same_state st st' \<longleftrightarrow> (\<forall>x. queue_at st' x = queue_at st x) \<and> ds_active_jobs st' = ds_active_jobs st \<and>
     ds_job_index st' = ds_job_index st"

definition untouched :: "('w, 'z) daemon_scheme \<Rightarrow> ('w, 'z) daemon_scheme \<Rightarrow> bool" where
  "untouched s t \<longleftrightarrow> same_rows (dp_logs s) (dp_logs t) \<and> same_state (dp_state s) (dp_state t) \<and>
     same_agents (dp_registry s) (dp_registry t) \<and> bs_ids t = bs_ids s \<and> bs_next_id s \<le> bs_next_id t \<and>
     dm_ensure_ready t = dm_ensure_ready s \<and> dm_refresh_provider_binding t = dm_refresh_provider_binding s \<and>
     handled t \<subseteq> handled s \<union> Collect (started (dp_logs s))"

lemma newest_same_rows: "same_rows l l' \<Longrightarrow> newest l' = newest l"
  by (simp add: same_rows_def newest_def fun_eq_iff)

lemma started_same_rows: "same_rows l l' \<Longrightarrow> started l' = started l"
  by (simp add: started_def fun_eq_iff newest_same_rows)

lemma logged_same_rows: "same_rows l l' \<Longrightarrow> logged_job l' = logged_job l"
  by (simp add: same_rows_def logged_job_def fun_eq_iff)

lemma logs_ok_same_rows: "same_rows l l' \<Longrightarrow> logs_ok as l' = logs_ok as l"
  by (simp add: same_rows_def logs_ok_def logs_partitioned_def job_ids_unique_def)

lemma same_state_views:
  assumes "same_state st st'"
  shows "active_job_for k n st' = active_job_for k n st" "target_for_job j st' = target_for_job j st"
    "queue_at st' x = queue_at st x"
  using assms by (cases x; simp add: same_state_def active_job_for_def target_for_job_def)+

lemma index_ok_frame: "same_rows l l' \<Longrightarrow> same_state st st' \<Longrightarrow> index_ok as l' st' = index_ok as l st"
  by (simp add: index_ok_def logged_same_rows same_state_views)

lemma untouched_refl: "untouched s s"
  by (simp add: untouched_def same_rows_def same_state_def same_agents_def)

lemma untouched_trans: "untouched s t \<Longrightarrow> untouched t u \<Longrightarrow> untouched s u"
  by (auto simp: untouched_def same_state_def same_agents_def started_same_rows) (auto simp: same_rows_def)

lemma untouched_agents: "untouched s t \<Longrightarrow> agents_of t = agents_of s"
  by (simp add: untouched_def agents_of_def same_agents_def)

lemma untouched_indexed: "indexed s \<Longrightarrow> untouched s t \<Longrightarrow> indexed t"
  unfolding indexed_def using untouched_agents [of s t]
    logs_ok_same_rows [of "dp_logs s" "dp_logs t"] index_ok_frame [of "dp_logs s" "dp_logs t" "dp_state s" "dp_state t"]
  by (simp add: untouched_def services_ok_def)

lemma untouched_started: "untouched s t \<Longrightarrow> started (dp_logs t) = started (dp_logs s)"
  by (simp add: untouched_def started_same_rows [of "dp_logs s"])

abbreviation quiet :: "(('w, 'z) daemon_scheme, 'a) py \<Rightarrow> bool" where
  "quiet m \<equiv> framed indexed untouched m"

interpretation daemon_frame: framing indexed untouched
  by unfold_locales (auto intro: untouched_refl untouched_trans untouched_indexed)

abbreviation quiet_for :: "string \<Rightarrow> (('w, 'z) daemon_scheme, 'a) py \<Rightarrow> bool" where
  "quiet_for j m \<equiv> framed (\<lambda>s. indexed s \<and> started (dp_logs s) j) untouched m"

interpretation started_frame: framing "\<lambda>s. indexed s \<and> started (dp_logs s) j" untouched for j
  by unfold_locales (auto intro: untouched_refl untouched_trans untouched_indexed simp: untouched_started)

lemma quiet_started: "quiet m \<Longrightarrow> quiet_for j m"
  by (erule framed_weaken) simp

lemmas [frame] = daemon_frame.framed_rules

section \<open>Operations of the parts, run by the daemon\<close>

lemma on_logs_quiet: "framed (\<lambda>_. True) same_rows m \<Longrightarrow> quiet (on_logs m)"
  by (auto simp: framed_def on_logs_def untouched_def same_state_def same_agents_def handled_def split: prod.split)
    (metis snd_conv)

lemma on_registry_quiet: "framed (\<lambda>_. True) same_agents m \<Longrightarrow> quiet (on_registry m)"
  by (auto simp: framed_def on_registry_def untouched_def same_state_def same_rows_def handled_def split: prod.split)
    (metis snd_conv)

lemma on_state_quiet: "(\<And>st. same_state st (snd (f st))) \<Longrightarrow> quiet (on_state f)"
  by (auto simp: framed_def on_state_def untouched_def same_agents_def same_rows_def handled_def split: prod.split)
    (metis snd_conv)

lemma on_world_quiet [frame]: "quiet (on_world m)"
  by (auto simp: framed_def on_world_def untouched_def same_agents_def same_rows_def same_state_def handled_def split: prod.split)

lemma new_id_quiet [frame]: "quiet (new_id p)"
  by (auto simp: framed_def new_id_def untouched_def same_agents_def same_rows_def same_state_def handled_def)

lemma read_clock_quiet [frame]: "quiet read_clock"
  by (auto simp: framed_def read_clock_def untouched_def same_agents_def same_rows_def same_state_def handled_def)

lemmas [frame] = log_frames [THEN on_logs_quiet] registry_frames [THEN on_registry_quiet] list_alive_frame [THEN on_registry_quiet]

text \<open>A change of the fields that the frame does not mention\<close>
lemma modify_quiet:
  assumes "\<And>s. dp_logs (f s) = dp_logs s" "\<And>s. dp_state (f s) = dp_state s" "\<And>s. dp_registry (f s) = dp_registry s"
    "\<And>s. bs_ids (f s) = bs_ids s" "\<And>s. bs_next_id (f s) = bs_next_id s" "\<And>s. dm_ensure_ready (f s) = dm_ensure_ready s"
    "\<And>s. dm_refresh_provider_binding (f s) = dm_refresh_provider_binding s" "\<And>s. handled (f s) \<subseteq> handled s"
  shows "quiet (py_modify f)"
  unfolding framed_def py_run_simps snd_conv untouched_def assms(1-7) using assms(8)
  by (simp add: same_agents_def same_rows_def same_state_def) blast

lemma ensure_queue_same [simp]: "same_state st (ensure_queue x st)"
  by (simp add: same_state_def ensure_queue_def queue_at_def AList.update_conv' split: option.split)

lemma state_reads_quiet [frame]:
  "quiet (on_state (queue_depth_for k n))" "quiet (on_state (has_outstanding_for k n))" "quiet (on_state (queued_items_for k n))"
  by (intro on_state_quiet; simp add: queue_depth_for_def has_outstanding_for_def queued_items_for_def Let_def)+

text \<open>The tracker is read from the state and written back\<close>
lemma on_tracker_untouched:
  assumes "cd_tracker s = Some t" "framed (\<lambda>_. True) no_new_tracker m"
  shows "untouched s (snd (on_tracker m t s))"
proof -
  have "tracked_ids (snd (m t)) \<subseteq> tracked_ids t" using assms(2) by (simp add: framed_def no_new_tracker_def)
  with assms(1) show ?thesis
    by (auto simp: on_tracker_def untouched_def same_agents_def same_rows_def same_state_def handled_def split: prod.split)
qed

lemma on_tracker_started:
  assumes "cd_tracker s = Some t" "started (dp_logs s) (jr_job_id job)"
  shows "untouched s (snd (on_tracker (tracker_start job now) t s))"
proof -
  have "tracked_ids (snd (tracker_start job now t)) \<subseteq> insert (jr_job_id job) (tracked_ids t)"
    by (auto simp: tracker_start_def put_tracker_def tracker_current_def tracked_ids_def fst_dict_set py_bind_def py_then_def
        split: sum.splits option.splits prod.splits)
  with assms show ?thesis
    by (auto simp: on_tracker_def untouched_def same_agents_def same_rows_def same_state_def handled_def split: prod.split)
qed

lemma framed_tracker:
  assumes "framing pre untouched" "\<And>s t. pre s \<Longrightarrow> cd_tracker s = Some t \<Longrightarrow> untouched s (snd (g t s))"
    and "framed pre untouched n" "\<And>t x. framed pre untouched (f t x)"
  shows "framed pre untouched (py_bind (py_gets cd_tracker) (\<lambda>v. case v of None \<Rightarrow> n | Some t \<Rightarrow> py_bind (g t) (f t)))"
  unfolding framed_def
proof (intro allI impI)
  fix s assume s: "pre s"
  show "untouched s (snd (py_bind (py_gets cd_tracker) (\<lambda>v. case v of None \<Rightarrow> n | Some t \<Rightarrow> py_bind (g t) (f t)) s))"
  proof (cases "cd_tracker s")
    case None
    with assms(3) s show ?thesis by (simp add: framed_def py_bind_def)
  next
    case (Some t)
    obtain y u where g: "g t s = (y, u)" by (cases "g t s")
    with assms(2) [OF s Some] have u: "untouched s u" by simp
    then have "pre u" using framing.stable [OF assms(1) s] by simp
    then have "untouched s (snd (f t x u))" for x using assms(4) [of t x] u untouched_trans by (auto simp: framed_def)
    with Some g u show ?thesis by (cases y) (simp_all add: py_bind_def)
  qed
qed

lemmas quiet_tracker = framed_tracker [OF daemon_frame.framing_axioms]
lemmas started_tracker = framed_tracker [OF started_frame.framing_axioms]

lemma py_bind_return [simp]: "py_bind m py_return = m"
  by (auto simp: py_bind_def fun_eq_iff split: prod.split sum.split)

lemma with_tracker_quiet: "framed (\<lambda>_. True) no_new_tracker m \<Longrightarrow> quiet (with_tracker (on_tracker m) x)"
  using quiet_tracker [of "on_tracker m" "py_return x" "\<lambda>_. py_return"] on_tracker_untouched [of _ _ m] daemon_frame.framed_pure(1)
  unfolding with_tracker_def by fastforce

section \<open>The mailbox kernel and the message bureau\<close>

lemma mailbox_frames [frame]:
  "quiet (given_or_clock g)" "quiet (mailbox_load a)" "quiet (mailbox_save r)" "quiet (compare_and_save r v)"
  "quiet (inbound_append e)" "quiet (inbound_list_agent a)" "quiet (inbound_get_latest a i)"
  "quiet (inbound_get_latest_for_attempt a i)" "quiet (lease_load a)" "quiet (lease_save l)" "quiet (lease_remove a)"
  "quiet (latest_events a)" "quiet (pending_events a ty)" "quiet (head_pending_event a)"
  unfolding given_or_clock_def mailbox_load_def mailbox_save_def compare_and_save_def inbound_append_def inbound_list_agent_def
    inbound_get_latest_def inbound_get_latest_for_attempt_def lease_load_def lease_save_def lease_remove_def latest_events_def
    pending_events_def head_pending_event_def store_key_def
  by (intro frame modify_quiet; simp add: handled_def)+

lemma framed_ellipsis:
  "framed pre R m \<Longrightarrow> (\<And>y. framed pre R (f y)) \<Longrightarrow> framed pre R (case x of Ellipsis \<Rightarrow> m | Given y \<Rightarrow> f y)"
  by (simp split: ellipsis.split)

lemma summary_frames [frame]:
  "quiet (apply_incremental_summary_update a q p x ls lf u)"
  "quiet (apply_transition_summary_update a d p y ls lf u src h)"
  "quiet (rebuild_mailbox_summary a u)"
  unfolding apply_incremental_summary_update_def apply_transition_summary_update_def rebuild_mailbox_summary_def
    project_mailbox_summary_def build_mailbox_summary_record_def resolve_summary_head_def save_summary_record_def
  by (intro frame framed_ellipsis)+

lemma transition_frames [frame]:
  "quiet (claim a i t)" "quiet (rewrite_head a i p st t c)" "quiet (mark_terminal a i st t)"
  unfolding claim_def rewrite_head_def mark_terminal_def load_claim_candidate_def has_conflicting_lease_def is_claimable_head_def
    claim_current_def make_delivery_lease_def next_lease_version_def refresh_and_return_def release_matching_lease_def
  by (intro frame)+

lemma kernel_frames [frame]:
  "quiet (kernel_consume a i t)" "quiet (kernel_abandon a i t)" "quiet (refresh_mailbox a t)"
  "quiet (upsert_mailbox_summary a q p x ls lf t)"
  unfolding kernel_consume_def kernel_abandon_def refresh_mailbox_def upsert_mailbox_summary_def by (intro frame)+

lemma bureau_store_frames [frame]:
  "quiet (message_append m)" "quiet (attempt_append x)" "quiet (reply_append r)" "quiet (edge_append e)"
  unfolding message_append_def attempt_append_def reply_append_def edge_append_def
  by (intro modify_quiet; simp add: handled_def)+

lemma bureau_read_frames [frame]:
  "quiet (message_get_latest i)" "quiet (attempt_get_latest i)" "quiet (attempt_get_latest_by_job_id i)"
  "quiet (attempt_get_latest_by_message_id i x)" "quiet (attempt_get_latest_by_message_agent i a)"
  "quiet (attempt_list_message i)" "quiet (reply_get_latest i)" "quiet (reply_list_message i)" "quiet (edge_get_latest i)"
  "quiet (edge_for_child_job i)" "quiet (edge_for_child_message i)" "quiet (edge_for_parent_job i)"
  "quiet (pending_callback_edges)" "quiet (resolve_origin_message_id k)" "quiet (latest_attempts_for_message i)"
  unfolding message_get_latest_def attempt_get_latest_def attempt_get_latest_by_job_id_def attempt_get_latest_by_message_id_def
    attempt_get_latest_by_message_agent_def attempt_list_message_def reply_get_latest_def reply_list_message_def
    edge_get_latest_def edge_for_child_job_def edge_for_child_message_def edge_for_parent_job_def pending_callback_edges_def
    resolve_origin_message_id_def latest_attempts_for_message_def
  by (intro frame)+

lemma message_state_frames [frame]:
  "quiet (edge_update e c)" "quiet (set_message_state i st t)" "quiet (refresh_message_state i t)" "quiet (next_retry_index i a)"
  "quiet (claimable_request_job_ids a)" "quiet (mailbox_actor n)" "quiet (record_job_attempt i j k t)"
  unfolding edge_update_def set_message_state_def refresh_message_state_def next_retry_index_def claimable_request_job_ids_def
    mailbox_actor_def peek_next_def record_job_attempt_def
  by (intro frame)+

lemma recording_frames [frame]:
  "quiet (record_submission q js si t o')" "quiet (record_retry_attempt i j t)" "quiet (mark_attempt_started j t)"
  "quiet (record_attempt_terminal j t)" "quiet (record_reply j d t dl)"
  unfolding record_submission_def record_retry_attempt_def mark_attempt_started_def record_attempt_terminal_def record_reply_def
    record_request_def resolve_inbound_for_attempt_start_def queue_reply_delivery_def
  by (intro frame)+

lemma record_terminal_frame [frame]: "quiet (record_terminal j d t dl en)"
  unfolding record_terminal_def by (intro frame)

lemma artifact_frames [frame]:
  "quiet (maybe_spill_text v k o' m t)" "quiet (validate_text_artifact_ref f a)" "quiet (sweep_expired_text_artifacts mt n)"
  "quiet (record_notice j v d u st c)"
  unfolding maybe_spill_text_def write_text_artifact_def validate_text_artifact_ref_def validated_artifact_path_def read_bytes_def
    sweep_expired_text_artifacts_def record_notice_def spill_notice_reply_if_needed_def queue_reply_delivery_def
  by (intro frame modify_quiet; simp add: handled_def)+

section \<open>The dispatcher's reads and checks\<close>

lemma job_read_run: "on_logs (job_get_latest n j) s =
    (case normalize_agent_name n of Inl e \<Rightarrow> Inl e | Inr k \<Rightarrow> Inr (newest (dp_logs s) k j), s)"
  by (simp add: on_logs_def job_get_latest_def newest_def py_bind_def split: sum.split)

text \<open>A job is found through the index, under its target; where the index has none there is none\<close>
lemma find_job_none:
  assumes "\<forall>a \<in> set as. agent_name_ok a \<and> newest (dp_logs s) a j = None"
  shows "find_job_in as j s = (Inr None, s)"
  using assms by (induction as) (simp_all add: job_read_run py_bind_def)

lemma newest_configured: "logs_ok as l \<Longrightarrow> newest l a j = Some r \<Longrightarrow> a \<in> set as"
  by (fastforce simp: logs_ok_def newest_def)

lemma get_job_run:
  assumes "indexed s"
  shows "snd (get_job j s) = s \<and> (get_job j s = (Inr found, t) \<longrightarrow> t = s \<and> (case found of
      Some r \<Rightarrow> \<exists>a. newest (dp_logs s) a j = Some r
    | None \<Rightarrow> \<forall>a \<in> set (agents_of s). newest (dp_logs s) a j = None))"
proof -
  have idx: "\<And>a. a \<in> set (agents_of s) \<Longrightarrow> target_for_job j (dp_state s) = Some (TK_AGENT, a) \<longleftrightarrow> newest (dp_logs s) a j \<noteq> None"
    and names: "\<forall>a \<in> set (agents_of s). agent_name_ok a"
    and ok: "logs_ok (agents_of s) (dp_logs s)"
    using assms by (simp_all add: indexed_def index_ok_def newest_logged)
  show "snd (get_job j s) = s \<and> (get_job j s = (Inr found, t) \<longrightarrow> t = s \<and> (case found of
      Some r \<Rightarrow> \<exists>a. newest (dp_logs s) a j = Some r
    | None \<Rightarrow> \<forall>a \<in> set (agents_of s). newest (dp_logs s) a j = None))" (is ?run)
  proof (cases "target_for_job j (dp_state s)")
    case None
    then have none: "\<forall>a \<in> set (agents_of s). newest (dp_logs s) a j = None" using idx by auto
    moreover have "get_job j s = (Inr None, s)"
      using None none names find_job_none [of "agents_of s" s j]
      by (simp add: get_job_def config_agents_def agents_of_def py_bind_def)
    ultimately show ?run by auto
  next
    case (Some slot)
    then have run: "get_job j s = on_logs (job_get_latest (snd slot) j) s" by (simp add: get_job_def py_bind_def)
    have "snd slot = a" if "a \<in> set (agents_of s)" "newest (dp_logs s) a j \<noteq> None" for a using idx [OF that(1)] that(2) Some by auto
    with names have "normalize_agent_name (snd slot) = Inr a" if "a \<in> set (agents_of s)" "newest (dp_logs s) a j \<noteq> None" for a
      using that by auto
    then show ?run unfolding run job_read_run by (cases "normalize_agent_name (snd slot)") (auto split: option.split, metis not_Some_eq)
  qed
qed

lemmas get_job_state = get_job_run [THEN conjunct1]
lemmas get_job_found = get_job_run [THEN conjunct2, rule_format]

lemma get_job_quiet [frame]: "quiet (get_job j)"
  by (simp add: framed_def get_job_state untouched_refl)

lemma dispatcher_read_frames [frame]:
  "quiet config_agents" "quiet (latest_for_agent a)" "quiet (append_event r ty p t)" "quiet (sync_runtime a st)"
  "quiet (validate_sender x)" "quiet (resolve_targets q)" "quiet (has_outstanding_work a)"
  unfolding config_agents_def latest_for_agent_def append_event_def sync_runtime_def validate_sender_def resolve_targets_def
    has_outstanding_work_def
  by (intro frame)+

lemma validate_targets_frame [frame]: "quiet (validate_targets_available as)"
  by (induction as; simp only: validate_targets_available.simps; intro frame; assumption)

lemma callback_check_frames [frame]:
  "quiet (callback_timeout_at t)" "quiet (active_parent_job a)" "quiet (message_for_job j)" "quiet (validate_callback_request q)"
  "quiet (register_callback_edge q js i t)"
  unfolding callback_timeout_at_def callback_timeout_s_def active_parent_job_def message_for_job_def validate_callback_request_def
    validate_nested_ask_request_def validate_callback_chain_def callback_chain_for_parent_def max_callback_depth_def
    register_callback_edge_def
  by (intro frame)+

lemma submission_read_frames [frame]:
  "quiet (pending_status k n)" "quiet (build_job_record dr j si t)" "quiet (append_submission_job si j t)"
  "quiet (validate_request_body_artifact q)" "quiet (latest_attempts_by_agent i)" "quiet (require_original_message i)"
  "quiet (require_attempt_lineage i as)" "quiet (ensure_no_active_attempts d)" "quiet (resolve_retry_attempt x)" "quiet (check_retry x)"
  unfolding pending_status_def build_job_record_def append_submission_job_def validate_request_body_artifact_def
    latest_attempts_by_agent_def require_original_message_def require_attempt_lineage_def ensure_no_active_attempts_def
    resolve_retry_attempt_def check_retry_def
  by (intro frame)+

lemma drafts_frame [frame]: "quiet (drafts_for_agents q as)"
  by (induction as; simp only: drafts_for_agents.simps; intro frame; assumption)

lemma jobs_for_resubmission_frame [frame]: "quiet (jobs_for_resubmission as d)"
  by (induction as; simp only: jobs_for_resubmission.simps; intro frame; assumption)

lemma plan_frames [frame]:
  "quiet (plan_for q as oi)" "quiet (plan_agent_submission q)" "quiet (plan_message_resubmission i)"
  unfolding plan_for_def plan_agent_submission_def plan_message_resubmission_def by (intro frame)+

lemma retry_plan_frames [frame]: "quiet (retryable_failure_context j d)" "quiet (automatic_retry_plan j d)"
  unfolding retryable_failure_context_def automatic_retry_plan_def by (intro frame)+

section \<open>Executions, trackers and snapshots\<close>

lemma execution_store_frames [frame]:
  "quiet (state_load j)" "quiet (state_save p)" "quiet (state_remove j)" "quiet (pop_active j)" "quiet (pop_context j)"
  "quiet (persist_submission j d is sq)" "quiet (acknowledge j)" "quiet (acknowledge_item j sq')"
  unfolding state_load_def state_save_def state_remove_def pop_active_def pop_context_def persist_submission_def acknowledge_def
    acknowledge_item_def
  by (intro frame modify_quiet; auto simp: handled_def dict_pop_def)+

lemma execution_end_frames [frame]: "quiet (execution_finish j)" "quiet (execution_cancel j)" "quiet (abandon_restore job rn rc n)"
  unfolding execution_finish_def execution_cancel_def interrupt_active_submission_def abandon_restore_def
  by (intro frame modify_quiet; auto simp: handled_def dict_pop_def)+

lemma poll_part_frames [frame]: "quiet (polled_result j sb ad now)" "quiet (consume_for_job job t)"
  unfolding polled_result_def timeout_poll_result_def timeout_policy_for_def consume_for_job_def load_rules_def save_rules_def
  by (intro frame modify_quiet; simp add: handled_def)+

lemma snapshot_frames [frame]:
  "quiet (snapshot_load j)" "quiet (write_completion j a f st d t)" "quiet (write_pending j a f)" "quiet (profile_family a)"
  unfolding snapshot_load_def write_completion_def write_pending_def profile_family_def
  by (intro frame modify_quiet; simp add: handled_def)+

lemma tracked_frames [frame]: "quiet (tracked_view j)" "quiet (finish_tracker j)"
  unfolding tracked_view_def finish_tracker_def by (intro with_tracker_quiet tracker_frames)+

lemma framed_json:
  assumes "framed pre R n" "\<And>b. framed pre R (fb b)" "\<And>i. framed pre R (fi i)" "\<And>r t. framed pre R (ff r t)"
    "\<And>t. framed pre R (fs t)" "\<And>xs. framed pre R (fl xs)" "\<And>d. framed pre R (fo d)"
  shows "framed pre R (case v of JNull \<Rightarrow> n | JBool b \<Rightarrow> fb b | JInt i \<Rightarrow> fi i | JFloat r t \<Rightarrow> ff r t | JStr t \<Rightarrow> fs t
    | JList xs \<Rightarrow> fl xs | JObj d \<Rightarrow> fo d)"
  using assms by (cases v) simp_all

lemma completion_frames [frame]:
  "quiet (merge_terminal_decision j d p)" "quiet (apply_tracker_view job v u)" "quiet (spill_terminal_reply_if_needed job d t)"
  unfolding merge_terminal_decision_def apply_tracker_view_def apply_tracker_view_to_def resolve_tracker_timestamp_def
    spill_terminal_reply_if_needed_def
  by (intro frame framed_json)+

lemma when_execution_quiet [frame]: "quiet m \<Longrightarrow> quiet (when_execution m)"
  unfolding when_execution_def by (intro frame)

section \<open>Callbacks and reply deliveries\<close>

lemma callback_frames [frame]:
  "quiet (delegated_parent_edge job)" "quiet (callback_child_edge job)" "quiet (existing_continuation_job e)"
  "quiet (latest_child_reply e)" "quiet (job_for_reply rp)" "quiet (latest_edge e)" "quiet (continuation_request e job d)"
  "quiet (fail_callback_edge e rn dt t st)" "quiet (mark_callback_done job t)" "quiet (mark_parent_message_waiting e t)"
  unfolding delegated_parent_edge_def callback_child_edge_def existing_continuation_job_def latest_child_reply_def job_for_reply_def
    latest_edge_def continuation_request_def fail_callback_edge_def record_callback_failure_notice_def mark_callback_done_def
    mark_parent_message_waiting_def
  by (intro frame)+

lemma sweep_frames [frame]: "quiet (sweep_edges es now)" "quiet sweep_callback_timeouts"
proof -
  show "quiet (sweep_edges es now)" for es :: "callback_edge list" and now
    by (induction es; simp only: sweep_edges.simps; intro frame; assumption)
  then show "quiet sweep_callback_timeouts" unfolding sweep_callback_timeouts_def by (intro frame)
qed

lemma delivery_frames [frame]:
  "quiet (head_reply_event a)" "quiet (project_id_for_agent a)" "quiet (claimable_reply_delivery_job_ids a)"
  "quiet (claim_reply_delivery_start job t)" "quiet (format_reply_delivery_body r)" "quiet (rewrite_reply_head h i dj st t c)"
  unfolding head_reply_event_def project_id_for_agent_def claimable_reply_delivery_job_ids_def claim_reply_delivery_start_def
    format_reply_delivery_body_def source_job_for_reply_def rewrite_reply_head_def
  by (intro frame)+

lemma delivery_head_frames [frame]:
  "quiet (resolve_reply_delivery_terminal job t)" "quiet (reset_stale_reply_head h i a)" "quiet (resolve_existing_delivery_job a h i)"
  "quiet (build_reply_delivery_request r pj a)" "quiet (append_reply_delivery_message r a t pv j)"
  "quiet (load_persisted_execution_state j)" "quiet (execution_job_is_live j)"
  unfolding resolve_reply_delivery_terminal_def reset_stale_reply_head_def resolve_existing_delivery_job_def
    build_reply_delivery_request_def append_reply_delivery_message_def load_persisted_execution_state_def execution_job_is_live_def
  by (intro frame)+

lemma repair_lease_frame [frame]: "quiet (repair_orphaned_lease h i a)"
  unfolding repair_orphaned_lease_def by (intro frame)

section \<open>Finalization and slots\<close>

lemma finalization_frames [frame]:
  "quiet (append_retry_failed_event job p er t)" "quiet (append_retry_scheduled_event job p rt t)"
  "quiet (reply_decision_without_automatic_retry job job' d t)"
  unfolding append_retry_failed_event_def append_retry_scheduled_event_def reply_decision_without_automatic_retry_def
    append_retry_exhausted_event_def append_nonretryable_failure_event_def
  by (intro frame)+

text \<open>The runtime service may change the runtimes and the outer world\<close>
lemma on_runtime_service_untouched:
  assumes "\<And>g w. rg_agents (fst (snd (m (g, w)))) = rg_agents g"
  shows "untouched s (snd (on_runtime_service m s))"
  using assms [of "dp_registry s" "ex_world s"]
  by (auto simp: on_runtime_service_def untouched_def same_agents_def same_rows_def same_state_def handled_def split: prod.split)

lemma ensured_runtime_quiet [frame]: "quiet (ensured_runtime a)"
proof -
  have "untouched s (snd (ensured_runtime a s))" if "indexed s" for s :: "('a, 'b) daemon_scheme"
  proof -
    have "untouched s (snd (on_runtime_service (dm_ensure_ready s a) s))"
      using that by (intro on_runtime_service_untouched) (simp add: indexed_def services_ok_def)
    then show ?thesis
      by (auto simp: ensured_runtime_def py_try_def py_bind_def split: prod.split sum.split py_error.split)
  qed
  then show ?thesis by (simp add: framed_def)
qed

lemma refresh_runtime_quiet [frame]: "quiet (refresh_runtime a)"
proof -
  have "untouched s (snd (refresh_runtime a s))" if "indexed s" for s :: "('a, 'b) daemon_scheme"
  proof -
    have "untouched s (snd (on_runtime_service (dm_refresh_provider_binding s a) s))"
      using that by (intro on_runtime_service_untouched) (simp add: indexed_def services_ok_def)
    then show ?thesis by (auto simp: refresh_runtime_def py_try_def py_bind_def split: prod.split sum.split)
  qed
  then show ?thesis by (simp add: framed_def)
qed

lemma framed_action: "framed pre R k \<Longrightarrow> framed pre R b \<Longrightarrow> framed pre R d \<Longrightarrow> framed pre R f \<Longrightarrow>
    framed pre R (case x of DA_BLOCKED \<Rightarrow> b | DA_KEEP \<Rightarrow> k | DA_DROP \<Rightarrow> d | DA_REFRESH \<Rightarrow> f)"
  by (simp split: degraded_action.split)

lemma slot_frames [frame]:
  "quiet (degraded_runtime_action r)" "quiet (refresh_slot_runtime_for_start sl)" "quiet (runnable_slot a)"
  unfolding degraded_runtime_action_def can_attempt_runtime_recovery_def agent_supports_resume_def
    refresh_slot_runtime_for_start_def runnable_slot_def
  by (intro frame framed_action)+

lemma sweep_artifacts_frame [frame]: "quiet (sweep_text_artifacts_if_due mt now)"
  unfolding sweep_text_artifacts_if_due_def by (intro frame modify_quiet; simp add: handled_def)

section \<open>Operations on a started job\<close>

text \<open>An execution or a tracker of a job that has been started may be created\<close>
lemma handled_more:
  assumes "started (dp_logs s) j" "dp_logs t = dp_logs s" "dp_state t = dp_state s" "dp_registry t = dp_registry s"
    "bs_ids t = bs_ids s" "bs_next_id t = bs_next_id s" "dm_ensure_ready t = dm_ensure_ready s"
    "dm_refresh_provider_binding t = dm_refresh_provider_binding s" "handled t \<subseteq> insert j (handled s)"
  shows "untouched s t"
  using assms unfolding untouched_def by (auto simp: same_agents_def same_rows_def same_state_def)

lemma new_execution_frames:
  "quiet_for j (py_modify (\<lambda>s. s\<lparr>ex_active := dict_set j x (ex_active s), ex_runtime_contexts := dict_set j c (ex_runtime_contexts s)\<rparr>))"
  "quiet_for j (py_modify (\<lambda>s. s\<lparr>ex_active := dict_set j x (ex_active s)\<rparr>))"
  "quiet_for j (py_modify (\<lambda>s. s\<lparr>ex_runtime_contexts := dict_set j c (ex_runtime_contexts s), ex_replays := dict_set j y (ex_replays s)\<rparr>))"
  "quiet_for j (py_modify (\<lambda>s. s\<lparr>ex_replays := dict_set j y (ex_replays s)\<rparr>))"
  by (intro started_frame.framed_modify handled_more [of _ j]; auto simp: handled_def fst_dict_set)+

lemma execution_started_frames:
  "quiet_for (jr_job_id job) (execution_start job c)"
  "quiet_for (jr_job_id job) (restore_submission job c)"
  "quiet_for j (process_active_job j sb now)"
  unfolding execution_start_def restore_submission_def recover_pending_items_def resume_execution_def process_active_job_def
  by (intro started_frame.framed_rules new_execution_frames; rule quiet_started; intro frame)+

lemma with_tracker_started: "quiet_for (jr_job_id job) (with_tracker (on_tracker (tracker_start job t)) x)"
proof -
  have "quiet_for (jr_job_id job) (py_bind (py_gets cd_tracker) (\<lambda>v. case v of None \<Rightarrow> py_return x
      | Some tr \<Rightarrow> py_bind (on_tracker (tracker_start job t) tr) py_return))"
    by (intro started_tracker on_tracker_started started_frame.framed_pure; simp)
  then show ?thesis unfolding with_tracker_def py_bind_return .
qed

lemma running_snapshot_frame: "quiet_for (jr_job_id job) (write_running_snapshot job t)"
  unfolding write_running_snapshot_def
  by (intro started_tracker on_tracker_started; (simp; fail)?; rule quiet_started; intro frame)

lemma ensure_tracker_frame: "quiet_for (jr_job_id job) (ensure_completion_tracker job)"
  unfolding ensure_completion_tracker_def
  by (intro started_tracker started_frame.framed_rules on_tracker_untouched tracker_frames with_tracker_started; simp)

lemma ingest_items_frame [frame]: "quiet (ingest_items job is v)"
proof (induction "is" arbitrary: v)
  case (Cons i "is")
  then show ?case
    unfolding ingest_items.simps
    by (intro quiet_tracker on_tracker_untouched tracker_frames frame; simp)
qed (simp only: ingest_items.simps, intro frame)

lemma ingest_update_frame: "quiet_for (jr_job_id job) (ingest_update_items job u)"
  unfolding ingest_update_items_def
  by (intro started_frame.framed_rules ensure_tracker_frame; rule quiet_started; intro frame)

lemma cleanup_frame [frame]: "quiet (cleanup_each js)" "quiet cleanup_stale_execution_states"
proof -
  show "quiet (cleanup_each js)" for js by (induction js; simp only: cleanup_each.simps; intro frame; assumption)
  then show "quiet cleanup_stale_execution_states" unfolding cleanup_stale_execution_states_def by (intro frame)
qed

end
