(* ===== verification/Daemon_Invariant.thy ===== *)
theory Daemon_Invariant
  imports Daemon_Frames
begin

text \<open>
  The invariant of the whole daemon: the queues, the running jobs and the index in memory are what a restart
  would compute from the job log, a new id names no job of the log, and executions and trackers exist
  for started jobs only. Every handler that returns keeps it.
\<close>

section \<open>The invariant and how the state evolves\<close>

definition nth_job_id :: "('w, 'z) daemon_scheme \<Rightarrow> nat \<Rightarrow> string" where
  "nth_job_id s n = ''job_'' @ bs_ids s n"

definition daemon_ok :: "('w, 'z) daemon_scheme \<Rightarrow> bool" where
  "daemon_ok s \<longleftrightarrow> distinct (agents_of s) \<and> (\<forall>a \<in> set (agents_of s). agent_name_ok a) \<and> services_ok s \<and>
     table_ok (agents_of s) (dp_logs s, dp_state s) \<and> inj (bs_ids s) \<and>
     (\<forall>n \<ge> bs_next_id s. \<forall>a. \<not> logged_job (dp_logs s) a (nth_job_id s n)) \<and> handled s \<subseteq> Collect (started (dp_logs s))"

text \<open>A started job stays started, an ended one keeps its status\<close>
definition evolves :: "('w, 'z) daemon_scheme \<Rightarrow> ('w, 'z) daemon_scheme \<Rightarrow> bool" where
  "evolves s t \<longleftrightarrow> agents_of t = agents_of s \<and> (\<forall>j. started (dp_logs s) j \<longrightarrow> started (dp_logs t) j) \<and>
     (\<forall>a j r. newest (dp_logs s) a j = Some r \<longrightarrow> jr_status r \<in> set TERMINAL_JOB_STATES \<longrightarrow>
        (\<exists>r'. newest (dp_logs t) a j = Some r' \<and> jr_status r' = jr_status r))"

interpretation daemon: evolution daemon_ok evolves
proof
  show "evolves s s" for s :: "('w, 'z) daemon_scheme" by (simp add: evolves_def)
  show "evolves s u" if "evolves s t" "evolves t u" for s t u :: "('w, 'z) daemon_scheme"
    using that unfolding evolves_def by metis
qed

abbreviation keeps :: "bool \<Rightarrow> (('w, 'z) daemon_scheme \<Rightarrow> bool) \<Rightarrow> (('w, 'z) daemon_scheme, 'a) py \<Rightarrow>
    ('a \<Rightarrow> ('w, 'z) daemon_scheme \<Rightarrow> bool) \<Rightarrow> bool" where
  "keeps b P m Q \<equiv> triple daemon_ok evolves b P m Q"

lemma daemon_ok_indexed: "daemon_ok s \<Longrightarrow> indexed s"
  by (simp add: daemon_ok_def indexed_def table_ok_def state_of_log_iff)

lemma table_ok_frame:
  assumes "same_rows l l'" "same_state st st'"
  shows "table_ok as (l', st') = table_ok as (l, st)"
  using logs_ok_same_rows [OF assms(1)] index_ok_frame [OF assms] same_state_views [OF assms(2)] assms(1)
  by (simp add: table_ok_def state_of_log_iff same_rows_def)

lemma untouched_ok:
  assumes "daemon_ok s" "untouched s t"
  shows "daemon_ok t \<and> evolves s t"
proof -
  have rows: "same_rows (dp_logs s) (dp_logs t)" and st: "same_state (dp_state s) (dp_state t)" using assms(2) by (simp_all add: untouched_def)
  have "logged_job (dp_logs t) = logged_job (dp_logs s)" "newest (dp_logs t) = newest (dp_logs s)"
    using rows logged_same_rows newest_same_rows by blast+
  with assms table_ok_frame [OF rows st] untouched_agents [OF assms(2)] untouched_started [OF assms(2)] show ?thesis
    by (auto simp: daemon_ok_def evolves_def untouched_def services_ok_def nth_job_id_def)
qed

lemma keeps_quiet_for:
  assumes "framed (\<lambda>s. indexed s \<and> P s) untouched m" "\<And>s t. P s \<Longrightarrow> untouched s t \<Longrightarrow> P t"
  shows "keeps b P m (\<lambda>_. P)"
proof (rule tripleI)
  show "daemon_ok t \<and> evolves s t \<and> P t" if s: "daemon_ok s" "P s" "m s = (Inr y, t)" for s y t
  proof -
    have "untouched s t" using framedD [OF assms(1) _ s(3)] s daemon_ok_indexed by blast
    with s untouched_ok assms(2) show ?thesis by blast
  qed
  show "daemon_ok t \<and> evolves s t" if s: "daemon_ok s" "P s" "m s = (Inl e, t)" for s e t
  proof -
    have "untouched s t" using framedD [OF assms(1) _ s(3)] s daemon_ok_indexed by blast
    with s untouched_ok show ?thesis by blast
  qed
qed

lemma keeps_quiet: "quiet m \<Longrightarrow> (\<And>s t. P s \<Longrightarrow> untouched s t \<Longrightarrow> P t) \<Longrightarrow> keeps b P m (\<lambda>_. P)"
proof -
  assume "quiet m" and stable: "\<And>s t. P s \<Longrightarrow> untouched s t \<Longrightarrow> P t"
  then have "framed (\<lambda>s. indexed s \<and> P s) untouched m" by (simp add: framed_def)
  then show "keeps b P m (\<lambda>_. P)" by (rule keeps_quiet_for) (rule stable)
qed

section \<open>New rows\<close>

definition new_job :: "string \<Rightarrow> ('w, 'z) daemon_scheme \<Rightarrow> bool" where
  "new_job j s \<longleftrightarrow> (\<forall>a. \<not> logged_job (dp_logs s) a j) \<and> (\<exists>n < bs_next_id s. j = nth_job_id s n)"

lemma new_id_new_job: "keeps b (\<lambda>_. True) (new_id ''job'') (\<lambda>j s. new_job j s)"
proof (rule tripleI)
  fix s t :: "('w, 'z) daemon_scheme" and j
  assume s: "daemon_ok s" "new_id ''job'' s = (Inr j, t)"
  have "untouched s t" using framedD [OF new_id_quiet daemon_ok_indexed [OF s(1)] s(2)] .
  moreover have "new_job j t" using s by (auto simp: new_id_def new_job_def daemon_ok_def nth_job_id_def)
  ultimately show "daemon_ok t \<and> evolves s t \<and> new_job j t" using untouched_ok s(1) by blast
qed (simp add: new_id_def)

text \<open>The job's row fits: it is a new job, or a known one that goes on from its newest row\<close>
definition row_fits :: "job_record \<Rightarrow> ('w, 'z) daemon_scheme \<Rightarrow> bool" where
  "row_fits r s \<longleftrightarrow> (case newest (dp_logs s) (jr_target_name r) (jr_job_id r) of
       None \<Rightarrow> new_job (jr_job_id r) s
     | Some q \<Rightarrow> (jr_status q \<notin> set PENDING_STATES \<longrightarrow> jr_status r \<notin> set PENDING_STATES) \<and>
         (jr_status q \<in> set TERMINAL_JOB_STATES \<longrightarrow> jr_status r = jr_status q))"

lemma started_append:
  assumes "row_fits r s" "started (dp_logs s) j"
  shows "started (append_row r (dp_logs s)) j"
proof -
  obtain a q where q: "newest (dp_logs s) a j = Some q" "jr_status q \<notin> set PENDING_STATES" using assms(2) by (auto simp: started_def)
  show ?thesis
  proof (cases "a = jr_target_name r \<and> j = jr_job_id r")
    case True
    with q assms(1) have "jr_status r \<notin> set PENDING_STATES" by (auto simp: row_fits_def)
    with True show ?thesis by (auto simp: started_def newest_append)
  next
    case False
    with q show ?thesis by (auto simp: started_def newest_append)
  qed
qed

text \<open>One more row, with the state in memory brought into line\<close>
lemma row_step:
  assumes s: "daemon_ok s" and fits: "row_fits r s"
    and t: "dp_logs t = append_row r (dp_logs s)" "dp_registry t = dp_registry s" "bs_ids t = bs_ids s" "bs_next_id t = bs_next_id s"
      "dm_ensure_ready t = dm_ensure_ready s" "dm_refresh_provider_binding t = dm_refresh_provider_binding s" "handled t = handled s"
    and table: "table_ok (agents_of s) (dp_logs t, dp_state t)"
  shows "daemon_ok t \<and> evolves s t"
proof -
  have agents: "agents_of t = agents_of s" by (simp add: agents_of_def t)
  have ids: "nth_job_id t = nth_job_id s" by (simp add: nth_job_id_def t fun_eq_iff)
  have inj: "inj (bs_ids s)" and old: "\<And>n a. bs_next_id s \<le> n \<Longrightarrow> \<not> logged_job (dp_logs s) a (nth_job_id s n)"
    using s by (simp_all add: daemon_ok_def)
  have "jr_job_id r \<noteq> nth_job_id s n" if "bs_next_id s \<le> n" for n
  proof (cases "newest (dp_logs s) (jr_target_name r) (jr_job_id r)")
    case None
    with fits that inj show ?thesis by (auto simp: row_fits_def new_job_def nth_job_id_def inj_eq)
  next
    case (Some q)
    then have "logged_job (dp_logs s) (jr_target_name r) (jr_job_id r)" by (simp add: newest_logged)
    with old [OF that] show ?thesis by metis
  qed
  then have "\<forall>n \<ge> bs_next_id s. \<forall>a. \<not> logged_job (dp_logs t) a (nth_job_id s n)" using old by (simp add: t(1) logged_append) metis
  moreover have "handled s \<subseteq> Collect (started (dp_logs t))"
    using s started_append [OF fits] by (auto simp: daemon_ok_def t(1))
  moreover have "evolves s t"
    using fits started_append [OF fits] unfolding evolves_def t(1)
    by (auto simp: agents newest_append row_fits_def)
  ultimately show ?thesis using s table by (simp add: daemon_ok_def agents ids t services_ok_def)
qed

section \<open>Chains of changes\<close>

text \<open>
  Where a handler changes the log and the state in several places, the assertions between its statements
  say that all is as in a given state \<open>u\<close>, up to what frames ignore.
\<close>

interpretation plain: evolution "\<lambda>_. True" "\<lambda>_ _. True"
  by unfold_locales auto

abbreviation runs :: "('s \<Rightarrow> bool) \<Rightarrow> ('s, 'a) py \<Rightarrow> ('a \<Rightarrow> 's \<Rightarrow> bool) \<Rightarrow> bool" where
  "runs P m Q \<equiv> triple (\<lambda>_. True) (\<lambda>_ _. True) False P m Q"

lemma runsI: "(\<And>s y t. P s \<Longrightarrow> m s = (Inr y, t) \<Longrightarrow> Q y t) \<Longrightarrow> runs P m Q"
  by (rule tripleI) auto

lemma runsD: "runs P m Q \<Longrightarrow> P s \<Longrightarrow> m s = (Inr y, t) \<Longrightarrow> Q y t"
  unfolding triple_def by simp

lemma runs_quiet_for: "indexed u \<Longrightarrow> started (dp_logs u) j \<Longrightarrow> quiet_for j m \<Longrightarrow> runs (untouched u) m (\<lambda>_. untouched u)"
proof (rule runsI)
  fix s y t assume u: "indexed u" "started (dp_logs u) j" "untouched u s" and m: "quiet_for j m" "m s = (Inr y, t)"
  from u have "indexed s \<and> started (dp_logs s) j" using untouched_indexed untouched_started by metis
  with framedD [OF m(1) _ m(2)] u(3) show "untouched u t" using untouched_trans by blast
qed

lemma runs_quiet: "indexed u \<Longrightarrow> quiet m \<Longrightarrow> runs (untouched u) m (\<lambda>_. untouched u)"
proof (rule runsI)
  fix s y t assume u: "indexed u" "untouched u s" and m: "quiet m" "m s = (Inr y, t)"
  from framedD [OF m(1) untouched_indexed [OF u] m(2)] u(2) show "untouched u t" using untouched_trans by blast
qed

definition with_row :: "job_record \<Rightarrow> ('w, 'z) daemon_scheme \<Rightarrow> ('w, 'z) daemon_scheme" where
  "with_row r u = u\<lparr>dp_logs := append_row r (dp_logs u), dp_state := record_job r (dp_state u)\<rparr>"

lemma same_state_ops:
  assumes "same_state st st'"
  shows "same_state (record_job r st) (record_job r st')" "same_state (enqueue_for k n j st) (enqueue_for k n j st')"
    "same_state (mark_active_for k n j st) (mark_active_for k n j st')" "same_state (clear_active_for k n x st) (clear_active_for k n x st')"
    "same_state (snd (remove_queued_for k n j st)) (snd (remove_queued_for k n j st'))"
proof -
  note q = same_state_views(3) [OF assms]
  have same: "ds_active_jobs st' = ds_active_jobs st" "ds_job_index st' = ds_job_index st" using assms by (simp_all add: same_state_def)
  show "same_state (record_job r st) (record_job r st')"
    by (simp add: same_state_def disp_view q) (simp add: record_job_def remember_job_def same)
  show "same_state (enqueue_for k n j st) (enqueue_for k n j st')"
    by (simp add: same_state_def disp_view q) (simp add: enqueue_for_def same)
  show "same_state (mark_active_for k n j st) (mark_active_for k n j st')"
    by (simp add: same_state_def disp_view q) (simp add: mark_active_for_def same)
  show "same_state (clear_active_for k n x st) (clear_active_for k n x st')"
    by (simp add: same_state_def disp_view q) (simp add: clear_active_for_def same)
  show "same_state (snd (remove_queued_for k n j st)) (snd (remove_queued_for k n j st'))"
    by (simp add: same_state_def disp_view q) (simp add: remove_queued_for_def same case_prod_beta)
qed

lemma untouched_state: "untouched u s \<Longrightarrow> same_state (dp_state u) (dp_state s)"
  by (simp add: untouched_def)

lemma untouched_with_state:
  "untouched u s \<Longrightarrow> same_state st st' \<Longrightarrow> untouched (u\<lparr>dp_state := st\<rparr>) (s\<lparr>dp_state := st'\<rparr>)"
  by (simp add: untouched_def handled_def)

lemma runs_change:
  "(\<And>st st'. same_state st st' \<Longrightarrow> same_state (f st) (f st')) \<Longrightarrow>
   runs (untouched u) (change_state f) (\<lambda>_. untouched (u\<lparr>dp_state := f (dp_state u)\<rparr>))"
  by (rule runsI) (auto simp: change_state_def intro!: untouched_with_state dest: untouched_state)

lemma untouched_with_row:
  assumes "untouched u s" "\<And>j. started (dp_logs u) j \<Longrightarrow> started (append_row r (dp_logs u)) j"
  shows "untouched (with_row r u) (with_row r s)"
proof -
  have "same_state (record_job r (dp_state u)) (record_job r (dp_state s))"
    using assms(1) by (intro same_state_ops) (simp add: untouched_def)
  moreover have "same_rows (append_row r (dp_logs u)) (append_row r (dp_logs s))"
    using assms(1) by (simp add: untouched_def same_rows_def append_row_def)
  ultimately show ?thesis using assms unfolding untouched_def with_row_def by (auto simp: handled_def)
qed

lemma append_job_with_row: "agent_name_ok (jr_target_name r) \<Longrightarrow> append_job r s = (Inr (), with_row r s)"
  by (simp add: append_job_run with_row_def)

lemma runs_append:
  assumes "agent_name_ok (jr_target_name r)" "\<And>j. started (dp_logs u) j \<Longrightarrow> started (append_row r (dp_logs u)) j"
  shows "runs (untouched u) (append_job r) (\<lambda>_. untouched (with_row r u))"
  by (rule runsI) (auto simp: append_job_with_row [OF assms(1)] intro!: untouched_with_row assms(2))

lemma append_event_returns:
  "agent_name_ok (jr_target_name r) \<Longrightarrow> jr_job_id r \<noteq> [] \<Longrightarrow> ty \<noteq> [] \<Longrightarrow> \<exists>t. append_event r ty pl time s = (Inr (), t)"
  by (auto simp: append_event_def new_id_run JobEvent_def py_bind_def on_logs_def job_event_append_def rbind_def rcheck_def
      dest: agent_name_ok_length)

lemma settle: "daemon_ok u \<and> evolves s u \<Longrightarrow> untouched u t \<Longrightarrow> daemon_ok t \<and> evolves s t"
  using untouched_ok daemon.trans by blast

lemma indexed_with_state:
  assumes "\<And>j. target_for_job j st = target_for_job j (dp_state u)"
  shows "indexed (u\<lparr>dp_state := st\<rparr>) = indexed u"
  using index_ok_same [of st "dp_state u"] assms by (simp add: indexed_def agents_of_def services_ok_def)

lemma handled_with_row [simp]: "handled (with_row r s) = handled s" "handled (s\<lparr>dp_state := st\<rparr>) = handled s"
  by (simp_all add: handled_def with_row_def)

lemma agents_with_row [simp]: "agents_of (with_row r s) = agents_of s" "agents_of (s\<lparr>dp_state := st\<rparr>) = agents_of s"
  by (simp_all add: agents_of_def with_row_def)

lemma with_row_fields [simp]: "dp_logs (with_row r s) = append_row r (dp_logs s)" "dp_state (with_row r s) = record_job r (dp_state s)"
  "with_row r s\<lparr>dp_state := st\<rparr> = s\<lparr>dp_logs := append_row r (dp_logs s), dp_state := st\<rparr>"
  by (simp_all add: with_row_def)

text \<open>A row and a change of the state after which the two agree again\<close>
lemma row_and_state_step:
  assumes "daemon_ok s" "row_fits r s" "table_ok (agents_of s) (append_row r (dp_logs s), st)"
  shows "daemon_ok (with_row r s\<lparr>dp_state := st\<rparr>) \<and> evolves s (with_row r s\<lparr>dp_state := st\<rparr>)"
  using assms by (intro row_step [OF assms(1,2)]) (simp_all add: handled_def)

section \<open>Submitting a job\<close>

definition may_submit :: "job_record \<Rightarrow> ('w, 'z) daemon_scheme \<Rightarrow> bool" where
  "may_submit r s \<longleftrightarrow> new_job (jr_job_id r) s \<and> jr_target_name r \<in> set (agents_of s) \<and> jr_status r \<in> set PENDING_STATES"

lemma may_submit_untouched: "may_submit r s \<Longrightarrow> untouched s t \<Longrightarrow> may_submit r t"
  using untouched_agents [of s t] logged_same_rows [of "dp_logs s" "dp_logs t"]
  by (auto simp: may_submit_def new_job_def untouched_def nth_job_id_def intro: less_le_trans)

lemma post_job_keeps:
  assumes "ty \<noteq> []"
  shows "keeps True (may_submit r) (py_then (append_job r) (py_then (append_event r ty pl time)
    (change_state (enqueue_for (jr_target_kind r) (jr_target_name r) (jr_job_id r))))) (\<lambda>_ _. True)" (is "keeps _ _ ?m _")
proof -
  have "\<exists>t. ?m s = (Inr (), t) \<and> daemon_ok t \<and> evolves s t" if s: "daemon_ok s" "may_submit r s" for s
  proof -
    let ?st = "enqueue_for TK_AGENT (jr_target_name r) (jr_job_id r) (record_job r (dp_state s))"
    let ?u = "with_row r s\<lparr>dp_state := ?st\<rparr>"
    have fresh: "\<forall>b. \<not> logged_job (dp_logs s) b (jr_job_id r)" and id: "jr_job_id r \<noteq> []"
      using s(2) by (auto simp: may_submit_def new_job_def nth_job_id_def)
    then have "row_fits r s" using s(2) newest_logged by (simp add: row_fits_def may_submit_def split: option.split)
    moreover have "table_ok (agents_of s) (append_row r (dp_logs s), ?st)"
      using s fresh by (intro submitted_ok) (simp_all add: may_submit_def daemon_ok_def)
    ultimately have u: "daemon_ok ?u \<and> evolves s ?u" using row_and_state_step s(1) by blast
    have name: "agent_name_ok (jr_target_name r)" using s by (simp add: may_submit_def daemon_ok_def)
    have "indexed (with_row r s)"
      using indexed_with_state [of "record_job r (dp_state s)" ?u] daemon_ok_indexed [of ?u] u by (simp add: disp_view with_row_def)
    moreover obtain t where t: "append_event r ty pl time (with_row r s) = (Inr (), t)"
      using append_event_returns [OF name id assms] by blast
    ultimately have "untouched (with_row r s) t" using framedD dispatcher_read_frames(3) by metis
    then have "untouched ?u (t\<lparr>dp_state := enqueue_for TK_AGENT (jr_target_name r) (jr_job_id r) (dp_state t)\<rparr>)"
      using untouched_state [of "with_row r s" t] by (intro untouched_with_state same_state_ops) simp_all
    then have "daemon_ok (t\<lparr>dp_state := enqueue_for TK_AGENT (jr_target_name r) (jr_job_id r) (dp_state t)\<rparr>) \<and>
        evolves s (t\<lparr>dp_state := enqueue_for TK_AGENT (jr_target_name r) (jr_job_id r) (dp_state t)\<rparr>)"
      by (rule settle [OF u])
    then show ?thesis using append_job_with_row [OF name, of s] t by (simp add: change_state_def)
  qed
  then show ?thesis by (intro tripleI) fastforce+
qed

text \<open>A quiet statement before or after one that matters\<close>
lemma keeps_bind_quiet:
  "quiet m \<Longrightarrow> (\<And>x. keeps b P (f x) Q) \<Longrightarrow> (\<And>s t. P s \<Longrightarrow> untouched s t \<Longrightarrow> P t) \<Longrightarrow> keeps b P (py_bind m f) Q"
  by (rule daemon.triple_bind [where Q = "\<lambda>_. P"]) (simp_all add: keeps_quiet)

lemma keeps_then_quiet:
  "quiet m \<Longrightarrow> keeps b P n Q \<Longrightarrow> (\<And>s t. P s \<Longrightarrow> untouched s t \<Longrightarrow> P t) \<Longrightarrow> keeps b P (py_then m n) Q"
  unfolding py_then_def by (rule keeps_bind_quiet)

lemma keeps_quiet_rest: "quiet m \<Longrightarrow> keeps b P m (\<lambda>_ _. True)"
  by (rule daemon.triple_conseq [OF keeps_quiet [where P = "\<lambda>_. True"]]) simp_all

lemma keeps_bind_rest: "keeps b P m Q \<Longrightarrow> (\<And>x. quiet (f x)) \<Longrightarrow> keeps b P (py_bind m f) (\<lambda>_ _. True)"
  by (rule daemon.triple_bind) (simp_all add: keeps_quiet_rest)

lemma keeps_then_rest: "keeps b P m Q \<Longrightarrow> quiet n \<Longrightarrow> keeps b P (py_then m n) (\<lambda>_ _. True)"
  unfolding py_then_def by (rule keeps_bind_rest)

lemma py_then_assoc: "py_then (py_then m n) k = py_then m (py_then n k)"
  by (simp add: py_then_def py_bind_assoc)

lemma post_job_then:
  assumes "ty \<noteq> []" "quiet n"
  shows "keeps True (may_submit r) (py_then (append_job r) (py_then (append_event r ty pl time)
    (py_then (change_state (enqueue_for (jr_target_kind r) (jr_target_name r) (jr_job_id r))) n))) (\<lambda>_ _. True)"
  using keeps_then_rest [OF post_job_keeps [OF assms(1)] assms(2)] unfolding py_then_assoc .

lemma enqueue_keeps: "keeps True (may_submit job) (enqueue_submitted_job job status time) (\<lambda>_ _. True)"
  unfolding enqueue_submitted_job_def by (intro post_job_then frame) simp

text \<open>A draft is for a configured agent\<close>
definition draft_ok :: "job_draft \<Rightarrow> ('w, 'z) daemon_scheme \<Rightarrow> bool" where
  "draft_ok d s \<longleftrightarrow> (\<exists>n \<in> set (agents_of s).
     normalize_agent_name (if dr_target_name d = [] then dr_agent_name d else dr_target_name d) = Inr n)"

lemma draft_ok_stable: "draft_ok d s \<Longrightarrow> untouched s t \<Longrightarrow> draft_ok d t" "draft_ok d s \<Longrightarrow> evolves s t \<Longrightarrow> draft_ok d t"
  using untouched_agents [of s t] by (simp_all add: draft_ok_def evolves_def)

lemma new_job_untouched: "new_job j s \<Longrightarrow> untouched s t \<Longrightarrow> new_job j t"
  using logged_same_rows [of "dp_logs s" "dp_logs t"] by (auto simp: new_job_def untouched_def nth_job_id_def intro: less_le_trans)

lemma pending_status_keeps:
  assumes "\<And>s t. P s \<Longrightarrow> untouched s t \<Longrightarrow> P t"
  shows "keeps True P (pending_status k n) (\<lambda>status s. status \<in> set PENDING_STATES \<and> P s)"
  unfolding pending_status_def
proof (rule daemon.triple_bind)
  show "keeps True P (on_state (has_outstanding_for k n)) (\<lambda>_. P)" by (rule keeps_quiet, intro frame, rule assms)
qed (auto intro: daemon.triple_return simp: PENDING_STATES_def)

lemma JobRecord_fields:
  assumes "JobRecord r = Inr r'"
  shows "jr_job_id r' = jr_job_id r" "jr_status r' = jr_status r" "jr_job_id r \<noteq> []"
    "normalize_agent_name (if jr_target_name r = [] then jr_agent_name r else jr_target_name r) = Inr (jr_target_name r')"
proof -
  obtain n where "r' = r\<lparr>jr_agent_name := n, jr_target_name := n, jr_provider_instance := None\<rparr>" "jr_job_id r \<noteq> []"
    "normalize_agent_name (if jr_target_name r = [] then jr_agent_name r else jr_target_name r) = Inr n"
    using assms unfolding JobRecord_def rbind_Inr_iff rcheck_def by (auto split: if_splits)
  then show "jr_job_id r' = jr_job_id r" "jr_status r' = jr_status r" "jr_job_id r \<noteq> []"
    "normalize_agent_name (if jr_target_name r = [] then jr_agent_name r else jr_target_name r) = Inr (jr_target_name r')"
    by simp_all
qed

lemma JobRecord_may_submit:
  assumes "JobRecord r = Inr r'" "new_job (jr_job_id r) s" "jr_status r \<in> set PENDING_STATES"
    "normalize_agent_name (if jr_target_name r = [] then jr_agent_name r else jr_target_name r) = Inr n" "n \<in> set (agents_of s)"
  shows "may_submit r' s"
  using assms JobRecord_fields [OF assms(1)] by (simp add: may_submit_def)

lemma build_job_keeps:
  "keeps True (\<lambda>s. new_job j s \<and> draft_ok d s) (build_job_record d j si time) (\<lambda>x s. may_submit (fst x) s)"
  unfolding build_job_record_def
proof (rule daemon.triple_bind [OF pending_status_keeps])
  fix status
  have "may_submit r s" if "status \<in> set PENDING_STATES \<and> new_job j s \<and> draft_ok d s"
      "JobRecord \<lparr>jr_job_id = j, jr_submission_id = si,
        jr_agent_name = dr_agent_name d, jr_provider = dr_provider d, jr_request = dr_request d,
        jr_status = status, jr_terminal_decision = None, jr_cancel_requested_at = None,
        jr_created_at = time, jr_updated_at = time, jr_workspace_path = dr_workspace_path d,
        jr_target_kind = dr_target_kind d, jr_target_name = dr_target_name d,
        jr_provider_instance = dr_provider_instance d,
        jr_provider_options = (case dr_provider_options d of Some d \<Rightarrow> d | None \<Rightarrow> [])\<rparr> = Inr r" for r and s :: "('w, 'z) daemon_scheme"
    using that JobRecord_may_submit [OF that(2), of s] by (auto simp: draft_ok_def cong: if_cong)
  then show "keeps True (\<lambda>s. status \<in> set PENDING_STATES \<and> new_job j s \<and> draft_ok d s)
    (py_bind (py_lift (JobRecord \<lparr>jr_job_id = j, jr_submission_id = si,
        jr_agent_name = dr_agent_name d, jr_provider = dr_provider d, jr_request = dr_request d,
        jr_status = status, jr_terminal_decision = None, jr_cancel_requested_at = None,
        jr_created_at = time, jr_updated_at = time, jr_workspace_path = dr_workspace_path d,
        jr_target_kind = dr_target_kind d, jr_target_name = dr_target_name d,
        jr_provider_instance = dr_provider_instance d,
        jr_provider_options = (case dr_provider_options d of Some d \<Rightarrow> d | None \<Rightarrow> [])\<rparr>)) (\<lambda>job.
     py_return (job, status))) (\<lambda>x (s :: ('w, 'z) daemon_scheme). may_submit (fst x) s)"
    by (intro daemon.triple_bind [OF daemon.triple_lift [where Q = may_submit]] daemon.triple_return) auto
qed (blast intro: new_job_untouched draft_ok_stable)

lemma build_and_enqueue_keeps:
  assumes "\<And>j x y. quiet (f j x y)"
  shows "keeps True (draft_ok d) (py_bind (new_id ''job'') (\<lambda>j. py_bind (build_job_record d j si time) (\<lambda>(job, status).
    py_bind (enqueue_submitted_job job status time) (f j job)))) (\<lambda>_ _. True)"
proof (rule daemon.triple_bind)
  show "keeps True (draft_ok d) (new_id ''job'') (\<lambda>j s. new_job j s \<and> draft_ok d s)"
    by (rule daemon.triple_conseq [OF daemon.triple_keep [where S = "draft_ok d", OF new_id_new_job draft_ok_stable(2)]]) simp_all
  show "keeps True (\<lambda>s. new_job j s \<and> draft_ok d s) (py_bind (build_job_record d j si time) (\<lambda>(job, status).
      py_bind (enqueue_submitted_job job status time) (f j job))) (\<lambda>_ _. True)" for j
    by (rule daemon.triple_bind [OF build_job_keeps], rule daemon.triple_prod, simp, rule keeps_bind_rest [OF enqueue_keeps], rule assms)
qed

end
