(* ===== verification/Daemon_Handlers.thy ===== *)
theory Daemon_Handlers
  imports Daemon_Invariant
begin

text \<open>
  The handlers of the daemon keep the invariant: submitting, retrying, continuing a parent, delivering,
  ending, cancelling, starting, polling and restoring.
\<close>

section \<open>Submission\<close>

definition configured :: "string \<Rightarrow> ('w, 'z) daemon_scheme \<Rightarrow> bool" where
  "configured n s \<longleftrightarrow> (\<exists>k \<in> set (agents_of s). normalize_agent_name n = Inr k)"

lemma configured_stable: "configured n s \<Longrightarrow> untouched s t \<Longrightarrow> configured n t" "configured n s \<Longrightarrow> evolves s t \<Longrightarrow> configured n t"
  using untouched_agents [of s t] by (simp_all add: configured_def evolves_def)

lemma spec_for_keeps: "keeps b P (on_registry (spec_for n)) (\<lambda>_. configured n)"
proof -
  have "quiet (on_registry (spec_for n))" by (intro frame)
  moreover have "configured n t" if "on_registry (spec_for n) s = (Inr y, t)" for y and s t :: "('w, 'z) daemon_scheme"
    using that by (force simp: on_registry_def spec_for_def py_bind_def configured_def agents_of_def split: sum.splits option.splits
        dest!: map_of_SomeD)
  ultimately show ?thesis
    using keeps_quiet_rest [of "on_registry (spec_for n)" b P] unfolding triple_def by blast
qed

lemma drafts_keep:
  fixes P :: "('w, 'z) daemon_scheme \<Rightarrow> bool"
  shows "keeps b P (drafts_for_agents q as) (\<lambda>ds s. \<forall>d \<in> set ds. draft_ok d s)"
proof (induction as arbitrary: P)
  case Nil
  show ?case by (simp only: drafts_for_agents.simps, rule daemon.triple_return) simp
next
  case (Cons a as)
  have rest: "keeps b (\<lambda>s :: ('w, 'z) daemon_scheme. True \<and> configured a s) (drafts_for_agents q as) (\<lambda>ds s. (\<forall>d \<in> set ds. draft_ok d s) \<and> configured a s)"
    by (rule daemon.triple_keep [where P = "\<lambda>_. True" and S = "configured a", OF Cons.IH configured_stable(2)])
  show ?case
    unfolding drafts_for_agents.simps
    by (rule daemon.triple_bind [OF spec_for_keeps keeps_bind_quiet [OF _ daemon.triple_bind
          [OF daemon.triple_conseq [OF rest] daemon.triple_return] configured_stable(1)]]; (intro frame; fail)?)
      (auto simp: draft_ok_def configured_def)
qed

lemma plan_for_keeps: "keeps b P (plan_for q as oi) (\<lambda>p s. \<forall>d \<in> set (pl_drafts p). draft_ok d s)"
  unfolding plan_for_def
  by (rule daemon.triple_bind [OF keeps_quiet_rest daemon.triple_bind [OF drafts_keep]], intro frame, rule daemon.triple_return) simp

lemma submit_drafts_keep: "keeps True (\<lambda>s. \<forall>d \<in> set ds. draft_ok d s) (submit_drafts ds si time) (\<lambda>_ _. True)"
proof (induction ds)
  case Nil
  show ?case by (simp only: submit_drafts.simps, rule daemon.triple_return) simp
next
  case (Cons d ds)
  let ?rest = "\<lambda>s. \<forall>d \<in> set ds. draft_ok d s"
  have one: "keeps True (draft_ok d) (py_bind (new_id ''job'') (\<lambda>j. py_bind (build_job_record d j si time) (\<lambda>(job, status).
      py_bind (enqueue_submitted_job job status time) (\<lambda>receipt. py_return (receipt, job))))) (\<lambda>_ _. True)"
    by (rule build_and_enqueue_keeps) (intro frame)
  have both: "keeps True (\<lambda>s. draft_ok d s \<and> ?rest s) (py_bind (new_id ''job'') (\<lambda>j. py_bind (build_job_record d j si time) (\<lambda>(job, status).
      py_bind (enqueue_submitted_job job status time) (\<lambda>receipt. py_return (receipt, job))))) (\<lambda>_ s. True \<and> ?rest s)"
    using draft_ok_stable(2) by (intro daemon.triple_keep [where S = ?rest, OF one]) blast
  have eq: "submit_drafts (d # ds) si time = py_bind (py_bind (new_id ''job'') (\<lambda>j. py_bind (build_job_record d j si time) (\<lambda>(job, status).
      py_bind (enqueue_submitted_job job status time) (\<lambda>receipt. py_return (receipt, job))))) (\<lambda>x.
        py_bind (submit_drafts ds si time) (\<lambda>others. py_return (x # others)))"
    by (auto simp: py_bind_def fun_eq_iff split: prod.split sum.split)
  show ?case
    unfolding eq
    by (rule daemon.triple_bind [OF daemon.triple_conseq [OF both, where Q' = "\<lambda>_. ?rest"]], (simp; fail)+, rule daemon.triple_bind [OF daemon.triple_conseq [OF Cons.IH]])
      (auto intro: daemon.triple_return)
qed

lemma submit_plan_keeps: "keeps True (\<lambda>s. \<forall>d \<in> set (pl_drafts p). draft_ok d s) (submit_plan p time) (\<lambda>_ _. True)"
  unfolding submit_plan_def by (rule keeps_bind_rest [OF submit_drafts_keep]) (intro frame)

lemma submit_jobs_keeps: "keeps True P (submit_jobs q) (\<lambda>_ _. True)"
proof -
  have "keeps True (\<lambda>_. True) (plan_agent_submission q) (\<lambda>p s. \<forall>d \<in> set (pl_drafts p). draft_ok d s)"
    unfolding plan_agent_submission_def
    by (intro keeps_then_quiet keeps_bind_quiet daemon.triple_if daemon.triple_raise plan_for_keeps; (intro frame)?) simp_all
  then have "keeps True (\<lambda>_. True) (py_bind (plan_agent_submission q) (\<lambda>plan.
      py_bind (submit_plan plan t) (\<lambda>(receipt, _). py_return receipt))) (\<lambda>_ _. True)" for t
    by (rule daemon.triple_bind [OF _ keeps_bind_rest [OF submit_plan_keeps]]) (intro frame)
  then have "keeps True (\<lambda>_. True) (submit_jobs q) (\<lambda>_ _. True)"
    unfolding submit_jobs_def by (rule keeps_bind_quiet [rotated]) (simp, intro frame)
  then show ?thesis by (rule daemon.triple_conseq) simp_all
qed

lemma resubmit_message_keeps: "keeps True P (resubmit_message i) (\<lambda>_ _. True)"
proof -
  have "keeps True (\<lambda>_. True) (plan_message_resubmission i) (\<lambda>p s. \<forall>d \<in> set (pl_drafts p). draft_ok d s)"
    unfolding plan_message_resubmission_def
    by (intro keeps_then_quiet keeps_bind_quiet plan_for_keeps; (intro frame)?) simp_all
  then have "keeps True (\<lambda>_. True) (resubmit_message i) (\<lambda>_ _. True)"
    unfolding resubmit_message_def
    by (intro keeps_bind_quiet [where P = "\<lambda>_. True"] daemon.triple_bind [OF _ keeps_bind_rest [OF submit_plan_keeps]]; (intro frame)?) simp_all
  then show ?thesis by (rule daemon.triple_conseq) simp_all
qed

section \<open>Retrying\<close>

text \<open>A row read from the log of an agent is one of a configured agent\<close>
lemma logged_row_configured:
  assumes "logs_ok as l" "newest l a j = Some r"
  shows "jr_target_name r = a \<and> jr_job_id r = j \<and> a \<in> set as"
  using newest_target [OF assms] newest_configured [OF assms] by simp

lemma job_read_keeps: "keeps b P (on_logs (job_get_latest n j)) (\<lambda>found s. \<forall>r. found = Some r \<longrightarrow> jr_target_name r \<in> set (agents_of s))"
proof -
  have "quiet (on_logs (job_get_latest n j))" by (intro frame)
  moreover have "jr_target_name r \<in> set (agents_of t)" if "daemon_ok t" "on_logs (job_get_latest n j) s = (Inr (Some r), t)"
    for r and s t :: "('w, 'z) daemon_scheme"
    using that logged_row_configured [of "agents_of t" "dp_logs t"]
    by (fastforce simp: job_read_run daemon_ok_def table_ok_def split: sum.splits)
  ultimately show ?thesis
    using keeps_quiet_rest [of "on_logs (job_get_latest n j)" b P] unfolding triple_def by blast
qed

definition target_ok :: "job_record \<Rightarrow> ('w, 'z) daemon_scheme \<Rightarrow> bool" where
  "target_ok r s \<longleftrightarrow> jr_target_name r \<in> set (agents_of s) \<and> agent_name_ok (jr_target_name r)"

lemma target_ok_stable: "target_ok r s \<Longrightarrow> untouched s t \<Longrightarrow> target_ok r t" "target_ok r s \<Longrightarrow> evolves s t \<Longrightarrow> target_ok r t"
  using untouched_agents [of s t] by (simp_all add: target_ok_def evolves_def)

lemma check_retry_keeps: "keeps b (\<lambda>_. True) (check_retry x) (\<lambda>(att, msg, r). target_ok r)"
proof -
  have last: "keeps b (\<lambda>_. True) (py_bind (on_logs (job_get_latest n j)) (\<lambda>job. case job of
      None \<Rightarrow> py_raise e | Some current \<Rightarrow> py_return (att, msg, current))) (\<lambda>(att, msg, r). target_ok r)" for n j e att msg
    by (rule daemon.triple_bind [OF job_read_keeps], rule daemon.triple_option, rule daemon.triple_raise, rule daemon.triple_return)
      (auto simp: target_ok_def daemon_ok_def)
  show ?thesis
    unfolding check_retry_def
    by (intro keeps_then_quiet keeps_bind_quiet daemon.triple_if daemon.triple_option daemon.triple_raise last; (intro frame)?) simp_all
qed

lemma retry_draft_ok: "target_ok r s \<Longrightarrow> draft_ok (retry_draft r q) s"
  by (auto simp: target_ok_def draft_ok_def retry_draft_def dest: agent_name_ok_length)

lemma retry_attempt_keeps: "keeps True P (retry_attempt x) (\<lambda>_ _. True)"
proof -
  have "keeps True (\<lambda>_. True) (retry_attempt x) (\<lambda>_ _. True)"
    unfolding retry_attempt_def
  proof (rule keeps_bind_quiet, intro frame, rule daemon.triple_bind [OF check_retry_keeps], rule daemon.triple_prod,
      rule daemon.triple_prod, simp only: prod.case)
    fix time and att :: attempt_record and msg :: message_record and r :: job_record
    show "keeps True (target_ok r) (py_bind (py_lift (retry_request_for_job r)) (\<lambda>request.
       py_bind (new_id ''job'') (\<lambda>job_id.
       py_bind (build_job_record (retry_draft r request) job_id (msg_submission_id msg) time) (\<lambda>(job, status).
       py_bind (enqueue_submitted_job job status time) (\<lambda>receipt.
       py_bind (record_retry_attempt (att_message_id att) job time) (\<lambda>attempt_id.
       py_then (append_submission_job (msg_submission_id msg) (jr_job_id job) time) (
       py_return [(''accepted_at'', JStr time), (''target'', JStr x),
         (''message_id'', JStr (att_message_id att)), (''original_attempt_id'', JStr (att_attempt_id att)),
         (''attempt_id'', JStr attempt_id), (''job_id'', JStr (ac_job_id receipt)),
         (''agent_name'', JStr (ac_agent_name receipt)), (''status'', JStr (job_status_value (ac_status receipt)))]))))))) (\<lambda>_ _. True)"
      by (rule keeps_bind_quiet [OF _ daemon.triple_conseq [OF build_and_enqueue_keeps]]; (intro frame)?)
        (simp_all add: retry_draft_ok target_ok_stable(1))
  qed simp
  then show ?thesis by (rule daemon.triple_conseq) simp_all
qed

section \<open>Callback continuations\<close>

lemma new_id_keeps:
  assumes "\<And>s t. S s \<Longrightarrow> evolves s t \<Longrightarrow> S t"
  shows "keeps b S (new_id ''job'') (\<lambda>j s. new_job j s \<and> S s)"
  by (rule daemon.triple_conseq [OF daemon.triple_keep [where S = S, OF new_id_new_job assms]]) simp_all

lemma continuation_job_keeps: "keeps True P (submit_continuation_job q i time) (\<lambda>_ _. True)"
proof -
  let ?n = "me_to_agent q"
  have submit: "may_submit r s" if "JobRecord \<lparr>jr_job_id = j, jr_submission_id = None, jr_agent_name = ?n,
        jr_provider = pv, jr_request = q, jr_status = status, jr_terminal_decision = None,
        jr_cancel_requested_at = None, jr_created_at = time, jr_updated_at = time, jr_workspace_path = None,
        jr_target_kind = TK_AGENT, jr_target_name = ?n, jr_provider_instance = None,
        jr_provider_options = []\<rparr> = Inr r" "status \<in> set PENDING_STATES \<and> new_job j s \<and> configured ?n s"
    for r j pv status and s :: "('w, 'z) daemon_scheme"
    using that(2) JobRecord_may_submit [OF that(1), of s] by (auto simp: configured_def cong: if_cong)
  have stable: "\<And>s t. new_job j s \<and> configured ?n s \<Longrightarrow> untouched s t \<Longrightarrow> new_job j t \<and> configured ?n t" for j
    using new_job_untouched configured_stable(1) by blast
  have "keeps True (\<lambda>_. True) (submit_continuation_job q i time) (\<lambda>_ (_ :: ('w, 'z) daemon_scheme). True)"
    unfolding submit_continuation_job_def
    apply (rule keeps_then_quiet, intro frame)
     apply (rule keeps_then_quiet, intro frame)
      apply (rule daemon.triple_bind [OF spec_for_keeps])
      apply (rule daemon.triple_bind [OF new_id_keeps [where S = "configured ?n", OF configured_stable(2)]], assumption, assumption)
      apply (rule daemon.triple_bind [OF pending_status_keeps [OF stable]], assumption, assumption)
      apply (rule daemon.triple_bind [OF daemon.triple_lift [where Q = may_submit]], erule submit, assumption)
      apply (rule post_job_then, simp, intro frame)
     apply simp_all
    done
  then show ?thesis by (rule daemon.triple_conseq) simp_all
qed

lemma try_continuation_keeps:
  assumes "\<And>x. quiet (f x)"
  shows "keeps True (\<lambda>_. True) (py_bind (py_try
        (py_bind (continuation_request u job d) (\<lambda>request.
          py_bind (submit_continuation_job request i time) (\<lambda>ids. py_return (Inr ids))))
        (\<lambda>exc. py_return (Inl (fst (error_text exc))))) f) (\<lambda>_ _. True)"
  by (rule keeps_bind_rest [OF daemon.triple_try [OF keeps_bind_quiet [OF _ keeps_bind_rest [OF continuation_job_keeps]] keeps_quiet_rest] assms];
      (intro frame)?) simp

lemma callback_continuation_keeps: "keeps True (\<lambda>_. True) (submit_callback_continuation e job ri d time) (\<lambda>_ _. True)"
  unfolding submit_callback_continuation_def Let_def
  apply (rule keeps_bind_quiet, intro frame)
   apply (rule daemon.triple_if, rule keeps_quiet_rest, intro frame)
   apply (rule keeps_bind_quiet, intro frame)
    apply (rule daemon.triple_option)
     apply (rule keeps_bind_quiet, intro frame)
      apply (rule try_continuation_keeps, intro frame)
     apply simp
    apply (rule keeps_quiet_rest, intro frame)
   apply simp_all
  done

lemma repair_edge_keeps: "keeps True (\<lambda>_. True) (repair_callback_edge e) (\<lambda>_ _. True)"
  unfolding repair_callback_edge_def
  by (rule keeps_bind_rest [OF callback_continuation_keeps] daemon.triple_if daemon.triple_option daemon.triple_prod
      | (rule keeps_quiet_rest, (intro frame; fail)) | (rule keeps_bind_quiet, (intro frame; fail)) | (intro frame; fail) | simp)+

lemma repair_edges_keep: "keeps True (\<lambda>_. True) repair_callback_edges (\<lambda>_ _. True)"
proof -
  have "keeps True (\<lambda>_. True) (repair_each es) (\<lambda>_ _. True)" for es
  proof (induction es)
    case Nil
    show ?case by (simp only: repair_each.simps, rule keeps_quiet_rest, intro frame)
  next
    case (Cons e es)
    show ?case
      unfolding repair_each.simps
      by (rule daemon.triple_bind [OF repair_edge_keeps keeps_bind_rest [OF daemon.triple_conseq [OF Cons.IH]]]; (intro frame)?) simp_all
  qed
  then show ?thesis
    unfolding repair_callback_edges_def by (intro keeps_bind_quiet keeps_bind_rest; (intro frame)?) simp_all
qed

section \<open>Reply deliveries\<close>

lemma configured_draft: "configured n s \<Longrightarrow> dr_target_name d = n \<Longrightarrow> dr_agent_name d = n \<Longrightarrow> draft_ok d s"
  by (auto simp: configured_def draft_ok_def)

lemma delivery_job_keeps: "keeps True P (build_reply_delivery_job a h r time pj) (\<lambda>_ _. True)"
  unfolding build_reply_delivery_job_def Let_def py_then_def
  apply (rule daemon.triple_bind [OF spec_for_keeps])
  apply (rule keeps_bind_quiet, intro frame)
   apply (rule keeps_bind_quiet, intro frame)
    apply (rule keeps_bind_quiet, intro frame)
     apply (rule daemon.triple_conseq [OF build_and_enqueue_keeps], intro frame)
       apply (rule configured_draft, assumption)
        apply (simp_all add: configured_stable(1))
  done

lemma prepare_agent_keeps: "keeps True P (prepare_agent_reply_delivery a) (\<lambda>_ _. True)"
proof -
  have "keeps True (\<lambda>_. True) (prepare_agent_reply_delivery a) (\<lambda>_ _. True)"
    unfolding prepare_agent_reply_delivery_def Let_def
    by (rule keeps_bind_rest [OF delivery_job_keeps] daemon.triple_if daemon.triple_option
        | (rule keeps_quiet_rest, (intro frame; fail)) | (rule keeps_bind_quiet, (intro frame; fail)) | (intro frame; fail) | simp)+
  then show ?thesis by (rule daemon.triple_conseq) simp_all
qed

lemma prepare_each_keeps: "keeps True P (prepare_each as) (\<lambda>_ _. True)"
proof (induction as arbitrary: P)
  case Nil
  show ?case by (simp only: prepare_each.simps, rule keeps_quiet_rest, intro frame)
next
  case (Cons a as)
  show ?case
    unfolding prepare_each.simps by (rule daemon.triple_bind [OF prepare_agent_keeps keeps_bind_rest [OF Cons.IH]]) (intro frame)
qed

end
