(* ===== verification/Daemon_Endings.thy ===== *)
theory Daemon_Endings
  imports Daemon_Handlers
begin

text \<open>
  Ending jobs keeps the daemon's invariant: completion with its retries, replies and continuations, and
  cancellation.
\<close>

section \<open>Ending a job\<close>

text \<open>The newest row of a job is the given one; the newest row has the terminal status of the given one\<close>
definition current_row :: "job_record \<Rightarrow> ('w, 'z) daemon_scheme \<Rightarrow> bool" where
  "current_row r s \<longleftrightarrow> newest (dp_logs s) (jr_target_name r) (jr_job_id r) = Some r"

definition ended :: "job_record \<Rightarrow> ('w, 'z) daemon_scheme \<Rightarrow> bool" where
  "ended r s \<longleftrightarrow> jr_status r \<in> set TERMINAL_JOB_STATES \<and>
     (\<exists>q. newest (dp_logs s) (jr_target_name r) (jr_job_id r) = Some q \<and> jr_status q = jr_status r)"

lemma current_row_untouched: "current_row r s \<Longrightarrow> untouched s t \<Longrightarrow> current_row r t"
  using newest_same_rows [of "dp_logs s" "dp_logs t"] by (simp add: current_row_def untouched_def)

lemma ended_stable: "ended r s \<Longrightarrow> untouched s t \<Longrightarrow> ended r t" "ended r s \<Longrightarrow> evolves s t \<Longrightarrow> ended r t"
  using newest_same_rows [of "dp_logs s" "dp_logs t"] by (force simp: ended_def untouched_def evolves_def)+

lemma started_stable: "started (dp_logs s) j \<Longrightarrow> untouched s t \<Longrightarrow> started (dp_logs t) j"
  "started (dp_logs s) j \<Longrightarrow> evolves s t \<Longrightarrow> started (dp_logs t) j"
  by (simp_all add: untouched_started evolves_def)

lemma logged_row_ok:
  assumes "daemon_ok s" "newest (dp_logs s) (jr_target_name r) j = Some q"
  shows "jr_target_name r \<in> set (agents_of s)" "agent_name_ok (jr_target_name r)" "j = jr_job_id r \<Longrightarrow> jr_job_id q = jr_job_id r"
  using assms logged_row_configured [of "agents_of s" "dp_logs s"] by (force simp: daemon_ok_def table_ok_def)+

lemma JobRecord_same_target: "JobRecord r = Inr r' \<Longrightarrow> agent_name_ok (jr_target_name r) \<Longrightarrow> jr_target_name r' = jr_target_name r"
  using JobRecord_fields(4) [of r r'] agent_name_ok_length [of "jr_target_name r"] by auto

text \<open>A row, something quiet, and a change of the state\<close>
lemma runs_row:
  assumes "agent_name_ok (jr_target_name r)" "jr_status r \<notin> set PENDING_STATES" "indexed (with_row r u)"
    "\<And>j. started (dp_logs u) j \<Longrightarrow> started (append_row r (dp_logs u)) j"
    "quiet_for (jr_job_id r) m" "\<And>st st'. same_state st st' \<Longrightarrow> same_state (f st) (f st')"
  shows "runs (untouched u) (py_then (append_job r) (py_then m (change_state f)))
    (\<lambda>_. untouched (with_row r u\<lparr>dp_state := f (record_job r (dp_state u))\<rparr>))"
proof -
  have "started (dp_logs (with_row r u)) (jr_job_id r)" using assms(2) by (auto simp: started_def newest_append)
  then show ?thesis
    using plain.triple_then [OF runs_append [OF assms(1,4)] plain.triple_then [OF runs_quiet_for [OF assms(3) _ assms(5)] runs_change]]
      assms(6) by simp
qed

lemma table_ok_indexed:
  assumes "daemon_ok s" "table_ok (agents_of s) (append_row r (dp_logs u), st)" "agents_of u = agents_of s" "services_ok u"
    "\<And>j. target_for_job j (record_job r (dp_state u)) = target_for_job j st"
  shows "indexed (with_row r u)"
  using assms index_ok_same [of "record_job r (dp_state u)" st]
  by (simp add: indexed_def daemon_ok_def table_ok_def state_of_log_iff) (simp add: services_ok_def with_row_def)

lemma end_row_keeps:
  assumes "jr_status current = JS_RUNNING" "jr_status r \<in> set TERMINAL_JOB_STATES" "jr_target_name r = jr_target_name current"
    "jr_job_id r = jr_job_id current"
  shows "keeps False (current_row current) (py_then (append_job r) (py_then (append_event r ty pl time)
    (change_state (clear_active_for (jr_target_kind current) (jr_target_name current) (Some (jr_job_id current)))))) (\<lambda>_. ended r)"
    (is "keeps _ _ ?m _")
proof (rule tripleI)
  fix s y t assume s: "daemon_ok s" "current_row current s" and run: "?m s = (Inr y, t)"
  let ?f = "clear_active_for (jr_target_kind current) (jr_target_name current) (Some (jr_job_id current))"
  let ?st = "?f (record_job r (dp_state s))"
  let ?u = "with_row r s\<lparr>dp_state := ?st\<rparr>"
  note r = terminal_state [OF assms(2)]
  have new: "newest (dp_logs s) (jr_target_name current) (jr_job_id current) = Some current" using s(2) by (simp add: current_row_def)
  note row = logged_row_ok [OF s(1) new]
  have table: "table_ok (agents_of s) (dp_logs s, dp_state s)" using s(1) by (simp add: daemon_ok_def)
  have fits: "row_fits r s" using new assms r by (auto simp: row_fits_def TERMINAL_JOB_STATES_def)
  have st: "table_ok (agents_of s) (append_row r (dp_logs s), ?st)"
    using assms new row r running_not_queued [OF table row(1) new]
    by (intro ended_ok [OF table row(1) new]) (simp_all add: disp_view PENDING_STATES_def)
  have u: "daemon_ok ?u \<and> evolves s ?u" by (rule row_and_state_step [OF s(1) fits st])
  have "indexed (with_row r s)" by (rule table_ok_indexed [OF s(1) st]) (use s(1) in \<open>simp_all add: daemon_ok_def disp_view\<close>)
  then have "runs (untouched s) ?m (\<lambda>_. untouched ?u)"
    using row(2) assms r
    by (intro runs_row quiet_started dispatcher_read_frames same_state_ops started_append [OF fits]) simp_all
  then have "untouched ?u t" using untouched_refl run by (rule runsD)
  moreover have "ended r ?u" using assms by (simp add: ended_def newest_append)
  ultimately show "daemon_ok t \<and> evolves s t \<and> ended r t" using settle [OF u] ended_stable(1) by blast
qed simp

lemma end_row_then:
  assumes "jr_status current = JS_RUNNING" "jr_status r \<in> set TERMINAL_JOB_STATES" "jr_target_name r = jr_target_name current"
    "jr_job_id r = jr_job_id current" "keeps False (ended r) n Q"
  shows "keeps False (current_row current) (py_then (append_job r) (py_then (append_event r ty pl time)
    (py_then (change_state (clear_active_for (jr_target_kind current) (jr_target_name current) (Some (jr_job_id current)))) n))) Q"
  using daemon.triple_then [OF end_row_keeps [OF assms(1-4)] assms(5)] unfolding py_then_assoc .

lemma job_status_terminal: "job_status_of st \<in> set TERMINAL_JOB_STATES"
  by (cases st) (simp_all add: TERMINAL_JOB_STATES_def)

lemma persist_terminal_keeps:
  assumes "jr_status current = JS_RUNNING"
  shows "keeps False (current_row current) (persist_terminal_completion current d time)
    (\<lambda>(r, _) s. ended r s \<and> jr_job_id r = jr_job_id current)"
proof -
  have last: "keeps False (current_row current) (py_bind (py_lift (JobRecord (current\<lparr>jr_status := job_status_of st,
        jr_terminal_decision := x, jr_updated_at := time\<rparr>))) (\<lambda>r.
      py_then (append_job r) (
      py_then (append_event r (ty r) (pl r) time) (
      py_then (change_state (clear_active_for (jr_target_kind current) (jr_target_name current) (Some (jr_job_id current)))) (n r))))) Q"
    if n: "\<And>r. jr_job_id r = jr_job_id current \<Longrightarrow> keeps False (ended r) (n r) Q" for st x ty pl Q and n :: "job_record \<Rightarrow> ('w, 'z, 'c) dmn"
  proof (rule daemon.triple_bind [OF daemon.triple_lift])
    fix r :: job_record and s :: "('w, 'z) daemon_scheme"
    assume r: "JobRecord (current\<lparr>jr_status := job_status_of st, jr_terminal_decision := x, jr_updated_at := time\<rparr>) = Inr r"
      and s: "daemon_ok s" "current_row current s"
    then show "current_row current s \<and> jr_status r \<in> set TERMINAL_JOB_STATES \<and> jr_target_name r = jr_target_name current \<and>
        jr_job_id r = jr_job_id current"
      using JobRecord_fields [OF r] JobRecord_same_target [OF r] logged_row_ok(2) [OF s(1), of current] job_status_terminal
      by (auto simp: current_row_def)
  next
    show "keeps False (\<lambda>s. current_row current s \<and> jr_status r \<in> set TERMINAL_JOB_STATES \<and> jr_target_name r = jr_target_name current \<and>
        jr_job_id r = jr_job_id current) (py_then (append_job r) (py_then (append_event r (ty r) (pl r) time) (
      py_then (change_state (clear_active_for (jr_target_kind current) (jr_target_name current) (Some (jr_job_id current)))) (n r)))) Q" for r
      using end_row_then [OF assms _ _ _ n [of r]] unfolding triple_def by blast
  qed
  show ?thesis
    unfolding persist_terminal_completion_def
    apply (rule keeps_bind_quiet, intro frame)
     apply (rule keeps_bind_quiet, intro frame)
      apply (rule keeps_bind_quiet, intro frame)
       apply (rule keeps_then_quiet, intro frame)
        apply (rule keeps_bind_quiet, intro frame)
         apply (rule keeps_then_quiet, intro frame)
          apply (rule keeps_then_quiet, intro frame)
           apply (rule last)
           apply (rule keeps_then_quiet, intro frame)
            apply (rule keeps_then_quiet, intro frame)
             apply (rule daemon.triple_return)
             apply simp_all
     apply (erule (1) ended_stable(1) current_row_untouched)+
    done
qed

text \<open>A row with the status of the newest one\<close>
lemma same_status_keeps:
  assumes "\<And>s. P s \<Longrightarrow> \<exists>q. newest (dp_logs s) (jr_target_name r) (jr_job_id r) = Some q \<and> jr_status q = jr_status r"
  shows "keeps b P (append_job r) (\<lambda>_. current_row r)"
proof -
  have run: "append_job r s = (Inr (), with_row r s) \<and> daemon_ok (with_row r s) \<and> evolves s (with_row r s)" if s: "daemon_ok s" "P s" for s
  proof -
    obtain q where q: "newest (dp_logs s) (jr_target_name r) (jr_job_id r) = Some q" "jr_status q = jr_status r"
      using assms [OF s(2)] by blast
    note row = logged_row_ok [OF s(1) q(1)]
    have "row_fits r s" using q by (simp add: row_fits_def)
    moreover have "table_ok (agents_of s) (append_row r (dp_logs s), record_job r (dp_state s))"
      using s(1) q row by (intro unchanged_ok [of _ _ _ "jr_target_name r" "jr_job_id r" q]) (simp_all add: daemon_ok_def)
    ultimately have "daemon_ok (with_row r s) \<and> evolves s (with_row r s)"
      using row_and_state_step [OF s(1), of r "record_job r (dp_state s)"] by (simp add: with_row_def)
    then show ?thesis using append_job_with_row [OF row(2)] by simp
  qed
  have "current_row r (with_row r s)" for s :: "('w, 'z) daemon_scheme" by (simp add: current_row_def newest_append)
  with run show ?thesis unfolding triple_def by (metis Inr_not_Inl prod.inject)
qed

lemma amend_keeps:
  assumes "jr_status r = jr_status r0" "jr_target_name r = jr_target_name r0" "jr_job_id r = jr_job_id r0"
  shows "keeps b (ended r0) (append_job r) (\<lambda>_ _. True)"
  by (rule daemon.triple_conseq [OF same_status_keeps [where P = "ended r0"]]) (auto simp: ended_def assms)

lemma amended_record:
  assumes "JobRecord (r0\<lparr>jr_terminal_decision := x\<rparr>) = Inr r" "daemon_ok s" "ended r0 s"
  shows "ended r0 s \<and> jr_status r = jr_status r0 \<and> jr_target_name r = jr_target_name r0 \<and> jr_job_id r = jr_job_id r0"
proof -
  obtain q where "newest (dp_logs s) (jr_target_name r0) (jr_job_id r0) = Some q" using assms(3) by (auto simp: ended_def)
  then have "agent_name_ok (jr_target_name r0)" using logged_row_ok(2) assms(2) by blast
  then show ?thesis using JobRecord_fields [OF assms(1)] JobRecord_same_target [OF assms(1)] assms(3) by simp
qed

lemma amend_then_keeps:
  assumes "\<And>r. quiet (n r)"
  shows "keeps b (ended r0) (py_bind (py_lift (JobRecord (r0\<lparr>jr_terminal_decision := x\<rparr>))) (\<lambda>r. py_then (append_job r) (n r)))
    (\<lambda>_ _. True)"
proof (rule daemon.triple_bind [OF daemon.triple_lift], erule (2) amended_record)
  show "keeps b (\<lambda>s. ended r0 s \<and> jr_status r = jr_status r0 \<and> jr_target_name r = jr_target_name r0 \<and> jr_job_id r = jr_job_id r0)
      (py_then (append_job r) (n r)) (\<lambda>_ _. True)" for r
    using keeps_then_rest [OF amend_keeps [of r r0] assms [of r]] unfolding triple_def by blast
qed

lemma persist_more_keeps:
  "keeps b (ended r) (persist_reply_decision cur r d prior time) (\<lambda>_ _. True)"
  "keeps b (ended r) (persist_delegated_terminal_job r e time) (\<lambda>_ _. True)"
  unfolding persist_reply_decision_def persist_delegated_terminal_job_def delegated_terminal_job_def
  by (rule amend_then_keeps; intro frame)+

lemma final_reply_keeps: "keeps True P (record_final_reply r d time) (\<lambda>_ _. True)"
proof -
  have "keeps True (\<lambda>_. True) (record_final_reply r d time) (\<lambda>_ _. True)"
    unfolding record_final_reply_def
    by (rule keeps_then_rest [OF callback_continuation_keeps] daemon.triple_option
        | (rule keeps_quiet_rest, (intro frame; fail)) | (rule keeps_bind_quiet, (intro frame; fail)) | (intro frame; fail) | simp)+
  then show ?thesis by (rule daemon.triple_conseq) simp_all
qed

lemma schedule_retry_keeps: "keeps True P (schedule_automatic_retry cur r d time) (\<lambda>_ _. True)"
proof -
  have "keeps True (\<lambda>_. True) (schedule_automatic_retry cur r d time) (\<lambda>_ _. True)"
    unfolding schedule_automatic_retry_def
    apply (rule keeps_bind_quiet, intro frame)
     apply (rule daemon.triple_option, rule keeps_quiet_rest, intro frame)
     apply (rule keeps_bind_rest [OF daemon.triple_try [OF keeps_bind_rest [OF retry_attempt_keeps] keeps_quiet_rest]])
       apply (intro frame; fail)+
    apply simp
    done
  then show ?thesis by (rule daemon.triple_conseq) simp_all
qed

lemma finish_reply_keeps: "keeps True (ended r) (finish_reply cur r d time prior) (\<lambda>_ _. True)"
proof -
  have retry: "keeps True (ended r) (schedule_automatic_retry cur r d time) (\<lambda>_. ended r)"
    by (rule daemon.triple_conseq [OF daemon.triple_keep [where S = "ended r", OF schedule_retry_keeps [where P = "\<lambda>_. True"] ended_stable(2)]])
      simp_all
  show ?thesis
    unfolding finish_reply_def
    apply (rule daemon.triple_bind [OF retry])
    apply (rule daemon.triple_prod)
    apply (rule daemon.triple_if, rule keeps_quiet_rest, intro frame)
    apply (rule keeps_bind_quiet, intro frame)
     apply (rule daemon.triple_option)
      apply (rule keeps_then_rest [OF final_reply_keeps], intro frame)
     apply (rule keeps_bind_quiet, intro frame)
      apply (rule daemon.triple_bind [OF persist_more_keeps(1)])
      apply (rule keeps_then_rest [OF final_reply_keeps], intro frame)
     apply (erule (1) ended_stable(1))+
    done
qed

lemma bureau_completion_keeps: "keeps True (ended r) (record_message_bureau_completion cur r d time prior) (\<lambda>_ _. True)"
  unfolding record_message_bureau_completion_def
  apply (rule keeps_then_quiet, intro frame)
   apply (rule daemon.triple_if, rule keeps_quiet_rest, intro frame)
   apply (rule keeps_bind_quiet, intro frame)
    apply (rule daemon.triple_option)
     apply (rule finish_reply_keeps)
    apply (rule daemon.triple_if)
     apply (rule keeps_bind_rest [OF persist_more_keeps(2)], intro frame)
    apply (rule finish_reply_keeps)
   apply (erule (1) ended_stable(1))+
  done

section \<open>Completion\<close>

lemma get_job_keeps:
  assumes "\<And>s t. P s \<Longrightarrow> untouched s t \<Longrightarrow> P t"
  shows "keeps b P (get_job j) (\<lambda>found s. P s \<and> (\<forall>r. found = Some r \<longrightarrow> current_row r s \<and> jr_job_id r = j))"
proof -
  have "t = s \<and> (\<forall>r. found = Some r \<longrightarrow> current_row r s \<and> jr_job_id r = j)"
    if "daemon_ok s" "get_job j s = (Inr found, t)" for found and s t :: "('w, 'z) daemon_scheme"
    using get_job_found [OF daemon_ok_indexed that(2)] that(1) logged_row_configured [of "agents_of s" "dp_logs s"]
    by (fastforce simp: current_row_def daemon_ok_def table_ok_def)
  moreover have "keeps b P (get_job j) (\<lambda>_. P)" by (rule keeps_quiet, intro frame, rule assms)
  ultimately show ?thesis unfolding triple_def by blast
qed

lemma current_started:
  assumes "daemon_ok s" "current_row r s" "started (dp_logs s) (jr_job_id r)"
  shows "jr_status r \<notin> set PENDING_STATES"
proof -
  obtain a q where q: "newest (dp_logs s) a (jr_job_id r) = Some q" "jr_status q \<notin> set PENDING_STATES" using assms(3) by (auto simp: started_def)
  moreover have new: "newest (dp_logs s) (jr_target_name r) (jr_job_id r) = Some r" using assms(2) by (simp add: current_row_def)
  moreover have "a = jr_target_name r"
    using known_job [of "agents_of s" "dp_logs s" "jr_target_name r" "jr_job_id r" r a] assms(1) q(1) new newest_logged
    by (auto simp: daemon_ok_def table_ok_def)
  ultimately show ?thesis by simp
qed

lemma running_iff: "terminal_event_by_status st = None \<longleftrightarrow> st \<in> set PENDING_STATES \<or> st = JS_RUNNING"
  by (cases st) (simp_all add: PENDING_STATES_def)

lemma current_running_started: "current_row r s \<Longrightarrow> jr_status r = JS_RUNNING \<Longrightarrow> started (dp_logs s) (jr_job_id r)"
  by (force simp: current_row_def started_def PENDING_STATES_def)

lemma keeps_when_running:
  assumes "jr_status c = JS_RUNNING \<Longrightarrow> jr_job_id c = j \<Longrightarrow> keeps False (current_row c) m Q" "\<not> terminal_event_by_status (jr_status c) \<noteq> None"
  shows "keeps False (\<lambda>s. \<forall>r. Some c = Some r \<longrightarrow> current_row r s \<and> jr_status r \<notin> set PENDING_STATES \<and> jr_job_id r = j) m Q"
  using assms running_iff unfolding triple_def by auto

definition is_over :: "string \<Rightarrow> ('w, 'z) daemon_scheme \<Rightarrow> bool" where
  "is_over j s \<longleftrightarrow> (\<exists>a r. newest (dp_logs s) a j = Some r \<and> jr_status r \<in> set TERMINAL_JOB_STATES)"

lemma is_over_stable: "is_over j s \<Longrightarrow> untouched s t \<Longrightarrow> is_over j t" "is_over j s \<Longrightarrow> evolves s t \<Longrightarrow> is_over j t"
proof -
  show "is_over j s \<Longrightarrow> untouched s t \<Longrightarrow> is_over j t"
    using newest_same_rows [of "dp_logs s" "dp_logs t"] by (simp add: is_over_def untouched_def)
  assume over: "is_over j s" and step: "evolves s t"
  from over obtain a r where "newest (dp_logs s) a j = Some r" "jr_status r \<in> set TERMINAL_JOB_STATES" by (auto simp: is_over_def)
  with step obtain r' where "newest (dp_logs t) a j = Some r'" "jr_status r' \<in> set TERMINAL_JOB_STATES" by (fastforce simp: evolves_def)
  then show "is_over j t" unfolding is_over_def by blast
qed

lemma ended_is_over: "ended r s \<Longrightarrow> is_over (jr_job_id r) s"
  unfolding ended_def is_over_def by metis

lemma current_terminal: "current_row r s \<Longrightarrow> terminal_event_by_status (jr_status r) \<noteq> None \<Longrightarrow> is_over (jr_job_id r) s"
  unfolding is_over_def current_row_def by (cases "jr_status r") (auto simp: TERMINAL_JOB_STATES_def)

text \<open>What a handler that ends jobs promises to those that call it\<close>
abbreviation ends_started :: "('w, 'z) completer \<Rightarrow> bool" where
  "ends_started ending \<equiv> \<forall>j d. keeps False (\<lambda>s. started (dp_logs s) j) (ending j d) (\<lambda>_. is_over j)"

lemma ends_keeps:
  assumes "ends_started ending"
  shows "keeps False (\<lambda>s. started (dp_logs s) j) (ending j d) (\<lambda>_ _. True)"
  by (rule daemon.triple_conseq [OF assms [rule_format]]) simp_all

lemma repair_head_keeps:
  assumes "ends_started ending"
  shows "keeps False (\<lambda>_. True) (repair_agent_reply_delivery_head ending a) (\<lambda>_ _. True)"
proof -
  have job: "keeps False (\<lambda>_. True) (get_job j) (\<lambda>found s. \<forall>r. found = Some r \<longrightarrow> jr_status r = JS_RUNNING \<longrightarrow> started (dp_logs s) (jr_job_id r))"
    for j :: string
    by (rule daemon.triple_conseq [OF get_job_keeps]) (auto intro: current_running_started)
  have started: "keeps False (\<lambda>s. \<forall>r. Some c = Some r \<longrightarrow> jr_status r = JS_RUNNING \<longrightarrow> started (dp_logs s) (jr_job_id r)) m (\<lambda>_ _. True)"
    if "keeps False (\<lambda>s. started (dp_logs s) (jr_job_id c)) m (\<lambda>_ _. True)" "jr_status c = JS_RUNNING"
    for c and m :: "('w, 'z, bool) dmn"
    by (rule daemon.triple_conseq [OF that(1)]) (simp_all add: that(2))
  show ?thesis
    unfolding repair_agent_reply_delivery_head_def Let_def
    apply (rule keeps_bind_quiet, intro frame)
     apply (rule daemon.triple_option, rule keeps_quiet_rest, intro frame)
     apply (rule daemon.triple_if, rule keeps_quiet_rest, intro frame)
     apply (rule daemon.triple_if, rule keeps_quiet_rest, intro frame)
     apply (rule daemon.triple_bind [OF job])
     apply (rule daemon.triple_option, rule keeps_quiet_rest, intro frame)
     apply (rule daemon.triple_if, rule keeps_quiet_rest, intro frame)
     apply (simp only:, rule started, rule keeps_bind_quiet, intro frame)
       apply (rule daemon.triple_option)
        apply (rule keeps_bind_quiet, intro frame)
         apply (rule daemon.triple_if, rule keeps_quiet_rest, intro frame)
         apply (rule keeps_bind_quiet, intro frame)
          apply (rule keeps_bind_quiet, intro frame)
           apply (rule keeps_then_rest [OF assms [rule_format]], intro frame)
          apply (erule (1) started_stable(1))+
       apply (rule keeps_then_rest [OF assms [rule_format]], intro frame)
      apply (erule (1) started_stable(1))
     apply simp_all
    done
qed

lemma prepare_deliveries_keeps:
  assumes "ends_started ending"
  shows "keeps False P (prepare_reply_deliveries ending) (\<lambda>_ _. True)"
proof -
  have heads: "keeps False (\<lambda>_. True) (repair_heads ending as) (\<lambda>_ _. True)" for as
  proof (induction as)
    case Nil
    show ?case by (simp only: repair_heads.simps, rule keeps_quiet_rest, intro frame)
  next
    case (Cons a as)
    show ?case unfolding repair_heads.simps by (rule daemon.triple_then [OF repair_head_keeps [OF assms] Cons.IH])
  qed
  have "keeps False (\<lambda>_. True) (prepare_reply_deliveries ending) (\<lambda>_ _. True)"
    unfolding prepare_reply_deliveries_def
    by (rule keeps_bind_quiet [OF _ daemon.triple_then [OF heads daemon.triple_conseq [OF prepare_each_keeps]]]; (intro frame)?) simp_all
  then show ?thesis by (rule daemon.triple_conseq) simp_all
qed

lemma complete_job_keeps: "ends_started (complete_job n :: ('w, 'z) completer)"
proof (induction n)
  case 0
  show ?case by (auto intro: daemon.triple_raise simp only: complete_job.simps)
next
  case (Suc n)
  show ?case
  proof (intro allI)
    fix j d
    let ?found = "\<lambda>found s :: ('w, 'z) daemon_scheme. \<forall>r. found = Some r \<longrightarrow>
        current_row r s \<and> jr_status r \<notin> set PENDING_STATES \<and> jr_job_id r = j"
    have found: "keeps False (\<lambda>s. started (dp_logs s) j) (get_job j) ?found"
      by (rule daemon.triple_conseq [OF get_job_keeps [OF started_stable(1)]]) (auto dest: current_started)
    have rest: "keeps False (\<lambda>s. ended r s \<and> jr_job_id r = j) (py_bind (record_message_bureau_completion c r d time prior) (\<lambda>(terminal, scheduled).
        py_then (resolve_reply_delivery_terminal terminal time) (
        py_bind (py_gets dm_auto_reply_delivery) (\<lambda>auto.
        py_then (if \<not> scheduled \<and> auto then py_then (prepare_reply_deliveries (complete_job n)) (py_return ())
          else py_return ()) (py_return terminal))))) (\<lambda>_ s :: ('w, 'z) daemon_scheme. is_over j s)" (is "keeps _ _ ?m _") for c r d time prior
    proof -
      have "keeps False (ended r) ?m (\<lambda>_ s :: ('w, 'z) daemon_scheme. True)"
        apply (rule daemon.triple_bind [OF daemon.triple_conseq [OF bureau_completion_keeps]])
           apply (simp; fail)+
        apply (rule daemon.triple_prod)
        apply (rule keeps_then_quiet [where P = "\<lambda>_. True"], intro frame)
         apply (rule keeps_bind_quiet, intro frame)
          apply (rule daemon.triple_then [where P' = "\<lambda>_. True"], rule daemon.triple_if)
            apply (rule keeps_then_rest [OF prepare_deliveries_keeps [OF Suc.IH]], intro frame)
           apply (rule keeps_quiet_rest, intro frame)
          apply (rule keeps_quiet_rest, intro frame)
         apply simp_all
        done
      from daemon.triple_keep [where S = "is_over j", OF this is_over_stable(2)] show ?thesis
        by (rule daemon.triple_conseq) (auto dest: ended_is_over)
    qed
    show "keeps False (\<lambda>s. started (dp_logs s) j) (complete_job (Suc n) j d :: ('w, 'z, job_record) dmn) (\<lambda>_. is_over j)"
      unfolding complete_job.simps
      apply (rule daemon.triple_if, rule daemon.triple_raise)
      apply (rule daemon.triple_bind [OF found])
      apply (rule daemon.triple_option, rule daemon.triple_raise)
      apply (rule daemon.triple_if)
       apply (rule daemon.triple_return, use current_terminal in fastforce)
      apply (simp only:, rule keeps_when_running)
       apply (rule keeps_bind_quiet, intro frame)
        apply (rule daemon.triple_bind [OF persist_terminal_keeps], assumption)
        apply (rule daemon.triple_prod, rule daemon.triple_prod, simp only: prod.case, rule rest)
       apply (erule (1) current_row_untouched)
      apply assumption
      done
  qed
qed

section \<open>Cancellation\<close>

lemma runs_bind_quiet: "indexed u \<Longrightarrow> quiet m \<Longrightarrow> (\<And>x. runs (untouched u) (f x) Q) \<Longrightarrow> runs (untouched u) (py_bind m f) Q"
  by (rule plain.triple_bind [OF runs_quiet])

lemma runs_then_quiet: "indexed u \<Longrightarrow> quiet m \<Longrightarrow> runs (untouched u) n Q \<Longrightarrow> runs (untouched u) (py_then m n) Q"
  unfolding py_then_def by (rule runs_bind_quiet)

text \<open>A row that asks for the cancellation of an open job\<close>
lemma mark_keeps:
  assumes "jr_status r = jr_status c" "jr_target_name r = jr_target_name c" "jr_job_id r = jr_job_id c"
  shows "keeps b (current_row c) (append_job r) (\<lambda>_. current_row r)"
  by (rule same_status_keeps) (simp add: current_row_def assms)

text \<open>The job leaves its queue and its slot, and the row of its end follows some statements later\<close>
definition cancels :: "job_record \<Rightarrow> job_record \<Rightarrow> bool" where
  "cancels c r \<longleftrightarrow> jr_status r = JS_CANCELLED \<and> jr_target_name r = jr_target_name c \<and> jr_job_id r = jr_job_id c"

text \<open>Where a row that cancels the job brings log and state into line again\<close>
definition cancelling :: "job_record \<Rightarrow> ('w, 'z) daemon_scheme \<Rightarrow> bool" where
  "cancelling c u \<longleftrightarrow> indexed u \<and> agent_name_ok (jr_target_name c) \<and> (\<forall>r. cancels c r \<longrightarrow>
     daemon_ok (with_row r u) \<and> (\<forall>j. started (dp_logs u) j \<longrightarrow> started (append_row r (dp_logs u)) j))"

lemma cancel_row_runs:
  assumes "cancelling c u" "cancels c r" "quiet n"
  shows "runs (untouched u) (py_then (append_job r) n) (\<lambda>_ t. \<exists>r. cancels c r \<and> untouched (with_row r u) t)"
proof -
  have r: "daemon_ok (with_row r u)" "\<And>j. started (dp_logs u) j \<Longrightarrow> started (append_row r (dp_logs u)) j" "agent_name_ok (jr_target_name r)"
    using assms(1,2) by (simp_all add: cancelling_def) (simp add: cancels_def)
  have "runs (untouched u) (py_then (append_job r) n) (\<lambda>_. untouched (with_row r u))"
    by (rule plain.triple_then [OF runs_append [OF r(3,2)] runs_quiet [OF daemon_ok_indexed [OF r(1)] assms(3)]])
  then show ?thesis by (rule plain.triple_conseq) (use assms(2) in auto)
qed

lemma cancel_tail_keeps:
  fixes m :: "('w, 'z, 'b) dmn" and n :: "('w, 'z, 'a) dmn"
  assumes "jr_status c \<notin> set TERMINAL_JOB_STATES" "quiet m"
    and tail: "\<And>u. cancelling c u \<Longrightarrow> runs (untouched u) n (\<lambda>_ t. \<exists>r. cancels c r \<and> untouched (with_row r u) t)"
  shows "keeps False (current_row c) (py_then m (
      py_then (change_state (\<lambda>st. snd (remove_queued_for (jr_target_kind c) (jr_target_name c) (jr_job_id c) st))) (
      py_then (change_state (clear_active_for (jr_target_kind c) (jr_target_name c) (Some (jr_job_id c)))) n))) (\<lambda>_ _. True)"
    (is "keeps _ _ ?m _")
proof (rule tripleI)
  fix s y t assume s: "daemon_ok s" "current_row c s" and run: "?m s = (Inr y, t)"
  let ?rem = "\<lambda>st. snd (remove_queued_for (jr_target_kind c) (jr_target_name c) (jr_job_id c) st)"
  let ?clear = "clear_active_for (jr_target_kind c) (jr_target_name c) (Some (jr_job_id c))"
  let ?u = "s\<lparr>dp_state := ?clear (?rem (dp_state s))\<rparr>"
  have new: "newest (dp_logs s) (jr_target_name c) (jr_job_id c) = Some c" using s(2) by (simp add: current_row_def)
  note row = logged_row_ok [OF s(1) new] and idx = daemon_ok_indexed [OF s(1)]
  have table: "table_ok (agents_of s) (dp_logs s, dp_state s)" using s(1) by (simp add: daemon_ok_def)
  have fits: "row_fits r s" if "cancels c r" for r using that new assms(1) by (simp add: row_fits_def PENDING_STATES_def cancels_def)
  have step: "daemon_ok (with_row r ?u) \<and> evolves s (with_row r ?u)" if r: "cancels c r" for r
  proof -
    have "table_ok (agents_of s) (append_row r (dp_logs s), record_job r (?clear (?rem (dp_state s))))"
      using r by (intro ended_ok [OF table row(1) new]) (simp_all add: disp_view PENDING_STATES_def cancels_def)
    then show ?thesis using row_and_state_step [OF s(1) fits [OF r]] by (simp add: with_row_def)
  qed
  have "indexed ?u" using idx by (simp add: indexed_with_state disp_view)
  then have "cancelling c ?u" using step started_append [OF fits] row(2) by (simp add: cancelling_def)
  note tail = tail [OF this]
  have rem: "runs (untouched s) (change_state ?rem) (\<lambda>_. untouched (s\<lparr>dp_state := ?rem (dp_state s)\<rparr>))"
    by (rule runs_change) (erule same_state_ops)
  have clear: "runs (untouched (s\<lparr>dp_state := ?rem (dp_state s)\<rparr>)) (change_state ?clear) (\<lambda>_. untouched ?u)"
    using runs_change [of ?clear "s\<lparr>dp_state := ?rem (dp_state s)\<rparr>"] same_state_ops(4) by simp
  have "runs (untouched s) ?m (\<lambda>_ t. \<exists>r. cancels c r \<and> untouched (with_row r ?u) t)"
    by (intro runs_then_quiet [OF idx assms(2)] plain.triple_then [OF rem] plain.triple_then [OF clear] tail)
  from runsD [OF this untouched_refl run] show "daemon_ok t \<and> evolves s t \<and> True" using step settle by blast
qed simp

lemma cancel_decision_runs:
  fixes u :: "('w, 'z) daemon_scheme"
  assumes "cancelling c u"
  shows "runs (untouched u) (cancel_with_decision c time reply sn en) (\<lambda>_ t. \<exists>r. cancels c r \<and> untouched (with_row r u) t)"
proof -
  note q = runs_bind_quiet runs_then_quiet
  have idx: "indexed u" using assms by (simp add: cancelling_def)
  have cancels: "cancels c r" if "JobRecord (c\<lparr>jr_status := JS_CANCELLED, jr_terminal_decision := x, jr_updated_at := time,
      jr_cancel_requested_at := z\<rparr>) = Inr r" for r x z
    using JobRecord_fields [OF that] JobRecord_same_target [OF that] assms by (simp add: cancels_def cancelling_def)
  have last: "runs (untouched u) (py_bind (py_lift (JobRecord (c\<lparr>jr_status := JS_CANCELLED, jr_terminal_decision := x,
      jr_updated_at := time, jr_cancel_requested_at := z\<rparr>))) (\<lambda>r. py_then (append_job r) (n r)))
      (\<lambda>_ t. \<exists>r. cancels c r \<and> untouched (with_row r u) t)"
    if n: "\<And>r. quiet (n r)" for x z and n :: "job_record \<Rightarrow> ('w, 'z, cancel_receipt) dmn"
  proof (rule plain.triple_bind [OF plain.triple_lift [where Q = "\<lambda>r t. cancels c r \<and> untouched u t"]])
    show "runs (\<lambda>t. cancels c r \<and> untouched u t) (py_then (append_job r) (n r)) (\<lambda>_ t. \<exists>r. cancels c r \<and> untouched (with_row r u) t)" for r
      using cancel_row_runs [OF assms _ n [of r]] unfolding triple_def by blast
  qed (use cancels in blast)
  show ?thesis
    unfolding cancel_with_decision_def
    by (rule last | (rule q [OF idx], (intro frame; fail)) | (intro frame; fail))+
qed

lemma keeps_when_found:
  assumes "jr_job_id c = j \<Longrightarrow> keeps b (current_row c) m Q"
  shows "keeps b (\<lambda>s. True \<and> (\<forall>r. Some c = Some r \<longrightarrow> current_row r s \<and> jr_job_id r = j)) m Q"
proof (cases "jr_job_id c = j")
  case True
  then show ?thesis by (intro daemon.triple_conseq [OF assms]) simp_all
next
  case False
  then show ?thesis by (simp add: triple_def)
qed

lemma cancel_job_keeps: "keeps False (\<lambda>_. True) (cancel_job j en) (\<lambda>_ _. True)"
proof -
  have marked: "current_row c s \<and> jr_status r = jr_status c \<and> jr_target_name r = jr_target_name c \<and> jr_job_id r = jr_job_id c"
    if "JobRecord (c\<lparr>jr_cancel_requested_at := x, jr_updated_at := z\<rparr>) = Inr r" "daemon_ok s" "current_row c s"
    for r c x z and s :: "('w, 'z) daemon_scheme"
    using JobRecord_fields [OF that(1)] JobRecord_same_target [OF that(1)] logged_row_ok(2) [OF that(2), of c] that(3)
    by (auto simp: current_row_def)
  have mark: "keeps False (current_row c) (py_bind (py_lift (JobRecord (c\<lparr>jr_cancel_requested_at := Some time, jr_updated_at := time\<rparr>))) (\<lambda>r.
      py_then (append_job r) (
      py_then (append_event r ty pl time) (
      py_then (change_state (\<lambda>st. snd (remove_queued_for (jr_target_kind c) (jr_target_name c) (jr_job_id c) st))) (
      py_then (change_state (clear_active_for (jr_target_kind c) (jr_target_name c) (Some (jr_job_id c)))) (
      py_then (when_execution (execution_cancel (jr_job_id c))) (
      py_bind (snapshot_load (jr_job_id c)) (\<lambda>sn. cancel_with_decision r time (reply sn) sn en)))))))) (\<lambda>_ (_ :: ('w, 'z) daemon_scheme). True)"
    if open_job: "jr_status c \<notin> set TERMINAL_JOB_STATES" for c time ty pl reply
  proof (rule daemon.triple_bind [OF daemon.triple_lift], erule (2) marked)
    fix r
    show "keeps False (\<lambda>s. current_row c s \<and> jr_status r = jr_status c \<and> jr_target_name r = jr_target_name c \<and> jr_job_id r = jr_job_id c)
      (py_then (append_job r) (
      py_then (append_event r ty pl time) (
      py_then (change_state (\<lambda>st. snd (remove_queued_for (jr_target_kind c) (jr_target_name c) (jr_job_id c) st))) (
      py_then (change_state (clear_active_for (jr_target_kind c) (jr_target_name c) (Some (jr_job_id c)))) (
      py_then (when_execution (execution_cancel (jr_job_id c))) (
      py_bind (snapshot_load (jr_job_id c)) (\<lambda>sn. cancel_with_decision r time (reply sn) sn en))))))) (\<lambda>_ (_ :: ('w, 'z) daemon_scheme). True)"
      (is "keeps _ ?P ?m _")
    proof (cases "jr_status r = jr_status c \<and> jr_target_name r = jr_target_name c \<and> jr_job_id r = jr_job_id c")
      case True
      have "runs (untouched u) (py_then (when_execution (execution_cancel (jr_job_id c))) (
          py_bind (snapshot_load (jr_job_id c)) (\<lambda>sn. cancel_with_decision r time (reply sn) sn en)))
          (\<lambda>_ t. \<exists>r'. cancels r r' \<and> untouched (with_row r' u) t)" if "cancelling r u" for u :: "('w, 'z) daemon_scheme"
        using that by (intro runs_then_quiet runs_bind_quiet cancel_decision_runs frame) (simp_all add: cancelling_def)
      from cancel_tail_keeps [OF _ _ this, of "append_event r ty pl time"] open_job True
      have "keeps False (current_row r) (py_then (append_event r ty pl time) (
        py_then (change_state (\<lambda>st. snd (remove_queued_for (jr_target_kind c) (jr_target_name c) (jr_job_id c) st))) (
        py_then (change_state (clear_active_for (jr_target_kind c) (jr_target_name c) (Some (jr_job_id c)))) (
        py_then (when_execution (execution_cancel (jr_job_id c))) (
        py_bind (snapshot_load (jr_job_id c)) (\<lambda>sn. cancel_with_decision r time (reply sn) sn en)))))) (\<lambda>_ (_ :: ('w, 'z) daemon_scheme). True)"
        by (simp add: dispatcher_read_frames)
      from daemon.triple_then [OF mark_keeps this] True show ?thesis by simp
    qed (auto simp: triple_def)
  qed
  show ?thesis
    unfolding cancel_job_def
    apply (rule daemon.triple_bind [OF get_job_keeps], simp)
    apply (rule daemon.triple_option, rule daemon.triple_raise)
    apply (rule daemon.triple_if, rule keeps_quiet_rest, intro frame)
    apply (rule daemon.triple_if, rule daemon.triple_raise)
    apply (simp only:, rule keeps_when_found, hypsubst)
    apply (rule keeps_bind_quiet, intro frame)
     apply (rule mark, simp add: TERMINAL_JOB_STATES_def)
    apply (erule (1) current_row_untouched)
    done
qed

end
