(* ===== verification/Daemon_Starts.thy ===== *)
theory Daemon_Starts
  imports Daemon_Endings
begin

text \<open>
  Starting jobs, polling executions and trackers, and restoring running jobs keep the daemon's
  invariant; so does every handler that returns.
\<close>

section \<open>Starting a job\<close>

text \<open>From a state in between back to one of the invariant\<close>
lemma runs_keeps:
  assumes "keeps False P m Q"
  shows "runs (\<lambda>t. daemon_ok t \<and> evolves s t \<and> P t) m (\<lambda>_ t. daemon_ok t \<and> evolves s t)"
proof (rule runsI)
  fix t y t' assume "daemon_ok t \<and> evolves s t \<and> P t" "m t = (Inr y, t')"
  with tripleD(1) [OF assms, of t y t'] daemon.trans show "daemon_ok t' \<and> evolves s t'" by blast
qed

lemma after_start_keeps:
  assumes "ends_started ending"
  shows "keeps False (\<lambda>s. started (dp_logs s) (jr_job_id r)) (complete_reply_delivery_after_start ending r time sb) (\<lambda>_ _. True)"
proof -
  have lift: "keeps False (\<lambda>s. started (dp_logs s) (jr_job_id r)) (py_bind (py_lift x) (ending (jr_job_id r))) (\<lambda>_ _. True)" for x
    by (rule keeps_bind_quiet, intro frame, rule ends_keeps [OF assms], erule (1) started_stable(1))
  show ?thesis
    unfolding complete_reply_delivery_after_start_def Let_def
    by (rule lift daemon.triple_option daemon.triple_if | (rule keeps_quiet_rest, (intro frame; fail)))+
qed

definition start_rest :: "nat \<Rightarrow> job_record \<Rightarrow> queued_slot \<Rightarrow> string \<Rightarrow> ('w, 'z, job_record) dmn" where
  "start_rest depth running slot started_at =
     py_then (if qs_target_kind slot = TK_AGENT then sync_runtime (jr_agent_name running) (Some AS_BUSY) else py_return ()) (
     py_bind (py_gets (\<lambda>s. (dm_has_execution s, dm_require_actionable s))) (\<lambda>(enabled, actionable).
     py_bind (if enabled \<and> should_start_execution actionable running (build_runtime_context (qs_runtime slot))
              then execution_start running (build_runtime_context (qs_runtime slot)) else py_return None) (\<lambda>submission.
     if is_reply_delivery_job running \<and> enabled
     then complete_reply_delivery_after_start (complete_job depth) running started_at submission
     else py_return running)))"

lemma keeps_started:
  "quiet_for j m \<Longrightarrow> keeps b (\<lambda>s. started (dp_logs s) j) m (\<lambda>_ s. started (dp_logs s) j)"
  by (rule keeps_quiet_for [OF _ started_stable(1)]) simp_all

lemma start_rest_keeps: "keeps False (\<lambda>s. started (dp_logs s) (jr_job_id r)) (start_rest depth r slot time) (\<lambda>_ _. True)"
  unfolding start_rest_def
  apply (rule keeps_then_quiet, intro frame)
   apply (rule keeps_bind_quiet, intro frame)
    apply (rule daemon.triple_prod)
    apply (rule daemon.triple_bind [OF keeps_started])
     apply (intro started_frame.framed_rules execution_started_frames)
    apply (rule daemon.triple_if)
     apply (rule after_start_keeps, rule complete_job_keeps)
    apply (rule keeps_quiet_rest, intro frame)
   apply (erule (1) started_stable(1))+
  done

lemma start_running_runs:
  fixes s :: "('w, 'z) daemon_scheme"
  assumes s: "daemon_ok s" "current_row c s" "jr_status c \<in> set PENDING_STATES"
    "active_job_for TK_AGENT (jr_target_name c) (dp_state s) = None"
    and u: "u = s\<lparr>dp_state := snd (remove_queued_for TK_AGENT (jr_target_name c) (jr_job_id c) (dp_state s))\<rparr>"
  shows "runs (untouched u) (start_running_job depth c slot time) (\<lambda>_ t. daemon_ok t \<and> evolves s t)"
proof -
  have new: "newest (dp_logs s) (jr_target_name c) (jr_job_id c) = Some c" using s(2) by (simp add: current_row_def)
  note row = logged_row_ok [OF s(1) new]
  have table: "table_ok (agents_of s) (dp_logs s, dp_state s)" using s(1) by (simp add: daemon_ok_def)
  have idx: "indexed u" unfolding u using daemon_ok_indexed [OF s(1)] by (simp add: indexed_with_state disp_view)
  define run :: "job_record \<Rightarrow> string \<Rightarrow> ('w, 'z, unit) dmn" where "run r t = py_then (mark_attempt_started r t) (py_then (append_job r) (
     py_then (py_then (append_event r ''job_started'' [(''status'', JStr (job_status_value JS_RUNNING))] t) (write_running_snapshot r t))
     (change_state (mark_active_for (jr_target_kind r) (jr_target_name r) (jr_job_id r)))))" for r t
  have body: "start_running_job depth c slot time = py_bind (given_or_clock time) (\<lambda>t.
      py_bind (py_lift (JobRecord (c\<lparr>jr_status := JS_RUNNING, jr_updated_at := t\<rparr>))) (\<lambda>r. py_then (run r t) (start_rest depth r slot t)))"
    unfolding start_running_job_def run_def start_rest_def Let_def py_then_assoc ..
  have running: "jr_status r = JS_RUNNING \<and> jr_target_name r = jr_target_name c \<and> jr_job_id r = jr_job_id c"
    if "JobRecord (c\<lparr>jr_status := JS_RUNNING, jr_updated_at := t\<rparr>) = Inr r" for r t
    using JobRecord_fields [OF that] JobRecord_same_target [OF that] row(2) by simp
  have "runs (\<lambda>t. untouched u t \<and> jr_status r = JS_RUNNING \<and> jr_target_name r = jr_target_name c \<and> jr_job_id r = jr_job_id c)
      (py_then (run r t) (start_rest depth r slot t)) (\<lambda>_ t. daemon_ok t \<and> evolves s t)" for r t
  proof (cases "jr_status r = JS_RUNNING \<and> jr_target_name r = jr_target_name c \<and> jr_job_id r = jr_job_id c")
    case True
    let ?f = "mark_active_for (jr_target_kind r) (jr_target_name r) (jr_job_id r)"
    let ?st = "?f (record_job r (dp_state u))" let ?v = "with_row r u\<lparr>dp_state := ?st\<rparr>"
    have fits: "row_fits r s" using new s(3) True by (auto simp: row_fits_def PENDING_STATES_def TERMINAL_JOB_STATES_def)
    have st: "table_ok (agents_of s) (append_row r (dp_logs s), ?st)"
      using started_ok [OF table row(1) new s(4), of r] True by (simp add: u)
    have v: "daemon_ok ?v \<and> evolves s ?v" using row_and_state_step [OF s(1) fits st] by (simp add: u)
    have started: "started (dp_logs ?v) (jr_job_id r)" using True by (auto simp: started_def newest_append PENDING_STATES_def)
    have "indexed (with_row r u)"
      by (rule table_ok_indexed [OF s(1), where st = ?st]) (use s(1) st in \<open>simp_all add: u daemon_ok_def disp_view services_ok_def\<close>)
    then have mid: "runs (untouched u) (run r t) (\<lambda>_. untouched ?v)"
      unfolding run_def using True row(2) started_append [OF fits]
      by (intro runs_then_quiet [OF idx] runs_row started_frame.framed_then running_snapshot_frame quiet_started frame same_state_ops)
        (simp_all add: u PENDING_STATES_def)
    have "daemon_ok t \<and> evolves s t \<and> started (dp_logs t) (jr_job_id r)" if "untouched ?v t" for t
      using settle [OF v that] started_stable(1) [OF started that] by blast
    then have "runs (untouched u) (run r t) (\<lambda>_ t. daemon_ok t \<and> evolves s t \<and> started (dp_logs t) (jr_job_id r))"
      by (intro plain.triple_conseq [OF mid]) auto
    from plain.triple_then [OF this runs_keeps [OF start_rest_keeps]]
    have "runs (untouched u) (py_then (run r t) (start_rest depth r slot t)) (\<lambda>_ t. daemon_ok t \<and> evolves s t)" .
    then show ?thesis by (rule plain.triple_conseq) auto
  qed (auto simp: triple_def)
  note rest = this
  show ?thesis
    unfolding body
    by (rule runs_bind_quiet [OF idx _ plain.triple_bind [OF plain.triple_lift rest]], intro frame) (use running in blast)
qed

text \<open>The jobs of a list wait in the queue of an idle agent\<close>
definition waiting :: "string \<Rightarrow> string list \<Rightarrow> ('w, 'z) daemon_scheme \<Rightarrow> bool" where
  "waiting a q s \<longleftrightarrow> a \<in> set (agents_of s) \<and> active_job_for TK_AGENT a (dp_state s) = None \<and>
     set q \<subseteq> set (queue_at (dp_state s) (TK_AGENT, a))"

lemma waiting_untouched: "waiting a q s \<Longrightarrow> untouched s t \<Longrightarrow> waiting a q t"
  using same_state_views [of "dp_state s" "dp_state t"] untouched_agents [of s t] by (simp add: waiting_def untouched_def)

lemma waiting_row:
  assumes "daemon_ok s" "waiting a q s" "j \<in> set q"
  shows "\<exists>r. newest (dp_logs s) a j = Some r \<and> jr_status r \<in> set PENDING_STATES"
proof -
  have "j \<in> set (pending_ids (jl_jobs (dp_logs s) a))"
    using assms by (auto simp: waiting_def daemon_ok_def table_ok_def state_of_log_iff)
  then have "j \<in> set (ids_with (\<lambda>st. st \<in> set PENDING_STATES) (jl_jobs (dp_logs s) a))" by (simp add: pending_ids_with)
  then have "j \<in> jr_job_id ` set (jl_jobs (dp_logs s) a)" using ids_with_subset by blast
  then obtain r where r: "newest (dp_logs s) a j = Some r" using newest_logged [of "dp_logs s" a j] by (auto simp: logged_job_def)
  then show ?thesis
    using ids_with_newest [of j "jl_jobs (dp_logs s) a" r "\<lambda>st. st \<in> set PENDING_STATES"] \<open>j \<in> set (ids_with _ _)\<close>
    by (auto simp: newest_def)
qed

text \<open>Such a job is found, also after its removal from the queue\<close>
lemma get_waiting_job:
  assumes "daemon_ok s" "waiting a q s" "j \<in> set q" "indexed t" "dp_logs t = dp_logs s" "agents_of t = agents_of s"
    and run: "get_job j t = (Inr found, t')"
  shows "\<exists>c. found = Some c \<and> t' = t \<and> current_row c s \<and> jr_status c \<in> set PENDING_STATES \<and> jr_target_name c = a \<and> jr_job_id c = j"
proof -
  obtain r where r: "newest (dp_logs s) a j = Some r" "jr_status r \<in> set PENDING_STATES" using waiting_row [OF assms(1-3)] by blast
  have ok: "logs_ok (agents_of s) (dp_logs s)" using assms(1) by (simp add: daemon_ok_def table_ok_def)
  have same: "b = a" if "newest (dp_logs s) b j = Some x" for b x using known_job [OF ok r(1), of b] that newest_logged by force
  have a: "a \<in> set (agents_of s)" using assms(2) by (simp add: waiting_def)
  note g = get_job_found [OF assms(4) run, unfolded assms(5,6)]
  have "t' = t \<and> found = Some r"
  proof (cases found)
    case None
    with g a r(1) show ?thesis by simp
  next
    case (Some c)
    with g obtain b where b: "newest (dp_logs s) b j = Some c" by auto
    from same [OF b] b r(1) Some g show ?thesis by simp
  qed
  then show ?thesis using r newest_target [OF ok r(1)] by (auto simp: current_row_def)
qed

definition ready :: "job_record \<Rightarrow> string \<Rightarrow> string list \<Rightarrow> ('w, 'z) daemon_scheme \<Rightarrow> bool" where
  "ready c a q s \<longleftrightarrow> waiting a q s \<and> current_row c s \<and> jr_status c \<in> set PENDING_STATES \<and> jr_target_name c = a"

lemma ready_untouched: "ready c a q s \<Longrightarrow> untouched s t \<Longrightarrow> ready c a q t"
  unfolding ready_def using waiting_untouched current_row_untouched by blast

lemma get_waiting_keeps:
  assumes "j \<in> set q"
  shows "keeps b (waiting a q) (get_job j) (\<lambda>found s. \<exists>c. found = Some c \<and> ready c a q s \<and> jr_job_id c = j)"
proof -
  have "keeps b (waiting a q) (get_job j) (\<lambda>_. waiting a q)" by (rule keeps_quiet, intro frame, rule waiting_untouched)
  moreover have "\<exists>c. found = Some c \<and> ready c a q t \<and> jr_job_id c = j"
    if "daemon_ok s" "waiting a q s" "get_job j s = (Inr found, t)" for found and s t :: "('w, 'z) daemon_scheme"
    using get_waiting_job [OF that(1,2) assms daemon_ok_indexed [OF that(1)] refl refl that(3)] that(2) by (auto simp: ready_def)
  ultimately show ?thesis unfolding triple_def by blast
qed

lemma take_and_start_keeps:
  "keeps False (ready c a q) (py_then (on_state (remove_queued_for k a (jr_job_id c))) (start_running_job depth c slot time)) (\<lambda>_ _. True)"
proof (rule tripleI)
  fix s y t assume s: "daemon_ok s" "ready c a q s"
    and run: "py_then (on_state (remove_queued_for k a (jr_job_id c))) (start_running_job depth c slot time) s = (Inr y, t)"
  let ?u = "s\<lparr>dp_state := snd (remove_queued_for TK_AGENT a (jr_job_id c) (dp_state s))\<rparr>"
  have run': "start_running_job depth c slot time ?u = (Inr y, t)"
    using run by (cases k) (simp add: py_then_def py_bind_def on_state_def case_prod_beta)
  have "runs (untouched ?u) (start_running_job depth c slot time) (\<lambda>_ t. daemon_ok t \<and> evolves s t)"
    using s by (intro start_running_runs) (simp_all add: ready_def waiting_def)
  from runsD [OF this untouched_refl run'] show "daemon_ok t \<and> evolves s t \<and> True" by simp
qed simp

lemma keeps_some: "keeps b P m Q \<Longrightarrow> keeps b P (py_bind m (\<lambda>x. py_return (Some x))) (\<lambda>r s. r = None \<longrightarrow> S s)"
  by (rule daemon.triple_bind, assumption, rule daemon.triple_return) simp

lemma keeps_when_ready:
  assumes "\<And>c. jr_job_id c = j \<Longrightarrow> keeps b (ready c a q) (n c) Q"
  shows "keeps b (\<lambda>s. \<exists>c. x = Some c \<and> ready c a q s \<and> jr_job_id c = j) (case x of None \<Rightarrow> m | Some c \<Rightarrow> n c) Q"
proof (cases "\<exists>c. x = Some c \<and> jr_job_id c = j")
  case True
  then obtain c where c: "x = Some c" "jr_job_id c = j" by blast
  show ?thesis unfolding c(1) option.case by (rule daemon.triple_conseq [OF assms [OF c(2)]]) simp_all
next
  case False
  then show ?thesis unfolding triple_def by blast
qed

lemma claim_delivery_keeps:
  fixes slot :: queued_slot
  shows "keeps False (waiting (qs_target_name slot) q :: ('w, 'z) daemon_scheme \<Rightarrow> bool) (claim_reply_delivery depth slot q cs)
     (\<lambda>r s. r = None \<longrightarrow> waiting (qs_target_name slot) q s)"
proof (induction cs)
  case Nil
  show ?case by (simp only: claim_reply_delivery.simps, rule daemon.triple_return) simp
next
  case (Cons j cs)
  let ?a = "qs_target_name slot"
  have start: "keeps False (ready c ?a q :: ('w, 'z) daemon_scheme \<Rightarrow> bool) (py_then (on_state (remove_queued_for (qs_target_kind slot) ?a (jr_job_id c)))
      (py_bind (start_running_job depth c slot time) (\<lambda>job. py_return (Some job)))) (\<lambda>r s. r = None \<longrightarrow> waiting ?a q s)" for c time
    using keeps_some [OF take_and_start_keeps [of c ?a q "qs_target_kind slot" depth slot time]] unfolding py_then_def py_bind_assoc .
  have again: "keeps False (ready c ?a q :: ('w, 'z) daemon_scheme \<Rightarrow> bool) (claim_reply_delivery depth slot q cs) (\<lambda>r s. r = None \<longrightarrow> waiting ?a q s)" for c
    by (rule daemon.triple_conseq [OF Cons.IH]) (simp_all add: ready_def)
  show ?case
    unfolding claim_reply_delivery.simps
    apply (rule daemon.triple_if, rule Cons.IH)
    apply (rule daemon.triple_bind [OF get_waiting_keeps], simp)
    apply (rule keeps_when_ready)
    apply (rule keeps_bind_quiet, intro frame)
     apply (rule keeps_bind_quiet, intro frame)
      apply (rule daemon.triple_if, rule again)
      apply (hypsubst, rule start)
     apply (erule (1) ready_untouched)+
    done
qed

lemma claim_request_run:
  "\<exists>r. claim_request_job_id slot q cs s = (Inr r, case r of None \<Rightarrow> s
     | Some j \<Rightarrow> s\<lparr>dp_state := snd (remove_queued_for TK_AGENT (qs_target_name slot) j (dp_state s))\<rparr>) \<and> (case r of None \<Rightarrow> True | Some j \<Rightarrow> j \<in> set q)"
proof (induction cs)
  case Nil
  show ?case by (rule exI [of _ None]) simp
next
  case (Cons j cs)
  show ?case
  proof (cases "j \<in> set q")
    case True
    have kind: "qs_target_kind slot = TK_AGENT" by simp
    from True show ?thesis
      by (intro exI [of _ "Some j"]) (simp add: kind py_then_def py_bind_def on_state_def case_prod_beta)
  next
    case False
    then have "claim_request_job_id slot q (j # cs) = claim_request_job_id slot q cs" by simp
    with Cons.IH show ?thesis by metis
  qed
qed

lemma claim_request_keeps:
  "keeps False (waiting (qs_target_name slot) q) (py_bind (claim_request_job_id slot q cs) (\<lambda>claimed. case claimed of
       None \<Rightarrow> py_return None
     | Some j \<Rightarrow> py_bind (get_job j) (\<lambda>found. case found of
           None \<Rightarrow> py_return None
         | Some c \<Rightarrow> py_bind (start_running_job depth c slot None) (\<lambda>job. py_return (Some job))))) (\<lambda>_ _. True)"
  (is "keeps _ _ ?m _")
proof (rule tripleI)
  fix s y t assume s: "daemon_ok s" "waiting (qs_target_name slot) q s" and run: "?m s = (Inr y, t)"
  obtain r where r: "claim_request_job_id slot q cs s = (Inr r, case r of None \<Rightarrow> s
     | Some j \<Rightarrow> s\<lparr>dp_state := snd (remove_queued_for TK_AGENT (qs_target_name slot) j (dp_state s))\<rparr>)"
    "case r of None \<Rightarrow> True | Some j \<Rightarrow> j \<in> set q"
    using claim_request_run by blast
  show "daemon_ok t \<and> evolves s t \<and> True"
  proof (cases r)
    case None
    with r run s daemon.refl show ?thesis by (simp add: py_bind_def)
  next
    case (Some j)
    let ?u = "s\<lparr>dp_state := snd (remove_queued_for TK_AGENT (qs_target_name slot) j (dp_state s))\<rparr>"
    have j: "j \<in> set q" using r(2) Some by simp
    have idx: "indexed ?u" using daemon_ok_indexed [OF s(1)] by (simp add: indexed_with_state disp_view)
    have "py_bind (get_job j) (\<lambda>found. case found of None \<Rightarrow> py_return None
        | Some c \<Rightarrow> py_bind (start_running_job depth c slot None) (\<lambda>job. py_return (Some job))) ?u = (Inr y, t)"
      using run Some r(1) by (auto simp: py_bind_Inr_iff)
    then obtain found t' where g: "get_job j ?u = (Inr found, t')" "(case found of None \<Rightarrow> py_return None
        | Some c \<Rightarrow> py_bind (start_running_job depth c slot None) (\<lambda>job. py_return (Some job))) t' = (Inr y, t)"
      unfolding py_bind_Inr_iff by blast
    from get_waiting_job [OF s j idx _ _ g(1)] obtain c where c: "found = Some c" "t' = ?u" "current_row c s"
        "jr_status c \<in> set PENDING_STATES" "jr_target_name c = qs_target_name slot" "jr_job_id c = j"
      by auto
    with g(2) obtain z where z: "start_running_job depth c slot None ?u = (Inr z, t)" by (auto simp: py_bind_Inr_iff)
    have "runs (untouched ?u) (start_running_job depth c slot None) (\<lambda>_ t. daemon_ok t \<and> evolves s t)"
      using s c by (intro start_running_runs) (simp_all add: waiting_def)
    from runsD [OF this untouched_refl z] show ?thesis by simp
  qed
qed simp

lemma queued_items_waiting:
  "keeps b (waiting a []) (on_state (queued_items_for k a)) (\<lambda>q. waiting a q)"
proof -
  have "keeps b (waiting a []) (on_state (queued_items_for k a)) (\<lambda>_. waiting a [])"
    by (rule keeps_quiet, intro frame, rule waiting_untouched)
  moreover have "waiting a q t" if "on_state (queued_items_for k a) s = (Inr q, t)" "waiting a [] t"
    for q and s t :: "('w, 'z) daemon_scheme"
    using that by (cases k) (auto simp: on_state_def queued_items_for_def Let_def waiting_def)
  ultimately show ?thesis unfolding triple_def by blast
qed

lemma mailbox_job_keeps: "keeps False (waiting (qs_target_name slot) []) (start_agent_mailbox_job depth slot) (\<lambda>_ _. True)"
  unfolding start_agent_mailbox_job_def
  apply (rule daemon.triple_bind [OF queued_items_waiting])
  apply (rule keeps_bind_quiet, intro frame)
   apply (rule daemon.triple_bind [OF claim_delivery_keeps])
   apply (rule daemon.triple_option)
    apply (rule keeps_bind_quiet [where P = "waiting (qs_target_name slot) q" for q, THEN daemon.triple_conseq], intro frame)
        apply (rule claim_request_keeps)
       apply (erule (1) waiting_untouched)
      apply (simp_all)
   apply (rule keeps_quiet_rest, intro frame)
  apply (erule (1) waiting_untouched)
  done

lemma runs_true: "runs P m (\<lambda>_ _. True)"
  by (simp add: triple_def)

lemmas runs_any = plain.triple_bind [OF runs_true]

text \<open>A slot that is looked at again, or made, is one of the same agent\<close>
definition slot_of :: "string \<Rightarrow> queued_slot option \<Rightarrow> bool" where
  "slot_of a x \<longleftrightarrow> (\<forall>slot. x = Some slot \<longrightarrow> qs_target_name slot = a)"

lemma slot_of_simps [simp]: "slot_of a None" "slot_of a (Some slot) \<longleftrightarrow> qs_target_name slot = a"
  by (simp_all add: slot_of_def)

lemma runs_action: "runs P k Q \<Longrightarrow> runs P b Q \<Longrightarrow> runs P d Q \<Longrightarrow> runs P f Q \<Longrightarrow>
    runs P (case x of DA_BLOCKED \<Rightarrow> b | DA_KEEP \<Rightarrow> k | DA_DROP \<Rightarrow> d | DA_REFRESH \<Rightarrow> f) Q"
  by (cases x) simp_all

lemma slot_target:
  "runs P (refresh_slot_runtime_for_start slot) (\<lambda>x _. slot_of (qs_target_name slot) x)"
  "runs P (runnable_slot a) (\<lambda>x _. slot_of a x)"
  unfolding refresh_slot_runtime_for_start_def runnable_slot_def Let_def
  by (intro runs_any plain.triple_if plain.triple_option runs_action plain.triple_return;
      simp add: refreshed_slot_def split: option.split)+

lemma next_job_keeps: "keeps False (waiting (qs_target_name slot) []) (start_next_queued_job depth slot) (\<lambda>_ _. True)"
proof -
  have "keeps False (waiting (qs_target_name slot) []) (refresh_slot_runtime_for_start slot)
      (\<lambda>probed s. \<forall>slot'. probed = Some slot' \<longrightarrow> waiting (qs_target_name slot') [] s)"
    (is "keeps _ ?P ?m _")
  proof -
    have "keeps False ?P ?m (\<lambda>_. ?P)" by (rule keeps_quiet, intro frame, rule waiting_untouched)
    moreover have "slot_of (qs_target_name slot) x" if "?m s = (Inr x, t)" for x s t using runsD [OF slot_target(1) _ that, of "\<lambda>_. True"] by simp
    ultimately show ?thesis unfolding triple_def slot_of_def by metis
  qed
  then show ?thesis
    unfolding start_next_queued_job_def
    apply (rule daemon.triple_bind)
    apply (rule daemon.triple_option, rule keeps_quiet_rest, intro frame)
    apply (rule daemon.triple_conseq [OF mailbox_job_keeps])
      apply simp_all
    done
qed

lemma runnable_slot_keeps:
  "keeps b (\<lambda>s. a \<in> set (agents_of s)) (runnable_slot a) (\<lambda>slot s. \<forall>x. slot = Some x \<longrightarrow> waiting (qs_target_name x) [] s)"
proof -
  have "keeps b (\<lambda>s. a \<in> set (agents_of s)) (runnable_slot a) (\<lambda>_ s. a \<in> set (agents_of s))"
    by (rule keeps_quiet, intro frame) (simp add: untouched_agents)
  moreover have "qs_target_name x = a \<and> active_job_for TK_AGENT a (dp_state t) = None"
    if "daemon_ok s" "runnable_slot a s = (Inr (Some x), t)" for x and s t :: "('w, 'z) daemon_scheme"
  proof -
    have "untouched s t" using framedD [OF slot_frames(3) daemon_ok_indexed [OF that(1)] that(2)] .
    moreover have "active_job_for TK_AGENT a (dp_state s) = None" using that(2) by (rule contrapos_pp) (simp add: runnable_slot_def py_bind_def)
    moreover have "qs_target_name x = a" using runsD [OF slot_target(2) _ that(2), of "\<lambda>_. True"] by simp
    ultimately show ?thesis using same_state_views(1) [of "dp_state s" "dp_state t"] by (simp add: untouched_def)
  qed
  ultimately show ?thesis unfolding triple_def waiting_def list.set by blast
qed

lemma tick_jobs_keeps: "keeps False (\<lambda>_. True) (tick_jobs depth) (\<lambda>_ _. True)"
proof -
  have agents: "keeps False (\<lambda>s :: ('w, 'z) daemon_scheme. set as \<subseteq> set (agents_of s)) (tick_agents depth as) (\<lambda>_ _. True)" for as
  proof (induction as)
    case Nil
    show ?case by (simp only: tick_agents.simps, rule keeps_quiet_rest, intro frame)
  next
    case (Cons a as)
    let ?rest = "\<lambda>s :: ('w, 'z) daemon_scheme. set as \<subseteq> set (agents_of s)"
    have stable: "?rest s \<Longrightarrow> evolves s t \<Longrightarrow> ?rest t" for s t by (simp add: evolves_def)
    have slot: "keeps False (\<lambda>s. set (a # as) \<subseteq> set (agents_of s)) (runnable_slot a)
        (\<lambda>slot s. (\<forall>x. slot = Some x \<longrightarrow> waiting (qs_target_name x) [] s) \<and> ?rest s)"
      by (rule daemon.triple_conseq [OF daemon.triple_keep [where S = ?rest, OF runnable_slot_keeps stable]]) auto
    have start: "keeps False (\<lambda>s. (\<forall>x. slot = Some x \<longrightarrow> waiting (qs_target_name x) [] s) \<and> ?rest s)
        (case slot of None \<Rightarrow> py_return None | Some s \<Rightarrow> start_next_queued_job depth s) (\<lambda>_. ?rest)" for slot
    proof (cases slot)
      case None
      then show ?thesis by (simp only: option.case, intro daemon.triple_return) simp
    next
      case (Some x)
      show ?thesis
        unfolding Some option.case
        by (rule daemon.triple_conseq [OF daemon.triple_keep [where S = ?rest, OF next_job_keeps [of x] stable]]) auto
    qed
    show ?case
      unfolding tick_agents.simps
      by (rule daemon.triple_bind [OF slot daemon.triple_bind [OF start keeps_bind_rest [OF Cons.IH]]]) (intro frame)
  qed
  show ?thesis
    unfolding tick_jobs_def
    by (rule daemon.triple_bind [OF _ agents], rule tripleI) (auto simp: config_agents_def agents_of_def daemon.refl)
qed

lemma dispatcher_tick_keeps: "keeps False (\<lambda>_. True) (dispatcher_tick depth mt now) (\<lambda>_ _. True)"
  unfolding dispatcher_tick_def
  by (rule keeps_then_quiet, intro frame, rule daemon.triple_then [OF daemon.triple_conseq [OF repair_edges_keep]
      daemon.triple_then [OF prepare_deliveries_keeps [OF complete_job_keeps] tick_jobs_keeps]]) simp_all

section \<open>Polling\<close>

definition all_started :: "string set \<Rightarrow> ('w, 'z) daemon_scheme \<Rightarrow> bool" where
  "all_started js s \<longleftrightarrow> js \<subseteq> Collect (started (dp_logs s))"

lemma all_started_stable: "all_started js s \<Longrightarrow> untouched s t \<Longrightarrow> all_started js t" "all_started js s \<Longrightarrow> evolves s t \<Longrightarrow> all_started js t"
  by (auto simp: all_started_def untouched_started evolves_def)

lemma handled_started: "daemon_ok s \<Longrightarrow> js \<subseteq> handled s \<Longrightarrow> all_started js s"
  by (auto simp: daemon_ok_def all_started_def)

lemma drain_keeps: "keeps b P drain_pending_replays (\<lambda>us. all_started (eu_job_id ` set us))"
proof -
  have "untouched s t \<and> eu_job_id ` set us \<subseteq> handled s" if "drain_pending_replays s = (Inr us, t)"
    for us and s t :: "('w, 'z) daemon_scheme"
    using that by (auto simp: drain_pending_replays_def py_bind_def py_then_def untouched_def same_rows_def same_state_def same_agents_def
        handled_def) force+
  moreover have "\<exists>us t. drain_pending_replays s = (Inr us, t)" for s :: "('w, 'z) daemon_scheme"
    by (simp add: drain_pending_replays_def py_bind_def py_then_def)
  ultimately show ?thesis
    unfolding triple_def using untouched_ok handled_started all_started_stable(1) by (metis Inr_not_Inl prod.inject)
qed

lemma poll_ids: "runs P (process_active_job j sb now) (\<lambda>us _. \<forall>u \<in> set us. eu_job_id u = j)"
  unfolding process_active_job_def py_then_def
  by (intro runs_any plain.triple_if plain.triple_option plain.triple_return; simp)

lemma keeps_result: "keeps b P m Q \<Longrightarrow> runs (\<lambda>_. True) m (\<lambda>y _. R y) \<Longrightarrow> keeps b P m (\<lambda>y s. Q y s \<and> R y)"
  unfolding triple_def by blast

lemma process_active_keeps:
  "keeps b (all_started {j}) (process_active_job j sb now) (\<lambda>us. all_started (eu_job_id ` set us))"
proof -
  have "keeps b (\<lambda>s. started (dp_logs s) j) (process_active_job j sb now) (\<lambda>_ s. started (dp_logs s) j)"
    by (rule keeps_started, rule execution_started_frames)
  from keeps_result [OF this poll_ids] show ?thesis by (rule daemon.triple_conseq) (auto simp: all_started_def)
qed

lemma process_jobs_keeps:
  "keeps b (all_started (fst ` set js) :: ('w, 'z) daemon_scheme \<Rightarrow> bool) (process_active_jobs js rs now) (\<lambda>us. all_started (eu_job_id ` set us))"
proof (induction js)
  case Nil
  show ?case by (simp only: process_active_jobs.simps, rule daemon.triple_return) (simp add: all_started_def)
next
  case (Cons x js)
  obtain j sb where x: "x = (j, sb)" by (cases x)
  have one: "keeps b (all_started {j} :: ('w, 'z) daemon_scheme \<Rightarrow> bool) (if j \<in> set rs then py_return [] else process_active_job j sb now) (\<lambda>us. all_started (eu_job_id ` set us))"
    by (rule daemon.triple_if [OF daemon.triple_return process_active_keeps]) (simp add: all_started_def)
  have first: "keeps b (all_started (fst ` set (x # js)) :: ('w, 'z) daemon_scheme \<Rightarrow> bool) (if j \<in> set rs then py_return [] else process_active_job j sb now)
      (\<lambda>us s. all_started (eu_job_id ` set us) s \<and> all_started (fst ` set js) s)"
    by (rule daemon.triple_conseq [OF daemon.triple_keep [where S = "all_started (fst ` set js)", OF one all_started_stable(2)]])
      (auto simp: all_started_def x)
  have rest: "keeps b (\<lambda>s :: ('w, 'z) daemon_scheme. all_started (eu_job_id ` set us) s \<and> all_started (fst ` set js) s) (process_active_jobs js rs now)
      (\<lambda>vs s. all_started (eu_job_id ` set vs) s \<and> all_started (eu_job_id ` set us) s)" for us
    by (rule daemon.triple_conseq [OF daemon.triple_keep [where S = "all_started (eu_job_id ` set us)", OF Cons.IH all_started_stable(2)]]) auto
  show ?case
    unfolding x process_active_jobs.simps
    by (rule daemon.triple_bind [OF first [unfolded x] daemon.triple_bind [OF rest daemon.triple_return]]) (auto simp: all_started_def)
qed

lemma poll_updates_keeps: "keeps b (\<lambda>_. True) poll_updates (\<lambda>us. all_started (eu_job_id ` set us))"
proof -
  have active: "keeps b (all_started js) (py_gets ex_active) (\<lambda>ac s. all_started (fst ` set ac) s \<and> all_started js s)" for js
    by (rule daemon.triple_gets) (simp add: handled_started handled_def le_supI1)
  have rest: "keeps b (\<lambda>s. all_started (fst ` set ac) s \<and> all_started js s) (process_active_jobs ac rs now)
      (\<lambda>vs s. all_started (eu_job_id ` set vs) s \<and> all_started js s)" for ac js rs now
    by (rule daemon.triple_keep [where S = "all_started js", OF process_jobs_keeps all_started_stable(2)])
  show ?thesis
    unfolding poll_updates_def
    by (rule keeps_bind_quiet [OF _ daemon.triple_bind [OF drain_keeps daemon.triple_bind [OF active daemon.triple_bind [OF rest daemon.triple_return]]]])
      (intro frame, auto simp: all_started_def)
qed

lemma keeps_lookup:
  assumes "\<And>s t. P s \<Longrightarrow> untouched s t \<Longrightarrow> P t" "keeps b P m Q"
    "\<And>c. jr_job_id c = j \<Longrightarrow> keeps b (\<lambda>s. P s \<and> current_row c s) (n c) Q"
  shows "keeps b P (py_bind (get_job j) (\<lambda>x. case x of None \<Rightarrow> m | Some c \<Rightarrow> n c)) Q"
proof (rule daemon.triple_bind [OF get_job_keeps [OF assms(1)]], assumption, assumption)
  fix x
  show "keeps b (\<lambda>s. P s \<and> (\<forall>r. x = Some r \<longrightarrow> current_row r s \<and> jr_job_id r = j)) (case x of None \<Rightarrow> m | Some c \<Rightarrow> n c) Q"
  proof (cases x)
    case None
    show ?thesis unfolding None option.case by (rule daemon.triple_conseq [OF assms(2)]) simp_all
  next
    case (Some c)
    show ?thesis
    proof (cases "jr_job_id c = j")
      case True
      show ?thesis unfolding Some option.case by (rule daemon.triple_conseq [OF assms(3) [OF True]]) simp_all
    next
      case False
      with Some show ?thesis by (simp add: triple_def)
    qed
  qed
qed

lemma apply_update_keeps: "keeps False (\<lambda>s. started (dp_logs s) (eu_job_id u)) (apply_update depth u) (\<lambda>_ _. True)"
proof -
  have "keeps False (\<lambda>s. started (dp_logs s) (eu_job_id u)) (if \<not> is_open_job (Some c) then py_then (execution_finish (eu_job_id u)) (py_return [])
         else py_bind (ingest_update_items c u) (\<lambda>tracked. case resolve_update_decision u tracked of
             Some decision \<Rightarrow> py_bind (complete_job depth (eu_job_id u) decision) (\<lambda>job. py_return [job])
           | None \<Rightarrow> py_then (acknowledge (eu_job_id u)) (py_return []))) (\<lambda>_ _. True)" if c: "jr_job_id c = eu_job_id u" for c
    unfolding c [symmetric]
    apply (rule daemon.triple_if, rule keeps_quiet_rest, intro frame)
    apply (rule daemon.triple_bind [OF keeps_started [OF ingest_update_frame]])
    apply (rule daemon.triple_option, rule keeps_quiet_rest, intro frame)
    apply (rule keeps_bind_rest [OF complete_job_keeps [rule_format]], intro frame)
    done
  note known = this
  show ?thesis
    unfolding apply_update_def
    apply (rule keeps_lookup)
      apply (erule (1) started_stable(1))
     apply (rule keeps_quiet_rest, intro frame)
    apply (rule daemon.triple_conseq [OF known], assumption)
      apply simp_all
    done
qed

lemma keeps_all_started:
  assumes "keeps b P m Q"
  shows "keeps b (\<lambda>s. P s \<and> all_started js s) m (\<lambda>_. all_started js)"
  by (rule daemon.triple_conseq [OF daemon.triple_keep [where S = "all_started js", OF assms all_started_stable(2)]]) simp_all

lemma apply_updates_keeps: "keeps False (all_started (eu_job_id ` set us)) (apply_updates depth us) (\<lambda>_ _. True)"
proof (induction us)
  case Nil
  show ?case by (simp only: apply_updates.simps, rule keeps_quiet_rest, intro frame)
next
  case (Cons u us)
  show ?case
    unfolding apply_updates.simps
    by (rule daemon.triple_bind [OF daemon.triple_conseq [OF keeps_all_started [OF apply_update_keeps]] keeps_bind_rest [OF Cons.IH]])
      (auto simp: all_started_def intro!: frame)
qed

lemma apply_views_keeps: "keeps False (all_started (tv_job_id ` set vs) :: ('w, 'z) daemon_scheme \<Rightarrow> bool) (apply_views depth vs js) (\<lambda>_ _. True)"
proof (induction vs arbitrary: js)
  case Nil
  show ?case by (simp only: apply_views.simps, rule keeps_quiet_rest, intro frame)
next
  case (Cons v vs)
  let ?P = "all_started (tv_job_id ` set (v # vs)) :: ('w, 'z) daemon_scheme \<Rightarrow> bool"
  have rest: "keeps False ?P (apply_views depth vs js) (\<lambda>_ _. True)" for js
    by (rule daemon.triple_conseq [OF Cons.IH]) (auto simp: all_started_def)
  have complete: "keeps False ?P (complete_job depth (tv_job_id v) d) (\<lambda>_. ?P)" for d
    by (rule daemon.triple_conseq [OF keeps_all_started [where js = "tv_job_id ` set (v # vs)", OF complete_job_keeps [rule_format]]])
      (auto simp: all_started_def)
  have current: "keeps False (\<lambda>s. ?P s \<and> current_row c s) m Q" if "keeps False ?P m Q" for c Q and m :: "('w, 'z, job_record list) dmn"
    by (rule daemon.triple_conseq [OF that]) simp_all
  show ?case
    unfolding apply_views.simps
    apply (rule keeps_lookup)
      apply (erule (1) all_started_stable(1))
     apply (rule rest)
    apply (rule current)
    apply (rule daemon.triple_if, rule rest)
    apply (rule keeps_then_quiet, intro frame)
     apply (rule daemon.triple_if)
      apply (rule daemon.triple_bind [OF complete keeps_bind_rest [OF rest]], intro frame)
     apply (rule rest)
    apply (erule (1) all_started_stable(1))
    done
qed

lemma view_id: "view_of j t = Inr v \<Longrightarrow> tv_job_id v = j"
  by (auto simp: view_of_def Let_def rbind_Inr_iff)

lemma tick_ids: "runs P (tracker_tick j now) (\<lambda>v _. tv_job_id v = j)"
proof -
  have "runs P (tracker_current j) (\<lambda>v _. \<forall>x. v = Some x \<longrightarrow> tv_job_id x = j)" for P
    unfolding tracker_current_def
    by (intro runs_any plain.triple_option plain.triple_return plain.triple_bind [OF plain.triple_lift [where Q = "\<lambda>v _. tv_job_id v = j"]])
      (auto dest: view_id)
  then have "runs P (require_current j) (\<lambda>v _. tv_job_id v = j)" for P
    unfolding require_current_def by (rule plain.triple_bind) (auto intro!: plain.triple_option plain.triple_return plain.triple_raise)
  then show ?thesis unfolding tracker_tick_def py_then_def by (intro runs_any)
qed

lemma tick_each_ids: "runs P (tick_each js now) (\<lambda>vs _. tv_job_id ` set vs \<subseteq> set js)"
proof (induction js arbitrary: P)
  case Nil
  show ?case by (simp only: tick_each.simps, rule plain.triple_return) simp
next
  case (Cons j js)
  have rest: "runs (\<lambda>_. tv_job_id v = j) (tick_each js now) (\<lambda>vs _. tv_job_id ` set vs \<subseteq> set js \<and> tv_job_id v = j)" for v
    using Cons.IH [of "\<lambda>_. tv_job_id v = j"] unfolding triple_def by blast
  show ?case
    unfolding tick_each.simps
    by (rule plain.triple_bind [OF tick_ids plain.triple_bind [OF rest plain.triple_return]]) auto
qed

lemma tick_views_keeps:
  "keeps b (\<lambda>s. cd_tracker s = Some t) (on_tracker (tracker_tick_all now) t) (\<lambda>vs. all_started (tv_job_id ` set vs))"
proof -
  have ids: "tv_job_id ` set vs \<subseteq> tracked_ids t" if "tracker_tick_all now t = (Inr vs, t')" for vs t'
    using runsD [OF tick_each_ids TrueI, of "map fst (ts_trackers t)" now t vs t'] that
    by (simp add: tracker_tick_all_def py_bind_def tracked_ids_def)
  have "daemon_ok s' \<and> evolves s s' \<and> (\<forall>vs. x = Inr vs \<longrightarrow> all_started (tv_job_id ` set vs) s')"
    if s: "daemon_ok s" "cd_tracker s = Some t" "on_tracker (tracker_tick_all now) t s = (x, s')" for x and s s' :: "('w, 'z) daemon_scheme"
  proof -
    have "untouched s s'" using on_tracker_untouched [OF s(2) tick_all_frame] s(3) by (metis snd_conv)
    moreover have "all_started (tv_job_id ` set vs) s" if x: "x = Inr vs" for vs
    proof (rule handled_started [OF s(1)])
      obtain t' where "tracker_tick_all now t = (Inr vs, t')"
        using s(3) x by (cases "tracker_tick_all now t") (simp add: on_tracker_def)
      then have "tv_job_id ` set vs \<subseteq> tracked_ids t" by (rule ids)
      then show "tv_job_id ` set vs \<subseteq> handled s" using s(2) by (simp add: handled_def le_supI2)
    qed
    ultimately show ?thesis using untouched_ok [OF s(1)] all_started_stable(1) by blast
  qed
  then show ?thesis unfolding triple_def by blast
qed

lemma tick_tracker_keeps: "keeps False (\<lambda>_. True) (tick_tracker depth js) (\<lambda>_ _. True)"
proof -
  have clock: "keeps False (\<lambda>s. cd_tracker s = Some t) read_clock (\<lambda>_ s. cd_tracker s = Some t)" for t
  proof -
    have "keeps False (\<lambda>s. cd_tracker s = Some t) read_clock (\<lambda>_ _. True)" by (rule keeps_quiet_rest, intro frame)
    then show ?thesis unfolding triple_def by (auto simp: read_clock_def)
  qed
  have "keeps False (\<lambda>s. x = cd_tracker s) (case x of None \<Rightarrow> py_return [] | Some t \<Rightarrow> py_bind read_clock (\<lambda>now.
         py_bind (on_tracker (tracker_tick_all now) t) (\<lambda>views. apply_views depth views js))) (\<lambda>_ _. True)" for x
  proof (cases x)
    case None
    show ?thesis unfolding None option.case by (rule keeps_quiet_rest, intro frame)
  next
    case (Some t)
    show ?thesis
      unfolding Some option.case
      by (rule daemon.triple_conseq [OF daemon.triple_bind [OF clock daemon.triple_bind [OF tick_views_keeps apply_views_keeps]]]) simp_all
  qed
  then show ?thesis unfolding tick_tracker_def by (rule daemon.triple_bind [OF daemon.triple_gets, rotated]) simp
qed

lemma poll_keeps: "keeps False (\<lambda>_. True) (poll_completion_updates depth) (\<lambda>_ _. True)"
  unfolding poll_completion_updates_def
  apply (rule keeps_bind_quiet, intro frame)
   apply (rule daemon.triple_if, rule keeps_quiet_rest, intro frame)
   apply (rule daemon.triple_bind [OF poll_updates_keeps daemon.triple_bind [OF apply_updates_keeps keeps_bind_rest [OF tick_tracker_keeps]]])
   apply (intro frame)
  apply simp
  done

end
