(* ===== verification/Heartbeat.thy ===== *)
theory Heartbeat
  imports Codecs Timestamps
begin

text \<open>
  The heartbeat engine (\<open>lib/heartbeat\<close>): the policy, the state kept per subject, its codec and
  store, and \<open>evaluate_heartbeat\<close>, which decides when a silent subject is to be noticed. A
  \<open>replace\<close> of the frozen state runs the checks of its constructor again, so every helper that
  builds a state returns a result.
\<close>

section \<open>Records\<close>

datatype heartbeat_action = HB_IDLE | HB_RESET | HB_ENTER | HB_REPEAT

fun heartbeat_action_value :: "heartbeat_action \<Rightarrow> string" where
  "heartbeat_action_value HB_IDLE = ''idle''"
| "heartbeat_action_value HB_RESET = ''reset''"
| "heartbeat_action_value HB_ENTER = ''enter''"
| "heartbeat_action_value HB_REPEAT = ''repeat''"

record heartbeat_policy =
  hp_silence_start_after_s :: rat
  hp_repeat_interval_s :: rat
  hp_max_notice_count :: "int option"

definition HeartbeatPolicy :: "heartbeat_policy \<Rightarrow> heartbeat_policy result" where
  "HeartbeatPolicy p =
     rbind (rcheck (hp_silence_start_after_s p < 0) (ValueError ''silence_start_after_s cannot be negative'')) (\<lambda>_.
     rbind (rcheck (hp_repeat_interval_s p \<le> 0) (ValueError ''repeat_interval_s must be positive'')) (\<lambda>_.
     rbind (rcheck (case hp_max_notice_count p of None \<Rightarrow> False | Some n \<Rightarrow> n \<le> 0)
              (ValueError ''max_notice_count must be positive when set'')) (\<lambda>_. Inr p)))"

record heartbeat_state =
  hs_subject_kind :: string
  hs_subject_id :: string
  hs_owner :: string
  hs_last_progress_at :: string
  hs_last_notice_at :: "string option"
  hs_heartbeat_started_at :: "string option"
  hs_notice_count :: int
  hs_updated_at :: string

definition HeartbeatState :: "heartbeat_state \<Rightarrow> heartbeat_state result" where
  "HeartbeatState s =
     rbind (rcheck (py_strip (hs_subject_kind s) = []) (ValueError ''subject_kind cannot be empty'')) (\<lambda>_.
     rbind (rcheck (py_strip (hs_subject_id s) = []) (ValueError ''subject_id cannot be empty'')) (\<lambda>_.
     rbind (rcheck (py_strip (hs_owner s) = []) (ValueError ''owner cannot be empty'')) (\<lambda>_.
     rbind (rcheck (py_strip (hs_last_progress_at s) = []) (ValueError ''last_progress_at cannot be empty'')) (\<lambda>_.
     rbind (rcheck (hs_notice_count s < 0) (ValueError ''notice_count cannot be negative'')) (\<lambda>_.
     rbind (rcheck (py_strip (hs_updated_at s) = []) (ValueError ''updated_at cannot be empty'')) (\<lambda>_.
     Inr s))))))"

definition heartbeat_to_record :: "heartbeat_state \<Rightarrow> payload" where
  "heartbeat_to_record s =
     [(''schema_version'', JInt 1), (''record_type'', JStr ''heartbeat_state''),
      (''subject_kind'', JStr (hs_subject_kind s)), (''subject_id'', JStr (hs_subject_id s)),
      (''owner'', JStr (hs_owner s)), (''last_progress_at'', JStr (hs_last_progress_at s)),
      (''last_notice_at'', jopt (hs_last_notice_at s)),
      (''heartbeat_started_at'', jopt (hs_heartbeat_started_at s)),
      (''notice_count'', JInt (hs_notice_count s)), (''updated_at'', JStr (hs_updated_at s))]"

text \<open>\<open>str(record.get(k) or '').strip() or None\<close>\<close>
definition stripped_or_none :: "json \<Rightarrow> string option" where
  "stripped_or_none v = str_or_none (py_strip (str_or v []))"

definition heartbeat_from_record :: "payload \<Rightarrow> heartbeat_state result" where
  "heartbeat_from_record p =
     rbind (validate_record 1 p ''heartbeat_state'') (\<lambda>_.
     rbind (jfield p ''subject_kind'') (\<lambda>subject_kind.
     rbind (jfield p ''subject_id'') (\<lambda>subject_id.
     rbind (jfield p ''owner'') (\<lambda>owner.
     rbind (jfield p ''last_progress_at'') (\<lambda>last_progress_at.
     rbind (py_int (jget_default p ''notice_count'' (JInt 0))) (\<lambda>notice_count.
     rbind (jfield p ''updated_at'') (\<lambda>updated_at.
     HeartbeatState \<lparr>hs_subject_kind = py_str subject_kind, hs_subject_id = py_str subject_id,
       hs_owner = py_str owner, hs_last_progress_at = py_str last_progress_at,
       hs_last_notice_at = stripped_or_none (jget p ''last_notice_at''),
       hs_heartbeat_started_at = stripped_or_none (jget p ''heartbeat_started_at''),
       hs_notice_count = notice_count, hs_updated_at = py_str updated_at\<rparr>)))))))"

record heartbeat_decision =
  hd_action :: heartbeat_action
  hd_subject_kind :: string
  hd_subject_id :: string
  hd_owner :: string
  hd_last_progress_at :: string
  hd_last_notice_at :: "string option"
  hd_silence_seconds :: rat
  hd_notice_count :: int

definition notice_due :: "heartbeat_decision \<Rightarrow> bool" where
  "notice_due d \<longleftrightarrow> hd_action d \<in> {HB_ENTER, HB_REPEAT}"

section \<open>The engine\<close>

definition progress_timestamp :: "string \<Rightarrow> string \<Rightarrow> string result" where
  "progress_timestamp observed_last_progress_at now =
     (let progress_at = (if py_strip observed_last_progress_at \<noteq> [] then py_strip observed_last_progress_at
                         else py_strip now) in
      rbind (rcheck (progress_at = []) (ValueError ''observed_last_progress_at cannot be empty''))
        (\<lambda>_. Inr progress_at))"

definition current_state :: "heartbeat_state option \<Rightarrow> string \<Rightarrow> string \<Rightarrow> string \<Rightarrow> string \<Rightarrow> string
    \<Rightarrow> heartbeat_state result" where
  "current_state state subject_kind subject_id owner progress_at now =
     (case state of Some s \<Rightarrow> Inr s
      | None \<Rightarrow> HeartbeatState \<lparr>hs_subject_kind = subject_kind, hs_subject_id = subject_id,
          hs_owner = owner, hs_last_progress_at = progress_at, hs_last_notice_at = None,
          hs_heartbeat_started_at = None, hs_notice_count = 0, hs_updated_at = now\<rparr>)"

definition state_with_subject :: "heartbeat_state \<Rightarrow> string \<Rightarrow> string \<Rightarrow> string \<Rightarrow> heartbeat_state result" where
  "state_with_subject current subject_kind subject_id owner =
     HeartbeatState (current\<lparr>hs_subject_kind := subject_kind, hs_subject_id := subject_id, hs_owner := owner\<rparr>)"

definition heartbeat_active :: "heartbeat_state \<Rightarrow> bool" where
  "heartbeat_active s \<longleftrightarrow> hs_notice_count s > 0 \<or> hs_last_notice_at s \<noteq> None"

definition reset_state :: "heartbeat_state \<Rightarrow> string \<Rightarrow> string \<Rightarrow> heartbeat_state result" where
  "reset_state base progress_at now =
     HeartbeatState (base\<lparr>hs_last_progress_at := progress_at, hs_last_notice_at := None,
       hs_heartbeat_started_at := None, hs_notice_count := 0, hs_updated_at := now\<rparr>)"

definition enter_state :: "heartbeat_state \<Rightarrow> string \<Rightarrow> heartbeat_state result" where
  "enter_state base now =
     HeartbeatState (base\<lparr>hs_last_notice_at := Some now,
       hs_heartbeat_started_at := Some (opt_str_or (hs_heartbeat_started_at base) now),
       hs_notice_count := 1, hs_updated_at := now\<rparr>)"

definition repeat_state :: "heartbeat_state \<Rightarrow> string \<Rightarrow> heartbeat_state result" where
  "repeat_state base now =
     HeartbeatState (base\<lparr>hs_last_notice_at := Some now,
       hs_heartbeat_started_at := Some (opt_str_or (hs_heartbeat_started_at base) now),
       hs_notice_count := hs_notice_count base + 1, hs_updated_at := now\<rparr>)"

definition silence_seconds :: "string \<Rightarrow> string \<Rightarrow> rat" where
  "silence_seconds progress_at now =
     (case seconds_between progress_at now of Inl _ \<Rightarrow> 0 | Inr x \<Rightarrow> max 0 x)"

definition should_enter_heartbeat :: "heartbeat_state \<Rightarrow> bool" where
  "should_enter_heartbeat s \<longleftrightarrow> hs_last_notice_at s = None \<or> hs_notice_count s \<le> 0"

definition notice_limit_reached :: "heartbeat_state \<Rightarrow> heartbeat_policy \<Rightarrow> bool" where
  "notice_limit_reached s policy = (case hp_max_notice_count policy of
     None \<Rightarrow> False | Some n \<Rightarrow> hs_notice_count s \<ge> n)"

definition since_last_notice_seconds :: "heartbeat_state \<Rightarrow> string \<Rightarrow> rat" where
  "since_last_notice_seconds s now = (case hs_last_notice_at s of None \<Rightarrow> 0
     | Some t \<Rightarrow> (case seconds_between t now of Inl _ \<Rightarrow> 0 | Inr x \<Rightarrow> max 0 x))"

definition repeat_interval_not_elapsed :: "heartbeat_state \<Rightarrow> heartbeat_policy \<Rightarrow> string \<Rightarrow> bool" where
  "repeat_interval_not_elapsed s policy now \<longleftrightarrow>
     since_last_notice_seconds s now < hp_repeat_interval_s policy"

definition heartbeat_decide :: "heartbeat_action \<Rightarrow> heartbeat_state \<Rightarrow> rat \<Rightarrow> heartbeat_decision" where
  "heartbeat_decide action s silence =
     \<lparr>hd_action = action, hd_subject_kind = hs_subject_kind s, hd_subject_id = hs_subject_id s,
      hd_owner = hs_owner s, hd_last_progress_at = hs_last_progress_at s,
      hd_last_notice_at = hs_last_notice_at s, hd_silence_seconds = silence,
      hd_notice_count = hs_notice_count s\<rparr>"

definition progress_advanced :: "string \<Rightarrow> string \<Rightarrow> bool" where
  "progress_advanced observed recorded \<longleftrightarrow> observed \<noteq> recorded \<and>
     (case seconds_between recorded observed of Inl _ \<Rightarrow> True | Inr x \<Rightarrow> x > 0)"

definition evaluate_heartbeat :: "heartbeat_policy \<Rightarrow> string \<Rightarrow> string \<Rightarrow> string \<Rightarrow> string \<Rightarrow> string \<Rightarrow>
    heartbeat_state option \<Rightarrow> (heartbeat_state \<times> heartbeat_decision) result" where
  "evaluate_heartbeat policy subject_kind subject_id owner observed_last_progress_at now state =
     rbind (progress_timestamp observed_last_progress_at now) (\<lambda>progress_at.
     rbind (current_state state subject_kind subject_id owner progress_at now) (\<lambda>current.
     rbind (state_with_subject current subject_kind subject_id owner) (\<lambda>base0.
     if progress_advanced progress_at (hs_last_progress_at current) \<and> heartbeat_active current
     then rbind (reset_state base0 progress_at now) (\<lambda>next_state.
            Inr (next_state, heartbeat_decide HB_RESET next_state 0))
     else
     rbind (HeartbeatState (base0\<lparr>hs_last_progress_at := progress_at\<rparr>)) (\<lambda>base.
     let silence = silence_seconds progress_at now in
     if silence < hp_silence_start_after_s policy then Inr (base, heartbeat_decide HB_IDLE base silence)
     else if should_enter_heartbeat base
     then rbind (enter_state base now) (\<lambda>next_state.
            Inr (next_state, heartbeat_decide HB_ENTER next_state silence))
     else if notice_limit_reached base policy then Inr (base, heartbeat_decide HB_IDLE base silence)
     else if repeat_interval_not_elapsed base policy now
     then Inr (base, heartbeat_decide HB_IDLE base silence)
     else rbind (repeat_state base now) (\<lambda>next_state.
            Inr (next_state, heartbeat_decide HB_REPEAT next_state silence))))))"

section \<open>Evaluation on well-formed input\<close>

definition valid_heartbeat_state :: "heartbeat_state \<Rightarrow> bool" where
  "valid_heartbeat_state s \<longleftrightarrow> py_strip (hs_subject_kind s) \<noteq> [] \<and> py_strip (hs_subject_id s) \<noteq> [] \<and>
     py_strip (hs_owner s) \<noteq> [] \<and> py_strip (hs_last_progress_at s) \<noteq> [] \<and> 0 \<le> hs_notice_count s \<and>
     py_strip (hs_updated_at s) \<noteq> []"

definition valid_policy :: "heartbeat_policy \<Rightarrow> bool" where
  "valid_policy p \<longleftrightarrow> HeartbeatPolicy p = Inr p"

definition valid_subject :: "string \<Rightarrow> string \<Rightarrow> string \<Rightarrow> bool" where
  "valid_subject subject_kind subject_id owner \<longleftrightarrow>
     py_strip subject_kind \<noteq> [] \<and> py_strip subject_id \<noteq> [] \<and> py_strip owner \<noteq> []"

lemma HeartbeatState_Inr: "HeartbeatState s = Inr s' \<longleftrightarrow> s' = s \<and> valid_heartbeat_state s"
  by (auto simp: HeartbeatState_def valid_heartbeat_state_def rbind_Inr_iff rcheck_def split: if_splits)

lemma HeartbeatState_valid [simp]: "valid_heartbeat_state s \<Longrightarrow> HeartbeatState s = Inr s"
  by (simp add: HeartbeatState_Inr)

lemma valid_policy_iff:
  "valid_policy p \<longleftrightarrow> 0 \<le> hp_silence_start_after_s p \<and> 0 < hp_repeat_interval_s p \<and>
     (\<forall>n. hp_max_notice_count p = Some n \<longrightarrow> 0 < n)"
  by (auto simp: valid_policy_def HeartbeatPolicy_def rbind_Inr_iff not_less not_le split: option.splits)

text \<open>The invariant of the states the engine produces: notices are counted exactly while one is on record,
  and never beyond the limit.\<close>

definition heartbeat_inv :: "heartbeat_policy \<Rightarrow> heartbeat_state \<Rightarrow> bool" where
  "heartbeat_inv p s \<longleftrightarrow> valid_heartbeat_state s \<and> (hs_last_notice_at s = None \<longleftrightarrow> hs_notice_count s = 0) \<and>
     (\<forall>n. hp_max_notice_count p = Some n \<longrightarrow> hs_notice_count s \<le> n)"

definition progress_of :: "string \<Rightarrow> string \<Rightarrow> string" where
  "progress_of observed now = (if py_strip observed \<noteq> [] then py_strip observed else py_strip now)"

text \<open>The state the evaluation starts from, and its outcome with every check passed\<close>

definition start_state :: "heartbeat_state option \<Rightarrow> string \<Rightarrow> string \<Rightarrow> string \<Rightarrow> string \<Rightarrow> string \<Rightarrow> heartbeat_state" where
  "start_state st k i w pr now = (case st of
       Some s \<Rightarrow> s\<lparr>hs_subject_kind := k, hs_subject_id := i, hs_owner := w\<rparr>
     | None \<Rightarrow> \<lparr>hs_subject_kind = k, hs_subject_id = i, hs_owner = w, hs_last_progress_at = pr,
         hs_last_notice_at = None, hs_heartbeat_started_at = None, hs_notice_count = 0, hs_updated_at = now\<rparr>)"

definition noticed :: "heartbeat_state \<Rightarrow> string \<Rightarrow> int \<Rightarrow> heartbeat_state" where
  "noticed b now n = b\<lparr>hs_last_notice_at := Some now,
     hs_heartbeat_started_at := Some (opt_str_or (hs_heartbeat_started_at b) now),
     hs_notice_count := n, hs_updated_at := now\<rparr>"

definition rested :: "heartbeat_state \<Rightarrow> string \<Rightarrow> heartbeat_state" where
  "rested b now = b\<lparr>hs_last_notice_at := None, hs_heartbeat_started_at := None, hs_notice_count := 0,
     hs_updated_at := now\<rparr>"

definition chosen_action :: "heartbeat_policy \<Rightarrow> heartbeat_state \<Rightarrow> string \<Rightarrow> string \<Rightarrow> heartbeat_action" where
  "chosen_action p s pr now =
     (if progress_advanced pr (hs_last_progress_at s) \<and> heartbeat_active s then HB_RESET
      else if silence_seconds pr now < hp_silence_start_after_s p then HB_IDLE
      else if should_enter_heartbeat s then HB_ENTER
      else if notice_limit_reached s p \<or> repeat_interval_not_elapsed s p now then HB_IDLE
      else HB_REPEAT)"

definition heartbeat_outcome :: "heartbeat_policy \<Rightarrow> heartbeat_state \<Rightarrow> string \<Rightarrow> string \<Rightarrow>
    heartbeat_state \<times> heartbeat_decision" where
  "heartbeat_outcome p s pr now =
     (let b = s\<lparr>hs_last_progress_at := pr\<rparr>; silence = silence_seconds pr now in
      case chosen_action p s pr now of
        HB_RESET \<Rightarrow> (rested b now, heartbeat_decide HB_RESET (rested b now) 0)
      | HB_IDLE \<Rightarrow> (b, heartbeat_decide HB_IDLE b silence)
      | HB_ENTER \<Rightarrow> (noticed b now 1, heartbeat_decide HB_ENTER (noticed b now 1) silence)
      | HB_REPEAT \<Rightarrow> (noticed b now (hs_notice_count s + 1),
                    heartbeat_decide HB_REPEAT (noticed b now (hs_notice_count s + 1)) silence))"

lemma noticed_valid [simp]:
  "valid_heartbeat_state b \<Longrightarrow> py_strip now \<noteq> [] \<Longrightarrow> 0 \<le> n \<Longrightarrow> valid_heartbeat_state (noticed b now n)"
  "valid_heartbeat_state b \<Longrightarrow> py_strip now \<noteq> [] \<Longrightarrow> valid_heartbeat_state (rested b now)"
  by (simp_all add: valid_heartbeat_state_def noticed_def rested_def)

lemma built_states:
  "enter_state b now = HeartbeatState (noticed b now 1)"
  "repeat_state b now = HeartbeatState (noticed b now (hs_notice_count b + 1))"
  "reset_state b pr now = HeartbeatState (rested (b\<lparr>hs_last_progress_at := pr\<rparr>) now)"
  by (simp_all add: enter_state_def repeat_state_def reset_state_def noticed_def rested_def)

lemma progress_irrelevant [simp]:
  "should_enter_heartbeat (b\<lparr>hs_last_progress_at := pr\<rparr>) = should_enter_heartbeat b"
  "notice_limit_reached (b\<lparr>hs_last_progress_at := pr\<rparr>) p = notice_limit_reached b p"
  "repeat_interval_not_elapsed (b\<lparr>hs_last_progress_at := pr\<rparr>) p now = repeat_interval_not_elapsed b p now"
  by (simp_all add: should_enter_heartbeat_def notice_limit_reached_def repeat_interval_not_elapsed_def
      since_last_notice_seconds_def split: option.splits)

lemma start_state_current:
  assumes "valid_subject k i w" "py_strip now \<noteq> []" "py_strip pr \<noteq> []" "\<And>s. st = Some s \<Longrightarrow> valid_heartbeat_state s"
  obtains c where "current_state st k i w pr now = Inr c"
    "state_with_subject c k i w = Inr (start_state st k i w pr now)"
    "hs_last_progress_at c = hs_last_progress_at (start_state st k i w pr now)"
    "heartbeat_active c = heartbeat_active (start_state st k i w pr now)"
    "valid_heartbeat_state (start_state st k i w pr now)"
proof -
  let ?s = "start_state st k i w pr now"
  have s: "valid_heartbeat_state ?s"
    using assms by (auto simp: start_state_def valid_heartbeat_state_def valid_subject_def split: option.splits)
  show thesis
  proof (cases st)
    case None
    then have "?s\<lparr>hs_subject_kind := k, hs_subject_id := i, hs_owner := w\<rparr> = ?s" by (simp add: start_state_def)
    moreover from None s have "current_state st k i w pr now = Inr ?s"
      by (simp add: current_state_def start_state_def)
    ultimately show thesis using that s by (simp add: state_with_subject_def)
  next
    case (Some c)
    then have eq: "?s = c\<lparr>hs_subject_kind := k, hs_subject_id := i, hs_owner := w\<rparr>" by (simp add: start_state_def)
    have "state_with_subject c k i w = Inr ?s" using s by (simp add: state_with_subject_def eq)
    moreover have "heartbeat_active c = heartbeat_active ?s" by (simp add: eq heartbeat_active_def)
    moreover have "hs_last_progress_at c = hs_last_progress_at ?s" by (simp add: eq)
    ultimately show thesis using that [of c] Some s by (simp add: current_state_def)
  qed
qed

lemma evaluate_heartbeat_outcome:
  assumes "valid_subject k i w" "py_strip now \<noteq> []" "\<And>s. st = Some s \<Longrightarrow> valid_heartbeat_state s"
  shows "evaluate_heartbeat p k i w observed now st =
    Inr (heartbeat_outcome p (start_state st k i w (progress_of observed now) now) (progress_of observed now) now)"
proof -
  let ?pr = "progress_of observed now" and ?s = "start_state st k i w (progress_of observed now) now"
  have pr: "py_strip ?pr \<noteq> []" using assms(2) by (auto simp: progress_of_def)
  have tm: "progress_timestamp observed now = Inr ?pr"
    using pr by (auto simp: progress_timestamp_def progress_of_def Let_def)
  obtain c where c: "current_state st k i w ?pr now = Inr c" "state_with_subject c k i w = Inr ?s"
    "hs_last_progress_at c = hs_last_progress_at ?s" "heartbeat_active c = heartbeat_active ?s"
    "valid_heartbeat_state ?s"
    by (rule start_state_current [OF assms(1,2) pr assms(3)])
  have b: "valid_heartbeat_state (?s\<lparr>hs_last_progress_at := ?pr\<rparr>)" "0 \<le> hs_notice_count ?s"
    using c(5) pr by (simp_all add: valid_heartbeat_state_def)
  show ?thesis
    using assms(2) b
    by (simp add: evaluate_heartbeat_def tm c(1-4) heartbeat_outcome_def chosen_action_def Let_def built_states)
qed

lemma start_state_inv:
  assumes "valid_policy p" "valid_subject k i w" "py_strip now \<noteq> []" "pr = progress_of observed now"
    and "\<And>s. st = Some s \<Longrightarrow> heartbeat_inv p s"
  shows "heartbeat_inv p (start_state st k i w pr now)"
proof -
  have "py_strip pr \<noteq> []" using assms(3,4) by (auto simp: progress_of_def)
  then show ?thesis
    using assms by (cases st)
      (auto simp: start_state_def heartbeat_inv_def valid_heartbeat_state_def valid_subject_def valid_policy_iff)
qed

lemma noticed_inv:
  assumes "heartbeat_inv p s" "py_strip now \<noteq> []" "0 < n" "\<And>m. hp_max_notice_count p = Some m \<Longrightarrow> n \<le> m"
  shows "heartbeat_inv p (noticed s now n)"
  using assms by (simp add: heartbeat_inv_def) (simp add: noticed_def)

lemma heartbeat_outcome_inv:
  assumes "valid_policy p" "heartbeat_inv p s" "py_strip pr \<noteq> []" "py_strip now \<noteq> []"
    and "heartbeat_outcome p s pr now = (s', d)"
  shows "heartbeat_inv p s' \<and> hd_notice_count d = hs_notice_count s' \<and> hd_action d = chosen_action p s pr now \<and>
    hs_notice_count s' = (case hd_action d of HB_RESET \<Rightarrow> 0 | HB_IDLE \<Rightarrow> hs_notice_count s
       | _ \<Rightarrow> hs_notice_count s + 1)"
proof -
  let ?b = "s\<lparr>hs_last_progress_at := pr\<rparr>"
  have b: "heartbeat_inv p ?b" using assms(2,3) by (simp add: heartbeat_inv_def valid_heartbeat_state_def)
  show ?thesis
  proof (cases "chosen_action p s pr now")
    case HB_IDLE
    with assms(5) b show ?thesis by (auto simp: heartbeat_outcome_def Let_def heartbeat_decide_def)
  next
    case HB_RESET
    have "heartbeat_inv p (rested ?b now)"
      using b assms(1,4) by (auto simp: heartbeat_inv_def valid_policy_iff) (simp_all add: rested_def order_less_imp_le)
    with assms(5) HB_RESET show ?thesis
      by (auto simp: heartbeat_outcome_def Let_def heartbeat_decide_def) (simp add: rested_def)
  next
    case HB_ENTER
    then have "hs_notice_count s = 0"
      using assms(2) by (auto simp: heartbeat_inv_def should_enter_heartbeat_def valid_heartbeat_state_def
          chosen_action_def split: if_splits)
    moreover have "heartbeat_inv p (noticed ?b now 1)"
      using b assms(1,4) by (intro noticed_inv) (auto simp: valid_policy_iff)
    ultimately show ?thesis using assms(5) HB_ENTER
      by (auto simp: heartbeat_outcome_def Let_def heartbeat_decide_def noticed_def)
  next
    case HB_REPEAT
    then have "\<not> notice_limit_reached s p" by (auto simp: chosen_action_def split: if_splits)
    moreover have "0 \<le> hs_notice_count s" using assms(2) by (simp add: heartbeat_inv_def valid_heartbeat_state_def)
    ultimately have "heartbeat_inv p (noticed ?b now (hs_notice_count s + 1))"
      using b assms(4) by (intro noticed_inv) (auto simp: notice_limit_reached_def)
    then show ?thesis using assms(5) HB_REPEAT
      by (auto simp: heartbeat_outcome_def Let_def heartbeat_decide_def noticed_def)
  qed
qed

section \<open>Runs of the engine\<close>

text \<open>Evaluations one after another, each on the state the last one returned\<close>

fun heartbeat_run :: "heartbeat_policy \<Rightarrow> string \<Rightarrow> string \<Rightarrow> string \<Rightarrow> heartbeat_state option \<Rightarrow>
    (string \<times> string) list \<Rightarrow> (heartbeat_state option \<times> heartbeat_decision list) result" where
  "heartbeat_run p k i w st [] = Inr (st, [])"
| "heartbeat_run p k i w st ((observed, now) # obs) =
     rbind (evaluate_heartbeat p k i w observed now st) (\<lambda>(s, d).
     rbind (heartbeat_run p k i w (Some s) obs) (\<lambda>(st', ds). Inr (st', d # ds)))"

text \<open>The notices given since the last reset, after \<open>n\<close> before the decisions listed\<close>

fun notices_after :: "int \<Rightarrow> heartbeat_decision list \<Rightarrow> int" where
  "notices_after n [] = n"
| "notices_after n (d # ds) = notices_after
     (case hd_action d of HB_RESET \<Rightarrow> 0 | HB_IDLE \<Rightarrow> n | _ \<Rightarrow> n + 1) ds"

definition opt_count :: "heartbeat_state option \<Rightarrow> int" where
  "opt_count st = (case st of None \<Rightarrow> 0 | Some s \<Rightarrow> hs_notice_count s)"

lemma opt_count_simps [simp]: "opt_count None = 0" "opt_count (Some s) = hs_notice_count s"
  by (simp_all add: opt_count_def)

lemma start_state_count: "hs_notice_count (start_state st k i w pr now) = opt_count st"
  by (simp add: start_state_def opt_count_def split: option.splits)

lemma progress_of_ne: "py_strip now \<noteq> [] \<Longrightarrow> py_strip (progress_of observed now) \<noteq> []"
  by (auto simp: progress_of_def)

lemma evaluate_heartbeat_step:
  assumes "valid_policy p" "valid_subject k i w" "py_strip now \<noteq> []" "\<And>s. st = Some s \<Longrightarrow> heartbeat_inv p s"
  obtains s d where "evaluate_heartbeat p k i w observed now st = Inr (s, d)" "heartbeat_inv p s"
    "hd_notice_count d = hs_notice_count s"
    "hs_notice_count s = (case hd_action d of HB_RESET \<Rightarrow> 0 | HB_IDLE \<Rightarrow> opt_count st | _ \<Rightarrow> opt_count st + 1)"
proof -
  let ?pr = "progress_of observed now"
  obtain s d where o: "heartbeat_outcome p (start_state st k i w ?pr now) ?pr now = (s, d)" by fastforce
  have inv: "heartbeat_inv p (start_state st k i w ?pr now)"
    using start_state_inv [OF assms(1-3) refl assms(4)] .
  have e: "evaluate_heartbeat p k i w observed now st = Inr (s, d)"
    using assms by (subst evaluate_heartbeat_outcome) (auto simp: o heartbeat_inv_def)
  note f = heartbeat_outcome_inv [OF assms(1) inv progress_of_ne [OF assms(3)] assms(3) o, unfolded start_state_count]
  show thesis by (rule that [OF e]) (use f in blast)+
qed

lemma heartbeat_run_counts:
  assumes "valid_policy p" "valid_subject k i w" "\<forall>(observed, now) \<in> set obs. py_strip now \<noteq> []"
    and "\<And>s. st = Some s \<Longrightarrow> heartbeat_inv p s"
  shows "\<exists>st' ds. heartbeat_run p k i w st obs = Inr (st', ds) \<and> length ds = length obs \<and>
    opt_count st' = notices_after (opt_count st) ds \<and> (\<forall>s. st' = Some s \<longrightarrow> heartbeat_inv p s) \<and>
    (\<forall>n. hp_max_notice_count p = Some n \<longrightarrow> (\<forall>d \<in> set ds. hd_notice_count d \<le> n))"
  using assms(3,4)
proof (induction obs arbitrary: st)
  case (Cons ob obs)
  obtain observed now where ob: "ob = (observed, now)" by fastforce
  with Cons.prems have now: "py_strip now \<noteq> []" by simp
  obtain s d where sd: "evaluate_heartbeat p k i w observed now st = Inr (s, d)" "heartbeat_inv p s"
    "hd_notice_count d = hs_notice_count s"
    "hs_notice_count s = (case hd_action d of HB_RESET \<Rightarrow> 0 | HB_IDLE \<Rightarrow> opt_count st | _ \<Rightarrow> opt_count st + 1)"
    by (rule evaluate_heartbeat_step [OF assms(1,2) now Cons.prems(2)])
  have "\<exists>st' ds. heartbeat_run p k i w (Some s) obs = Inr (st', ds) \<and> length ds = length obs \<and>
    opt_count st' = notices_after (opt_count (Some s)) ds \<and> (\<forall>s. st' = Some s \<longrightarrow> heartbeat_inv p s) \<and>
    (\<forall>n. hp_max_notice_count p = Some n \<longrightarrow> (\<forall>d \<in> set ds. hd_notice_count d \<le> n))"
    using Cons.prems sd(2) by (intro Cons.IH) auto
  moreover have "hd_notice_count d \<le> n" if "hp_max_notice_count p = Some n" for n
    using sd(2,3) that by (simp add: heartbeat_inv_def)
  ultimately show ?case using sd by (auto simp: ob)
qed simp

section \<open>Properties of the heartbeat\<close>

text \<open>
  C37. Notices are counted and bounded. For an accepted policy, a named subject and clock readings that
  are not blank, a run of evaluations from no state never raises, whatever the progress stamps hold;
  the notice count of the resulting state is the number of notices given since the last reset, and no
  decision reports more notices than the policy's limit.
\<close>
theorem heartbeat_notices_bounded:
  assumes "HeartbeatPolicy p = Inr p" "valid_subject k i w" "\<forall>(observed, now) \<in> set obs. py_strip now \<noteq> []"
  shows "\<exists>st ds. heartbeat_run p k i w None obs = Inr (st, ds) \<and> length ds = length obs \<and>
    opt_count st = notices_after 0 ds \<and>
    (\<forall>n. hp_max_notice_count p = Some n \<longrightarrow> (\<forall>d \<in> set ds. hd_notice_count d \<le> n))"
  using heartbeat_run_counts [of p k i w obs None] assms by (auto simp: valid_policy_def)

definition demo_policy :: heartbeat_policy where
  "demo_policy = \<lparr>hp_silence_start_after_s = 600, hp_repeat_interval_s = 600, hp_max_notice_count = Some 2\<rparr>"

theorem heartbeat_notices_bounded_witness:
  "let obs = [(''2026-01-01T00:00:00Z'', ''2026-01-01T00:10:00Z''), (''x'', ''2026-01-01T00:20:00Z''),
        ('''', ''y'')]
   in \<exists>st ds. heartbeat_run demo_policy ''job_progress'' ''j1'' ''agent1'' None obs = Inr (st, ds) \<and>
    length ds = length obs \<and> opt_count st = notices_after 0 ds \<and>
    (\<forall>n. hp_max_notice_count demo_policy = Some n \<longrightarrow> (\<forall>d \<in> set ds. hd_notice_count d \<le> n))"
  unfolding Let_def by (rule heartbeat_notices_bounded; code_simp)

section \<open>A silent subject\<close>

definition elapsed_at_least :: "rat \<Rightarrow> string \<Rightarrow> string \<Rightarrow> bool" where
  "elapsed_at_least bound t now = (case seconds_between t now of Inl _ \<Rightarrow> False | Inr x \<Rightarrow> bound \<le> x)"

text \<open>Clock readings of a subject that stays silent: each at least the start of the silence after the
  last progress, and at least the repeat interval after the one before\<close>

fun silent_ticks :: "heartbeat_policy \<Rightarrow> string \<Rightarrow> string option \<Rightarrow> string list \<Rightarrow> bool" where
  "silent_ticks p pr prev [] = True"
| "silent_ticks p pr prev (now # nows) \<longleftrightarrow>
     py_strip now \<noteq> [] \<and> elapsed_at_least (hp_silence_start_after_s p) pr now \<and>
     (case prev of None \<Rightarrow> True | Some t \<Rightarrow> elapsed_at_least (hp_repeat_interval_s p) t now) \<and>
     silent_ticks p pr (Some now) nows"

definition below_limit :: "heartbeat_policy \<Rightarrow> int \<Rightarrow> bool" where
  "below_limit p n = (case hp_max_notice_count p of None \<Rightarrow> True | Some m \<Rightarrow> n < m)"

lemma elapsed_silence: "0 \<le> b \<Longrightarrow> elapsed_at_least b pr now \<Longrightarrow> \<not> silence_seconds pr now < b"
  by (auto simp: elapsed_at_least_def silence_seconds_def split: sum.splits)

lemma elapsed_repeat:
  "hs_last_notice_at s = Some t \<Longrightarrow> 0 < hp_repeat_interval_s p \<Longrightarrow>
   elapsed_at_least (hp_repeat_interval_s p) t now \<Longrightarrow> \<not> repeat_interval_not_elapsed s p now"
  by (auto simp: elapsed_at_least_def repeat_interval_not_elapsed_def since_last_notice_seconds_def split: sum.splits)

lemma silent_step:
  assumes p: "valid_policy p" and s: "heartbeat_inv p s" and pr: "hs_last_progress_at s = pr"
    and quiet: "elapsed_at_least (hp_silence_start_after_s p) pr now"
    and prev: "\<And>t. hs_last_notice_at s = Some t \<Longrightarrow> below_limit p (hs_notice_count s) \<Longrightarrow>
          elapsed_at_least (hp_repeat_interval_s p) t now"
  shows "chosen_action p s pr now =
     (if hs_notice_count s = 0 then HB_ENTER else if below_limit p (hs_notice_count s) then HB_REPEAT else HB_IDLE)"
proof -
  have q: "\<not> silence_seconds pr now < hp_silence_start_after_s p" "0 < hp_repeat_interval_s p"
    using p quiet elapsed_silence by (auto simp: valid_policy_iff)
  have adv: "\<not> progress_advanced pr pr" by (simp add: progress_advanced_def)
  have lim: "notice_limit_reached s p \<longleftrightarrow> \<not> below_limit p (hs_notice_count s)"
    by (auto simp: notice_limit_reached_def below_limit_def split: option.splits)
  have en: "should_enter_heartbeat s \<longleftrightarrow> hs_notice_count s = 0"
    using s by (auto simp: should_enter_heartbeat_def heartbeat_inv_def valid_heartbeat_state_def)
  have "\<not> repeat_interval_not_elapsed s p now" if "hs_notice_count s \<noteq> 0" "below_limit p (hs_notice_count s)"
    using that s prev q(2) elapsed_repeat by (auto simp: heartbeat_inv_def)
  with q adv lim en pr show ?thesis by (auto simp: chosen_action_def)
qed

lemma silent_run:
  assumes p: "valid_policy p" and sub: "valid_subject k i w" and pr: "stripped pr" "pr \<noteq> []"
  shows "silent_ticks p pr prev nows \<Longrightarrow>
    (st = None \<and> prev = None \<or> (\<exists>s. st = Some s \<and> heartbeat_inv p s \<and> hs_last_progress_at s = pr \<and>
       0 < hs_notice_count s \<and> (below_limit p (hs_notice_count s) \<longrightarrow> hs_last_notice_at s = prev))) \<Longrightarrow>
    \<exists>st' ds. heartbeat_run p k i w st (map (Pair pr) nows) = Inr (st', ds) \<and>
      map notice_due ds = map (\<lambda>j. below_limit p (opt_count st + int j)) [0..<length nows]"
proof (induction nows arbitrary: st prev)
  case (Cons now nows)
  let ?s = "start_state st k i w pr now"
  have now: "py_strip now \<noteq> []" and quiet: "elapsed_at_least (hp_silence_start_after_s p) pr now"
    and rest: "silent_ticks p pr (Some now) nows" using Cons.prems(1) by auto
  have prog: "progress_of pr now = pr" using pr by (simp add: progress_of_def)
  have stinv: "heartbeat_inv p s" if "st = Some s" for s using Cons.prems(2) that by auto
  have inv: "heartbeat_inv p ?s" using start_state_inv [OF p sub now prog [symmetric] stinv] .
  have spr: "hs_last_progress_at ?s = pr" using Cons.prems(2) by (auto simp: start_state_def)
  have act: "chosen_action p ?s pr now =
      (if opt_count st = 0 then HB_ENTER else if below_limit p (opt_count st) then HB_REPEAT else HB_IDLE)"
    using Cons.prems by (subst silent_step [OF p inv spr quiet]) (auto simp: start_state_def split: option.splits)
  obtain s d where o: "heartbeat_outcome p ?s pr now = (s, d)" by fastforce
  have e: "evaluate_heartbeat p k i w pr now st = Inr (s, d)"
    using sub now stinv by (subst evaluate_heartbeat_outcome) (auto simp: prog o heartbeat_inv_def)
  have py: "py_strip pr \<noteq> []" using pr by simp
  note f = heartbeat_outcome_inv [OF p inv py now o, unfolded start_state_count act]
  have c0: "0 \<le> opt_count st" using stinv by (cases st) (auto simp: heartbeat_inv_def valid_heartbeat_state_def)
  have due: "notice_due d \<longleftrightarrow> below_limit p (opt_count st)"
    using f p by (auto simp: notice_due_def below_limit_def valid_policy_iff split: if_splits option.splits)
  have cnt: "hs_notice_count s = (if below_limit p (opt_count st) then opt_count st + 1 else opt_count st)"
    using f p c0 by (auto simp: below_limit_def valid_policy_iff split: if_splits option.splits)
  have lp: "hs_last_progress_at s = pr"
    using o act by (auto simp: heartbeat_outcome_def Let_def noticed_def split: if_splits)
  have ln: "hs_last_notice_at s = Some now" if "below_limit p (opt_count st)"
    using o act that by (auto simp: heartbeat_outcome_def Let_def noticed_def split: if_splits)
  have pos: "0 < hs_notice_count s"
    using cnt c0 Cons.prems(2) p by (auto simp: below_limit_def valid_policy_iff split: if_splits option.splits)
  have lim: "below_limit p (hs_notice_count s) \<Longrightarrow> below_limit p (opt_count st)"
    using cnt by (auto simp: below_limit_def split: option.splits if_splits)
  have idx: "map f [0..<Suc n] = f 0 # map (\<lambda>j. f (Suc j)) [0..<n]" for f :: "nat \<Rightarrow> bool" and n
    by (simp add: upt_conv_Cons map_Suc_upt [symmetric] del: upt_Suc)
  have "\<exists>st' ds. heartbeat_run p k i w (Some s) (map (Pair pr) nows) = Inr (st', ds) \<and>
      map notice_due ds = map (\<lambda>j. below_limit p (opt_count (Some s) + int j)) [0..<length nows]"
  proof (rule Cons.IH [OF rest])
    show "Some s = None \<and> Some now = None \<or> (\<exists>s'. Some s = Some s' \<and> heartbeat_inv p s' \<and>
        hs_last_progress_at s' = pr \<and> 0 < hs_notice_count s' \<and>
        (below_limit p (hs_notice_count s') \<longrightarrow> hs_last_notice_at s' = Some now))"
      using f lp ln pos lim by blast
  qed
  moreover have "below_limit p (hs_notice_count s + int j) = below_limit p (opt_count st + int (Suc j))" for j
    using cnt by (auto simp: below_limit_def algebra_simps split: option.splits if_splits)
  ultimately show ?case
    using due e by (auto simp: idx simp del: upt_Suc)
qed simp

text \<open>
  C38. A silent subject is noticed on schedule. When the observed progress stays at one stamp and every
  evaluation comes at least the silence threshold after it and at least the repeat interval after the
  evaluation before, the evaluations give a notice each until the policy's limit is reached and none
  after it.
\<close>
theorem silent_subject_is_noticed:
  assumes "HeartbeatPolicy p = Inr p" "valid_subject k i w" "stripped pr" "pr \<noteq> []"
    and "silent_ticks p pr None nows"
  shows "\<exists>st ds. heartbeat_run p k i w None (map (Pair pr) nows) = Inr (st, ds) \<and>
    map notice_due ds = map (\<lambda>j. below_limit p (int j)) [0..<length nows]"
  using silent_run [of p k i w pr None nows None] assms by (simp add: valid_policy_def)

theorem silent_subject_is_noticed_witness:
  "\<exists>st ds. heartbeat_run demo_policy ''job_progress'' ''j1'' ''agent1'' None
      (map (Pair ''2026-01-01T00:00:00Z'') [''2026-01-01T00:10:00Z'', ''2026-01-01T00:20:01Z'', ''2026-01-01T00:40:00Z''])
      = Inr (st, ds) \<and> map notice_due ds = [True, True, False]"
proof -
  have eq: "map (\<lambda>j. below_limit demo_policy (int j)) [0..<length [''2026-01-01T00:10:00Z'',
      ''2026-01-01T00:20:01Z'', ''2026-01-01T00:40:00Z'']] = [True, True, False]"
    by (simp add: below_limit_def demo_policy_def upt_rec)
  have "silent_ticks demo_policy ''2026-01-01T00:00:00Z'' None
      [''2026-01-01T00:10:00Z'', ''2026-01-01T00:20:01Z'', ''2026-01-01T00:40:00Z'']" by code_simp
  moreover have "HeartbeatPolicy demo_policy = Inr demo_policy"
    "valid_subject ''job_progress'' ''j1'' ''agent1''" "stripped ''2026-01-01T00:00:00Z''" by code_simp+
  ultimately have "\<exists>st ds. heartbeat_run demo_policy ''job_progress'' ''j1'' ''agent1'' None
      (map (Pair ''2026-01-01T00:00:00Z'') [''2026-01-01T00:10:00Z'', ''2026-01-01T00:20:01Z'', ''2026-01-01T00:40:00Z''])
      = Inr (st, ds) \<and> map notice_due ds = map (\<lambda>j. below_limit demo_policy (int j))
        [0..<length [''2026-01-01T00:10:00Z'', ''2026-01-01T00:20:01Z'', ''2026-01-01T00:40:00Z'']]"
    by (intro silent_subject_is_noticed) simp_all
  then show ?thesis unfolding eq .
qed

text \<open>
  A stored heartbeat reads back. A state that the constructor accepts, whose notice and start stamps
  are absent or stripped and not empty, is read back unchanged from its record.
\<close>
theorem heartbeat_roundtrip:
  assumes "HeartbeatState s = Inr s"
    and "\<And>t. hs_last_notice_at s = Some t \<or> hs_heartbeat_started_at s = Some t \<Longrightarrow> stripped t \<and> t \<noteq> []"
  shows "heartbeat_from_record (heartbeat_to_record s) = Inr s"
proof -
  have "stripped_or_none (jopt x) = x" if "\<And>t. x = Some t \<Longrightarrow> stripped t \<and> t \<noteq> []" for x
    using that by (cases x) (simp_all add: stripped_or_none_def jopt_def)
  with assms show ?thesis by (cases s) (simp add: heartbeat_from_record_def heartbeat_to_record_def)
qed

theorem heartbeat_roundtrip_witness:
  "let s = \<lparr>hs_subject_kind = ''job_progress'', hs_subject_id = ''j1'', hs_owner = ''agent1'',
      hs_last_progress_at = ''t0'', hs_last_notice_at = Some ''t1'', hs_heartbeat_started_at = None,
      hs_notice_count = 1, hs_updated_at = ''t1''\<rparr>
   in heartbeat_from_record (heartbeat_to_record s) = Inr s"
  unfolding Let_def by (rule heartbeat_roundtrip) (code_simp, auto simp: stripped_def py_isspace_def)

end
