(* ===== verification/Job_Heartbeat.thy ===== *)
theory Job_Heartbeat
  imports Dispatcher_Lifecycle Heartbeat
begin

text \<open>
  The job heartbeat service (\<open>ccbd/services/job_heartbeat.py\<close>, \<open>job_heartbeat_runtime\<close>): every running ask is given to
  the heartbeat engine with the time of its last progress; notices are counted in the stored heartbeat state
  (\<open>heartbeat/store.py\<close>), and a job that makes no progress for too many of them is ended. The state adds the service's
  policy and store to the daemon's.
\<close>

section \<open>The store of heartbeat states\<close>

definition TARGET_SEGMENT_PATTERN :: "char \<Rightarrow> bool" where
  "TARGET_SEGMENT_PATTERN c = (let n = (of_char c :: nat) in
     \<not> ((97 \<le> n \<and> n \<le> 122) \<or> (48 \<le> n \<and> n \<le> 57) \<or> c \<in> {CHR ''.'', CHR ''_'', CHR ''-''}))"

text \<open>\<open>sub('-', ...)\<close>: a run of matching characters becomes one dash\<close>
fun sub_runs :: "(char \<Rightarrow> bool) \<Rightarrow> bool \<Rightarrow> string \<Rightarrow> string" where
  "sub_runs p inside [] = []"
| "sub_runs p inside (c # cs) = (if p c then (if inside then sub_runs p True cs else CHR ''-'' # sub_runs p True cs)
     else c # sub_runs p False cs)"

definition strip_chars :: "char set \<Rightarrow> string \<Rightarrow> string" where
  "strip_chars cs t = rev (dropWhile (\<lambda>c. c \<in> cs) (rev (dropWhile (\<lambda>c. c \<in> cs) t)))"

definition normalized_segment :: "string \<Rightarrow> string \<Rightarrow> string result" where
  "normalized_segment value label =
     (let normalized = strip_chars {CHR ''-'', CHR ''.''} (sub_runs TARGET_SEGMENT_PATTERN False (py_lower (py_strip value)))
      in if normalized = [] then Inl (ValueError (label @ '' cannot be empty'')) else Inr normalized)"

definition heartbeat_subject_dir :: "string \<Rightarrow> string result" where
  "heartbeat_subject_dir subject_kind = rbind (normalized_segment subject_kind ''subject_kind'') (\<lambda>k. Inr (k @ ''/''))"

definition heartbeat_subject_path :: "string \<Rightarrow> string \<Rightarrow> string result" where
  "heartbeat_subject_path subject_kind subject_id =
     rbind (normalized_segment subject_id ''subject_id'') (\<lambda>i.
     rbind (heartbeat_subject_dir subject_kind) (\<lambda>d. Inr (d @ i @ ''.json'')))"

record 'w heartbeating = "'w daemon" +
  hb_policy :: heartbeat_policy
  hb_store :: "heartbeat_state dict"
  hb_subject_kind :: string
  hb_terminal_notice_count :: "int option"

type_synonym ('w, 'z, 'a) hbt = "(('w, 'z) heartbeating_scheme, 'a) py"

definition heartbeat_load :: "string \<Rightarrow> string \<Rightarrow> ('w, 'z, heartbeat_state option) hbt" where
  "heartbeat_load subject_kind subject_id = py_bind (py_lift (heartbeat_subject_path subject_kind subject_id)) (\<lambda>path.
     py_gets (\<lambda>s. map_of (hb_store s) path))"

definition heartbeat_save :: "heartbeat_state \<Rightarrow> ('w, 'z, unit) hbt" where
  "heartbeat_save state = py_bind (py_lift (heartbeat_subject_path (hs_subject_kind state) (hs_subject_id state))) (\<lambda>path.
     py_modify (\<lambda>s. s\<lparr>hb_store := dict_set path state (hb_store s)\<rparr>))"

definition heartbeat_remove :: "string \<Rightarrow> string \<Rightarrow> ('w, 'z, unit) hbt" where
  "heartbeat_remove subject_kind subject_id = py_bind (py_lift (heartbeat_subject_path subject_kind subject_id)) (\<lambda>path.
     py_modify (\<lambda>s. s\<lparr>hb_store := dict_pop path (hb_store s)\<rparr>))"

definition heartbeat_list_all :: "string \<Rightarrow> ('w, 'z, heartbeat_state list) hbt" where
  "heartbeat_list_all subject_kind = py_bind (py_lift (heartbeat_subject_dir subject_kind)) (\<lambda>dir.
     py_gets (\<lambda>s. map snd (sort_key fst (filter (\<lambda>(path, _). take (length dir) path = dir) (hb_store s)))))"

section \<open>The service\<close>

definition DEFAULT_SUBJECT_KIND :: string where "DEFAULT_SUBJECT_KIND = ''job_progress''"
definition TRACKED_MESSAGE_TYPES :: "string list" where "TRACKED_MESSAGE_TYPES = [''ask'']"
definition DEFAULT_TERMINAL_NOTICE_COUNT :: int where "DEFAULT_TERMINAL_NOTICE_COUNT = 3"

text \<open>What the constructor keeps of its arguments\<close>
definition service_subject_kind :: "string \<Rightarrow> string" where
  "service_subject_kind subject_kind = (let k = py_strip (if subject_kind = [] then DEFAULT_SUBJECT_KIND else subject_kind) in
     if k = [] then DEFAULT_SUBJECT_KIND else k)"

definition service_notice_limit :: "int option \<Rightarrow> int option" where
  "service_notice_limit n = (case n of Some k \<Rightarrow> if k > 0 then Some k else None | None \<Rightarrow> None)"

definition should_track_heartbeat_job :: "job_record option \<Rightarrow> bool" where
  "should_track_heartbeat_job job = (case job of None \<Rightarrow> False
     | Some j \<Rightarrow> jr_status j = JS_RUNNING \<and> jr_target_kind j = TK_AGENT \<and>
         py_lower (py_strip (me_message_type (jr_request j))) \<in> set TRACKED_MESSAGE_TYPES)"

definition heartbeat_preview :: "completion_snapshot option \<Rightarrow> string" where
  "heartbeat_preview snapshot = (case snapshot of None \<Rightarrow> [] | Some s \<Rightarrow> py_strip (sn_latest_reply_preview s))"

definition snapshot_is_terminal :: "completion_snapshot option \<Rightarrow> bool" where
  "snapshot_is_terminal snapshot = (case snapshot of None \<Rightarrow> False
     | Some s \<Rightarrow> st_terminal (sn_state s) \<or> de_terminal (sn_latest_decision s))"

definition format_silence :: "rat \<Rightarrow> string" where
  "format_silence value = show_int (round_half_even value) @ ''s''"

definition heartbeat_task_id :: "job_record \<Rightarrow> string" where
  "heartbeat_task_id job = py_strip (str_or_empty (me_task_id (jr_request job)))"

definition heartbeat_notice_body :: "job_record \<Rightarrow> heartbeat_decision \<Rightarrow> completion_snapshot option \<Rightarrow> string" where
  "heartbeat_notice_body job decision snapshot =
     (let line = ''CCB_HEARTBEAT from='' @ jr_agent_name job @ '' job='' @ jr_job_id job @ '' notice='' @
            show_int (hd_notice_count decision) @ '' silent_for='' @ format_silence (hd_silence_seconds decision) @
            '' last_progress='' @ hd_last_progress_at decision;
          task_id = heartbeat_task_id job;
          preview = heartbeat_preview snapshot
      in py_rstrip (join ''\<newline>'' ((if task_id \<noteq> [] then line @ '' task='' @ task_id else line) #
        (if preview \<noteq> [] then [[], preview] else []))))"

definition heartbeat_timeout_body :: "job_record \<Rightarrow> heartbeat_decision \<Rightarrow> string" where
  "heartbeat_timeout_body job decision =
     ''Task stopped after '' @ show_int (hd_notice_count decision) @ '' no-progress heartbeat intervals for '' @
     jr_agent_name job @ '' (job='' @ jr_job_id job @ ''). The target agent accepted the task but '' @
     ''produced no reliable progress or completion signal. Before sending another '' @
     ''large task, send a small communication test to this agent first.''"

text \<open>\<open>round(x, 3)\<close>\<close>
definition round_millis :: "rat \<Rightarrow> rat" where
  "round_millis x = of_int (round_half_even (1000 * x)) / 1000"

definition heartbeat_timeout_decision :: "(rat \<Rightarrow> string) \<Rightarrow> job_record \<Rightarrow> heartbeat_decision \<Rightarrow> completion_snapshot option \<Rightarrow>
    string \<Rightarrow> completion_decision result" where
  "heartbeat_timeout_decision show_float job decision snapshot finished_at = (let st = map_option sn_state snapshot in
     CompletionDecision \<lparr>de_terminal = True, de_status = CS_INCOMPLETE, de_reason = Some ''heartbeat_timeout'',
       de_confidence = Some CC_DEGRADED, de_reply = heartbeat_timeout_body job decision,
       de_anchor_seen = state_flag st_anchor_seen st, de_reply_started = state_flag st_reply_started st,
       de_reply_stable = state_flag st_reply_stable st,
       de_provider_turn_ref = text_or (state_value st_provider_turn_ref st) (Some (jr_job_id job)),
       de_source_cursor = state_value st_latest_cursor st, de_finished_at = Some finished_at,
       de_diagnostics = [(''heartbeat_timeout'', JBool True), (''heartbeat_notice_count'', JInt (hd_notice_count decision)),
         (''heartbeat_silence_seconds'', JFloat (round_millis (hd_silence_seconds decision))
            (show_float (round_millis (hd_silence_seconds decision)))),
         (''last_progress_at'', JStr (hd_last_progress_at decision))]\<rparr>)"

definition heartbeat_diagnostics :: "(rat \<Rightarrow> string) \<Rightarrow> job_record \<Rightarrow> heartbeat_decision \<Rightarrow> completion_snapshot option \<Rightarrow>
    string option \<Rightarrow> string \<Rightarrow> payload" where
  "heartbeat_diagnostics show_float job decision snapshot mailbox_target subject_kind =
     [(''notice'', JBool True), (''notice_kind'', JStr ''heartbeat''), (''heartbeat_subject_kind'', JStr subject_kind),
      (''heartbeat_action'', JStr (heartbeat_action_value (hd_action decision))),
      (''heartbeat_notice_count'', JInt (hd_notice_count decision)),
      (''heartbeat_silence_seconds'', JFloat (round_millis (hd_silence_seconds decision))
         (show_float (round_millis (hd_silence_seconds decision)))),
      (''last_progress_at'', JStr (hd_last_progress_at decision)), (''job_id'', JStr (jr_job_id job)),
      (''task_id'', jopt (str_or_none (heartbeat_task_id job))), (''caller_actor'', JStr (me_from_actor (jr_request job))),
      (''caller_mailbox'', jopt mailbox_target)] @
     (if heartbeat_preview snapshot \<noteq> [] then [(''reply_preview'', JStr (heartbeat_preview snapshot))] else [])"

section \<open>One job\<close>

record heartbeat_tick_context =
  hc_snapshot :: "completion_snapshot option"
  hc_observed_last_progress_at :: string
  hc_now :: string
  hc_next_state :: heartbeat_state
  hc_decision :: heartbeat_decision

definition observed_last_progress_at :: "job_record \<Rightarrow> completion_snapshot option \<Rightarrow> string" where
  "observed_last_progress_at job snapshot = (case snapshot of
       Some s \<Rightarrow> if py_strip (sn_updated_at s) \<noteq> [] then py_strip (sn_updated_at s) else py_strip (jr_updated_at job)
     | None \<Rightarrow> py_strip (jr_updated_at job))"

definition build_heartbeat_tick_context :: "job_record \<Rightarrow> ('w, 'z, heartbeat_tick_context option) hbt" where
  "build_heartbeat_tick_context job = py_bind (snapshot_load (jr_job_id job)) (\<lambda>snapshot.
     py_bind (py_gets hb_subject_kind) (\<lambda>subject_kind.
     if snapshot_is_terminal snapshot then py_then (heartbeat_remove subject_kind (jr_job_id job)) (py_return None)
     else let observed = observed_last_progress_at job snapshot in
       if observed = [] then py_return None
       else py_bind (heartbeat_load subject_kind (jr_job_id job)) (\<lambda>prior.
         py_bind read_clock (\<lambda>now.
         py_bind (py_gets hb_policy) (\<lambda>policy.
         py_bind (py_lift (evaluate_heartbeat policy subject_kind (jr_job_id job) (jr_agent_name job) observed now prior))
           (\<lambda>(next_state, decision).
         py_return (Some \<lparr>hc_snapshot = snapshot, hc_observed_last_progress_at = observed, hc_now = now,
           hc_next_state = next_state, hc_decision = decision\<rparr>)))))))"

definition handle_reset_heartbeat :: "job_record \<Rightarrow> heartbeat_tick_context \<Rightarrow> ('w, 'z, bool) hbt" where
  "handle_reset_heartbeat job context = py_then (heartbeat_save (hc_next_state context)) (
     py_bind (py_gets hb_subject_kind) (\<lambda>subject_kind.
     py_then (append_event job ''job_heartbeat_reset''
       [(''subject_kind'', JStr subject_kind), (''action'', JStr (heartbeat_action_value (hd_action (hc_decision context)))),
        (''notice_count'', JInt (hd_notice_count (hc_decision context))),
        (''last_progress_at'', JStr (hd_last_progress_at (hc_decision context)))] (hc_now context)) (
     py_return True)))"

definition heartbeat_timeout_due :: "int option \<Rightarrow> heartbeat_tick_context \<Rightarrow> bool" where
  "heartbeat_timeout_due limit context = (case limit of None \<Rightarrow> False | Some n \<Rightarrow> hd_notice_count (hc_decision context) \<ge> n)"

text \<open>The diagnostics of a notice, with the caller's mailbox\<close>
definition notice_diagnostics :: "job_record \<Rightarrow> heartbeat_tick_context \<Rightarrow> ('w, 'z, payload) hbt" where
  "notice_diagnostics job context = py_bind config_agents (\<lambda>agents.
     py_bind (py_lift (known_mailbox_targets agents)) (\<lambda>known.
     py_gets (\<lambda>s. heartbeat_diagnostics (ex_show_float s) job (hc_decision context) (hc_snapshot context)
       (normalize_mailbox_target (Some (me_from_actor (jr_request job))) known) (hb_subject_kind s))))"

definition record_internal_heartbeat :: "job_record \<Rightarrow> heartbeat_tick_context \<Rightarrow> ('w, 'z, bool) hbt" where
  "record_internal_heartbeat job context = py_bind (notice_diagnostics job context) (\<lambda>diagnostics.
     py_then (heartbeat_save (hc_next_state context)) (
     py_then (append_event job ''job_heartbeat_observed'' diagnostics (hc_now context)) (
     py_return True)))"

definition terminalize_heartbeat_timeout :: "nat \<Rightarrow> job_record \<Rightarrow> heartbeat_tick_context \<Rightarrow> ('w, 'z, bool) hbt" where
  "terminalize_heartbeat_timeout depth job context = py_bind (py_gets hb_subject_kind) (\<lambda>subject_kind.
     py_bind (notice_diagnostics job context) (\<lambda>diagnostics.
     py_then (heartbeat_save (hc_next_state context)) (
     py_then (append_event job ''job_heartbeat_timeout'' diagnostics (hc_now context)) (
     py_bind (py_gets ex_show_float) (\<lambda>show_float.
     py_bind (py_lift (heartbeat_timeout_decision show_float job (hc_decision context) (hc_snapshot context) (hc_now context))) (\<lambda>decision.
     py_then (complete_job depth (jr_job_id job) decision) (
     py_then (heartbeat_remove subject_kind (jr_job_id job)) (
     py_return False))))))))"

definition tick_job_heartbeat :: "nat \<Rightarrow> job_record \<Rightarrow> ('w, 'z, bool) hbt" where
  "tick_job_heartbeat depth job = py_bind (build_heartbeat_tick_context job) (\<lambda>context. case context of
       None \<Rightarrow> py_return False
     | Some c \<Rightarrow>
         if hd_action (hc_decision c) = HB_RESET then handle_reset_heartbeat job c
         else if \<not> notice_due (hc_decision c) then py_return True
         else py_bind (py_gets hb_terminal_notice_count) (\<lambda>limit.
           if heartbeat_timeout_due limit c then terminalize_heartbeat_timeout depth job c
           else record_internal_heartbeat job c))"

section \<open>The tick of the service\<close>

text \<open>The jobs that were active at the start, each looked up when its turn comes; the answer is the ids still tracked\<close>
fun tick_tracked_jobs :: "nat \<Rightarrow> string list \<Rightarrow> ('w, 'z, string list) hbt" where
  "tick_tracked_jobs depth [] = py_return []"
| "tick_tracked_jobs depth (job_id # rest) = py_bind (get_job job_id) (\<lambda>job.
     py_bind (case job of None \<Rightarrow> py_return []
       | Some j \<Rightarrow> if \<not> should_track_heartbeat_job (Some j) then py_return []
           else py_bind (tick_job_heartbeat depth j) (\<lambda>tracked. py_return (if tracked then [jr_job_id j] else []))) (\<lambda>ids.
     py_bind (tick_tracked_jobs depth rest) (\<lambda>others. py_return (ids @ others))))"

fun remove_heartbeats :: "string list \<Rightarrow> heartbeat_state list \<Rightarrow> ('w, 'z, unit) hbt" where
  "remove_heartbeats active_job_ids [] = py_return ()"
| "remove_heartbeats active_job_ids (state # rest) =
     py_then (if hs_subject_id state \<in> set active_job_ids then py_return ()
       else heartbeat_remove (hs_subject_kind state) (hs_subject_id state)) (remove_heartbeats active_job_ids rest)"

definition cleanup_inactive_heartbeats :: "string list \<Rightarrow> ('w, 'z, unit) hbt" where
  "cleanup_inactive_heartbeats active_job_ids = py_bind (py_gets hb_subject_kind) (\<lambda>subject_kind.
     py_bind (heartbeat_list_all subject_kind) (remove_heartbeats active_job_ids))"

definition job_heartbeat_tick :: "nat \<Rightarrow> ('w, 'z, string list) hbt" where
  "job_heartbeat_tick depth =
     py_bind (py_gets (\<lambda>s. map (snd \<circ> snd) (active_items (dp_state s)))) (\<lambda>job_ids.
     py_bind (tick_tracked_jobs depth job_ids) (\<lambda>active_job_ids.
     py_then (cleanup_inactive_heartbeats active_job_ids) (
     py_return (sort (remdups active_job_ids)))))"

end
