(* ===== verification/Daemon_Heartbeat.thy ===== *)
theory Daemon_Heartbeat
  imports Daemon_Starts Job_Heartbeat
begin

text \<open>
  The job heartbeat service on the daemon: its tick keeps the daemon's invariant, and a job that makes no progress
  is ended when its notices have reached the limit.
\<close>

section \<open>The tick keeps the invariant\<close>

lemma heartbeat_store_frames [frame]:
  "quiet (heartbeat_load k i)" "quiet (heartbeat_save st)" "quiet (heartbeat_remove k i)" "quiet (heartbeat_list_all k)"
  unfolding heartbeat_load_def heartbeat_save_def heartbeat_remove_def heartbeat_list_all_def
  by (intro frame modify_quiet; simp add: handled_def)+

lemma heartbeat_frames [frame]:
  "quiet (build_heartbeat_tick_context job)" "quiet (handle_reset_heartbeat job c)" "quiet (notice_diagnostics job c)"
  "quiet (record_internal_heartbeat job c)"
  unfolding build_heartbeat_tick_context_def handle_reset_heartbeat_def notice_diagnostics_def record_internal_heartbeat_def
  by (intro frame)+

lemma remove_heartbeats_frame [frame]: "quiet (remove_heartbeats js sts)"
  by (induction sts; simp only: remove_heartbeats.simps; intro frame; assumption)

lemma cleanup_heartbeats_frame [frame]: "quiet (cleanup_inactive_heartbeats js)"
  unfolding cleanup_inactive_heartbeats_def by (intro frame)

lemma terminalize_keeps:
  "keeps False (\<lambda>s. started (dp_logs s) (jr_job_id job)) (terminalize_heartbeat_timeout depth job c)
     (\<lambda>tracked s. \<not> tracked \<and> is_over (jr_job_id job) s)"
  unfolding terminalize_heartbeat_timeout_def
  apply (rule keeps_bind_quiet, intro frame)
   apply (rule keeps_bind_quiet, intro frame)
    apply (rule keeps_then_quiet, intro frame)
     apply (rule keeps_then_quiet, intro frame)
      apply (rule keeps_bind_quiet, intro frame)
       apply (rule keeps_bind_quiet, intro frame)
        apply (rule daemon.triple_then [OF complete_job_keeps [rule_format]])
        apply (rule keeps_then_quiet, intro frame)
         apply (rule daemon.triple_return, simp)
        apply (erule (1) is_over_stable(1))
       apply (erule (1) started_stable(1))+
  done

lemma job_tick_keeps: "keeps False (\<lambda>s. started (dp_logs s) (jr_job_id job)) (tick_job_heartbeat depth job) (\<lambda>_ _. True)"
  unfolding tick_job_heartbeat_def
  apply (rule keeps_bind_quiet, intro frame)
   apply (rule daemon.triple_option, rule keeps_quiet_rest, intro frame)
   apply (rule daemon.triple_if, rule keeps_quiet_rest, intro frame)
   apply (rule daemon.triple_if, rule keeps_quiet_rest, intro frame)
   apply (rule keeps_bind_quiet, intro frame)
    apply (rule daemon.triple_if)
     apply (rule daemon.triple_conseq [OF terminalize_keeps], simp_all)
    apply (rule keeps_quiet_rest, intro frame)
   apply (erule (1) started_stable(1))+
  done

lemma tracked_running: "should_track_heartbeat_job (Some j) \<Longrightarrow> jr_status j = JS_RUNNING"
  by (simp add: should_track_heartbeat_job_def)

lemma tick_tracked_keeps: "keeps False (\<lambda>_. True) (tick_tracked_jobs depth js) (\<lambda>_ _. True)"
proof (induction js)
  case Nil
  show ?case by (simp only: tick_tracked_jobs.simps, rule keeps_quiet_rest, intro frame)
next
  case (Cons j js)
  have "keeps False (\<lambda>s. True \<and> (\<forall>r. x = Some r \<longrightarrow> current_row r s \<and> jr_job_id r = j)) (case x of None \<Rightarrow> py_return []
       | Some j \<Rightarrow> if \<not> should_track_heartbeat_job (Some j) then py_return []
           else py_bind (tick_job_heartbeat depth j) (\<lambda>tracked. py_return (if tracked then [jr_job_id j] else []))) (\<lambda>_ _. True)" for x
  proof (cases x)
    case None
    show ?thesis unfolding None option.case by (rule keeps_quiet_rest, intro frame)
  next
    case (Some c)
    show ?thesis
      unfolding Some option.case
      apply (rule daemon.triple_if, rule keeps_quiet_rest, intro frame)
      apply (rule keeps_bind_rest [OF daemon.triple_conseq [OF job_tick_keeps]])
         apply (auto intro!: current_running_started tracked_running frame)
      done
  qed
  then show ?case
    unfolding tick_tracked_jobs.simps
    by (intro daemon.triple_bind [OF get_job_keeps daemon.triple_bind [OF _ keeps_bind_rest [OF Cons.IH]]] frame) simp_all
qed

lemma heartbeat_tick_keeps: "keeps False (\<lambda>_. True) (job_heartbeat_tick depth) (\<lambda>_ _. True)"
  unfolding job_heartbeat_tick_def
  apply (rule keeps_bind_quiet, intro frame)
   apply (rule keeps_bind_rest [OF tick_tracked_keeps], intro frame)
  apply simp
  done

section \<open>Silent jobs\<close>

text \<open>What the tick sees of a running job whose completion is not on file\<close>
definition observes :: "('w, 'z) heartbeating_scheme \<Rightarrow> job_record \<Rightarrow> string \<Rightarrow> heartbeat_state option \<Rightarrow> heartbeat_state \<Rightarrow>
    heartbeat_decision \<Rightarrow> bool" where
  "observes s job path prior next_state decision \<longleftrightarrow>
     (let snapshot = map_of (cd_snapshots s) (jr_job_id job); observed = observed_last_progress_at job snapshot in
      \<not> snapshot_is_terminal snapshot \<and> observed \<noteq> [] \<and>
      heartbeat_subject_path (hb_subject_kind s) (jr_job_id job) = Inr path \<and> prior = map_of (hb_store s) path \<and>
      evaluate_heartbeat (hb_policy s) (hb_subject_kind s) (jr_job_id job) (jr_agent_name job) observed
        (ks_clock s (ks_tick s)) prior = Inr (next_state, decision))"

lemma observes_context:
  assumes "observes s job path prior next_state decision"
  shows "\<exists>c. build_heartbeat_tick_context job s = (Inr (Some c), s\<lparr>ks_tick := Suc (ks_tick s)\<rparr>) \<and>
    hc_next_state c = next_state \<and> hc_decision c = decision"
  using assms unfolding observes_def Let_def
  by (elim conjE) (simp add: Let_def build_heartbeat_tick_context_def snapshot_load_def heartbeat_load_def read_clock_def py_bind_def)

lemma evaluated_subject:
  assumes "evaluate_heartbeat p k i w observed now prior = Inr (st, d)"
  shows "hs_subject_kind st = k \<and> hs_subject_id st = i"
proof -
  have same: "hs_subject_kind y = hs_subject_kind x \<and> hs_subject_id y = hs_subject_id x"
    if "reset_state x a now = Inr y \<or> enter_state x now = Inr y \<or> repeat_state x now = Inr y \<or> HeartbeatState (x\<lparr>hs_last_progress_at := a\<rparr>) = Inr y"
    for x y a
    using that by (elim disjE) (simp_all add: reset_state_def enter_state_def repeat_state_def HeartbeatState_Inr)
  from assms obtain pr c b where b: "state_with_subject c k i w = Inr b"
    and rest: "(if progress_advanced pr (hs_last_progress_at c) \<and> heartbeat_active c
     then rbind (reset_state b pr now) (\<lambda>next_state. Inr (next_state, heartbeat_decide HB_RESET next_state 0))
     else
     rbind (HeartbeatState (b\<lparr>hs_last_progress_at := pr\<rparr>)) (\<lambda>base.
     let silence = silence_seconds pr now in
     if silence < hp_silence_start_after_s p then Inr (base, heartbeat_decide HB_IDLE base silence)
     else if should_enter_heartbeat base
     then rbind (enter_state base now) (\<lambda>next_state. Inr (next_state, heartbeat_decide HB_ENTER next_state silence))
     else if notice_limit_reached base p then Inr (base, heartbeat_decide HB_IDLE base silence)
     else if repeat_interval_not_elapsed base p now then Inr (base, heartbeat_decide HB_IDLE base silence)
     else rbind (repeat_state base now) (\<lambda>next_state. Inr (next_state, heartbeat_decide HB_REPEAT next_state silence)))) = Inr (st, d)"
    unfolding evaluate_heartbeat_def rbind_Inr_iff by blast
  from b have "hs_subject_kind b = k" "hs_subject_id b = i" by (simp_all add: state_with_subject_def HeartbeatState_Inr)
  moreover have "hs_subject_kind st = hs_subject_kind b \<and> hs_subject_id st = hs_subject_id b"
    using rest same unfolding Let_def rbind_Inr_iff by (auto simp: rbind_Inr_iff split: if_splits; metis)
  ultimately show ?thesis by simp
qed

lemma terminalize_removes:
  assumes "terminalize_heartbeat_timeout depth job c s = (Inr y, t)" "heartbeat_subject_path (hb_subject_kind s) (jr_job_id job) = Inr path"
  shows "map_of (hb_store t) path = None"
  using assms
  by (auto simp: terminalize_heartbeat_timeout_def py_bind_Inr_iff py_then_Inr_iff heartbeat_remove_def dict_pop_def map_of_eq_None_iff)

lemma record_stores:
  assumes "record_internal_heartbeat job c s = (Inr y, t)" "heartbeat_subject_path (hs_subject_kind (hc_next_state c)) (hs_subject_id (hc_next_state c)) = Inr path"
  shows "y \<and> map_of (hb_store t) path = Some (hc_next_state c)"
proof -
  have event: "hb_store t = hb_store s" if "append_event r ty pl time s = (x, t)" for r ty pl time x and s t :: "('w, 'z) heartbeating_scheme"
    using that by (auto simp: append_event_def py_bind_def new_id_def on_logs_def split: prod.splits sum.splits)
  show ?thesis
    using assms by (auto simp: record_internal_heartbeat_def py_bind_Inr_iff py_then_Inr_iff heartbeat_save_def notice_diagnostics_def dest: event)
qed


section \<open>A daemon to evaluate on\<close>

definition demo_catalog :: catalog where
  "demo_catalog = [(''codex'', \<lparr>pm_provider = ''codex'', pm_supports_resume = True, pm_supports_permission_auto = True,
     pm_supports_stream_watch = True, pm_supports_subagents = True, pm_supports_workspace_attach = True,
     pm_runtime_profiles = [(PANE_BACKED, \<lparr>cm_provider = ''codex'', cm_runtime_mode = ''pane-backed'', cm_completion_family = PROTOCOL_TURN,
       cm_completion_source_kind = SK_PROTOCOL_EVENT_STREAM, cm_supports_exact_completion = True, cm_supports_observed_completion = True,
       cm_supports_anchor_binding = True, cm_supports_reply_stability = True, cm_supports_terminal_reason = True,
       cm_selector_family = SF_FINAL_MESSAGE\<rparr>)]\<rparr>)]"

definition timed_job :: "string \<Rightarrow> job_status \<Rightarrow> job_record" where
  "timed_job i st = (demo_job i st)\<lparr>jr_updated_at := ''2025-12-31T23:00:00Z''\<rparr>"

definition demo_logs :: job_logs where
  "demo_logs = append_row (timed_job ''job_old'' JS_COMPLETED) (append_row (timed_job ''job_next'' JS_QUEUED)
     (append_row (timed_job ''job_run'' JS_RUNNING) empty_logs))"

definition demo_state :: dispatcher_state where
  "demo_state = (case rebuild [''agent1''] (new_dispatcher_state [''agent1'']) demo_logs of (Inr st, _) \<Rightarrow> st
     | (Inl _, _) \<Rightarrow> new_dispatcher_state [''agent1''])"

definition demo_daemon :: "unit heartbeating" where
  "demo_daemon = \<lparr>ks_mailboxes = \<lambda>_. None, ks_inboxes = \<lambda>_. [], ks_leases = \<lambda>_. None, ks_clock = demo_clock, ks_tick = 0,
     bs_messages = [], bs_attempts = [], bs_replies = [], bs_edges = [], bs_known_mailboxes = [''agent1''], bs_ids = demo_ids,
     bs_next_id = 0, ar_root = ''/r'', ar_files = [], ar_resolve = \<lambda>_ p. Some p,
     dp_logs = demo_logs, dp_state = demo_state, dp_registry = demo_registry, dp_has_runtime_service = False,
     dp_callback_timeout_s = None, dp_max_callback_depth = None, cd_catalog = demo_catalog, cd_snapshots = [], cd_tracker = None,
     fi_path = ''/f'', fi_file = None, ex_registry = [], ex_fault_injection = False, ex_env = \<lambda>_. None, ex_show_float = \<lambda>_. '''',
     ex_interrupt = \<lambda>_ w. w, ex_active = [], ex_runtime_contexts = [], ex_replays = [], ex_store = None, ex_world = (),
     dm_has_execution = False, dm_auto_reply_delivery = False, dm_require_actionable = False, dm_last_sweep_at = None,
     dm_workspace_path = \<lambda>a. ''/w/'' @ a, dm_ensure_ready = \<lambda>_. py_return None, dm_refresh_provider_binding = \<lambda>_. py_return None,
     hb_policy = \<lparr>hp_silence_start_after_s = 600, hp_repeat_interval_s = 600, hp_max_notice_count = None\<rparr>, hb_store = [],
     hb_subject_kind = DEFAULT_SUBJECT_KIND, hb_terminal_notice_count = Some DEFAULT_TERMINAL_NOTICE_COUNT\<rparr>"

definition user_request :: message_envelope where
  "user_request = demo_envelope\<lparr>me_route_options := []\<rparr>"

lemma demo_rows: "jl_jobs demo_logs a = (if a = ''agent1'' then
    [timed_job ''job_run'' JS_RUNNING, timed_job ''job_next'' JS_QUEUED, timed_job ''job_old'' JS_COMPLETED] else [])"
  by (simp add: demo_logs_def rows_append_row timed_job_def demo_job_def empty_logs_def)

lemma demo_logs_ok: "logs_ok [''agent1''] demo_logs"
proof -
  have "length (ids_with (\<lambda>st. st = JS_RUNNING) [timed_job ''job_run'' JS_RUNNING, timed_job ''job_next'' JS_QUEUED, timed_job ''job_old'' JS_COMPLETED]) \<le> 1"
    by code_simp
  moreover have "ids_with (\<lambda>st. st = JS_RUNNING) [] = []" by code_simp
  ultimately show ?thesis by (simp add: logs_ok_def logs_partitioned_def job_ids_unique_def demo_rows timed_job_def demo_job_def)
qed

lemma demo_name: "agent_name_ok ''agent1''"
  by code_simp

lemma demo_table: "table_ok [''agent1''] (demo_logs, demo_state)"
proof -
  obtain st where "rebuild [''agent1''] (new_dispatcher_state [''agent1'']) demo_logs = (Inr st, demo_logs)" "state_of_log [''agent1''] demo_logs st"
    using rebuild_state_of_log [of demo_logs "[''agent1'']" "new_dispatcher_state [''agent1'']"] demo_logs_ok demo_name
    by (auto simp: logs_ok_def)
  then show ?thesis using demo_logs_ok by (simp add: table_ok_def demo_state_def)
qed

lemma demo_daemon_ok: "daemon_ok demo_daemon"
proof -
  have agents: "agents_of demo_daemon = [''agent1'']" by (simp add: agents_of_def demo_daemon_def demo_registry_def)
  have "inj demo_ids" by (auto intro!: injI simp: demo_ids_def dest: arg_cong [of _ _ length])
  moreover have "\<not> logged_job demo_logs a (''job_'' @ demo_ids n)" for a n by (auto simp: logged_job_def demo_rows timed_job_def demo_job_def demo_ids_def split: if_splits)
  ultimately show ?thesis
    using demo_table demo_name unfolding daemon_ok_def agents
    by (simp add: demo_daemon_def services_ok_def handled_def nth_job_id_def)
qed

lemma record_returns:
  assumes "known_mailbox_targets (agents_of s) = Inr known" "heartbeat_subject_path (hs_subject_kind (hc_next_state c)) (hs_subject_id (hc_next_state c)) = Inr path"
    "agent_name_ok (jr_target_name job)" "jr_job_id job \<noteq> []"
  shows "\<exists>t. record_internal_heartbeat job c s = (Inr True, t)"
proof -
  let ?u = "s\<lparr>hb_store := dict_set path (hc_next_state c) (hb_store s)\<rparr>"
  obtain pl where "notice_diagnostics job c s = (Inr pl, s)"
    using assms(1) by (simp add: notice_diagnostics_def config_agents_def agents_of_def py_bind_def)
  moreover have "heartbeat_save (hc_next_state c) s = (Inr (), ?u)" using assms(2) by (simp add: heartbeat_save_def py_bind_def)
  moreover obtain t where "append_event job ''job_heartbeat_observed'' pl (hc_now c) ?u = (Inr (), t)"
    using append_event_returns [OF assms(3,4), of "''job_heartbeat_observed''"] by blast
  ultimately have "record_internal_heartbeat job c s = (Inr True, t)" by (simp add: record_internal_heartbeat_def)
  then show ?thesis ..
qed


end
