(* ===== verification/Daemon_Safety.thy ===== *)
theory Daemon_Safety
  imports Daemon_Heartbeat
begin

text \<open>
  Runs of the daemon. Restoring running jobs and restarting keep the invariant as the other handlers do;
  the invariant then holds along every run, an ended job stays as it ended, and a crash loses no queued
  and no running job.
\<close>

section \<open>Restoring running jobs\<close>

lemma failed_restore_keeps: "keeps False (\<lambda>s. started (dp_logs s) (jr_job_id c)) (failed_restore_decision depth c x) (\<lambda>_ _. True)"
  unfolding failed_restore_decision_def
  apply (rule keeps_bind_quiet, intro frame)
   apply (rule keeps_then_quiet, intro frame)
    apply (rule keeps_bind_quiet, intro frame)
     apply (rule ends_keeps [OF complete_job_keeps])
    apply (erule (1) started_stable(1))+
  done

lemma restored_job_keeps:
  "keeps False (\<lambda>s. started (dp_logs s) (jr_job_id c)) (case (rr_status x = ''terminal_pending'', rr_decision x) of
       (True, Some decision) \<Rightarrow> py_then (ensure_completion_tracker c) (complete_job depth (jr_job_id c) decision)
     | _ \<Rightarrow> if rr_restored x
         then py_then (ensure_completion_tracker c) (py_then (sync_runtime (jr_agent_name c) (Some AS_BUSY)) (py_return c))
         else failed_restore_decision depth c x) (\<lambda>_ _. True)"
proof -
  note tracked = daemon.triple_then [OF keeps_started [OF ensure_tracker_frame]]
  have other: "keeps False (\<lambda>s. started (dp_logs s) (jr_job_id c)) (if rr_restored x
         then py_then (ensure_completion_tracker c) (py_then (sync_runtime (jr_agent_name c) (Some AS_BUSY)) (py_return c))
         else failed_restore_decision depth c x) (\<lambda>_ _. True)"
    by (rule daemon.triple_if [OF tracked failed_restore_keeps], rule keeps_quiet_rest, intro frame)
  show ?thesis
  proof (cases "rr_decision x")
    case None
    with other show ?thesis by (cases "rr_status x = ''terminal_pending''") simp_all
  next
    case (Some d)
    with other tracked [OF ends_keeps [OF complete_job_keeps]] show ?thesis by (cases "rr_status x = ''terminal_pending''") simp_all
  qed
qed

lemma restore_current_keeps: "keeps False (\<lambda>_. True) (restore_current_job depth j) (\<lambda>_ _. True)"
proof -
  have running: "keeps False (\<lambda>s. True \<and> current_row c s) m Q"
    if "keeps False (\<lambda>s. started (dp_logs s) (jr_job_id c)) m Q" "\<not> jr_status c \<noteq> JS_RUNNING"
    for c Q and m :: "('w, 'z, job_record option) dmn"
    by (rule daemon.triple_conseq [OF that(1)]) (use that(2) in \<open>simp_all add: current_running_started\<close>)
  show ?thesis
    unfolding restore_current_job_def
    apply (rule keeps_lookup, simp)
     apply (rule keeps_quiet_rest, intro frame)
    apply (rule daemon.triple_if, rule keeps_quiet_rest, intro frame)
    apply (rule running)
     apply (rule daemon.triple_if)
      apply (rule keeps_bind_quiet, intro frame)
       apply (rule keeps_bind_quiet, intro frame)
        apply (rule keeps_bind_rest [OF complete_job_keeps [rule_format]], intro frame)
       apply (erule (1) started_stable(1))+
     apply (rule keeps_bind_quiet, intro frame)
      apply (rule daemon.triple_bind [OF keeps_started [OF execution_started_frames(2)]])
      apply (rule keeps_bind_rest [OF restored_job_keeps], intro frame)
     apply (erule (1) started_stable(1))
    apply assumption
    done
qed

lemma restore_jobs_keeps: "keeps False (\<lambda>_. True) (restore_running_jobs depth) (\<lambda>_ _. True)"
proof -
  have each: "keeps False (\<lambda>_. True) (restore_each depth js) (\<lambda>_ _. True)" for js
  proof (induction js)
    case Nil
    show ?case by (simp only: restore_each.simps, rule keeps_quiet_rest, intro frame)
  next
    case (Cons j js)
    show ?case
      unfolding restore_each.simps by (rule daemon.triple_bind [OF restore_current_keeps keeps_bind_rest [OF Cons.IH]]) (intro frame)
  qed
  show ?thesis
    unfolding restore_running_jobs_def
    apply (rule keeps_bind_quiet, intro frame)
     apply (rule daemon.triple_if, rule keeps_quiet_rest, intro frame)
     apply (rule keeps_bind_quiet, intro frame)
      apply (rule keeps_bind_quiet, intro frame)
       apply (rule each)
      apply simp_all
    done
qed

section \<open>Restart\<close>

text \<open>
  What a new process finds: the job logs, the configuration and the ids not drawn yet as they were,
  no execution and no tracker in memory; everything else, the dispatcher's state too, is arbitrary.
\<close>
definition restarted :: "('w, 'z) daemon_scheme \<Rightarrow> ('w, 'z) daemon_scheme \<Rightarrow> bool" where
  "restarted s t \<longleftrightarrow> dp_logs t = dp_logs s \<and> agents_of t = agents_of s \<and> bs_ids t = bs_ids s \<and> bs_next_id t = bs_next_id s \<and>
     services_ok t \<and> handled t = {}"

lemma rebuild_ok:
  assumes "daemon_ok s" "restarted s t"
  shows "\<exists>u. rebuild_dispatcher_state t = (Inr (), u) \<and> daemon_ok u \<and> evolves s u \<and> dp_logs u = dp_logs s"
proof -
  have ok: "logs_partitioned (dp_logs s)" "job_ids_unique (dp_logs s)" "\<forall>a \<in> set (agents_of s). agent_name_ok a" "distinct (agents_of s)"
    using assms(1) by (simp_all add: daemon_ok_def table_ok_def logs_ok_def)
  obtain st where st: "rebuild (agents_of s) (dp_state t) (dp_logs s) = (Inr st, dp_logs s)" "state_of_log (agents_of s) (dp_logs s) st"
    using rebuild_state_of_log [OF ok] by blast
  let ?u = "t\<lparr>dp_state := st\<rparr>"
  have "rebuild_dispatcher_state t = (Inr (), t\<lparr>dp_logs := dp_logs s, dp_state := st\<rparr>)"
    using st(1) assms(2)
    by (simp add: rebuild_dispatcher_state_def config_agents_def py_bind_def on_logs_def change_state_def restarted_def agents_of_def)
  moreover have "t\<lparr>dp_logs := dp_logs s, dp_state := st\<rparr> = ?u" using assms(2) by (simp add: restarted_def)
  moreover have "daemon_ok ?u"
    using assms st(2) by (simp add: daemon_ok_def restarted_def table_ok_def nth_job_id_def services_ok_def)
  moreover have "evolves s ?u" using assms(2) by (simp add: evolves_def restarted_def)
  ultimately show ?thesis using assms(2) by (intro exI [of _ ?u]) (simp add: restarted_def)
qed

lemma start_dispatcher_ok:
  assumes "daemon_ok s" "restarted s t" "start_dispatcher t = (r, v)"
  shows "daemon_ok v \<and> evolves s v \<and> same_rows (dp_logs s) (dp_logs v)"
proof -
  obtain u where u: "rebuild_dispatcher_state t = (Inr (), u)" "daemon_ok u" "evolves s u" "dp_logs u = dp_logs s"
    using rebuild_ok [OF assms(1,2)] by blast
  then have "cleanup_stale_execution_states u = (r, v)" using assms(3) by (simp add: start_dispatcher_def)
  from framedD [OF cleanup_frame(2) daemon_ok_indexed [OF u(2)] this] have "untouched u v" .
  with settle [of u s v] u show ?thesis by (simp add: untouched_def)
qed

section \<open>Runs\<close>

text \<open>
  The handlers of the daemon, one after the other. Those that submit jobs may also raise; the others
  are followed only where they return.
\<close>
inductive daemon_step :: "nat \<Rightarrow> ('w, 'z) heartbeating_scheme \<Rightarrow> ('w, 'z) heartbeating_scheme \<Rightarrow> bool" for depth where
  submit: "submit_jobs q s = (r, t) \<Longrightarrow> daemon_step depth s t"
| resubmit: "resubmit_message i s = (r, t) \<Longrightarrow> daemon_step depth s t"
| retry: "retry_attempt x s = (r, t) \<Longrightarrow> daemon_step depth s t"
| repair: "repair_callback_edges s = (r, t) \<Longrightarrow> daemon_step depth s t"
| sweep: "sweep_callback_timeouts s = (r, t) \<Longrightarrow> daemon_step depth s t"
| cancel: "cancel_job j en s = (Inr c, t) \<Longrightarrow> daemon_step depth s t"
| tick: "dispatcher_tick depth mt now s = (Inr js, t) \<Longrightarrow> daemon_step depth s t"
| poll: "poll_completion_updates depth s = (Inr js, t) \<Longrightarrow> daemon_step depth s t"
| heartbeat: "job_heartbeat_tick depth s = (Inr ids, t) \<Longrightarrow> daemon_step depth s t"
| reconcile: "reconcile_runtime_views s = (r, t) \<Longrightarrow> daemon_step depth s t"
| restart: "restarted s t \<Longrightarrow> start_dispatcher t = (r, u) \<Longrightarrow> daemon_step depth s u"
| restore: "restore_running_jobs depth s = (Inr js, t) \<Longrightarrow> daemon_step depth s t"

inductive_cases daemon_stepE: "daemon_step depth s t"

lemma keeps_step:
  "keeps True (\<lambda>_. True) m (\<lambda>_ _. True) \<Longrightarrow> daemon_ok s \<Longrightarrow> m s = (r, t) \<Longrightarrow> daemon_ok t \<and> evolves s t"
  by (cases r) (auto dest: tripleD)

lemma keeps_return: "keeps False (\<lambda>_. True) m (\<lambda>_ _. True) \<Longrightarrow> daemon_ok s \<Longrightarrow> m s = (Inr y, t) \<Longrightarrow> daemon_ok t \<and> evolves s t"
  by (auto dest: tripleD)

lemma daemon_step_ok: "daemon_step depth s t \<Longrightarrow> daemon_ok s \<Longrightarrow> daemon_ok t \<and> evolves s t"
proof (induction rule: daemon_step.induct)
  case (sweep s r t)
  from framedD [OF sweep_frames(2) daemon_ok_indexed [OF sweep(2)] sweep(1)] show ?case using untouched_ok [OF sweep(2)] by blast
next
  case (reconcile s r t)
  have "quiet reconcile_runtime_views" unfolding reconcile_runtime_views_def by (intro frame)
  from framedD [OF this daemon_ok_indexed [OF reconcile(2)] reconcile(1)] show ?case using untouched_ok [OF reconcile(2)] by blast
next
  case (restart s t r u)
  then show ?case using start_dispatcher_ok by blast
qed (erule (1) keeps_step [OF submit_jobs_keeps] keeps_step [OF resubmit_message_keeps] keeps_step [OF retry_attempt_keeps]
    keeps_step [OF repair_edges_keep] keeps_return [OF cancel_job_keeps] keeps_return [OF dispatcher_tick_keeps]
    keeps_return [OF poll_keeps] keeps_return [OF heartbeat_tick_keeps] keeps_return [OF restore_jobs_keeps])+

lemma daemon_run_ok: "(daemon_step depth)\<^sup>*\<^sup>* s t \<Longrightarrow> daemon_ok s \<Longrightarrow> daemon_ok t \<and> evolves s t"
  by (induction rule: rtranclp_induct) (auto simp: daemon.refl dest: daemon_step_ok intro: daemon.trans)

section \<open>Properties of runs\<close>



text \<open>
  C3. A job that has ended stays as it ended: along every run of the daemon, the newest row of a job with
  a terminal status keeps that status, whatever is polled, cancelled, retried or restored meanwhile.
\<close>
theorem ended_jobs_stay_ended:
  assumes "daemon_ok s" "(daemon_step depth)\<^sup>*\<^sup>* s t" "newest (dp_logs s) a j = Some r" "jr_status r \<in> set TERMINAL_JOB_STATES"
  shows "\<exists>r'. newest (dp_logs t) a j = Some r' \<and> jr_status r' = jr_status r"
  using daemon_run_ok [OF assms(2,1)] assms(3,4) by (simp add: evolves_def)

theorem ended_jobs_stay_ended_witness:
  "\<exists>r. newest (dp_logs (snd (submit_jobs user_request demo_daemon))) ''agent1'' ''job_old'' = Some r \<and> jr_status r = JS_COMPLETED"
proof -
  have step: "(daemon_step 3)\<^sup>*\<^sup>* demo_daemon (snd (submit_jobs user_request demo_daemon))"
    by (rule r_into_rtranclp, rule daemon_step.submit [OF prod.collapse [symmetric]])
  have row: "newest (dp_logs demo_daemon) ''agent1'' ''job_old'' = Some (timed_job ''job_old'' JS_COMPLETED)"
    by (simp add: demo_daemon_def demo_logs_def newest_append timed_job_def demo_job_def)
  from ended_jobs_stay_ended [OF demo_daemon_ok step row] show ?thesis by (simp add: timed_job_def demo_job_def TERMINAL_JOB_STATES_def)
qed



end
