(* ===== verification/Spec2Isabelle.thy ===== *)
theory Spec2Isabelle
  imports Control_Properties Completion_Tracker Daemon_Safety
begin

text \<open>
  \<^bold>\<open>The program.\<close> CCB runs several command line agents (Codex, Claude, Gemini and others) in terminal panes and
  lets them and their user send each other tasks. A daemon, \<open>ccbd\<close>, accepts a request (\<open>ask\<close>), turns it into
  one job per target agent, types the job into the agent's pane, watches the agent's logs until the answer is
  there, and carries the answer back to the sender. This development models the part of \<open>src/lib\<close> that decides
  what happens to a request: names, mailboxes, messages, jobs, executions, completion, retries, callbacks,
  replies, heartbeats and what survives a restart. Paths below are relative to \<open>src/lib\<close>.

  \<^bold>\<open>How the parts interact.\<close> The dispatcher (\<open>ccbd/services/dispatcher_runtime\<close>) is the centre. On a submission it
  appends a row to the job log, enqueues the job in memory and tells the message bureau, which records a message
  with one attempt per job and puts a task request into the mailbox of the agent. The mailbox kernel keeps each
  mailbox as a log of event rows with a lease and a derived summary; the head of a mailbox is the only event that
  may be claimed. On a tick the dispatcher starts the job at the head of the mailbox of an idle agent and hands it
  to the execution service, whose adapter drives the pane. On a poll the adapter's items go to the completion
  tracker, whose detector decides when the answer is complete; the dispatcher then writes the terminal row, ends
  the attempt, and retries, replies to the sender's mailbox or continues the parent of a callback. A reply at the
  head of an agent's mailbox becomes a delivery job of its own. After a restart the queues, the running jobs and
  the index are rebuilt from the job log and executions are restored from their files.

  \<^bold>\<open>Conventions.\<close> A Python class with fields is a record, an enum a datatype with the source's members, a \<open>dict\<close> an
  association list in insertion order, a \<open>str\<close> a list of Latin-1 characters, an \<open>int\<close> an integer, a \<open>float\<close> a
  rational. \<open>Prelude\<close> has the exceptions, results (\<open>'a result\<close>) and stateful computations that may raise
  (\<open>('s, 'a) py\<close>): a raise keeps the changes made before it. A constructor's checks are a function with the name
  of the class (\<open>JobRecord\<close>, \<open>CompletionDecision\<close>). State is passed explicitly; the state of a part extends the record
  of the parts it calls: \<open>kernel_state\<close>, \<open>bureau_state\<close>, \<open>artifact_state\<close>, \<open>dispatcher\<close>, \<open>completing\<close>, \<open>faulting\<close>,
  \<open>executing\<close>, \<open>daemon\<close>, \<open>heartbeating\<close>, so that an operation of a lower part runs unchanged on the state of a higher one. The clock
  is a sequence of readings and \<open>uuid4\<close> a supply of suffixes in that state.

  \<^bold>\<open>Theories and sources.\<close>
  \<^item> \<open>Prelude\<close>, \<open>Json_Values\<close>, \<open>Codecs\<close>: shared vocabulary, JSON values with Python's conversions, and the locales
    \<open>enum_codec\<close> and \<open>record_codec\<close> behind every stored record, interpreted for each record of the model.
  \<^item> \<open>Agent_Names\<close>: \<open>agents/models_runtime/names.py\<close>, \<open>mailbox_runtime/targets.py\<close>.
  \<^item> \<open>Mailbox_Models\<close>, \<open>Mailbox_Kernel\<close>, \<open>Mailbox_Transitions\<close>: \<open>mailbox_kernel\<close>. \<open>Mailbox_Invariants\<close> and
    \<open>Mailbox_Preservation\<close> prove its invariant, \<open>Mailbox_Queue\<close> that it implements an abstract queue with one
    delivery at a time (\<open>Refinement\<close> has the locale for such proofs), \<open>Control_Properties\<close> the control service.
  \<^item> \<open>Timestamps\<close>, \<open>Sha256\<close>: \<open>datetime.fromisoformat\<close>, \<open>isoformat\<close> and SHA-256 as the completion code uses them.
  \<^item> \<open>Completion_Models\<close>, \<open>Completion_Detectors\<close>, \<open>Completion_Tracker\<close>: \<open>completion\<close>, with the five detectors, reply
    selection and the tracker service.
  \<^item> \<open>Jobs\<close>: \<open>ccbd/api_models_runtime\<close> and the job stores. \<open>Heartbeat\<close>: \<open>heartbeat\<close>. \<open>Job_Heartbeat\<close>:
    \<open>ccbd/services/job_heartbeat_runtime\<close> and the store of heartbeat states.
  \<^item> \<open>Bureau_Models\<close>, \<open>Bureau_Payloads\<close>, \<open>Bureau_State\<close>, \<open>Bureau_Control\<close>: \<open>message_bureau\<close>; \<open>Bureau_Invariants\<close> and
    \<open>Bureau_Properties\<close> prove its invariant and what happens to a message from submission to answer.
  \<^item> \<open>Agent_Runtimes\<close>: \<open>agents/models_runtime/runtime_runtime\<close> and \<open>ccbd/services/registry.py\<close>. \<open>Text_Artifacts\<close>:
    \<open>storage/text_artifacts.py\<close>.
  \<^item> \<open>Dispatcher_State\<close>, \<open>Dispatcher_Base\<close>, \<open>Dispatcher_Callbacks\<close>, \<open>Dispatcher_Submission\<close>: the dispatcher's memory, its
    records and routing, callback requests, and the three ways a job enters. \<open>Dispatcher_Recovery\<close>: the life of a job as
    a step relation and the recovery of the memory from the log.
  \<^item> \<open>Retry_Policy\<close>, \<open>Fault_Injection\<close>, \<open>Provider_Execution\<close>: \<open>provider_core/catalog.py\<close>, \<open>finalization_retry_runtime\<close>,
    \<open>fault_injection\<close>, \<open>provider_execution\<close>.
  \<^item> \<open>Dispatcher_Completion\<close>, \<open>Callback_Continuations\<close>, \<open>Reply_Delivery\<close>, \<open>Dispatcher_Finalization\<close>,
    \<open>Dispatcher_Lifecycle\<close>: how a job ends, callbacks continue, replies are delivered, jobs start, are polled and
    are restored.
  \<^item> \<open>Frame_Rules\<close>: a logic of frames and of triples for stateful computations, the locales \<open>framing\<close> and \<open>evolution\<close>.
    \<open>Daemon_Frames\<close>: what each operation leaves alone. \<open>Daemon_Invariant\<close>: the invariant of the whole daemon, the
    agreement of memory and log. \<open>Daemon_Handlers\<close> (submissions, retries, continuations, deliveries), \<open>Daemon_Endings\<close>
    (completion, cancellation), \<open>Daemon_Starts\<close> (ticks, polls), \<open>Daemon_Heartbeat\<close> (the heartbeat service) and \<open>Daemon_Safety\<close> (restart, runs of the daemon): every
    handler keeps it.

  \<^bold>\<open>What the lemmas show.\<close> Every record round-trips through its codec. The kernel's summary is always what its log
  says, a mailbox is a first-in first-out queue with at most one delivery in flight, a settled event stays settled
  and lease versions grow. The bureau keeps its invariant under every operation; an ask is answered in the sender's
  mailbox; a finished message has no active attempt. Detectors decide, time out and settle exactly when they should,
  and the tracker reports the best reply. Heartbeat notices are bounded, a silent subject is noticed, and
  a running job that stays silent is ended by the heartbeat service. The registry
  protects authority fields. A spilled text can be read back unchanged or is refused. A restart recovers the queues,
  the running jobs and the index. Along every run of the daemon's handlers the queues and running jobs in memory
  agree with the job log, an agent runs at most one job, an ended job keeps its status, and a crash loses no
  job. The handlers that submit jobs keep that agreement also when they raise; ticks, polls, heartbeats,
  cancellations and restorations are followed where they return, since an error in the middle of them leaves the log a row ahead of
  the memory. The shutdown, which swallows such errors, is modelled and not part of these runs.

  \<^bold>\<open>Bounds and fuel.\<close> \<open>complete_job\<close> takes the interpreter's recursion limit as its first argument: with automatic
  delivery it prepares deliveries, which may end other jobs; every nested call ends another running job, so that the
  number of configured agents bounds the depth. \<open>discard_stale_head_events\<close> is called with one more than the rows of the
  mailbox; each round settles one event, and the fuel is proved to be enough. The walk up a callback chain (\<open>chain_from\<close>) is proved terminating by the messages not yet seen.

  \<^bold>\<open>Parameters.\<close> The adapters of the providers are records of functions on an outer world of any type, as are
  \<open>ensure_ready\<close> and \<open>refresh_provider_binding\<close> of the runtime service, which start and probe panes; the path layout's
  workspace, \<open>float()\<close> of display fields, path resolution, decoding of arbitrary bytes, file times and environment
  values are arguments of the definitions that use them.

  \<^bold>\<open>Not modelled.\<close> Input and output themselves: sockets and request handlers, files below the typed rows of the
  stores, processes, tmux and terminal panes, the provider back ends and the files written for them, the command
  line and its rendering, configuration files, project discovery, the project view and the other read-only
  reports. Their behaviour is that of the operating system or of third-party programs, and none of it changes the
  state that is modelled except through the operations above. The daemon's two worker threads: an operation of
  the model runs without another one in between.
\<close>

end
